(* ===== verification/Js_Base.thy ===== *)
theory Js_Base
  imports Main "HOL-Library.Char_ord" "HOL-Library.List_Lexorder" "HOL-Library.Sublist"
begin

text \<open>
  The prelude of the development: the fragment of the ECMAScript string library that the
  TypeScript sources use, with the generic lemmas on strings, separators and codecs that the
  components share.

  A JavaScript string is a sequence of UTF-16 code units.  It is modelled by a
  \<^typ>\<open>string\<close>, so the model covers exactly the strings whose code units lie below 256
  (Latin-1); on those, every function below returns what ECMAScript returns, including the
  lower-casing of the accented letters and the trimming of the no-break space.
\<close>

named_theorems js_defs \<open>unfolding of the small string-library wrappers\<close>

type_synonym js_string = string

section \<open>Characters\<close>

abbreviation code :: "char \<Rightarrow> nat" where
  "code c \<equiv> of_char c"

lemma code_char_of_small: "n < 256 \<Longrightarrow> code (char_of (n::nat)) = n"
  by simp

lemma code_inject: "(code c :: nat) = code d \<longleftrightarrow> c = d"
  by simp

definition is_digit :: "char \<Rightarrow> bool" where
  "is_digit c \<longleftrightarrow> 48 \<le> code c \<and> code c \<le> 57"

definition is_upper :: "char \<Rightarrow> bool" where
  "is_upper c \<longleftrightarrow> 65 \<le> code c \<and> code c \<le> 90"

definition is_lower :: "char \<Rightarrow> bool" where
  "is_lower c \<longleftrightarrow> 97 \<le> code c \<and> code c \<le> 122"

definition is_alnum :: "char \<Rightarrow> bool" where
  "is_alnum c \<longleftrightarrow> is_digit c \<or> is_upper c \<or> is_lower c"

text \<open>WhiteSpace and LineTerminator of ECMAScript within Latin-1.\<close>

definition is_space :: "char \<Rightarrow> bool" where
  "is_space c \<longleftrightarrow> (9 \<le> code c \<and> code c \<le> 13) \<or> code c = 32 \<or> code c = 160"

lemmas char_class_defs = is_digit_def is_upper_def is_lower_def is_alnum_def is_space_def

section \<open>String methods\<close>

definition js_trim :: "js_string \<Rightarrow> js_string" where
  "js_trim s = rev (dropWhile is_space (rev (dropWhile is_space s)))"

definition lower_char :: "char \<Rightarrow> char" where
  "lower_char c =
     (let n = code c in
      if (65 \<le> n \<and> n \<le> 90) \<or> (192 \<le> n \<and> n \<le> 222 \<and> n \<noteq> 215)
      then char_of (n + 32) else c)"

definition toLowerCase :: "js_string \<Rightarrow> js_string" where
  "toLowerCase s = map lower_char s"

definition startsWith :: "js_string \<Rightarrow> js_string \<Rightarrow> bool" where
  "startsWith s p \<longleftrightarrow> take (length p) s = p"

definition endsWith :: "js_string \<Rightarrow> js_string \<Rightarrow> bool" where
  "endsWith s p \<longleftrightarrow> length p \<le> length s \<and> drop (length s - length p) s = p"

fun js_includes :: "js_string \<Rightarrow> js_string \<Rightarrow> bool" where
  "js_includes [] p = (p = [])"
| "js_includes (c # s) p = (startsWith (c # s) p \<or> js_includes s p)"

fun join :: "'a list \<Rightarrow> 'a list list \<Rightarrow> 'a list" where
  "join sep [] = []"
| "join sep [x] = x"
| "join sep (x # y # ys) = x @ sep @ join sep (y # ys)"

fun split_on :: "char \<Rightarrow> js_string \<Rightarrow> js_string list" where
  "split_on c [] = [[]]"
| "split_on c (x # xs) =
     (if x = c then [] # split_on c xs
      else (case split_on c xs of [] \<Rightarrow> [[x]] | y # ys \<Rightarrow> (x # y) # ys))"

text \<open>\<open>a || b\<close> on strings, and on optional strings; \<open>a ?? b\<close>.\<close>

definition str_or :: "js_string \<Rightarrow> js_string \<Rightarrow> js_string" where
  "str_or a b = (if a = [] then b else a)"

definition opt_or :: "js_string option \<Rightarrow> js_string \<Rightarrow> js_string" where
  "opt_or a b = (case a of None \<Rightarrow> b | Some s \<Rightarrow> str_or s b)"

definition nullish :: "'a option \<Rightarrow> 'a \<Rightarrow> 'a" where
  "nullish a b = (case a of None \<Rightarrow> b | Some x \<Rightarrow> x)"

text \<open>Truthiness of an optional string: defined and not empty.\<close>

definition truthy :: "js_string option \<Rightarrow> bool" where
  "truthy a \<longleftrightarrow> (case a of None \<Rightarrow> False | Some s \<Rightarrow> s \<noteq> [])"

definition keep_truthy :: "js_string option \<Rightarrow> js_string option" where
  "keep_truthy a = (if truthy a then a else None)"

lemma startsWith_iff_prefix: "startsWith s p \<longleftrightarrow> prefix p s"
  unfolding startsWith_def
  by (metis append_eq_conv_conj prefixE prefixI take_is_prefix)

lemma startsWith_append [simp]: "startsWith (p @ s) p"
  by (simp add: startsWith_def)

lemma startsWith_Nil [simp]: "startsWith s []"
  by (simp add: startsWith_def)

lemma endsWith_iff_suffix: "endsWith s p \<longleftrightarrow> suffix p s"
  unfolding endsWith_def suffix_def
  by (metis append_eq_conv_conj append_take_drop_id diff_diff_cancel length_append
      length_drop le_add2 add_diff_cancel_right')

lemma includes_iff_sublist: "js_includes s p \<longleftrightarrow> sublist p s"
proof (induction s)
  case Nil
  then show ?case by (simp add: sublist_code)
next
  case (Cons c s)
  then show ?case
    by (simp add: startsWith_iff_prefix sublist_Cons_right)
qed

lemma length_trim_le: "length (js_trim s) \<le> length s"
  by (metis js_trim_def length_dropWhile_le length_rev le_trans)

lemma dropWhile_idle: "(s = [] \<or> \<not> P (hd s)) \<Longrightarrow> dropWhile P s = s"
  by (cases s) auto

lemma trim_ends:
  "js_trim s \<noteq> [] \<Longrightarrow> \<not> is_space (hd (js_trim s)) \<and> \<not> is_space (last (js_trim s))"
proof -
  assume ne: "js_trim s \<noteq> []"
  let ?a = "dropWhile is_space s"
  let ?b = "dropWhile is_space (rev ?a)"
  have t: "js_trim s = rev ?b" by (simp add: js_trim_def)
  with ne have b: "?b \<noteq> []" by simp
  then have "\<not> is_space (hd ?b)" by (rule hd_dropWhile)
  then have l: "\<not> is_space (last (js_trim s))" using b t by (simp add: last_rev)
  from b have a: "?a \<noteq> []" by (metis dropWhile.simps(1) rev.simps(1))
  then have ha: "\<not> is_space (hd ?a)" by (rule hd_dropWhile)
  have "suffix ?b (rev ?a)" by (rule suffix_dropWhile)
  then have "prefix (rev ?b) ?a" by (simp add: suffix_to_prefix)
  then have "hd (rev ?b) = hd ?a" using b by (metis hd_append2 prefixE rev_is_Nil_conv)
  with ha t have "\<not> is_space (hd (js_trim s))" by simp
  with l show ?thesis by simp
qed

lemma trim_id: "s = [] \<or> (\<not> is_space (hd s) \<and> \<not> is_space (last s)) \<Longrightarrow> js_trim s = s"
  by (cases "s = []") (auto simp: js_trim_def dropWhile_idle hd_rev)

lemma trim_no_space: "(\<And>c. c \<in> set s \<Longrightarrow> \<not> is_space c) \<Longrightarrow> js_trim s = s"
  by (rule trim_id) (auto simp: hd_in_set last_in_set)

lemma trim_idem [simp]: "js_trim (js_trim s) = js_trim s"
  using trim_ends trim_id by blast

lemma lower_char_idem [simp]: "lower_char (lower_char c) = lower_char c"
  by (auto simp: lower_char_def Let_def)

lemma toLowerCase_idem [simp]: "toLowerCase (toLowerCase s) = toLowerCase s"
  by (simp add: toLowerCase_def)

lemma length_toLowerCase [simp]: "length (toLowerCase s) = length s"
  by (simp add: toLowerCase_def)

section \<open>Separators\<close>

lemma split_on_ne [simp]: "split_on c s \<noteq> []"
  by (induction s) (auto split: list.splits)

lemma split_on_no_sep: "c \<notin> set s \<Longrightarrow> split_on c s = [s]"
  by (induction s) auto

lemma split_on_append_sep: "c \<notin> set a \<Longrightarrow> split_on c (a @ c # b) = a # split_on c b"
  by (induction a) auto

lemma split_on_join:
  assumes "xs \<noteq> []" and "\<forall>x \<in> set xs. c \<notin> set x"
  shows "split_on c (join [c] xs) = xs"
  using assms
  by (induction "[c]" xs rule: join.induct) (auto simp: split_on_no_sep split_on_append_sep)

lemma set_join_subset: "set (join sep xs) \<subseteq> set sep \<union> (\<Union>x \<in> set xs. set x)"
  by (induction sep xs rule: join.induct) auto

lemma split_on_pieces: "\<forall>x \<in> set (split_on c s). c \<notin> set x"
  by (induction s) (auto split: list.splits)

lemma join_split_on: "join [c] (split_on c s) = s"
proof (induction s)
  case Nil
  then show ?case by simp
next
  case (Cons x s)
  obtain y ys where y: "split_on c s = y # ys" by (meson list.exhaust split_on_ne)
  with Cons show ?case by (cases ys) auto
qed

section \<open>Numbers in text\<close>

text \<open>\<open>Number.prototype.toString\<close> in base 10 and 16 for a natural number, and the readers.\<close>

definition hex_digit :: "nat \<Rightarrow> char" where
  "hex_digit n = ''0123456789abcdef'' ! n"

definition hex_value :: "char \<Rightarrow> nat option" where
  "hex_value c =
     (if is_digit c then Some (code c - 48)
      else if 97 \<le> code c \<and> code c \<le> 102 then Some (code c - 87)
      else if 65 \<le> code c \<and> code c \<le> 70 then Some (code c - 55)
      else None)"

fun nat_to_base :: "nat \<Rightarrow> nat \<Rightarrow> js_string" where
  "nat_to_base b n =
     (if b < 2 \<or> n < b then [hex_digit n]
      else nat_to_base b (n div b) @ [hex_digit (n mod b)])"

declare nat_to_base.simps [simp del]

definition string_of_nat :: "nat \<Rightarrow> js_string" where
  "string_of_nat n = nat_to_base 10 n"

text \<open>The value of a digit string in base \<open>b\<close>; every digit is valid in that base or the
  result is undefined.\<close>

fun digits_value :: "nat \<Rightarrow> nat \<Rightarrow> js_string \<Rightarrow> nat option" where
  "digits_value b acc [] = Some acc"
| "digits_value b acc (c # cs) =
     (case hex_value c of
        None \<Rightarrow> None
      | Some d \<Rightarrow> if d < b then digits_value b (acc * b + d) cs else None)"

lemma hex_cases: "(n::nat) < 16 \<Longrightarrow> n \<in> {0, 1, 2, 3, 4, 5, 6, 7, 8, 9, 10, 11, 12, 13, 14, 15}"
  by (simp, presburger)

lemma hex_value_digit [simp]: "n < 16 \<Longrightarrow> hex_value (hex_digit n) = Some n"
  by (drule hex_cases) (elim insertE emptyE; simp add: hex_digit_def hex_value_def is_digit_def)

lemma is_digit_hex_digit [simp]: "n < 10 \<Longrightarrow> is_digit (hex_digit n)"
  using hex_cases [of n] by (auto simp: hex_digit_def is_digit_def)

lemma hex_digit_alnum: "n < 16 \<Longrightarrow> is_digit (hex_digit n) \<or> is_lower (hex_digit n)"
  by (drule hex_cases) (elim insertE emptyE; simp add: hex_digit_def is_digit_def is_lower_def)

lemma digits_value_append:
  "digits_value b acc (xs @ ys) =
     (case digits_value b acc xs of None \<Rightarrow> None | Some a \<Rightarrow> digits_value b a ys)"
  by (induction xs arbitrary: acc) (auto split: option.splits)

lemma nat_to_base_ne [simp]: "nat_to_base b n \<noteq> []"
  by (subst nat_to_base.simps) simp

lemma digits_value_nat_to_base:
  "2 \<le> b \<Longrightarrow> b \<le> 16 \<Longrightarrow> digits_value b 0 (nat_to_base b n) = Some n"
proof (induction b n rule: nat_to_base.induct)
  case (1 b n)
  show ?case
  proof (cases "n < b")
    case True
    with "1.prems" show ?thesis by (simp add: nat_to_base.simps [of b n])
  next
    case False
    have m: "n mod b < b" using "1.prems" by simp
    moreover have "n mod b < 16" using m "1.prems" by linarith
    ultimately show ?thesis using False "1"
      by (simp add: nat_to_base.simps [of b n] digits_value_append)
  qed
qed

lemma nat_to_base_digits:
  "2 \<le> b \<Longrightarrow> b \<le> 10 \<Longrightarrow> \<forall>c \<in> set (nat_to_base b n). is_digit c"
proof (induction b n rule: nat_to_base.induct)
  case (1 b n)
  have "n mod b < b" using "1.prems" by simp
  then have "n mod b < 10" using "1.prems" by linarith
  then show ?case using "1" by (cases "n < b") (auto simp: nat_to_base.simps [of b n])
qed

lemma string_of_nat_digits: "\<forall>c \<in> set (string_of_nat n). is_digit c"
  unfolding string_of_nat_def by (rule nat_to_base_digits) simp_all

lemma string_of_nat_ne [simp]: "string_of_nat n \<noteq> []"
  by (simp add: string_of_nat_def)

lemma digits_value_string_of_nat [simp]: "digits_value 10 0 (string_of_nat n) = Some n"
  by (simp add: string_of_nat_def digits_value_nat_to_base)

lemma digits_value_total:
  "\<forall>c \<in> set s. is_digit c \<Longrightarrow> \<exists>n. digits_value 10 acc s = Some n"
  by (induction s arbitrary: acc) (auto simp: hex_value_def is_digit_def)

section \<open>Integers as doubles\<close>

text \<open>A number read from text has 53 significant bits, ties to even, and is infinite (\<open>None\<close>) from
  \<open>2 ^ 1024\<close> on.\<close>

fun bit_length :: "nat \<Rightarrow> nat" where
  "bit_length n = (if n = 0 then 0 else Suc (bit_length (n div 2)))"

declare bit_length.simps [simp del]

definition round_half_even :: "nat \<Rightarrow> nat \<Rightarrow> nat" where
  "round_half_even n e =
     (let q = n div 2 ^ e; r = n mod 2 ^ e; half = 2 ^ (e - 1) in
      if r < half \<or> (r = half \<and> even q) then q else q + 1)"

definition to_double :: "nat \<Rightarrow> nat option" where
  "to_double n =
     (if n \<le> 2 ^ 53 then Some n
      else
        (let e = bit_length n - 53; v = round_half_even n e * 2 ^ e in
         if v < 2 ^ 1024 then Some v else None))"

text \<open>
  \<open>String\<close> of an integral number.  From \<open>10 ^ 21\<close> on it is written with an exponent and the fewest significant digits
  that are read back as the number: the number rounded to \<open>k\<close> digits, for the least such \<open>k\<close>.
\<close>

definition round_digits :: "nat \<Rightarrow> nat \<Rightarrow> nat" where
  "round_digits n k = (let p = 10 ^ (length (string_of_nat n) - k) in (n + p div 2) div p * p)"

definition exponent_text :: "nat \<Rightarrow> js_string" where
  "exponent_text n =
     (let c = (case find (\<lambda>k. to_double (round_digits n k) = to_double n) [1..<length (string_of_nat n)] of
                 None \<Rightarrow> n | Some k \<Rightarrow> round_digits n k);
          ds = string_of_nat c in
      case rev (dropWhile (\<lambda>d. d = CHR ''0'') (rev ds)) of
        [] \<Rightarrow> ''0''
      | d # r \<Rightarrow> d # (if r = [] then [] else CHR ''.'' # r) @ ''e+'' @ string_of_nat (length ds - 1))"

definition number_text_of :: "nat \<Rightarrow> js_string" where
  "number_text_of n = (if n < 10 ^ 21 then string_of_nat n else exponent_text n)"

definition string_of_int :: "int \<Rightarrow> js_string" where
  "string_of_int i = (if i < 0 then CHR ''-'' # number_text_of (nat (- i)) else number_text_of (nat i))"

section \<open>Codecs\<close>

text \<open>
  An encoder with a decoder that undoes it on the valid values: the interface through which
  the properties of \<open>encodeURIComponent\<close>, of JSON text and of base64url are used.
\<close>

locale codec =
  fixes enc :: "'a \<Rightarrow> 'b"
    and dec :: "'b \<Rightarrow> 'a option"
    and valid :: "'a \<Rightarrow> bool"
  assumes dec_enc: "valid x \<Longrightarrow> dec (enc x) = Some x"
begin

lemma enc_inject: "valid x \<Longrightarrow> valid y \<Longrightarrow> enc x = enc y \<longleftrightarrow> x = y"
  using dec_enc by (metis option.inject)

lemma inj_on_enc: "inj_on enc {x. valid x}"
  using enc_inject by (auto intro: inj_onI)

lemma dec_image: "valid x \<Longrightarrow> y = enc x \<Longrightarrow> \<exists>z. dec y = Some z \<and> valid z"
  using dec_enc by auto

end

text \<open>A text codec whose output avoids a separator can be cut out of a longer text again.\<close>

locale segment_codec = codec enc dec valid
  for enc :: "'a \<Rightarrow> js_string" and dec :: "js_string \<Rightarrow> 'a option" and valid :: "'a \<Rightarrow> bool" +
  fixes sep :: char
  assumes sep_free: "valid x \<Longrightarrow> sep \<notin> set (enc x)"
begin

lemma split_enc: "valid x \<Longrightarrow> split_on sep (enc x @ sep # rest) = enc x # split_on sep rest"
  by (simp add: sep_free split_on_append_sep)

lemma split_join_enc:
  "xs \<noteq> [] \<Longrightarrow> (\<forall>x \<in> set xs. valid x) \<Longrightarrow> split_on sep (join [sep] (map enc xs)) = map enc xs"
  by (rule split_on_join) (auto simp: sep_free)

lemma join_enc_inject:
  assumes "\<forall>x \<in> set xs. valid x" and "\<forall>y \<in> set ys. valid y"
    and "xs \<noteq> []" and "ys \<noteq> []"
    and "join [sep] (map enc xs) = join [sep] (map enc ys)"
  shows "xs = ys"
proof -
  have "map enc xs = map enc ys" using split_join_enc assms by metis
  then have "map (dec \<circ> enc) xs = map (dec \<circ> enc) ys" by (metis list.map_comp)
  moreover have "map (dec \<circ> enc) xs = map Some xs" using assms dec_enc by auto
  moreover have "map (dec \<circ> enc) ys = map Some ys" using assms dec_enc by auto
  ultimately have "map Some xs = map Some ys" by simp
  then show ?thesis by (metis inj_map_eq_map inj_Some)
qed

end

end
