(* ===== verification/Json.thy ===== *)
theory Json
  imports Js_Base
begin

text \<open>
  JSON values with \<open>JSON.stringify\<close> and \<open>JSON.parse\<close>, which the session, the HTTP client, the
  wallet code and the deployment configuration use.  A number is kept as its text
  (\<^emph>\<open>lexeme\<close>): no modelled code computes with a parsed number.  An object is the list of
  its members in insertion order with distinct keys; parsing a repeated key overwrites the
  member in place, as ECMAScript does.  \<open>json_parse\<close> is a lexer followed by a pushdown machine
  over the tokens, so both are total without fuel.  An escape \<open>\u\<close> above 00FF has no
  Latin-1 value and is rejected: such texts are outside the modelled fragment.

  The main result of the theory is the round trip \<open>json_parse (json_stringify v) = Some v\<close> for
  well-formed \<open>v\<close>, packaged as an interpretation of the codec interface.
\<close>

section \<open>Values and their text\<close>

datatype json =
    JNull
  | JBool bool
  | JNum js_string
  | JStr js_string
  | JArr "json list"
  | JObj "(js_string \<times> json) list"

abbreviation quote_char :: char where "quote_char \<equiv> CHR 0x22"
abbreviation backslash :: char where "backslash \<equiv> CHR 0x5C"

definition esc_char :: "char \<Rightarrow> js_string" where
  "esc_char c =
     (if c = quote_char then [backslash, quote_char]
      else if c = backslash then [backslash, backslash]
      else if code c = 8 then [backslash, CHR ''b'']
      else if code c = 12 then [backslash, CHR ''f'']
      else if code c = 10 then [backslash, CHR ''n'']
      else if code c = 13 then [backslash, CHR ''r'']
      else if code c = 9 then [backslash, CHR ''t'']
      else if code c < 32 then
        [backslash, CHR ''u'', CHR ''0'', CHR ''0'', hex_digit (code c div 16), hex_digit (code c mod 16)]
      else [c])"

definition json_quote :: "js_string \<Rightarrow> js_string" where
  "json_quote s = quote_char # concat (map esc_char s) @ [quote_char]"

fun json_stringify :: "json \<Rightarrow> js_string" where
  "json_stringify JNull = ''null''"
| "json_stringify (JBool b) = (if b then ''true'' else ''false'')"
| "json_stringify (JNum n) = n"
| "json_stringify (JStr s) = json_quote s"
| "json_stringify (JArr xs) = ''['' @ join '','' (map json_stringify xs) @ '']''"
| "json_stringify (JObj kvs) =
     ''{'' @ join '','' (map (\<lambda>(k, v). json_quote k @ '':'' @ json_stringify v) kvs) @ ''}''"

text \<open>Member access and update of an object.\<close>

fun obj_set :: "(js_string \<times> json) list \<Rightarrow> js_string \<Rightarrow> json \<Rightarrow> (js_string \<times> json) list" where
  "obj_set [] k v = [(k, v)]"
| "obj_set ((k', v') # r) k v = (if k = k' then (k, v) # r else (k', v') # obj_set r k v)"

definition obj_get :: "json \<Rightarrow> js_string \<Rightarrow> json option" where
  "obj_get j k = (case j of JObj kvs \<Rightarrow> map_of kvs k | _ \<Rightarrow> None)"

text \<open>\<open>String(v)\<close> of a JSON value.\<close>

fun js_to_string :: "json \<Rightarrow> js_string" where
  "js_to_string JNull = ''null''"
| "js_to_string (JBool b) = (if b then ''true'' else ''false'')"
| "js_to_string (JNum n) = n"
| "js_to_string (JStr s) = s"
| "js_to_string (JArr xs) = join '','' (map (\<lambda>x. if x = JNull then [] else js_to_string x) xs)"
| "js_to_string (JObj kvs) = ''[object Object]''"

section \<open>The lexer\<close>

datatype token =
    TLBrace | TRBrace | TLBrack | TRBrack | TColon | TComma
  | TStr js_string | TNum js_string | TTrue | TFalse | TNull

definition is_json_ws :: "char \<Rightarrow> bool" where
  "is_json_ws c \<longleftrightarrow> code c = 32 \<or> code c = 9 \<or> code c = 10 \<or> code c = 13"

definition is_num_char :: "char \<Rightarrow> bool" where
  "is_num_char c \<longleftrightarrow> is_digit c \<or> c \<in> set ''+-.eE''"

definition unescape :: "char \<Rightarrow> char option" where
  "unescape e =
     (if e = quote_char \<or> e = backslash \<or> e = CHR ''/'' then Some e
      else if e = CHR ''b'' then Some (char_of (8::nat))
      else if e = CHR ''f'' then Some (char_of (12::nat))
      else if e = CHR ''n'' then Some (char_of (10::nat))
      else if e = CHR ''r'' then Some (char_of (13::nat))
      else if e = CHR ''t'' then Some (char_of (9::nat))
      else None)"

definition hex4 :: "char \<Rightarrow> char \<Rightarrow> char \<Rightarrow> char \<Rightarrow> char option" where
  "hex4 a b c d =
     (case digits_value 16 0 [a, b, c, d] of
        None \<Rightarrow> None
      | Some n \<Rightarrow> if n < 256 then Some (char_of n) else None)"

text \<open>The body of a string literal, up to its closing quote.\<close>

fun lex_str :: "js_string \<Rightarrow> (js_string \<times> js_string) option" where
  "lex_str [] = None"
| "lex_str (c # s) =
     (if c = quote_char then Some ([], s)
      else if c = backslash then
        (case s of
           [] \<Rightarrow> None
         | e # s' \<Rightarrow>
             (case unescape e of
                Some d \<Rightarrow> map_option (\<lambda>(x, r). (d # x, r)) (lex_str s')
              | None \<Rightarrow>
                  if e = CHR ''u'' then
                    (case s' of
                       h1 # h2 # h3 # h4 # r \<Rightarrow>
                         (case hex4 h1 h2 h3 h4 of
                            Some d \<Rightarrow> map_option (\<lambda>(x, r). (d # x, r)) (lex_str r)
                          | None \<Rightarrow> None)
                     | _ \<Rightarrow> None)
                  else None))
      else if code c < 32 then None
      else map_option (\<lambda>(x, r). (c # x, r)) (lex_str s))"

text \<open>The number grammar of JSON: an optional minus, an integer part without leading zeros,
  an optional fraction, an optional exponent.\<close>

definition num_exp_ok :: "js_string \<Rightarrow> bool" where
  "num_exp_ok s =
     (case s of
        [] \<Rightarrow> True
      | c # r \<Rightarrow> c \<in> set ''eE'' \<and>
          (let ds = (case r of [] \<Rightarrow> [] | d # r' \<Rightarrow> if d \<in> set ''+-'' then r' else r)
           in ds \<noteq> [] \<and> list_all is_digit ds))"

definition num_frac_ok :: "js_string \<Rightarrow> bool" where
  "num_frac_ok s =
     (case s of
        [] \<Rightarrow> True
      | c # r \<Rightarrow>
          if c = CHR ''.'' then takeWhile is_digit r \<noteq> [] \<and> num_exp_ok (dropWhile is_digit r)
          else num_exp_ok s)"

definition num_nat_ok :: "js_string \<Rightarrow> bool" where
  "num_nat_ok s =
     (let ds = takeWhile is_digit s
      in ds \<noteq> [] \<and> (hd ds = CHR ''0'' \<longrightarrow> length ds = 1) \<and> num_frac_ok (dropWhile is_digit s))"

definition json_number :: "js_string \<Rightarrow> bool" where
  "json_number s =
     (case s of [] \<Rightarrow> False | c # r \<Rightarrow> if c = CHR ''-'' then num_nat_ok r else num_nat_ok s)"

definition keyword :: "js_string \<Rightarrow> token option" where
  "keyword w =
     (if w = ''true'' then Some TTrue else if w = ''false'' then Some TFalse
      else if w = ''null'' then Some TNull else None)"

definition cons_tok :: "token \<Rightarrow> token list option \<Rightarrow> token list option" where
  "cons_tok t r = map_option ((#) t) r"

lemma lex_str_escape:
  "lex_str (backslash # s) =
     (case s of
        [] \<Rightarrow> None
      | e # s' \<Rightarrow>
          (case unescape e of
             Some d \<Rightarrow> map_option (\<lambda>(x, r). (d # x, r)) (lex_str s')
           | None \<Rightarrow>
               if e = CHR ''u'' then
                 (case s' of
                    h1 # h2 # h3 # h4 # r \<Rightarrow>
                      (case hex4 h1 h2 h3 h4 of
                         Some d \<Rightarrow> map_option (\<lambda>(x, r). (d # x, r)) (lex_str r)
                       | None \<Rightarrow> None)
                  | _ \<Rightarrow> None)
               else None))"
  by (subst lex_str.simps) simp

lemma lex_str_quote [simp]: "lex_str (quote_char # s) = Some ([], s)"
  by simp

lemma lex_str_plain:
  "c \<noteq> quote_char \<Longrightarrow> c \<noteq> backslash \<Longrightarrow>
     lex_str (c # s) = (if code c < 32 then None else map_option (\<lambda>(x, r). (c # x, r)) (lex_str s))"
  by simp

declare lex_str.simps(2) [simp del]

lemma lex_str_shorter: "lex_str s = Some (x, r) \<Longrightarrow> length r < length s"
proof (induction s arbitrary: x r rule: length_induct)
  case (1 s)
  have IH: "length r' < length t" if "length t < length s" "lex_str t = Some (y, r')" for t y r'
    using 1 that by blast
  show ?case
  proof (cases s)
    case Nil
    with "1.prems" show ?thesis by simp
  next
    case (Cons c t)
    consider "c = quote_char" | "c = backslash" | "c \<noteq> quote_char" "c \<noteq> backslash" by blast
    then show ?thesis
    proof cases
      case 1
      with "1.prems" Cons show ?thesis by simp
    next
      case 2
      with "1.prems" Cons show ?thesis
        by (auto simp: lex_str_escape split: list.splits option.splits if_splits dest!: IH [rotated])
    next
      case 3
      with "1.prems" Cons show ?thesis
        by (auto simp: lex_str_plain split: if_splits dest!: IH [rotated])
    qed
  qed
qed

function lex :: "js_string \<Rightarrow> token list option" where
  "lex [] = Some []"
| "lex (c # r) =
     (if is_json_ws c then lex r
      else if c = CHR ''{'' then cons_tok TLBrace (lex r)
      else if c = CHR ''}'' then cons_tok TRBrace (lex r)
      else if c = CHR ''['' then cons_tok TLBrack (lex r)
      else if c = CHR '']'' then cons_tok TRBrack (lex r)
      else if c = CHR '':'' then cons_tok TColon (lex r)
      else if c = CHR '','' then cons_tok TComma (lex r)
      else if c = quote_char then
        (case lex_str r of None \<Rightarrow> None | Some (x, r') \<Rightarrow> cons_tok (TStr x) (lex r'))
      else if is_num_char c \<and> \<not> is_lower c then
        (let n = c # takeWhile is_num_char r
         in if json_number n then cons_tok (TNum n) (lex (dropWhile is_num_char r)) else None)
      else if is_lower c then
        (case keyword (c # takeWhile is_lower r) of
           None \<Rightarrow> None
         | Some t \<Rightarrow> cons_tok t (lex (dropWhile is_lower r)))
      else None)"
  by pat_completeness auto
termination
  by (relation "measure length")
    (auto dest: lex_str_shorter simp: less_Suc_eq_le length_dropWhile_le)

section \<open>The parser\<close>

text \<open>A frame is an array or object whose next member is being read; the mode says what may
  come next.\<close>

datatype frame = FArr "json list" | FObj "(js_string \<times> json) list" js_string

datatype pmode =
    MValue | MArrStart | MObjStart
  | MKey "(js_string \<times> json) list" | MColon "(js_string \<times> json) list" js_string
  | MDone json

definition value_start :: "token \<Rightarrow> frame list \<Rightarrow> (pmode \<times> frame list) option" where
  "value_start t st =
     (case t of
        TNull \<Rightarrow> Some (MDone JNull, st)
      | TTrue \<Rightarrow> Some (MDone (JBool True), st)
      | TFalse \<Rightarrow> Some (MDone (JBool False), st)
      | TNum n \<Rightarrow> Some (MDone (JNum n), st)
      | TStr s \<Rightarrow> Some (MDone (JStr s), st)
      | TLBrack \<Rightarrow> Some (MArrStart, st)
      | TLBrace \<Rightarrow> Some (MObjStart, st)
      | _ \<Rightarrow> None)"

definition pstep :: "token \<Rightarrow> pmode \<times> frame list \<Rightarrow> (pmode \<times> frame list) option" where
  "pstep t s =
     (case s of (m, st) \<Rightarrow>
        (case m of
           MValue \<Rightarrow> value_start t st
         | MArrStart \<Rightarrow>
             if t = TRBrack then Some (MDone (JArr []), st) else value_start t (FArr [] # st)
         | MObjStart \<Rightarrow>
             (case t of TRBrace \<Rightarrow> Some (MDone (JObj []), st)
              | TStr k \<Rightarrow> Some (MColon [] k, st) | _ \<Rightarrow> None)
         | MKey kvs \<Rightarrow> (case t of TStr k \<Rightarrow> Some (MColon kvs k, st) | _ \<Rightarrow> None)
         | MColon kvs k \<Rightarrow> if t = TColon then Some (MValue, FObj kvs k # st) else None
         | MDone v \<Rightarrow>
             (case st of
                [] \<Rightarrow> None
              | FArr xs # st' \<Rightarrow>
                  if t = TComma then Some (MValue, FArr (xs @ [v]) # st')
                  else if t = TRBrack then Some (MDone (JArr (xs @ [v])), st')
                  else None
              | FObj kvs k # st' \<Rightarrow>
                  if t = TComma then Some (MKey (obj_set kvs k v), st')
                  else if t = TRBrace then Some (MDone (JObj (obj_set kvs k v)), st')
                  else None)))"

fun prun :: "token list \<Rightarrow> pmode \<times> frame list \<Rightarrow> (pmode \<times> frame list) option" where
  "prun [] s = Some s"
| "prun (t # ts) s = (case pstep t s of None \<Rightarrow> None | Some s' \<Rightarrow> prun ts s')"

definition json_parse :: "js_string \<Rightarrow> json option" where
  "json_parse s =
     (case lex s of
        None \<Rightarrow> None
      | Some ts \<Rightarrow>
          (case prun ts (MValue, []) of Some (MDone v, []) \<Rightarrow> Some v | _ \<Rightarrow> None))"

section \<open>Round trip\<close>

fun wf_json :: "json \<Rightarrow> bool" where
  "wf_json (JNum n) = json_number n"
| "wf_json (JArr xs) = list_all wf_json xs"
| "wf_json (JObj kvs) = (distinct (map fst kvs) \<and> list_all (\<lambda>(k, v). wf_json v) kvs)"
| "wf_json _ = True"

text \<open>The tokens of a value: what the lexer is to recover from its text.\<close>

fun toks :: "json \<Rightarrow> token list" where
  "toks JNull = [TNull]"
| "toks (JBool b) = [if b then TTrue else TFalse]"
| "toks (JNum n) = [TNum n]"
| "toks (JStr s) = [TStr s]"
| "toks (JArr xs) = [TLBrack] @ join [TComma] (map toks xs) @ [TRBrack]"
| "toks (JObj kvs) =
     [TLBrace] @ join [TComma] (map (\<lambda>(k, v). TStr k # TColon # toks v) kvs) @ [TRBrace]"

subsection \<open>Lexing\<close>

lemma unescape_simps:
  "unescape quote_char = Some quote_char" "unescape backslash = Some backslash"
  "unescape (CHR ''b'') = Some (char_of (8::nat))" "unescape (CHR ''f'') = Some (char_of (12::nat))"
  "unescape (CHR ''n'') = Some (char_of (10::nat))" "unescape (CHR ''r'') = Some (char_of (13::nat))"
  "unescape (CHR ''t'') = Some (char_of (9::nat))" "unescape (CHR ''u'') = None"
  by (simp_all add: unescape_def)

lemma hex4_code:
  "code c < 32 \<Longrightarrow>
     hex4 (CHR ''0'') (CHR ''0'') (hex_digit (code c div 16)) (hex_digit (code c mod 16)) = Some c"
proof -
  assume "code c < 32"
  then have "code c div 16 < 16" "code c mod 16 < 16" by auto
  moreover have "hex_value (CHR ''0'') = Some 0" by (simp add: hex_value_def is_digit_def)
  ultimately show ?thesis by (simp add: hex4_def)
qed

lemma lex_str_esc:
  "lex_str (esc_char c @ t) = map_option (\<lambda>(x, r). (c # x, r)) (lex_str t)"
proof -
  have eq: "char_of (n::nat) = c" if "code c = n" for n using that by auto
  consider "c = quote_char \<or> c = backslash" | "code c \<in> {8, 9, 10, 12, 13}"
    | "c \<noteq> quote_char" "c \<noteq> backslash" "code c \<notin> {8, 9, 10, 12, 13}" "code c < 32"
    | "c \<noteq> quote_char" "c \<noteq> backslash" "\<not> code c < 32" by blast
  then show ?thesis
  proof cases
    case 1
    then show ?thesis by (auto simp: esc_char_def lex_str_escape unescape_simps)
  next
    case 2
    then have "c \<noteq> quote_char" "c \<noteq> backslash" by auto
    with 2 show ?thesis by (auto simp: esc_char_def lex_str_escape unescape_simps dest: eq)
  next
    case 3
    then show ?thesis by (simp add: esc_char_def lex_str_escape unescape_simps hex4_code)
  next
    case 4
    then show ?thesis by (simp add: esc_char_def lex_str_plain)
  qed
qed

lemma lex_str_escaped: "lex_str (concat (map esc_char s) @ quote_char # r) = Some (s, r)"
  by (induction s) (simp_all add: lex_str_esc)

lemma lex_quoted: "lex (json_quote s @ r) = cons_tok (TStr s) (lex r)"
  by (simp add: json_quote_def is_json_ws_def lex_str_escaped)

lemma lex_punct:
  "lex (CHR ''{'' # r) = cons_tok TLBrace (lex r)" "lex (CHR ''}'' # r) = cons_tok TRBrace (lex r)"
  "lex (CHR ''['' # r) = cons_tok TLBrack (lex r)" "lex (CHR '']'' # r) = cons_tok TRBrack (lex r)"
  "lex (CHR '':'' # r) = cons_tok TColon (lex r)" "lex (CHR '','' # r) = cons_tok TComma (lex r)"
  by (simp_all add: is_json_ws_def)

declare lex.simps(2) [simp del]

text \<open>What may follow a value inside a JSON text.\<close>

definition delimited :: "js_string \<Rightarrow> bool" where
  "delimited r \<longleftrightarrow> r = [] \<or> hd r \<in> {CHR '','', CHR '']'', CHR ''}''}"

lemma delimited_simps [simp]:
  "delimited []" "delimited (CHR '','' # r)" "delimited (CHR '']'' # r)" "delimited (CHR ''}'' # r)"
  by (simp_all add: delimited_def)

lemma takeWhile_delimited:
  assumes "\<forall>x \<in> set xs. P x" and "delimited r"
    and "\<not> P (CHR '','')" "\<not> P (CHR '']'')" "\<not> P (CHR ''}'')"
  shows "takeWhile P (xs @ r) = xs" "dropWhile P (xs @ r) = r"
  using assms by (cases r; auto simp: delimited_def)+

lemma num_exp_chars: "num_exp_ok s \<Longrightarrow> \<forall>c \<in> set s. is_num_char c"
  unfolding num_exp_ok_def is_num_char_def
  by (auto simp: Let_def list_all_iff split: list.splits if_splits)

lemma num_frac_chars: "num_frac_ok s \<Longrightarrow> \<forall>c \<in> set s. is_num_char c"
proof (cases s)
  case (Cons c r)
  assume ok: "num_frac_ok s"
  show ?thesis
  proof (cases "c = CHR ''.''")
    case True
    with ok Cons have "num_exp_ok (dropWhile is_digit r)" by (simp add: num_frac_ok_def)
    then have "\<forall>d \<in> set (dropWhile is_digit r). is_num_char d" by (rule num_exp_chars)
    moreover have "\<forall>d \<in> set (takeWhile is_digit r). is_num_char d"
      by (auto simp: is_num_char_def dest: set_takeWhileD)
    ultimately have "\<forall>d \<in> set (takeWhile is_digit r @ dropWhile is_digit r). is_num_char d"
      by (simp only: set_append) blast
    then show ?thesis using True Cons by (auto simp: is_num_char_def)
  next
    case False
    with ok Cons show ?thesis using num_exp_chars by (simp add: num_frac_ok_def)
  qed
qed simp

lemma num_nat_chars:
  assumes "num_nat_ok s"
  shows "\<forall>c \<in> set s. is_num_char c" and "s \<noteq> []" and "is_digit (hd s)"
proof -
  have "\<forall>d \<in> set (dropWhile is_digit s). is_num_char d"
    by (rule num_frac_chars) (use assms in \<open>simp add: num_nat_ok_def Let_def\<close>)
  moreover have "\<forall>d \<in> set (takeWhile is_digit s). is_num_char d"
    by (auto simp: is_num_char_def dest: set_takeWhileD)
  ultimately have "\<forall>d \<in> set (takeWhile is_digit s @ dropWhile is_digit s). is_num_char d"
    by (simp only: set_append) blast
  then show "\<forall>c \<in> set s. is_num_char c" by simp
  show "s \<noteq> []" "is_digit (hd s)"
    using assms by (cases s; auto simp: num_nat_ok_def Let_def split: if_splits)+
qed

lemma json_number_chars:
  assumes "json_number n"
  shows "\<forall>c \<in> set n. is_num_char c" and "n \<noteq> []" and "is_digit (hd n) \<or> hd n = CHR ''-''"
proof -
  obtain c r where n: "n = c # r" using assms by (cases n) (auto simp: json_number_def)
  have "(c = CHR ''-'' \<and> num_nat_ok r) \<or> num_nat_ok n"
    using assms n by (auto simp: json_number_def split: if_splits)
  then show "\<forall>c \<in> set n. is_num_char c" "n \<noteq> []" "is_digit (hd n) \<or> hd n = CHR ''-''"
    using num_nat_chars [of r] num_nat_chars [of n] n by (auto simp: is_num_char_def)
qed

lemma lex_number:
  assumes "json_number n" and "delimited r"
  shows "lex (n @ r) = cons_tok (TNum n) (lex r)"
proof -
  obtain c m where n: "n = c # m" using json_number_chars(2) [OF assms(1)] by (cases n) auto
  have c: "is_digit c \<or> c = CHR ''-''" using json_number_chars(3) [OF assms(1)] n by simp
  have m: "\<forall>d \<in> set m. is_num_char d" using json_number_chars(1) [OF assms(1)] n by simp
  have np: "\<not> is_num_char (CHR '','')" "\<not> is_num_char (CHR '']'')" "\<not> is_num_char (CHR ''}'')"
    by (simp_all add: is_num_char_def is_digit_def)
  have tw: "takeWhile is_num_char (m @ r) = m" "dropWhile is_num_char (m @ r) = r"
    by (rule takeWhile_delimited [OF m assms(2) np])+
  have nw: "\<not> is_json_ws c" using c by (auto simp: is_json_ws_def is_digit_def)
  have nc: "is_num_char c" using c by (auto simp: is_num_char_def)
  have nl: "\<not> is_lower c" using c by (auto simp: is_lower_def is_digit_def)
  have no: "c \<noteq> CHR ''{''" "c \<noteq> CHR ''}''" "c \<noteq> CHR ''[''" "c \<noteq> CHR '']''" "c \<noteq> CHR '':''"
     "c \<noteq> CHR '',''" "c \<noteq> quote_char"
    using c by (auto simp: is_digit_def)
  show ?thesis
    using assms(1) by (simp add: n lex.simps(2) nw nc nl no tw Let_def)
qed

lemma lex_keyword:
  assumes "keyword w = Some t" and "delimited r"
  shows "lex (w @ r) = cons_tok t (lex r)"
proof -
  have np: "\<not> is_lower (CHR '','')" "\<not> is_lower (CHR '']'')" "\<not> is_lower (CHR ''}'')"
    by (simp_all add: is_lower_def)
  have w: "w = ''true'' \<or> w = ''false'' \<or> w = ''null''"
    using assms(1) by (auto simp: keyword_def split: if_splits)
  have low: "\<forall>c \<in> set w. is_lower c" using w by (auto simp: is_lower_def)
  obtain c v where cv: "w = c # v" using w by auto
  have v: "\<forall>d \<in> set v. is_lower d" and c: "is_lower c" using low cv by auto
  have tw: "takeWhile is_lower (v @ r) = v" "dropWhile is_lower (v @ r) = r"
    by (rule takeWhile_delimited [OF v assms(2) np])+
  have no: "\<not> is_json_ws c" "c \<noteq> CHR ''{''" "c \<noteq> CHR ''}''" "c \<noteq> CHR ''[''" "c \<noteq> CHR '']''"
     "c \<noteq> CHR '':''" "c \<noteq> CHR '',''" "c \<noteq> quote_char"
    using c by (auto simp: is_lower_def is_json_ws_def)
  show ?thesis using assms(1) by (simp add: cv lex.simps(2) c no tw)
qed

lemma cons_tok_append: "cons_tok t (map_option ((@) ts) x) = map_option ((@) (t # ts)) x"
  by (cases x) (simp_all add: cons_tok_def)

lemma append_single: "(@) [t] = (#) t"
  by (simp add: fun_eq_iff)

lemma cons_tok_single: "cons_tok t x = map_option ((@) [t]) x"
  by (cases x) (simp_all add: cons_tok_def)

lemma map_option_append: "map_option ((@) xs) (map_option ((@) ys) z) = map_option ((@) (xs @ ys)) z"
  by (cases z) simp_all

text \<open>Members separated by commas and closed by a delimiter: the part shared by arrays and
  objects.\<close>

lemma lex_members:
  assumes "\<And>x r. x \<in> set xs \<Longrightarrow> delimited r \<Longrightarrow> lex (txt x @ r) = map_option ((@) (tk x)) (lex r)"
    and "delimited r"
  shows "lex (join '','' (map txt xs) @ r) = map_option ((@) (join [TComma] (map tk xs))) (lex r)"
  using assms(1)
proof (induction xs)
  case Nil
  then show ?case by (simp add: option.map_id0 [unfolded id_def])
next
  case (Cons x xs)
  show ?case
  proof (cases xs)
    case Nil
    with Cons.prems assms(2) show ?thesis by simp
  next
    case (Cons y ys)
    have IH: "lex (join '','' (map txt xs) @ r) = map_option ((@) (join [TComma] (map tk xs))) (lex r)"
      using Cons.IH Cons.prems by simp
    have "lex (join '','' (map txt (x # xs)) @ r)
        = map_option ((@) (tk x)) (lex (CHR '','' # join '','' (map txt xs) @ r))"
      using Cons.prems [of x "CHR '','' # join '','' (map txt xs) @ r"] \<open>xs = y # ys\<close> by simp
    also have "\<dots> = map_option ((@) (join [TComma] (map tk (x # xs)))) (lex r)"
      using IH \<open>xs = y # ys\<close> by (simp add: lex_punct cons_tok_append map_option_append)
    finally show ?thesis .
  qed
qed

lemma lex_stringify:
  "wf_json v \<Longrightarrow> delimited r \<Longrightarrow> lex (json_stringify v @ r) = map_option ((@) (toks v)) (lex r)"
proof (induction v arbitrary: r)
  case JNull
  then show ?case using lex_keyword [of "''null''" TNull] by (simp add: keyword_def cons_tok_def append_single)
next
  case (JBool b)
  then show ?case
    using lex_keyword [of "''true''" TTrue] lex_keyword [of "''false''" TFalse]
    by (simp add: keyword_def cons_tok_def append_single)
next
  case (JNum n)
  then show ?case by (simp add: lex_number cons_tok_def append_single)
next
  case (JStr s)
  then show ?case by (simp add: lex_quoted cons_tok_def append_single)
next
  case (JArr xs)
  have "lex (join '','' (map json_stringify xs) @ CHR '']'' # r)
      = map_option ((@) (join [TComma] (map toks xs))) (lex (CHR '']'' # r))"
    by (rule lex_members) (use JArr in \<open>auto simp: list_all_iff\<close>)
  then show ?case
    by (cases "lex r") (simp_all add: lex_punct cons_tok_def)
next
  case (JObj kvs)
  have m: "lex (json_quote k @ CHR '':'' # json_stringify v @ r')
      = map_option ((@) (TStr k # TColon # toks v)) (lex r')"
    if "(k, v) \<in> set kvs" "delimited r'" for k v r'
    using JObj that by (auto simp: lex_quoted lex_punct cons_tok_append list_all_iff)
  have "lex (join '','' (map (\<lambda>(k, v). json_quote k @ '':'' @ json_stringify v) kvs) @ CHR ''}'' # r)
      = map_option ((@) (join [TComma] (map (\<lambda>(k, v). TStr k # TColon # toks v) kvs)))
          (lex (CHR ''}'' # r))"
    by (rule lex_members) (use m in auto)
  then show ?case
    by (cases "lex r") (simp_all add: lex_punct cons_tok_def)
qed

subsection \<open>Parsing\<close>

lemma obj_set_fresh: "k \<notin> fst ` set kvs \<Longrightarrow> obj_set kvs k v = kvs @ [(k, v)]"
  by (induction kvs) auto

lemma value_start_toks:
  "\<exists>t ts. toks v = t # ts \<and> t \<noteq> TRBrack"
  by (cases v) auto

text \<open>From the start of an array, the first value is read as from \<^const>\<open>MValue\<close> in the new frame.\<close>

lemma prun_arr_start:
  "prun (toks v @ ts) (MArrStart, st) = prun (toks v @ ts) (MValue, FArr [] # st)"
  using value_start_toks [of v] by (auto simp: pstep_def)

lemma prun_arr_members:
  assumes "\<And>x ts st. x \<in> set xs \<Longrightarrow> prun (toks x @ ts) (MValue, st) = prun ts (MDone x, st)"
    and "xs \<noteq> []"
  shows "prun (join [TComma] (map toks xs) @ TRBrack # ts) (MValue, FArr ys # st)
       = prun ts (MDone (JArr (ys @ xs)), st)"
  using assms
proof (induction xs arbitrary: ys)
  case Nil
  then show ?case by simp
next
  case (Cons x xs)
  show ?case
  proof (cases xs)
    case Nil
    with Cons.prems show ?thesis by (simp add: pstep_def)
  next
    case (Cons y zs)
    then show ?thesis
      using Cons.prems(1) [of x] Cons.IH [of "ys @ [x]"] Cons.prems(1) by (simp add: pstep_def)
  qed
qed

lemma prun_obj_members:
  assumes "\<And>k x ts st. (k, x) \<in> set kvs \<Longrightarrow> prun (toks x @ ts) (MValue, st) = prun ts (MDone x, st)"
    and "kvs \<noteq> []" and "distinct (map fst (acc @ kvs))"
  shows "prun (join [TComma] (map (\<lambda>(k, v). TStr k # TColon # toks v) kvs) @ TRBrace # ts) (MKey acc, st)
       = prun ts (MDone (JObj (acc @ kvs)), st)"
  using assms
proof (induction kvs arbitrary: acc)
  case Nil
  then show ?case by simp
next
  case (Cons p kvs)
  obtain k x where p: "p = (k, x)" by fastforce
  have fresh: "obj_set acc k x = acc @ [(k, x)]"
    using Cons.prems(3) p by (intro obj_set_fresh) auto
  have x: "prun (toks x @ us) (MValue, FObj acc k # st) = prun us (MDone x, FObj acc k # st)" for us
    using Cons.prems(1) [of k x] p by simp
  show ?case
  proof (cases kvs)
    case Nil
    then show ?thesis by (simp add: p pstep_def x fresh)
  next
    case (Cons q zs)
    have "prun (join [TComma] (map (\<lambda>(k, v). TStr k # TColon # toks v) kvs) @ TRBrace # ts)
            (MKey (acc @ [(k, x)]), st) = prun ts (MDone (JObj ((acc @ [(k, x)]) @ kvs)), st)"
      by (rule Cons.IH) (use Cons.prems p Cons in auto)
    then show ?thesis using Cons by (simp add: p pstep_def x fresh split_def)
  qed
qed

lemma prun_toks: "wf_json v \<Longrightarrow> prun (toks v @ ts) (MValue, st) = prun ts (MDone v, st)"
proof (induction v arbitrary: ts st)
  case (JArr xs)
  have m: "prun (toks x @ ts) (MValue, st) = prun ts (MDone x, st)" if "x \<in> set xs" for x ts st
    using JArr that by (auto simp: list_all_iff)
  show ?case
  proof (cases xs)
    case Nil
    then show ?thesis by (simp add: pstep_def value_start_def)
  next
    case (Cons x ys)
    obtain us where us: "join [TComma] (map toks xs) @ TRBrack # ts = toks x @ us"
      using Cons by (cases ys) auto
    have "prun (join [TComma] (map toks xs) @ TRBrack # ts) (MArrStart, st)
        = prun (join [TComma] (map toks xs) @ TRBrack # ts) (MValue, FArr [] # st)"
      unfolding us by (rule prun_arr_start)
    also have "\<dots> = prun ts (MDone (JArr ([] @ xs)), st)"
      by (rule prun_arr_members) (use m Cons in auto)
    finally show ?thesis by (simp add: pstep_def value_start_def)
  qed
next
  case (JObj kvs)
  have m: "prun (toks x @ ts) (MValue, st) = prun ts (MDone x, st)" if "(k, x) \<in> set kvs" for k x ts st
    using JObj that by (auto simp: list_all_iff)
  show ?case
  proof (cases kvs)
    case Nil
    then show ?thesis by (simp add: pstep_def value_start_def)
  next
    case (Cons p zs)
    then obtain k us where us: "join [TComma] (map (\<lambda>(k, v). TStr k # TColon # toks v) kvs) @ TRBrace # ts
        = TStr k # us"
      by (cases zs) (auto simp: split_def)
    have "prun (TStr k # us) (MObjStart, st) = prun (TStr k # us) (MKey [], st)"
      by (simp add: pstep_def)
    also have "\<dots> = prun ts (MDone (JObj ([] @ kvs)), st)"
      unfolding us [symmetric]
      by (rule prun_obj_members) (use m Cons JObj.prems in auto)
    finally show ?thesis by (simp add: pstep_def value_start_def us)
  qed
qed (auto simp: pstep_def value_start_def)

lemma json_parse_stringify: "wf_json v \<Longrightarrow> json_parse (json_stringify v) = Some v"
  using lex_stringify [of v "[]"] prun_toks [of v "[]" "[]"] by (simp add: json_parse_def)

interpretation json_codec: codec json_stringify json_parse wf_json
  by unfold_locales (rule json_parse_stringify)

section \<open>Parsed values are well formed\<close>

text \<open>The parser produces valid number lexemes and objects without repeated keys.\<close>

lemma lex_head:
  assumes "lex (c # r) = Some ts"
  shows "lex r = Some ts \<or>
    (\<exists>t r'. cons_tok t (lex r') = Some ts \<and> length r' \<le> length r \<and> (\<forall>n. t = TNum n \<longrightarrow> json_number n))"
proof -
  note l = assms [unfolded lex.simps(2)]
  have kw: "keyword w \<noteq> Some (TNum m)" for w m by (simp add: keyword_def)
  have tok: ?thesis if "cons_tok t (lex r') = Some ts" "length r' \<le> length r" "\<And>n. t = TNum n \<Longrightarrow> json_number n" for t r'
    using that by blast
  consider (ws) "is_json_ws c" | (punct) "\<not> is_json_ws c" "c \<in> set ''{}[]:,''"
    | (str) "\<not> is_json_ws c" "c \<notin> set ''{}[]:,''" "c = quote_char"
    | (num) "\<not> is_json_ws c" "c \<notin> set ''{}[]:,''" "c \<noteq> quote_char" "is_num_char c \<and> \<not> is_lower c"
    | (word) "\<not> is_json_ws c" "c \<notin> set ''{}[]:,''" "c \<noteq> quote_char" "\<not> (is_num_char c \<and> \<not> is_lower c)"
    by blast
  then show ?thesis
  proof cases
    case ws
    then show ?thesis using l by simp
  next
    case punct
    then obtain t where "cons_tok t (lex r) = Some ts" "\<And>n. t \<noteq> TNum n"
      using l by (auto split: if_splits)
    then show ?thesis by (intro tok) auto
  next
    case str
    then obtain x r' where "lex_str r = Some (x, r')" "cons_tok (TStr x) (lex r') = Some ts"
      using l by (auto split: option.splits)
    then show ?thesis by (intro tok) (auto dest: lex_str_shorter)
  next
    case num
    then show ?thesis using l
      by (intro tok [of "TNum (c # takeWhile is_num_char r)" "dropWhile is_num_char r"])
        (auto simp: Let_def length_dropWhile_le split: if_splits)
  next
    case word
    then obtain t where "keyword (c # takeWhile is_lower r) = Some t"
        "cons_tok t (lex (dropWhile is_lower r)) = Some ts"
      using l by (auto split: if_splits option.splits)
    then show ?thesis using kw by (intro tok) (auto simp: length_dropWhile_le)
  qed
qed

lemma lex_numbers: "lex s = Some ts \<Longrightarrow> TNum n \<in> set ts \<Longrightarrow> json_number n"
proof (induction s arbitrary: ts rule: measure_induct_rule [where f = length])
  case (less s)
  have IH: "json_number n" if "cons_tok t (lex r) = Some ts" "length r < length s" "t = TNum n \<Longrightarrow> json_number n" for t r
    using that less.IH [of r] less.prems(2) by (auto simp: cons_tok_def)
  show ?case
  proof (cases s)
    case (Cons c r)
    consider (ws) "lex r = Some ts" | (tok) t r' where "cons_tok t (lex r') = Some ts"
        "length r' < length s" "t = TNum n \<Longrightarrow> json_number n"
      using lex_head [of c r ts] less.prems(1) by (auto simp: Cons less_Suc_eq_le)
    then show ?thesis
    proof cases
      case ws
      then show ?thesis using less.IH [of r ts] less.prems(2) Cons by simp
    next
      case tok
      then show ?thesis by (rule IH)
    qed
  qed (use less.prems in simp)
qed

definition wf_members :: "(js_string \<times> json) list \<Rightarrow> bool" where
  "wf_members kvs \<longleftrightarrow> distinct (map fst kvs) \<and> list_all (\<lambda>(k, v). wf_json v) kvs"

lemma obj_set_keys: "fst ` set (obj_set kvs k v) = insert k (fst ` set kvs)"
  by (induction kvs k v rule: obj_set.induct) auto

lemma wf_members_set: "wf_members kvs \<Longrightarrow> wf_json v \<Longrightarrow> wf_members (obj_set kvs k v)"
  by (induction kvs) (auto simp: wf_members_def obj_set_keys)

fun wf_frame :: "frame \<Rightarrow> bool" where
  "wf_frame (FArr xs) = list_all wf_json xs"
| "wf_frame (FObj kvs k) = wf_members kvs"

fun wf_mode :: "pmode \<Rightarrow> bool" where
  "wf_mode (MKey kvs) = wf_members kvs"
| "wf_mode (MColon kvs k) = wf_members kvs"
| "wf_mode (MDone v) = wf_json v"
| "wf_mode _ = True"

definition wf_state :: "pmode \<times> frame list \<Rightarrow> bool" where
  "wf_state s \<longleftrightarrow> wf_mode (fst s) \<and> list_all wf_frame (snd s)"

lemma wf_json_obj: "wf_json (JObj kvs) \<longleftrightarrow> wf_members kvs"
  by (simp add: wf_members_def)

lemma value_start_wf:
  "value_start t st = Some s \<Longrightarrow> (\<And>n. t = TNum n \<Longrightarrow> json_number n) \<Longrightarrow> list_all wf_frame st \<Longrightarrow> wf_state s"
  by (auto simp: value_start_def wf_state_def split: token.splits)

lemma pstep_wf:
  assumes "pstep t (m, st) = Some s" and "wf_state (m, st)" and "\<And>n. t = TNum n \<Longrightarrow> json_number n"
  shows "wf_state s"
proof (cases m)
  case (MDone v)
  then have v: "wf_json v" "list_all wf_frame st" using assms(2) by (simp_all add: wf_state_def)
  show ?thesis
  proof (cases st)
    case (Cons f st')
    then show ?thesis using assms(1) v MDone
      by (cases f) (auto simp: pstep_def wf_state_def wf_members_set wf_json_obj simp del: wf_json.simps(3) split: if_splits)
  qed (use assms(1) MDone in \<open>simp add: pstep_def\<close>)
qed (use assms value_start_wf in
    \<open>auto simp: pstep_def wf_state_def wf_members_def split: if_splits token.splits\<close>)

lemma prun_wf:
  "prun ts s = Some s' \<Longrightarrow> wf_state s \<Longrightarrow> (\<And>n. TNum n \<in> set ts \<Longrightarrow> json_number n) \<Longrightarrow> wf_state s'"
proof (induction ts arbitrary: s)
  case (Cons t ts)
  then obtain s1 where s1: "pstep t s = Some s1" "prun ts s1 = Some s'" by (auto split: option.splits)
  have "wf_state s1" using pstep_wf [of t "fst s" "snd s" s1] s1(1) Cons.prems by simp
  then show ?case using Cons.IH [OF s1(2)] Cons.prems(3) by simp
qed simp

lemma json_parse_wf: "json_parse s = Some v \<Longrightarrow> wf_json v"
proof -
  assume "json_parse s = Some v"
  then obtain ts where ts: "lex s = Some ts" "prun ts (MValue, []) = Some (MDone v, [])"
    by (auto simp: json_parse_def split: option.splits prod.splits pmode.splits list.splits)
  have "wf_state (MDone v, [])"
    by (rule prun_wf [OF ts(2)]) (use lex_numbers [OF ts(1)] in \<open>auto simp: wf_state_def\<close>)
  then show ?thesis by (simp add: wf_state_def)
qed

end
