(* ===== verification/Uri.thy ===== *)
theory Uri
  imports Js_Base
begin

text \<open>
  The URL text functions the API client builds its requests with: \<open>encodeURIComponent\<close> and the
  \<open>application/x-www-form-urlencoded\<close> serialisation of \<open>URLSearchParams\<close>, on Latin-1 strings
  (one or two UTF-8 bytes per character), and what a server does with the result: cut the path
  at \<open>?\<close> and \<open>/\<close>, remove dot segments, percent-decode.  The two encoders are interpretations
  of the codec interfaces of the prelude.
\<close>

section \<open>Percent encoding\<close>

definition utf8_char :: "char \<Rightarrow> nat list" where
  "utf8_char c =
     (if code c < 128 then [code c] else [192 + code c div 64, 128 + code c mod 64])"

definition hex_digit_upper :: "nat \<Rightarrow> char" where
  "hex_digit_upper n = ''0123456789ABCDEF'' ! n"

definition pct_byte :: "nat \<Rightarrow> js_string" where
  "pct_byte n = [CHR ''%'', hex_digit_upper (n div 16), hex_digit_upper (n mod 16)]"

definition uri_unreserved :: "char \<Rightarrow> bool" where
  "uri_unreserved c \<longleftrightarrow> is_alnum c \<or> c \<in> set ''-_.!~*()'' \<or> c = CHR 0x27"

definition enc_uri_char :: "char \<Rightarrow> js_string" where
  "enc_uri_char c = (if uri_unreserved c then [c] else concat (map pct_byte (utf8_char c)))"

definition encodeURIComponent :: "js_string \<Rightarrow> js_string" where
  "encodeURIComponent s = concat (map enc_uri_char s)"

definition hex_byte :: "char \<Rightarrow> char \<Rightarrow> nat option" where
  "hex_byte a b = digits_value 16 0 [a, b]"

text \<open>\<open>decodeURIComponent\<close>: \<open>None\<close> is the \<open>URIError\<close>.\<close>

fun decodeURIComponent :: "js_string \<Rightarrow> js_string option" where
  "decodeURIComponent [] = Some []"
| "decodeURIComponent (c # s) =
     (if c \<noteq> CHR ''%'' then map_option ((#) c) (decodeURIComponent s)
      else
        (case s of
           h1 # h2 # r \<Rightarrow>
             (case hex_byte h1 h2 of
                None \<Rightarrow> None
              | Some n \<Rightarrow>
                  if n < 128 then map_option ((#) (char_of n)) (decodeURIComponent r)
                  else if n = 194 \<or> n = 195 then
                    (case r of
                       p # g1 # g2 # r' \<Rightarrow>
                         (case (if p = CHR ''%'' then hex_byte g1 g2 else None) of
                            None \<Rightarrow> None
                          | Some m \<Rightarrow>
                              if 128 \<le> m \<and> m < 192
                              then map_option ((#) (char_of ((n - 192) * 64 + (m - 128))))
                                     (decodeURIComponent r')
                              else None)
                     | _ \<Rightarrow> None)
                  else None)
         | _ \<Rightarrow> None))"

lemma hex_value_upper [simp]: "n < 16 \<Longrightarrow> hex_value (hex_digit_upper n) = Some n"
  by (drule hex_cases) (elim insertE emptyE; simp add: hex_digit_upper_def hex_value_def is_digit_def)

lemma hex_digit_upper_alnum: "n < 16 \<Longrightarrow> is_alnum (hex_digit_upper n)"
  by (drule hex_cases) (elim insertE emptyE; simp add: hex_digit_upper_def char_class_defs)

lemma hex_byte_pct:
  "n < 256 \<Longrightarrow> hex_byte (hex_digit_upper (n div 16)) (hex_digit_upper (n mod 16)) = Some n"
proof -
  assume "n < 256"
  then have "n div 16 < 16" "n mod 16 < 16" by auto
  then show ?thesis by (simp add: hex_byte_def)
qed

lemma decode_one_byte: "n < 128 \<Longrightarrow>
  decodeURIComponent (pct_byte n @ r) = map_option ((#) (char_of n)) (decodeURIComponent r)"
  by (simp add: pct_byte_def hex_byte_pct)

lemma decode_two_bytes:
  assumes "n = 194 \<or> n = 195" and "128 \<le> m" "m < 192"
  shows "decodeURIComponent (pct_byte n @ pct_byte m @ r)
       = map_option ((#) (char_of ((n - 192) * 64 + (m - 128)))) (decodeURIComponent r)"
proof -
  have "n < 256" "m < 256" "\<not> n < 128" using assms by auto
  then show ?thesis using assms by (simp add: pct_byte_def hex_byte_pct)
qed

declare decodeURIComponent.simps(2) [simp del]

lemma decode_enc_char:
  "decodeURIComponent (enc_uri_char c @ r) = map_option ((#) c) (decodeURIComponent r)"
proof -
  consider "uri_unreserved c" | "\<not> uri_unreserved c" "code c < 128"
    | "\<not> uri_unreserved c" "\<not> code c < 128" by blast
  then show ?thesis
  proof cases
    case 1
    then have "c \<noteq> CHR ''%''" by (auto simp: uri_unreserved_def char_class_defs)
    with 1 show ?thesis by (simp add: enc_uri_char_def decodeURIComponent.simps(2))
  next
    case 2
    then show ?thesis by (simp add: enc_uri_char_def utf8_char_def decode_one_byte)
  next
    case 3
    let ?n = "192 + code c div 64" and ?m = "128 + code c mod 64"
    have c: "code c < 256" by simp
    have n: "?n = 194 \<or> ?n = 195" using 3 c by linarith
    have m: "128 \<le> ?m" "?m < 192" by auto
    have v: "(?n - 192) * 64 + (?m - 128) = code c" by simp
    have "decodeURIComponent (pct_byte ?n @ pct_byte ?m @ r)
        = map_option ((#) (char_of ((?n - 192) * 64 + (?m - 128)))) (decodeURIComponent r)"
      by (rule decode_two_bytes [OF n m])
    with v 3 show ?thesis by (simp add: enc_uri_char_def utf8_char_def)
  qed
qed

lemma decode_encode_append:
  "decodeURIComponent (encodeURIComponent s @ r) = map_option ((@) s) (decodeURIComponent r)"
proof (induction s)
  case Nil
  then show ?case by (simp add: encodeURIComponent_def option.map_id0 [unfolded id_def])
next
  case (Cons c s)
  have "encodeURIComponent (c # s) = enc_uri_char c @ encodeURIComponent s"
    by (simp add: encodeURIComponent_def)
  with Cons show ?case
    by (cases "decodeURIComponent r") (simp_all add: decode_enc_char)
qed

lemma decode_encode [simp]: "decodeURIComponent (encodeURIComponent s) = Some s"
  using decode_encode_append [of s "[]"] by simp

text \<open>The alphabet of the encoded text: unreserved characters, the percent sign and digits.\<close>

lemma pct_byte_chars: "n < 256 \<Longrightarrow> c \<in> set (pct_byte n) \<Longrightarrow> c = CHR ''%'' \<or> is_alnum c"
  by (auto simp: pct_byte_def hex_digit_upper_alnum)

lemma utf8_char_bytes: "n \<in> set (utf8_char c) \<Longrightarrow> n < 256"
proof -
  assume n: "n \<in> set (utf8_char c)"
  have "code c div 64 < 4" by (simp add: less_mult_imp_div_less)
  with n show ?thesis by (auto simp: utf8_char_def split: if_splits)
qed

lemma enc_uri_char_alphabet: "d \<in> set (enc_uri_char c) \<Longrightarrow> d = CHR ''%'' \<or> uri_unreserved d"
  by (auto simp: enc_uri_char_def uri_unreserved_def split: if_splits
      dest: utf8_char_bytes pct_byte_chars)

lemma encode_alphabet: "d \<in> set (encodeURIComponent s) \<Longrightarrow> d = CHR ''%'' \<or> uri_unreserved d"
  by (auto simp: encodeURIComponent_def dest: enc_uri_char_alphabet)

lemma encode_no_delims:
  "CHR ''/'' \<notin> set (encodeURIComponent s)" "CHR ''?'' \<notin> set (encodeURIComponent s)"
  "CHR ''#'' \<notin> set (encodeURIComponent s)" "CHR ''&'' \<notin> set (encodeURIComponent s)"
  "CHR ''='' \<notin> set (encodeURIComponent s)"
  by (auto dest!: encode_alphabet simp: uri_unreserved_def char_class_defs)

interpretation uri_segment: segment_codec encodeURIComponent decodeURIComponent "\<lambda>_. True" "CHR ''/''"
  by unfold_locales (simp_all add: encode_no_delims)

section \<open>URLSearchParams\<close>

definition form_safe :: "char \<Rightarrow> bool" where
  "form_safe c \<longleftrightarrow> is_alnum c \<or> c \<in> set ''*-._''"

definition enc_form_char :: "char \<Rightarrow> js_string" where
  "enc_form_char c =
     (if form_safe c then [c]
      else if c = CHR '' '' then ''+''
      else concat (map pct_byte (utf8_char c)))"

definition enc_form :: "js_string \<Rightarrow> js_string" where
  "enc_form s = concat (map enc_form_char s)"

definition dec_form :: "js_string \<Rightarrow> js_string option" where
  "dec_form s = decodeURIComponent (map (\<lambda>c. if c = CHR ''+'' then CHR '' '' else c) s)"

type_synonym search_params = "(js_string \<times> js_string) list"

text \<open>\<open>set\<close>: replace the first pair of that name and drop the others, or append.\<close>

definition usp_set :: "search_params \<Rightarrow> js_string \<Rightarrow> js_string \<Rightarrow> search_params" where
  "usp_set ps k v =
     (if k \<in> fst ` set ps
      then (let pre = takeWhile (\<lambda>p. fst p \<noteq> k) ps; post = dropWhile (\<lambda>p. fst p \<noteq> k) ps
            in pre @ (k, v) # filter (\<lambda>p. fst p \<noteq> k) (tl post))
      else ps @ [(k, v)])"

definition usp_to_string :: "search_params \<Rightarrow> js_string" where
  "usp_to_string ps = join ''&'' (map (\<lambda>(k, v). enc_form k @ ''='' @ enc_form v) ps)"

lemma usp_set_fresh: "k \<notin> fst ` set ps \<Longrightarrow> usp_set ps k v = ps @ [(k, v)]"
  by (simp add: usp_set_def)

text \<open>A query string read back: the pairs at \<open>&\<close>, each cut at its first \<open>=\<close>.\<close>

definition read_pair :: "js_string \<Rightarrow> (js_string \<times> js_string) option" where
  "read_pair s =
     (case (dec_form (takeWhile (\<lambda>c. c \<noteq> CHR ''='') s),
            dec_form (drop 1 (dropWhile (\<lambda>c. c \<noteq> CHR ''='') s))) of
        (Some k, Some v) \<Rightarrow> Some (k, v) | _ \<Rightarrow> None)"

definition parse_query :: "js_string \<Rightarrow> search_params option" where
  "parse_query s =
     (if s = [] then Some [] else those (map read_pair (split_on (CHR ''&'') s)))"

abbreviation unplus :: "char \<Rightarrow> char" where
  "unplus c \<equiv> if c = CHR ''+'' then CHR '' '' else c"

lemma unplus_bytes: "(\<And>n. n \<in> set ns \<Longrightarrow> n < 256) \<Longrightarrow> map unplus (concat (map pct_byte ns)) = concat (map pct_byte ns)"
proof (rule map_idI)
  fix c assume b: "\<And>n. n \<in> set ns \<Longrightarrow> n < 256" and "c \<in> set (concat (map pct_byte ns))"
  then have "c = CHR ''%'' \<or> is_alnum c" using pct_byte_chars by fastforce
  then show "unplus c = c" by (auto simp: char_class_defs)
qed

lemma dec_form_char: "decodeURIComponent (map unplus (enc_form_char c) @ r) = map_option ((#) c) (decodeURIComponent r)"
proof -
  consider "form_safe c" | "\<not> form_safe c" "c = CHR '' ''" | "\<not> form_safe c" "c \<noteq> CHR '' ''" by blast
  then show ?thesis
  proof cases
    case 1
    then have "c \<noteq> CHR ''%''" "c \<noteq> CHR ''+''" by (auto simp: form_safe_def char_class_defs)
    with 1 show ?thesis by (simp add: enc_form_char_def decodeURIComponent.simps(2))
  next
    case 2
    then show ?thesis by (simp add: enc_form_char_def decodeURIComponent.simps(2))
  next
    case 3
    have m: "map unplus (concat (map pct_byte (utf8_char c))) = concat (map pct_byte (utf8_char c))"
      by (rule unplus_bytes) (rule utf8_char_bytes)
    show ?thesis
    proof (cases "uri_unreserved c")
      case False
      then show ?thesis using 3 m decode_enc_char [of c r] by (simp add: enc_form_char_def enc_uri_char_def)
    next
      case True
      then have "code c < 128" by (auto simp: uri_unreserved_def char_class_defs)
      with 3 m show ?thesis by (simp add: enc_form_char_def utf8_char_def decode_one_byte)
    qed
  qed
qed

lemma dec_form_enc_form [simp]: "dec_form (enc_form s) = Some s"
proof (induction s)
  case Nil
  then show ?case by (simp add: dec_form_def enc_form_def)
next
  case (Cons c s)
  have "map unplus (enc_form (c # s)) = map unplus (enc_form_char c) @ map unplus (enc_form s)"
    by (simp add: enc_form_def)
  with Cons show ?case unfolding dec_form_def by (simp add: dec_form_char del: map_append)
qed

lemma enc_form_alphabet: "d \<in> set (enc_form s) \<Longrightarrow> d = CHR ''%'' \<or> d = CHR ''+'' \<or> form_safe d"
proof -
  assume "d \<in> set (enc_form s)"
  then obtain c where d: "d \<in> set (enc_form_char c)" by (auto simp: enc_form_def)
  have "d = CHR ''%'' \<or> is_alnum d" if "n \<in> set (utf8_char c)" "d \<in> set (pct_byte n)" for n
    using that utf8_char_bytes pct_byte_chars by blast
  with d show ?thesis by (auto simp: enc_form_char_def form_safe_def split: if_splits)
qed

lemma enc_form_no_delims:
  "CHR ''='' \<notin> set (enc_form s)" "CHR ''&'' \<notin> set (enc_form s)" "CHR ''#'' \<notin> set (enc_form s)"
  "CHR ''?'' \<notin> set (enc_form s)"
  by (auto dest!: enc_form_alphabet simp: form_safe_def char_class_defs)

interpretation form_pair: segment_codec enc_form dec_form "\<lambda>_. True" "CHR ''&''"
  by unfold_locales (simp_all add: enc_form_no_delims)

lemma takeWhile_upto: "x \<notin> set k \<Longrightarrow> takeWhile (\<lambda>c. c \<noteq> x) (k @ x # v) = k"
  by (induction k) auto

lemma dropWhile_upto: "x \<notin> set k \<Longrightarrow> dropWhile (\<lambda>c. c \<noteq> x) (k @ x # v) = x # v"
  by (induction k) auto

lemma read_pair_enc: "read_pair (enc_form k @ CHR ''='' # enc_form v) = Some (k, v)"
  by (simp add: read_pair_def takeWhile_upto dropWhile_upto enc_form_no_delims)

lemma those_map_Some: "(\<And>x. x \<in> set xs \<Longrightarrow> f x = Some (g x)) \<Longrightarrow> those (map f xs) = Some (map g xs)"
  by (induction xs) auto

lemma parse_query_usp: "parse_query (usp_to_string ps) = Some ps"
proof (cases "ps = []")
  case True
  then show ?thesis by (simp add: parse_query_def usp_to_string_def)
next
  case False
  let ?f = "\<lambda>(k, v). enc_form k @ ''='' @ enc_form v"
  have ne: "usp_to_string ps \<noteq> []"
    using False by (cases ps; cases "tl ps") (auto simp: usp_to_string_def)
  have sp: "split_on (CHR ''&'') (usp_to_string ps) = map ?f ps"
    unfolding usp_to_string_def
    by (rule split_on_join) (use False in \<open>auto simp: enc_form_no_delims\<close>)
  have "those (map read_pair (map ?f ps)) = Some (map id ps)"
    unfolding list.map_comp by (rule those_map_Some) (auto simp: read_pair_enc)
  then show ?thesis using ne sp by (simp add: parse_query_def)
qed

interpretation query_codec: codec usp_to_string parse_query "\<lambda>_. True"
  by unfold_locales (rule parse_query_usp)

section \<open>What the server reads\<close>

text \<open>
  The client passes root-relative paths to \<open>fetch\<close>; the URL parser drops the fragment, cuts
  the query at the first \<open>?\<close>, splits the path at \<open>/\<close> and removes the segments \<open>.\<close> and
  \<open>..\<close> (also in their percent-encoded spelling) before the request is sent.  The server then
  decodes each segment.
\<close>

definition url_path :: "js_string \<Rightarrow> js_string" where
  "url_path u = takeWhile (\<lambda>c. c \<noteq> CHR ''?'') (takeWhile (\<lambda>c. c \<noteq> CHR ''#'') u)"

definition url_query :: "js_string \<Rightarrow> js_string" where
  "url_query u = drop 1 (dropWhile (\<lambda>c. c \<noteq> CHR ''?'') (takeWhile (\<lambda>c. c \<noteq> CHR ''#'') u))"

definition single_dot :: "js_string \<Rightarrow> bool" where
  "single_dot s \<longleftrightarrow> toLowerCase s \<in> {''.'', ''%2e''}"

definition double_dot :: "js_string \<Rightarrow> bool" where
  "double_dot s \<longleftrightarrow> toLowerCase s \<in> {''..'', ''.%2e'', ''%2e.'', ''%2e%2e''}"

fun remove_dots :: "js_string list \<Rightarrow> js_string list \<Rightarrow> js_string list" where
  "remove_dots out [] = out"
| "remove_dots out (s # ss) =
     (if double_dot s then remove_dots (butlast out @ (if ss = [] then [[]] else [])) ss
      else if single_dot s then remove_dots (out @ (if ss = [] then [[]] else [])) ss
      else remove_dots (out @ [s]) ss)"

definition route :: "js_string \<Rightarrow> js_string list option" where
  "route u =
     (case split_on (CHR ''/'') (url_path u) of
        [] # segs \<Rightarrow> those (map decodeURIComponent (remove_dots [] segs))
      | _ \<Rightarrow> None)"

definition query_of :: "js_string \<Rightarrow> search_params option" where
  "query_of u = parse_query (url_query u)"

text \<open>A path value that the URL parser would treat as a dot segment.\<close>

definition dot_segment :: "js_string \<Rightarrow> bool" where
  "dot_segment s \<longleftrightarrow> s = ''.'' \<or> s = ''..''"

lemma lower_char_eq_iff:
  "lower_char c = d \<longleftrightarrow>
     (if (65 \<le> code c \<and> code c \<le> 90) \<or> (192 \<le> code c \<and> code c \<le> 222 \<and> code c \<noteq> 215)
      then code d = code c + (32::nat) else c = d)"
proof -
  have "code c + 32 < (256::nat)" if "code c \<le> (222::nat)" using that by simp
  moreover have "char_of (code c + 32 :: nat) = d" if "code d = code c + (32::nat)"
    using that by (metis char_of_char)
  ultimately show ?thesis by (auto simp: lower_char_def Let_def)
qed

lemma lower_char_eqs:
  "lower_char c = CHR ''.'' \<longleftrightarrow> c = CHR ''.''"
  "lower_char c = CHR ''%'' \<longleftrightarrow> c = CHR ''%''"
  "lower_char c = CHR ''2'' \<longleftrightarrow> c = CHR ''2''"
  "lower_char c = CHR ''e'' \<longleftrightarrow> c = CHR ''e'' \<or> c = CHR ''E''"
proof -
  have e: "c = CHR ''E'' \<longleftrightarrow> code c = (69::nat)" using code_inject [of c "CHR ''E''"] by simp
  show "lower_char c = CHR ''.'' \<longleftrightarrow> c = CHR ''.''" "lower_char c = CHR ''%'' \<longleftrightarrow> c = CHR ''%''"
    "lower_char c = CHR ''2'' \<longleftrightarrow> c = CHR ''2''"
    "lower_char c = CHR ''e'' \<longleftrightarrow> c = CHR ''e'' \<or> c = CHR ''E''"
    by (auto simp: lower_char_eq_iff e)
qed

lemma dots_decode:
  "single_dot t \<Longrightarrow> decodeURIComponent t = Some ''.''"
  "double_dot t \<Longrightarrow> decodeURIComponent t = Some ''..''"
proof -
  have h: "hex_byte (CHR ''2'') (CHR ''e'') = Some 46" "hex_byte (CHR ''2'') (CHR ''E'') = Some 46"
    by (simp_all add: hex_byte_def hex_value_def is_digit_def)
  have "(46::nat) = code (CHR ''.'')" by simp
  then have c: "char_of (46::nat) = CHR ''.''" by (simp only: char_of_char)
  show "single_dot t \<Longrightarrow> decodeURIComponent t = Some ''.''"
    by (auto simp: single_dot_def toLowerCase_def map_eq_Cons_conv lower_char_eqs
        decodeURIComponent.simps(2) h c)
  show "double_dot t \<Longrightarrow> decodeURIComponent t = Some ''..''"
    by (auto simp: double_dot_def toLowerCase_def map_eq_Cons_conv lower_char_eqs
        decodeURIComponent.simps(2) h c)
qed

lemma encode_not_dot:
  "\<not> dot_segment s \<Longrightarrow> \<not> single_dot (encodeURIComponent s) \<and> \<not> double_dot (encodeURIComponent s)"
  using dots_decode [of "encodeURIComponent s"] by (auto simp: dot_segment_def)

text \<open>Literal segments: lower-case letters, digits and the punctuation the routes use.\<close>

definition plain_segment :: "js_string \<Rightarrow> bool" where
  "plain_segment s \<longleftrightarrow> list_all (\<lambda>c. is_lower c \<or> is_digit c \<or> c = CHR ''-'') s \<or> s = ''.well-known'' \<or> s = ''jwks.json''"

lemma decode_plain: "CHR ''%'' \<notin> set s \<Longrightarrow> decodeURIComponent s = Some s"
  by (induction s) (auto simp: decodeURIComponent.simps(2))

lemma plain_no_pct: "plain_segment s \<Longrightarrow> CHR ''%'' \<notin> set s"
  by (auto simp: plain_segment_def list_all_iff is_lower_def is_digit_def)

lemma plain_not_dot: "plain_segment s \<Longrightarrow> \<not> single_dot s \<and> \<not> double_dot s"
proof -
  assume p: "plain_segment s"
  then have d: "decodeURIComponent s = Some s" by (intro decode_plain plain_no_pct)
  have "s \<noteq> ''.''" "s \<noteq> ''..''"
    using p by (auto simp: plain_segment_def is_lower_def is_digit_def)
  with d dots_decode [of s] show ?thesis by auto
qed

text \<open>
  A route is a list of pieces, each a literal segment or an encoded value; \<open>path_of\<close> is the text
  of the template literal, \<open>route_pieces\<close> what the server reads.
\<close>

datatype piece = Lit js_string | Val js_string

fun piece_text :: "piece \<Rightarrow> js_string" where
  "piece_text (Lit s) = s"
| "piece_text (Val v) = encodeURIComponent v"

fun piece_value :: "piece \<Rightarrow> js_string" where
  "piece_value (Lit s) = s"
| "piece_value (Val v) = v"

fun piece_ok :: "piece \<Rightarrow> bool" where
  "piece_ok (Lit s) = plain_segment s"
| "piece_ok (Val v) = (\<not> dot_segment v)"

definition path_of :: "piece list \<Rightarrow> js_string" where
  "path_of ps = concat (map (\<lambda>p. CHR ''/'' # piece_text p) ps)"

lemma piece_text_no_delims:
  "piece_ok p \<Longrightarrow> CHR ''/'' \<notin> set (piece_text p)"
  "piece_ok p \<Longrightarrow> CHR ''?'' \<notin> set (piece_text p)"
  "piece_ok p \<Longrightarrow> CHR ''#'' \<notin> set (piece_text p)"
  by (cases p; auto simp: encode_no_delims plain_segment_def list_all_iff is_lower_def is_digit_def)+

lemma piece_text_decode: "piece_ok p \<Longrightarrow> decodeURIComponent (piece_text p) = Some (piece_value p)"
  by (cases p) (simp_all add: decode_plain plain_no_pct)

lemma piece_text_not_dot: "piece_ok p \<Longrightarrow> \<not> single_dot (piece_text p) \<and> \<not> double_dot (piece_text p)"
  by (cases p) (simp_all add: encode_not_dot plain_not_dot)

lemma remove_dots_id:
  "(\<And>s. s \<in> set ss \<Longrightarrow> \<not> single_dot s \<and> \<not> double_dot s) \<Longrightarrow> remove_dots out ss = out @ ss"
  by (induction ss arbitrary: out) auto

lemma split_on_append_both: "split_on c (xs @ c # ys) = split_on c xs @ split_on c ys"
  by (induction xs) (auto split: list.splits)

lemma split_path_of:
  "list_all piece_ok ps \<Longrightarrow> split_on (CHR ''/'') (path_of ps) = [] # map piece_text ps"
proof (induction ps rule: rev_induct)
  case Nil
  then show ?case by (simp add: path_of_def)
next
  case (snoc p ps)
  from snoc have "split_on (CHR ''/'') (piece_text p) = [piece_text p]"
    by (intro split_on_no_sep piece_text_no_delims) auto
  with snoc show ?case by (simp add: path_of_def split_on_append_both)
qed

lemma path_of_no_delims:
  "list_all piece_ok ps \<Longrightarrow> \<forall>c \<in> set (path_of ps). c \<noteq> CHR ''?'' \<and> c \<noteq> CHR ''#''"
proof
  fix c assume ok: "list_all piece_ok ps" and "c \<in> set (path_of ps)"
  then have "c = CHR ''/'' \<or> (\<exists>p \<in> set ps. c \<in> set (piece_text p))"
    unfolding path_of_def set_concat by (auto split: if_splits)
  with ok piece_text_no_delims show "c \<noteq> CHR ''?'' \<and> c \<noteq> CHR ''#''"
    by (auto simp: list_all_iff)
qed

lemma no_query_path: "\<forall>c \<in> set u. c \<noteq> CHR ''?'' \<and> c \<noteq> CHR ''#'' \<Longrightarrow> url_path u = u"
proof -
  assume n: "\<forall>c \<in> set u. c \<noteq> CHR ''?'' \<and> c \<noteq> CHR ''#''"
  then have t: "takeWhile (\<lambda>c. c \<noteq> CHR ''#'') u = u" by (simp add: takeWhile_eq_all_conv)
  have "takeWhile (\<lambda>c. c \<noteq> CHR ''?'') u = u" using n by (simp add: takeWhile_eq_all_conv)
  then show ?thesis unfolding url_path_def t .
qed

lemma no_query_query: "\<forall>c \<in> set u. c \<noteq> CHR ''?'' \<and> c \<noteq> CHR ''#'' \<Longrightarrow> url_query u = []"
proof -
  assume n: "\<forall>c \<in> set u. c \<noteq> CHR ''?'' \<and> c \<noteq> CHR ''#''"
  then have t: "takeWhile (\<lambda>c. c \<noteq> CHR ''#'') u = u" by (simp add: takeWhile_eq_all_conv)
  have d: "dropWhile (\<lambda>c. c \<noteq> CHR ''?'') u = []" using n by (simp add: dropWhile_eq_Nil_conv)
  show ?thesis unfolding url_query_def t d by simp
qed

definition query_suffix :: "js_string \<Rightarrow> bool" where
  "query_suffix q \<longleftrightarrow> q = [] \<or> hd q = CHR ''?''"

lemma route_path_of:
  assumes "list_all piece_ok ps" and "query_suffix q"
  shows "route (path_of ps @ q) = Some (map piece_value ps)"
proof -
  have p: "url_path (path_of ps @ q) = path_of ps"
  proof -
    have "takeWhile (\<lambda>c. c \<noteq> CHR ''#'') (path_of ps @ q) = path_of ps @ takeWhile (\<lambda>c. c \<noteq> CHR ''#'') q"
      using path_of_no_delims [OF assms(1)] by (intro takeWhile_append2) auto
    moreover have "takeWhile (\<lambda>c. c \<noteq> CHR ''?'') (path_of ps @ takeWhile (\<lambda>c. c \<noteq> CHR ''#'') q)
        = path_of ps @ takeWhile (\<lambda>c. c \<noteq> CHR ''?'') (takeWhile (\<lambda>c. c \<noteq> CHR ''#'') q)"
      using path_of_no_delims [OF assms(1)] by (intro takeWhile_append2) auto
    moreover have "takeWhile (\<lambda>c. c \<noteq> CHR ''?'') (takeWhile (\<lambda>c. c \<noteq> CHR ''#'') q) = []"
      using assms(2) by (cases q) (auto simp: query_suffix_def)
    ultimately show ?thesis by (simp add: url_path_def)
  qed
  have "remove_dots [] (map piece_text ps) = map piece_text ps"
    using remove_dots_id [of "map piece_text ps" "[]"] piece_text_not_dot assms(1)
    by (auto simp: list_all_iff)
  moreover have "those (map decodeURIComponent (map piece_text ps)) = Some (map piece_value ps)"
    unfolding list.map_comp
    by (rule those_map_Some) (use assms(1) piece_text_decode in \<open>auto simp: list_all_iff\<close>)
  ultimately show ?thesis using split_path_of [OF assms(1)] by (simp add: route_def p)
qed

lemma usp_no_hash: "CHR ''#'' \<notin> set (usp_to_string qs)"
proof -
  have "set (usp_to_string qs) \<subseteq> set ''&'' \<union> (\<Union>x \<in> set (map (\<lambda>(k, v). enc_form k @ ''='' @ enc_form v) qs). set x)"
    unfolding usp_to_string_def by (rule set_join_subset)
  then show ?thesis by (auto simp: enc_form_no_delims)
qed

lemma query_path_of:
  assumes "list_all piece_ok ps" and "CHR ''#'' \<notin> set q"
  shows "url_query (path_of ps @ ''?'' @ q) = q"
proof -
  have p: "\<forall>c \<in> set (path_of ps). c \<noteq> CHR ''?'' \<and> c \<noteq> CHR ''#''"
    by (rule path_of_no_delims [OF assms(1)])
  then have t: "takeWhile (\<lambda>c. c \<noteq> CHR ''#'') (path_of ps @ CHR ''?'' # q) = path_of ps @ CHR ''?'' # q"
    using assms(2) by (auto simp: takeWhile_eq_all_conv)
  have d: "dropWhile (\<lambda>c. c \<noteq> CHR ''?'') (path_of ps @ CHR ''?'' # q) = CHR ''?'' # q"
    using p by (intro dropWhile_upto) auto
  show ?thesis unfolding url_query_def append_Cons append_Nil t d by simp
qed

end
