(* ===== verification/Http.thy ===== *)
theory Http
  imports Json Uri
begin

text \<open>
  The HTTP layer of the web client, \<^verbatim>\<open>web/src/lib/api/http.ts\<close>: the error class, the JSON
  fetch with its error extraction, the request builder and the two URL guards.

  The network is a parameter \<open>net\<close>: it answers a request given the requests sent before it, so
  that the same request may be answered differently over time (as polling needs).  An operation
  takes the network and the log of requests sent so far and returns its result with the longer
  log; a rejected promise is \<open>Inl\<close> of an error.  The WHATWG URL parser is a parameter \<open>URL\<close>
  of the two guards.
\<close>

section \<open>Requests, responses and effects\<close>

record request =
  req_method :: js_string
  req_url :: js_string
  req_headers :: "(js_string \<times> js_string) list"
  req_body :: "js_string option"

record response =
  res_status :: nat
  res_url :: js_string
  res_content_type :: "js_string option"
  res_body :: js_string

datatype fetch_outcome = FetchFailed js_string | Fetched response

type_synonym net = "request list \<Rightarrow> request \<Rightarrow> fetch_outcome"

datatype js_error =
    ApiError js_string nat "js_string option"
  | TypeError js_string
  | SyntaxError
  | AbortError
  | InvalidCharacterError
  | DomException js_string
  | Error js_string

type_synonym 'a io = "net \<Rightarrow> request list \<Rightarrow> (js_error + 'a) \<times> request list"

definition fetch :: "request \<Rightarrow> net \<Rightarrow> request list \<Rightarrow> fetch_outcome \<times> request list" where
  "fetch r net log = (net log r, log @ [r])"

text \<open>\<open>promise.then(f)\<close>, where \<open>f\<close> may throw.\<close>

definition io_then :: "('a \<Rightarrow> js_error + 'b) \<Rightarrow> 'a io \<Rightarrow> 'b io" where
  "io_then f m net log = (case m net log of (Inl e, l) \<Rightarrow> (Inl e, l) | (Inr x, l) \<Rightarrow> (f x, l))"

section \<open>Errors\<close>

definition isJsonObject :: "json \<Rightarrow> bool" where
  "isJsonObject j = (case j of JObj _ \<Rightarrow> True | _ \<Rightarrow> False)"

definition string_member :: "json \<Rightarrow> js_string \<Rightarrow> js_string option" where
  "string_member j k = (case obj_get j k of Some (JStr s) \<Rightarrow> Some s | _ \<Rightarrow> None)"

record extracted_error =
  ex_message :: "js_string option"
  ex_code :: "js_string option"

definition first_truthy :: "js_string option \<Rightarrow> js_string option \<Rightarrow> js_string option" where
  "first_truthy a b = (if truthy a then a else b)"

definition extractApiError :: "json \<Rightarrow> extracted_error" where
  "extractApiError body =
     (if \<not> isJsonObject body then \<lparr>ex_message = None, ex_code = None\<rparr>
      else
        (let topMessage = string_member body ''message'';
             topCode = string_member body ''code'';
             nested = (case obj_get body ''error'' of
                         Some e \<Rightarrow> if isJsonObject e then Some e else None | None \<Rightarrow> None);
             nestedMessage = (case nested of None \<Rightarrow> None | Some n \<Rightarrow> string_member n ''message'');
             nestedCode = (case nested of None \<Rightarrow> None | Some n \<Rightarrow> string_member n ''code'')
         in \<lparr>ex_message = first_truthy topMessage nestedMessage,
             ex_code = first_truthy topCode nestedCode\<rparr>))"

section \<open>fetchJson and jsonRequest\<close>

definition res_ok :: "response \<Rightarrow> bool" where
  "res_ok res \<longleftrightarrow> 200 \<le> res_status res \<and> res_status res \<le> 299"

definition response_is_json :: "response \<Rightarrow> bool" where
  "response_is_json res \<longleftrightarrow> js_includes (opt_or (res_content_type res) '''') ''application/json''"

definition response_json :: "response \<Rightarrow> js_error + json" where
  "response_json res = (case json_parse (res_body res) of None \<Rightarrow> Inl SyntaxError | Some v \<Rightarrow> Inr v)"

definition default_message :: "response \<Rightarrow> js_string" where
  "default_message res = ''request failed ('' @ string_of_nat (res_status res) @ '')''"

definition read_response :: "response \<Rightarrow> js_error + json" where
  "read_response res =
     (if res_ok res then
        (if \<not> response_is_json res
         then Inl (ApiError (''expected JSON response from '' @ res_url res) (res_status res) None)
         else response_json res)
      else if response_is_json res then
        (let body = (case response_json res of Inl _ \<Rightarrow> JNull | Inr b \<Rightarrow> b);
             extracted = extractApiError body;
             message = (if truthy (ex_message extracted) then the (ex_message extracted)
                        else default_message res)
         in Inl (ApiError message (res_status res) (ex_code extracted)))
      else Inl (ApiError (default_message res) (res_status res) None))"

definition fetchJson :: "request \<Rightarrow> json io" where
  "fetchJson r net log =
     (case fetch r net log of
        (FetchFailed msg, l) \<Rightarrow> (Inl (TypeError msg), l)
      | (Fetched res, l) \<Rightarrow> (read_response res, l))"

definition json_headers :: "(js_string \<times> js_string) list" where
  "json_headers = [(''content-type'', ''application/json'')]"

text \<open>\<open>jsonRequest(body)\<close>: the headers and the body to spread into a request.\<close>

definition jsonRequest :: "json \<Rightarrow> (js_string \<times> js_string) list \<times> js_string option" where
  "jsonRequest body = (json_headers, Some (json_stringify body))"

section \<open>URL guards\<close>

record parsed_url =
  protocol :: js_string
  origin :: js_string
  hostname :: js_string

type_synonym url_parser = "js_string \<Rightarrow> js_string option \<Rightarrow> parsed_url option"

definition safeHref :: "url_parser \<Rightarrow> js_string option \<Rightarrow> js_string option" where
  "safeHref URL url =
     (case url of
        None \<Rightarrow> None
      | Some u \<Rightarrow>
          if u = [] then None
          else (case URL u None of
                  None \<Rightarrow> None
                | Some p \<Rightarrow> if protocol p = ''https:'' \<or> protocol p = ''http:'' then Some u else None))"

definition allowed_checkout_hosts :: "js_string list" where
  "allowed_checkout_hosts = [''checkout.stripe.com'']"

definition isSafeRedirectUrl :: "url_parser \<Rightarrow> js_string \<Rightarrow> js_string \<Rightarrow> bool" where
  "isSafeRedirectUrl URL location_origin url =
     (case URL url (Some location_origin) of
        None \<Rightarrow> False
      | Some p \<Rightarrow>
          if protocol p \<noteq> ''https:'' then False
          else if origin p = location_origin then True
          else hostname p \<in> set allowed_checkout_hosts)"

section \<open>Lemmas\<close>

lemma fetchJson_log [simp]: "snd (fetchJson r net log) = log @ [r]"
  by (simp add: fetchJson_def fetch_def split: fetch_outcome.splits)

lemma fetchJson_result:
  "fst (fetchJson r net log) =
     (case net log r of FetchFailed msg \<Rightarrow> Inl (TypeError msg) | Fetched res \<Rightarrow> read_response res)"
  by (simp add: fetchJson_def fetch_def split: fetch_outcome.splits)

lemma io_then_log [simp]: "snd (io_then f m net log) = snd (m net log)"
  by (auto simp: io_then_def split: prod.splits sum.splits)

lemma default_message_ne: "default_message res \<noteq> []"
  by (simp add: default_message_def)

lemma truthy_the: "truthy a \<Longrightarrow> the a \<noteq> []"
  by (auto simp: truthy_def split: option.splits)

lemma read_response_ok_iff:
  "read_response res = Inr v \<longleftrightarrow>
     res_ok res \<and> response_is_json res \<and> json_parse (res_body res) = Some v"
  by (auto simp: read_response_def response_json_def Let_def split: option.splits if_splits)

lemma read_response_error:
  "\<not> res_ok res \<Longrightarrow>
     \<exists>msg c. read_response res = Inl (ApiError msg (res_status res) c) \<and> msg \<noteq> []"
  by (auto simp: read_response_def Let_def default_message_ne truthy_the)

text \<open>C1. \<open>fetchJson\<close> sends exactly the given request and resolves to \<open>v\<close> if and only if the
  network answered with a status in 200..299, a content type containing \<open>application/json\<close> and a
  body that parses to \<open>v\<close>.\<close>

theorem fetchJson_resolves_iff:
  "fetchJson r net log = (Inr v, log') \<longleftrightarrow>
     log' = log @ [r] \<and>
     (\<exists>res. net log r = Fetched res \<and> res_ok res \<and> response_is_json res
        \<and> json_parse (res_body res) = Some v)"
  by (auto simp: fetchJson_def fetch_def read_response_ok_iff split: fetch_outcome.splits)

text \<open>The text that an error body gives under the name \<open>k\<close>: its own member, and only without one that is not empty the
  member of its \<open>error\<close> object.\<close>

definition names_text :: "json \<Rightarrow> js_string \<Rightarrow> js_string \<Rightarrow> bool" where
  "names_text body k t \<longleftrightarrow>
     t \<noteq> [] \<and>
     (string_member body k = Some t \<or>
      \<not> truthy (string_member body k) \<and> (\<exists>e. obj_get body ''error'' = Some e \<and> string_member e k = Some t))"

lemma member_object: "string_member v k = Some t \<Longrightarrow> isJsonObject v" "obj_get v k = Some x \<Longrightarrow> isJsonObject v"
  by (auto simp: string_member_def obj_get_def isJsonObject_def split: option.splits json.splits)

lemma names_text_extracted:
  "names_text body ''message'' t \<Longrightarrow> ex_message (extractApiError body) = Some t"
  "names_text body ''code'' t \<Longrightarrow> ex_code (extractApiError body) = Some t"
  by (auto simp: names_text_def extractApiError_def Let_def first_truthy_def truthy_def dest: member_object split: option.splits)

text \<open>C2. Every answer outside 200..299 is reported as an \<open>ApiError\<close> that carries its status, a message that is not empty
  and the server's code: for a JSON body the message and the code are the body's own texts, else those of its
  \<open>error\<close> object; without them there is the default message.\<close>

theorem fetchJson_http_error:
  assumes "net log r = Fetched res" and "\<not> res_ok res"
  shows "\<exists>msg c. fetchJson r net log = (Inl (ApiError msg (res_status res) c), log @ [r]) \<and> msg \<noteq> [] \<and>
     (\<forall>body t. response_is_json res \<longrightarrow> json_parse (res_body res) = Some body \<longrightarrow>
        (names_text body ''message'' t \<longrightarrow> msg = t) \<and> (names_text body ''code'' t \<longrightarrow> c = Some t))"
proof -
  obtain msg c where e: "read_response res = Inl (ApiError msg (res_status res) c)" "msg \<noteq> []"
    using read_response_error [OF assms(2)] by blast
  have "(names_text body ''message'' t \<longrightarrow> msg = t) \<and> (names_text body ''code'' t \<longrightarrow> c = Some t)"
    if "response_is_json res" "json_parse (res_body res) = Some body" for body t
    using e(1) assms(2) that names_text_extracted [of body t]
    by (auto simp: read_response_def Let_def response_json_def truthy_def names_text_def)
  moreover have "fetchJson r net log = (Inl (ApiError msg (res_status res) c), log @ [r])"
    using assms(1) e(1) by (simp add: fetchJson_def fetch_def)
  ultimately show ?thesis using e(2) by blast
qed

definition sample_404 :: response where
  "sample_404 = \<lparr>res_status = 404, res_url = ''/x'', res_content_type = Some ''application/json'',
     res_body = [CHR ''{'', quote_char] @ ''message'' @ [quote_char, CHR '':'', quote_char] @ ''gone''
        @ [quote_char, CHR ''}'']\<rparr>"

theorem fetchJson_http_error_witness:
  "\<exists>msg c. fetchJson \<lparr>req_method = ''GET'', req_url = ''/x'', req_headers = [], req_body = None\<rparr>
       (\<lambda>_ _. Fetched sample_404) [] =
     (Inl (ApiError msg 404 c), [\<lparr>req_method = ''GET'', req_url = ''/x'', req_headers = [], req_body = None\<rparr>])"
  using fetchJson_http_error [of "\<lambda>_ _. Fetched sample_404" "[]"
      "\<lparr>req_method = ''GET'', req_url = ''/x'', req_headers = [], req_body = None\<rparr>" sample_404]
  by (auto simp: sample_404_def res_ok_def)


definition sample_200 :: response where
  "sample_200 = \<lparr>res_status = 200, res_url = ''/x'', res_content_type = Some ''application/json'',
     res_body = json_stringify (JObj [(''users'', JArr [JNull])])\<rparr>"


text \<open>A checkout redirect is followed only to an \<open>https:\<close> URL on the page's own origin or on
  the allow-listed Stripe checkout host, whatever the URL parser returns.\<close>

theorem isSafeRedirectUrl_sound:
  "isSafeRedirectUrl URL here url \<longleftrightarrow>
     (\<exists>p. URL url (Some here) = Some p \<and> protocol p = ''https:'' \<and>
        (origin p = here \<or> hostname p = ''checkout.stripe.com''))"
  by (auto simp: isSafeRedirectUrl_def allowed_checkout_hosts_def split: option.splits)

text \<open>\<open>safeHref\<close> returns only its argument, only when it parses, and only for the protocols
  \<open>https:\<close> and \<open>http:\<close>; in particular it returns a plain \<open>http:\<close> link, which its comment denies.\<close>

theorem safeHref_protocols:
  "safeHref URL (Some u) = Some v \<longleftrightarrow>
     v = u \<and> u \<noteq> [] \<and>
     (\<exists>p. URL u None = Some p \<and> protocol p \<in> {''https:'', ''http:''})"
  by (auto simp: safeHref_def split: option.splits)

end
