(* ===== verification/Api_Base.thy ===== *)
theory Api_Base
  imports Http
begin

text \<open>
  What the API modules under \<^verbatim>\<open>web/src/lib/api\<close> share: the init object passed to
  \<open>fetchJson\<close>, the bearer header, object literals with optional members, optional query
  parameters, and the specification every endpoint function is proved against.

  The specification \<open>served\<close> is the server's reading of the one request a call sends: its
  method, the decoded path segments after the URL parser has removed dot segments, the decoded
  query pairs, the authorization header and the parsed JSON body.
\<close>

section \<open>Building requests\<close>

definition api_call ::
  "js_string \<Rightarrow> js_string \<Rightarrow> (js_string \<times> js_string) list \<Rightarrow> js_string option \<Rightarrow> json io" where
  "api_call meth url headers body =
     fetchJson \<lparr>req_method = meth, req_url = url, req_headers = headers, req_body = body\<rparr>"

definition bearer :: "js_string \<Rightarrow> (js_string \<times> js_string) list" where
  "bearer token = [(''authorization'', ''Bearer '' @ token)]"

text \<open>\<open>req?.headers ?? {}\<close> and \<open>req?.body\<close> for a request that may be \<open>null\<close>.\<close>

definition opt_headers :: "((js_string \<times> js_string) list \<times> js_string option) option
    \<Rightarrow> (js_string \<times> js_string) list" where
  "opt_headers req = (case req of None \<Rightarrow> [] | Some r \<Rightarrow> fst r)"

definition opt_body :: "((js_string \<times> js_string) list \<times> js_string option) option \<Rightarrow> js_string option" where
  "opt_body req = (case req of None \<Rightarrow> None | Some r \<Rightarrow> snd r)"

text \<open>An object literal some of whose members are \<open>undefined\<close>: JSON text omits those.\<close>

fun present :: "(js_string \<times> 'a option) list \<Rightarrow> (js_string \<times> 'a) list" where
  "present [] = []"
| "present ((k, None) # r) = present r"
| "present ((k, Some v) # r) = (k, v) # present r"

definition obj_lit :: "(js_string \<times> json option) list \<Rightarrow> json" where
  "obj_lit kvs = JObj (present kvs)"

definition jnum :: "int \<Rightarrow> json" where
  "jnum n = JNum (string_of_int n)"

text \<open>\<open>if (x) params.set(k, x)\<close> with \<open>x\<close> already reduced to an option.\<close>

definition opt_set :: "search_params \<Rightarrow> js_string \<Rightarrow> js_string option \<Rightarrow> search_params" where
  "opt_set ps k v = (case v of None \<Rightarrow> ps | Some x \<Rightarrow> usp_set ps k x)"

text \<open>A number is falsy when it is absent or zero.\<close>

definition keep_nonzero :: "int option \<Rightarrow> int option" where
  "keep_nonzero n = (if n = Some 0 then None else n)"

text \<open>\<open>qs ? `?${qs}` : ''\<close>\<close>

definition maybe_query :: "js_string \<Rightarrow> js_string" where
  "maybe_query qs = (if qs = [] then [] else ''?'' @ qs)"

text \<open>\<open>x ? `?k=${encodeURIComponent(x)}` : ''\<close>\<close>

definition one_param :: "js_string \<Rightarrow> js_string option \<Rightarrow> js_string" where
  "one_param k x = (case x of None \<Rightarrow> [] | Some v \<Rightarrow> ''?'' @ k @ ''='' @ encodeURIComponent v)"

text \<open>\<open>input?.field\<close>\<close>

definition opt_field :: "('r \<Rightarrow> 'a option) \<Rightarrow> 'r option \<Rightarrow> 'a option" where
  "opt_field f r = (case r of None \<Rightarrow> None | Some x \<Rightarrow> f x)"

text \<open>\<open>res.member\<close>: \<open>undefined\<close> is \<open>None\<close>; reading a member of \<open>null\<close> throws.\<close>

definition js_member :: "json \<Rightarrow> js_string \<Rightarrow> js_error + json option" where
  "js_member j k = (if j = JNull then Inl (TypeError ''null has no properties'') else Inr (obj_get j k))"

section \<open>The server's view of a request\<close>

record api_view =
  view_method :: js_string
  view_route :: "js_string list"
  view_query :: search_params
  view_auth :: "js_string option"
  view_body :: "json option"

definition view_body_of :: "request \<Rightarrow> json option option" where
  "view_body_of r =
     (case req_body r of
        None \<Rightarrow> Some None
      | Some s \<Rightarrow>
          if map_of (req_headers r) ''content-type'' = Some ''application/json''
          then map_option Some (json_parse s) else None)"

definition server_view :: "request \<Rightarrow> api_view option" where
  "server_view r =
     (case (route (req_url r), query_of (req_url r), view_body_of r) of
        (Some segs, Some qs, Some b) \<Rightarrow>
          Some \<lparr>view_method = req_method r, view_route = segs, view_query = qs,
                view_auth = map_of (req_headers r) ''authorization'', view_body = b\<rparr>
      | _ \<Rightarrow> None)"

definition served ::
  "js_string \<Rightarrow> piece list \<Rightarrow> search_params \<Rightarrow> js_string option \<Rightarrow> json option \<Rightarrow> json io \<Rightarrow> bool" where
  "served meth ps qs token body op \<longleftrightarrow>
     (\<exists>r. op = fetchJson r \<and>
        server_view r =
          Some \<lparr>view_method = meth, view_route = map piece_value ps, view_query = qs,
                view_auth = map_option (\<lambda>t. ''Bearer '' @ t) token, view_body = body\<rparr>)"

text \<open>An endpoint whose answer is post-processed.\<close>

definition served_then ::
  "js_string \<Rightarrow> piece list \<Rightarrow> search_params \<Rightarrow> js_string option \<Rightarrow> json option
     \<Rightarrow> (json \<Rightarrow> js_error + 'b) \<Rightarrow> 'b io \<Rightarrow> bool" where
  "served_then meth ps qs token body f op \<longleftrightarrow>
     (\<exists>base. served meth ps qs token body base \<and> op = io_then f base)"

section \<open>Numbers as JSON text\<close>

lemma nat_to_base_hd: "0 < n \<Longrightarrow> hd (nat_to_base 10 n) \<noteq> CHR ''0''"
proof (induction "10::nat" n rule: nat_to_base.induct)
  case (1 n)
  show ?case
  proof (cases "n < 10")
    case True
    then have "n < 16" by simp
    with 1 True show ?thesis using hex_cases [of n]
      by (auto simp: nat_to_base.simps [of 10 n] hex_digit_def)
  next
    case False
    with 1 show ?thesis by (simp add: nat_to_base.simps [of 10 n])
  qed
qed

lemma num_nat_ok_string_of_nat: "num_nat_ok (string_of_nat n)"
proof -
  have d: "takeWhile is_digit (string_of_nat n) = string_of_nat n"
    using string_of_nat_digits by (simp add: takeWhile_eq_all_conv)
  have e: "dropWhile is_digit (string_of_nat n) = []"
    using string_of_nat_digits by (simp add: dropWhile_eq_Nil_conv)
  have "hd (string_of_nat n) = CHR ''0'' \<Longrightarrow> length (string_of_nat n) = 1"
    using nat_to_base_hd [of n]
    by (cases "n = 0") (auto simp: string_of_nat_def nat_to_base.simps [of 10 0])
  then show ?thesis unfolding num_nat_ok_def Let_def d e by (simp add: num_frac_ok_def)
qed

lemma string_of_nat_hd_digit: "is_digit (hd (string_of_nat n))"
  using string_of_nat_digits by (metis hd_in_set string_of_nat_ne)

lemma num_nat_ok_exponent_text: "num_nat_ok (exponent_text n)"
proof -
  have ok: "num_nat_ok (d # (if r = [] then [] else CHR ''.'' # r) @ ''e+'' @ string_of_nat e)"
    if "list_all is_digit (d # r)" for d r e
  proof -
    have e: "num_exp_ok (''e+'' @ string_of_nat e)"
      using string_of_nat_digits by (simp add: num_exp_ok_def list_all_iff)
    have "\<not> is_digit CHR ''e''" "\<not> is_digit CHR ''.''" by (simp_all add: is_digit_def)
    moreover have "takeWhile is_digit (r @ ''e+'' @ string_of_nat e) = r"
      "dropWhile is_digit (r @ ''e+'' @ string_of_nat e) = ''e+'' @ string_of_nat e"
      using that calculation by (simp_all add: takeWhile_append2 dropWhile_append2 list_all_iff)
    ultimately show ?thesis using that e
      by (simp add: num_nat_ok_def num_frac_ok_def)
  qed
  have "list_all is_digit (rev (dropWhile P (rev (string_of_nat c))))" for P c
    using string_of_nat_digits set_dropWhileD by (fastforce simp: list_all_iff)
  moreover have "num_nat_ok (case sig of [] \<Rightarrow> ''0'' | d # r \<Rightarrow> d # (if r = [] then [] else CHR ''.'' # r) @ ''e+'' @ string_of_nat e)"
    if "list_all is_digit sig" for sig e
  proof (cases sig)
    case Nil
    then show ?thesis by (simp add: num_nat_ok_def num_frac_ok_def is_digit_def)
  next
    case (Cons d r)
    then show ?thesis using ok [of d r e] that by simp
  qed
  ultimately show ?thesis unfolding exponent_text_def Let_def by blast
qed

lemma num_nat_ok_number_text: "num_nat_ok (number_text_of n)"
  by (simp add: number_text_of_def num_nat_ok_string_of_nat num_nat_ok_exponent_text)

lemma wf_jnum [simp]: "wf_json (jnum n)"
proof -
  have "json_number (number_text_of m)" "json_number (CHR ''-'' # number_text_of m)" for m
    using num_nat_ok_number_text [of m]
    by (auto simp: json_number_def num_nat_ok_def is_digit_def Let_def split: list.split if_splits)
  then show ?thesis by (simp add: jnum_def string_of_int_def)
qed

lemma present_keys: "fst ` set (present kvs) \<subseteq> fst ` set kvs"
  by (induction kvs rule: present.induct) auto

lemma wf_obj_lit:
  assumes "distinct (map fst kvs)" and "list_all (\<lambda>(k, v). pred_option wf_json v) kvs"
  shows "wf_json (obj_lit kvs)"
proof -
  have "distinct (map fst (present kvs)) \<and> list_all (\<lambda>(k, v). wf_json v) (present kvs)"
    using assms
  proof (induction kvs rule: present.induct)
    case (3 k v r)
    then have "k \<notin> fst ` set (present r)" using present_keys [of r] by auto
    with 3 show ?case by simp
  qed simp_all
  then show ?thesis by (simp add: obj_lit_def)
qed

section \<open>The endpoint rules\<close>

lemma server_view_ok:
  assumes "list_all piece_ok ps" and "query_suffix q"
    and "query_of (path_of ps @ q) = Some qs"
    and "body = None \<and> b = None \<or>
         (\<exists>j. body = Some (json_stringify j) \<and> b = Some j \<and> wf_json j \<and>
              map_of hs ''content-type'' = Some ''application/json'')"
  shows "server_view \<lparr>req_method = m, req_url = path_of ps @ q, req_headers = hs, req_body = body\<rparr> =
     Some \<lparr>view_method = m, view_route = map piece_value ps, view_query = qs,
           view_auth = map_of hs ''authorization'', view_body = b\<rparr>"
  using assms(4) route_path_of [OF assms(1, 2)] assms(3)
  by (auto simp: server_view_def view_body_of_def json_parse_stringify)

definition auth_headers :: "js_string option \<Rightarrow> (js_string \<times> js_string) list" where
  "auth_headers token = (case token of None \<Rightarrow> [] | Some t \<Rightarrow> bearer t)"

lemma auth_headers_lookup:
  "(map_of json_headers ++ map_of (auth_headers t)) ''authorization'' = map_option (\<lambda>t. ''Bearer '' @ t) t"
  "map_of (auth_headers t) ''authorization'' = map_option (\<lambda>t. ''Bearer '' @ t) t"
  "(map_of json_headers ++ map_of (auth_headers t)) ''content-type'' = Some ''application/json''"
  by (simp_all add: auth_headers_def bearer_def json_headers_def split: option.split)

definition body_parts :: "js_string option \<Rightarrow> json option
    \<Rightarrow> (js_string \<times> js_string) list \<times> js_string option" where
  "body_parts token b =
     (case b of None \<Rightarrow> (auth_headers token, None)
      | Some j \<Rightarrow> (auth_headers token @ json_headers, Some (json_stringify j)))"

text \<open>The general rule: the URL is a route followed by a query that reads back as \<open>qs\<close>.\<close>

lemma served_general:
  assumes "op = api_call m (path_of ps @ q) (fst (body_parts t b)) (snd (body_parts t b))"
    and "list_all piece_ok ps" and "query_suffix q" and "query_of (path_of ps @ q) = Some qs"
    and "pred_option wf_json b"
  shows "served m ps qs t b op"
proof -
  let ?r = "\<lparr>req_method = m, req_url = path_of ps @ q, req_headers = fst (body_parts t b),
             req_body = snd (body_parts t b)\<rparr>"
  have "server_view ?r = Some \<lparr>view_method = m, view_route = map piece_value ps, view_query = qs,
     view_auth = map_of (fst (body_parts t b)) ''authorization'', view_body = b\<rparr>"
    by (rule server_view_ok [OF assms(2-4)])
      (use assms(5) in \<open>auto simp: body_parts_def auth_headers_lookup split: option.splits\<close>)
  moreover have "map_of (fst (body_parts t b)) ''authorization'' = map_option (\<lambda>t. ''Bearer '' @ t) t"
    by (simp add: body_parts_def auth_headers_lookup split: option.splits)
  ultimately have v: "server_view ?r = Some \<lparr>view_method = m, view_route = map piece_value ps, view_query = qs,
     view_auth = map_option (\<lambda>t. ''Bearer '' @ t) t, view_body = b\<rparr>" by (simp only:)
  have "op = fetchJson ?r" by (simp only: assms(1) api_call_def)
  with v show ?thesis unfolding served_def by blast
qed

lemma query_of_path: "list_all piece_ok ps \<Longrightarrow> query_of (path_of ps) = Some []"
  by (simp add: query_of_def no_query_query [OF path_of_no_delims] parse_query_def)

lemma query_of_maybe:
  assumes "list_all piece_ok ps"
  shows "query_of (path_of ps @ maybe_query (usp_to_string qs)) = Some qs"
proof (cases "usp_to_string qs = []")
  case True
  with parse_query_usp [of qs] have "qs = []" by (simp add: parse_query_def)
  with True show ?thesis using query_of_path [OF assms] by (simp add: maybe_query_def)
next
  case False
  then show ?thesis
    using query_path_of [OF assms usp_no_hash] parse_query_usp
    by (simp add: maybe_query_def query_of_def)
qed

lemma unplus_encode: "map unplus (encodeURIComponent s) = encodeURIComponent s"
proof (rule map_idI)
  fix c assume "c \<in> set (encodeURIComponent s)"
  then have "c = CHR ''%'' \<or> uri_unreserved c" by (rule encode_alphabet)
  then show "unplus c = c" by (auto simp: uri_unreserved_def char_class_defs)
qed

lemma query_of_one_param:
  assumes "list_all piece_ok ps" and "list_all is_lower k" and "k \<noteq> []"
  shows "query_of (path_of ps @ one_param k x) = Some (present [(k, x)])"
proof (cases x)
  case None
  then show ?thesis using query_of_path [OF assms(1)] by (simp add: one_param_def)
next
  case (Some v)
  have lc: "c \<in> set k \<Longrightarrow> is_lower c" for c using assms(2) by (simp add: list_all_iff)
  have k: "CHR ''='' \<notin> set k" "CHR ''&'' \<notin> set k" "CHR ''#'' \<notin> set k" "CHR ''%'' \<notin> set k"
    "map unplus k = k"
    by (auto dest!: lc simp: is_lower_def intro!: map_idI)
  let ?t = "k @ CHR ''='' # encodeURIComponent v"
  have "url_query (path_of ps @ ''?'' @ ?t) = ?t"
    by (rule query_path_of [OF assms(1)]) (use k encode_no_delims in auto)
  moreover have "split_on (CHR ''&'') ?t = [?t]"
    by (rule split_on_no_sep) (use k encode_no_delims in auto)
  moreover have "read_pair ?t = Some (k, v)"
    using k by (simp add: read_pair_def takeWhile_upto dropWhile_upto dec_form_def unplus_encode decode_plain)
  ultimately show ?thesis using Some assms(3) by (simp add: query_of_def one_param_def parse_query_def)
qed

lemma opt_set_fresh: "k \<notin> fst ` set ps \<Longrightarrow> opt_set ps k v = ps @ present [(k, v)]"
  by (simp add: opt_set_def usp_set_fresh split: option.split)

lemma present_append: "present (xs @ ys) = present xs @ present ys"
  by (induction xs rule: present.induct) auto

lemma foldl_opt_set:
  "distinct (map fst kvs) \<Longrightarrow> foldl (\<lambda>ps (k, v). opt_set ps k v) [] kvs = present kvs"
proof (induction kvs rule: rev_induct)
  case (snoc kv kvs)
  obtain k v where kv: "kv = (k, v)" by (cases kv)
  have "k \<notin> fst ` set (present kvs)" using snoc.prems present_keys [of kvs] kv by auto
  with snoc kv show ?case by (simp add: opt_set_fresh present_append)
qed simp

text \<open>The three shapes the modules use: no query, a single encoded parameter, a parameter object.\<close>

lemma served_plain:
  assumes "op = api_call m (path_of ps) (fst (body_parts t b)) (snd (body_parts t b))"
    and "list_all piece_ok ps" and "pred_option wf_json b"
  shows "served m ps [] t b op"
  by (rule served_general [where q = "[]"])
    (use assms query_of_path in \<open>auto simp: query_suffix_def\<close>)

lemma served_one:
  assumes "op = api_call m (path_of ps @ one_param k x) (auth_headers t) None"
    and "list_all piece_ok ps" and "list_all is_lower k \<and> k \<noteq> []"
  shows "served m ps (present [(k, x)]) t None op"
  by (rule served_general [where q = "one_param k x"])
    (use assms query_of_one_param in
      \<open>auto simp: query_suffix_def one_param_def body_parts_def split: option.splits\<close>)

lemma served_params:
  assumes "op = api_call m (path_of ps @ maybe_query (usp_to_string
              (foldl (\<lambda>ps (k, v). opt_set ps k v) [] kvs))) (auth_headers t) None"
    and "list_all piece_ok ps" and "distinct (map fst kvs)"
  shows "served m ps (present kvs) t None op"
  by (rule served_general [where q = "maybe_query (usp_to_string (present kvs))"])
    (use assms query_of_maybe in
      \<open>auto simp: query_suffix_def maybe_query_def body_parts_def foldl_opt_set\<close>)

lemma wf_option_bodies:
  "pred_option wf_json x \<Longrightarrow> wf_json d \<Longrightarrow> wf_json (nullish x d)"
  "(\<And>v. wf_json (f v)) \<Longrightarrow> pred_option wf_json (map_option f y)"
  by (auto simp: nullish_def pred_option_def split: option.splits)

lemma wf_strings [simp]: "list_all (wf_json \<circ> JStr) xs" "list_all wf_json (map JStr xs)"
  by (simp_all add: list_all_iff)

lemma usp_set_opt: "usp_set ps k v = opt_set ps k (Some v)"
  by (simp add: opt_set_def)

lemma usp_to_string_Nil [simp]: "usp_to_string ps = [] \<longleftrightarrow> ps = []"
proof
  assume "usp_to_string ps = []"
  with parse_query_usp [of ps] show "ps = []" by (simp add: parse_query_def)
qed (simp add: usp_to_string_def)

lemma opt_set_ne [simp]: "opt_set ps k (Some v) \<noteq> []"
  by (simp add: opt_set_def usp_set_def Let_def)

lemma served_thenI: "served m ps qs t b base \<Longrightarrow> op = io_then f base \<Longrightarrow> served_then m ps qs t b f op"
  by (auto simp: served_then_def)

lemma served_then_plain:
  assumes "op = io_then f (api_call m (path_of ps) (fst (body_parts t b)) (snd (body_parts t b)))"
    and "list_all piece_ok ps" and "pred_option wf_json b"
  shows "served_then m ps [] t b f op"
  by (rule served_thenI [OF served_plain [OF refl assms(2, 3)] assms(1)])

lemma served_then_one:
  assumes "op = io_then f (api_call m (path_of ps @ one_param k x) (auth_headers t) None)"
    and "list_all piece_ok ps" and "list_all is_lower k \<and> k \<noteq> []"
  shows "served_then m ps (present [(k, x)]) t None f op"
  by (rule served_thenI [OF served_one [OF refl assms(2, 3)] assms(1)])

lemmas served_rules = served_plain served_then_plain served_one served_then_one served_params

text \<open>The literal segments of the routes.\<close>

lemma plain_segments [simp]:
  "plain_segment ''.well-known''" "plain_segment ''active''" "plain_segment ''activity''"
  "plain_segment ''admin''" "plain_segment ''adopt''" "plain_segment ''agents''"
  "plain_segment ''allowlist''" "plain_segment ''api''" "plain_segment ''approve''"
  "plain_segment ''archive''" "plain_segment ''attestations''" "plain_segment ''audit''"
  "plain_segment ''auth''" "plain_segment ''begin''" "plain_segment ''billing''"
  "plain_segment ''bootstrap''" "plain_segment ''boundaries''" "plain_segment ''budgets''"
  "plain_segment ''capabilities''" "plain_segment ''challenge''" "plain_segment ''channels''"
  "plain_segment ''checkout''" "plain_segment ''comm''" "plain_segment ''complete''"
  "plain_segment ''config''" "plain_segment ''confirm''" "plain_segment ''consent''"
  "plain_segment ''continuity''" "plain_segment ''cost''" "plain_segment ''credentials''"
  "plain_segment ''credits''" "plain_segment ''data''" "plain_segment ''disable''"
  "plain_segment ''disputes''" "plain_segment ''dns''" "plain_segment ''domains''"
  "plain_segment ''drift''" "plain_segment ''email''" "plain_segment ''ensure''"
  "plain_segment ''events''" "plain_segment ''external-instances''" "plain_segment ''failures''"
  "plain_segment ''finalize''" "plain_segment ''finish''" "plain_segment ''hosts''"
  "plain_segment ''instances''" "plain_segment ''invoices''" "plain_segment ''jobs''"
  "plain_segment ''jwks.json''" "plain_segment ''keys''" "plain_segment ''login''"
  "plain_segment ''logout''" "plain_segment ''me''" "plain_segment ''mine''"
  "plain_segment ''mint-conversation''" "plain_segment ''mint-conversations''" "plain_segment ''mint-operation''"
  "plain_segment ''note''" "plain_segment ''operation''" "plain_segment ''operations''"
  "plain_segment ''operators''" "plain_segment ''payment-method''" "plain_segment ''payment-methods''"
  "plain_segment ''phone''" "plain_segment ''portal''" "plain_segment ''portal-users''"
  "plain_segment ''preflight''" "plain_segment ''principal-declaration''" "plain_segment ''promotion''"
  "plain_segment ''promotions''" "plain_segment ''provision''" "plain_segment ''provisioning''"
  "plain_segment ''publish''" "plain_segment ''purchases''" "plain_segment ''queue''"
  "plain_segment ''record-execution''" "plain_segment ''recover''" "plain_segment ''register''"
  "plain_segment ''registration''" "plain_segment ''registrations''" "plain_segment ''reject''"
  "plain_segment ''relationships''" "plain_segment ''releases''" "plain_segment ''remediate-mcp-drift''"
  "plain_segment ''reputation''" "plain_segment ''retry''" "plain_segment ''roster''"
  "plain_segment ''rotate''" "plain_segment ''rotate-wallet''" "plain_segment ''route53''"
  "plain_segment ''search''" "plain_segment ''self-reinstate''" "plain_segment ''self-suspend''"
  "plain_segment ''setup''" "plain_segment ''soul''" "plain_segment ''souls''"
  "plain_segment ''stack''" "plain_segment ''status''" "plain_segment ''successor''"
  "plain_segment ''summary''" "plain_segment ''tip-registry''" "plain_segment ''tokens''"
  "plain_segment ''transparency''" "plain_segment ''trust''" "plain_segment ''update-registration''"
  "plain_segment ''updates''" "plain_segment ''usage''" "plain_segment ''v1''"
  "plain_segment ''validation''" "plain_segment ''validations''" "plain_segment ''vanity-domain-requests''"
  "plain_segment ''verify''" "plain_segment ''versions''" "plain_segment ''wallet''"
  "plain_segment ''webauthn''"
  by (simp_all add: plain_segment_def is_lower_def is_digit_def)

lemmas route_simps = path_of_def is_lower_def usp_set_opt maybe_query_def

lemmas request_simps = Let_def json_headers_def body_parts_def auth_headers_def jsonRequest_def opt_headers_def opt_body_def

section \<open>Route prefixes\<close>

abbreviation portal_api :: "piece list" where
  "portal_api \<equiv> [Lit ''api'', Lit ''v1'', Lit ''portal'']"

abbreviation portal_instance :: "js_string \<Rightarrow> piece list" where
  "portal_instance slug \<equiv> [Lit ''api'', Lit ''v1'', Lit ''portal'', Lit ''instances'', Val slug]"

abbreviation auth_api :: "piece list" where
  "auth_api \<equiv> [Lit ''api'', Lit ''v1'', Lit ''auth'']"

abbreviation operators_api :: "piece list" where
  "operators_api \<equiv> [Lit ''api'', Lit ''v1'', Lit ''operators'']"

abbreviation tip_registry_api :: "piece list" where
  "tip_registry_api \<equiv> [Lit ''api'', Lit ''v1'', Lit ''tip-registry'']"

abbreviation soul_api :: "piece list" where
  "soul_api \<equiv> [Lit ''api'', Lit ''v1'', Lit ''soul'']"

abbreviation soul_agent :: "js_string \<Rightarrow> piece list" where
  "soul_agent agentId \<equiv> [Lit ''api'', Lit ''v1'', Lit ''soul'', Lit ''agents'', Val agentId]"

abbreviation soul_register :: "piece list" where
  "soul_register \<equiv> [Lit ''api'', Lit ''v1'', Lit ''soul'', Lit ''agents'', Lit ''register'']"

section \<open>Endpoints as an interface\<close>

text \<open>
  What a caller may rely on: the operation sends exactly one request and its outcome is the
  reading of the answer.  Each client module is used through this contract.
\<close>

locale endpoint =
  fixes op :: "'a \<Rightarrow> json io" and req :: "'a \<Rightarrow> request"
  assumes op_req: "op a = fetchJson (req a)"
begin

lemma one_request: "snd (op a net log) = log @ [req a]"
  by (simp add: op_req)

lemma resolves_iff:
  "fst (op a net log) = Inr v \<longleftrightarrow>
     (\<exists>res. net log (req a) = Fetched res \<and> res_ok res \<and> response_is_json res
        \<and> json_parse (res_body res) = Some v)"
  by (auto simp: op_req fetchJson_result read_response_ok_iff split: fetch_outcome.splits)

lemma rejected_status:
  "net log (req a) = Fetched res \<Longrightarrow> \<not> res_ok res \<Longrightarrow>
     \<exists>msg c. fst (op a net log) = Inl (ApiError msg (res_status res) c)"
  using read_response_error [of res] by (auto simp: op_req fetchJson_result)

lemma offline: "net log (req a) = FetchFailed msg \<Longrightarrow> fst (op a net log) = Inl (TypeError msg)"
  by (simp add: op_req fetchJson_result)

end

end
