(* ===== verification/Api_Portal.thy ===== *)
theory Api_Portal
  imports Api_Base
begin

text \<open>
  The portal client: \<^verbatim>\<open>web/src/lib/api/portal.ts\<close>, \<^verbatim>\<open>portalInstances.ts\<close>, \<^verbatim>\<open>portalUsage.ts\<close>,
  \<^verbatim>\<open>portalBilling.ts\<close> and \<^verbatim>\<open>portalTrust.ts\<close>.  One definition per exported function, in the order of
  the modules; request inputs are JSON values (a member that is \<open>undefined\<close> is absent), numbers
  that the client turns into text are integers.  The endpoint theorems compare every function with
  the server's reading of the request it sends.
\<close>

section \<open>Sign-in (portal.ts)\<close>

definition portalWalletChallenge :: "js_string \<Rightarrow> int \<Rightarrow> json io" where
  "portalWalletChallenge address chainId =
     (let req = jsonRequest (obj_lit [(''address'', Some (JStr address)), (''chainId'', Some
         (jnum chainId))]) in
      api_call ''POST'' ''/api/v1/portal/auth/wallet/challenge''
       (fst req) (snd req))"

definition portalWalletLogin :: "json \<Rightarrow> json io" where
  "portalWalletLogin input =
     (let req = jsonRequest input in
      api_call ''POST'' ''/api/v1/portal/auth/wallet/login''
       (fst req) (snd req))"

definition getPortalMe :: "js_string \<Rightarrow> json io" where
  "getPortalMe token =
     api_call ''GET'' ''/api/v1/portal/me''
       (bearer token) None"

section \<open>Instance keys: timestamps of the Go zero time are dropped\<close>

definition normalizeInstanceKeyTimestamp :: "js_string option \<Rightarrow> js_string option" where
  "normalizeInstanceKeyTimestamp val =
     (let trimmed = js_trim (opt_or val '''') in
      if trimmed = [] then None
      else if startsWith trimmed ''0001-01-01T00:00:00'' then None
      else Some trimmed)"

text \<open>
  The own enumerable properties an object spread copies, and the argument of
  \<open>normalizeInstanceKeyTimestamp\<close> read from a member: a falsy member counts as absent, any other
  value without a \<open>trim\<close> method throws.
\<close>

fun own_props :: "json \<Rightarrow> (js_string \<times> json) list" where
  "own_props (JObj kvs) = kvs"
| "own_props (JArr xs) = zip (map string_of_nat [0..<length xs]) xs"
| "own_props (JStr s) = zip (map string_of_nat [0..<length s]) (map (\<lambda>c. JStr [c]) s)"
| "own_props _ = []"

definition zero_number :: "js_string \<Rightarrow> bool" where
  "zero_number n \<longleftrightarrow> list_all (\<lambda>c. c \<notin> set ''123456789'') (takeWhile (\<lambda>c. c \<notin> set ''eE'') n)"

fun timestamp_arg :: "json option \<Rightarrow> js_error + js_string option" where
  "timestamp_arg None = Inr None"
| "timestamp_arg (Some JNull) = Inr None"
| "timestamp_arg (Some (JStr s)) = Inr (Some s)"
| "timestamp_arg (Some (JBool b)) = (if b then Inl (TypeError ''trim is not a function'') else Inr None)"
| "timestamp_arg (Some (JNum n)) =
     (if zero_number n then Inr None else Inl (TypeError ''trim is not a function''))"
| "timestamp_arg (Some _) = Inl (TypeError ''trim is not a function'')"

definition set_if :: "(js_string \<times> json) list \<Rightarrow> js_string \<Rightarrow> js_string option \<Rightarrow> (js_string \<times> json) list" where
  "set_if kvs k v = (case v of None \<Rightarrow> kvs | Some x \<Rightarrow> obj_set kvs k (JStr x))"

definition normalize_key :: "json \<Rightarrow> js_error + json" where
  "normalize_key key =
     (if key = JNull then Inl (TypeError ''null has no properties'')
      else
        (let props = own_props key;
             rest = filter (\<lambda>(k, _). k \<noteq> ''last_used_at'' \<and> k \<noteq> ''revoked_at'') props
         in case timestamp_arg (map_of props ''last_used_at'') of
              Inl e \<Rightarrow> Inl e
            | Inr rawLastUsedAt \<Rightarrow>
                (case timestamp_arg (map_of props ''revoked_at'') of
                   Inl e \<Rightarrow> Inl e
                 | Inr rawRevokedAt \<Rightarrow>
                     Inr (JObj (set_if (set_if rest ''last_used_at'' (normalizeInstanceKeyTimestamp rawLastUsedAt))
                                  ''revoked_at'' (normalizeInstanceKeyTimestamp rawRevokedAt))))))"

fun map_or_throw :: "('a \<Rightarrow> js_error + 'b) \<Rightarrow> 'a list \<Rightarrow> js_error + 'b list" where
  "map_or_throw f [] = Inr []"
| "map_or_throw f (x # xs) =
     (case f x of Inl e \<Rightarrow> Inl e
      | Inr y \<Rightarrow> (case map_or_throw f xs of Inl e \<Rightarrow> Inl e | Inr ys \<Rightarrow> Inr (y # ys)))"

definition normalizeInstanceKeysResponse :: "json \<Rightarrow> js_error + json" where
  "normalizeInstanceKeysResponse res =
     (case js_member res ''keys'' of
        Inl e \<Rightarrow> Inl e
      | Inr keys \<Rightarrow>
          (case nullish (if keys = Some JNull then None else keys) (JArr []) of
             JArr ks \<Rightarrow>
               (case map_or_throw normalize_key ks of
                  Inl e \<Rightarrow> Inl e
                | Inr ks' \<Rightarrow> Inr (JObj (obj_set (own_props res) ''keys'' (JArr ks'))))
           | _ \<Rightarrow> Inl (TypeError ''map is not a function'')))"

section \<open>Instances (portalInstances.ts)\<close>

definition portalListInstances :: "js_string \<Rightarrow> json io" where
  "portalListInstances token =
     api_call ''GET'' ''/api/v1/portal/instances''
       (bearer token) None"

definition portalCreateInstance :: "js_string \<Rightarrow> js_string \<Rightarrow> json io" where
  "portalCreateInstance token slug =
     (let req = jsonRequest (obj_lit [(''slug'', Some (JStr slug))]) in
      api_call ''POST'' ''/api/v1/portal/instances''
       (bearer token @ fst req) (snd req))"

definition portalGetInstance :: "js_string \<Rightarrow> js_string \<Rightarrow> json io" where
  "portalGetInstance token slug =
     api_call ''GET'' (''/api/v1/portal/instances/'' @ encodeURIComponent slug)
       (bearer token) None"

definition portalGetInstanceStack :: "js_string \<Rightarrow> js_string \<Rightarrow> json io" where
  "portalGetInstanceStack token slug =
     api_call ''GET'' (''/api/v1/portal/instances/'' @ encodeURIComponent slug @ ''/stack'')
       (bearer token) None"

definition portalUpdateInstanceConfig :: "js_string \<Rightarrow> js_string \<Rightarrow> json \<Rightarrow> json io" where
  "portalUpdateInstanceConfig token slug input =
     (let req = jsonRequest input in
      api_call ''PUT'' (''/api/v1/portal/instances/'' @ encodeURIComponent slug @ ''/config'')
       (bearer token @ fst req) (snd req))"

definition portalStartProvisioning :: "js_string \<Rightarrow> js_string \<Rightarrow> json \<Rightarrow> json io" where
  "portalStartProvisioning token slug input =
     (let req = jsonRequest input in
      api_call ''POST'' (''/api/v1/portal/instances/'' @ encodeURIComponent slug @ ''/provision'')
       (bearer token @ fst req) (snd req))"

definition portalProvisionConsentChallenge :: "js_string \<Rightarrow> js_string \<Rightarrow> js_string option \<Rightarrow> json io" where
  "portalProvisionConsentChallenge token slug adminUsername =
     (let input = (case keep_truthy adminUsername of
                     None \<Rightarrow> JObj [] | Some u \<Rightarrow> JObj [(''admin_username'', JStr u)]);
          req = jsonRequest input in
      api_call ''POST'' (''/api/v1/portal/instances/'' @ encodeURIComponent slug
          @ ''/provision/consent/challenge'')
       (bearer token @ fst req) (snd req))"

definition portalGetProvisioning :: "js_string \<Rightarrow> js_string \<Rightarrow> json io" where
  "portalGetProvisioning token slug =
     api_call ''GET'' (''/api/v1/portal/instances/'' @ encodeURIComponent slug @ ''/provision'')
       (bearer token) None"

definition portalCreateUpdateJob :: "js_string \<Rightarrow> js_string \<Rightarrow> json option \<Rightarrow> json io" where
  "portalCreateUpdateJob token slug input =
     (let req = jsonRequest (nullish input (JObj [])) in
      api_call ''POST'' (''/api/v1/portal/instances/'' @ encodeURIComponent slug @ ''/updates'')
       (bearer token @ fst req) (snd req))"

definition portalListUpdateJobs :: "js_string \<Rightarrow> js_string \<Rightarrow> int option \<Rightarrow> json io" where
  "portalListUpdateJobs token slug limit =
     api_call ''GET'' (''/api/v1/portal/instances/'' @ encodeURIComponent slug @ ''/updates''
         @ one_param ''limit'' (map_option string_of_int (keep_nonzero limit)))
       (bearer token) None"

definition portalListInstanceKeys :: "js_string \<Rightarrow> js_string \<Rightarrow> int option \<Rightarrow> json io" where
  "portalListInstanceKeys token slug limit =
     io_then normalizeInstanceKeysResponse (api_call ''GET'' (''/api/v1/portal/instances/''
         @ encodeURIComponent slug @ ''/keys'' @ one_param ''limit'' (map_option string_of_int
         (keep_nonzero limit)))
       (bearer token) None)"

definition portalRevokeInstanceKey :: "js_string \<Rightarrow> js_string \<Rightarrow> js_string \<Rightarrow> json io" where
  "portalRevokeInstanceKey token slug keyId =
     api_call ''DELETE'' (''/api/v1/portal/instances/'' @ encodeURIComponent slug @ ''/keys/''
         @ encodeURIComponent keyId)
       (bearer token) None"

definition portalListInstanceDomains :: "js_string \<Rightarrow> js_string \<Rightarrow> json io" where
  "portalListInstanceDomains token slug =
     api_call ''GET'' (''/api/v1/portal/instances/'' @ encodeURIComponent slug @ ''/domains'')
       (bearer token) None"

definition portalAddInstanceDomain :: "js_string \<Rightarrow> js_string \<Rightarrow> js_string \<Rightarrow> json io" where
  "portalAddInstanceDomain token slug domain =
     (let req = jsonRequest (obj_lit [(''domain'', Some (JStr domain))]) in
      api_call ''POST'' (''/api/v1/portal/instances/'' @ encodeURIComponent slug @ ''/domains'')
       (bearer token @ fst req) (snd req))"

definition portalVerifyInstanceDomain :: "js_string \<Rightarrow> js_string \<Rightarrow> js_string \<Rightarrow> json io" where
  "portalVerifyInstanceDomain token slug domain =
     api_call ''POST'' (''/api/v1/portal/instances/'' @ encodeURIComponent slug @ ''/domains/''
         @ encodeURIComponent domain @ ''/verify'')
       (bearer token) None"

definition portalRotateInstanceDomain :: "js_string \<Rightarrow> js_string \<Rightarrow> js_string \<Rightarrow> json io" where
  "portalRotateInstanceDomain token slug domain =
     api_call ''POST'' (''/api/v1/portal/instances/'' @ encodeURIComponent slug @ ''/domains/''
         @ encodeURIComponent domain @ ''/rotate'')
       (bearer token) None"

definition portalDisableInstanceDomain :: "js_string \<Rightarrow> js_string \<Rightarrow> js_string \<Rightarrow> json io" where
  "portalDisableInstanceDomain token slug domain =
     api_call ''POST'' (''/api/v1/portal/instances/'' @ encodeURIComponent slug @ ''/domains/''
         @ encodeURIComponent domain @ ''/disable'')
       (bearer token) None"

definition portalDeleteInstanceDomain :: "js_string \<Rightarrow> js_string \<Rightarrow> js_string \<Rightarrow> json io" where
  "portalDeleteInstanceDomain token slug domain =
     api_call ''DELETE'' (''/api/v1/portal/instances/'' @ encodeURIComponent slug @ ''/domains/''
         @ encodeURIComponent domain)
       (bearer token) None"

definition portalUpsertDomainVerificationRoute53 :: "js_string \<Rightarrow> js_string \<Rightarrow> js_string \<Rightarrow> json io" where
  "portalUpsertDomainVerificationRoute53 token slug domain =
     api_call ''POST'' (''/api/v1/portal/instances/'' @ encodeURIComponent slug @ ''/domains/''
         @ encodeURIComponent domain @ ''/dns/route53'')
       (bearer token) None"

definition portalCreateInstanceKey :: "js_string \<Rightarrow> js_string \<Rightarrow> json io" where
  "portalCreateInstanceKey token slug =
     api_call ''POST'' (''/api/v1/portal/instances/'' @ encodeURIComponent slug @ ''/keys'')
       (bearer token) None"

section \<open>Budgets, usage and cost (portalUsage.ts)\<close>

definition portalListBudgets :: "js_string \<Rightarrow> js_string \<Rightarrow> json io" where
  "portalListBudgets token slug =
     api_call ''GET'' (''/api/v1/portal/instances/'' @ encodeURIComponent slug @ ''/budgets'')
       (bearer token) None"

definition portalGetBudgetMonth :: "js_string \<Rightarrow> js_string \<Rightarrow> js_string \<Rightarrow> json io" where
  "portalGetBudgetMonth token slug month =
     api_call ''GET'' (''/api/v1/portal/instances/'' @ encodeURIComponent slug @ ''/budgets/'' @ month)
       (bearer token) None"

definition portalSetBudgetMonth :: "js_string \<Rightarrow> js_string \<Rightarrow> js_string \<Rightarrow> int \<Rightarrow> json io" where
  "portalSetBudgetMonth token slug month includedCredits =
     (let req = jsonRequest (obj_lit [(''included_credits'', Some (jnum includedCredits))]) in
      api_call ''PUT'' (''/api/v1/portal/instances/'' @ encodeURIComponent slug @ ''/budgets/'' @ month)
       (bearer token @ fst req) (snd req))"

definition operatorSetBudgetMonth :: "js_string \<Rightarrow> js_string \<Rightarrow> js_string \<Rightarrow> int \<Rightarrow> json io" where
  "operatorSetBudgetMonth token slug month includedCredits =
     (let req = jsonRequest (obj_lit [(''included_credits'', Some (jnum includedCredits))]) in
      api_call ''PUT'' (''/api/v1/instances/'' @ encodeURIComponent slug @ ''/budgets/''
         @ encodeURIComponent month)
       (bearer token @ fst req) (snd req))"

definition portalListUsage :: "js_string \<Rightarrow> js_string \<Rightarrow> js_string \<Rightarrow> json io" where
  "portalListUsage token slug month =
     api_call ''GET'' (''/api/v1/portal/instances/'' @ encodeURIComponent slug @ ''/usage/'' @ month)
       (bearer token) None"

definition portalGetUsageSummary :: "js_string \<Rightarrow> js_string \<Rightarrow> js_string \<Rightarrow> json io" where
  "portalGetUsageSummary token slug month =
     api_call ''GET'' (''/api/v1/portal/instances/'' @ encodeURIComponent slug @ ''/usage/'' @ month
         @ ''/summary'')
       (bearer token) None"

definition portalGetInstanceActivity :: "js_string \<Rightarrow> js_string \<Rightarrow> json io" where
  "portalGetInstanceActivity token slug =
     api_call ''GET'' (''/api/v1/portal/instances/'' @ encodeURIComponent slug @ ''/activity'')
       (bearer token) None"

definition portalGetInstanceCost :: "js_string \<Rightarrow> js_string \<Rightarrow> js_string option \<Rightarrow> js_string option \<Rightarrow> json io" where
  "portalGetInstanceCost token slug fromDate toDate =
     (let params = opt_set (opt_set [] ''from'' (keep_truthy fromDate)) ''to'' (keep_truthy toDate);
          qs = usp_to_string params in
      api_call ''GET'' (''/api/v1/portal/instances/'' @ encodeURIComponent slug @ ''/cost''
         @ maybe_query qs)
       (bearer token) None)"

section \<open>Billing (portalBilling.ts)\<close>

definition portalCreateCreditsCheckout :: "js_string \<Rightarrow> json \<Rightarrow> json io" where
  "portalCreateCreditsCheckout token input =
     (let req = jsonRequest input in
      api_call ''POST'' ''/api/v1/portal/billing/credits/checkout''
       (bearer token @ fst req) (snd req))"

definition portalListCreditPurchases :: "js_string \<Rightarrow> json io" where
  "portalListCreditPurchases token =
     api_call ''GET'' ''/api/v1/portal/billing/credits/purchases''
       (bearer token) None"

definition portalCreatePaymentMethodCheckout :: "js_string \<Rightarrow> json io" where
  "portalCreatePaymentMethodCheckout token =
     api_call ''POST'' ''/api/v1/portal/billing/payment-method/checkout''
       (bearer token) None"

definition portalListPaymentMethods :: "js_string \<Rightarrow> json io" where
  "portalListPaymentMethods token =
     api_call ''GET'' ''/api/v1/portal/billing/payment-methods''
       (bearer token) None"

definition portalListInvoices :: "js_string \<Rightarrow> json io" where
  "portalListInvoices token =
     api_call ''GET'' ''/api/v1/portal/billing/invoices''
       (bearer token) None"

definition portalGetPaymentMethod :: "js_string \<Rightarrow> json io" where
  "portalGetPaymentMethod token =
     api_call ''GET'' ''/api/v1/portal/billing/payment-method''
       (bearer token) None"

section \<open>Trust data (portalTrust.ts)\<close>

definition portalGetTrustData :: "js_string \<Rightarrow> js_string \<Rightarrow> json io" where
  "portalGetTrustData token slug =
     api_call ''GET'' (''/api/v1/portal/instances/'' @ encodeURIComponent slug @ ''/trust/data'')
       (bearer token) None"

section \<open>Every endpoint sends what it means\<close>

lemma consent_input:
  "(case keep_truthy u of None \<Rightarrow> JObj [] | Some u \<Rightarrow> JObj [(''admin_username'', JStr u)]) =
     obj_lit [(''admin_username'', map_option JStr (keep_truthy u))]"
  by (simp add: obj_lit_def split: option.splits)

lemmas portal_instance_defs = consent_input
  portalListInstances_def portalCreateInstance_def portalGetInstance_def
  portalGetInstanceStack_def portalUpdateInstanceConfig_def portalStartProvisioning_def
  portalGetProvisioning_def portalCreateUpdateJob_def portalListUpdateJobs_def
  portalListInstanceKeys_def portalRevokeInstanceKey_def portalListInstanceDomains_def
  portalAddInstanceDomain_def portalVerifyInstanceDomain_def portalRotateInstanceDomain_def
  portalDisableInstanceDomain_def portalDeleteInstanceDomain_def portalUpsertDomainVerificationRoute53_def
  portalCreateInstanceKey_def portalProvisionConsentChallenge_def

text \<open>C4. Every function of portalInstances.ts sends one request, and the server reads from it
  exactly the method, the route with the caller's slug, key id and domain as single segments
  (whatever characters they contain, short of being \<open>.\<close> or \<open>..\<close>), the limit, the bearer token
  and the JSON input; the key list is normalised before it is returned.\<close>

theorem portal_instance_endpoints:
  assumes "\<not> dot_segment slug" and "\<not> dot_segment keyId" and "\<not> dot_segment domain"
    and "wf_json input" and "pred_option wf_json opt_input"
  shows "(served ''GET'' (portal_api @ [Lit ''instances'']) [] (Some token) None
            (portalListInstances token)) \<and>
     (served ''POST'' (portal_api @ [Lit ''instances'']) [] (Some token) (Some
              (obj_lit [(''slug'', Some (JStr slug))]))
            (portalCreateInstance token slug)) \<and>
     (served ''GET'' (portal_instance slug @ []) [] (Some token) None
            (portalGetInstance token slug)) \<and>
     (served ''GET'' (portal_instance slug @ [Lit ''stack'']) [] (Some token) None
            (portalGetInstanceStack token slug)) \<and>
     (served ''PUT'' (portal_instance slug @ [Lit ''config'']) [] (Some token) (Some input)
            (portalUpdateInstanceConfig token slug input)) \<and>
     (served ''POST'' (portal_instance slug @ [Lit ''provision'']) [] (Some token) (Some input)
            (portalStartProvisioning token slug input)) \<and>
     (served ''GET'' (portal_instance slug @ [Lit ''provision'']) [] (Some token) None
            (portalGetProvisioning token slug)) \<and>
     (served ''POST'' (portal_instance slug @ [Lit ''updates'']) [] (Some token) (Some
              (nullish opt_input (JObj [])))
            (portalCreateUpdateJob token slug opt_input)) \<and>
     (served ''GET'' (portal_instance slug @ [Lit ''updates''])
              (present [(''limit'', map_option string_of_int (keep_nonzero limit))]) (Some token) None
            (portalListUpdateJobs token slug limit)) \<and>
     (served_then ''GET'' (portal_instance slug @ [Lit ''keys''])
              (present [(''limit'', map_option string_of_int (keep_nonzero limit))])
              (Some token) None normalizeInstanceKeysResponse
            (portalListInstanceKeys token slug limit)) \<and>
     (served ''DELETE'' (portal_instance slug @ [Lit ''keys'', Val keyId]) [] (Some token) None
            (portalRevokeInstanceKey token slug keyId)) \<and>
     (served ''GET'' (portal_instance slug @ [Lit ''domains'']) [] (Some token) None
            (portalListInstanceDomains token slug)) \<and>
     (served ''POST'' (portal_instance slug @ [Lit ''domains'']) [] (Some token) (Some
              (obj_lit [(''domain'', Some (JStr domain))]))
            (portalAddInstanceDomain token slug domain)) \<and>
     (served ''POST'' (portal_instance slug @ [Lit ''domains'', Val domain, Lit ''verify'']) []
              (Some token) None
            (portalVerifyInstanceDomain token slug domain)) \<and>
     (served ''POST'' (portal_instance slug @ [Lit ''domains'', Val domain, Lit ''rotate'']) []
              (Some token) None
            (portalRotateInstanceDomain token slug domain)) \<and>
     (served ''POST'' (portal_instance slug @ [Lit ''domains'', Val domain, Lit ''disable'']) []
              (Some token) None
            (portalDisableInstanceDomain token slug domain)) \<and>
     (served ''DELETE'' (portal_instance slug @ [Lit ''domains'', Val domain]) [] (Some token) None
            (portalDeleteInstanceDomain token slug domain)) \<and>
     (served ''POST'' (portal_instance slug
              @ [Lit ''domains'', Val domain, Lit ''dns'', Lit ''route53'']) [] (Some token) None
            (portalUpsertDomainVerificationRoute53 token slug domain)) \<and>
     (served ''POST'' (portal_instance slug @ [Lit ''keys'']) [] (Some token) None
            (portalCreateInstanceKey token slug)) \<and>
     (served ''POST'' (portal_instance slug @ [Lit ''provision'', Lit ''consent'', Lit ''challenge'']) []
            (Some token) (Some (obj_lit [(''admin_username'', map_option JStr
              (keep_truthy adminUsername))]))
            (portalProvisionConsentChallenge token slug adminUsername))"
  by (intro conjI; insert assms;
      (rule served_rules;
        (simp add: portal_instance_defs route_simps request_simps wf_obj_lit wf_option_bodies split: option.splits; fail)))

theorem portal_instance_endpoints_witness:
  "served ''DELETE'' (portal_instance ''alpha'' @ [Lit ''keys'', Val ''a/b'']) [] (Some ''t'') None
     (portalRevokeInstanceKey ''t'' ''alpha'' ''a/b'')"
proof -
  have "\<not> dot_segment ''alpha''" "\<not> dot_segment ''a/b''" "wf_json (JObj [])" "pred_option wf_json None"
    by (simp_all add: dot_segment_def)
  from portal_instance_endpoints [OF this(1, 2, 2, 3, 4)] show ?thesis by blast
qed

lemmas portal_account_defs =
  portalWalletChallenge_def portalWalletLogin_def getPortalMe_def
  portalListBudgets_def portalGetBudgetMonth_def portalSetBudgetMonth_def
  operatorSetBudgetMonth_def portalListUsage_def portalGetUsageSummary_def
  portalGetInstanceActivity_def portalGetInstanceCost_def portalCreateCreditsCheckout_def
  portalListCreditPurchases_def portalCreatePaymentMethodCheckout_def portalListPaymentMethods_def
  portalListInvoices_def portalGetPaymentMethod_def portalGetTrustData_def



section \<open>Key timestamps\<close>

definition clean_timestamp :: "js_string \<Rightarrow> bool" where
  "clean_timestamp s \<longleftrightarrow> s \<noteq> [] \<and> js_trim s = s \<and> \<not> startsWith s ''0001-01-01T00:00:00''"

lemma normalize_timestamp_clean:
  "normalizeInstanceKeyTimestamp v = Some s \<Longrightarrow> clean_timestamp s"
  by (auto simp: normalizeInstanceKeyTimestamp_def clean_timestamp_def Let_def trim_idem split: if_splits)

lemma normalize_timestamp_id: "clean_timestamp s \<Longrightarrow> normalizeInstanceKeyTimestamp (Some s) = Some s"
  by (simp add: normalizeInstanceKeyTimestamp_def clean_timestamp_def Let_def opt_or_def str_or_def)

lemma normalize_timestamp_None: "normalizeInstanceKeyTimestamp None = None"
  by (simp add: normalizeInstanceKeyTimestamp_def opt_or_def js_trim_def)

definition clean_key :: "json \<Rightarrow> bool" where
  "clean_key key \<longleftrightarrow>
     (\<exists>rest u r. key = JObj (set_if (set_if rest ''last_used_at'' u) ''revoked_at'' r) \<and>
        ''last_used_at'' \<notin> fst ` set rest \<and> ''revoked_at'' \<notin> fst ` set rest \<and>
        pred_option clean_timestamp u \<and> pred_option clean_timestamp r)"

lemma normalize_key_clean: "normalize_key key = Inr out \<Longrightarrow> clean_key out"
proof -
  assume a: "normalize_key key = Inr out"
  let ?rest = "filter (\<lambda>(k, _). k \<noteq> ''last_used_at'' \<and> k \<noteq> ''revoked_at'') (own_props key)"
  from a obtain u r where
    "out = JObj (set_if (set_if ?rest ''last_used_at'' (normalizeInstanceKeyTimestamp u))
                  ''revoked_at'' (normalizeInstanceKeyTimestamp r))"
    by (auto simp: normalize_key_def Let_def split: if_splits sum.splits)
  moreover have "''last_used_at'' \<notin> fst ` set ?rest" "''revoked_at'' \<notin> fst ` set ?rest" by auto
  moreover have "pred_option clean_timestamp (normalizeInstanceKeyTimestamp v)" for v
    by (cases "normalizeInstanceKeyTimestamp v") (auto intro: normalize_timestamp_clean)
  ultimately show ?thesis unfolding clean_key_def by blast
qed

lemma set_if_fresh: "k \<notin> fst ` set kvs \<Longrightarrow> set_if kvs k v = kvs @ present [(k, map_option JStr v)]"
  by (cases v) (simp_all add: set_if_def obj_set_fresh)

lemma normalize_key_idem: "clean_key key \<Longrightarrow> normalize_key key = Inr key"
proof -
  assume "clean_key key"
  then obtain rest u r where k: "key = JObj (set_if (set_if rest ''last_used_at'' u) ''revoked_at'' r)"
    and fresh: "''last_used_at'' \<notin> fst ` set rest" "''revoked_at'' \<notin> fst ` set rest"
    and c: "pred_option clean_timestamp u" "pred_option clean_timestamp r"
    unfolding clean_key_def by blast
  have props: "own_props key = rest @ present [(''last_used_at'', map_option JStr u)]
      @ present [(''revoked_at'', map_option JStr r)]"
    using fresh by (cases u) (auto simp: k set_if_fresh)
  have none: "map_of rest ''last_used_at'' = None" "map_of rest ''revoked_at'' = None"
    using fresh by (simp_all add: map_of_eq_None_iff)
  have lu: "map_of (own_props key) ''last_used_at'' = map_option JStr u"
    unfolding props by (cases u; cases r) (simp_all add: map_add_def none)
  have rv: "map_of (own_props key) ''revoked_at'' = map_option JStr r"
    unfolding props by (cases u; cases r) (simp_all add: map_add_def none)
  have rest: "filter (\<lambda>(k, _). k \<noteq> ''last_used_at'' \<and> k \<noteq> ''revoked_at'') (own_props key) = rest"
    unfolding props using fresh by (cases u; cases r) (force simp: filter_id_conv)+
  have arg: "timestamp_arg (map_option JStr v) = Inr v" for v by (cases v) auto
  have n: "normalizeInstanceKeyTimestamp v = v" if "pred_option clean_timestamp v" for v
    using that by (cases v) (auto simp: normalize_timestamp_None normalize_timestamp_id)
  have "key \<noteq> JNull" by (simp add: k)
  then show ?thesis using c unfolding normalize_key_def Let_def lu rv rest arg by (simp add: n k)
qed

lemma map_or_throw_all:
  "map_or_throw f xs = Inr ys \<Longrightarrow> (\<And>x y. f x = Inr y \<Longrightarrow> P y) \<Longrightarrow> list_all P ys"
  by (induction xs arbitrary: ys) (auto split: sum.splits)

lemma map_or_throw_id: "list_all (\<lambda>x. f x = Inr x) xs \<Longrightarrow> map_or_throw f xs = Inr xs"
  by (induction xs) auto

lemma obj_get_obj_set: "map_of (obj_set kvs k v) k' = (if k' = k then Some v else map_of kvs k')"
  by (induction kvs) auto

lemma obj_set_same: "map_of kvs k = Some v \<Longrightarrow> obj_set kvs k v = kvs"
  by (induction kvs) (auto split: if_splits)

lemma normalize_response_out:
  assumes "normalizeInstanceKeysResponse res = Inr out"
  obtains kvs ks where "out = JObj kvs" "map_of kvs ''keys'' = Some (JArr ks)" "list_all clean_key ks"
proof -
  from assms obtain ks0 ks where m: "map_or_throw normalize_key ks0 = Inr ks"
    and o: "out = JObj (obj_set (own_props res) ''keys'' (JArr ks))"
    by (auto simp: normalizeInstanceKeysResponse_def split: sum.splits json.splits)
  have "list_all clean_key ks" by (rule map_or_throw_all [OF m normalize_key_clean])
  with o show ?thesis by (intro that) (auto simp: obj_get_obj_set)
qed

text \<open>Normalising a key list removes every placeholder timestamp: in the result each key's
  \<open>last_used_at\<close> and \<open>revoked_at\<close> is either absent or a trimmed, non-empty text that is not the Go zero
  time, and normalising the result again changes nothing.\<close>

theorem normalize_keys_idempotent:
  assumes "normalizeInstanceKeysResponse res = Inr out"
  shows "(\<exists>ks. obj_get out ''keys'' = Some (JArr ks) \<and> list_all clean_key ks) \<and>
     normalizeInstanceKeysResponse out = Inr out"
proof -
  obtain kvs ks where o: "out = JObj kvs" and k: "map_of kvs ''keys'' = Some (JArr ks)"
    and c: "list_all clean_key ks"
    by (rule normalize_response_out [OF assms])
  have "map_or_throw normalize_key ks = Inr ks"
    using c by (intro map_or_throw_id) (auto simp: list_all_iff normalize_key_idem)
  with k have "normalizeInstanceKeysResponse out = Inr out"
    by (simp add: normalizeInstanceKeysResponse_def js_member_def o obj_get_def nullish_def obj_set_same)
  with k c o show ?thesis by (simp add: obj_get_def)
qed

definition sample_keys :: json where
  "sample_keys = JObj [(''keys'', JArr [JObj [(''id'', JStr ''k1''),
     (''last_used_at'', JStr ''0001-01-01T00:00:00Z''), (''revoked_at'', JStr '' 2026-01-02 '')]])]"

theorem normalize_keys_idempotent_witness:
  "\<exists>out. normalizeInstanceKeysResponse sample_keys = Inr out \<and> normalizeInstanceKeysResponse out = Inr out"
proof -
  have "normalizeInstanceKeysResponse sample_keys =
     Inr (JObj [(''keys'', JArr [JObj [(''id'', JStr ''k1''), (''revoked_at'', JStr ''2026-01-02'')]])])"
    by (simp add: sample_keys_def normalizeInstanceKeysResponse_def js_member_def obj_get_def nullish_def
        normalize_key_def set_if_def normalizeInstanceKeyTimestamp_def opt_or_def str_or_def js_trim_def
        is_space_def startsWith_def)
  then show ?thesis using normalize_keys_idempotent by blast
qed

section \<open>Months are not encoded\<close>

text \<open>The month of the portal's budget call is pasted into the path as it is: a month that holds
  path syntax addresses another resource.  Asking for the budget of the month \<open>../keys\<close> reads the
  instance's key list, while the operator's variant of the call encodes the month and is safe.\<close>

theorem budget_month_traversal:
  assumes "\<not> dot_segment slug"
  shows "served ''GET'' (portal_instance slug @ [Lit ''keys'']) [] (Some token) None
     (portalGetBudgetMonth token slug ''../keys'') \<and>
    served ''PUT'' [Lit ''api'', Lit ''v1'', Lit ''instances'', Val slug, Lit ''budgets'', Val ''../keys''] []
     (Some token) (Some (obj_lit [(''included_credits'', Some (jnum n))]))
     (operatorSetBudgetMonth token slug ''../keys'' n)"
proof -
  let ?ps = "portal_instance slug @ [Lit ''budgets'']"
  let ?u = "path_of ?ps @ ''/../keys''"
  have ok: "list_all piece_ok ?ps" using assms by simp
  have url: "''/api/v1/portal/instances/'' @ encodeURIComponent slug @ ''/budgets/'' @ ''../keys'' = ?u"
    by (simp add: path_of_def)
  have nd: "\<forall>c \<in> set ?u. c \<noteq> CHR ''?'' \<and> c \<noteq> CHR ''#''"
    using path_of_no_delims [OF ok] by auto
  have "split_on (CHR ''/'') ?u = [] # (map piece_text ?ps @ [''..'', ''keys''])"
    using split_on_append_both [of "CHR ''/''" "path_of ?ps" "''../keys''"] split_path_of [OF ok] by simp
  moreover have "url_path ?u = ?u" "url_query ?u = []"
    by (rule no_query_path [OF nd] no_query_query [OF nd])+
  moreover have "remove_dots [] (map piece_text ?ps @ [''..'', ''keys'']) =
      map piece_text (portal_instance slug @ [Lit ''keys''])"
    using encode_not_dot [OF assms]
    by (simp add: single_dot_def double_dot_def toLowerCase_def lower_char_def)
  ultimately have "route ?u = Some [''api'', ''v1'', ''portal'', ''instances'', slug, ''keys'']"
     "query_of ?u = Some []"
    by (simp_all add: route_def decode_plain query_of_def parse_query_def)
  then have "served ''GET'' (portal_instance slug @ [Lit ''keys'']) [] (Some token) None
     (portalGetBudgetMonth token slug ''../keys'')"
    unfolding served_def portalGetBudgetMonth_def api_call_def url
    by (intro exI [of _ "\<lparr>req_method = ''GET'', req_url = ?u, req_headers = bearer token, req_body = None\<rparr>"])
      (simp add: server_view_def view_body_of_def bearer_def)
  moreover have "served ''PUT'' [Lit ''api'', Lit ''v1'', Lit ''instances'', Val slug, Lit ''budgets'', Val ''../keys''] []
     (Some token) (Some (obj_lit [(''included_credits'', Some (jnum n))]))
     (operatorSetBudgetMonth token slug ''../keys'' n)"
    using assms
    by (intro served_plain) (simp_all add: portal_account_defs route_simps request_simps wf_obj_lit dot_segment_def)
  ultimately show ?thesis ..
qed

theorem budget_month_traversal_witness:
  "served ''GET'' (portal_instance ''alpha'' @ [Lit ''keys'']) [] (Some ''t'') None
     (portalGetBudgetMonth ''t'' ''alpha'' ''../keys'')"
  by (rule budget_month_traversal [THEN conjunct1]) (simp add: dot_segment_def)

section \<open>Interfaces\<close>

interpretation portal_me: endpoint getPortalMe
  "\<lambda>token. \<lparr>req_method = ''GET'', req_url = ''/api/v1/portal/me'', req_headers = bearer token, req_body = None\<rparr>"
  by unfold_locales (simp add: getPortalMe_def api_call_def)

interpretation update_jobs: endpoint "\<lambda>(token, slug, limit). portalListUpdateJobs token slug limit"
  "\<lambda>(token, slug, limit).
     \<lparr>req_method = ''GET'',
      req_url = ''/api/v1/portal/instances/'' @ encodeURIComponent slug @ ''/updates''
         @ one_param ''limit'' (map_option string_of_int (keep_nonzero limit)),
      req_headers = bearer token, req_body = None\<rparr>"
  by unfold_locales (auto simp: portalListUpdateJobs_def api_call_def)
end
