(* ===== verification/Api_Operator.thy ===== *)
theory Api_Operator
  imports Api_Base
begin

text \<open>
  Sign-in, first-run setup and the operator console: \<^verbatim>\<open>web/src/lib/api/auth.ts\<close>,
  \<^verbatim>\<open>controlPlane.ts\<close>, \<^verbatim>\<open>webauthn.ts\<close>, \<^verbatim>\<open>operators.ts\<close>, \<^verbatim>\<open>operatorProvisioning.ts\<close>,
  \<^verbatim>\<open>operatorReleases.ts\<close>, \<^verbatim>\<open>operatorAudit.ts\<close>, \<^verbatim>\<open>tipRegistry.ts\<close> and \<^verbatim>\<open>trust.ts\<close>.  Three of the
  operator endpoints tolerate a server that does not have them yet; they share the interface
  \<open>tolerant_endpoint\<close>.
\<close>

section \<open>Sessions, setup and passkeys (auth.ts, controlPlane.ts, webauthn.ts)\<close>

definition authLogout :: "js_string \<Rightarrow> json io" where
  "authLogout token =
     api_call ''POST'' ''/api/v1/auth/logout''
       (bearer token) None"

definition getSetupStatus :: "json io" where
  "getSetupStatus =
     api_call ''GET'' ''/setup/status''
       [] None"

definition setupBootstrapChallenge :: "js_string \<Rightarrow> int \<Rightarrow> json io" where
  "setupBootstrapChallenge address chainId =
     (let req = jsonRequest (obj_lit [(''address'', Some (JStr address)), (''chainId'', Some
         (jnum chainId))]) in
      api_call ''POST'' ''/setup/bootstrap/challenge''
       (fst req) (snd req))"

definition setupBootstrapVerify :: "json \<Rightarrow> json io" where
  "setupBootstrapVerify input =
     (let req = jsonRequest input in
      api_call ''POST'' ''/setup/bootstrap/verify''
       (fst req) (snd req))"

definition walletChallenge :: "json \<Rightarrow> json io" where
  "walletChallenge input =
     (let req = jsonRequest input in
      api_call ''POST'' ''/auth/wallet/challenge''
       (fst req) (snd req))"

definition walletLogin :: "json \<Rightarrow> json io" where
  "walletLogin input =
     (let req = jsonRequest input in
      api_call ''POST'' ''/auth/wallet/login''
       (fst req) (snd req))"

definition setupCreateAdmin :: "js_string \<Rightarrow> json \<Rightarrow> json io" where
  "setupCreateAdmin setupSessionToken input =
     api_call ''POST'' ''/setup/admin''
       (bearer setupSessionToken @ [(''content-type'', ''application/json'')]) (Some
         (json_stringify input))"

definition setupPasskeyRegisterBegin :: "js_string \<Rightarrow> json \<Rightarrow> json io" where
  "setupPasskeyRegisterBegin setupSessionToken input =
     api_call ''POST'' ''/setup/webauthn/register/begin''
       (bearer setupSessionToken @ [(''content-type'', ''application/json'')]) (Some
         (json_stringify input))"

definition setupFinalize :: "js_string \<Rightarrow> json io" where
  "setupFinalize operatorToken =
     api_call ''POST'' ''/setup/finalize''
       (bearer operatorToken) None"

definition webAuthnRegisterBegin :: "js_string \<Rightarrow> json io" where
  "webAuthnRegisterBegin token =
     api_call ''POST'' ''/api/v1/auth/webauthn/register/begin''
       (bearer token) None"

definition webAuthnRegisterFinish :: "js_string \<Rightarrow> json \<Rightarrow> json io" where
  "webAuthnRegisterFinish token input =
     api_call ''POST'' ''/api/v1/auth/webauthn/register/finish''
       (bearer token @ [(''content-type'', ''application/json'')]) (Some (json_stringify input))"

definition webAuthnLoginBegin :: "js_string \<Rightarrow> json io" where
  "webAuthnLoginBegin username =
     (let req = jsonRequest (obj_lit [(''username'', Some (JStr username))]) in
      api_call ''POST'' ''/api/v1/auth/webauthn/login/begin''
       (fst req) (snd req))"

definition webAuthnLoginFinish :: "json \<Rightarrow> json io" where
  "webAuthnLoginFinish input =
     (let req = jsonRequest input in
      api_call ''POST'' ''/api/v1/auth/webauthn/login/finish''
       (fst req) (snd req))"

definition webAuthnCredentials :: "js_string \<Rightarrow> json io" where
  "webAuthnCredentials token =
     api_call ''GET'' ''/api/v1/auth/webauthn/credentials''
       (bearer token) None"

definition webAuthnDeleteCredential :: "js_string \<Rightarrow> js_string \<Rightarrow> json io" where
  "webAuthnDeleteCredential token credentialId =
     api_call ''DELETE'' (''/api/v1/auth/webauthn/credentials/'' @ encodeURIComponent credentialId)
       (bearer token) None"

definition webAuthnUpdateCredential :: "js_string \<Rightarrow> js_string \<Rightarrow> js_string \<Rightarrow> json io" where
  "webAuthnUpdateCredential token credentialId name =
     api_call ''PUT'' (''/api/v1/auth/webauthn/credentials/'' @ encodeURIComponent credentialId)
       (bearer token @ [(''content-type'', ''application/json'')]) (Some (json_stringify
         (obj_lit [(''name'', Some (JStr name))])))"

section \<open>Reviews (operators.ts)\<close>

definition getOperatorMe :: "js_string \<Rightarrow> json io" where
  "getOperatorMe token =
     api_call ''GET'' ''/api/v1/operators/me''
       (bearer token) None"

definition listVanityDomainRequests :: "js_string \<Rightarrow> json io" where
  "listVanityDomainRequests token =
     api_call ''GET'' ''/api/v1/operators/vanity-domain-requests''
       (bearer token) None"

definition approveVanityDomainRequest :: "js_string \<Rightarrow> js_string \<Rightarrow> js_string option \<Rightarrow> json io" where
  "approveVanityDomainRequest token domain note =
     (let req = (case keep_truthy note of None \<Rightarrow> None | Some note \<Rightarrow> Some
         (jsonRequest (obj_lit [(''note'', Some (JStr note))]))) in
      api_call ''POST'' (''/api/v1/operators/vanity-domain-requests/'' @ encodeURIComponent domain
         @ ''/approve'')
       (bearer token @ opt_headers req) (opt_body req))"

definition rejectVanityDomainRequest :: "js_string \<Rightarrow> js_string \<Rightarrow> js_string option \<Rightarrow> json io" where
  "rejectVanityDomainRequest token domain note =
     (let req = (case keep_truthy note of None \<Rightarrow> None | Some note \<Rightarrow> Some
         (jsonRequest (obj_lit [(''note'', Some (JStr note))]))) in
      api_call ''POST'' (''/api/v1/operators/vanity-domain-requests/'' @ encodeURIComponent domain
         @ ''/reject'')
       (bearer token @ opt_headers req) (opt_body req))"

definition listExternalInstanceRegistrations :: "js_string \<Rightarrow> json io" where
  "listExternalInstanceRegistrations token =
     api_call ''GET'' ''/api/v1/operators/external-instances/registrations''
       (bearer token) None"

definition approveExternalInstanceRegistration :: "js_string \<Rightarrow> js_string \<Rightarrow> js_string \<Rightarrow> (json option) io" where
  "approveExternalInstanceRegistration token username ident =
     io_then (\<lambda>res. js_member res ''registration'') (api_call ''POST''
         (''/api/v1/operators/external-instances/registrations/'' @ encodeURIComponent username
         @ ''/'' @ encodeURIComponent ident @ ''/approve'')
       (bearer token) None)"

definition rejectExternalInstanceRegistration :: "js_string \<Rightarrow> js_string \<Rightarrow> js_string \<Rightarrow> (json option) io" where
  "rejectExternalInstanceRegistration token username ident =
     io_then (\<lambda>res. js_member res ''registration'') (api_call ''POST''
         (''/api/v1/operators/external-instances/registrations/'' @ encodeURIComponent username
         @ ''/'' @ encodeURIComponent ident @ ''/reject'')
       (bearer token) None)"

definition listPortalUserApprovals :: "js_string \<Rightarrow> js_string option \<Rightarrow> json io" where
  "listPortalUserApprovals token status =
     api_call ''GET'' (''/api/v1/operators/portal-users'' @ one_param ''status'' (keep_truthy status))
       (bearer token) None"

definition approvePortalUser :: "js_string \<Rightarrow> js_string \<Rightarrow> js_string option \<Rightarrow> json io" where
  "approvePortalUser token username note =
     (let req = (case keep_truthy note of None \<Rightarrow> None | Some note \<Rightarrow> Some
         (jsonRequest (obj_lit [(''note'', Some (JStr note))]))) in
      api_call ''POST'' (''/api/v1/operators/portal-users/'' @ encodeURIComponent username
         @ ''/approve'')
       (bearer token @ opt_headers req) (opt_body req))"

definition rejectPortalUser :: "js_string \<Rightarrow> js_string \<Rightarrow> js_string option \<Rightarrow> json io" where
  "rejectPortalUser token username note =
     (let req = (case keep_truthy note of None \<Rightarrow> None | Some note \<Rightarrow> Some
         (jsonRequest (obj_lit [(''note'', Some (JStr note))]))) in
      api_call ''POST'' (''/api/v1/operators/portal-users/'' @ encodeURIComponent username
         @ ''/reject'')
       (bearer token @ opt_headers req) (opt_body req))"

section \<open>Provisioning, updates and drift (operatorProvisioning.ts)\<close>

record provision_jobs_query =
  pj_status :: "js_string option"
  pj_instance_slug :: "js_string option"
  pj_limit :: "int option"

record update_jobs_query =
  uj_status :: "js_string option"
  uj_limit :: "int option"

datatype 'a pending_result = Data 'a | EndpointPending nat

definition error_status :: "js_error \<Rightarrow> nat" where
  "error_status e = (case e of ApiError _ status _ \<Rightarrow> status | _ \<Rightarrow> 0)"

text \<open>The \<open>try\<close>/\<open>catch\<close> the three tolerant endpoints wrap around \<open>fetchJson\<close>.\<close>

definition or_pending :: "json io \<Rightarrow> json pending_result io" where
  "or_pending m net log =
     (case m net log of
        (Inr data, l) \<Rightarrow> (Inr (Data data), l)
      | (Inl err, l) \<Rightarrow>
          (let status = error_status err in
           if status = 404 \<or> status = 501 then (Inr (EndpointPending status), l) else (Inl err, l)))"

definition listOperatorProvisionJobs :: "js_string \<Rightarrow> provision_jobs_query option \<Rightarrow> json io" where
  "listOperatorProvisionJobs token input =
     (let qs = opt_set (opt_set (opt_set [] ''status'' (keep_truthy
         (opt_field pj_status input))) ''instance_slug'' (keep_truthy
         (opt_field pj_instance_slug input))) ''limit'' (map_option string_of_int (keep_nonzero
         (opt_field pj_limit input))) in
      api_call ''GET'' (if usp_to_string qs \<noteq> [] then ''/api/v1/operators/provisioning/jobs?''
         @ usp_to_string qs else ''/api/v1/operators/provisioning/jobs'')
       (bearer token) None)"

definition getOperatorProvisionJob :: "js_string \<Rightarrow> js_string \<Rightarrow> json io" where
  "getOperatorProvisionJob token ident =
     api_call ''GET'' (''/api/v1/operators/provisioning/jobs/'' @ encodeURIComponent ident)
       (bearer token) None"

definition retryOperatorProvisionJob :: "js_string \<Rightarrow> js_string \<Rightarrow> json io" where
  "retryOperatorProvisionJob token ident =
     api_call ''POST'' (''/api/v1/operators/provisioning/jobs/'' @ encodeURIComponent ident
         @ ''/retry'')
       (bearer token) None"

definition adoptOperatorProvisionJobAccount :: "js_string \<Rightarrow> js_string \<Rightarrow> json \<Rightarrow> json io" where
  "adoptOperatorProvisionJobAccount token ident input =
     (let req = jsonRequest input in
      api_call ''POST'' (''/api/v1/operators/provisioning/jobs/'' @ encodeURIComponent ident
         @ ''/adopt'')
       (bearer token @ fst req) (snd req))"

definition appendOperatorProvisionJobNote :: "js_string \<Rightarrow> js_string \<Rightarrow> js_string \<Rightarrow> json io" where
  "appendOperatorProvisionJobNote token ident note =
     (let req = jsonRequest (obj_lit [(''note'', Some (JStr note))]) in
      api_call ''POST'' (''/api/v1/operators/provisioning/jobs/'' @ encodeURIComponent ident
         @ ''/note'')
       (bearer token @ fst req) (snd req))"

definition listOperatorUpdateJobs ::
  "js_string \<Rightarrow> update_jobs_query option \<Rightarrow> json pending_result io" where
  "listOperatorUpdateJobs token input =
     (let qs = opt_set (opt_set [] ''status'' (keep_truthy (opt_field uj_status input)))
                 ''limit'' (map_option string_of_int (keep_nonzero (opt_field uj_limit input)));
          url = (if usp_to_string qs \<noteq> [] then ''/api/v1/operators/updates?'' @ usp_to_string qs
                 else ''/api/v1/operators/updates'') in
      or_pending (api_call ''GET'' url (bearer token) None))"

definition listOperatorInstancesDrift :: "js_string \<Rightarrow> json pending_result io" where
  "listOperatorInstancesDrift token =
     or_pending (api_call ''GET'' ''/api/v1/operators/instances/drift'' (bearer token) None)"

text \<open>A drift row; each cell may be missing in what the server sends, each \<open>drift\<close> too.\<close>

record drift_cell =
  cell_drift :: "js_string option"

record OperatorInstanceDriftEntry =
  entry_lesser :: "drift_cell option"
  entry_body :: "drift_cell option"
  entry_mcp :: "drift_cell option"

datatype RowDriftLabel = RowOk | LesserStale | BodyStale | WireStale | RowUnknown

definition drift_text :: "drift_cell option \<Rightarrow> js_string" where
  "drift_text cell = toLowerCase (opt_or (opt_field cell_drift cell) '''')"

definition rowDriftLabel :: "OperatorInstanceDriftEntry \<Rightarrow> RowDriftLabel" where
  "rowDriftLabel entry =
     (if drift_text (entry_mcp entry) = ''wire-stale'' then WireStale
      else if drift_text (entry_lesser entry) = ''stale'' then LesserStale
      else if drift_text (entry_body entry) = ''stale'' then BodyStale
      else
        (let allOk = (drift_text (entry_lesser entry) = ''ok'' \<and>
                      drift_text (entry_body entry) = ''ok'' \<and>
                      drift_text (entry_mcp entry) = ''ok'')
         in if allOk then RowOk else RowUnknown))"

definition remediateMCPDrift :: "js_string \<Rightarrow> json io" where
  "remediateMCPDrift token =
     api_call ''POST'' ''/api/v1/operators/instances/remediate-mcp-drift''
       (bearer token) None"

section \<open>Releases (operatorReleases.ts)\<close>

definition listOperatorReleases :: "js_string \<Rightarrow> json pending_result io" where
  "listOperatorReleases token =
     or_pending (api_call ''GET'' ''/api/v1/operators/releases'' (bearer token) None)"

record ReleaseVersionEntry =
  rel_version :: js_string
  rel_released_at :: js_string
  rel_is_latest :: "bool option"
  rel_is_breaking :: "bool option"

record ReleaseChannelData =
  channel_id :: js_string
  channel_versions :: "ReleaseVersionEntry list option"

record ListOperatorReleasesResponse =
  releases_channels :: "ReleaseChannelData list"
  releases_fleet_total :: int

definition channelVersions ::
  "ListOperatorReleasesResponse option \<Rightarrow> js_string \<Rightarrow> ReleaseVersionEntry list" where
  "channelVersions data ident =
     (case data of
        None \<Rightarrow> []
      | Some d \<Rightarrow>
          nullish (opt_field channel_versions (find (\<lambda>c. channel_id c = ident) (releases_channels d))) [])"

section \<open>The audit log (operatorAudit.ts)\<close>

record audit_query =
  aq_target :: "js_string option"
  aq_actor :: "js_string option"
  aq_action :: "js_string option"
  aq_request_id :: "js_string option"
  aq_since :: "js_string option"
  aq_until :: "js_string option"
  aq_limit :: "int option"

definition listOperatorAuditLog :: "js_string \<Rightarrow> audit_query option \<Rightarrow> json io" where
  "listOperatorAuditLog token input =
     (let qs = opt_set (opt_set (opt_set (opt_set (opt_set (opt_set (opt_set [] ''target''
         (keep_truthy (opt_field aq_target input))) ''actor'' (keep_truthy
         (opt_field aq_actor input))) ''action'' (keep_truthy
         (opt_field aq_action input))) ''request_id'' (keep_truthy
         (opt_field aq_request_id input))) ''since'' (keep_truthy
         (opt_field aq_since input))) ''until'' (keep_truthy (opt_field aq_until input))) ''limit''
         (map_option string_of_int (keep_nonzero (opt_field aq_limit input))) in
      api_call ''GET'' (if usp_to_string qs \<noteq> [] then ''/api/v1/operators/audit?''
         @ usp_to_string qs else ''/api/v1/operators/audit'')
       (bearer token) None)"

section \<open>The tip registry (tipRegistry.ts)\<close>

definition beginTipRegistryRegistration :: "json \<Rightarrow> json io" where
  "beginTipRegistryRegistration input =
     (let req = jsonRequest input in
      api_call ''POST'' ''/api/v1/tip-registry/registrations/begin''
       (fst req) (snd req))"

definition verifyTipRegistryRegistration :: "js_string \<Rightarrow> js_string \<Rightarrow> js_string list option \<Rightarrow> json io" where
  "verifyTipRegistryRegistration ident signature proofs =
     (let req = jsonRequest (obj_lit [(''signature'', Some (JStr signature)), (''proofs'', map_option
         (\<lambda>xs. JArr (map JStr xs)) proofs)]) in
      api_call ''POST'' (''/api/v1/tip-registry/registrations/'' @ encodeURIComponent ident
         @ ''/verify'')
       (fst req) (snd req))"

definition listTipRegistryOperations :: "js_string \<Rightarrow> js_string option \<Rightarrow> json io" where
  "listTipRegistryOperations token status =
     (let qs = opt_set [] ''status'' (keep_truthy status) in
      api_call ''GET'' (if usp_to_string qs \<noteq> [] then ''/api/v1/tip-registry/operations?''
         @ usp_to_string qs else ''/api/v1/tip-registry/operations'')
       (bearer token) None)"

definition getTipRegistryOperation :: "js_string \<Rightarrow> js_string \<Rightarrow> json io" where
  "getTipRegistryOperation token ident =
     api_call ''GET'' (''/api/v1/tip-registry/operations/'' @ encodeURIComponent ident)
       (bearer token) None"

definition recordTipRegistryOperationExecution :: "js_string \<Rightarrow> js_string \<Rightarrow> js_string \<Rightarrow> json io" where
  "recordTipRegistryOperationExecution token ident execTxHash =
     (let req = jsonRequest (obj_lit [(''exec_tx_hash'', Some (JStr execTxHash))]) in
      api_call ''POST'' (''/api/v1/tip-registry/operations/'' @ encodeURIComponent ident
         @ ''/record-execution'')
       (bearer token @ fst req) (snd req))"

definition ensureTipRegistryHost :: "js_string \<Rightarrow> js_string \<Rightarrow> json io" where
  "ensureTipRegistryHost token domain =
     api_call ''POST'' (''/api/v1/tip-registry/hosts/'' @ encodeURIComponent domain @ ''/ensure'')
       (bearer token) None"

definition setTipRegistryHostActive :: "js_string \<Rightarrow> js_string \<Rightarrow> bool \<Rightarrow> json io" where
  "setTipRegistryHostActive token domain active =
     (let req = jsonRequest (obj_lit [(''active'', Some (JBool active))]) in
      api_call ''POST'' (''/api/v1/tip-registry/hosts/'' @ encodeURIComponent domain @ ''/active'')
       (bearer token @ fst req) (snd req))"

definition setTipRegistryTokenAllowed :: "js_string \<Rightarrow> js_string \<Rightarrow> bool \<Rightarrow> json io" where
  "setTipRegistryTokenAllowed token tokenAddress allowed =
     (let req = jsonRequest (obj_lit [(''token_address'', Some (JStr tokenAddress)),
         (''allowed'', Some (JBool allowed))]) in
      api_call ''POST'' ''/api/v1/tip-registry/tokens/allowlist''
       (bearer token @ fst req) (snd req))"

section \<open>Attestations (trust.ts)\<close>

record attestation_query =
  at_actor_uri :: js_string
  at_object_uri :: js_string
  at_content_hash :: js_string
  at_module :: js_string
  at_policy_version :: js_string

definition getAttestation :: "js_string \<Rightarrow> json io" where
  "getAttestation ident =
     api_call ''GET'' (''/attestations/'' @ encodeURIComponent ident)
       [] None"

definition lookupAttestation :: "attestation_query \<Rightarrow> json io" where
  "lookupAttestation input =
     (let qs = [(''actor_uri'', at_actor_uri input), (''object_uri'', at_object_uri input),
                (''content_hash'', at_content_hash input), (''module'', at_module input),
                (''policy_version'', at_policy_version input)] in
      api_call ''GET'' (''/attestations?'' @ usp_to_string qs) [] None)"

definition getJWKS :: "json io" where
  "getJWKS =
     api_call ''GET'' ''/.well-known/jwks.json''
       [] None"

section \<open>Every endpoint sends what it means\<close>

lemmas session_defs =
  authLogout_def getSetupStatus_def setupBootstrapChallenge_def
  setupBootstrapVerify_def walletChallenge_def walletLogin_def
  setupCreateAdmin_def setupPasskeyRegisterBegin_def setupFinalize_def
  webAuthnRegisterBegin_def webAuthnRegisterFinish_def webAuthnLoginBegin_def
  webAuthnLoginFinish_def webAuthnCredentials_def webAuthnDeleteCredential_def
  webAuthnUpdateCredential_def

text \<open>C6. Sign-in, logout, first-run setup and passkey management: every function sends the one
  request it means; only the calls that carry a session send an authorization header.\<close>

theorem session_endpoints:
  assumes "\<not> dot_segment credentialId" and "wf_json input"
  shows "(served ''POST'' (auth_api @ [Lit ''logout'']) [] (Some token) None
            (authLogout token)) \<and>
     (served ''GET'' [Lit ''setup'', Lit ''status''] [] None None
            getSetupStatus) \<and>
     (served ''POST'' [Lit ''setup'', Lit ''bootstrap'', Lit ''challenge''] [] None (Some
              (obj_lit [(''address'', Some (JStr address)), (''chainId'', Some (jnum chainId))]))
            (setupBootstrapChallenge address chainId)) \<and>
     (served ''POST'' [Lit ''setup'', Lit ''bootstrap'', Lit ''verify''] [] None (Some input)
            (setupBootstrapVerify input)) \<and>
     (served ''POST'' [Lit ''auth'', Lit ''wallet'', Lit ''challenge''] [] None (Some input)
            (walletChallenge input)) \<and>
     (served ''POST'' [Lit ''auth'', Lit ''wallet'', Lit ''login''] [] None (Some input)
            (walletLogin input)) \<and>
     (served ''POST'' [Lit ''setup'', Lit ''admin''] [] (Some setupSessionToken) (Some input)
            (setupCreateAdmin setupSessionToken input)) \<and>
     (served ''POST'' [Lit ''setup'', Lit ''webauthn'', Lit ''register'', Lit ''begin''] []
              (Some setupSessionToken) (Some input)
            (setupPasskeyRegisterBegin setupSessionToken input)) \<and>
     (served ''POST'' [Lit ''setup'', Lit ''finalize''] [] (Some operatorToken) None
            (setupFinalize operatorToken)) \<and>
     (served ''POST'' (auth_api @ [Lit ''webauthn'', Lit ''register'', Lit ''begin'']) []
              (Some token) None
            (webAuthnRegisterBegin token)) \<and>
     (served ''POST'' (auth_api @ [Lit ''webauthn'', Lit ''register'', Lit ''finish'']) [] (Some token)
              (Some input)
            (webAuthnRegisterFinish token input)) \<and>
     (served ''POST'' (auth_api @ [Lit ''webauthn'', Lit ''login'', Lit ''begin'']) [] None (Some
              (obj_lit [(''username'', Some (JStr username))]))
            (webAuthnLoginBegin username)) \<and>
     (served ''POST'' (auth_api @ [Lit ''webauthn'', Lit ''login'', Lit ''finish'']) [] None (Some input)
            (webAuthnLoginFinish input)) \<and>
     (served ''GET'' (auth_api @ [Lit ''webauthn'', Lit ''credentials'']) [] (Some token) None
            (webAuthnCredentials token)) \<and>
     (served ''DELETE'' (auth_api @ [Lit ''webauthn'', Lit ''credentials'', Val credentialId]) []
              (Some token) None
            (webAuthnDeleteCredential token credentialId)) \<and>
     (served ''PUT'' (auth_api @ [Lit ''webauthn'', Lit ''credentials'', Val credentialId]) []
              (Some token) (Some (obj_lit [(''name'', Some (JStr name))]))
            (webAuthnUpdateCredential token credentialId name))"
  by (intro conjI; insert assms;
      (rule served_rules;
        (simp add: session_defs route_simps request_simps wf_obj_lit wf_option_bodies split: option.splits; fail)))

theorem session_endpoints_witness:
  "served ''DELETE'' (auth_api @ [Lit ''webauthn'', Lit ''credentials'', Val ''c/1'']) [] (Some ''t'') None
     (webAuthnDeleteCredential ''t'' ''c/1'')"
proof -
  have "\<not> dot_segment ''c/1''" "wf_json (JObj [])" by (simp_all add: dot_segment_def)
  from session_endpoints [OF this] show ?thesis by blast
qed

text \<open>The specification of a tolerant endpoint and its rules.\<close>

definition served_pending ::
  "piece list \<Rightarrow> search_params \<Rightarrow> js_string \<Rightarrow> json pending_result io \<Rightarrow> bool" where
  "served_pending ps qs token op \<longleftrightarrow>
     (\<exists>base. served ''GET'' ps qs (Some token) None base \<and> op = or_pending base)"

lemma served_pending_plain:
  assumes "op = or_pending (api_call ''GET'' (path_of ps) (bearer token) None)" and "list_all piece_ok ps"
  shows "served_pending ps [] token op"
  unfolding served_pending_def assms(1)
  by (rule exI, rule conjI [OF served_plain [OF _ assms(2)] refl]) (simp_all add: request_simps)

lemma served_pending_params:
  assumes "op = or_pending (api_call ''GET'' (path_of ps @ maybe_query (usp_to_string
              (foldl (\<lambda>ps (k, v). opt_set ps k v) [] kvs))) (bearer token) None)"
    and "list_all piece_ok ps" and "distinct (map fst kvs)"
  shows "served_pending ps (present kvs) token op"
  unfolding served_pending_def assms(1)
  by (rule exI, rule conjI [OF served_params [OF _ assms(2, 3)] refl]) (simp_all add: request_simps)

lemmas operator_defs =
  getOperatorMe_def listVanityDomainRequests_def approveVanityDomainRequest_def
  rejectVanityDomainRequest_def listExternalInstanceRegistrations_def approveExternalInstanceRegistration_def
  rejectExternalInstanceRegistration_def listPortalUserApprovals_def approvePortalUser_def
  rejectPortalUser_def listOperatorProvisionJobs_def getOperatorProvisionJob_def
  retryOperatorProvisionJob_def adoptOperatorProvisionJobAccount_def appendOperatorProvisionJobNote_def
  remediateMCPDrift_def listOperatorAuditLog_def beginTipRegistryRegistration_def
  verifyTipRegistryRegistration_def listTipRegistryOperations_def getTipRegistryOperation_def
  recordTipRegistryOperationExecution_def ensureTipRegistryHost_def setTipRegistryHostActive_def
  setTipRegistryTokenAllowed_def listOperatorUpdateJobs_def listOperatorInstancesDrift_def
  listOperatorReleases_def

text \<open>C7. The operator console: every function of operators.ts, operatorProvisioning.ts,
  operatorReleases.ts, operatorAudit.ts and tipRegistry.ts sends the one request it means; absent
  and empty filters are left out of the query, a review note is sent only when there is one.\<close>

theorem operator_endpoints:
  assumes "\<not> dot_segment domain" and "\<not> dot_segment username" and "\<not> dot_segment ident"
    and "wf_json input"
  shows "(served ''GET'' (operators_api @ [Lit ''me'']) [] (Some token) None
            (getOperatorMe token)) \<and>
     (served ''GET'' (operators_api @ [Lit ''vanity-domain-requests'']) [] (Some token) None
            (listVanityDomainRequests token)) \<and>
     (served ''POST'' (operators_api
              @ [Lit ''vanity-domain-requests'', Val domain, Lit ''approve'']) [] (Some token)
              (map_option (\<lambda>note. obj_lit [(''note'', Some (JStr note))]) (keep_truthy opt_note))
            (approveVanityDomainRequest token domain opt_note)) \<and>
     (served ''POST'' (operators_api @ [Lit ''vanity-domain-requests'', Val domain, Lit ''reject'']) []
              (Some token) (map_option (\<lambda>note. obj_lit [(''note'', Some (JStr note))])
              (keep_truthy opt_note))
            (rejectVanityDomainRequest token domain opt_note)) \<and>
     (served ''GET'' (operators_api @ [Lit ''external-instances'', Lit ''registrations'']) []
              (Some token) None
            (listExternalInstanceRegistrations token)) \<and>
     (served_then ''POST'' (operators_api
              @ [Lit ''external-instances'', Lit ''registrations'', Val username, Val ident, Lit ''approve'']) [] (Some token) None (\<lambda>res. js_member res ''registration'')
            (approveExternalInstanceRegistration token username ident)) \<and>
     (served_then ''POST'' (operators_api
              @ [Lit ''external-instances'', Lit ''registrations'', Val username, Val ident, Lit ''reject'']) [] (Some token) None (\<lambda>res. js_member res ''registration'')
            (rejectExternalInstanceRegistration token username ident)) \<and>
     (served ''GET'' (operators_api @ [Lit ''portal-users''])
              (present [(''status'', keep_truthy status)]) (Some token) None
            (listPortalUserApprovals token status)) \<and>
     (served ''POST'' (operators_api @ [Lit ''portal-users'', Val username, Lit ''approve'']) []
              (Some token) (map_option (\<lambda>note. obj_lit [(''note'', Some (JStr note))])
              (keep_truthy opt_note))
            (approvePortalUser token username opt_note)) \<and>
     (served ''POST'' (operators_api @ [Lit ''portal-users'', Val username, Lit ''reject'']) []
              (Some token) (map_option (\<lambda>note. obj_lit [(''note'', Some (JStr note))])
              (keep_truthy opt_note))
            (rejectPortalUser token username opt_note)) \<and>
     (served ''GET'' (operators_api @ [Lit ''provisioning'', Lit ''jobs''])
              (present [(''status'', keep_truthy (opt_field pj_status jobs_filter)),
              (''instance_slug'', keep_truthy (opt_field pj_instance_slug jobs_filter)),
              (''limit'', map_option string_of_int (keep_nonzero (opt_field pj_limit jobs_filter)))])
              (Some token) None
            (listOperatorProvisionJobs token jobs_filter)) \<and>
     (served ''GET'' (operators_api @ [Lit ''provisioning'', Lit ''jobs'', Val ident]) []
              (Some token) None
            (getOperatorProvisionJob token ident)) \<and>
     (served ''POST'' (operators_api
              @ [Lit ''provisioning'', Lit ''jobs'', Val ident, Lit ''retry'']) [] (Some token) None
            (retryOperatorProvisionJob token ident)) \<and>
     (served ''POST'' (operators_api
              @ [Lit ''provisioning'', Lit ''jobs'', Val ident, Lit ''adopt'']) [] (Some token)
              (Some input)
            (adoptOperatorProvisionJobAccount token ident input)) \<and>
     (served ''POST'' (operators_api
              @ [Lit ''provisioning'', Lit ''jobs'', Val ident, Lit ''note'']) [] (Some token) (Some
              (obj_lit [(''note'', Some (JStr note))]))
            (appendOperatorProvisionJobNote token ident note)) \<and>
     (served ''POST'' (operators_api @ [Lit ''instances'', Lit ''remediate-mcp-drift'']) []
              (Some token) None
            (remediateMCPDrift token)) \<and>
     (served ''GET'' (operators_api @ [Lit ''audit'']) (present [(''target'', keep_truthy
              (opt_field aq_target audit_filter)), (''actor'', keep_truthy
              (opt_field aq_actor audit_filter)), (''action'', keep_truthy
              (opt_field aq_action audit_filter)), (''request_id'', keep_truthy
              (opt_field aq_request_id audit_filter)), (''since'', keep_truthy
              (opt_field aq_since audit_filter)), (''until'', keep_truthy
              (opt_field aq_until audit_filter)), (''limit'', map_option string_of_int (keep_nonzero
              (opt_field aq_limit audit_filter)))]) (Some token) None
            (listOperatorAuditLog token audit_filter)) \<and>
     (served ''POST'' (tip_registry_api @ [Lit ''registrations'', Lit ''begin'']) [] None (Some input)
            (beginTipRegistryRegistration input)) \<and>
     (served ''POST'' (tip_registry_api @ [Lit ''registrations'', Val ident, Lit ''verify'']) [] None
              (Some (obj_lit [(''signature'', Some (JStr signature)), (''proofs'', map_option
              (\<lambda>xs. JArr (map JStr xs)) proofs)]))
            (verifyTipRegistryRegistration ident signature proofs)) \<and>
     (served ''GET'' (tip_registry_api @ [Lit ''operations''])
              (present [(''status'', keep_truthy status)]) (Some token) None
            (listTipRegistryOperations token status)) \<and>
     (served ''GET'' (tip_registry_api @ [Lit ''operations'', Val ident]) [] (Some token) None
            (getTipRegistryOperation token ident)) \<and>
     (served ''POST'' (tip_registry_api @ [Lit ''operations'', Val ident, Lit ''record-execution'']) []
              (Some token) (Some (obj_lit [(''exec_tx_hash'', Some (JStr execTxHash))]))
            (recordTipRegistryOperationExecution token ident execTxHash)) \<and>
     (served ''POST'' (tip_registry_api @ [Lit ''hosts'', Val domain, Lit ''ensure'']) []
              (Some token) None
            (ensureTipRegistryHost token domain)) \<and>
     (served ''POST'' (tip_registry_api @ [Lit ''hosts'', Val domain, Lit ''active'']) [] (Some token)
              (Some (obj_lit [(''active'', Some (JBool active))]))
            (setTipRegistryHostActive token domain active)) \<and>
     (served ''POST'' (tip_registry_api @ [Lit ''tokens'', Lit ''allowlist'']) [] (Some token) (Some
              (obj_lit [(''token_address'', Some (JStr tokenAddress)), (''allowed'', Some
              (JBool allowed))]))
            (setTipRegistryTokenAllowed token tokenAddress allowed)) \<and>
     (served_pending (operators_api @ [Lit ''updates''])
            (present [(''status'', keep_truthy (opt_field uj_status update_query)),
               (''limit'', map_option string_of_int (keep_nonzero (opt_field uj_limit update_query)))])
            token (listOperatorUpdateJobs token update_query)) \<and>
     (served_pending (operators_api @ [Lit ''instances'', Lit ''drift'']) [] token
            (listOperatorInstancesDrift token)) \<and>
     (served_pending (operators_api @ [Lit ''releases'']) [] token (listOperatorReleases token))"
  by (intro conjI; insert assms;
      (rule served_rules served_pending_plain served_pending_params;
        (simp add: operator_defs route_simps request_simps wf_obj_lit wf_option_bodies split: option.splits; fail)))

theorem operator_endpoints_witness:
  "served ''POST'' (operators_api @ [Lit ''portal-users'', Val ''a b'', Lit ''approve'']) [] (Some ''t'') None
     (approvePortalUser ''t'' ''a b'' (Some ''''))"
proof -
  have "\<not> dot_segment ''a b''" "wf_json (JObj [])" by (simp_all add: dot_segment_def)
  from operator_endpoints [OF this(1, 1, 1, 2), where token = "''t''" and opt_note = "Some ''''"]
  have "served ''POST'' (operators_api @ [Lit ''portal-users'', Val ''a b'', Lit ''approve'']) [] (Some ''t'')
     (map_option (\<lambda>note. obj_lit [(''note'', Some (JStr note))]) (keep_truthy (Some '''')))
     (approvePortalUser ''t'' ''a b'' (Some ''''))" by blast
  then show ?thesis by (simp add: keep_truthy_def truthy_def)
qed

section \<open>Tolerant endpoints\<close>

text \<open>
  The contract of an endpoint the server may not have yet: a reader of the console gets the data,
  a marker that the endpoint is missing, or the error.
\<close>

locale tolerant_endpoint =
  fixes op :: "'a \<Rightarrow> json pending_result io" and req :: "'a \<Rightarrow> request"
  assumes op_pending: "op a = or_pending (fetchJson (req a))"
begin

lemma one_request: "snd (op a net log) = log @ [req a]"
proof -
  obtain r l where f: "fetchJson (req a) net log = (r, l)" by (cases "fetchJson (req a) net log")
  then have "l = log @ [req a]" using fetchJson_log [of "req a" net log] by simp
  with f show ?thesis by (cases r) (auto simp: op_pending or_pending_def Let_def)
qed

lemma data_iff:
  "fst (op a net log) = Inr (Data v) \<longleftrightarrow>
     (\<exists>res. net log (req a) = Fetched res \<and> read_response res = Inr v)"
  by (auto simp: op_pending or_pending_def fetchJson_def fetch_def Let_def
      split: fetch_outcome.splits sum.splits)

lemma pending_iff:
  "fst (op a net log) = Inr (EndpointPending n) \<longleftrightarrow>
     (\<exists>res. net log (req a) = Fetched res \<and> res_status res = n \<and> n \<in> {404, 501})"
proof (cases "net log (req a)")
  case (FetchFailed msg)
  then show ?thesis by (auto simp: op_pending or_pending_def fetchJson_def fetch_def error_status_def)
next
  case (Fetched res)
  show ?thesis
  proof (cases "res_ok res")
    case True
    then have "200 \<le> res_status res \<and> res_status res \<le> 299" by (simp add: res_ok_def)
    moreover have "\<forall>e. read_response res = Inl e \<longrightarrow> error_status e \<notin> {404, 501}"
      using True by (auto simp: read_response_def response_json_def error_status_def res_ok_def split: option.splits if_splits)
    ultimately show ?thesis using Fetched
      by (auto simp: op_pending or_pending_def fetchJson_def fetch_def Let_def split: sum.splits)
  next
    case False
    then obtain msg c where "read_response res = Inl (ApiError msg (res_status res) c)"
      using read_response_error by blast
    with Fetched show ?thesis
      by (auto simp: op_pending or_pending_def fetchJson_def fetch_def Let_def error_status_def)
  qed
qed

lemma rethrows:
  "fst (op a net log) = Inl e \<longleftrightarrow>
     fst (fetchJson (req a) net log) = Inl e \<and> error_status e \<notin> {404, 501}"
  by (auto simp: op_pending or_pending_def Let_def split: prod.splits sum.splits)

end

abbreviation get_with :: "js_string \<Rightarrow> js_string \<Rightarrow> request" where
  "get_with url token \<equiv>
     \<lparr>req_method = ''GET'', req_url = url, req_headers = bearer token, req_body = None\<rparr>"

interpretation drift: tolerant_endpoint listOperatorInstancesDrift "get_with ''/api/v1/operators/instances/drift''"
  by unfold_locales (simp add: listOperatorInstancesDrift_def api_call_def)

interpretation releases: tolerant_endpoint listOperatorReleases "get_with ''/api/v1/operators/releases''"
  by unfold_locales (simp add: listOperatorReleases_def api_call_def)

definition update_jobs_url :: "update_jobs_query option \<Rightarrow> js_string" where
  "update_jobs_url input =
     ''/api/v1/operators/updates'' @ maybe_query (usp_to_string
        (present [(''status'', keep_truthy (opt_field uj_status input)),
                  (''limit'', map_option string_of_int (keep_nonzero (opt_field uj_limit input)))]))"

interpretation updates: tolerant_endpoint "\<lambda>(token, input). listOperatorUpdateJobs token input"
  "\<lambda>(token, input). get_with (update_jobs_url input) token"
proof
  fix a :: "js_string \<times> update_jobs_query option"
  obtain token input where a: "a = (token, input)" by (cases a)
  have "opt_set (opt_set [] ''status'' s) ''limit'' l = present [(''status'', s), (''limit'', l)]" for s l
    using foldl_opt_set [of "[(''status'', s), (''limit'', l)]"] by simp
  then show "(case a of (token, input) \<Rightarrow> listOperatorUpdateJobs token input) =
      or_pending (fetchJson (case a of (token, input) \<Rightarrow> get_with (update_jobs_url input) token))"
    by (simp add: a listOperatorUpdateJobs_def api_call_def update_jobs_url_def maybe_query_def Let_def)
qed

text \<open>The drift, release and update listings report a missing endpoint exactly when the server
  answers 404 or 501, carrying that status; every other failure is rethrown and a good answer is
  returned as data.\<close>

theorem tolerant_endpoints_classify:
  "(fst (listOperatorInstancesDrift token net log) = Inr (EndpointPending n) \<longleftrightarrow>
      (\<exists>res. net log (get_with ''/api/v1/operators/instances/drift'' token) = Fetched res
         \<and> res_status res = n \<and> n \<in> {404, 501})) \<and>
   (fst (listOperatorReleases token net log) = Inr (EndpointPending n) \<longleftrightarrow>
      (\<exists>res. net log (get_with ''/api/v1/operators/releases'' token) = Fetched res
         \<and> res_status res = n \<and> n \<in> {404, 501})) \<and>
   (fst (listOperatorUpdateJobs token input net log) = Inr (EndpointPending n) \<longleftrightarrow>
      (\<exists>res. net log (get_with (update_jobs_url input) token) = Fetched res
         \<and> res_status res = n \<and> n \<in> {404, 501})) \<and>
   (fst (listOperatorReleases token net log) = Inl e \<longleftrightarrow>
      fst (fetchJson (get_with ''/api/v1/operators/releases'' token) net log) = Inl e
        \<and> error_status e \<notin> {404, 501}) \<and>
   (fst (listOperatorReleases token net log) = Inr (Data v) \<longleftrightarrow>
      (\<exists>res. net log (get_with ''/api/v1/operators/releases'' token) = Fetched res
         \<and> read_response res = Inr v))"
proof (intro conjI)
  show "fst (listOperatorInstancesDrift token net log) = Inr (EndpointPending n) \<longleftrightarrow>
      (\<exists>res. net log (get_with ''/api/v1/operators/instances/drift'' token) = Fetched res
         \<and> res_status res = n \<and> n \<in> {404, 501})" by (rule drift.pending_iff)
  show "fst (listOperatorReleases token net log) = Inr (EndpointPending n) \<longleftrightarrow>
      (\<exists>res. net log (get_with ''/api/v1/operators/releases'' token) = Fetched res
         \<and> res_status res = n \<and> n \<in> {404, 501})" by (rule releases.pending_iff)
  show "fst (listOperatorUpdateJobs token input net log) = Inr (EndpointPending n) \<longleftrightarrow>
      (\<exists>res. net log (get_with (update_jobs_url input) token) = Fetched res
         \<and> res_status res = n \<and> n \<in> {404, 501})"
    using updates.pending_iff [of "(token, input)" net log n] by simp
qed (rule releases.rethrows releases.data_iff)+

section \<open>Drift rows and release channels\<close>

text \<open>The priority order the comment on \<open>rowDriftLabel\<close> announces.\<close>

fun label_rank :: "RowDriftLabel \<Rightarrow> nat" where
  "label_rank WireStale = 0"
| "label_rank LesserStale = 1"
| "label_rank BodyStale = 2"
| "label_rank RowOk = 3"
| "label_rank RowUnknown = 4"

definition label_applies :: "OperatorInstanceDriftEntry \<Rightarrow> RowDriftLabel \<Rightarrow> bool" where
  "label_applies entry l =
     (case l of
        WireStale \<Rightarrow> drift_text (entry_mcp entry) = ''wire-stale''
      | LesserStale \<Rightarrow> drift_text (entry_lesser entry) = ''stale''
      | BodyStale \<Rightarrow> drift_text (entry_body entry) = ''stale''
      | RowOk \<Rightarrow> list_all (\<lambda>c. drift_text c = ''ok'') [entry_lesser entry, entry_body entry, entry_mcp entry]
      | RowUnknown \<Rightarrow> True)"

text \<open>The label of a drift row is the applicable label of highest priority, in the order wire-stale,
  lesser-stale, body-stale, ok, unknown; drift values are compared without regard to case.\<close>

theorem rowDriftLabel_priority:
  "label_applies entry (rowDriftLabel entry) \<and>
     (\<forall>l. label_applies entry l \<longrightarrow> label_rank (rowDriftLabel entry) \<le> label_rank l)"
proof -
  have "label_rank (rowDriftLabel entry) \<le> label_rank l" if "label_applies entry l" for l
    using that by (cases l) (auto simp: rowDriftLabel_def label_applies_def Let_def)
  moreover have "label_applies entry (rowDriftLabel entry)"
    by (simp add: rowDriftLabel_def label_applies_def Let_def)
  ultimately show ?thesis by blast
qed

theorem rowDriftLabel_priority_witness:
  "rowDriftLabel \<lparr>entry_lesser = Some \<lparr>cell_drift = Some ''STALE''\<rparr>, entry_body = None,
      entry_mcp = Some \<lparr>cell_drift = Some ''ok''\<rparr>\<rparr> = LesserStale"
proof -
  let ?e = "\<lparr>entry_lesser = Some \<lparr>cell_drift = Some ''STALE''\<rparr>, entry_body = None,
      entry_mcp = Some \<lparr>cell_drift = Some ''ok''\<rparr>\<rparr>"
  have a: "label_applies ?e LesserStale" and "\<not> label_applies ?e WireStale"
    by (simp_all add: label_applies_def drift_text_def opt_field_def opt_or_def str_or_def
        toLowerCase_def lower_char_eq_iff)
  then show ?thesis using rowDriftLabel_priority [of ?e] by (cases "rowDriftLabel ?e") force+
qed

lemma channelVersions_find:
  "channelVersions (Some d) i = vs \<Longrightarrow> v \<in> set vs \<Longrightarrow>
     \<exists>c \<in> set (releases_channels d). channel_id c = i \<and> (\<exists>ws. channel_versions c = Some ws \<and> v \<in> set ws)"
  by (auto simp: channelVersions_def opt_field_def nullish_def find_Some_iff split: option.splits)

section \<open>Attestations\<close>

text \<open>The attestation calls are unauthenticated reads; a lookup carries the five members of its
  input, in order and unchanged, as query pairs.\<close>

theorem attestation_endpoints:
  assumes "\<not> dot_segment ident"
  shows "served ''GET'' [Lit ''attestations'', Val ident] [] None None (getAttestation ident) \<and>
    served ''GET'' [Lit ''attestations'']
      [(''actor_uri'', at_actor_uri q), (''object_uri'', at_object_uri q), (''content_hash'', at_content_hash q),
       (''module'', at_module q), (''policy_version'', at_policy_version q)] None None (lookupAttestation q) \<and>
    served ''GET'' [Lit ''.well-known'', Lit ''jwks.json''] [] None None getJWKS"
proof (intro conjI)
  let ?qs = "[(''actor_uri'', at_actor_uri q), (''object_uri'', at_object_uri q), (''content_hash'', at_content_hash q),
       (''module'', at_module q), (''policy_version'', at_policy_version q)]"
  have ok: "list_all piece_ok [Lit ''attestations'']" by simp
  have "query_of (path_of [Lit ''attestations''] @ maybe_query (usp_to_string ?qs)) = Some ?qs"
    by (rule query_of_maybe [OF ok])
  then show "served ''GET'' [Lit ''attestations''] ?qs None None (lookupAttestation q)"
    by (intro served_general [OF _ ok, where q = "maybe_query (usp_to_string ?qs)"])
      (simp_all add: lookupAttestation_def path_of_def maybe_query_def query_suffix_def request_simps)
  show "served ''GET'' [Lit ''attestations'', Val ident] [] None None (getAttestation ident)"
    by (rule served_plain) (use assms in \<open>simp_all add: getAttestation_def route_simps request_simps\<close>)
  show "served ''GET'' [Lit ''.well-known'', Lit ''jwks.json''] [] None None getJWKS"
    by (rule served_plain) (simp_all add: getJWKS_def route_simps request_simps)
qed

theorem attestation_endpoints_witness:
  "served ''GET'' [Lit ''attestations'', Val ''a#b''] [] None None (getAttestation ''a#b'')"
  by (rule attestation_endpoints [THEN conjunct1]) (simp add: dot_segment_def)

interpretation logout: endpoint authLogout
  "\<lambda>token. \<lparr>req_method = ''POST'', req_url = ''/api/v1/auth/logout'', req_headers = bearer token, req_body = None\<rparr>"
  by unfold_locales (simp add: authLogout_def api_call_def)

end
