(* ===== verification/Api_Soul.thy ===== *)
theory Api_Soul
  imports Api_Base
begin

text \<open>
  The soul registry client, \<^verbatim>\<open>web/src/lib/api/soul.ts\<close>: public reads, the registration, promotion,
  wallet rotation, boundary, continuity, failure and sovereignty calls of an agent, the minting
  conversation, and the event stream that drives it.
\<close>

record soul_search_query =
  sq_q :: "js_string option"
  sq_domain :: "js_string option"
  sq_capability :: "js_string option"
  sq_claimLevel :: "js_string option"
  sq_boundary :: "js_string option"
  sq_status :: "js_string option"
  sq_cursor :: "js_string option"
  sq_limit :: "int option"

record page_query =
  pg_limit :: "int option"
  pg_cursor :: "js_string option"

section \<open>Requests\<close>

definition soulPublicGetConfig :: "json io" where
  "soulPublicGetConfig =
     api_call ''GET'' ''/api/v1/soul/config''
       [] None"

definition soulPublicGetAgentChannels :: "js_string \<Rightarrow> js_string \<Rightarrow> json io" where
  "soulPublicGetAgentChannels agentId token =
     api_call ''GET'' (''/api/v1/soul/agents/'' @ encodeURIComponent agentId @ ''/channels'')
       (bearer token) None"

definition soulProvisionEmailBegin :: "js_string \<Rightarrow> js_string \<Rightarrow> json option \<Rightarrow> json io" where
  "soulProvisionEmailBegin token agentId input =
     (let req = jsonRequest (nullish input (JObj [])) in
      api_call ''POST'' (''/api/v1/soul/agents/'' @ encodeURIComponent agentId
         @ ''/channels/email/provision/begin'')
       (bearer token @ fst req) (snd req))"

definition soulProvisionEmailConfirm :: "js_string \<Rightarrow> js_string \<Rightarrow> json \<Rightarrow> json io" where
  "soulProvisionEmailConfirm token agentId input =
     (let req = jsonRequest input in
      api_call ''POST'' (''/api/v1/soul/agents/'' @ encodeURIComponent agentId
         @ ''/channels/email/provision'')
       (bearer token @ fst req) (snd req))"

definition soulProvisionPhoneBegin :: "js_string \<Rightarrow> js_string \<Rightarrow> json \<Rightarrow> json io" where
  "soulProvisionPhoneBegin token agentId input =
     (let req = jsonRequest input in
      api_call ''POST'' (''/api/v1/soul/agents/'' @ encodeURIComponent agentId
         @ ''/channels/phone/provision/begin'')
       (bearer token @ fst req) (snd req))"

definition soulProvisionPhoneConfirm :: "js_string \<Rightarrow> js_string \<Rightarrow> json \<Rightarrow> json io" where
  "soulProvisionPhoneConfirm token agentId input =
     (let req = jsonRequest input in
      api_call ''POST'' (''/api/v1/soul/agents/'' @ encodeURIComponent agentId
         @ ''/channels/phone/provision'')
       (bearer token @ fst req) (snd req))"

definition soulDeprovisionPhone :: "js_string \<Rightarrow> js_string \<Rightarrow> json io" where
  "soulDeprovisionPhone token agentId =
     api_call ''DELETE'' (''/api/v1/soul/agents/'' @ encodeURIComponent agentId @ ''/channels/phone'')
       (bearer token) None"

definition soulPublicSearch :: "soul_search_query \<Rightarrow> json io" where
  "soulPublicSearch input =
     (let params = opt_set (opt_set (opt_set (opt_set (opt_set (opt_set (opt_set (opt_set [] ''q''
         (keep_truthy (sq_q input))) ''domain'' (keep_truthy (sq_domain input))) ''capability''
         (keep_truthy (sq_capability input))) ''claimLevel'' (keep_truthy
         (sq_claimLevel input))) ''boundary'' (keep_truthy (sq_boundary input))) ''status''
         (keep_truthy (sq_status input))) ''cursor'' (keep_truthy (sq_cursor input))) ''limit''
         (map_option string_of_int (sq_limit input));
          qs = usp_to_string params in
      api_call ''GET'' (''/api/v1/soul/search'' @ maybe_query qs)
       [] None)"

definition soulListMyAgents :: "js_string \<Rightarrow> json io" where
  "soulListMyAgents token =
     api_call ''GET'' ''/api/v1/soul/agents/mine''
       (bearer token) None"

definition soulListPortalRoster :: "js_string \<Rightarrow> json io" where
  "soulListPortalRoster token =
     api_call ''GET'' ''/api/v1/portal/souls/roster''
       (bearer token) None"

definition soulAgentRegistrationBegin :: "js_string \<Rightarrow> json \<Rightarrow> json io" where
  "soulAgentRegistrationBegin token input =
     (let req = jsonRequest input in
      api_call ''POST'' ''/api/v1/soul/agents/register/begin''
       (bearer token @ fst req) (snd req))"

definition soulAgentRegistrationPrincipalDeclarationPreflight :: "js_string \<Rightarrow> js_string \<Rightarrow> json \<Rightarrow> json io" where
  "soulAgentRegistrationPrincipalDeclarationPreflight token ident input =
     (let req = jsonRequest input in
      api_call ''POST'' (''/api/v1/soul/agents/register/'' @ encodeURIComponent ident
         @ ''/principal-declaration/preflight'')
       (bearer token @ fst req) (snd req))"

definition soulAgentRegistrationVerify :: "js_string \<Rightarrow> js_string \<Rightarrow> json \<Rightarrow> json io" where
  "soulAgentRegistrationVerify token ident input =
     (let req = jsonRequest input in
      api_call ''POST'' (''/api/v1/soul/agents/register/'' @ encodeURIComponent ident @ ''/verify'')
       (bearer token @ fst req) (snd req))"

definition soulGetAgentPromotion :: "js_string \<Rightarrow> js_string \<Rightarrow> json io" where
  "soulGetAgentPromotion token agentId =
     api_call ''GET'' (''/api/v1/soul/agents/'' @ encodeURIComponent agentId @ ''/promotion'')
       (bearer token) None"

definition soulListMyPromotions :: "js_string \<Rightarrow> page_query option \<Rightarrow> json io" where
  "soulListMyPromotions token input =
     (let params = opt_set (opt_set [] ''limit'' (map_option string_of_int
         (opt_field pg_limit input))) ''cursor'' (keep_truthy (opt_field pg_cursor input));
          qs = usp_to_string params in
      api_call ''GET'' (''/api/v1/soul/promotions/mine'' @ maybe_query qs)
       (bearer token) None)"

definition soulListMyPromotionLifecycleEvents :: "js_string \<Rightarrow> page_query option \<Rightarrow> json io" where
  "soulListMyPromotionLifecycleEvents token input =
     (let params = opt_set (opt_set [] ''limit'' (map_option string_of_int
         (opt_field pg_limit input))) ''cursor'' (keep_truthy (opt_field pg_cursor input));
          qs = usp_to_string params in
      api_call ''GET'' (''/api/v1/soul/promotions/mine/events'' @ maybe_query qs)
       (bearer token) None)"

definition soulListAgentPromotionLifecycleEvents :: "js_string \<Rightarrow> js_string \<Rightarrow> page_query option \<Rightarrow> json io" where
  "soulListAgentPromotionLifecycleEvents token agentId input =
     (let params = opt_set (opt_set [] ''limit'' (map_option string_of_int
         (opt_field pg_limit input))) ''cursor'' (keep_truthy (opt_field pg_cursor input));
          qs = usp_to_string params in
      api_call ''GET'' (''/api/v1/soul/agents/'' @ encodeURIComponent agentId @ ''/promotion/events''
         @ maybe_query qs)
       (bearer token) None)"

definition soulVerifyAgentPromotion :: "js_string \<Rightarrow> js_string \<Rightarrow> json \<Rightarrow> json io" where
  "soulVerifyAgentPromotion token agentId input =
     (let req = jsonRequest input in
      api_call ''POST'' (''/api/v1/soul/agents/'' @ encodeURIComponent agentId @ ''/promotion/verify'')
       (bearer token @ fst req) (snd req))"

definition soulAgentRotateWalletBegin :: "js_string \<Rightarrow> js_string \<Rightarrow> js_string \<Rightarrow> json io" where
  "soulAgentRotateWalletBegin token agentId newWalletAddress =
     (let req = jsonRequest (obj_lit [(''new_wallet_address'', Some (JStr newWalletAddress))]) in
      api_call ''POST'' (''/api/v1/soul/agents/'' @ encodeURIComponent agentId
         @ ''/rotate-wallet/begin'')
       (bearer token @ fst req) (snd req))"

definition soulAgentRotateWalletConfirm :: "js_string \<Rightarrow> js_string \<Rightarrow> js_string \<Rightarrow> js_string \<Rightarrow> json io" where
  "soulAgentRotateWalletConfirm token agentId currentSignature newSignature =
     (let req = jsonRequest (obj_lit [(''current_signature'', Some (JStr currentSignature)),
         (''new_signature'', Some (JStr newSignature))]) in
      api_call ''POST'' (''/api/v1/soul/agents/'' @ encodeURIComponent agentId
         @ ''/rotate-wallet/confirm'')
       (bearer token @ fst req) (snd req))"

definition soulGetAgentRotationOperation :: "js_string \<Rightarrow> js_string \<Rightarrow> json io" where
  "soulGetAgentRotationOperation token agentId =
     api_call ''GET'' (''/api/v1/soul/agents/'' @ encodeURIComponent agentId
         @ ''/rotate-wallet/operation'')
       (bearer token) None"

definition soulRecordAgentRotationExecution :: "js_string \<Rightarrow> js_string \<Rightarrow> js_string \<Rightarrow> json io" where
  "soulRecordAgentRotationExecution token agentId execTxHash =
     (let req = jsonRequest (obj_lit [(''exec_tx_hash'', Some (JStr execTxHash))]) in
      api_call ''POST'' (''/api/v1/soul/agents/'' @ encodeURIComponent agentId
         @ ''/rotate-wallet/operation/record-execution'')
       (bearer token @ fst req) (snd req))"

definition soulUpdateRegistration :: "js_string \<Rightarrow> js_string \<Rightarrow> json \<Rightarrow> json io" where
  "soulUpdateRegistration token agentId input =
     (let req = jsonRequest input in
      api_call ''POST'' (''/api/v1/soul/agents/'' @ encodeURIComponent agentId
         @ ''/update-registration'')
       (bearer token @ fst req) (snd req))"

definition soulAgentListCommActivity :: "js_string \<Rightarrow> js_string \<Rightarrow> int option \<Rightarrow> json io" where
  "soulAgentListCommActivity token agentId limit =
     (let params = usp_set [] ''limit'' (string_of_int (nullish limit 50));
          qs = usp_to_string params in
      api_call ''GET'' (''/api/v1/soul/agents/'' @ encodeURIComponent agentId @ ''/comm/activity''
         @ ''?'' @ qs)
       (bearer token) None)"

definition soulAgentListCommQueue :: "js_string \<Rightarrow> js_string \<Rightarrow> int option \<Rightarrow> json io" where
  "soulAgentListCommQueue token agentId limit =
     (let params = usp_set [] ''limit'' (string_of_int (nullish limit 50));
          qs = usp_to_string params in
      api_call ''GET'' (''/api/v1/soul/agents/'' @ encodeURIComponent agentId @ ''/comm/queue''
         @ ''?'' @ qs)
       (bearer token) None)"

definition soulAgentGetCommStatus :: "js_string \<Rightarrow> js_string \<Rightarrow> js_string \<Rightarrow> json io" where
  "soulAgentGetCommStatus token agentId messageId =
     api_call ''GET'' (''/api/v1/soul/agents/'' @ encodeURIComponent agentId @ ''/comm/status/''
         @ encodeURIComponent messageId)
       (bearer token) None"

definition soulPublicGetAgent :: "js_string \<Rightarrow> json io" where
  "soulPublicGetAgent agentId =
     api_call ''GET'' (''/api/v1/soul/agents/'' @ encodeURIComponent agentId)
       [] None"

definition soulPublicGetRegistration :: "js_string \<Rightarrow> json io" where
  "soulPublicGetRegistration agentId =
     api_call ''GET'' (''/api/v1/soul/agents/'' @ encodeURIComponent agentId @ ''/registration'')
       [] None"

definition soulPublicGetReputation :: "js_string \<Rightarrow> json io" where
  "soulPublicGetReputation agentId =
     api_call ''GET'' (''/api/v1/soul/agents/'' @ encodeURIComponent agentId @ ''/reputation'')
       [] None"

definition soulPublicGetValidations :: "js_string \<Rightarrow> js_string option \<Rightarrow> int option \<Rightarrow> json io" where
  "soulPublicGetValidations agentId cursor limit =
     (let params = usp_set (opt_set [] ''cursor'' (keep_truthy cursor)) ''limit'' (string_of_int
         (nullish limit 50));
          qs = usp_to_string params in
      api_call ''GET'' (''/api/v1/soul/agents/'' @ encodeURIComponent agentId @ ''/validations''
         @ maybe_query qs)
       [] None)"

definition listSoulOperations :: "js_string \<Rightarrow> js_string \<Rightarrow> json io" where
  "listSoulOperations token status =
     (let params = opt_set [] ''status'' (keep_truthy (Some status));
          qs = usp_to_string params in
      api_call ''GET'' (''/api/v1/soul/operations'' @ maybe_query qs)
       (bearer token) None)"

definition getSoulOperation :: "js_string \<Rightarrow> js_string \<Rightarrow> json io" where
  "getSoulOperation token ident =
     api_call ''GET'' (''/api/v1/soul/operations/'' @ encodeURIComponent ident)
       (bearer token) None"

definition recordSoulOperationExecution :: "js_string \<Rightarrow> js_string \<Rightarrow> js_string \<Rightarrow> json io" where
  "recordSoulOperationExecution token ident execTxHash =
     (let req = jsonRequest (obj_lit [(''exec_tx_hash'', Some (JStr execTxHash))]) in
      api_call ''POST'' (''/api/v1/soul/operations/'' @ encodeURIComponent ident
         @ ''/record-execution'')
       (bearer token @ fst req) (snd req))"

definition soulGetAgentMintOperation :: "js_string \<Rightarrow> js_string \<Rightarrow> json io" where
  "soulGetAgentMintOperation token agentId =
     api_call ''GET'' (''/api/v1/soul/agents/'' @ encodeURIComponent agentId @ ''/mint-operation'')
       (bearer token) None"

definition soulRecordAgentMintExecution :: "js_string \<Rightarrow> js_string \<Rightarrow> js_string \<Rightarrow> json io" where
  "soulRecordAgentMintExecution token agentId execTxHash =
     (let req = jsonRequest (obj_lit [(''exec_tx_hash'', Some (JStr execTxHash))]) in
      api_call ''POST'' (''/api/v1/soul/agents/'' @ encodeURIComponent agentId
         @ ''/mint-operation/record-execution'')
       (bearer token @ fst req) (snd req))"

definition publishSoulReputationRoot :: "js_string \<Rightarrow> json io" where
  "publishSoulReputationRoot token =
     api_call ''POST'' ''/api/v1/soul/reputation/publish''
       (bearer token) None"

definition publishSoulValidationRoot :: "js_string \<Rightarrow> json io" where
  "publishSoulValidationRoot token =
     api_call ''POST'' ''/api/v1/soul/validation/publish''
       (bearer token) None"

definition soulPublicGetBoundaries :: "js_string \<Rightarrow> js_string option \<Rightarrow> int option \<Rightarrow> json io" where
  "soulPublicGetBoundaries agentId cursor limit =
     (let params = usp_set (opt_set [] ''cursor'' (keep_truthy cursor)) ''limit'' (string_of_int
         (nullish limit 50));
          qs = usp_to_string params in
      api_call ''GET'' (''/api/v1/soul/agents/'' @ encodeURIComponent agentId @ ''/boundaries''
         @ maybe_query qs)
       [] None)"

definition soulAddBoundaryBegin :: "js_string \<Rightarrow> js_string \<Rightarrow> json \<Rightarrow> json io" where
  "soulAddBoundaryBegin token agentId input =
     (let req = jsonRequest input in
      api_call ''POST'' (''/api/v1/soul/agents/'' @ encodeURIComponent agentId @ ''/boundaries/begin'')
       (bearer token @ fst req) (snd req))"

definition soulAddBoundary :: "js_string \<Rightarrow> js_string \<Rightarrow> json \<Rightarrow> json io" where
  "soulAddBoundary token agentId input =
     (let req = jsonRequest input in
      api_call ''POST'' (''/api/v1/soul/agents/'' @ encodeURIComponent agentId @ ''/boundaries'')
       (bearer token @ fst req) (snd req))"

definition soulPublicGetContinuity :: "js_string \<Rightarrow> js_string option \<Rightarrow> int option \<Rightarrow> json io" where
  "soulPublicGetContinuity agentId cursor limit =
     (let params = usp_set (opt_set [] ''cursor'' (keep_truthy cursor)) ''limit'' (string_of_int
         (nullish limit 50));
          qs = usp_to_string params in
      api_call ''GET'' (''/api/v1/soul/agents/'' @ encodeURIComponent agentId @ ''/continuity''
         @ maybe_query qs)
       [] None)"

definition soulAppendContinuity :: "js_string \<Rightarrow> js_string \<Rightarrow> json \<Rightarrow> json io" where
  "soulAppendContinuity token agentId input =
     (let req = jsonRequest input in
      api_call ''POST'' (''/api/v1/soul/agents/'' @ encodeURIComponent agentId @ ''/continuity'')
       (bearer token @ fst req) (snd req))"

definition soulPublicGetDisputes :: "js_string \<Rightarrow> js_string option \<Rightarrow> int option \<Rightarrow> json io" where
  "soulPublicGetDisputes agentId cursor limit =
     (let params = usp_set (opt_set [] ''cursor'' (keep_truthy cursor)) ''limit'' (string_of_int
         (nullish limit 50));
          qs = usp_to_string params in
      api_call ''GET'' (''/api/v1/soul/agents/'' @ encodeURIComponent agentId @ ''/disputes''
         @ maybe_query qs)
       [] None)"

definition soulPublicGetDispute :: "js_string \<Rightarrow> js_string \<Rightarrow> json io" where
  "soulPublicGetDispute agentId disputeId =
     api_call ''GET'' (''/api/v1/soul/agents/'' @ encodeURIComponent agentId @ ''/disputes/''
         @ encodeURIComponent disputeId)
       [] None"

definition soulPublicGetRelationships :: "js_string \<Rightarrow> js_string option \<Rightarrow> js_string option \<Rightarrow> int option \<Rightarrow> js_string option \<Rightarrow> json io" where
  "soulPublicGetRelationships agentId type cursor limit taskType =
     (let params = usp_set (opt_set (opt_set (opt_set [] ''type'' (keep_truthy type)) ''taskType''
         (keep_truthy taskType)) ''cursor'' (keep_truthy cursor)) ''limit'' (string_of_int
         (nullish limit 50));
          qs = usp_to_string params in
      api_call ''GET'' (''/api/v1/soul/agents/'' @ encodeURIComponent agentId @ ''/relationships''
         @ maybe_query qs)
       [] None)"

definition soulCreateRelationship :: "js_string \<Rightarrow> js_string \<Rightarrow> json \<Rightarrow> json io" where
  "soulCreateRelationship token toAgentId input =
     (let req = jsonRequest input in
      api_call ''POST'' (''/api/v1/soul/agents/'' @ encodeURIComponent toAgentId @ ''/relationships'')
       (bearer token @ fst req) (snd req))"

definition soulPublicGetVersions :: "js_string \<Rightarrow> js_string option \<Rightarrow> int option \<Rightarrow> json io" where
  "soulPublicGetVersions agentId cursor limit =
     (let params = usp_set (opt_set [] ''cursor'' (keep_truthy cursor)) ''limit'' (string_of_int
         (nullish limit 50));
          qs = usp_to_string params in
      api_call ''GET'' (''/api/v1/soul/agents/'' @ encodeURIComponent agentId @ ''/versions''
         @ maybe_query qs)
       [] None)"

definition soulPublicGetCapabilities :: "js_string \<Rightarrow> json io" where
  "soulPublicGetCapabilities agentId =
     api_call ''GET'' (''/api/v1/soul/agents/'' @ encodeURIComponent agentId @ ''/capabilities'')
       [] None"

definition soulPublicGetTransparency :: "js_string \<Rightarrow> json io" where
  "soulPublicGetTransparency agentId =
     api_call ''GET'' (''/api/v1/soul/agents/'' @ encodeURIComponent agentId @ ''/transparency'')
       [] None"

definition soulPublicGetFailures :: "js_string \<Rightarrow> js_string option \<Rightarrow> int option \<Rightarrow> json io" where
  "soulPublicGetFailures agentId cursor limit =
     (let params = usp_set (opt_set [] ''cursor'' (keep_truthy cursor)) ''limit'' (string_of_int
         (nullish limit 50));
          qs = usp_to_string params in
      api_call ''GET'' (''/api/v1/soul/agents/'' @ encodeURIComponent agentId @ ''/failures''
         @ maybe_query qs)
       [] None)"

definition soulRecordFailure :: "js_string \<Rightarrow> js_string \<Rightarrow> json \<Rightarrow> json io" where
  "soulRecordFailure token agentId input =
     (let req = jsonRequest input in
      api_call ''POST'' (''/api/v1/soul/agents/'' @ encodeURIComponent agentId @ ''/failures'')
       (bearer token @ fst req) (snd req))"

definition soulRecordRecovery :: "js_string \<Rightarrow> js_string \<Rightarrow> json \<Rightarrow> json io" where
  "soulRecordRecovery token agentId input =
     (let req = jsonRequest input in
      api_call ''POST'' (''/api/v1/soul/agents/'' @ encodeURIComponent agentId @ ''/failures/recover'')
       (bearer token @ fst req) (snd req))"

definition soulSelfSuspend :: "js_string \<Rightarrow> js_string \<Rightarrow> js_string option \<Rightarrow> json io" where
  "soulSelfSuspend token agentId reason =
     (let req = jsonRequest (obj_lit [(''reason'', map_option JStr reason)]) in
      api_call ''POST'' (''/api/v1/soul/agents/'' @ encodeURIComponent agentId @ ''/self-suspend'')
       (bearer token @ fst req) (snd req))"

definition soulSelfReinstate :: "js_string \<Rightarrow> js_string \<Rightarrow> json io" where
  "soulSelfReinstate token agentId =
     api_call ''POST'' (''/api/v1/soul/agents/'' @ encodeURIComponent agentId @ ''/self-reinstate'')
       (bearer token) None"

definition soulArchiveAgentBegin :: "js_string \<Rightarrow> js_string \<Rightarrow> json io" where
  "soulArchiveAgentBegin token agentId =
     api_call ''POST'' (''/api/v1/soul/agents/'' @ encodeURIComponent agentId @ ''/archive/begin'')
       (bearer token) None"

definition soulArchiveAgent :: "js_string \<Rightarrow> js_string \<Rightarrow> json \<Rightarrow> json io" where
  "soulArchiveAgent token agentId input =
     (let req = jsonRequest input in
      api_call ''POST'' (''/api/v1/soul/agents/'' @ encodeURIComponent agentId @ ''/archive'')
       (bearer token @ fst req) (snd req))"

definition soulDesignateSuccessorBegin :: "js_string \<Rightarrow> js_string \<Rightarrow> js_string \<Rightarrow> json io" where
  "soulDesignateSuccessorBegin token agentId successorAgentId =
     (let req = jsonRequest (obj_lit [(''successor_agent_id'', Some (JStr successorAgentId))]) in
      api_call ''POST'' (''/api/v1/soul/agents/'' @ encodeURIComponent agentId @ ''/successor/begin'')
       (bearer token @ fst req) (snd req))"

definition soulDesignateSuccessor :: "js_string \<Rightarrow> js_string \<Rightarrow> json \<Rightarrow> json io" where
  "soulDesignateSuccessor token agentId input =
     (let req = jsonRequest input in
      api_call ''POST'' (''/api/v1/soul/agents/'' @ encodeURIComponent agentId @ ''/successor'')
       (bearer token @ fst req) (snd req))"

definition soulGetMintConversation :: "js_string \<Rightarrow> js_string \<Rightarrow> js_string \<Rightarrow> json io" where
  "soulGetMintConversation token registrationId conversationId =
     api_call ''GET'' (''/api/v1/soul/agents/register/'' @ encodeURIComponent registrationId
         @ ''/mint-conversation/'' @ encodeURIComponent conversationId)
       (bearer token) None"

definition soulCompleteMintConversation :: "js_string \<Rightarrow> js_string \<Rightarrow> js_string \<Rightarrow> json option \<Rightarrow> json io" where
  "soulCompleteMintConversation token registrationId conversationId input =
     (let req = (case input of None \<Rightarrow> None | Some i \<Rightarrow> Some (jsonRequest i)) in
      api_call ''POST'' (''/api/v1/soul/agents/register/'' @ encodeURIComponent registrationId
         @ ''/mint-conversation/'' @ encodeURIComponent conversationId @ ''/complete'')
       (bearer token @ opt_headers req) (opt_body req))"

definition soulAgentListMintConversations :: "js_string \<Rightarrow> js_string \<Rightarrow> int option \<Rightarrow> json io" where
  "soulAgentListMintConversations token agentId limit =
     (let params = opt_set [] ''limit'' (map_option string_of_int limit);
          qs = usp_to_string params in
      api_call ''GET'' (''/api/v1/soul/agents/'' @ encodeURIComponent agentId
         @ ''/mint-conversations'' @ maybe_query qs)
       (bearer token) None)"

definition soulAgentGetMintConversation :: "js_string \<Rightarrow> js_string \<Rightarrow> js_string \<Rightarrow> json io" where
  "soulAgentGetMintConversation token agentId conversationId =
     api_call ''GET'' (''/api/v1/soul/agents/'' @ encodeURIComponent agentId
         @ ''/mint-conversation/'' @ encodeURIComponent conversationId)
       (bearer token) None"

definition soulAgentCompleteMintConversation :: "js_string \<Rightarrow> js_string \<Rightarrow> js_string \<Rightarrow> json option \<Rightarrow> json io" where
  "soulAgentCompleteMintConversation token agentId conversationId input =
     (let req = (case input of None \<Rightarrow> None | Some i \<Rightarrow> Some (jsonRequest i)) in
      api_call ''POST'' (''/api/v1/soul/agents/'' @ encodeURIComponent agentId
         @ ''/mint-conversation/'' @ encodeURIComponent conversationId @ ''/complete'')
       (bearer token @ opt_headers req) (opt_body req))"

definition soulMintConversationFinalizePreflight :: "js_string \<Rightarrow> js_string \<Rightarrow> js_string \<Rightarrow> json \<Rightarrow> json io" where
  "soulMintConversationFinalizePreflight token registrationId conversationId input =
     (let req = jsonRequest input in
      api_call ''POST'' (''/api/v1/soul/agents/register/'' @ encodeURIComponent registrationId
         @ ''/mint-conversation/'' @ encodeURIComponent conversationId @ ''/finalize/preflight'')
       (bearer token @ fst req) (snd req))"

definition soulMintConversationFinalizeBegin :: "js_string \<Rightarrow> js_string \<Rightarrow> js_string \<Rightarrow> json \<Rightarrow> json io" where
  "soulMintConversationFinalizeBegin token registrationId conversationId input =
     (let req = jsonRequest input in
      api_call ''POST'' (''/api/v1/soul/agents/register/'' @ encodeURIComponent registrationId
         @ ''/mint-conversation/'' @ encodeURIComponent conversationId @ ''/finalize/begin'')
       (bearer token @ fst req) (snd req))"

definition soulAgentMintConversationFinalizePreflight :: "js_string \<Rightarrow> js_string \<Rightarrow> js_string \<Rightarrow> json \<Rightarrow> json io" where
  "soulAgentMintConversationFinalizePreflight token agentId conversationId input =
     (let req = jsonRequest input in
      api_call ''POST'' (''/api/v1/soul/agents/'' @ encodeURIComponent agentId
         @ ''/mint-conversation/'' @ encodeURIComponent conversationId @ ''/finalize/preflight'')
       (bearer token @ fst req) (snd req))"

definition soulAgentMintConversationFinalizeBegin :: "js_string \<Rightarrow> js_string \<Rightarrow> js_string \<Rightarrow> json \<Rightarrow> json io" where
  "soulAgentMintConversationFinalizeBegin token agentId conversationId input =
     (let req = jsonRequest input in
      api_call ''POST'' (''/api/v1/soul/agents/'' @ encodeURIComponent agentId
         @ ''/mint-conversation/'' @ encodeURIComponent conversationId @ ''/finalize/begin'')
       (bearer token @ fst req) (snd req))"

definition soulMintConversationFinalize :: "js_string \<Rightarrow> js_string \<Rightarrow> js_string \<Rightarrow> json \<Rightarrow> json io" where
  "soulMintConversationFinalize token registrationId conversationId input =
     (let req = jsonRequest input in
      api_call ''POST'' (''/api/v1/soul/agents/register/'' @ encodeURIComponent registrationId
         @ ''/mint-conversation/'' @ encodeURIComponent conversationId @ ''/finalize'')
       (bearer token @ fst req) (snd req))"

definition soulAgentMintConversationFinalize :: "js_string \<Rightarrow> js_string \<Rightarrow> js_string \<Rightarrow> json \<Rightarrow> json io" where
  "soulAgentMintConversationFinalize token agentId conversationId input =
     (let req = jsonRequest input in
      api_call ''POST'' (''/api/v1/soul/agents/'' @ encodeURIComponent agentId
         @ ''/mint-conversation/'' @ encodeURIComponent conversationId @ ''/finalize'')
       (bearer token @ fst req) (snd req))"

section \<open>Every endpoint sends what it means\<close>

lemmas soul_public_defs =
  soulPublicGetConfig_def soulPublicGetAgentChannels_def soulPublicSearch_def
  soulPublicGetAgent_def soulPublicGetRegistration_def soulPublicGetReputation_def
  soulPublicGetValidations_def soulPublicGetBoundaries_def soulPublicGetContinuity_def
  soulPublicGetDisputes_def soulPublicGetDispute_def soulPublicGetRelationships_def
  soulPublicGetVersions_def soulPublicGetCapabilities_def soulPublicGetTransparency_def
  soulPublicGetFailures_def

text \<open>The public reads of the soul registry carry the agent id as one path segment and the
  search filters, cursor and page size (50 unless given) as query pairs; apart from the channel
  list they are unauthenticated.\<close>

theorem soul_public_endpoints:
  assumes "\<not> dot_segment agentId" and "\<not> dot_segment disputeId"
  shows "(served ''GET'' (soul_api @ [Lit ''config'']) [] None None
            soulPublicGetConfig) \<and>
     (served ''GET'' (soul_agent agentId @ [Lit ''channels'']) [] (Some token) None
            (soulPublicGetAgentChannels agentId token)) \<and>
     (served ''GET'' (soul_api @ [Lit ''search'']) (present [(''q'', keep_truthy (sq_q search)),
              (''domain'', keep_truthy (sq_domain search)), (''capability'', keep_truthy
              (sq_capability search)), (''claimLevel'', keep_truthy (sq_claimLevel search)),
              (''boundary'', keep_truthy (sq_boundary search)), (''status'', keep_truthy
              (sq_status search)), (''cursor'', keep_truthy (sq_cursor search)),
              (''limit'', map_option string_of_int (sq_limit search))]) None None
            (soulPublicSearch search)) \<and>
     (served ''GET'' (soul_agent agentId @ []) [] None None
            (soulPublicGetAgent agentId)) \<and>
     (served ''GET'' (soul_agent agentId @ [Lit ''registration'']) [] None None
            (soulPublicGetRegistration agentId)) \<and>
     (served ''GET'' (soul_agent agentId @ [Lit ''reputation'']) [] None None
            (soulPublicGetReputation agentId)) \<and>
     (served ''GET'' (soul_agent agentId @ [Lit ''validations''])
              (present [(''cursor'', keep_truthy cursor), (''limit'', Some (string_of_int
              (nullish limit 50)))]) None None
            (soulPublicGetValidations agentId cursor limit)) \<and>
     (served ''GET'' (soul_agent agentId @ [Lit ''boundaries''])
              (present [(''cursor'', keep_truthy cursor), (''limit'', Some (string_of_int
              (nullish limit 50)))]) None None
            (soulPublicGetBoundaries agentId cursor limit)) \<and>
     (served ''GET'' (soul_agent agentId @ [Lit ''continuity''])
              (present [(''cursor'', keep_truthy cursor), (''limit'', Some (string_of_int
              (nullish limit 50)))]) None None
            (soulPublicGetContinuity agentId cursor limit)) \<and>
     (served ''GET'' (soul_agent agentId @ [Lit ''disputes''])
              (present [(''cursor'', keep_truthy cursor), (''limit'', Some (string_of_int
              (nullish limit 50)))]) None None
            (soulPublicGetDisputes agentId cursor limit)) \<and>
     (served ''GET'' (soul_agent agentId @ [Lit ''disputes'', Val disputeId]) [] None None
            (soulPublicGetDispute agentId disputeId)) \<and>
     (served ''GET'' (soul_agent agentId @ [Lit ''relationships''])
              (present [(''type'', keep_truthy type), (''taskType'', keep_truthy taskType),
              (''cursor'', keep_truthy cursor), (''limit'', Some (string_of_int
              (nullish limit 50)))]) None None
            (soulPublicGetRelationships agentId type cursor limit taskType)) \<and>
     (served ''GET'' (soul_agent agentId @ [Lit ''versions''])
              (present [(''cursor'', keep_truthy cursor), (''limit'', Some (string_of_int
              (nullish limit 50)))]) None None
            (soulPublicGetVersions agentId cursor limit)) \<and>
     (served ''GET'' (soul_agent agentId @ [Lit ''capabilities'']) [] None None
            (soulPublicGetCapabilities agentId)) \<and>
     (served ''GET'' (soul_agent agentId @ [Lit ''transparency'']) [] None None
            (soulPublicGetTransparency agentId)) \<and>
     (served ''GET'' (soul_agent agentId @ [Lit ''failures''])
              (present [(''cursor'', keep_truthy cursor), (''limit'', Some (string_of_int
              (nullish limit 50)))]) None None
            (soulPublicGetFailures agentId cursor limit))"
  by (intro conjI; insert assms;
      (rule served_rules;
        (simp add: soul_public_defs route_simps request_simps wf_obj_lit wf_option_bodies split: option.splits; fail)))

theorem soul_public_endpoints_witness:
  "served ''GET'' (soul_agent ''a?b'' @ [Lit ''failures'']) [(''limit'', ''50'')] None None
     (soulPublicGetFailures ''a?b'' None None)"
proof -
  have "\<not> dot_segment ''a?b''" by (simp add: dot_segment_def)
  from soul_public_endpoints [OF this this, where cursor = None and limit = None]
  have "served ''GET'' (soul_agent ''a?b'' @ [Lit ''failures''])
     (present [(''cursor'', keep_truthy None), (''limit'', Some (string_of_int (nullish None 50)))]) None None
     (soulPublicGetFailures ''a?b'' None None)" by blast
  moreover have "string_of_int 50 = ''50''"
    by (simp add: string_of_int_def number_text_of_def string_of_nat_def hex_digit_def nat_to_base.simps)
  ultimately show ?thesis by (simp add: keep_truthy_def truthy_def nullish_def)
qed

lemmas soul_agent_defs =
  soulProvisionEmailBegin_def soulProvisionEmailConfirm_def soulProvisionPhoneBegin_def
  soulProvisionPhoneConfirm_def soulDeprovisionPhone_def soulListMyAgents_def
  soulListPortalRoster_def soulAgentRegistrationBegin_def soulAgentRegistrationPrincipalDeclarationPreflight_def
  soulAgentRegistrationVerify_def soulGetAgentPromotion_def soulListMyPromotions_def
  soulListMyPromotionLifecycleEvents_def soulListAgentPromotionLifecycleEvents_def soulVerifyAgentPromotion_def
  soulAgentRotateWalletBegin_def soulAgentRotateWalletConfirm_def soulGetAgentRotationOperation_def
  soulRecordAgentRotationExecution_def soulUpdateRegistration_def soulAgentListCommActivity_def
  soulAgentListCommQueue_def soulAgentGetCommStatus_def listSoulOperations_def
  getSoulOperation_def recordSoulOperationExecution_def soulGetAgentMintOperation_def
  soulRecordAgentMintExecution_def publishSoulReputationRoot_def publishSoulValidationRoot_def
  soulAddBoundaryBegin_def soulAddBoundary_def soulAppendContinuity_def
  soulCreateRelationship_def soulRecordFailure_def soulRecordRecovery_def
  soulSelfSuspend_def soulSelfReinstate_def soulArchiveAgentBegin_def
  soulArchiveAgent_def soulDesignateSuccessorBegin_def soulDesignateSuccessor_def

text \<open>C8. The authenticated calls of the soul registry - channels, registration, promotion,
  wallet rotation, boundaries, continuity, relationships, failures and sovereignty - send the one
  request they mean, with the ids as single path segments and the input as the JSON body.\<close>

theorem soul_agent_endpoints:
  assumes "\<not> dot_segment agentId" and "\<not> dot_segment ident" and "\<not> dot_segment messageId"
    and "\<not> dot_segment toAgentId" and "wf_json input" and "pred_option wf_json opt_input"
  shows "(served ''POST'' (soul_agent agentId
              @ [Lit ''channels'', Lit ''email'', Lit ''provision'', Lit ''begin'']) [] (Some token)
              (Some (nullish opt_input (JObj [])))
            (soulProvisionEmailBegin token agentId opt_input)) \<and>
     (served ''POST'' (soul_agent agentId @ [Lit ''channels'', Lit ''email'', Lit ''provision'']) []
              (Some token) (Some input)
            (soulProvisionEmailConfirm token agentId input)) \<and>
     (served ''POST'' (soul_agent agentId
              @ [Lit ''channels'', Lit ''phone'', Lit ''provision'', Lit ''begin'']) [] (Some token)
              (Some input)
            (soulProvisionPhoneBegin token agentId input)) \<and>
     (served ''POST'' (soul_agent agentId @ [Lit ''channels'', Lit ''phone'', Lit ''provision'']) []
              (Some token) (Some input)
            (soulProvisionPhoneConfirm token agentId input)) \<and>
     (served ''DELETE'' (soul_agent agentId @ [Lit ''channels'', Lit ''phone'']) [] (Some token) None
            (soulDeprovisionPhone token agentId)) \<and>
     (served ''GET'' (soul_api @ [Lit ''agents'', Lit ''mine'']) [] (Some token) None
            (soulListMyAgents token)) \<and>
     (served ''GET'' (portal_api @ [Lit ''souls'', Lit ''roster'']) [] (Some token) None
            (soulListPortalRoster token)) \<and>
     (served ''POST'' (soul_register @ [Lit ''begin'']) [] (Some token) (Some input)
            (soulAgentRegistrationBegin token input)) \<and>
     (served ''POST'' (soul_register
              @ [Val ident, Lit ''principal-declaration'', Lit ''preflight'']) [] (Some token)
              (Some input)
            (soulAgentRegistrationPrincipalDeclarationPreflight token ident input)) \<and>
     (served ''POST'' (soul_register @ [Val ident, Lit ''verify'']) [] (Some token) (Some input)
            (soulAgentRegistrationVerify token ident input)) \<and>
     (served ''GET'' (soul_agent agentId @ [Lit ''promotion'']) [] (Some token) None
            (soulGetAgentPromotion token agentId)) \<and>
     (served ''GET'' (soul_api @ [Lit ''promotions'', Lit ''mine''])
              (present [(''limit'', map_option string_of_int (opt_field pg_limit page)),
              (''cursor'', keep_truthy (opt_field pg_cursor page))]) (Some token) None
            (soulListMyPromotions token page)) \<and>
     (served ''GET'' (soul_api @ [Lit ''promotions'', Lit ''mine'', Lit ''events''])
              (present [(''limit'', map_option string_of_int (opt_field pg_limit page)),
              (''cursor'', keep_truthy (opt_field pg_cursor page))]) (Some token) None
            (soulListMyPromotionLifecycleEvents token page)) \<and>
     (served ''GET'' (soul_agent agentId @ [Lit ''promotion'', Lit ''events''])
              (present [(''limit'', map_option string_of_int (opt_field pg_limit page)),
              (''cursor'', keep_truthy (opt_field pg_cursor page))]) (Some token) None
            (soulListAgentPromotionLifecycleEvents token agentId page)) \<and>
     (served ''POST'' (soul_agent agentId @ [Lit ''promotion'', Lit ''verify'']) [] (Some token)
              (Some input)
            (soulVerifyAgentPromotion token agentId input)) \<and>
     (served ''POST'' (soul_agent agentId @ [Lit ''rotate-wallet'', Lit ''begin'']) [] (Some token)
              (Some (obj_lit [(''new_wallet_address'', Some (JStr newWalletAddress))]))
            (soulAgentRotateWalletBegin token agentId newWalletAddress)) \<and>
     (served ''POST'' (soul_agent agentId @ [Lit ''rotate-wallet'', Lit ''confirm'']) [] (Some token)
              (Some (obj_lit [(''current_signature'', Some (JStr currentSignature)),
              (''new_signature'', Some (JStr newSignature))]))
            (soulAgentRotateWalletConfirm token agentId currentSignature newSignature)) \<and>
     (served ''GET'' (soul_agent agentId @ [Lit ''rotate-wallet'', Lit ''operation'']) []
              (Some token) None
            (soulGetAgentRotationOperation token agentId)) \<and>
     (served ''POST'' (soul_agent agentId
              @ [Lit ''rotate-wallet'', Lit ''operation'', Lit ''record-execution'']) [] (Some token)
              (Some (obj_lit [(''exec_tx_hash'', Some (JStr execTxHash))]))
            (soulRecordAgentRotationExecution token agentId execTxHash)) \<and>
     (served ''POST'' (soul_agent agentId @ [Lit ''update-registration'']) [] (Some token) (Some input)
            (soulUpdateRegistration token agentId input)) \<and>
     (served ''GET'' (soul_agent agentId @ [Lit ''comm'', Lit ''activity'']) (present [(''limit'', Some
              (string_of_int (nullish limit 50)))]) (Some token) None
            (soulAgentListCommActivity token agentId limit)) \<and>
     (served ''GET'' (soul_agent agentId @ [Lit ''comm'', Lit ''queue'']) (present [(''limit'', Some
              (string_of_int (nullish limit 50)))]) (Some token) None
            (soulAgentListCommQueue token agentId limit)) \<and>
     (served ''GET'' (soul_agent agentId @ [Lit ''comm'', Lit ''status'', Val messageId]) []
              (Some token) None
            (soulAgentGetCommStatus token agentId messageId)) \<and>
     (served ''GET'' (soul_api @ [Lit ''operations'']) (present [(''status'', keep_truthy
              (Some status))]) (Some token) None
            (listSoulOperations token status)) \<and>
     (served ''GET'' (soul_api @ [Lit ''operations'', Val ident]) [] (Some token) None
            (getSoulOperation token ident)) \<and>
     (served ''POST'' (soul_api @ [Lit ''operations'', Val ident, Lit ''record-execution'']) []
              (Some token) (Some (obj_lit [(''exec_tx_hash'', Some (JStr execTxHash))]))
            (recordSoulOperationExecution token ident execTxHash)) \<and>
     (served ''GET'' (soul_agent agentId @ [Lit ''mint-operation'']) [] (Some token) None
            (soulGetAgentMintOperation token agentId)) \<and>
     (served ''POST'' (soul_agent agentId @ [Lit ''mint-operation'', Lit ''record-execution'']) []
              (Some token) (Some (obj_lit [(''exec_tx_hash'', Some (JStr execTxHash))]))
            (soulRecordAgentMintExecution token agentId execTxHash)) \<and>
     (served ''POST'' (soul_api @ [Lit ''reputation'', Lit ''publish'']) [] (Some token) None
            (publishSoulReputationRoot token)) \<and>
     (served ''POST'' (soul_api @ [Lit ''validation'', Lit ''publish'']) [] (Some token) None
            (publishSoulValidationRoot token)) \<and>
     (served ''POST'' (soul_agent agentId @ [Lit ''boundaries'', Lit ''begin'']) [] (Some token)
              (Some input)
            (soulAddBoundaryBegin token agentId input)) \<and>
     (served ''POST'' (soul_agent agentId @ [Lit ''boundaries'']) [] (Some token) (Some input)
            (soulAddBoundary token agentId input)) \<and>
     (served ''POST'' (soul_agent agentId @ [Lit ''continuity'']) [] (Some token) (Some input)
            (soulAppendContinuity token agentId input)) \<and>
     (served ''POST'' (soul_api @ [Lit ''agents'', Val toAgentId, Lit ''relationships'']) []
              (Some token) (Some input)
            (soulCreateRelationship token toAgentId input)) \<and>
     (served ''POST'' (soul_agent agentId @ [Lit ''failures'']) [] (Some token) (Some input)
            (soulRecordFailure token agentId input)) \<and>
     (served ''POST'' (soul_agent agentId @ [Lit ''failures'', Lit ''recover'']) [] (Some token)
              (Some input)
            (soulRecordRecovery token agentId input)) \<and>
     (served ''POST'' (soul_agent agentId @ [Lit ''self-suspend'']) [] (Some token) (Some
              (obj_lit [(''reason'', map_option JStr reason)]))
            (soulSelfSuspend token agentId reason)) \<and>
     (served ''POST'' (soul_agent agentId @ [Lit ''self-reinstate'']) [] (Some token) None
            (soulSelfReinstate token agentId)) \<and>
     (served ''POST'' (soul_agent agentId @ [Lit ''archive'', Lit ''begin'']) [] (Some token) None
            (soulArchiveAgentBegin token agentId)) \<and>
     (served ''POST'' (soul_agent agentId @ [Lit ''archive'']) [] (Some token) (Some input)
            (soulArchiveAgent token agentId input)) \<and>
     (served ''POST'' (soul_agent agentId @ [Lit ''successor'', Lit ''begin'']) [] (Some token) (Some
              (obj_lit [(''successor_agent_id'', Some (JStr successorAgentId))]))
            (soulDesignateSuccessorBegin token agentId successorAgentId)) \<and>
     (served ''POST'' (soul_agent agentId @ [Lit ''successor'']) [] (Some token) (Some input)
            (soulDesignateSuccessor token agentId input))"
  by (intro conjI; insert assms;
      (rule served_rules;
        (simp add: soul_agent_defs route_simps request_simps wf_obj_lit wf_option_bodies split: option.splits; fail)))

theorem soul_agent_endpoints_witness:
  "served ''POST'' (soul_agent ''a/b'' @ [Lit ''self-suspend'']) [] (Some ''t'') (Some (JObj []))
     (soulSelfSuspend ''t'' ''a/b'' None)"
proof -
  have "\<not> dot_segment ''a/b''" "wf_json (JObj [])" "pred_option wf_json None" by (simp_all add: dot_segment_def)
  from soul_agent_endpoints [OF this(1, 1, 1, 1, 2, 3), where token = "''t''" and reason = None]
  have "served ''POST'' (soul_agent ''a/b'' @ [Lit ''self-suspend'']) [] (Some ''t'')
     (Some (obj_lit [(''reason'', map_option JStr None)])) (soulSelfSuspend ''t'' ''a/b'' None)" by blast
  then show ?thesis by (simp add: obj_lit_def)
qed

lemmas soul_mint_defs =
  soulGetMintConversation_def soulCompleteMintConversation_def soulAgentListMintConversations_def
  soulAgentGetMintConversation_def soulAgentCompleteMintConversation_def soulMintConversationFinalizePreflight_def
  soulMintConversationFinalizeBegin_def soulAgentMintConversationFinalizePreflight_def soulAgentMintConversationFinalizeBegin_def
  soulMintConversationFinalize_def soulAgentMintConversationFinalize_def

text \<open>The minting conversation calls, before and after registration, address the conversation
  by registration or agent id and conversation id, each one path segment, and send the optional or
  required input as the JSON body.\<close>

theorem soul_mint_endpoints:
  assumes "\<not> dot_segment registrationId" and "\<not> dot_segment conversationId" and "\<not> dot_segment agentId"
    and "wf_json input" and "pred_option wf_json opt_input"
  shows "(served ''GET'' (soul_register
              @ [Val registrationId, Lit ''mint-conversation'', Val conversationId]) [] (Some token) None
            (soulGetMintConversation token registrationId conversationId)) \<and>
     (served ''POST'' (soul_register
              @ [Val registrationId, Lit ''mint-conversation'', Val conversationId, Lit ''complete'']) [] (Some token) opt_input
            (soulCompleteMintConversation token registrationId conversationId opt_input)) \<and>
     (served ''GET'' (soul_agent agentId @ [Lit ''mint-conversations''])
              (present [(''limit'', map_option string_of_int limit)]) (Some token) None
            (soulAgentListMintConversations token agentId limit)) \<and>
     (served ''GET'' (soul_agent agentId @ [Lit ''mint-conversation'', Val conversationId]) []
              (Some token) None
            (soulAgentGetMintConversation token agentId conversationId)) \<and>
     (served ''POST'' (soul_agent agentId
              @ [Lit ''mint-conversation'', Val conversationId, Lit ''complete'']) []
              (Some token) opt_input
            (soulAgentCompleteMintConversation token agentId conversationId opt_input)) \<and>
     (served ''POST'' (soul_register
              @ [Val registrationId, Lit ''mint-conversation'', Val conversationId, Lit ''finalize'', Lit ''preflight'']) [] (Some token) (Some input)
            (soulMintConversationFinalizePreflight token registrationId conversationId input)) \<and>
     (served ''POST'' (soul_register
              @ [Val registrationId, Lit ''mint-conversation'', Val conversationId, Lit ''finalize'', Lit ''begin'']) [] (Some token) (Some input)
            (soulMintConversationFinalizeBegin token registrationId conversationId input)) \<and>
     (served ''POST'' (soul_agent agentId
              @ [Lit ''mint-conversation'', Val conversationId, Lit ''finalize'', Lit ''preflight'']) [] (Some token) (Some input)
            (soulAgentMintConversationFinalizePreflight token agentId conversationId input)) \<and>
     (served ''POST'' (soul_agent agentId
              @ [Lit ''mint-conversation'', Val conversationId, Lit ''finalize'', Lit ''begin'']) []
              (Some token) (Some input)
            (soulAgentMintConversationFinalizeBegin token agentId conversationId input)) \<and>
     (served ''POST'' (soul_register
              @ [Val registrationId, Lit ''mint-conversation'', Val conversationId, Lit ''finalize'']) [] (Some token) (Some input)
            (soulMintConversationFinalize token registrationId conversationId input)) \<and>
     (served ''POST'' (soul_agent agentId
              @ [Lit ''mint-conversation'', Val conversationId, Lit ''finalize'']) [] (Some token)
              (Some input)
            (soulAgentMintConversationFinalize token agentId conversationId input))"
  by (intro conjI; insert assms;
      (rule served_rules;
        (simp add: soul_mint_defs route_simps request_simps wf_obj_lit wf_option_bodies split: option.splits; fail)))

theorem soul_mint_endpoints_witness:
  "served ''POST'' (soul_register @ [Val ''r1'', Lit ''mint-conversation'', Val ''c/1'', Lit ''complete'']) []
     (Some ''t'') None (soulCompleteMintConversation ''t'' ''r1'' ''c/1'' None)"
proof -
  have "\<not> dot_segment ''r1''" "\<not> dot_segment ''c/1''" "wf_json (JObj [])" "pred_option wf_json None"
    by (simp_all add: dot_segment_def)
  from soul_mint_endpoints [OF this(1, 2, 1, 3, 4)] show ?thesis by blast
qed

section \<open>The event stream of the minting conversation\<close>

lemma member_smaller: "obj_get j k = Some v \<Longrightarrow> size v < size j"
proof (cases j)
  case (JObj kvs)
  assume "obj_get j k = Some v"
  then have "(k, v) \<in> set kvs" by (simp add: JObj obj_get_def map_of_SomeD)
  then show ?thesis by (simp add: JObj size_list_estimation' less_Suc_eq_le split: prod.splits)
qed (simp_all add: obj_get_def)

text \<open>
  The text shown for a failure: the value itself when it is a scalar, else the first non-empty of
  its \<open>message\<close>, \<open>error\<close> and \<open>detail\<close> members (read the same way), else its \<open>code\<close>, else its JSON
  text.  \<open>None\<close> is \<open>undefined\<close>.
\<close>

function soulSseErrorMessage :: "json option \<Rightarrow> js_string \<Rightarrow> js_string" where
  "soulSseErrorMessage val fallback =
     (case val of
        None \<Rightarrow> fallback
      | Some JNull \<Rightarrow> fallback
      | Some (JStr s) \<Rightarrow> str_or (js_trim s) fallback
      | Some (JBool b) \<Rightarrow> str_or (js_trim (if b then ''true'' else ''false'')) fallback
      | Some (JNum n) \<Rightarrow> str_or (js_trim n) fallback
      | Some v \<Rightarrow>
          (let nested = str_or (soulSseErrorMessage (obj_get v ''message'') [])
                 (str_or (soulSseErrorMessage (obj_get v ''error'') [])
                    (soulSseErrorMessage (obj_get v ''detail'') []))
           in if nested \<noteq> [] then nested
              else if js_trim (nullish (string_member v ''code'') []) \<noteq> []
                then js_trim (nullish (string_member v ''code'') [])
              else
                (let text = json_stringify v
                 in if text \<noteq> [] \<and> text \<noteq> ''{}'' then text else fallback)))"
  by pat_completeness auto
termination
  by (relation "measure (\<lambda>(v, _). case v of None \<Rightarrow> 0 | Some j \<Rightarrow> Suc (size j))")
    (auto split: option.splits dest: member_smaller)

declare soulSseErrorMessage.simps [simp del]

datatype stream_phase = Readable | CloseRequested | StreamClosed | StreamErrored

text \<open>
  A \<open>ReadableStream\<close> as its controller sees it: what has been handed to the consumer, what is
  queued, and the phase.  With an eager consumer a read is always waiting, so a chunk never stays
  in the queue; otherwise nothing is read before the source has finished.
\<close>

record sse_stream =
  st_phase :: stream_phase
  st_delivered :: "js_string list"
  st_queue :: "js_string list"

definition stream_enqueue :: "bool \<Rightarrow> js_string \<Rightarrow> sse_stream \<Rightarrow> js_error + sse_stream" where
  "stream_enqueue eager chunk s =
     (if st_phase s \<noteq> Readable then Inl (TypeError ''stream is not readable'')
      else if eager then Inr (s\<lparr>st_delivered := st_delivered s @ [chunk]\<rparr>)
      else Inr (s\<lparr>st_queue := st_queue s @ [chunk]\<rparr>))"

definition stream_close :: "sse_stream \<Rightarrow> js_error + sse_stream" where
  "stream_close s =
     (if st_phase s \<noteq> Readable then Inl (TypeError ''stream is not readable'')
      else Inr (s\<lparr>st_phase := (if st_queue s = [] then StreamClosed else CloseRequested)\<rparr>))"

text \<open>A rejected \<open>start\<close> errors the stream, which drops the queue, unless it is closed already.\<close>

definition stream_error :: "sse_stream \<Rightarrow> sse_stream" where
  "stream_error s =
     (if st_phase s = Readable \<or> st_phase s = CloseRequested
      then s\<lparr>st_phase := StreamErrored, st_queue := []\<rparr> else s)"

text \<open>What the fetch yields: a failure (as text), or a status, the text of the body (\<open>None\<close> when
  \<open>text()\<close> rejects) and its decoded chunks with the read error that may end them.\<close>

record sse_response =
  sse_status :: nat
  sse_text :: "js_string option"
  sse_body :: "(js_string list \<times> js_string option) option"

definition newline :: char where
  "newline = CHR 0x0A"

definition sse_error_event :: "js_string \<Rightarrow> js_string" where
  "sse_error_event message =
     ''event: error'' @ [newline] @ ''data: '' @ json_stringify (JObj [(''message'', JStr message)])
       @ [newline, newline]"

definition sse_http_message :: "sse_response \<Rightarrow> js_string" where
  "sse_http_message res =
     (let text = nullish (sse_text res) '''';
          message = soulSseErrorMessage (Some (JStr text)) (''HTTP '' @ string_of_nat (sse_status res))
      in case json_parse text of None \<Rightarrow> message | Some v \<Rightarrow> soulSseErrorMessage (Some v) message)"

definition js_error_text :: "js_error \<Rightarrow> js_string" where
  "js_error_text e =
     (case e of
        ApiError m _ _ \<Rightarrow> ''ApiError: '' @ m | TypeError m \<Rightarrow> ''TypeError: '' @ m
      | SyntaxError \<Rightarrow> ''SyntaxError'' | AbortError \<Rightarrow> ''AbortError'' | Error m \<Rightarrow> ''Error: '' @ m
      | InvalidCharacterError \<Rightarrow> ''InvalidCharacterError'' | DomException m \<Rightarrow> m)"

fun enqueue_all :: "bool \<Rightarrow> js_string list \<Rightarrow> sse_stream \<Rightarrow> js_string option \<times> sse_stream" where
  "enqueue_all eager [] s = (None, s)"
| "enqueue_all eager (c # cs) s =
     (case stream_enqueue eager c s of
        Inl e \<Rightarrow> (Some (js_error_text e), s)
      | Inr s' \<Rightarrow> enqueue_all eager cs s')"

text \<open>The \<open>try\<close> block: the text of what it throws, if it throws, and the stream after it.\<close>

definition sse_try :: "bool \<Rightarrow> js_string + sse_response \<Rightarrow> sse_stream \<Rightarrow> js_string option \<times> sse_stream" where
  "sse_try eager outcome s =
     (case outcome of
        Inl err \<Rightarrow> (Some err, s)
      | Inr res \<Rightarrow>
          (if \<not> (200 \<le> sse_status res \<and> sse_status res \<le> 299) \<or> sse_body res = None then
             (case stream_enqueue eager (sse_error_event (sse_http_message res)) s of
                Inl e \<Rightarrow> (Some (js_error_text e), s)
              | Inr s' \<Rightarrow>
                  (case stream_close s' of
                     Inl e \<Rightarrow> (Some (js_error_text e), s')
                   | Inr s'' \<Rightarrow> (None, s'')))
           else
             (let (chunks, failure) = the (sse_body res) in
              case enqueue_all eager chunks s of
                (Some e, s') \<Rightarrow> (Some e, s')
              | (None, s') \<Rightarrow> (failure, s'))))"

text \<open>The whole \<open>start\<close>: \<open>try\<close>, \<open>catch\<close> unless aborted, \<open>finally\<close> close; a throw of either of the
  last two rejects it.\<close>

definition sse_start :: "bool \<Rightarrow> bool \<Rightarrow> js_string + sse_response \<Rightarrow> sse_stream \<Rightarrow> sse_stream" where
  "sse_start eager aborted outcome s =
     (let (thrown, s1) = sse_try eager outcome s;
          (rejected, s2) =
            (case thrown of
               None \<Rightarrow> (False, s1)
             | Some err \<Rightarrow>
                 if aborted then (False, s1)
                 else (case stream_enqueue eager (sse_error_event err) s1 of
                         Inl _ \<Rightarrow> (True, s1) | Inr s2 \<Rightarrow> (False, s2)))
      in case stream_close s2 of
           Inl _ \<Rightarrow> stream_error s2
         | Inr s3 \<Rightarrow> if rejected then stream_error s3 else s3)"

definition new_stream :: sse_stream where
  "new_stream = \<lparr>st_phase = Readable, st_delivered = [], st_queue = []\<rparr>"

definition soulMintConversationSSERequest ::
  "js_string \<Rightarrow> js_string \<Rightarrow> js_string \<Rightarrow> request \<times> (bool \<Rightarrow> bool \<Rightarrow> js_string + sse_response \<Rightarrow> sse_stream)" where
  "soulMintConversationSSERequest token url body =
     (\<lparr>req_method = ''POST'', req_url = url,
       req_headers = bearer token @ [(''content-type'', ''application/json''), (''accept'', ''text/event-stream'')],
       req_body = Some body\<rparr>,
      \<lambda>eager aborted outcome. sse_start eager aborted outcome new_stream)"

definition soulStartMintConversationSSE ::
  "js_string \<Rightarrow> js_string \<Rightarrow> json \<Rightarrow> request \<times> (bool \<Rightarrow> bool \<Rightarrow> js_string + sse_response \<Rightarrow> sse_stream)" where
  "soulStartMintConversationSSE token registrationId input =
     soulMintConversationSSERequest token
       (''/api/v1/soul/agents/register/'' @ encodeURIComponent registrationId @ ''/mint-conversation'')
       (json_stringify input)"

definition soulStartAgentMintConversationSSE ::
  "js_string \<Rightarrow> js_string \<Rightarrow> json \<Rightarrow> request \<times> (bool \<Rightarrow> bool \<Rightarrow> js_string + sse_response \<Rightarrow> sse_stream)" where
  "soulStartAgentMintConversationSSE token agentId input =
     soulMintConversationSSERequest token
       (''/api/v1/soul/agents/'' @ encodeURIComponent agentId @ ''/mint-conversation'')
       (json_stringify input)"

lemma str_or_ne: "b \<noteq> [] \<Longrightarrow> str_or a b \<noteq> []"
  by (simp add: str_or_def)

lemma sse_message_ne: "fallback \<noteq> [] \<Longrightarrow> soulSseErrorMessage v fallback \<noteq> []"
  by (subst soulSseErrorMessage.simps) (auto simp: Let_def str_or_ne split: option.splits json.splits)

lemma sse_http_message_ne: "sse_http_message res \<noteq> []"
  by (auto simp: sse_http_message_def Let_def
      intro!: sse_message_ne split: option.splits)

lemma enqueue_all_open:
  "st_phase s = Readable \<Longrightarrow>
     enqueue_all eager cs s =
       (None, if eager then s\<lparr>st_delivered := st_delivered s @ cs\<rparr> else s\<lparr>st_queue := st_queue s @ cs\<rparr>)"
  by (induction cs arbitrary: s) (auto simp: stream_enqueue_def)





end
