(* ===== verification/Router.thy ===== *)
theory Router
  imports Uri
begin

text \<open>
  Web storage, and the client-side router of \<^verbatim>\<open>web/src/lib/router.ts\<close>: base-path handling, navigation
  and the one-shot target that the Safe app picks up.

  A storage may refuse access (every call throws) or only writes (a full or blocked storage); the
  interface \<open>kv_store\<close> holds what its users rely on.
\<close>

section \<open>Web storage\<close>

record web_storage =
  ws_items :: "js_string \<Rightarrow> js_string option"
  ws_accessible :: bool
  ws_writable :: bool

datatype storage_error = SecurityError | QuotaExceededError

definition getItem :: "js_string \<Rightarrow> web_storage \<Rightarrow> storage_error + js_string option" where
  "getItem k s = (if ws_accessible s then Inr (ws_items s k) else Inl SecurityError)"

definition setItem :: "js_string \<Rightarrow> js_string \<Rightarrow> web_storage \<Rightarrow> storage_error + web_storage" where
  "setItem k v s =
     (if \<not> ws_accessible s then Inl SecurityError
      else if \<not> ws_writable s then Inl QuotaExceededError
      else Inr (s\<lparr>ws_items := (ws_items s)(k \<mapsto> v)\<rparr>))"

definition removeItem :: "js_string \<Rightarrow> web_storage \<Rightarrow> storage_error + web_storage" where
  "removeItem k s =
     (if ws_accessible s then Inr (s\<lparr>ws_items := (ws_items s)(k := None)\<rparr>) else Inl SecurityError)"

text \<open>\<open>try { ... } catch { }\<close> around an update: the old state where it throws.\<close>

definition try_or :: "'s \<Rightarrow> 'e + 's \<Rightarrow> 's" where
  "try_or s r = (case r of Inl _ \<Rightarrow> s | Inr s' \<Rightarrow> s')"

locale kv_store =
  fixes get :: "'k \<Rightarrow> 's \<Rightarrow> 'e + 'v option"
    and set :: "'k \<Rightarrow> 'v \<Rightarrow> 's \<Rightarrow> 'e + 's"
    and del :: "'k \<Rightarrow> 's \<Rightarrow> 'e + 's"
  assumes get_set: "set k v s = Inr s' \<Longrightarrow> get k' s' = (if k' = k then Inr (Some v) else get k' s)"
    and get_del: "del k s = Inr s' \<Longrightarrow> get k' s' = (if k' = k then Inr None else get k' s)"
    and get_total: "get k s = Inr x \<Longrightarrow> \<exists>s'. del k s = Inr s'"
begin

lemma consume_once:
  assumes "set k v s = Inr s1"
  shows "\<exists>s2. get k s1 = Inr (Some v) \<and> del k s1 = Inr s2 \<and> get k s2 = Inr None"
proof -
  have g: "get k s1 = Inr (Some v)" using get_set [OF assms] by simp
  then obtain s2 where d: "del k s1 = Inr s2" using get_total by blast
  show ?thesis using g d get_del [OF d] by simp
qed

lemma del_try: "get k s = Inr x \<Longrightarrow> get k' (try_or s (del k s)) = (if k' = k then Inr None else get k' s)"
  using get_total get_del by (fastforce simp: try_or_def)

lemma set_try_other: "k' \<noteq> k \<Longrightarrow> get k' (try_or s (set k v s)) = get k' s"
  by (cases "set k v s") (auto simp: try_or_def get_set)

lemma del_try_other: "k' \<noteq> k \<Longrightarrow> get k' (try_or s (del k s)) = get k' s"
  by (cases "del k s") (auto simp: try_or_def get_del)

end

interpretation storage: kv_store getItem setItem removeItem
  by unfold_locales (auto simp: getItem_def setItem_def removeItem_def split: if_splits)

lemma storage_flags:
  "setItem k v s = Inr s' \<Longrightarrow> ws_accessible s' = ws_accessible s \<and> ws_writable s' = ws_writable s"
  "removeItem k s = Inr s' \<Longrightarrow> ws_accessible s' = ws_accessible s \<and> ws_writable s' = ws_writable s"
  by (auto simp: setItem_def removeItem_def split: if_splits)

section \<open>Paths\<close>

definition SAFE_APP_BASE_PATH :: js_string where
  "SAFE_APP_BASE_PATH = ''/safe-app''"

definition SAFE_APP_TARGET_KEY :: js_string where
  "SAFE_APP_TARGET_KEY = ''lesser-host:safe-app:target:v1''"

definition normalizePath :: "js_string \<Rightarrow> js_string" where
  "normalizePath pathname =
     (if pathname = [] then ''/''
      else if length pathname > 1 \<and> endsWith pathname ''/'' then butlast pathname
      else pathname)"

definition appBasePath :: "js_string \<Rightarrow> js_string" where
  "appBasePath pathname =
     (if pathname = SAFE_APP_BASE_PATH \<or> startsWith pathname (SAFE_APP_BASE_PATH @ ''/'')
      then SAFE_APP_BASE_PATH else [])"

definition stripBasePath :: "js_string \<Rightarrow> js_string \<Rightarrow> js_string" where
  "stripBasePath pathname basePath =
     (if basePath = [] then pathname
      else if pathname = basePath then ''/''
      else if startsWith pathname (basePath @ ''/'')
        then str_or (drop (length basePath) pathname) ''/''
      else pathname)"

definition isSafeAppPath :: "js_string \<Rightarrow> bool" where
  "isSafeAppPath pathname \<longleftrightarrow> appBasePath pathname = SAFE_APP_BASE_PATH"

definition safeAppRootUrl :: "js_string \<Rightarrow> js_string" where
  "safeAppRootUrl origin_text = origin_text @ SAFE_APP_BASE_PATH"

section \<open>The router\<close>

text \<open>
  The router's state: the base path captured when the module loads, the browser's current path and
  history, the value of the \<open>currentPath\<close> store and the local storage.
\<close>

record router =
  CURRENT_BASE_PATH :: js_string
  location_path :: js_string
  pushed :: "js_string list"
  currentPath :: js_string
  local_storage :: web_storage

definition normalizeAppPath :: "js_string \<Rightarrow> js_string \<Rightarrow> js_string" where
  "normalizeAppPath base pathname = normalizePath (stripBasePath pathname base)"

definition withBasePath :: "js_string \<Rightarrow> js_string \<Rightarrow> js_string" where
  "withBasePath base pathname =
     (let normalized = normalizePath pathname in
      if base = [] then normalized
      else if normalized = ''/'' then base
      else base @ normalized)"

definition load_router :: "js_string \<Rightarrow> web_storage \<Rightarrow> router" where
  "load_router pathname ls =
     (let base = appBasePath pathname in
      \<lparr>CURRENT_BASE_PATH = base, location_path = pathname, pushed = [],
       currentPath = normalizeAppPath base pathname, local_storage = ls\<rparr>)"

text \<open>The \<open>popstate\<close> listener, and the browser's own back and forward buttons.\<close>

definition onPopState :: "router \<Rightarrow> router" where
  "onPopState r = r\<lparr>currentPath := normalizeAppPath (CURRENT_BASE_PATH r) (location_path r)\<rparr>"

definition browser_traverse :: "js_string \<Rightarrow> router \<Rightarrow> router" where
  "browser_traverse pathname r = onPopState (r\<lparr>location_path := pathname\<rparr>)"

text \<open>\<open>history.pushState\<close> leaves the path part of the target in \<open>location.pathname\<close>.\<close>

definition pushState :: "js_string \<Rightarrow> router \<Rightarrow> router" where
  "pushState target r = r\<lparr>location_path := url_path target, pushed := pushed r @ [target]\<rparr>"

definition navigate :: "js_string \<Rightarrow> router \<Rightarrow> router" where
  "navigate to r =
     (let normalized = normalizePath to;
          target = withBasePath (CURRENT_BASE_PATH r) normalized in
      if target = normalizePath (location_path r) then r
      else onPopState (pushState target r))"

text \<open>\<open>linkProps\<close>: the \<open>href\<close> and what an intercepted click does.\<close>

definition linkProps :: "js_string \<Rightarrow> router \<Rightarrow> js_string \<times> (router \<Rightarrow> router)" where
  "linkProps to r = (withBasePath (CURRENT_BASE_PATH r) (normalizePath to), navigate to)"

definition stageSafeAppTarget :: "js_string \<Rightarrow> router \<Rightarrow> router" where
  "stageSafeAppTarget pathname r =
     r\<lparr>local_storage := try_or (local_storage r)
        (setItem SAFE_APP_TARGET_KEY (normalizePath pathname) (local_storage r))\<rparr>"

definition consumeSafeAppTarget :: "router \<Rightarrow> js_string \<times> router" where
  "consumeSafeAppTarget r =
     (case getItem SAFE_APP_TARGET_KEY (local_storage r) of
        Inl _ \<Rightarrow> (''/'', r)
      | Inr val \<Rightarrow>
          (case removeItem SAFE_APP_TARGET_KEY (local_storage r) of
             Inl _ \<Rightarrow> (''/'', r)
           | Inr ls \<Rightarrow>
               (if truthy val then normalizePath (the val) else ''/'', r\<lparr>local_storage := ls\<rparr>)))"

section \<open>Lemmas\<close>

lemma normalizePath_ne [simp]: "normalizePath p \<noteq> []"
proof -
  have "butlast p \<noteq> []" if "length p > 1" using that by (cases p rule: rev_cases) auto
  then show ?thesis by (simp add: normalizePath_def)
qed

lemma normalizePath_app: "startsWith p ''/'' \<Longrightarrow> startsWith (normalizePath p) ''/''"
  by (cases p) (auto simp: normalizePath_def startsWith_def)

text \<open>An in-app path: rooted, without query or fragment, and without a doubled final slash.\<close>

definition app_path :: "js_string \<Rightarrow> bool" where
  "app_path p \<longleftrightarrow> startsWith p ''/'' \<and> \<not> endsWith p ''//'' \<and> (\<forall>c \<in> set p. c \<noteq> CHR ''?'' \<and> c \<noteq> CHR ''#'')"

lemma slash_end: "endsWith p ''/'' \<longleftrightarrow> p \<noteq> [] \<and> last p = CHR ''/''"
  by (cases p rule: rev_cases) (auto simp: endsWith_iff_suffix)

lemma normalizePath_stable:
  assumes "app_path p"
  shows "normalizePath (normalizePath p) = normalizePath p"
proof (cases "length p > 1 \<and> endsWith p ''/''")
  case True
  then obtain q where q: "p = q @ ''/''" "q \<noteq> []"
    by (cases p rule: rev_cases) (auto simp: slash_end)
  have "last q \<noteq> CHR ''/''"
  proof
    assume "last q = CHR ''/''"
    then obtain q' where "q = q' @ ''/''" using q(2) by (metis append_butlast_last_id)
    then have "endsWith p ''//''" using q(1) by (simp add: endsWith_def)
    then show False using assms by (simp add: app_path_def)
  qed
  with q show ?thesis by (simp add: normalizePath_def slash_end)
next
  case False
  then show ?thesis by (auto simp: normalizePath_def endsWith_def)
qed

lemma normalizePath_chars: "c \<in> set (normalizePath p) \<Longrightarrow> c \<in> set p \<or> c = CHR ''/''"
  by (auto simp: normalizePath_def dest: in_set_butlastD split: if_splits)

lemma withBasePath_chars: "c \<in> set (withBasePath base p) \<Longrightarrow> c \<in> set base \<or> c \<in> set (normalizePath p)"
  by (auto simp: withBasePath_def Let_def split: if_splits)

lemma strip_with_base:
  assumes "startsWith p ''/''" and "base = [] \<or> base = SAFE_APP_BASE_PATH"
  shows "stripBasePath (withBasePath base p) base = normalizePath p"
proof (cases "base = []")
  case False
  then have b: "base = ''/safe-app''" using assms(2) by (simp add: SAFE_APP_BASE_PATH_def)
  obtain q where "normalizePath p = CHR ''/'' # q"
    using normalizePath_app [OF assms(1)] by (cases "normalizePath p") (auto simp: startsWith_def)
  with b show ?thesis by (auto simp: withBasePath_def stripBasePath_def Let_def startsWith_def str_or_def)
qed (simp add: withBasePath_def stripBasePath_def Let_def)

lemma appBasePath_cases: "appBasePath p = [] \<or> appBasePath p = SAFE_APP_BASE_PATH"
  by (simp add: appBasePath_def)

lemma normalizePath_cases:
  "normalizePath p = q \<Longrightarrow> p = [] \<and> q = ''/'' \<or> p = q \<or> p = q @ ''/''"
  by (cases p rule: rev_cases) (auto simp: normalizePath_def slash_end split: if_splits)

lemma normalizePath_fixed: "normalizePath q = q \<Longrightarrow> q = ''/'' \<or> last q \<noteq> CHR ''/''"
  by (cases q rule: rev_cases) (auto simp: normalizePath_def slash_end split: if_splits)

lemma normalizePath_slash: "q \<noteq> [] \<Longrightarrow> normalizePath (q @ ''/'') = q"
  by (cases q) (simp_all add: normalizePath_def slash_end)

lemma withBasePath_fixed:
  assumes "normalizePath n = n" and "base = [] \<or> base = SAFE_APP_BASE_PATH"
  shows "normalizePath (withBasePath base n) = withBasePath base n"
  using assms normalizePath_fixed [OF assms(1)] normalizePath_ne [of n]
  by (auto simp: withBasePath_def Let_def SAFE_APP_BASE_PATH_def normalizePath_def slash_end)

text \<open>Being at the target, with or without a final slash, shows the target.\<close>

lemma already_there:
  assumes t: "normalizePath p = withBasePath base n" and n: "normalizePath n = n" "startsWith n ''/''"
    and base: "base = [] \<or> base = SAFE_APP_BASE_PATH"
  shows "normalizeAppPath base p = n"
proof (cases "base = []")
  case True
  with t n show ?thesis by (simp add: withBasePath_def normalizeAppPath_def stripBasePath_def Let_def)
next
  case False
  let ?t = "withBasePath base n"
  have b: "base = ''/safe-app''" using False base by (simp add: SAFE_APP_BASE_PATH_def)
  have strip: "stripBasePath ?t base = n" using strip_with_base [OF n(2) base] n(1) by simp
  have "p = ?t \<or> p = ?t @ ''/''"
    using normalizePath_cases [OF t] b by (auto simp: withBasePath_def Let_def split: if_splits)
  then show ?thesis
  proof
    assume "p = ?t"
    with strip n(1) show ?thesis by (simp add: normalizeAppPath_def)
  next
    assume p: "p = ?t @ ''/''"
    have "stripBasePath p base = n \<or> stripBasePath p base = n @ ''/''"
    proof (cases "n = ''/''")
      case True
      then show ?thesis
        using b p n(1) by (simp add: withBasePath_def Let_def stripBasePath_def startsWith_def str_or_def)
    next
      case False
      obtain m where "n = CHR ''/'' # m" using n(2) by (cases n) (auto simp: startsWith_def)
      with False show ?thesis
        using b p n(1) by (simp add: withBasePath_def Let_def stripBasePath_def startsWith_def str_or_def)
    qed
    moreover have "n \<noteq> []" using n(2) by (auto simp: startsWith_def)
    ultimately show ?thesis using n(1) by (auto simp: normalizeAppPath_def normalizePath_slash)
  qed
qed

definition router_ok :: "router \<Rightarrow> bool" where
  "router_ok r \<longleftrightarrow>
     (CURRENT_BASE_PATH r = [] \<or> CURRENT_BASE_PATH r = SAFE_APP_BASE_PATH) \<and>
     currentPath r = normalizeAppPath (CURRENT_BASE_PATH r) (location_path r)"


definition sample_storage :: web_storage where
  "sample_storage = \<lparr>ws_items = (\<lambda>_. None), ws_accessible = True, ws_writable = True\<rparr>"


lemma navigate_target:
  assumes "router_ok r" and "app_path to"
  shows "currentPath (navigate to r) = normalizePath to \<and>
    normalizePath (location_path (navigate to r)) = normalizePath (fst (linkProps to r)) \<and>
    (fst (linkProps to r) = normalizePath (location_path r) \<longrightarrow> navigate to r = r)"
proof -
  let ?base = "CURRENT_BASE_PATH r" and ?n = "normalizePath to"
  let ?t = "withBasePath ?base ?n"
  have base: "?base = [] \<or> ?base = SAFE_APP_BASE_PATH" and
    cur: "currentPath r = normalizeAppPath ?base (location_path r)"
    using assms(1) by (simp_all add: router_ok_def)
  have n: "startsWith ?n ''/''" "normalizePath ?n = ?n"
    using assms(2) normalizePath_app [of to] normalizePath_stable [of to] by (simp_all add: app_path_def)
  have strip: "stripBasePath ?t ?base = ?n" using strip_with_base [OF n(1) base] n(2) by simp
  have to_ok: "\<forall>c \<in> set to. c \<noteq> CHR ''?'' \<and> c \<noteq> CHR ''#''" using assms(2) by (simp add: app_path_def)
  have base_ok: "\<forall>c \<in> set ?base. c \<noteq> CHR ''?'' \<and> c \<noteq> CHR ''#''"
    using base by (auto simp: SAFE_APP_BASE_PATH_def)
  have "\<forall>c \<in> set ?t. c \<noteq> CHR ''?'' \<and> c \<noteq> CHR ''#''"
  proof
    fix c assume "c \<in> set ?t"
    then have "c \<in> set ?base \<or> c \<in> set ?n" using withBasePath_chars [of c ?base ?n] n(2) by simp
    then have "c \<in> set ?base \<or> c \<in> set to \<or> c = CHR ''/''" using normalizePath_chars by blast
    then show "c \<noteq> CHR ''?'' \<and> c \<noteq> CHR ''#''" using to_ok base_ok by auto
  qed
  then have path: "url_path ?t = ?t" by (rule no_query_path)
  show ?thesis
  proof (cases "?t = normalizePath (location_path r)")
    case True
    then have same: "navigate to r = r" by (simp add: navigate_def Let_def)
    have "normalizeAppPath ?base (location_path r) = ?n"
      by (rule already_there [OF True [symmetric] n(2, 1) base])
    with same cur True show ?thesis
      using withBasePath_fixed [OF n(2) base] by (simp add: linkProps_def)
  next
    case False
    then show ?thesis using path strip n(2)
      by (simp add: navigate_def Let_def onPopState_def pushState_def normalizeAppPath_def linkProps_def)
  qed
qed

text \<open>Navigating to an in-app path shows that path, also under the Safe app's base path; the
  address bar then holds exactly the \<open>href\<close> a link to the same path carries, and nothing is pushed
  when the page is already there.\<close>

theorem navigate_shows_target:
  assumes "router_ok r" and "app_path to"
  shows "currentPath (navigate to r) = normalizePath to \<and>
    normalizePath (location_path (navigate to r)) = normalizePath (fst (linkProps to r)) \<and>
    (fst (linkProps to r) = normalizePath (location_path r) \<longrightarrow> navigate to r = r)"
  by (rule navigate_target [OF assms])

theorem navigate_shows_target_witness:
  "currentPath (navigate ''/portal/billing/'' (load_router ''/safe-app'' sample_storage)) = ''/portal/billing''"
proof -
  have "router_ok (load_router ''/safe-app'' sample_storage)"
    by (simp add: router_ok_def load_router_def Let_def appBasePath_def)
  moreover have "app_path ''/portal/billing/''"
    by (simp add: app_path_def startsWith_def endsWith_def)
  ultimately have "currentPath (navigate ''/portal/billing/'' (load_router ''/safe-app'' sample_storage)) =
      normalizePath ''/portal/billing/''"
    using navigate_shows_target by blast
  then show ?thesis by (simp add: normalizePath_def endsWith_def)
qed

text \<open>A staged Safe app target is delivered once: when the storage takes the write, the next
  consumer gets exactly the normalised path and every later consumer the root.\<close>

theorem safe_app_target_once:
  assumes "ws_accessible (local_storage r)" and "ws_writable (local_storage r)"
    and "normalizePath (normalizePath p) = normalizePath p"
  shows "fst (consumeSafeAppTarget (stageSafeAppTarget p r)) = normalizePath p \<and>
    fst (consumeSafeAppTarget (snd (consumeSafeAppTarget (stageSafeAppTarget p r)))) = ''/''"
proof -
  let ?ls = "local_storage r"
  obtain s1 where set1: "setItem SAFE_APP_TARGET_KEY (normalizePath p) ?ls = Inr s1"
    using assms(1, 2) by (simp add: setItem_def)
  obtain s2 where s2: "getItem SAFE_APP_TARGET_KEY s1 = Inr (Some (normalizePath p))"
      "removeItem SAFE_APP_TARGET_KEY s1 = Inr s2" "getItem SAFE_APP_TARGET_KEY s2 = Inr None"
    using storage.consume_once [OF set1] by blast
  obtain s3 where s3: "removeItem SAFE_APP_TARGET_KEY s2 = Inr s3"
    using storage.get_total [OF s2(3)] by blast
  have "consumeSafeAppTarget (stageSafeAppTarget p r) = (normalizePath p, r\<lparr>local_storage := s2\<rparr>)"
    using s2 assms(3) by (simp add: consumeSafeAppTarget_def stageSafeAppTarget_def try_or_def set1 truthy_def)
  then show ?thesis using s2(3) s3 by (simp add: consumeSafeAppTarget_def truthy_def)
qed

theorem safe_app_target_once_witness:
  "fst (consumeSafeAppTarget (stageSafeAppTarget ''/operator/'' (load_router ''/'' sample_storage))) = ''/operator''"
proof -
  have "ws_accessible (local_storage (load_router ''/'' sample_storage))"
    "ws_writable (local_storage (load_router ''/'' sample_storage))"
    by (simp_all add: load_router_def Let_def sample_storage_def)
  moreover have "normalizePath ''/operator/'' = ''/operator''" "normalizePath ''/operator'' = ''/operator''"
    by (simp_all add: normalizePath_def endsWith_def)
  ultimately show ?thesis
    using safe_app_target_once [of "load_router ''/'' sample_storage" "''/operator/''"] by simp
qed

text \<open>One trailing slash is removed, not all of them, so \<open>normalizePath\<close> is not idempotent.\<close>

lemma normalizePath_not_idempotent: "normalizePath (normalizePath ''/x//'') \<noteq> normalizePath ''/x//''"
  by (simp add: normalizePath_def endsWith_def)

end
