(* ===== verification/Session.thy ===== *)
theory Session
  imports Router Api_Operator
begin

text \<open>
  The signed-in session, \<^verbatim>\<open>web/src/lib/session.ts\<close>, with the fleet snapshot it guards
  (\<^verbatim>\<open>portalFleetState.ts\<close>) and logout (\<^verbatim>\<open>auth/logout.ts\<close>).

  The application state holds both web storages, the value of the \<open>session\<close> store and the fleet
  snapshot.  A session value is the JSON object that is stored, since a loaded session is used as it
  was parsed.  The clock is a parameter: the current time, \<open>Date.parse\<close> (\<open>None\<close> is \<open>NaN\<close>) and
  \<open>toISOString\<close> (\<open>None\<close> is the \<open>RangeError\<close>).  An operation that may throw returns the thrown
  error beside the state it leaves.
\<close>

section \<open>State\<close>

record PortalFleetEntry =
  fleet_slug :: js_string
  fleet_hosted_region :: "js_string option"
  fleet_lesser_version :: "js_string option"

record app =
  app_pathname :: js_string
  app_sessionStorage :: web_storage
  app_localStorage :: web_storage
  app_session :: "json option"
  portalFleetInstances :: "PortalFleetEntry list"

record clock =
  date_now :: int
  date_parse :: "js_string \<Rightarrow> int option"
  date_iso :: "int \<Rightarrow> js_string option"

definition SESSION_STORAGE_KEY :: js_string where
  "SESSION_STORAGE_KEY = ''lesser-host:session:v1''"

definition SESSION_EXPIRED_AT_KEY :: js_string where
  "SESSION_EXPIRED_AT_KEY = ''lesser-host:session:v1:expiredAt''"

definition SAFE_APP_HANDOFF_KEY :: js_string where
  "SAFE_APP_HANDOFF_KEY = ''lesser-host:session:v1:safeAppHandoff''"

definition clearPortalFleetState :: "app \<Rightarrow> app" where
  "clearPortalFleetState a = a\<lparr>portalFleetInstances := []\<rparr>"

section \<open>Validity and expiry\<close>

definition isValidSession :: "json \<Rightarrow> bool" where
  "isValidSession v \<longleftrightarrow>
     string_member v ''tokenType'' \<noteq> None \<and> string_member v ''token'' \<noteq> None \<and>
     string_member v ''expiresAt'' \<noteq> None \<and> string_member v ''username'' \<noteq> None \<and>
     string_member v ''role'' \<noteq> None"

definition session_text :: "json \<Rightarrow> js_string \<Rightarrow> js_string" where
  "session_text v k = nullish (string_member v k) []"

definition isExpired :: "clock \<Rightarrow> js_string \<Rightarrow> bool" where
  "isExpired clk expiresAt =
     (case date_parse clk expiresAt of None \<Rightarrow> True | Some parsed \<Rightarrow> parsed \<le> date_now clk)"

definition isValidSafeAppSessionHandoff :: "json \<Rightarrow> bool" where
  "isValidSafeAppSessionHandoff v \<longleftrightarrow>
     (case obj_get v ''session'' of None \<Rightarrow> False | Some s \<Rightarrow> isValidSession s) \<and>
     string_member v ''expiresAt'' \<noteq> None \<and> string_member v ''stagedAt'' \<noteq> None"

section \<open>Loading\<close>

definition consumeSessionExpiredAt :: "app \<Rightarrow> js_string option \<times> app" where
  "consumeSessionExpiredAt a =
     (case getItem SESSION_EXPIRED_AT_KEY (app_sessionStorage a) of
        Inl _ \<Rightarrow> (None, a)
      | Inr val \<Rightarrow>
          if \<not> truthy val then (None, a)
          else (case removeItem SESSION_EXPIRED_AT_KEY (app_sessionStorage a) of
                  Inl _ \<Rightarrow> (None, a)
                | Inr ss \<Rightarrow> (val, a\<lparr>app_sessionStorage := ss\<rparr>)))"

definition removeSafeAppSessionHandoff :: "app \<Rightarrow> app" where
  "removeSafeAppSessionHandoff a =
     a\<lparr>app_localStorage := try_or (app_localStorage a) (removeItem SAFE_APP_HANDOFF_KEY (app_localStorage a))\<rparr>"

definition loadSafeAppSessionHandoff :: "clock \<Rightarrow> app \<Rightarrow> json option \<times> app" where
  "loadSafeAppSessionHandoff clk a =
     (if \<not> isSafeAppPath (app_pathname a) then (None, a)
      else
        (case getItem SAFE_APP_HANDOFF_KEY (app_localStorage a) of
           Inl _ \<Rightarrow> (None, removeSafeAppSessionHandoff a)
         | Inr raw \<Rightarrow>
             if \<not> truthy raw then (None, a)
             else
               (case json_parse (the raw) of
                  None \<Rightarrow> (None, removeSafeAppSessionHandoff a)
                | Some parsed \<Rightarrow>
                    if \<not> isValidSafeAppSessionHandoff parsed then (None, removeSafeAppSessionHandoff a)
                    else
                      (let s = the (obj_get parsed ''session'') in
                       if isExpired clk (session_text parsed ''expiresAt'')
                           \<or> isExpired clk (session_text s ''expiresAt'')
                       then (None, removeSafeAppSessionHandoff a)
                       else (Some s, a)))))"

text \<open>The stored session, if it parses, is valid and is not expired; an expired one leaves a marker.\<close>

definition stored_session :: "clock \<Rightarrow> js_string option \<Rightarrow> app \<Rightarrow> json option \<times> app" where
  "stored_session clk raw a =
     (if \<not> truthy raw then (None, a)
      else
        (case json_parse (the raw) of
           None \<Rightarrow> (None, a)
         | Some parsed \<Rightarrow>
             if isValidSession parsed \<and> \<not> isExpired clk (session_text parsed ''expiresAt'')
             then (Some parsed, a)
             else if isValidSession parsed \<and> isExpired clk (session_text parsed ''expiresAt'')
             then (None, a\<lparr>app_sessionStorage := try_or (app_sessionStorage a)
                    (setItem SESSION_EXPIRED_AT_KEY (session_text parsed ''expiresAt'') (app_sessionStorage a))\<rparr>)
             else (None, a)))"

definition loadInitialSession :: "clock \<Rightarrow> app \<Rightarrow> storage_error + json option \<times> app" where
  "loadInitialSession clk a =
     (case getItem SESSION_STORAGE_KEY (app_sessionStorage a) of
        Inl e \<Rightarrow> Inl e
      | Inr raw \<Rightarrow>
          (case stored_session clk raw a of
             (Some s, a1) \<Rightarrow> Inr (Some s, a1)
           | (None, a1) \<Rightarrow>
               Inr (loadSafeAppSessionHandoff clk
                 (a1\<lparr>app_sessionStorage := try_or (app_sessionStorage a1)
                       (removeItem SESSION_STORAGE_KEY (app_sessionStorage a1))\<rparr>))))"

section \<open>The store and its subscriber\<close>

text \<open>
  The module's subscriber runs on every change of the store.  On an expired value it sets the store
  to \<open>null\<close>, which runs it again.  The store ignores setting \<open>null\<close> when it is \<open>null\<close> already.
\<close>

definition on_session_null :: "app \<Rightarrow> storage_error option \<times> app" where
  "on_session_null a =
     (let a1 = clearPortalFleetState a in
      case removeItem SESSION_STORAGE_KEY (app_sessionStorage a1) of
        Inl e \<Rightarrow> (Some e, a1)
      | Inr ss \<Rightarrow> (None, removeSafeAppSessionHandoff (a1\<lparr>app_sessionStorage := ss\<rparr>)))"

definition set_null :: "app \<Rightarrow> storage_error option \<times> app" where
  "set_null a = (if app_session a = None then (None, a) else on_session_null (a\<lparr>app_session := None\<rparr>))"

definition on_session_value :: "clock \<Rightarrow> json \<Rightarrow> app \<Rightarrow> storage_error option \<times> app" where
  "on_session_value clk v a =
     (if isExpired clk (session_text v ''expiresAt'') then
        (let a1 = a\<lparr>app_sessionStorage := try_or (app_sessionStorage a)
                     (setItem SESSION_EXPIRED_AT_KEY (session_text v ''expiresAt'') (app_sessionStorage a))\<rparr> in
         case removeItem SESSION_STORAGE_KEY (app_sessionStorage a1) of
           Inl e \<Rightarrow> (Some e, a1)
         | Inr ss \<Rightarrow> set_null (removeSafeAppSessionHandoff (a1\<lparr>app_sessionStorage := ss\<rparr>)))
      else
        (case setItem SESSION_STORAGE_KEY (json_stringify v) (app_sessionStorage a) of
           Inl e \<Rightarrow> (Some e, a)
         | Inr ss \<Rightarrow> (None, a\<lparr>app_sessionStorage := ss\<rparr>)))"

definition session_set :: "clock \<Rightarrow> json option \<Rightarrow> app \<Rightarrow> storage_error option \<times> app" where
  "session_set clk val a =
     (case val of
        None \<Rightarrow> set_null a
      | Some v \<Rightarrow> on_session_value clk v (a\<lparr>app_session := Some v\<rparr>))"

text \<open>Loading the module: the initial value, then the subscription's first call.\<close>

definition load_session_module :: "clock \<Rightarrow> app \<Rightarrow> storage_error option \<times> app" where
  "load_session_module clk a =
     (case loadInitialSession clk a of
        Inl e \<Rightarrow> (Some e, a)
      | Inr (val, a1) \<Rightarrow>
          (case val of
             None \<Rightarrow> on_session_null (a1\<lparr>app_session := None\<rparr>)
           | Some v \<Rightarrow> on_session_value clk v (a1\<lparr>app_session := Some v\<rparr>)))"

definition clearSession :: "app \<Rightarrow> storage_error option \<times> app" where
  "clearSession a = set_null (clearPortalFleetState a)"

definition setSession :: "clock \<Rightarrow> json option \<Rightarrow> app \<Rightarrow> storage_error option \<times> app" where
  "setSession clk val a = (case val of None \<Rightarrow> clearSession a | Some v \<Rightarrow> session_set clk (Some v) a)"

definition isAuthenticated :: "app \<Rightarrow> bool" where
  "isAuthenticated a = (case app_session a of None \<Rightarrow> False | Some v \<Rightarrow> truthy (string_member v ''token''))"

definition isOperatorSession :: "app \<Rightarrow> bool" where
  "isOperatorSession a =
     (case app_session a of
        None \<Rightarrow> False
      | Some v \<Rightarrow> string_member v ''role'' = Some ''admin'' \<or> string_member v ''role'' = Some ''operator'')"

section \<open>Handing the session to the Safe app\<close>

definition handoff_json :: "json \<Rightarrow> js_string \<Rightarrow> js_string \<Rightarrow> json" where
  "handoff_json v expiresAt stagedAt =
     JObj [(''session'', v), (''expiresAt'', JStr expiresAt), (''stagedAt'', JStr stagedAt)]"

text \<open>\<open>Inl\<close> is the \<open>RangeError\<close> of \<open>toISOString\<close>, which is not caught.\<close>

definition stageSafeAppSessionHandoff :: "clock \<Rightarrow> json option \<Rightarrow> int option \<Rightarrow> app \<Rightarrow> js_error + bool \<times> app" where
  "stageSafeAppSessionHandoff clk val maxAgeMs a =
     (case val of
        None \<Rightarrow> Inr (False, removeSafeAppSessionHandoff a)
      | Some v \<Rightarrow>
          if isExpired clk (session_text v ''expiresAt'') then Inr (False, removeSafeAppSessionHandoff a)
          else
            (case date_parse clk (session_text v ''expiresAt'') of
               None \<Rightarrow> Inr (False, removeSafeAppSessionHandoff a)
             | Some sessionExpiry \<Rightarrow>
                 (case (date_iso clk (min sessionExpiry (date_now clk + nullish maxAgeMs (10 * 60 * 1000))),
                        date_iso clk (date_now clk)) of
                    (Some handoffExpiry, Some stagedAt) \<Rightarrow>
                      (case setItem SAFE_APP_HANDOFF_KEY (json_stringify (handoff_json v handoffExpiry stagedAt))
                              (app_localStorage a) of
                         Inl _ \<Rightarrow> Inr (False, a)
                       | Inr ls \<Rightarrow> Inr (True, a\<lparr>app_localStorage := ls\<rparr>))
                  | _ \<Rightarrow> Inl (Error ''Invalid time value''))))"

section \<open>Logout\<close>

text \<open>
  Logout revokes the token on the server and then clears the local session, whatever the server
  answered.  While it waits, the rest of the page may change the state: \<open>meanwhile\<close>.
\<close>

definition logout :: "(app \<Rightarrow> app) \<Rightarrow> app \<Rightarrow> net \<Rightarrow> request list
    \<Rightarrow> (js_error option \<times> storage_error option \<times> app) \<times> request list" where
  "logout meanwhile a net log =
     (let tok = (case app_session a of None \<Rightarrow> None | Some v \<Rightarrow> string_member v ''token'') in
      if truthy tok then
        (case authLogout (the tok) net log of
           (r, l) \<Rightarrow>
             (let (thrown, a') = clearSession (meanwhile a) in
              (((case r of Inl e \<Rightarrow> Some e | Inr _ \<Rightarrow> None), thrown, a'), l)))
      else (let (thrown, a') = clearSession a in ((None, thrown, a'), log)))"

section \<open>Invariant\<close>

lemma key_distinct [simp]:
  "SESSION_STORAGE_KEY \<noteq> SESSION_EXPIRED_AT_KEY" "SESSION_EXPIRED_AT_KEY \<noteq> SESSION_STORAGE_KEY"
  by (simp_all add: SESSION_STORAGE_KEY_def SESSION_EXPIRED_AT_KEY_def)

definition stores_ok :: "app \<Rightarrow> bool" where
  "stores_ok a \<longleftrightarrow>
     ws_accessible (app_sessionStorage a) \<and> ws_writable (app_sessionStorage a) \<and>
     ws_accessible (app_localStorage a) \<and> ws_writable (app_localStorage a)"

text \<open>The store and the session storage agree, and what they hold is a valid session.\<close>

definition session_ok :: "app \<Rightarrow> bool" where
  "session_ok a \<longleftrightarrow>
     stores_ok a \<and>
     ws_items (app_sessionStorage a) SESSION_STORAGE_KEY = map_option json_stringify (app_session a) \<and>
     pred_option (\<lambda>v. isValidSession v \<and> wf_json v) (app_session a)"

lemma remove_handoff:
  "stores_ok a \<Longrightarrow> removeSafeAppSessionHandoff a =
     a\<lparr>app_localStorage := (app_localStorage a)
        \<lparr>ws_items := (ws_items (app_localStorage a))(SAFE_APP_HANDOFF_KEY := None)\<rparr>\<rparr>"
  by (simp add: removeSafeAppSessionHandoff_def removeItem_def try_or_def stores_ok_def)

lemmas session_ops = on_session_null_def set_null_def on_session_value_def session_set_def
  clearSession_def setSession_def clearPortalFleetState_def setItem_def removeItem_def try_or_def

lemma null_ok: "stores_ok a \<Longrightarrow> session_ok (snd (on_session_null (a\<lparr>app_session := None\<rparr>)))"
  by (simp add: session_ops remove_handoff session_ok_def stores_ok_def)

lemma set_null_ok: "session_ok a \<Longrightarrow> session_ok (snd (set_null a))"
  using null_ok [of a] by (simp add: set_null_def session_ok_def)

lemma value_ok:
  assumes "stores_ok a" and "isValidSession v" and "wf_json v"
  shows "session_ok (snd (on_session_value clk v (a\<lparr>app_session := Some v\<rparr>)))"
  using assms by (simp add: session_ops remove_handoff session_ok_def stores_ok_def)

lemma handoff_load:
  assumes "loadSafeAppSessionHandoff clk a = (val, a')" and "stores_ok a"
  shows "stores_ok a' \<and> app_sessionStorage a' = app_sessionStorage a \<and> app_session a' = app_session a \<and>
    pred_option (\<lambda>v. isValidSession v \<and> wf_json v \<and> \<not> isExpired clk (session_text v ''expiresAt'')) val"
proof -
  have rm: "stores_ok (removeSafeAppSessionHandoff a)"
      "app_sessionStorage (removeSafeAppSessionHandoff a) = app_sessionStorage a"
      "app_session (removeSafeAppSessionHandoff a) = app_session a"
    using assms(2) by (simp_all add: remove_handoff stores_ok_def)
  have member: "wf_json s" if "json_parse raw = Some p" "obj_get p k = Some s" for raw p k s
  proof -
    have "wf_json p" by (rule json_parse_wf [OF that(1)])
    with that(2) show ?thesis
      by (cases p) (auto simp: obj_get_def list_all_iff dest!: map_of_SomeD)
  qed
  show ?thesis using assms rm member
    by (auto simp: loadSafeAppSessionHandoff_def Let_def isValidSafeAppSessionHandoff_def
        split: if_splits sum.splits option.splits)
qed

lemma stored_load:
  assumes "stored_session clk raw a = (val, a')" and "stores_ok a"
  shows "stores_ok a' \<and> app_session a' = app_session a \<and> app_localStorage a' = app_localStorage a \<and>
    app_pathname a' = app_pathname a \<and>
    pred_option (\<lambda>v. isValidSession v \<and> wf_json v \<and> \<not> isExpired clk (session_text v ''expiresAt'')) val"
proof (cases "json_parse (the raw)")
  case None
  then show ?thesis using assms by (auto simp: stored_session_def split: if_splits)
next
  case (Some p)
  have wf: "wf_json p" by (rule json_parse_wf [OF Some])
  show ?thesis
    using assms wf unfolding stored_session_def Some
    by (auto simp: stores_ok_def try_or_def setItem_def split: if_splits sum.splits)
qed

lemma initial_load:
  assumes "loadInitialSession clk a = Inr (val, a')" and "stores_ok a"
  shows "stores_ok a' \<and>
    pred_option (\<lambda>v. isValidSession v \<and> wf_json v \<and> \<not> isExpired clk (session_text v ''expiresAt'')) val"
proof -
  obtain raw s1 a1 where raw: "getItem SESSION_STORAGE_KEY (app_sessionStorage a) = Inr raw"
    and st: "stored_session clk raw a = (s1, a1)"
    using assms(1) by (cases "getItem SESSION_STORAGE_KEY (app_sessionStorage a)")
      (auto simp: loadInitialSession_def split: prod.splits)
  note s = stored_load [OF st assms(2)]
  show ?thesis
  proof (cases s1)
    case None
    let ?a2 = "a1\<lparr>app_sessionStorage := try_or (app_sessionStorage a1)
        (removeItem SESSION_STORAGE_KEY (app_sessionStorage a1))\<rparr>"
    have "loadSafeAppSessionHandoff clk ?a2 = (val, a')"
      using assms(1) None by (simp add: loadInitialSession_def raw st)
    moreover have "stores_ok ?a2" using s by (auto simp: stores_ok_def removeItem_def try_or_def)
    ultimately show ?thesis using handoff_load by blast
  next
    case (Some v)
    then show ?thesis using assms(1) s by (simp add: loadInitialSession_def raw st)
  qed
qed

lemma load_ok:
  assumes "stores_ok a"
  shows "session_ok (snd (load_session_module clk a))"
proof -
  have "\<exists>raw. getItem SESSION_STORAGE_KEY (app_sessionStorage a) = Inr raw"
    using assms by (simp add: stores_ok_def getItem_def)
  then obtain val a1 where l: "loadInitialSession clk a = Inr (val, a1)"
    by (cases "loadInitialSession clk a") (auto simp: loadInitialSession_def split: prod.splits option.splits)
  note i = initial_load [OF l assms]
  then show ?thesis
    using null_ok [of a1] value_ok [of a1 _ clk] by (cases val) (simp_all add: load_session_module_def l)
qed

section \<open>Reachable states\<close>

text \<open>What the rest of the application may do with the session, at any time \<open>clk\<close>.\<close>

inductive session_step :: "app \<Rightarrow> app \<Rightarrow> bool" where
  load: "session_step a (snd (load_session_module clk (a\<lparr>app_pathname := p\<rparr>)))"
| set: "isValidSession v \<Longrightarrow> wf_json v \<Longrightarrow> session_step a (snd (setSession clk (Some v) a))"
| clear: "session_step a (snd (clearSession a))"
| consume: "session_step a (snd (consumeSessionExpiredAt a))"
| stage: "stageSafeAppSessionHandoff clk val maxAge a = Inr (b, a') \<Longrightarrow> session_step a a'"
| fleet: "session_step a (a\<lparr>portalFleetInstances := fs\<rparr>)"

inductive_cases session_stepE: "session_step a b"

definition session_reachable :: "app \<Rightarrow> app \<Rightarrow> bool" where
  "session_reachable a b \<longleftrightarrow> session_step\<^sup>*\<^sup>* a b"

lemma stage_ok:
  "stageSafeAppSessionHandoff clk val maxAge a = Inr (b, a') \<Longrightarrow> session_ok a \<Longrightarrow> session_ok a'"
  by (auto simp: stageSafeAppSessionHandoff_def session_ok_def remove_handoff stores_ok_def setItem_def
      split: option.splits if_splits sum.splits prod.splits)

lemma step_ok: "session_step a b \<Longrightarrow> session_ok a \<Longrightarrow> session_ok b"
proof (induction rule: session_step.induct)
  case (load a clk p)
  then show ?case by (intro load_ok) (simp add: session_ok_def stores_ok_def)
next
  case (set v a clk)
  then show ?case
    using value_ok [of a v clk] by (simp add: setSession_def session_set_def session_ok_def)
next
  case (clear a)
  then have "session_ok (clearPortalFleetState a)"
    by (simp add: clearPortalFleetState_def session_ok_def stores_ok_def)
  then show ?case by (simp add: clearSession_def set_null_ok)
next
  case (consume a)
  then show ?case
    by (auto simp: consumeSessionExpiredAt_def session_ok_def stores_ok_def removeItem_def split: sum.splits)
next
  case (stage clk val maxAge a b a')
  then show ?case using stage_ok by blast
next
  case (fleet a fs)
  then show ?case by (simp add: session_ok_def stores_ok_def)
qed

text \<open>C28. From the first load on, and through every sequence of sign-ins, reloads, logouts, handoffs
  and expiries, the session store and the session storage agree: the storage holds exactly the text
  of the current session, and nothing when signed out, and what they hold is a valid session.\<close>

theorem session_storage_agrees:
  assumes "stores_ok a" and "session_reachable (snd (load_session_module clk a)) b"
  shows "ws_items (app_sessionStorage b) SESSION_STORAGE_KEY = map_option json_stringify (app_session b) \<and>
    pred_option isValidSession (app_session b)"
proof -
  have "session_step\<^sup>*\<^sup>* (snd (load_session_module clk a)) b" using assms(2) by (simp add: session_reachable_def)
  then have "session_ok b"
    by (induction rule: rtranclp_induct) (auto intro: step_ok load_ok [OF assms(1)])
  then show ?thesis by (auto simp: session_ok_def intro: option.pred_mono_strong)
qed

definition sample_session :: json where
  "sample_session = JObj [(''tokenType'', JStr ''Bearer''), (''token'', JStr ''t''), (''expiresAt'', JStr ''9''),
     (''username'', JStr ''alice''), (''role'', JStr ''admin'')]"

definition sample_app :: app where
  "sample_app = \<lparr>app_pathname = ''/'', app_sessionStorage = sample_storage, app_localStorage = sample_storage,
     app_session = None, portalFleetInstances = []\<rparr>"

text \<open>A toy clock whose dates are written in decimal.\<close>

definition sample_clock :: "nat \<Rightarrow> clock" where
  "sample_clock t = \<lparr>date_now = int t, date_parse = (\<lambda>s. map_option int (digits_value 10 0 s)),
     date_iso = (\<lambda>i. if 0 \<le> i then Some (string_of_nat (nat i)) else None)\<rparr>"

lemma sample_session_valid: "isValidSession sample_session" "wf_json sample_session"
  by (simp_all add: sample_session_def isValidSession_def string_member_def obj_get_def)

lemma sample_stores: "stores_ok sample_app"
  by (simp add: stores_ok_def sample_app_def sample_storage_def)

theorem session_storage_agrees_witness:
  "ws_items (app_sessionStorage (snd (setSession (sample_clock 1) (Some sample_session)
      (snd (load_session_module (sample_clock 0) sample_app))))) SESSION_STORAGE_KEY =
    map_option json_stringify (app_session (snd (setSession (sample_clock 1) (Some sample_session)
      (snd (load_session_module (sample_clock 0) sample_app)))))"
proof -
  have "session_reachable (snd (load_session_module (sample_clock 0) sample_app))
      (snd (setSession (sample_clock 1) (Some sample_session) (snd (load_session_module (sample_clock 0) sample_app))))"
    unfolding session_reachable_def
    by (rule r_into_rtranclp) (rule session_step.set [OF sample_session_valid])
  then show ?thesis using session_storage_agrees [OF sample_stores] by blast
qed

section \<open>Reload, handoff, logout\<close>

lemma null_signed_out: "app_session (snd (on_session_null (a\<lparr>app_session := None\<rparr>))) = None"
  by (simp add: on_session_null_def clearPortalFleetState_def Let_def removeSafeAppSessionHandoff_def split: sum.splits)

lemma load_stored:
  assumes "session_ok a" and "app_session a = Some v" and "\<not> isExpired clk (session_text v ''expiresAt'')"
  shows "app_session (snd (load_session_module clk a)) = Some v"
proof -
  have w: "wf_json v" "isValidSession v" and acc: "ws_accessible (app_sessionStorage a)"
    and raw: "ws_items (app_sessionStorage a) SESSION_STORAGE_KEY = Some (json_stringify v)"
    using assms(1, 2) by (simp_all add: session_ok_def stores_ok_def)
  have p: "json_parse (json_stringify v) = Some v" by (rule json_parse_stringify [OF w(1)])
  have "json_stringify v \<noteq> []"
  proof
    assume "json_stringify v = []"
    with p show False by (simp add: json_parse_def)
  qed
  then have "stored_session clk (Some (json_stringify v)) a = (Some v, a)"
    using p w(2) assms(3) by (simp add: stored_session_def truthy_def)
  then have "loadInitialSession clk a = Inr (Some v, a)"
    using acc raw by (simp add: loadInitialSession_def getItem_def)
  then show ?thesis
    using assms(3) by (simp add: load_session_module_def on_session_value_def split: sum.splits)
qed

lemma load_expired:
  assumes "session_ok a" and "app_session a = Some v" and "isExpired clk (session_text v ''expiresAt'')"
    and "\<not> isSafeAppPath (app_pathname a)"
  shows "app_session (snd (load_session_module clk a)) = None \<and>
    ws_items (app_sessionStorage (snd (load_session_module clk a))) SESSION_STORAGE_KEY = None \<and>
    ws_items (app_sessionStorage (snd (load_session_module clk a))) SESSION_EXPIRED_AT_KEY =
      Some (session_text v ''expiresAt'')"
proof -
  have w: "wf_json v" "isValidSession v" and st: "stores_ok a"
    and raw: "ws_items (app_sessionStorage a) SESSION_STORAGE_KEY = Some (json_stringify v)"
    using assms(1, 2) by (simp_all add: session_ok_def)
  have p: "json_parse (json_stringify v) = Some v" by (rule json_parse_stringify [OF w(1)])
  have ne: "json_stringify v \<noteq> []"
  proof
    assume "json_stringify v = []"
    with p show False by (simp add: json_parse_def)
  qed
  let ?ss = "(app_sessionStorage a)\<lparr>ws_items := (ws_items (app_sessionStorage a))
     (SESSION_EXPIRED_AT_KEY \<mapsto> session_text v ''expiresAt'')\<rparr>"
  have "stored_session clk (Some (json_stringify v)) a = (None, a\<lparr>app_sessionStorage := ?ss\<rparr>)"
    using p ne w(2) assms(3) st
    by (simp add: stored_session_def truthy_def try_or_def setItem_def stores_ok_def)
  then have "loadInitialSession clk a = Inr (None, a\<lparr>app_sessionStorage := ?ss
       \<lparr>ws_items := (ws_items ?ss)(SESSION_STORAGE_KEY := None)\<rparr>\<rparr>)"
    using st raw assms(4)
    by (simp add: loadInitialSession_def getItem_def stores_ok_def removeItem_def try_or_def loadSafeAppSessionHandoff_def)
  then show ?thesis using st
    by (simp add: load_session_module_def on_session_null_def clearPortalFleetState_def removeItem_def
        removeSafeAppSessionHandoff_def stores_ok_def try_or_def)
qed


lemma sample_ok: "session_ok (sample_app\<lparr>app_session := Some sample_session, app_sessionStorage :=
    sample_storage\<lparr>ws_items := [SESSION_STORAGE_KEY \<mapsto> json_stringify sample_session]\<rparr>\<rparr>)"
  using sample_session_valid by (simp add: session_ok_def stores_ok_def sample_app_def sample_storage_def)


text \<open>A session is never taken from storage after its expiry, nor from a handoff that is past its
  own: whatever the storages hold, a session that is loaded is valid and unexpired at that moment.\<close>

theorem loaded_session_unexpired:
  assumes "stores_ok a" and "loadInitialSession clk a = Inr (Some v, a')"
  shows "isValidSession v \<and> \<not> isExpired clk (session_text v ''expiresAt'')"
  using initial_load [OF assms(2, 1)] by simp

theorem loaded_session_unexpired_witness:
  "isValidSession sample_session \<and> \<not> isExpired (sample_clock 3) (session_text sample_session ''expiresAt'')"
proof -
  let ?a = "sample_app\<lparr>app_session := Some sample_session, app_sessionStorage :=
    sample_storage\<lparr>ws_items := [SESSION_STORAGE_KEY \<mapsto> json_stringify sample_session]\<rparr>\<rparr>"
  have e: "\<not> isExpired (sample_clock 3) (session_text sample_session ''expiresAt'')"
    by (simp add: isExpired_def sample_clock_def session_text_def sample_session_def string_member_def
        obj_get_def nullish_def hex_value_def is_digit_def)
  have "stored_session (sample_clock 3) (Some (json_stringify sample_session)) ?a = (Some sample_session, ?a)"
    using e sample_session_valid json_parse_stringify [OF sample_session_valid(2)]
    by (auto simp: stored_session_def truthy_def sample_session_def)
  then have "loadInitialSession (sample_clock 3) ?a = Inr (Some sample_session, ?a)"
    by (simp add: loadInitialSession_def getItem_def sample_app_def sample_storage_def)
  moreover have "stores_ok ?a" using sample_ok by (simp add: session_ok_def)
  ultimately show ?thesis using loaded_session_unexpired by blast
qed

text \<open>The Safe app page that opens on the same origin: an empty session storage, the shared local
  storage.\<close>

definition safe_app_page :: "app \<Rightarrow> app" where
  "safe_app_page a =
     \<lparr>app_pathname = SAFE_APP_BASE_PATH,
      app_sessionStorage = \<lparr>ws_items = (\<lambda>_. None), ws_accessible = True, ws_writable = True\<rparr>,
      app_localStorage = app_localStorage a, app_session = None, portalFleetInstances = []\<rparr>"

lemma handoff_wf: "wf_json v \<Longrightarrow> wf_json (handoff_json v e s)"
  by (simp add: handoff_json_def)

text \<open>The handoff to the Safe app delivers the very session that was staged, for at most the given
  time: a page that opens later gets it exactly while both the session's expiry and the staging
  time plus the maximal age (ten minutes unless given) lie ahead, and nothing afterwards.\<close>

theorem handoff_delivers:
  assumes "stores_ok a" and "wf_json v" and "isValidSession v"
    and "stageSafeAppSessionHandoff clk (Some v) maxAgeMs a = Inr (True, a1)"
    and "date_parse clk (session_text v ''expiresAt'') = Some e"
    and iso: "\<And>t s. date_iso clk t = Some s \<Longrightarrow> date_parse clk s = Some t"
  shows "app_session (snd (load_session_module (clk\<lparr>date_now := later\<rparr>) (safe_app_page a1))) =
    (if later < e \<and> later < date_now clk + nullish maxAgeMs (10 * 60 * 1000) then Some v else None)"
proof -
  let ?t = "min e (date_now clk + nullish maxAgeMs (10 * 60 * 1000))"
  let ?clk = "clk\<lparr>date_now := later\<rparr>"
  from assms(4) obtain x s where x: "date_iso clk ?t = Some x" "date_iso clk (date_now clk) = Some s"
    and a1: "app_localStorage a1 = (app_localStorage a)\<lparr>ws_items :=
        (ws_items (app_localStorage a))(SAFE_APP_HANDOFF_KEY \<mapsto> json_stringify (handoff_json v x s))\<rparr>"
    by (auto simp: stageSafeAppSessionHandoff_def assms(5) setItem_def split: if_splits option.splits sum.splits prod.splits)
  have p: "json_parse (json_stringify (handoff_json v x s)) = Some (handoff_json v x s)"
    by (rule json_parse_stringify [OF handoff_wf [OF assms(2)]])
  have ne: "json_stringify (handoff_json v x s) \<noteq> []" by (simp add: handoff_json_def)
  have valid: "isValidSafeAppSessionHandoff (handoff_json v x s)"
    using assms(3) by (simp add: isValidSafeAppSessionHandoff_def handoff_json_def obj_get_def string_member_def)
  have parts: "obj_get (handoff_json v x s) ''session'' = Some v"
      "session_text (handoff_json v x s) ''expiresAt'' = x"
    by (simp_all add: handoff_json_def obj_get_def session_text_def string_member_def nullish_def)
  have exp: "isExpired ?clk x \<longleftrightarrow> ?t \<le> later" "isExpired ?clk (session_text v ''expiresAt'') \<longleftrightarrow> e \<le> later"
    using iso [OF x(1)] assms(5) by (simp_all add: isExpired_def)
  let ?fresh = "later < e \<and> later < date_now clk + nullish maxAgeMs (10 * 60 * 1000)"
  have h: "fst (loadSafeAppSessionHandoff ?clk b) = (if ?fresh then Some v else None)"
    if "app_pathname b = SAFE_APP_BASE_PATH" "app_localStorage b = app_localStorage a1" for b
    using that assms(1) ne valid exp
    by (auto simp: loadSafeAppSessionHandoff_def isSafeAppPath_def appBasePath_def getItem_def a1 stores_ok_def
        truthy_def p parts Let_def)
  have l: "loadInitialSession ?clk (safe_app_page a1) = Inr (loadSafeAppSessionHandoff ?clk (safe_app_page a1))"
    by (simp add: loadInitialSession_def safe_app_page_def getItem_def stored_session_def truthy_def removeItem_def
        try_or_def fun_upd_idem)
  have "fst (loadSafeAppSessionHandoff ?clk (safe_app_page a1)) = (if ?fresh then Some v else None)"
    by (rule h) (simp_all add: safe_app_page_def)
  then obtain b where "loadInitialSession ?clk (safe_app_page a1) = Inr (if ?fresh then Some v else None, b)"
    unfolding l by (cases "loadSafeAppSessionHandoff ?clk (safe_app_page a1)") auto
  then have i: "loadInitialSession ?clk (safe_app_page a1) = Inr (if ?fresh then Some v else None, b)" .
  show ?thesis
  proof (cases ?fresh)
    case True
    then have "\<not> isExpired ?clk (session_text v ''expiresAt'')" using exp(2) by simp
    with True i show ?thesis
      by (simp add: load_session_module_def on_session_value_def split: sum.splits)
  next
    case False
    then have "loadInitialSession ?clk (safe_app_page a1) = Inr (None, b)" using i by simp
    then show ?thesis unfolding if_not_P [OF False] by (simp add: load_session_module_def null_signed_out)
  qed
qed

theorem handoff_delivers_witness:
  "app_session (snd (load_session_module (sample_clock 5)
     (safe_app_page (snd (projr (stageSafeAppSessionHandoff (sample_clock 3) (Some sample_session) (Some 4) sample_app))))))
   = Some sample_session"
proof -
  let ?c = "sample_clock 3"
  have nine: "session_text sample_session ''expiresAt'' = ''9''"
    by (simp add: session_text_def sample_session_def string_member_def obj_get_def nullish_def)
  have e: "date_parse ?c (session_text sample_session ''expiresAt'') = Some 9"
    by (simp add: nine sample_clock_def hex_value_def is_digit_def)
  then have "\<exists>a1. stageSafeAppSessionHandoff ?c (Some sample_session) (Some 4) sample_app = Inr (True, a1)"
    unfolding stageSafeAppSessionHandoff_def isExpired_def
    by (simp add: sample_clock_def nullish_def setItem_def sample_app_def sample_storage_def)
  then obtain a1 where a1: "stageSafeAppSessionHandoff ?c (Some sample_session) (Some 4) sample_app = Inr (True, a1)" ..
  have "date_parse ?c s = Some t" if "date_iso ?c t = Some s" for t s
    using that by (auto simp: sample_clock_def split: if_splits)
  then have "app_session (snd (load_session_module (?c\<lparr>date_now := 5\<rparr>) (safe_app_page a1))) =
      (if 5 < (9::int) \<and> 5 < date_now ?c + nullish (Some 4) (10 * 60 * 1000) then Some sample_session else None)"
    by (rule handoff_delivers [OF sample_stores sample_session_valid(2, 1) a1 e])
  moreover have "?c\<lparr>date_now := 5\<rparr> = sample_clock 5" "date_now ?c = 3" by (simp_all add: sample_clock_def)
  ultimately show ?thesis by (simp add: a1 nullish_def)
qed

text \<open>C30. Logout always signs out: whatever the server answers, or when it cannot be reached, the
  store, the stored session, the Safe app handoff and the fleet snapshot are all cleared, also when the
  page changes the session while the answer is awaited.  The server is asked exactly once, to revoke
  the token of the session at the time of the call; its failure is still reported.\<close>

theorem logout_clears:
  assumes "session_ok (meanwhile a)" and "app_session (meanwhile a) \<noteq> None" and "app_session a = Some v"
    and "session_text v ''token'' \<noteq> []"
    and "logout meanwhile a net log = ((err, thrown, b), log')"
  shows "app_session b = None \<and> \<not> isAuthenticated b \<and> portalFleetInstances b = [] \<and>
    ws_items (app_sessionStorage b) SESSION_STORAGE_KEY = None \<and>
    ws_items (app_localStorage b) SAFE_APP_HANDOFF_KEY = None \<and> thrown = None \<and>
    log' = log @ [\<lparr>req_method = ''POST'', req_url = ''/api/v1/auth/logout'',
      req_headers = bearer (session_text v ''token''), req_body = None\<rparr>] \<and>
    (err = None \<longleftrightarrow> (\<exists>x. fst (authLogout (session_text v ''token'') net log) = Inr x))"
proof -
  let ?m = "meanwhile a" and ?t = "session_text v ''token''"
  have st: "stores_ok ?m" using assms(1) by (simp add: session_ok_def)
  have tok: "string_member v ''token'' = Some ?t" "truthy (Some ?t)"
    using assms(4) by (cases "string_member v ''token''"; simp add: session_text_def nullish_def truthy_def)+
  obtain r l where al: "authLogout ?t net log = (r, l)" by (cases "authLogout ?t net log")
  have c: "clearSession ?m = (None, (removeSafeAppSessionHandoff (?m\<lparr>app_session := None, portalFleetInstances := [],
      app_sessionStorage := (app_sessionStorage ?m)\<lparr>ws_items := (ws_items (app_sessionStorage ?m))(SESSION_STORAGE_KEY := None)\<rparr>\<rparr>)))"
    using assms(2) st
    by (auto simp: clearSession_def set_null_def on_session_null_def clearPortalFleetState_def removeItem_def stores_ok_def)
  have "err = (case r of Inl e \<Rightarrow> Some e | Inr _ \<Rightarrow> None)" "thrown = None" "log' = l" "b = snd (clearSession ?m)"
    using assms(5) by (simp_all add: logout_def assms(3) tok al c)
  moreover have "l = log @ [\<lparr>req_method = ''POST'', req_url = ''/api/v1/auth/logout'',
      req_headers = bearer ?t, req_body = None\<rparr>]"
    using logout.one_request [of ?t net log] al by simp
  ultimately show ?thesis using st al
    by (auto simp: c removeSafeAppSessionHandoff_def removeItem_def try_or_def stores_ok_def isAuthenticated_def
        split: sum.splits)
qed

theorem logout_clears_witness:
  "\<exists>b err log'. logout id (sample_app\<lparr>app_session := Some sample_session, app_sessionStorage :=
     sample_storage\<lparr>ws_items := [SESSION_STORAGE_KEY \<mapsto> json_stringify sample_session]\<rparr>\<rparr>)
     (\<lambda>_ _. FetchFailed ''offline'') [] = ((err, None, b), log') \<and> app_session b = None \<and> length log' = 1"
proof -
  let ?a = "sample_app\<lparr>app_session := Some sample_session, app_sessionStorage :=
     sample_storage\<lparr>ws_items := [SESSION_STORAGE_KEY \<mapsto> json_stringify sample_session]\<rparr>\<rparr>"
  obtain err thrown b log' where l: "logout id ?a (\<lambda>_ _. FetchFailed ''offline'') [] = ((err, thrown, b), log')"
    by (metis prod.collapse)
  have t: "session_text sample_session ''token'' \<noteq> []"
    by (simp add: session_text_def sample_session_def string_member_def obj_get_def nullish_def)
  have "app_session b = None \<and> thrown = None \<and> length log' = 1"
    using logout_clears [OF _ _ _ t l] sample_ok by simp
  with l show ?thesis by blast
qed

end
