(* ===== verification/Polling.thy ===== *)
theory Polling
  imports Http
begin

text \<open>
  Polling with backoff, \<^verbatim>\<open>web/src/lib/polling.ts\<close>, and the interface of a backoff schedule, which the
  transports share.  The loop may run for ever, so it has fuel: a call that does not return within
  the fuel is \<open>None\<close>, and the theorems give the fuel that is enough.

  Delays are integers; the backoff factor is a fraction \<open>p/q\<close> (1.6 is 8/5), so that
  \<open>Math.floor(delayMs * factor)\<close> is \<open>delayMs * p div q\<close>.  The abort signal is a predicate on the
  points where it is looked at: \<open>2 i\<close> is the check before call \<open>i\<close>, \<open>2 i + 1\<close> the sleep after it.
\<close>

section \<open>Backoff schedules as an interface\<close>

locale backoff =
  fixes delay :: "nat \<Rightarrow> int" and lo hi :: int
  assumes lower: "lo \<le> delay i" and upper: "delay i \<le> hi" and lo_pos: "0 \<le> lo"
begin

lemma nonneg: "0 \<le> delay i"
  using lower [of i] lo_pos by linarith

lemma total_upper: "(\<Sum>i < n. delay i) \<le> int n * hi"
proof -
  have "(\<Sum>i < n. delay i) \<le> (\<Sum>i < n. hi)" by (intro sum_mono upper)
  then show ?thesis by simp
qed

lemma total_lower: "int n * lo \<le> (\<Sum>i < n. delay i)"
proof -
  have "(\<Sum>i < n. lo) \<le> (\<Sum>i < n. delay i)" by (intro sum_mono lower)
  then show ?thesis by simp
qed

end

section \<open>pollUntil\<close>

record PollBackoffOptions =
  po_initialDelayMs :: "int option"
  po_maxDelayMs :: "int option"
  po_factor :: "(int \<times> int) option"

record poll_settings =
  initialDelayMs :: int
  maxDelayMs :: int
  factor :: "int \<times> int"

definition poll_settings_of :: "PollBackoffOptions option \<Rightarrow> poll_settings" where
  "poll_settings_of opts =
     (let b = nullish opts \<lparr>po_initialDelayMs = None, po_maxDelayMs = None, po_factor = None\<rparr> in
      \<lparr>initialDelayMs = nullish (po_initialDelayMs b) 1000, maxDelayMs = nullish (po_maxDelayMs b) 15000,
       factor = nullish (po_factor b) (8, 5)\<rparr>)"

definition next_delay :: "poll_settings \<Rightarrow> int \<Rightarrow> int" where
  "next_delay s delayMs =
     min (maxDelayMs s) (max (initialDelayMs s) (delayMs * fst (factor s) div snd (factor s)))"

fun poll_delay :: "poll_settings \<Rightarrow> nat \<Rightarrow> int" where
  "poll_delay s 0 = initialDelayMs s"
| "poll_delay s (Suc i) = next_delay s (poll_delay s i)"

record 'a poll_result =
  poll_outcome :: "js_error + 'a"
  poll_log :: "request list"
  poll_updates :: "'a list"
  poll_slept :: "int list"

text \<open>The \<open>for (;;)\<close> loop from call \<open>i\<close> on: the values passed to \<open>onUpdate\<close> and the delays slept so
  far are threaded through.\<close>

fun poll_loop ::
  "nat \<Rightarrow> poll_settings \<Rightarrow> 'a io \<Rightarrow> ('a \<Rightarrow> bool) \<Rightarrow> (nat \<Rightarrow> bool) \<Rightarrow> net \<Rightarrow> nat \<Rightarrow> int
     \<Rightarrow> request list \<Rightarrow> 'a list \<Rightarrow> int list \<Rightarrow> 'a poll_result option" where
  "poll_loop 0 s fn isDone aborted net i delayMs log ups slept = None"
| "poll_loop (Suc fuel) s fn isDone aborted net i delayMs log ups slept =
     (if aborted (2 * i)
      then Some \<lparr>poll_outcome = Inl AbortError, poll_log = log, poll_updates = ups, poll_slept = slept\<rparr>
      else
        (case fn net log of
           (Inl e, l) \<Rightarrow> Some \<lparr>poll_outcome = Inl e, poll_log = l, poll_updates = ups, poll_slept = slept\<rparr>
         | (Inr v, l) \<Rightarrow>
             if isDone v
             then Some \<lparr>poll_outcome = Inr v, poll_log = l, poll_updates = ups @ [v], poll_slept = slept\<rparr>
             else if aborted (2 * i + 1)
             then Some \<lparr>poll_outcome = Inl AbortError, poll_log = l, poll_updates = ups @ [v], poll_slept = slept\<rparr>
             else poll_loop fuel s fn isDone aborted net (Suc i) (next_delay s delayMs) l (ups @ [v])
                    (slept @ [delayMs])))"

definition pollUntil ::
  "nat \<Rightarrow> 'a io \<Rightarrow> ('a \<Rightarrow> bool) \<Rightarrow> PollBackoffOptions option \<Rightarrow> (nat \<Rightarrow> bool) \<Rightarrow> net \<Rightarrow> request list
     \<Rightarrow> 'a poll_result option" where
  "pollUntil fuel fn isDone opts aborted net log =
     (let s = poll_settings_of opts in
      poll_loop fuel s fn isDone aborted net 0 (initialDelayMs s) log [] [])"

section \<open>Lemmas\<close>

lemma poll_delay_bounds:
  assumes "0 \<le> initialDelayMs s" and "initialDelayMs s \<le> maxDelayMs s"
  shows "initialDelayMs s \<le> poll_delay s i \<and> poll_delay s i \<le> maxDelayMs s"
  using assms by (cases i) (auto simp: next_delay_def)

text \<open>The default schedule is a backoff between one and fifteen seconds.\<close>

lemma default_settings: "poll_settings_of None = \<lparr>initialDelayMs = 1000, maxDelayMs = 15000, factor = (8, 5)\<rparr>"
  by (simp add: poll_settings_of_def nullish_def)

interpretation default_poll: backoff "poll_delay (poll_settings_of None)" 1000 15000
  by unfold_locales (use poll_delay_bounds [of "poll_settings_of None"] in \<open>simp_all add: default_settings\<close>)

text \<open>The request log before call \<open>i\<close>.\<close>

definition log_at :: "'a io \<Rightarrow> net \<Rightarrow> request list \<Rightarrow> nat \<Rightarrow> request list" where
  "log_at fn net log i = ((\<lambda>l. snd (fn net l)) ^^ i) log"

lemma log_at_simps [simp]:
  "log_at fn net log 0 = log" "log_at fn net log (Suc i) = snd (fn net (log_at fn net log i))"
  by (simp_all add: log_at_def)

text \<open>Answer \<open>i\<close> is a value the predicate rejects.\<close>

definition pending_answer :: "'a io \<Rightarrow> ('a \<Rightarrow> bool) \<Rightarrow> net \<Rightarrow> request list \<Rightarrow> nat \<Rightarrow> 'a \<Rightarrow> bool" where
  "pending_answer fn isDone net log i v \<longleftrightarrow> fst (fn net (log_at fn net log i)) = Inr v \<and> \<not> isDone v"

lemma poll_loop_skip:
  assumes "\<And>j. j < k \<Longrightarrow> pending_answer fn isDone net log (i + j) (vs ! (i + j))"
    and "\<And>j. j < 2 * (i + k) \<Longrightarrow> \<not> aborted j"
  shows "poll_loop (k + fuel) s fn isDone aborted net i (poll_delay s i) (log_at fn net log i) ups slept =
     poll_loop fuel s fn isDone aborted net (i + k) (poll_delay s (i + k)) (log_at fn net log (i + k))
       (ups @ map (\<lambda>j. vs ! (i + j)) [0..<k]) (slept @ map (\<lambda>j. poll_delay s (i + j)) [0..<k])"
  using assms
proof (induction k arbitrary: i ups slept)
  case (Suc k)
  let ?l = "log_at fn net log i"
  have a: "pending_answer fn isDone net log i (vs ! i)" using Suc.prems(1) [of 0] by simp
  then obtain l where l: "fn net ?l = (Inr (vs ! i), l)" "\<not> isDone (vs ! i)"
    by (cases "fn net ?l") (auto simp: pending_answer_def)
  have ab: "\<not> aborted (2 * i)" "\<not> aborted (Suc (2 * i))" using Suc.prems(2) by simp_all
  have "poll_loop (Suc k + fuel) s fn isDone aborted net i (poll_delay s i) ?l ups slept =
    poll_loop (k + fuel) s fn isDone aborted net (Suc i) (poll_delay s (Suc i)) (log_at fn net log (Suc i))
      (ups @ [vs ! i]) (slept @ [poll_delay s i])"
    using l(2) ab by (simp add: l(1))
  also have "\<dots> = poll_loop fuel s fn isDone aborted net (Suc i + k) (poll_delay s (Suc i + k))
      (log_at fn net log (Suc i + k)) ((ups @ [vs ! i]) @ map (\<lambda>j. vs ! (Suc i + j)) [0..<k])
      ((slept @ [poll_delay s i]) @ map (\<lambda>j. poll_delay s (Suc i + j)) [0..<k])"
    by (rule Suc.IH) (use Suc.prems(1) [of "Suc j" for j] Suc.prems(2) in auto)
  finally show ?case by (simp add: map_upt_Suc del: upt_Suc)
qed simp

text \<open>C37. Polling returns the first value the predicate accepts: when the calls before it answer with
  values it rejects and nobody aborts, \<open>pollUntil\<close> returns that value after exactly so many calls,
  having reported every value in order and slept exactly the delays of the schedule, and fuel one
  above the number of rejected answers is enough.\<close>

theorem pollUntil_first_done:
  assumes "\<And>j. j < length vs \<Longrightarrow> pending_answer fn isDone net log j (vs ! j)"
    and "fst (fn net (log_at fn net log (length vs))) = Inr v" and "isDone v"
    and "\<And>j. j \<le> 2 * length vs \<Longrightarrow> \<not> aborted j" and "length vs < fuel"
  shows "pollUntil fuel fn isDone opts aborted net log =
    Some \<lparr>poll_outcome = Inr v, poll_log = log_at fn net log (Suc (length vs)), poll_updates = vs @ [v],
          poll_slept = map (poll_delay (poll_settings_of opts)) [0..<length vs]\<rparr>"
proof -
  let ?s = "poll_settings_of opts" and ?n = "length vs"
  obtain f where f: "fuel = ?n + Suc f" using assms(5) by (metis add_Suc_right less_iff_Suc_add)
  have "pollUntil fuel fn isDone opts aborted net log =
      poll_loop (?n + Suc f) ?s fn isDone aborted net 0 (poll_delay ?s 0) (log_at fn net log 0) [] []"
    by (simp add: pollUntil_def f Let_def del: poll_loop.simps)
  also have "\<dots> = poll_loop (Suc f) ?s fn isDone aborted net (0 + ?n) (poll_delay ?s (0 + ?n))
      (log_at fn net log (0 + ?n)) ([] @ map (\<lambda>j. vs ! (0 + j)) [0..<?n])
      ([] @ map (\<lambda>j. poll_delay ?s (0 + j)) [0..<?n])"
    by (rule poll_loop_skip) (use assms(1, 4) in auto)
  finally show ?thesis
    using assms(2, 3, 4) by (cases "fn net (log_at fn net log ?n)") (simp add: map_nth)
qed

lemma poll_loop_abort:
  assumes "aborted m" and "\<And>j. m \<le> j \<Longrightarrow> aborted j" and "m \<le> 2 * i + 2 * fuel"
  shows "poll_loop (Suc fuel) s fn isDone aborted net i d log ups slept \<noteq> None"
  using assms(3)
proof (induction fuel arbitrary: i d log ups slept)
  case 0
  then have "aborted (2 * i)" using assms(2) by simp
  then show ?case by simp
next
  case (Suc fuel)
  obtain r l where fl: "fn net log = (r, l)" by (cases "fn net log")
  have "poll_loop (Suc fuel) s fn isDone aborted net (Suc i) d' l' ups' slept' \<noteq> None" for d' l' ups' slept'
    by (rule Suc.IH) (use Suc.prems in simp)
  then show ?case by (cases r) (simp_all add: fl del: poll_loop.simps(2) add: poll_loop.simps(2) [of "Suc fuel"])
qed

text \<open>Aborting ends the polling: once the signal is set at some point, the loop returns within the
  corresponding number of calls, whatever the server answers.\<close>

theorem pollUntil_abort_returns:
  assumes "\<And>j. m \<le> j \<Longrightarrow> aborted j"
  shows "\<exists>res. pollUntil (Suc m) fn isDone opts aborted net log = Some res"
  using poll_loop_abort [of aborted m 0 m "poll_settings_of opts" fn isDone net] assms
  by (auto simp: pollUntil_def Let_def simp del: poll_loop.simps)

definition never_ready :: "json io" where
  "never_ready = fetchJson \<lparr>req_method = ''GET'', req_url = ''/x'', req_headers = [], req_body = None\<rparr>"

definition counting_net :: net where
  "counting_net log r = Fetched \<lparr>res_status = 200, res_url = ''/x'', res_content_type = Some ''application/json'',
     res_body = (if length log < 2 then ''null'' else ''true'')\<rparr>"

theorem pollUntil_abort_returns_witness:
  "\<exists>res. pollUntil 4 never_ready (\<lambda>_. False) None (\<lambda>j. 3 \<le> j) counting_net [] = Some res"
  using pollUntil_abort_returns [of 3 "\<lambda>j. 3 \<le> j" never_ready "\<lambda>_. False" None counting_net "[]"] by simp

lemma counting_answer:
  "fst (never_ready counting_net l) = Inr (if length l < 2 then JNull else JBool True)"
proof -
  have "json_parse ''null'' = Some JNull" "json_parse ''true'' = Some (JBool True)"
    using json_parse_stringify [of JNull] json_parse_stringify [of "JBool True"] by simp_all
  moreover have "js_includes ''application/json'' ''application/json''" by (simp add: startsWith_def)
  ultimately show ?thesis
    by (simp add: never_ready_def fetchJson_result counting_net_def read_response_def res_ok_def response_is_json_def
        response_json_def opt_or_def str_or_def)
qed

lemma counting_log: "length (log_at never_ready counting_net [] i) = i"
  by (induction i) (simp_all add: never_ready_def fetchJson_log)

lemma counting_log2: "length (snd (never_ready counting_net l)) = Suc (length l)"
  by (simp add: never_ready_def)

theorem pollUntil_first_done_witness:
  "\<exists>log. pollUntil 3 never_ready (\<lambda>v. v \<noteq> JNull) None (\<lambda>_. False) counting_net [] =
    Some \<lparr>poll_outcome = Inr (JBool True), poll_log = log, poll_updates = [JNull, JNull, JBool True],
          poll_slept = [1000, 1600]\<rparr>"
proof -
  have "pending_answer never_ready (\<lambda>v. v \<noteq> JNull) counting_net [] j ([JNull, JNull] ! j)"
    if "j < length [JNull, JNull]" for j
    using that by (simp add: pending_answer_def counting_answer counting_log less_2_cases_iff nth_Cons')
  then have "pollUntil 3 never_ready (\<lambda>v. v \<noteq> JNull) None (\<lambda>_. False) counting_net [] =
    Some \<lparr>poll_outcome = Inr (JBool True), poll_log = log_at never_ready counting_net [] (Suc (length [JNull, JNull])),
      poll_updates = [JNull, JNull] @ [JBool True],
      poll_slept = map (poll_delay (poll_settings_of None)) [0..<length [JNull, JNull]]\<rparr>"
    by (rule pollUntil_first_done) (simp_all add: counting_answer counting_log2)
  then show ?thesis by (simp add: default_settings next_delay_def)
qed

text \<open>The waiting time is bounded: with a first delay between zero and the maximum every delay lies
  between the two, and with the default settings \<open>n\<close> waits take between \<open>n\<close> and \<open>15 n\<close> seconds.\<close>

theorem poll_waiting_bounded:
  "(0 \<le> initialDelayMs s \<and> initialDelayMs s \<le> maxDelayMs s \<longrightarrow>
      initialDelayMs s \<le> poll_delay s i \<and> poll_delay s i \<le> maxDelayMs s) \<and>
   int n * 1000 \<le> (\<Sum>i < n. poll_delay (poll_settings_of None) i) \<and>
   (\<Sum>i < n. poll_delay (poll_settings_of None) i) \<le> int n * 15000"
  using poll_delay_bounds [of s i] default_poll.total_lower [of n] default_poll.total_upper [of n] by blast

theorem poll_waiting_bounded_witness:
  "poll_delay \<lparr>initialDelayMs = 5, maxDelayMs = 9, factor = (2, 1)\<rparr> 3 \<le> 9"
  using poll_waiting_bounded [of "\<lparr>initialDelayMs = 5, maxDelayMs = 9, factor = (2, 1)\<rparr>" 3] by simp

end
