(* ===== verification/Instance_Config.thy ===== *)
theory Instance_Config
  imports Js_Base
begin

text \<open>
  The instance configuration form, \<^verbatim>\<open>web/src/lib/instanceConfig.ts\<close>: reading an instance into the form,
  validating the form and building the update request, and the release tag check of
  \<^verbatim>\<open>web/src/lib/utils/versionTags.ts\<close>.

  A JavaScript number here is an integer or \<open>NaN\<close> (\<open>None\<close>).  \<open>Number.parseInt\<close> rounds to a double:
  53 significant bits, ties to even, infinity from \<open>2 ^ 1024\<close> on.
\<close>

section \<open>Reading integers\<close>

text \<open>\<open>/^-?[0-9]+$/\<close>\<close>

definition int_text :: "js_string \<Rightarrow> bool" where
  "int_text s =
     (let ds = (if startsWith s ''-'' then tl s else s) in ds \<noteq> [] \<and> list_all is_digit ds)"

definition parseInt10 :: "js_string \<Rightarrow> int option" where
  "parseInt10 s =
     (if startsWith s ''-''
      then map_option (\<lambda>n. - int n) (Option.bind (digits_value 10 0 (tl s)) to_double)
      else map_option int (Option.bind (digits_value 10 0 s) to_double))"

definition parseIntStrict :: "js_string \<Rightarrow> int option" where
  "parseIntStrict raw =
     (let trimmed = js_trim raw in
      if \<not> int_text trimmed then None else parseInt10 trimmed)"

definition parsePositiveIntStrict :: "js_string \<Rightarrow> int option" where
  "parsePositiveIntStrict raw =
     (case parseIntStrict raw of None \<Rightarrow> None | Some parsed \<Rightarrow> if parsed \<le> 0 then None else Some parsed)"

section \<open>The form\<close>

record InstanceConfig =
  in_hosted_previews_enabled :: bool
  in_link_safety_enabled :: bool
  in_renders_enabled :: bool
  in_translation_enabled :: bool
  in_render_policy :: "js_string option"
  in_overage_policy :: "js_string option"
  in_moderation_enabled :: bool
  in_moderation_trigger :: "js_string option"
  in_moderation_virality_min :: "int option"
  in_ai_enabled :: bool
  in_ai_model_set :: "js_string option"
  in_ai_batching_mode :: "js_string option"
  in_ai_batch_max_items :: "int option"
  in_ai_batch_max_total_bytes :: "int option"
  in_ai_pricing_multiplier_bps :: "int option"
  in_ai_max_inflight_jobs :: "int option"

record InstanceConfigForm =
  hosted_previews_enabled :: bool
  link_safety_enabled :: bool
  renders_enabled :: bool
  translation_enabled :: bool
  render_policy :: js_string
  overage_policy :: js_string
  moderation_enabled :: bool
  moderation_trigger :: js_string
  moderation_virality_min :: js_string
  ai_enabled :: bool
  ai_model_set :: js_string
  ai_batching_mode :: js_string
  ai_batch_max_items :: js_string
  ai_batch_max_total_bytes :: js_string
  ai_pricing_multiplier_bps :: js_string
  ai_max_inflight_jobs :: js_string

definition configFormFromInstance :: "InstanceConfig \<Rightarrow> InstanceConfigForm" where
  "configFormFromInstance i =
     \<lparr>hosted_previews_enabled = in_hosted_previews_enabled i,
      link_safety_enabled = in_link_safety_enabled i,
      renders_enabled = in_renders_enabled i,
      translation_enabled = in_translation_enabled i,
      render_policy = opt_or (in_render_policy i) ''suspicious'',
      overage_policy = opt_or (in_overage_policy i) ''block'',
      moderation_enabled = in_moderation_enabled i,
      moderation_trigger = opt_or (in_moderation_trigger i) ''on_reports'',
      moderation_virality_min = string_of_int (nullish (in_moderation_virality_min i) 0),
      ai_enabled = in_ai_enabled i,
      ai_model_set = nullish (in_ai_model_set i) '''',
      ai_batching_mode = opt_or (in_ai_batching_mode i) ''none'',
      ai_batch_max_items = string_of_int (nullish (in_ai_batch_max_items i) 1),
      ai_batch_max_total_bytes = string_of_int (nullish (in_ai_batch_max_total_bytes i) 1),
      ai_pricing_multiplier_bps = string_of_int (nullish (in_ai_pricing_multiplier_bps i) 10000),
      ai_max_inflight_jobs = string_of_int (nullish (in_ai_max_inflight_jobs i) 1)\<rparr>"

text \<open>The error record, in the order the checks add to it.\<close>

definition err_if :: "bool \<Rightarrow> js_string \<Rightarrow> js_string \<Rightarrow> (js_string \<times> js_string) list" where
  "err_if b k msg = (if b then [(k, msg)] else [])"

definition validateInstanceConfigForm :: "InstanceConfigForm \<Rightarrow> (js_string \<times> js_string) list" where
  "validateInstanceConfigForm form =
     err_if (render_policy form \<noteq> ''always'' \<and> render_policy form \<noteq> ''suspicious'')
       ''render_policy'' ''Render policy must be always or suspicious.'' @
     err_if (overage_policy form \<noteq> ''block'' \<and> overage_policy form \<noteq> ''allow'')
       ''overage_policy'' ''Overage policy must be block or allow.'' @
     err_if (moderation_trigger form \<notin> set [''on_reports'', ''always'', ''links_media_only'', ''virality''])
       ''moderation_trigger'' ''Moderation trigger must be on_reports, always, links_media_only, or virality.'' @
     err_if (case parseIntStrict (moderation_virality_min form) of None \<Rightarrow> True | Some n \<Rightarrow> n < 0)
       ''moderation_virality_min'' ''Virality minimum must be an integer >= 0.'' @
     err_if (js_trim (ai_model_set form) = [])
       ''ai_model_set'' ''AI model set cannot be empty.'' @
     err_if (ai_batching_mode form \<notin> set [''none'', ''in_request'', ''worker'', ''hybrid''])
       ''ai_batching_mode'' ''Batching mode must be none, in_request, worker, or hybrid.'' @
     err_if (parsePositiveIntStrict (ai_batch_max_items form) = None)
       ''ai_batch_max_items'' ''Batch max items must be an integer > 0.'' @
     err_if (parsePositiveIntStrict (ai_batch_max_total_bytes form) = None)
       ''ai_batch_max_total_bytes'' ''Batch max total bytes must be an integer > 0.'' @
     err_if (case parsePositiveIntStrict (ai_pricing_multiplier_bps form) of None \<Rightarrow> True | Some n \<Rightarrow> n > 1000000)
       ''ai_pricing_multiplier_bps'' ''Pricing multiplier (bps) must be an integer > 0 and <= 1000000.'' @
     err_if (case parsePositiveIntStrict (ai_max_inflight_jobs form) of None \<Rightarrow> True | Some n \<Rightarrow> n > 10000)
       ''ai_max_inflight_jobs'' ''Max inflight jobs must be an integer > 0 and <= 10000.''"

record UpdateInstanceConfigRequest =
  up_hosted_previews_enabled :: bool
  up_link_safety_enabled :: bool
  up_renders_enabled :: bool
  up_translation_enabled :: bool
  up_render_policy :: js_string
  up_overage_policy :: js_string
  up_moderation_enabled :: bool
  up_moderation_trigger :: js_string
  up_moderation_virality_min :: "int option"
  up_ai_enabled :: bool
  up_ai_model_set :: js_string
  up_ai_batching_mode :: js_string
  up_ai_batch_max_items :: "int option"
  up_ai_batch_max_total_bytes :: "int option"
  up_ai_pricing_multiplier_bps :: "int option"
  up_ai_max_inflight_jobs :: "int option"

definition buildUpdateInstanceConfigRequest :: "InstanceConfigForm \<Rightarrow> UpdateInstanceConfigRequest" where
  "buildUpdateInstanceConfigRequest form =
     \<lparr>up_hosted_previews_enabled = hosted_previews_enabled form,
      up_link_safety_enabled = link_safety_enabled form,
      up_renders_enabled = renders_enabled form,
      up_translation_enabled = translation_enabled form,
      up_render_policy = render_policy form,
      up_overage_policy = overage_policy form,
      up_moderation_enabled = moderation_enabled form,
      up_moderation_trigger = moderation_trigger form,
      up_moderation_virality_min = parseIntStrict (moderation_virality_min form),
      up_ai_enabled = ai_enabled form,
      up_ai_model_set = js_trim (ai_model_set form),
      up_ai_batching_mode = ai_batching_mode form,
      up_ai_batch_max_items = parseIntStrict (ai_batch_max_items form),
      up_ai_batch_max_total_bytes = parseIntStrict (ai_batch_max_total_bytes form),
      up_ai_pricing_multiplier_bps = parseIntStrict (ai_pricing_multiplier_bps form),
      up_ai_max_inflight_jobs = parseIntStrict (ai_max_inflight_jobs form)\<rparr>"

section \<open>Numbers\<close>

lemma string_of_nat_no_minus: "\<not> startsWith (string_of_nat n) ''-''"
proof (cases "string_of_nat n")
  case (Cons c s)
  then have "is_digit c" using string_of_nat_digits [of n] by simp
  with Cons show ?thesis by (auto simp: startsWith_def is_digit_def)
qed simp

lemma parseIntStrict_string_of_nat: "n \<le> 2 ^ 53 \<Longrightarrow> parseIntStrict (string_of_nat n) = Some (int n)"
proof -
  assume n: "n \<le> 2 ^ 53"
  have d: "\<forall>c \<in> set (string_of_nat n). is_digit c" by (rule string_of_nat_digits)
  then have "js_trim (string_of_nat n) = string_of_nat n"
    by (intro trim_no_space) (auto simp: is_digit_def is_space_def)
  then show ?thesis using d n
    by (simp add: parseIntStrict_def int_text_def parseInt10_def string_of_nat_no_minus list_all_iff to_double_def)
qed

lemma parseIntStrict_string_of_int:
  "0 \<le> n \<Longrightarrow> n \<le> 2 ^ 53 \<Longrightarrow> parseIntStrict (string_of_int n) = Some n"
proof -
  assume n: "0 \<le> n" "n \<le> 2 ^ 53"
  then have "nat n \<le> 2 ^ 53" by (simp add: nat_le_iff)
  moreover have "nat n < 10 ^ 21" using calculation by simp
  ultimately show ?thesis using parseIntStrict_string_of_nat [of "nat n"] n(1) by (simp add: string_of_int_def number_text_of_def)
qed

lemma parsePositive_some:
  "parsePositiveIntStrict raw = Some n \<longleftrightarrow> parseIntStrict raw = Some n \<and> 0 < n"
  by (auto simp: parsePositiveIntStrict_def split: option.splits)

section \<open>Validated forms\<close>

lemma err_if_Nil [simp]: "err_if b k m = [] \<longleftrightarrow> \<not> b"
  by (simp add: err_if_def)

text \<open>What the server may rely on in a request.\<close>

definition request_ok :: "UpdateInstanceConfigRequest \<Rightarrow> bool" where
  "request_ok r \<longleftrightarrow>
     up_render_policy r \<in> {''always'', ''suspicious''} \<and> up_overage_policy r \<in> {''block'', ''allow''} \<and>
     up_moderation_trigger r \<in> {''on_reports'', ''always'', ''links_media_only'', ''virality''} \<and>
     up_ai_batching_mode r \<in> {''none'', ''in_request'', ''worker'', ''hybrid''} \<and>
     up_ai_model_set r \<noteq> [] \<and> js_trim (up_ai_model_set r) = up_ai_model_set r \<and>
     (\<exists>v. up_moderation_virality_min r = Some v \<and> 0 \<le> v) \<and>
     (\<exists>n. up_ai_batch_max_items r = Some n \<and> 0 < n) \<and>
     (\<exists>n. up_ai_batch_max_total_bytes r = Some n \<and> 0 < n) \<and>
     (\<exists>n. up_ai_pricing_multiplier_bps r = Some n \<and> 0 < n \<and> n \<le> 1000000) \<and>
     (\<exists>n. up_ai_max_inflight_jobs r = Some n \<and> 0 < n \<and> n \<le> 10000)"

lemma form_validates:
  "validateInstanceConfigForm form = [] \<longleftrightarrow> request_ok (buildUpdateInstanceConfigRequest form)"
proof -
  have pos: "(parsePositiveIntStrict raw \<noteq> None) \<longleftrightarrow> (\<exists>n. parseIntStrict raw = Some n \<and> 0 < n)" for raw
    using parsePositive_some by (cases "parsePositiveIntStrict raw") (auto simp: parsePositiveIntStrict_def split: option.splits)
  have range: "\<not> (case parsePositiveIntStrict raw of None \<Rightarrow> True | Some n \<Rightarrow> n > b) \<longleftrightarrow>
      (\<exists>n. parseIntStrict raw = Some n \<and> 0 < n \<and> n \<le> b)" for raw b
    by (auto simp: parsePositiveIntStrict_def split: option.splits)
  have vir: "\<not> (case parseIntStrict raw of None \<Rightarrow> True | Some n \<Rightarrow> n < 0) \<longleftrightarrow>
      (\<exists>n. parseIntStrict raw = Some n \<and> 0 \<le> n)" for raw
    by (auto split: option.splits)
  show ?thesis
    unfolding validateInstanceConfigForm_def append_is_Nil_conv err_if_Nil range vir pos
    by (simp add: request_ok_def buildUpdateInstanceConfigRequest_def trim_idem conj_ac disj_ac)
qed

text \<open>Opening the form on a valid instance and saving it unchanged sends the instance's own settings
  back: the form validates, and every value of the request is the instance's.\<close>

lemma config_form_round_trip:
  assumes "in_render_policy i \<in> {Some ''always'', Some ''suspicious''}"
    and "in_overage_policy i \<in> {Some ''block'', Some ''allow''}"
    and "in_moderation_trigger i = Some t" and "t \<in> {''on_reports'', ''always'', ''links_media_only'', ''virality''}"
    and "in_ai_batching_mode i = Some m" and "m \<in> {''none'', ''in_request'', ''worker'', ''hybrid''}"
    and "in_ai_model_set i = Some s" and "js_trim s = s" and "s \<noteq> []"
    and "in_moderation_virality_min i = Some v" and "0 \<le> v" and "v \<le> 2 ^ 53"
    and "in_ai_batch_max_items i = Some n1" and "0 < n1" and "n1 \<le> 2 ^ 53"
    and "in_ai_batch_max_total_bytes i = Some n2" and "0 < n2" and "n2 \<le> 2 ^ 53"
    and "in_ai_pricing_multiplier_bps i = Some n3" and "0 < n3" and "n3 \<le> 1000000"
    and "in_ai_max_inflight_jobs i = Some n4" and "0 < n4" and "n4 \<le> 10000"
  shows "validateInstanceConfigForm (configFormFromInstance i) = [] \<and>
    buildUpdateInstanceConfigRequest (configFormFromInstance i) =
     \<lparr>up_hosted_previews_enabled = in_hosted_previews_enabled i,
      up_link_safety_enabled = in_link_safety_enabled i, up_renders_enabled = in_renders_enabled i,
      up_translation_enabled = in_translation_enabled i, up_render_policy = the (in_render_policy i),
      up_overage_policy = the (in_overage_policy i), up_moderation_enabled = in_moderation_enabled i,
      up_moderation_trigger = t, up_moderation_virality_min = Some v, up_ai_enabled = in_ai_enabled i,
      up_ai_model_set = s, up_ai_batching_mode = m, up_ai_batch_max_items = Some n1,
      up_ai_batch_max_total_bytes = Some n2, up_ai_pricing_multiplier_bps = Some n3,
      up_ai_max_inflight_jobs = Some n4\<rparr>"
proof -
  have p: "parseIntStrict (string_of_int v) = Some v" "parseIntStrict (string_of_int n1) = Some n1"
    "parseIntStrict (string_of_int n2) = Some n2" "parseIntStrict (string_of_int n3) = Some n3"
    "parseIntStrict (string_of_int n4) = Some n4"
    using assms by (simp_all add: parseIntStrict_string_of_int)
  have t: "t \<noteq> []" and m: "m \<noteq> []" using assms(4, 6) by auto
  have r: "opt_or (in_render_policy i) ''suspicious'' = the (in_render_policy i)"
    and ov: "opt_or (in_overage_policy i) ''block'' = the (in_overage_policy i)"
    using assms(1, 2) by (auto simp: opt_or_def str_or_def)
  have b: "buildUpdateInstanceConfigRequest (configFormFromInstance i) =
     \<lparr>up_hosted_previews_enabled = in_hosted_previews_enabled i,
      up_link_safety_enabled = in_link_safety_enabled i, up_renders_enabled = in_renders_enabled i,
      up_translation_enabled = in_translation_enabled i, up_render_policy = the (in_render_policy i),
      up_overage_policy = the (in_overage_policy i), up_moderation_enabled = in_moderation_enabled i,
      up_moderation_trigger = t, up_moderation_virality_min = Some v, up_ai_enabled = in_ai_enabled i,
      up_ai_model_set = s, up_ai_batching_mode = m, up_ai_batch_max_items = Some n1,
      up_ai_batch_max_total_bytes = Some n2, up_ai_pricing_multiplier_bps = Some n3,
      up_ai_max_inflight_jobs = Some n4\<rparr>"
    unfolding buildUpdateInstanceConfigRequest_def configFormFromInstance_def
    using p t m assms(3, 5, 7, 8, 10, 13, 16, 19, 22)
    by (simp add: r ov) (simp add: opt_or_def str_or_def nullish_def)
  have "request_ok (buildUpdateInstanceConfigRequest (configFormFromInstance i))"
    unfolding b request_ok_def using assms by force
  then have "validateInstanceConfigForm (configFormFromInstance i) = []"
    unfolding form_validates .
  with b show ?thesis by blast
qed

definition sample_instance :: InstanceConfig where
  "sample_instance =
     \<lparr>in_hosted_previews_enabled = True, in_link_safety_enabled = False, in_renders_enabled = True,
      in_translation_enabled = False, in_render_policy = Some ''always'', in_overage_policy = Some ''block'',
      in_moderation_enabled = True, in_moderation_trigger = Some ''virality'', in_moderation_virality_min = Some 5,
      in_ai_enabled = True, in_ai_model_set = Some ''default'', in_ai_batching_mode = Some ''hybrid'',
      in_ai_batch_max_items = Some 8, in_ai_batch_max_total_bytes = Some 4096,
      in_ai_pricing_multiplier_bps = Some 12500, in_ai_max_inflight_jobs = Some 20\<rparr>"

lemma sample_form_valid: "validateInstanceConfigForm (configFormFromInstance sample_instance) = []"
  unfolding form_validates
  by (simp add: request_ok_def buildUpdateInstanceConfigRequest_def configFormFromInstance_def sample_instance_def
      opt_or_def str_or_def nullish_def parseIntStrict_string_of_int js_trim_def is_space_def)

text \<open>C38. The form validates exactly the requests the server may rely on: there is no error if and only
  if the request built from the form has known policies and modes, a non-empty trimmed model set,
  and numbers that are numbers and in range; in particular no \<open>NaN\<close> is ever sent from a form that
  validates.\<close>

theorem validate_iff_request_ok:
  "(validateInstanceConfigForm form = [] \<longleftrightarrow> request_ok (buildUpdateInstanceConfigRequest form)) \<and>
   (validateInstanceConfigForm form = [] \<longrightarrow>
      None \<notin> {up_moderation_virality_min (buildUpdateInstanceConfigRequest form),
        up_ai_batch_max_items (buildUpdateInstanceConfigRequest form),
        up_ai_batch_max_total_bytes (buildUpdateInstanceConfigRequest form),
        up_ai_pricing_multiplier_bps (buildUpdateInstanceConfigRequest form),
        up_ai_max_inflight_jobs (buildUpdateInstanceConfigRequest form)})"
  unfolding form_validates by (auto simp: request_ok_def)

theorem validate_iff_request_ok_witness:
  "request_ok (buildUpdateInstanceConfigRequest (configFormFromInstance sample_instance)) \<and>
   up_ai_max_inflight_jobs (buildUpdateInstanceConfigRequest (configFormFromInstance sample_instance)) \<noteq> None"
  using validate_iff_request_ok [of "configFormFromInstance sample_instance"] sample_form_valid by (metis insertCI)

section \<open>Release tags\<close>

text \<open>\<open>/^v[0-9]+\.[0-9]+\.[0-9]+$/\<close>\<close>

definition managedReleaseTag :: "js_string \<Rightarrow> bool" where
  "managedReleaseTag s =
     (case s of
        [] \<Rightarrow> False
      | c # r \<Rightarrow> c = CHR ''v'' \<and>
          (let parts = split_on (CHR ''.'') r in
           length parts = 3 \<and> list_all (\<lambda>p. p \<noteq> [] \<and> list_all is_digit p) parts))"

record tag_options =
  tag_allowBlank :: "bool option"
  tag_label :: "js_string option"

definition validateManagedReleaseTag :: "js_string \<Rightarrow> tag_options option \<Rightarrow> js_string option" where
  "validateManagedReleaseTag val options =
     (let trimmed = js_trim val;
          opts = nullish options \<lparr>tag_allowBlank = None, tag_label = None\<rparr>;
          allowBlank = nullish (tag_allowBlank opts) False;
          label = nullish (tag_label opts) ''Release version'' in
      if trimmed = [] then (if allowBlank then None else Some (label @ '' is required.''))
      else if toLowerCase trimmed = ''latest'' then None
      else if managedReleaseTag trimmed then None
      else Some (label @ '' must be '' @ [CHR 0x22] @ ''latest'' @ [CHR 0x22] @ '' or a final tag like v1.2.3.''))"

definition version_text :: "nat \<Rightarrow> nat \<Rightarrow> nat \<Rightarrow> js_string" where
  "version_text a b c =
     CHR ''v'' # join ''.'' [string_of_nat a, string_of_nat b, string_of_nat c]"

lemma digits_no_dot: "CHR ''.'' \<notin> set (string_of_nat n)"
  using string_of_nat_digits [of n] by (auto simp: is_digit_def)

lemma version_text_tag: "managedReleaseTag (version_text a b c)"
proof -
  let ?ps = "[string_of_nat a, string_of_nat b, string_of_nat c]"
  have "split_on (CHR ''.'') (join ''.'' ?ps) = ?ps"
    by (rule split_on_join) (simp_all add: digits_no_dot)
  then show ?thesis
    using string_of_nat_digits by (simp add: managedReleaseTag_def version_text_def list_all_iff del: join.simps)
qed

text \<open>A release version is accepted exactly when, after trimming, it is \<open>latest\<close> in any case, a final
  tag of three numbers, or blank where blanks are allowed; every tag printed from three numbers is
  accepted, and a pre-release suffix never is.\<close>

theorem release_tag_accepted:
  "(validateManagedReleaseTag val options = None \<longleftrightarrow>
      toLowerCase (js_trim val) = ''latest'' \<or> managedReleaseTag (js_trim val) \<or>
      (js_trim val = [] \<and> nullish (tag_allowBlank (nullish options \<lparr>tag_allowBlank = None, tag_label = None\<rparr>)) False)) \<and>
   validateManagedReleaseTag (version_text a b c) options = None \<and>
   \<not> managedReleaseTag (version_text a b c @ ''-'' @ rest)"
proof (intro conjI)
  have e: "\<not> managedReleaseTag []" by (simp add: managedReleaseTag_def)
  show "validateManagedReleaseTag val options = None \<longleftrightarrow>
      toLowerCase (js_trim val) = ''latest'' \<or> managedReleaseTag (js_trim val) \<or>
      (js_trim val = [] \<and> nullish (tag_allowBlank (nullish options \<lparr>tag_allowBlank = None, tag_label = None\<rparr>)) False)"
    using e by (auto simp: validateManagedReleaseTag_def Let_def toLowerCase_def)
  have "c \<in> set (version_text x y z) \<Longrightarrow> \<not> is_space c" for c x y z
    using string_of_nat_digits [of x] string_of_nat_digits [of y] string_of_nat_digits [of z]
    by (auto simp: version_text_def is_digit_def is_space_def)
  then have "js_trim (version_text a b c) = version_text a b c" by (intro trim_no_space)
  then show "validateManagedReleaseTag (version_text a b c) options = None"
    using version_text_tag by (simp add: validateManagedReleaseTag_def Let_def version_text_def)
  show "\<not> managedReleaseTag (version_text a b c @ ''-'' @ rest)"
  proof
    let ?r = "join ''.'' [string_of_nat a, string_of_nat b, string_of_nat c] @ ''-'' @ rest"
    assume "managedReleaseTag (version_text a b c @ ''-'' @ rest)"
    then have "\<forall>p \<in> set (split_on (CHR ''.'') ?r). \<forall>c \<in> set p. is_digit c"
      by (simp add: managedReleaseTag_def version_text_def Let_def list_all_iff del: join.simps)
    then have "\<forall>c \<in> set (join ''.'' (split_on (CHR ''.'') ?r)). is_digit c \<or> c = CHR ''.''"
      using set_join_subset [of "''.''" "split_on (CHR ''.'') ?r"] by auto
    then have "\<forall>c \<in> set ?r. is_digit c \<or> c = CHR ''.''" by (simp only: join_split_on)
    then show False by (simp add: is_digit_def)
  qed
qed

end
