(* ===== verification/Jobs.thy ===== *)
theory Jobs
  imports Js_Base "HOL-Library.Multiset"
begin

text \<open>
  What the fleet and provisioning pages derive from the server's rows: the fleet status badge
  (\<^verbatim>\<open>web/src/lib/fleetStatus.ts\<close>), the kind of a job (\<^verbatim>\<open>components/jobKind.ts\<close>) and the merged, sorted
  job feed (\<^verbatim>\<open>components/operatorJobRow.ts\<close>).  \<open>Array.prototype.sort\<close> is a stable sort by a
  comparator; its interface is the locale \<open>comparator\<close>.
\<close>

section \<open>Sorting by a comparator\<close>

fun insert_by :: "('a \<Rightarrow> 'a \<Rightarrow> int) \<Rightarrow> 'a \<Rightarrow> 'a list \<Rightarrow> 'a list" where
  "insert_by cmp x [] = [x]"
| "insert_by cmp x (y # ys) = (if cmp x y \<le> 0 then x # y # ys else y # insert_by cmp x ys)"

definition js_sort :: "('a \<Rightarrow> 'a \<Rightarrow> int) \<Rightarrow> 'a list \<Rightarrow> 'a list" where
  "js_sort cmp xs = foldr (insert_by cmp) xs []"

locale comparator =
  fixes cmp :: "'a \<Rightarrow> 'a \<Rightarrow> int"
  assumes opposite: "cmp a b \<le> 0 \<longleftrightarrow> 0 \<le> cmp b a"
    and transitive: "cmp a b \<le> 0 \<Longrightarrow> cmp b c \<le> 0 \<Longrightarrow> cmp a c \<le> 0"
begin

lemma insert_mset: "mset (insert_by cmp x ys) = add_mset x (mset ys)"
  by (induction ys) auto

lemma sort_mset: "mset (js_sort cmp xs) = mset xs"
  by (induction xs) (simp_all add: js_sort_def insert_mset)

lemma insert_sorted:
  assumes "sorted_wrt (\<lambda>a b. cmp a b \<le> 0) ys"
  shows "sorted_wrt (\<lambda>a b. cmp a b \<le> 0) (insert_by cmp x ys)"
  using assms
proof (induction ys)
  case (Cons y ys)
  have le: "cmp y x \<le> 0" if "\<not> cmp x y \<le> 0" using that opposite [of y x] by linarith
  have "set (insert_by cmp x ys) = insert x (set ys)" using insert_mset [of x ys] by (metis set_mset_add_mset_insert set_mset_mset)
  with Cons le show ?case by (auto intro: transitive)
qed simp

lemma sort_sorted: "sorted_wrt (\<lambda>a b. cmp a b \<le> 0) (js_sort cmp xs)"
  by (induction xs) (simp_all add: js_sort_def insert_sorted)

text \<open>Elements that compare as equal keep their order.\<close>

lemma insert_stable:
  assumes "\<And>a b. P a \<Longrightarrow> P b \<Longrightarrow> cmp a b \<le> 0"
  shows "filter P (insert_by cmp x ys) = (if P x then x # filter P ys else filter P ys)"
  using assms by (induction ys) auto

lemma sort_stable:
  assumes "\<And>a b. P a \<Longrightarrow> P b \<Longrightarrow> cmp a b \<le> 0"
  shows "filter P (js_sort cmp xs) = filter P xs"
  by (induction xs) (simp_all add: js_sort_def insert_stable [OF assms])

end

section \<open>Fleet status (fleetStatus.ts)\<close>

datatype FleetCardStatus = FleetProvisioning | FleetDegraded | FleetHealthy | FleetOffline | FleetWarning | FleetUnknown

record FleetStatusInput =
  fs_status :: "js_string option"
  fs_provision_status :: "js_string option"

definition mapInstanceFleetStatus :: "FleetStatusInput \<Rightarrow> FleetCardStatus" where
  "mapInstanceFleetStatus inst =
     (let provision = toLowerCase (nullish (fs_provision_status inst) '''') in
      if provision = ''queued'' \<or> provision = ''running'' then FleetProvisioning
      else if provision = ''error'' \<or> provision = ''failed'' then FleetDegraded
      else
        (let status = toLowerCase (nullish (fs_status inst) '''') in
         if status = ''active'' \<or> status = ''running'' \<or> status = ''healthy'' then FleetHealthy
         else if status = ''disabled'' \<or> status = ''suspended'' \<or> status = ''paused'' \<or> status = ''stopped''
           then FleetOffline
         else if status = ''failed'' \<or> status = ''error'' \<or> status = ''degraded'' then FleetDegraded
         else if status = ''warning'' then FleetWarning
         else FleetUnknown))"

section \<open>Job kinds (jobKind.ts)\<close>

datatype JobKind = KindProvision | KindWireMcp | KindUpdateBody | KindUpdateLesser | KindUnknown

record KindDiscriminator =
  kd_kind :: "js_string option"
  kd_mcp_only :: "bool option"
  kd_body_only :: "bool option"

definition deriveUpdateJobKind :: "KindDiscriminator \<Rightarrow> JobKind" where
  "deriveUpdateJobKind input =
     (let k = toLowerCase (opt_or (kd_kind input) '''') in
      if k = ''mcp'' \<or> k = ''wire-mcp'' \<or> k = ''mcp-wire'' \<or> nullish (kd_mcp_only input) False then KindWireMcp
      else if k = ''body'' \<or> k = ''update-body'' \<or> nullish (kd_body_only input) False then KindUpdateBody
      else if k = ''lesser'' \<or> k = ''update-lesser'' \<or> k = '''' then KindUpdateLesser
      else KindUnknown)"

definition deriveProvisionJobKind :: JobKind where
  "deriveProvisionJobKind = KindProvision"

section \<open>Job rows (operatorJobRow.ts)\<close>

record OperatorProvisionJobListItem =
  pv_id :: js_string
  pv_instance_slug :: js_string
  pv_status :: js_string
  pv_step :: "js_string option"
  pv_run_id :: "js_string option"
  pv_attempts :: int
  pv_max_attempts :: "int option"
  pv_error_code :: "js_string option"
  pv_error_message :: "js_string option"
  pv_request_id :: "js_string option"
  pv_created_at :: js_string
  pv_updated_at :: js_string

record OperatorUpdateJobListItem =
  ud_id :: js_string
  ud_instance_slug :: js_string
  ud_kind :: "js_string option"
  ud_status :: js_string
  ud_active_phase :: "js_string option"
  ud_failed_phase :: "js_string option"
  ud_body_only :: "bool option"
  ud_mcp_only :: "bool option"
  ud_step :: "js_string option"
  ud_attempts :: "int option"
  ud_max_attempts :: "int option"
  ud_run_id :: "js_string option"
  ud_run_url :: "js_string option"
  ud_deploy_run_url :: "js_string option"
  ud_body_run_url :: "js_string option"
  ud_mcp_run_url :: "js_string option"
  ud_error_code :: "js_string option"
  ud_error_message :: "js_string option"
  ud_request_id :: "js_string option"
  ud_created_at :: js_string
  ud_updated_at :: js_string

datatype OperatorJobSource = SourceProvision | SourceUpdate

record OperatorJobRow =
  row_id :: js_string
  row_source :: OperatorJobSource
  row_kind :: JobKind
  row_instance_slug :: js_string
  row_status :: js_string
  row_step :: "js_string option"
  row_attempts :: "int option"
  row_max_attempts :: "int option"
  row_run_id :: "js_string option"
  row_run_url :: "js_string option"
  row_request_id :: "js_string option"
  row_error_code :: "js_string option"
  row_error_message :: "js_string option"
  row_created_at :: js_string
  row_updated_at :: js_string
  row_detail_path :: js_string
  row_retryable :: bool

definition provisionJobToRow :: "OperatorProvisionJobListItem \<Rightarrow> OperatorJobRow" where
  "provisionJobToRow job =
     \<lparr>row_id = pv_id job, row_source = SourceProvision, row_kind = deriveProvisionJobKind,
      row_instance_slug = pv_instance_slug job, row_status = pv_status job, row_step = pv_step job,
      row_attempts = Some (pv_attempts job), row_max_attempts = pv_max_attempts job, row_run_id = pv_run_id job,
      row_run_url = None, row_request_id = pv_request_id job, row_error_code = pv_error_code job,
      row_error_message = pv_error_message job, row_created_at = pv_created_at job,
      row_updated_at = pv_updated_at job,
      row_detail_path = ''/operator/provisioning/jobs/'' @ pv_id job, row_retryable = True\<rparr>"

text \<open>\<open>a || b || ... || undefined\<close>\<close>

fun first_present :: "js_string option list \<Rightarrow> js_string option" where
  "first_present [] = None"
| "first_present (x # xs) = (if truthy x then x else first_present xs)"

definition updateJobToRow :: "OperatorUpdateJobListItem \<Rightarrow> OperatorJobRow" where
  "updateJobToRow job =
     (let kind = deriveUpdateJobKind \<lparr>kd_kind = ud_kind job, kd_mcp_only = ud_mcp_only job,
                   kd_body_only = ud_body_only job\<rparr>;
          runUrl = first_present [ud_deploy_run_url job, ud_body_run_url job, ud_mcp_run_url job, ud_run_url job];
          step = first_present [ud_active_phase job, ud_failed_phase job, ud_step job] in
      \<lparr>row_id = ud_id job, row_source = SourceUpdate, row_kind = kind,
       row_instance_slug = ud_instance_slug job, row_status = ud_status job, row_step = step,
       row_attempts = ud_attempts job, row_max_attempts = ud_max_attempts job, row_run_id = ud_run_id job,
       row_run_url = runUrl, row_request_id = ud_request_id job, row_error_code = ud_error_code job,
       row_error_message = ud_error_message job, row_created_at = ud_created_at job,
       row_updated_at = ud_updated_at job,
       row_detail_path = ''/operator/instances/'' @ ud_instance_slug job, row_retryable = False\<rparr>)"

definition compareRows :: "OperatorJobRow \<Rightarrow> OperatorJobRow \<Rightarrow> int" where
  "compareRows a b =
     (if row_updated_at a < row_updated_at b then 1
      else if row_updated_at a > row_updated_at b then -1
      else 0)"

definition mergeJobRows ::
  "OperatorProvisionJobListItem list \<Rightarrow> OperatorUpdateJobListItem list \<Rightarrow> OperatorJobRow list" where
  "mergeJobRows provisions updates =
     js_sort compareRows (map provisionJobToRow provisions @ map updateJobToRow updates)"

section \<open>Properties\<close>

lemma compareRows_le: "compareRows a b \<le> 0 \<longleftrightarrow> row_updated_at b \<le> row_updated_at a"
  by (auto simp: compareRows_def)

interpretation rows: comparator compareRows
  by unfold_locales (auto simp: compareRows_def split: if_splits)

text \<open>The merged feed holds every provisioning job and every update job exactly once, in descending
  order of the \<open>updated_at\<close> text, and rows with the same text keep their order: provisioning jobs
  first, each list in the order the server sent it.\<close>

theorem mergeJobRows_sorted_stable:
  "mset (mergeJobRows ps us) = mset (map provisionJobToRow ps) + mset (map updateJobToRow us) \<and>
   sorted_wrt (\<lambda>a b. row_updated_at b \<le> row_updated_at a) (mergeJobRows ps us) \<and>
   filter (\<lambda>r. row_updated_at r = t) (mergeJobRows ps us) =
     map provisionJobToRow (filter (\<lambda>p. pv_updated_at p = t) ps) @
     map updateJobToRow (filter (\<lambda>u. ud_updated_at u = t) us)"
proof (intro conjI)
  show "mset (mergeJobRows ps us) = mset (map provisionJobToRow ps) + mset (map updateJobToRow us)"
    by (simp add: mergeJobRows_def rows.sort_mset)
  show "sorted_wrt (\<lambda>a b. row_updated_at b \<le> row_updated_at a) (mergeJobRows ps us)"
    using rows.sort_sorted by (simp add: mergeJobRows_def compareRows_le)
  have "filter (\<lambda>r. row_updated_at r = t) (mergeJobRows ps us) =
      filter (\<lambda>r. row_updated_at r = t) (map provisionJobToRow ps @ map updateJobToRow us)"
    unfolding mergeJobRows_def by (rule rows.sort_stable) (simp add: compareRows_def)
  then show "filter (\<lambda>r. row_updated_at r = t) (mergeJobRows ps us) =
     map provisionJobToRow (filter (\<lambda>p. pv_updated_at p = t) ps) @
     map updateJobToRow (filter (\<lambda>u. ud_updated_at u = t) us)"
    by (simp add: filter_map o_def provisionJobToRow_def updateJobToRow_def Let_def)
qed

text \<open>The order is chronological only for timestamps of one width: a job updated at
  \<open>00:00:05.5Z\<close>, half a second after one updated at \<open>00:00:05Z\<close>, is listed below it, because a fraction
  is written only when it is not zero and the point sorts before the \<open>Z\<close>.\<close>

theorem mergeJobRows_fraction_order:
  assumes "pv_updated_at p = ''2026-01-01T00:00:05Z''" and "pv_updated_at q = ''2026-01-01T00:00:05.5Z''"
  shows "mergeJobRows [q, p] [] = [provisionJobToRow p, provisionJobToRow q]"
proof -
  have "''2026-01-01T00:00:05.5Z'' < ''2026-01-01T00:00:05Z''"
    by (simp add: less_char_def)
  then have "row_updated_at (provisionJobToRow q) < row_updated_at (provisionJobToRow p)"
    using assms by (simp add: provisionJobToRow_def)
  then show ?thesis by (simp add: mergeJobRows_def js_sort_def compareRows_def)
qed

definition sample_job :: "js_string \<Rightarrow> OperatorProvisionJobListItem" where
  "sample_job t =
     \<lparr>pv_id = ''p1'', pv_instance_slug = ''alpha'', pv_status = ''ok'', pv_step = None, pv_run_id = None,
      pv_attempts = 1, pv_max_attempts = None, pv_error_code = None, pv_error_message = None,
      pv_request_id = None, pv_created_at = t, pv_updated_at = t\<rparr>"

theorem mergeJobRows_fraction_order_witness:
  "mergeJobRows [sample_job ''2026-01-01T00:00:05.5Z'', sample_job ''2026-01-01T00:00:05Z''] [] =
     [provisionJobToRow (sample_job ''2026-01-01T00:00:05Z''), provisionJobToRow (sample_job ''2026-01-01T00:00:05.5Z'')]"
  by (rule mergeJobRows_fraction_order) (simp_all add: sample_job_def)

abbreviation provision_of :: "FleetStatusInput \<Rightarrow> js_string" where
  "provision_of i \<equiv> toLowerCase (nullish (fs_provision_status i) '''')"

abbreviation status_of :: "FleetStatusInput \<Rightarrow> js_string" where
  "status_of i \<equiv> toLowerCase (nullish (fs_status i) '''')"

text \<open>The fleet badge follows the documented table in its order: a running or failed provisioning
  decides first, otherwise the instance status does, without regard to case; a badge is never shown
  as healthy while provisioning runs or has failed.\<close>

theorem fleet_status_table:
  "(mapInstanceFleetStatus i = FleetProvisioning \<longleftrightarrow> provision_of i \<in> {''queued'', ''running''}) \<and>
   (mapInstanceFleetStatus i = FleetHealthy \<longleftrightarrow>
      provision_of i \<notin> {''queued'', ''running'', ''error'', ''failed''} \<and>
      status_of i \<in> {''active'', ''running'', ''healthy''}) \<and>
   (mapInstanceFleetStatus i = FleetOffline \<longleftrightarrow>
      provision_of i \<notin> {''queued'', ''running'', ''error'', ''failed''} \<and>
      status_of i \<in> {''disabled'', ''suspended'', ''paused'', ''stopped''}) \<and>
   (mapInstanceFleetStatus i = FleetDegraded \<longleftrightarrow>
      provision_of i \<in> {''error'', ''failed''} \<or>
      provision_of i \<notin> {''queued'', ''running''} \<and> status_of i \<in> {''failed'', ''error'', ''degraded''}) \<and>
   (mapInstanceFleetStatus i = FleetWarning \<longleftrightarrow>
      provision_of i \<notin> {''queued'', ''running'', ''error'', ''failed''} \<and> status_of i = ''warning'')"
  by (auto simp: mapInstanceFleetStatus_def Let_def split: if_splits)

text \<open>The kind of an update job: MCP wiring wins over a body update, which wins over a Lesser update;
  an unnamed kind without flags is a Lesser update, and every row of the merged feed that comes from
  a provisioning job is of kind provision, can be retried and links to its own page.\<close>

theorem job_kind_priority:
  "(deriveUpdateJobKind d = KindWireMcp \<longleftrightarrow>
      toLowerCase (opt_or (kd_kind d) '''') \<in> {''mcp'', ''wire-mcp'', ''mcp-wire''} \<or> kd_mcp_only d = Some True) \<and>
   (deriveUpdateJobKind d = KindUpdateBody \<longleftrightarrow>
      toLowerCase (opt_or (kd_kind d) '''') \<notin> {''mcp'', ''wire-mcp'', ''mcp-wire''} \<and> kd_mcp_only d \<noteq> Some True \<and>
      (toLowerCase (opt_or (kd_kind d) '''') \<in> {''body'', ''update-body''} \<or> kd_body_only d = Some True)) \<and>
   deriveUpdateJobKind d \<noteq> KindProvision \<and>
   (\<forall>r \<in> set (mergeJobRows ps us). row_source r = SourceProvision \<longleftrightarrow>
      row_kind r = KindProvision \<and> row_retryable r \<and>
      row_detail_path r = ''/operator/provisioning/jobs/'' @ row_id r)"
proof (intro conjI ballI)
  have n: "nullish b False \<longleftrightarrow> b = Some True" for b by (cases b) (auto simp: nullish_def)
  show "deriveUpdateJobKind d = KindWireMcp \<longleftrightarrow>
      toLowerCase (opt_or (kd_kind d) '''') \<in> {''mcp'', ''wire-mcp'', ''mcp-wire''} \<or> kd_mcp_only d = Some True"
    by (simp add: deriveUpdateJobKind_def Let_def n)
  show "deriveUpdateJobKind d = KindUpdateBody \<longleftrightarrow>
      toLowerCase (opt_or (kd_kind d) '''') \<notin> {''mcp'', ''wire-mcp'', ''mcp-wire''} \<and> kd_mcp_only d \<noteq> Some True \<and>
      (toLowerCase (opt_or (kd_kind d) '''') \<in> {''body'', ''update-body''} \<or> kd_body_only d = Some True)"
    by (simp add: deriveUpdateJobKind_def Let_def n)
  have upd: "deriveUpdateJobKind e \<noteq> KindProvision" for e
    by (simp add: deriveUpdateJobKind_def Let_def)
  show "deriveUpdateJobKind d \<noteq> KindProvision" by (rule upd)
  fix r assume "r \<in> set (mergeJobRows ps us)"
  then have "r \<in> set (map provisionJobToRow ps @ map updateJobToRow us)"
    unfolding mergeJobRows_def using mset_eq_setD [OF rows.sort_mset] by metis
  then have "(\<exists>p. r = provisionJobToRow p) \<or> (\<exists>u. r = updateJobToRow u)" by auto
  then show "row_source r = SourceProvision \<longleftrightarrow> row_kind r = KindProvision \<and> row_retryable r \<and>
      row_detail_path r = ''/operator/provisioning/jobs/'' @ row_id r"
  proof (elim disjE exE)
    fix p assume "r = provisionJobToRow p"
    then show ?thesis by (simp add: provisionJobToRow_def deriveProvisionJobKind_def)
  next
    fix u assume "r = updateJobToRow u"
    then show ?thesis by (simp add: updateJobToRow_def Let_def)
  qed
qed

theorem job_kind_priority_witness:
  "row_kind (hd (mergeJobRows [sample_job ''t''] [])) = KindProvision"
proof -
  let ?rs = "mergeJobRows [sample_job ''t''] []"
  have rs: "?rs = [provisionJobToRow (sample_job ''t'')]" by (simp add: mergeJobRows_def js_sort_def)
  have "row_source (hd ?rs) = SourceProvision" by (simp add: rs provisionJobToRow_def)
  moreover have "hd ?rs \<in> set ?rs" by (simp add: rs)
  ultimately show ?thesis
    using job_kind_priority [of "\<lparr>kd_kind = None, kd_mcp_only = None, kd_body_only = None\<rparr>" "[sample_job ''t'']" "[]"] by blast
qed

end
