(* ===== verification/Base64.thy ===== *)
theory Base64
  imports Js_Base "HOL-Library.Word"
begin

text \<open>
  Base64 as the browser gives it (\<open>btoa\<close>, \<open>atob\<close>) and the base64url helpers of
  \<open>webauthn/client.ts\<close>.  A binary string is a Latin-1 string, a \<open>Uint8Array\<close> a list of
  \<open>8 word\<close>.  \<open>atob\<close> is the forgiving-base64 decoder of the HTML standard: ASCII white space is
  dropped, up to two padding characters are removed when the length is a multiple of four, and
  leftover bits are discarded.  The main result is the round trip of the url-safe encoding,
  as an interpretation of the codec interface.
\<close>

section \<open>btoa and atob\<close>

definition b64_char :: "nat \<Rightarrow> char" where
  "b64_char n =
     (if n < 26 then char_of (n + 65) else if n < 52 then char_of (n + 71)
      else if n < 62 then char_of (n - 4) else if n = 62 then CHR ''+'' else CHR ''/'')"

definition b64_value :: "char \<Rightarrow> nat option" where
  "b64_value c =
     (if is_upper c then Some (code c - 65) else if is_lower c then Some (code c - 71)
      else if is_digit c then Some (code c + 4) else if c = CHR ''+'' then Some 62
      else if c = CHR ''/'' then Some 63 else None)"

fun btoa :: "js_string \<Rightarrow> js_string" where
  "btoa (a # b # c # r) =
     (let n = code a * 65536 + code b * 256 + code c in
      [b64_char (n div 64 div 64 div 64), b64_char (n div 64 div 64 mod 64), b64_char (n div 64 mod 64),
       b64_char (n mod 64)] @ btoa r)"
| "btoa [a, b] =
     (let n = (code a * 256 + code b) * 4 in
      [b64_char (n div 64 div 64), b64_char (n div 64 mod 64), b64_char (n mod 64), CHR ''=''])"
| "btoa [a] =
     (let n = code a * 16 in [b64_char (n div 64), b64_char (n mod 64), CHR ''='', CHR ''=''])"
| "btoa [] = []"

fun sextets_decode :: "nat list \<Rightarrow> js_string" where
  "sextets_decode (a # b # c # d # r) =
     (let n = ((a * 64 + b) * 64 + c) * 64 + d in
      [char_of (n div 256 div 256), char_of (n div 256 mod 256), char_of (n mod 256)] @ sextets_decode r)"
| "sextets_decode [a, b, c] =
     (let n = ((a * 64 + b) * 64 + c) div 4 in [char_of (n div 256), char_of (n mod 256)])"
| "sextets_decode [a, b] = [char_of ((a * 64 + b) div 16)]"
| "sextets_decode _ = []"

definition ascii_whitespace :: "char \<Rightarrow> bool" where
  "ascii_whitespace c \<longleftrightarrow> code c \<in> {9, 10, 12, 13, 32}"

definition strip_padding :: "js_string \<Rightarrow> js_string" where
  "strip_padding s =
     (if length s mod 4 = 0 then
        (if endsWith s ''=='' then take (length s - 2) s
         else if endsWith s ''='' then take (length s - 1) s else s)
      else s)"

text \<open>\<open>None\<close> is the \<open>InvalidCharacterError\<close>.\<close>

definition atob :: "js_string \<Rightarrow> js_string option" where
  "atob data =
     (let s = strip_padding (filter (\<lambda>c. \<not> ascii_whitespace c) data) in
      if length s mod 4 = 1 then None
      else map_option sextets_decode (those (map b64_value s)))"

section \<open>The base64url helpers\<close>

definition replace_char :: "char \<Rightarrow> char \<Rightarrow> js_string \<Rightarrow> js_string" where
  "replace_char a b s = map (\<lambda>c. if c = a then b else c) s"

definition decodeBase64Url :: "js_string \<Rightarrow> 8 word list option" where
  "decodeBase64Url input =
     (let base64 = replace_char (CHR ''_'') (CHR ''/'') (replace_char (CHR ''-'') (CHR ''+'') input);
          padded = base64 @ replicate ((4 - length base64 mod 4) mod 4) (CHR ''='') in
      map_option (map (\<lambda>c. word_of_nat (code c))) (atob padded))"

definition chunkSize :: nat where
  "chunkSize = 0x2000"

text \<open>The loop over \<open>bytes.subarray(i, i + chunkSize)\<close>.\<close>

function binary_of :: "8 word list \<Rightarrow> js_string" where
  "binary_of bytes =
     (if bytes = [] then []
      else map (\<lambda>b. char_of (unat b)) (take chunkSize bytes) @ binary_of (drop chunkSize bytes))"
  by auto
termination by (relation "measure length") (auto simp: chunkSize_def)

declare binary_of.simps [simp del]

definition encodeBase64Url :: "8 word list \<Rightarrow> js_string" where
  "encodeBase64Url bytes =
     rev (dropWhile (\<lambda>c. c = CHR ''='')
       (rev (replace_char (CHR ''/'') (CHR ''_'') (replace_char (CHR ''+'') (CHR ''-'') (btoa (binary_of bytes))))))"

section \<open>Lemmas\<close>

lemma binary_of_eq: "binary_of bytes = map (\<lambda>b. char_of (unat b)) bytes"
  by (induction bytes rule: binary_of.induct)
     (metis append_take_drop_id binary_of.simps list.simps(8) map_append)

lemma sextet_cases: "(n::nat) < 64 \<Longrightarrow> n < 26 \<or> n - 26 < 26 \<and> \<not> n < 26 \<or> n - 52 < 10 \<and> \<not> n < 52 \<or> n = 62 \<or> n = 63"
  by auto

lemma b64_value_char: "n < 64 \<Longrightarrow> b64_value (b64_char n) = Some n"
  by (auto simp: b64_char_def b64_value_def char_class_defs dest!: sextet_cases)

definition b64_alphabet :: "char \<Rightarrow> bool" where
  "b64_alphabet c \<longleftrightarrow> is_alnum c \<or> c = CHR ''+'' \<or> c = CHR ''/''"

lemma b64_char_alphabet: "n < 64 \<Longrightarrow> b64_alphabet (b64_char n)"
  by (auto simp: b64_char_def b64_alphabet_def char_class_defs dest!: sextet_cases)

lemmas code_less = nat_of_char_less_256

lemma char_of_code [simp]: "char_of (code c) = c"
  by simp

text \<open>The groups of four sextets, three of them or two.\<close>

lemma sextets_sum: "(((n::nat) div 64 div 64 div 64 * 64 + n div 64 div 64 mod 64) * 64 + n div 64 mod 64) * 64 + n mod 64 = n"
  by (simp add: div_mult_mod_eq)

lemma bytes_split:
  assumes "a < 256" "b < 256" "c < (256::nat)"
  shows "(a * 65536 + b * 256 + c) div 256 div 256 = a" "(a * 65536 + b * 256 + c) div 256 mod 256 = b"
    "(a * 65536 + b * 256 + c) mod 256 = c"
proof -
  have e: "a * 65536 + b * 256 + c = c + (b + a * 256) * 256" by (simp add: algebra_simps)
  have d: "(a * 65536 + b * 256 + c) div 256 = b + a * 256"
    unfolding e using assms(3) by (simp only: div_mult_self1)
  show "(a * 65536 + b * 256 + c) div 256 div 256 = a" "(a * 65536 + b * 256 + c) div 256 mod 256 = b"
    unfolding d using assms(2) by simp_all
  show "(a * 65536 + b * 256 + c) mod 256 = c" unfolding e using assms(3) by (simp only: mod_mult_self1 mod_less)
qed

fun b64_digits :: "js_string \<Rightarrow> nat list" where
  "b64_digits (a # b # c # r) =
     (let n = code a * 65536 + code b * 256 + code c in
      [n div 64 div 64 div 64, n div 64 div 64 mod 64, n div 64 mod 64, n mod 64] @ b64_digits r)"
| "b64_digits [a, b] = (let n = (code a * 256 + code b) * 4 in [n div 64 div 64, n div 64 mod 64, n mod 64])"
| "b64_digits [a] = (let n = code a * 16 in [n div 64, n mod 64])"
| "b64_digits [] = []"

abbreviation padding_of :: "nat \<Rightarrow> js_string" where
  "padding_of n \<equiv> replicate ((4 - n mod 4) mod 4) (CHR ''='')"

lemma btoa_digits: "btoa s = map b64_char (b64_digits s) @ padding_of (length (b64_digits s))"
  by (induction s rule: btoa.induct) (simp_all add: Let_def numeral_2_eq_2)

lemma b64_digits_length: "length (b64_digits s) mod 4 \<noteq> 1"
  by (induction s rule: btoa.induct) (simp_all add: Let_def)

lemma b64_digits_small: "\<forall>d \<in> set (b64_digits s). d < 64"
proof (induction s rule: btoa.induct)
  case (1 a b c r)
  have "code a * 65536 + code b * 256 + code c < (64 * 64 * 64 * 64 :: nat)"
    using code_less [of a] code_less [of b] code_less [of c] by linarith
  then show ?case using 1 by (simp add: Let_def less_mult_imp_div_less)
next
  case (2 a b)
  have "code a * 256 + code b < (65536 :: nat)"
    using code_less [of a] code_less [of b] by linarith
  then have "(code a * 256 + code b) * 4 < (64 * 64 * 64 :: nat)" by simp
  then show ?case by (simp add: Let_def less_mult_imp_div_less)
next
  case (3 a)
  have "code a * 16 < (64 * 64 :: nat)" using code_less [of a] by linarith
  then show ?case by (simp add: Let_def less_mult_imp_div_less)
qed simp

lemma sextets_sum3: "((n::nat) div 64 div 64 * 64 + n div 64 mod 64) * 64 + n mod 64 = n"
  by (simp add: div_mult_mod_eq)

lemma sextets_decode_digits: "sextets_decode (b64_digits s) = s"
proof (induction s rule: btoa.induct)
  case (1 a b c r)
  then show ?case by (simp only: b64_digits.simps Let_def append_Cons append_Nil sextets_decode.simps sextets_sum
      bytes_split [OF code_less code_less code_less] char_of_code)
next
  case (2 a b)
  have "(code a * 256 + code b) div 256 = (code a :: nat)" "(code a * 256 + code b) mod 256 = (code b :: nat)"
    using code_less [of b] by simp_all
  then show ?case by (simp only: b64_digits.simps Let_def sextets_decode.simps sextets_sum3) simp
next
  case (3 a)
  have "code a * 16 div 64 * 64 + code a * 16 mod 64 = (code a * 16 :: nat)" by (rule div_mult_mod_eq)
  then show ?case by (simp only: b64_digits.simps Let_def sextets_decode.simps) simp
qed simp

lemma those_b64: "\<forall>d \<in> set ds. d < 64 \<Longrightarrow> those (map b64_value (map b64_char ds)) = Some ds"
  by (induction ds) (simp_all add: b64_value_char)

lemma alphabet_no_space: "b64_alphabet c \<Longrightarrow> \<not> ascii_whitespace c \<and> c \<noteq> CHR ''='' \<and> c \<noteq> CHR ''-'' \<and> c \<noteq> CHR ''_''"
  by (auto simp: b64_alphabet_def ascii_whitespace_def char_class_defs)

lemma digits_alphabet: "\<forall>c \<in> set (map b64_char (b64_digits s)). b64_alphabet c"
  using b64_digits_small b64_char_alphabet by auto

lemma strip_padding_padded:
  assumes "length s mod 4 \<noteq> 1" and "\<forall>c \<in> set s. c \<noteq> CHR ''=''"
  shows "strip_padding (s @ padding_of (length s)) = s"
proof -
  have "length s mod 4 < 4" by simp
  then consider "length s mod 4 = 0" | "length s mod 4 = 2" | "length s mod 4 = 3" using assms(1) by linarith
  then show ?thesis
  proof cases
    case 1
    have "CHR ''='' \<notin> set s" using assms(2) by blast
    then have "\<not> suffix ''='' s" "\<not> suffix ''=='' s" by (auto dest!: set_mono_suffix)
    then show ?thesis using 1 by (simp add: strip_padding_def endsWith_iff_suffix)
  next
    case 2
    then have "(length s + 2) mod 4 = 0" by presburger
    with 2 show ?thesis by (simp add: strip_padding_def endsWith_iff_suffix suffix_def numeral_2_eq_2)
  next
    case 3
    then have m: "Suc (length s) mod 4 = 0" by presburger
    have "CHR ''='' \<notin> set s" using assms(2) by blast
    then have "\<not> suffix ''='' s" by (auto dest!: set_mono_suffix)
    then have "\<not> suffix ''=='' (s @ ''='')" using suffix_snoc [of "''==''" s "CHR ''=''"] by simp
    with 3 m show ?thesis by (simp add: strip_padding_def endsWith_iff_suffix suffix_def)
  qed
qed

lemma atob_btoa: "atob (btoa s) = Some s"
proof -
  let ?d = "map b64_char (b64_digits s)"
  have "\<not> ascii_whitespace (CHR ''='')" by (simp add: ascii_whitespace_def)
  then have "\<forall>c \<in> set (btoa s). \<not> ascii_whitespace c"
    unfolding btoa_digits using digits_alphabet [of s] alphabet_no_space by fastforce
  then have "filter (\<lambda>c. \<not> ascii_whitespace c) (btoa s) = btoa s" by (simp add: filter_id_conv)
  moreover have "strip_padding (btoa s) = ?d"
    using strip_padding_padded [of ?d] b64_digits_length digits_alphabet alphabet_no_space by (auto simp: btoa_digits)
  ultimately show ?thesis
    using b64_digits_length those_b64 [OF b64_digits_small] by (simp add: atob_def sextets_decode_digits)
qed

interpretation base64: codec btoa atob "\<lambda>_. True"
  by unfold_locales (simp add: atob_btoa)

section \<open>The url-safe round trip\<close>

lemma replace_inverse:
  "\<forall>c \<in> set s. c \<noteq> b \<Longrightarrow> replace_char b a (replace_char a b s) = s"
  by (induction s) (auto simp: replace_char_def)

lemma replace_no: "\<forall>c \<in> set s. c \<noteq> a \<Longrightarrow> replace_char a b s = s"
  by (induction s) (auto simp: replace_char_def)

lemma replace_append [simp]: "replace_char a b (s @ t) = replace_char a b s @ replace_char a b t"
  by (simp add: replace_char_def)

lemma length_replace [simp]: "length (replace_char a b s) = length s"
  by (simp add: replace_char_def)

abbreviation url_digits :: "js_string \<Rightarrow> js_string" where
  "url_digits s \<equiv> replace_char (CHR ''/'') (CHR ''_'') (replace_char (CHR ''+'') (CHR ''-'') (map b64_char (b64_digits s)))"

definition b64url_alphabet :: "char \<Rightarrow> bool" where
  "b64url_alphabet c \<longleftrightarrow> is_alnum c \<or> c = CHR ''-'' \<or> c = CHR ''_''"

lemma set_replace: "c \<in> set (replace_char a b s) \<Longrightarrow> c = b \<or> c \<in> set s \<and> c \<noteq> a"
  by (auto simp: replace_char_def)

lemma url_digits_alphabet: "c \<in> set (url_digits s) \<Longrightarrow> b64url_alphabet c"
  using digits_alphabet [of s] unfolding b64_alphabet_def b64url_alphabet_def
  by (blast dest: set_replace)

lemma encodeBase64Url_digits: "encodeBase64Url bytes = url_digits (binary_of bytes)"
proof -
  let ?s = "binary_of bytes" let ?n = "(4 - length (b64_digits ?s) mod 4) mod 4"
  have fixed: "replace_char (CHR ''/'') (CHR ''_'') (replace_char (CHR ''+'') (CHR ''-'') (replicate ?n (CHR ''='')))
      = replicate ?n (CHR ''='')"
    by (simp add: replace_char_def)
  have "\<not> b64url_alphabet (CHR ''='')" by (simp add: b64url_alphabet_def char_class_defs)
  then have ne: "\<forall>c \<in> set (rev (url_digits ?s)). c \<noteq> CHR ''=''" using url_digits_alphabet by (metis set_rev)
  have "dropWhile (\<lambda>c. c = CHR ''='') (replicate ?n (CHR ''='') @ rev (url_digits ?s)) = rev (url_digits ?s)"
    using ne by (cases "rev (url_digits ?s)") (auto simp: dropWhile_append)
  then show ?thesis unfolding encodeBase64Url_def btoa_digits replace_append fixed rev_append rev_replicate by simp
qed

lemma char_word: "word_of_nat (code (char_of (unat (b :: 8 word)))) = b"
  using unsigned_less [of b, where 'a = nat] by simp

lemma decode_encode_url: "decodeBase64Url (encodeBase64Url bytes) = Some bytes"
proof -
  let ?s = "binary_of bytes" let ?d = "map b64_char (b64_digits ?s)"
  have al: "\<forall>c \<in> set ?d. c \<noteq> CHR ''-'' \<and> c \<noteq> CHR ''_''"
    using digits_alphabet alphabet_no_space by blast
  have "CHR ''_'' \<notin> set (replace_char (CHR ''+'') (CHR ''-'') ?d)"
    unfolding replace_char_def using al by fastforce
  then have "replace_char (CHR ''_'') (CHR ''/'') (url_digits ?s) = replace_char (CHR ''+'') (CHR ''-'') ?d"
    by (intro replace_inverse) blast
  moreover have comm: "replace_char (CHR ''_'') (CHR ''/'') (replace_char (CHR ''-'') (CHR ''+'') s)
      = replace_char (CHR ''-'') (CHR ''+'') (replace_char (CHR ''_'') (CHR ''/'') s)" for s
    by (simp add: replace_char_def)
  ultimately have "replace_char (CHR ''_'') (CHR ''/'') (replace_char (CHR ''-'') (CHR ''+'') (url_digits ?s)) = ?d"
    using replace_inverse [of ?d "CHR ''-''" "CHR ''+''"] al by simp
  then have "decodeBase64Url (encodeBase64Url bytes) = map_option (map (\<lambda>c. word_of_nat (code c))) (atob (btoa ?s))"
    by (simp add: decodeBase64Url_def encodeBase64Url_digits btoa_digits Let_def)
  then show ?thesis by (simp only: atob_btoa option.map binary_of_eq map_map o_def char_word) simp
qed

interpretation base64url: segment_codec encodeBase64Url decodeBase64Url "\<lambda>_. True" "CHR ''.''"
proof unfold_locales
  show "decodeBase64Url (encodeBase64Url bs) = Some bs" for bs by (rule decode_encode_url)
  have "\<not> b64url_alphabet (CHR ''.'')" by (simp add: b64url_alphabet_def char_class_defs)
  then show "CHR ''.'' \<notin> set (encodeBase64Url bs)" for bs
    unfolding encodeBase64Url_digits using url_digits_alphabet by blast
qed

lemma b64_digits_count: "length (b64_digits s) = (4 * length s + 2) div 3"
  by (induction s rule: btoa.induct) (simp_all add: Let_def)

text \<open>The base64url helpers are inverse on every byte array, whatever its length and the chunking of
  the encoder: the text has only letters, digits, \<open>-\<close> and \<open>_\<close>, no padding, and the least possible
  length, two arrays have the same text only when they are equal, and decoding gives the bytes back.\<close>

theorem base64url_round_trip:
  "decodeBase64Url (encodeBase64Url bytes) = Some bytes \<and>
   (encodeBase64Url bytes = encodeBase64Url bytes' \<longleftrightarrow> bytes = bytes') \<and>
   set (encodeBase64Url bytes) \<subseteq> {c. is_alnum c \<or> c = CHR ''-'' \<or> c = CHR ''_''} \<and>
   length (encodeBase64Url bytes) = (4 * length bytes + 2) div 3"
  using decode_encode_url base64url.enc_inject [of bytes bytes'] url_digits_alphabet
  by (auto simp: encodeBase64Url_digits b64_digits_count binary_of_eq b64url_alphabet_def)

end
