(* ===== verification/Webauthn.thy ===== *)
theory Webauthn
  imports Base64 Api_Base
begin

text \<open>
  The browser side of the passkey ceremonies (\<open>webauthn/client.ts\<close>): the options the server
  sends are turned into the arguments of \<open>navigator.credentials\<close>, and the credential is turned
  into the JSON object that is posted back.  Array buffers live beside JSON values in
  \<open>wvalue\<close>; an object is the list of its members, and a spread followed by a member writes
  that member in place or appends it.
\<close>

section \<open>Options\<close>

datatype wvalue = WJson json | WBuffer "8 word list" | WArr "wvalue list" | WObj "(js_string \<times> wvalue) list"

definition isRecord :: "json option \<Rightarrow> bool" where
  "isRecord v = (case v of Some (JObj _) \<Rightarrow> True | _ \<Rightarrow> False)"

fun prop_set :: "(js_string \<times> 'a) list \<Rightarrow> js_string \<Rightarrow> 'a \<Rightarrow> (js_string \<times> 'a) list" where
  "prop_set [] k v = [(k, v)]"
| "prop_set ((k', v') # r) k v = (if k = k' then (k, v) # r else (k', v') # prop_set r k v)"

definition spread :: "(js_string \<times> json) list \<Rightarrow> (js_string \<times> wvalue) list" where
  "spread kvs = map (\<lambda>(k, v). (k, WJson v)) kvs"

text \<open>\<open>xs.map(f)\<close> where \<open>f\<close> may throw.\<close>

fun map_or_throw :: "('a \<Rightarrow> js_error + 'b) \<Rightarrow> 'a list \<Rightarrow> js_error + 'b list" where
  "map_or_throw f [] = Inr []"
| "map_or_throw f (x # xs) =
     (case f x of
        Inl e \<Rightarrow> Inl e
      | Inr y \<Rightarrow> (case map_or_throw f xs of Inl e \<Rightarrow> Inl e | Inr ys \<Rightarrow> Inr (y # ys)))"

definition decodeField :: "json option \<Rightarrow> js_string \<Rightarrow> js_error + 8 word list" where
  "decodeField input fieldName =
     (case input of
        Some (JStr s) \<Rightarrow>
          if js_trim s = [] then Inl (Error (''invalid '' @ fieldName))
          else (case decodeBase64Url s of None \<Rightarrow> Inl InvalidCharacterError | Some b \<Rightarrow> Inr b)
      | _ \<Rightarrow> Inl (Error (''invalid '' @ fieldName)))"

definition unwrapPublicKeyOptions :: "(js_string \<times> json) list \<Rightarrow> (js_string \<times> json) list" where
  "unwrapPublicKeyOptions input = (case map_of input ''publicKey'' of Some (JObj kvs) \<Rightarrow> kvs | _ \<Rightarrow> input)"

text \<open>\<open>{ ...obj, id: decodeField(obj.id, fieldName) }\<close>\<close>

definition with_decoded_id :: "js_string \<Rightarrow> (js_string \<times> json) list \<Rightarrow> js_error + wvalue" where
  "with_decoded_id fieldName kvs =
     (case decodeField (map_of kvs ''id'') fieldName of
        Inl e \<Rightarrow> Inl e
      | Inr b \<Rightarrow> Inr (WObj (prop_set (spread kvs) ''id'' (WBuffer b))))"

definition decode_cred :: "js_string \<Rightarrow> json \<Rightarrow> js_error + wvalue" where
  "decode_cred fieldName cred = (case cred of JObj kvs \<Rightarrow> with_decoded_id fieldName kvs | _ \<Rightarrow> Inr (WJson cred))"

definition toPublicKeyCreationOptions :: "(js_string \<times> json) list \<Rightarrow> js_error + (js_string \<times> wvalue) list" where
  "toPublicKeyCreationOptions publicKey =
     (let root = unwrapPublicKeyOptions publicKey in
      case decodeField (map_of root ''challenge'') ''challenge'' of
        Inl e \<Rightarrow> Inl e
      | Inr challenge \<Rightarrow>
          (let out1 = prop_set (spread root) ''challenge'' (WBuffer challenge) in
           case (case map_of root ''user'' of
                   Some (JObj user) \<Rightarrow>
                     (case with_decoded_id ''user.id'' user of
                        Inl e \<Rightarrow> Inl e
                      | Inr u \<Rightarrow> Inr (prop_set out1 ''user'' u))
                 | _ \<Rightarrow> Inr out1) of
             Inl e \<Rightarrow> Inl e
           | Inr out2 \<Rightarrow>
               (case map_of root ''excludeCredentials'' of
                  Some (JArr creds) \<Rightarrow>
                    (case map_or_throw (decode_cred ''excludeCredentials.id'') creds of
                       Inl e \<Rightarrow> Inl e
                     | Inr cs \<Rightarrow> Inr (prop_set out2 ''excludeCredentials'' (WArr cs)))
                | _ \<Rightarrow> Inr out2)))"

definition toPublicKeyRequestOptions :: "(js_string \<times> json) list \<Rightarrow> js_error + (js_string \<times> wvalue) list" where
  "toPublicKeyRequestOptions publicKey =
     (let root = unwrapPublicKeyOptions publicKey in
      case decodeField (map_of root ''challenge'') ''challenge'' of
        Inl e \<Rightarrow> Inl e
      | Inr challenge \<Rightarrow>
          (let out1 = prop_set (spread root) ''challenge'' (WBuffer challenge) in
           case map_of root ''allowCredentials'' of
             Some (JArr creds) \<Rightarrow>
               (case map_or_throw (decode_cred ''allowCredentials.id'') creds of
                  Inl e \<Rightarrow> Inl e
                | Inr cs \<Rightarrow> Inr (prop_set out1 ''allowCredentials'' (WArr cs)))
           | _ \<Rightarrow> Inr out1))"

section \<open>Credentials\<close>

record PublicKeyCredential =
  cr_id :: js_string
  cr_rawId :: "8 word list"
  cr_type :: js_string
  cr_authenticatorAttachment :: "js_string option"
  cr_clientExtensionResults :: json

text \<open>\<open>at_getTransports\<close> is \<open>None\<close> where the browser lacks the method.\<close>

record AttestationResponse =
  at_attestationObject :: "8 word list"
  at_clientDataJSON :: "8 word list"
  at_getTransports :: "js_string list option"

record AssertionResponse =
  as_authenticatorData :: "8 word list"
  as_clientDataJSON :: "8 word list"
  as_signature :: "8 word list"
  as_userHandle :: "8 word list option"

definition jbytes :: "8 word list \<Rightarrow> json" where
  "jbytes b = JStr (encodeBase64Url b)"

text \<open>The objects as they are posted: \<open>JSON.stringify\<close> omits the undefined members.\<close>

definition serializeCredentialCreation :: "PublicKeyCredential \<Rightarrow> AttestationResponse \<Rightarrow> json" where
  "serializeCredentialCreation credential response =
     obj_lit
       [(''id'', Some (JStr (cr_id credential))),
        (''rawId'', Some (jbytes (cr_rawId credential))),
        (''type'', Some (JStr (cr_type credential))),
        (''authenticatorAttachment'', map_option JStr (cr_authenticatorAttachment credential)),
        (''response'', Some (obj_lit
           [(''attestationObject'', Some (jbytes (at_attestationObject response))),
            (''clientDataJSON'', Some (jbytes (at_clientDataJSON response))),
            (''transports'', map_option (\<lambda>ts. JArr (map JStr ts)) (at_getTransports response))])),
        (''clientExtensionResults'', Some (cr_clientExtensionResults credential))]"

definition serializeCredentialRequest :: "PublicKeyCredential \<Rightarrow> AssertionResponse \<Rightarrow> json" where
  "serializeCredentialRequest credential response =
     obj_lit
       [(''id'', Some (JStr (cr_id credential))),
        (''rawId'', Some (jbytes (cr_rawId credential))),
        (''type'', Some (JStr (cr_type credential))),
        (''authenticatorAttachment'', map_option JStr (cr_authenticatorAttachment credential)),
        (''response'', Some (obj_lit
           [(''authenticatorData'', Some (jbytes (as_authenticatorData response))),
            (''clientDataJSON'', Some (jbytes (as_clientDataJSON response))),
            (''signature'', Some (jbytes (as_signature response))),
            (''userHandle'', map_option jbytes (as_userHandle response))])),
        (''clientExtensionResults'', Some (cr_clientExtensionResults credential))]"

section \<open>Properties\<close>

lemma map_of_prop_set [simp]: "map_of (prop_set kvs k v) = (map_of kvs)(k \<mapsto> v)"
  by (induction kvs k v rule: prop_set.induct) auto

lemma map_of_spread [simp]: "map_of (spread kvs) k = map_option WJson (map_of kvs k)"
  by (induction kvs) (auto simp: spread_def)

lemma map_or_throw_Inr: "map_or_throw f xs = Inr ys \<longleftrightarrow> list_all2 (\<lambda>x y. f x = Inr y) xs ys"
proof (induction xs arbitrary: ys)
  case (Cons x xs)
  then show ?case
    by (cases "f x"; cases "map_or_throw f xs") (auto simp: list_all2_Cons1 Cons.IH [symmetric])
qed auto

lemma map_or_throw_Inl: "(\<exists>e. map_or_throw f xs = Inl e) \<longleftrightarrow> (\<exists>x \<in> set xs. \<exists>e. f x = Inl e)"
  by (induction xs) (auto split: sum.splits)

lemma jbytes_blank: "js_trim (encodeBase64Url b) = [] \<longleftrightarrow> b = []"
proof
  assume "js_trim (encodeBase64Url b) = []"
  have al: "\<forall>c \<in> set (encodeBase64Url b). \<not> is_space c"
    unfolding encodeBase64Url_digits using url_digits_alphabet
    by (fastforce simp: b64url_alphabet_def char_class_defs)
  then have "js_trim (encodeBase64Url b) = encodeBase64Url b"
    by (cases "encodeBase64Url b = []") (simp_all add: trim_id)
  then have "length (encodeBase64Url b) = 0" using \<open>js_trim (encodeBase64Url b) = []\<close> by simp
  then have "(4 * length b + 2) div 3 = 0"
    unfolding encodeBase64Url_digits by (simp add: b64_digits_count binary_of_eq)
  then have "length b = 0" by presburger
  then show "b = []" by simp
next
  assume "b = []"
  then show "js_trim (encodeBase64Url b) = []"
    by (simp add: encodeBase64Url_digits binary_of.simps replace_char_def js_trim_def)
qed

lemma decodeField_jbytes: "b \<noteq> [] \<Longrightarrow> decodeField (Some (jbytes b)) n = Inr b"
  by (simp add: decodeField_def jbytes_def jbytes_blank decode_encode_url)

text \<open>What decoding promises of an object: the bytes of the text member \<open>id\<close>, and every other member
  as it was.\<close>

definition id_decoded :: "(js_string \<times> json) list \<Rightarrow> wvalue \<Rightarrow> bool" where
  "id_decoded kvs w \<longleftrightarrow>
     (\<exists>obj s b. w = WObj obj \<and> map_of kvs ''id'' = Some (JStr s) \<and> decodeBase64Url s = Some b \<and>
        map_of obj ''id'' = Some (WBuffer b) \<and>
        (\<forall>k. k \<noteq> ''id'' \<longrightarrow> map_of obj k = map_option WJson (map_of kvs k)))"

definition cred_decoded :: "json \<Rightarrow> wvalue \<Rightarrow> bool" where
  "cred_decoded cred w = (case cred of JObj kvs \<Rightarrow> id_decoded kvs w | _ \<Rightarrow> w = WJson cred)"

lemma decodeField_Inr:
  "decodeField v n = Inr b \<longleftrightarrow> (\<exists>s. v = Some (JStr s) \<and> js_trim s \<noteq> [] \<and> decodeBase64Url s = Some b)"
  by (auto simp: decodeField_def split: option.splits json.splits)

lemma with_decoded_id_ok: "with_decoded_id n kvs = Inr w \<Longrightarrow> id_decoded kvs w"
  by (auto simp: with_decoded_id_def id_decoded_def decodeField_Inr split: sum.splits)

lemma decode_cred_ok: "decode_cred n c = Inr w \<Longrightarrow> cred_decoded c w"
  by (cases c) (auto simp: decode_cred_def cred_decoded_def with_decoded_id_ok)

lemma decode_creds_ok: "map_or_throw (decode_cred n) cs = Inr ws \<Longrightarrow> list_all2 cred_decoded cs ws"
  using decode_cred_ok by (auto simp: map_or_throw_Inr elim: list_all2_mono)

text \<open>A field that makes the conversion throw.\<close>

definition bad_field :: "json option \<Rightarrow> bool" where
  "bad_field v \<longleftrightarrow> (\<forall>s. v = Some (JStr s) \<longrightarrow> js_trim s = [] \<or> decodeBase64Url s = None)"

definition bad_cred :: "json \<Rightarrow> bool" where
  "bad_cred c = (case c of JObj kvs \<Rightarrow> bad_field (map_of kvs ''id'') | _ \<Rightarrow> False)"

lemma decodeField_Inl: "(\<exists>e. decodeField v n = Inl e) \<longleftrightarrow> bad_field v"
  by (auto simp: decodeField_def bad_field_def split: option.splits json.splits)

lemma with_decoded_id_Inl: "(\<exists>e. with_decoded_id n kvs = Inl e) \<longleftrightarrow> bad_field (map_of kvs ''id'')"
  unfolding decodeField_Inl [symmetric, of _ n] by (auto simp: with_decoded_id_def split: sum.splits)

lemma decode_creds_Inl: "(\<exists>e. map_or_throw (decode_cred n) cs = Inl e) \<longleftrightarrow> (\<exists>c \<in> set cs. bad_cred c)"
proof -
  have "(\<exists>e. decode_cred n c = Inl e) \<longleftrightarrow> bad_cred c" for c
    using with_decoded_id_Inl [of n] by (cases c) (auto simp: decode_cred_def bad_cred_def)
  then show ?thesis by (simp add: map_or_throw_Inl)
qed

text \<open>The member at a path of keys, and its bytes.\<close>

fun member_at :: "json \<Rightarrow> js_string list \<Rightarrow> json option" where
  "member_at j [] = Some j"
| "member_at j (k # ks) = (case obj_get j k of None \<Rightarrow> None | Some v \<Rightarrow> member_at v ks)"

definition bytes_at :: "json \<Rightarrow> js_string list \<Rightarrow> 8 word list option" where
  "bytes_at j ks = (case member_at j ks of Some (JStr s) \<Rightarrow> decodeBase64Url s | _ \<Rightarrow> None)"

text \<open>C31. The registration options reach the authenticator intact: when the conversion succeeds, the
  challenge, the user id and the id of every excluded credential are the decoded bytes of the text
  the server sent, and every other member, also of the user and of each credential, is unchanged.
  It throws exactly when one of those fields is missing, blank or not base64url.\<close>

theorem creation_options_decoded:
  fixes kvs :: "(js_string \<times> json) list"
  assumes root: "root = unwrapPublicKeyOptions kvs"
  shows "(\<forall>out. toPublicKeyCreationOptions kvs = Inr out \<longrightarrow>
      (\<exists>s b. map_of root ''challenge'' = Some (JStr s) \<and> decodeBase64Url s = Some b \<and>
         map_of out ''challenge'' = Some (WBuffer b)) \<and>
      (\<forall>user. map_of root ''user'' = Some (JObj user) \<longrightarrow> (\<exists>w. map_of out ''user'' = Some w \<and> id_decoded user w)) \<and>
      (\<forall>cs. map_of root ''excludeCredentials'' = Some (JArr cs) \<longrightarrow>
         (\<exists>ws. map_of out ''excludeCredentials'' = Some (WArr ws) \<and> list_all2 cred_decoded cs ws)) \<and>
      (\<forall>k. k \<notin> {''challenge'', ''user'', ''excludeCredentials''} \<longrightarrow> map_of out k = map_option WJson (map_of root k))) \<and>
   ((\<exists>e. toPublicKeyCreationOptions kvs = Inl e) \<longleftrightarrow>
      bad_field (map_of root ''challenge'') \<or>
      (\<exists>user. map_of root ''user'' = Some (JObj user) \<and> bad_field (map_of user ''id'')) \<or>
      (\<exists>cs. map_of root ''excludeCredentials'' = Some (JArr cs) \<and> (\<exists>c \<in> set cs. bad_cred c)))"
proof (intro conjI allI impI)
  fix out assume "toPublicKeyCreationOptions kvs = Inr out"
  then show "\<exists>s b. map_of root ''challenge'' = Some (JStr s) \<and> decodeBase64Url s = Some b \<and>
      map_of out ''challenge'' = Some (WBuffer b)"
    by (auto simp: toPublicKeyCreationOptions_def root Let_def decodeField_Inr
        split: sum.splits option.splits json.splits)
next
  fix out user assume "toPublicKeyCreationOptions kvs = Inr out" "map_of root ''user'' = Some (JObj user)"
  then show "\<exists>w. map_of out ''user'' = Some w \<and> id_decoded user w"
    by (auto simp: toPublicKeyCreationOptions_def root Let_def with_decoded_id_ok
        split: sum.splits option.splits json.splits)
next
  fix out cs assume "toPublicKeyCreationOptions kvs = Inr out" "map_of root ''excludeCredentials'' = Some (JArr cs)"
  then show "\<exists>ws. map_of out ''excludeCredentials'' = Some (WArr ws) \<and> list_all2 cred_decoded cs ws"
    by (auto simp: toPublicKeyCreationOptions_def root Let_def decode_creds_ok
        split: sum.splits)
next
  fix out k assume "toPublicKeyCreationOptions kvs = Inr out" "k \<notin> {''challenge'', ''user'', ''excludeCredentials''}"
  then show "map_of out k = map_option WJson (map_of root k)"
    by (auto simp: toPublicKeyCreationOptions_def root Let_def
        split: sum.splits option.splits json.splits)
next
  show "(\<exists>e. toPublicKeyCreationOptions kvs = Inl e) \<longleftrightarrow>
      bad_field (map_of root ''challenge'') \<or>
      (\<exists>user. map_of root ''user'' = Some (JObj user) \<and> bad_field (map_of user ''id'')) \<or>
      (\<exists>cs. map_of root ''excludeCredentials'' = Some (JArr cs) \<and> (\<exists>c \<in> set cs. bad_cred c))"
    unfolding with_decoded_id_Inl [symmetric, where n = "''user.id''"]
      decodeField_Inl [of "map_of root ''challenge''" "''challenge''", symmetric] decode_creds_Inl [symmetric, where n = "''excludeCredentials.id''"]
    by (auto simp: toPublicKeyCreationOptions_def root Let_def split: sum.splits option.splits json.splits)
qed


text \<open>The sign-in options reach the authenticator intact in the same way, with the allowed
  credentials in place of the excluded ones.\<close>

theorem request_options_decoded:
  fixes kvs :: "(js_string \<times> json) list"
  assumes root: "root = unwrapPublicKeyOptions kvs"
  shows "(\<forall>out. toPublicKeyRequestOptions kvs = Inr out \<longrightarrow>
      (\<exists>s b. map_of root ''challenge'' = Some (JStr s) \<and> decodeBase64Url s = Some b \<and>
         map_of out ''challenge'' = Some (WBuffer b)) \<and>
      (\<forall>cs. map_of root ''allowCredentials'' = Some (JArr cs) \<longrightarrow>
         (\<exists>ws. map_of out ''allowCredentials'' = Some (WArr ws) \<and> list_all2 cred_decoded cs ws)) \<and>
      (\<forall>k. k \<notin> {''challenge'', ''allowCredentials''} \<longrightarrow> map_of out k = map_option WJson (map_of root k))) \<and>
   ((\<exists>e. toPublicKeyRequestOptions kvs = Inl e) \<longleftrightarrow>
      bad_field (map_of root ''challenge'') \<or>
      (\<exists>cs. map_of root ''allowCredentials'' = Some (JArr cs) \<and> (\<exists>c \<in> set cs. bad_cred c)))"
proof (intro conjI allI impI)
  fix out assume "toPublicKeyRequestOptions kvs = Inr out"
  then show "\<exists>s b. map_of root ''challenge'' = Some (JStr s) \<and> decodeBase64Url s = Some b \<and>
      map_of out ''challenge'' = Some (WBuffer b)"
    by (auto simp: toPublicKeyRequestOptions_def root Let_def decodeField_Inr
        split: sum.splits option.splits json.splits)
next
  fix out cs assume "toPublicKeyRequestOptions kvs = Inr out" "map_of root ''allowCredentials'' = Some (JArr cs)"
  then show "\<exists>ws. map_of out ''allowCredentials'' = Some (WArr ws) \<and> list_all2 cred_decoded cs ws"
    by (auto simp: toPublicKeyRequestOptions_def root Let_def decode_creds_ok split: sum.splits)
next
  fix out k assume "toPublicKeyRequestOptions kvs = Inr out" "k \<notin> {''challenge'', ''allowCredentials''}"
  then show "map_of out k = map_option WJson (map_of root k)"
    by (auto simp: toPublicKeyRequestOptions_def root Let_def split: sum.splits option.splits json.splits)
next
  show "(\<exists>e. toPublicKeyRequestOptions kvs = Inl e) \<longleftrightarrow>
      bad_field (map_of root ''challenge'') \<or>
      (\<exists>cs. map_of root ''allowCredentials'' = Some (JArr cs) \<and> (\<exists>c \<in> set cs. bad_cred c))"
    unfolding decodeField_Inl [symmetric, where n = "''challenge''"]
      decode_creds_Inl [symmetric, where n = "''allowCredentials.id''"]
    by (auto simp: toPublicKeyRequestOptions_def root Let_def split: sum.splits option.splits json.splits)
qed

definition sample_options :: "(js_string \<times> json) list" where
  "sample_options =
     [(''publicKey'', JObj [(''challenge'', jbytes [1, 2, 255]), (''user'', JObj [(''id'', jbytes [7]), (''name'', JStr ''ada'')])])]"

theorem creation_options_decoded_witness:
  "\<exists>out. toPublicKeyCreationOptions sample_options = Inr out \<and> map_of out ''challenge'' = Some (WBuffer [1, 2, 255])"
proof -
  let ?root = "unwrapPublicKeyOptions sample_options"
  have root: "?root = [(''challenge'', jbytes [1, 2, 255]), (''user'', JObj [(''id'', jbytes [7]), (''name'', JStr ''ada'')])]"
    by (simp add: unwrapPublicKeyOptions_def sample_options_def)
  have good: "\<not> bad_field (Some (jbytes b))" if "b \<noteq> []" for b
    using that by (simp add: bad_field_def jbytes_def jbytes_blank decode_encode_url)
  note ok = creation_options_decoded [OF refl, of sample_options]
  have "\<nexists>e. toPublicKeyCreationOptions sample_options = Inl e"
    using ok [THEN conjunct2] by (simp add: root good)
  then obtain out where out: "toPublicKeyCreationOptions sample_options = Inr out"
    by (cases "toPublicKeyCreationOptions sample_options") auto
  then obtain s b where "map_of ?root ''challenge'' = Some (JStr s)" "decodeBase64Url s = Some b"
      "map_of out ''challenge'' = Some (WBuffer b)"
    using ok [THEN conjunct1, rule_format, OF out, THEN conjunct1] by (elim exE conjE)
  then show ?thesis using out by (auto simp: root jbytes_def decode_encode_url)
qed

theorem request_options_decoded_witness:
  "\<exists>e. toPublicKeyRequestOptions [(''challenge'', JStr '' '')] = Inl e"
proof -
  have "bad_field (Some (JStr '' ''))" by (simp add: bad_field_def js_trim_def is_space_def)
  then show ?thesis
    using request_options_decoded [OF refl, of "[(''challenge'', JStr '' '')]", THEN conjunct2]
    by (simp add: unwrapPublicKeyOptions_def)
qed

text \<open>The credential reaches the server intact: the posted text parses back to an object whose raw
  id, client data, attestation, authenticator data, signature and user handle decode to the very
  bytes the authenticator gave; the user handle and the transports are absent exactly when the
  authenticator gave none, and an empty user handle is still sent.\<close>

theorem credential_serialized:
  assumes "wf_json (cr_clientExtensionResults c)"
  shows "\<exists>reg sig. json_parse (json_stringify (serializeCredentialCreation c a)) = Some reg \<and>
     json_parse (json_stringify (serializeCredentialRequest c b)) = Some sig \<and>
     bytes_at reg [''rawId''] = Some (cr_rawId c) \<and>
     bytes_at reg [''response'', ''attestationObject''] = Some (at_attestationObject a) \<and>
     bytes_at reg [''response'', ''clientDataJSON''] = Some (at_clientDataJSON a) \<and>
     member_at reg [''response'', ''transports''] = map_option (\<lambda>ts. JArr (map JStr ts)) (at_getTransports a) \<and>
     bytes_at sig [''rawId''] = Some (cr_rawId c) \<and>
     bytes_at sig [''response'', ''authenticatorData''] = Some (as_authenticatorData b) \<and>
     bytes_at sig [''response'', ''clientDataJSON''] = Some (as_clientDataJSON b) \<and>
     bytes_at sig [''response'', ''signature''] = Some (as_signature b) \<and>
     bytes_at sig [''response'', ''userHandle''] = as_userHandle b \<and>
     member_at sig [''authenticatorAttachment''] = map_option JStr (cr_authenticatorAttachment c)"
proof (intro exI conjI)
  have wf: "wf_json (serializeCredentialCreation c a)" "wf_json (serializeCredentialRequest c b)"
    unfolding serializeCredentialCreation_def serializeCredentialRequest_def
    using assms by (auto intro!: wf_obj_lit simp: jbytes_def option.pred_map option.pred_True o_def)
  show "json_parse (json_stringify (serializeCredentialCreation c a)) = Some (serializeCredentialCreation c a)"
    "json_parse (json_stringify (serializeCredentialRequest c b)) = Some (serializeCredentialRequest c b)"
    using wf json_codec.dec_enc by simp_all
qed (cases "cr_authenticatorAttachment c"; cases "at_getTransports a"; cases "as_userHandle b";
    simp add: serializeCredentialCreation_def serializeCredentialRequest_def obj_lit_def bytes_at_def
      jbytes_def decode_encode_url obj_get_def)+


definition sample_credential :: PublicKeyCredential where
  "sample_credential =
     \<lparr>cr_id = ''AQ'', cr_rawId = [1], cr_type = ''public-key'', cr_authenticatorAttachment = None,
      cr_clientExtensionResults = JObj []\<rparr>"

theorem credential_serialized_witness:
  "\<exists>sig. json_parse (json_stringify (serializeCredentialRequest sample_credential
       \<lparr>as_authenticatorData = [9], as_clientDataJSON = [123, 125], as_signature = [255], as_userHandle = Some []\<rparr>)) = Some sig \<and>
     bytes_at sig [''rawId''] = Some [1] \<and> bytes_at sig [''response'', ''userHandle''] = Some []"
proof -
  have "wf_json (cr_clientExtensionResults sample_credential)" by (simp add: sample_credential_def)
  from credential_serialized [OF this, where b = "\<lparr>as_authenticatorData = [9], as_clientDataJSON = [123, 125],
      as_signature = [255], as_userHandle = Some []\<rparr>"]
  show ?thesis by (auto simp: sample_credential_def)
qed

end
