(* ===== verification/Wallet.thy ===== *)
theory Wallet
  imports Http Uri
begin

text \<open>
  The wallet client: the EIP-1193 calls of \<open>wallet/ethereum.ts\<close> and the digest of
  \<open>wallet/keccak.ts\<close>.  The provider is a parameter: a function of the requests it has received
  so far and of the new one that answers with a value (\<open>None\<close> is \<open>undefined\<close>) or rejects.  Every
  call returns the list of requests sent, in their order.

  The receipt loop waits on a clock, given as the successive readings of \<open>Date.now()\<close>, and has
  fuel: the theorem on its end gives the fuel that is enough.  The Keccak permutation is a third-party
  function and so a parameter.
\<close>

section \<open>The provider\<close>

record rpc_request =
  rpc_method :: js_string
  rpc_params :: "json list option"

type_synonym provider = "rpc_request list \<Rightarrow> rpc_request \<Rightarrow> js_error + json option"

type_synonym 'a wallet = "provider \<Rightarrow> rpc_request list \<Rightarrow> (js_error + 'a) \<times> rpc_request list"

definition provider_request :: "js_string \<Rightarrow> json list option \<Rightarrow> json option wallet" where
  "provider_request m params p log =
     (let r = \<lparr>rpc_method = m, rpc_params = params\<rparr> in (p log r, log @ [r]))"

definition wallet_then :: "'a wallet \<Rightarrow> ('a \<Rightarrow> js_error + 'b) \<Rightarrow> 'b wallet" where
  "wallet_then c f p log = (case c p log of (Inl e, l) \<Rightarrow> (Inl e, l) | (Inr x, l) \<Rightarrow> (f x, l))"

definition getEthereumProvider :: "provider option \<Rightarrow> provider option" where
  "getEthereumProvider window_ethereum = window_ethereum"

definition accounts_of :: "json option \<Rightarrow> js_error + js_string list" where
  "accounts_of accounts =
     (case accounts of
        Some (JArr as) \<Rightarrow> Inr (map js_to_string as)
      | _ \<Rightarrow> Inl (Error ''wallet returned invalid accounts response''))"

definition getAccounts :: "js_string list wallet" where
  "getAccounts = wallet_then (provider_request ''eth_accounts'' None) accounts_of"

definition requestAccounts :: "js_string list wallet" where
  "requestAccounts = wallet_then (provider_request ''eth_requestAccounts'' None) accounts_of"

definition ensureAccounts :: "js_string list wallet" where
  "ensureAccounts p log =
     (case getAccounts p log of
        (Inl e, l) \<Rightarrow> (Inl e, l)
      | (Inr existing, l) \<Rightarrow> if existing \<noteq> [] then (Inr existing, l) else requestAccounts p l)"

section \<open>Numbers\<close>

text \<open>\<open>parseInt(s, 16)\<close>: white space, a sign, an optional prefix, then the longest run of hex digits;
  \<open>None\<close> is \<open>NaN\<close> or an infinity.\<close>

definition has_hex_prefix :: "js_string \<Rightarrow> bool" where
  "has_hex_prefix s \<longleftrightarrow> startsWith s ''0x'' \<or> startsWith s ''0X''"

definition parseInt16 :: "js_string \<Rightarrow> int option" where
  "parseInt16 s =
     (let t = dropWhile is_space s;
          neg = startsWith t ''-'';
          u = (if neg \<or> startsWith t ''+'' then tl t else t);
          v = (if has_hex_prefix u then drop 2 u else u);
          ds = takeWhile (\<lambda>c. hex_value c \<noteq> None) v in
      if ds = [] then None
      else map_option (\<lambda>n. if neg then - int n else int n) (Option.bind (digits_value 16 0 ds) to_double))"

definition getChainId :: "int wallet" where
  "getChainId =
     wallet_then (provider_request ''eth_chainId'' None)
       (\<lambda>chainIdHex.
          let hex = (case chainIdHex of Some (JStr s) \<Rightarrow> s | _ \<Rightarrow> []) in
          Inr (case parseInt16 hex of Some parsed \<Rightarrow> if parsed > 0 then parsed else 1 | None \<Rightarrow> 1))"

text \<open>\<open>n.toString(16)\<close>\<close>

definition hex_text :: "int \<Rightarrow> js_string" where
  "hex_text n = (if n < 0 then CHR ''-'' # nat_to_base 16 (nat (- n)) else nat_to_base 16 (nat n))"

definition switchEthereumChain :: "int \<Rightarrow> unit wallet" where
  "switchEthereumChain chainId =
     (let chainIdHex = ''0x'' @ hex_text chainId in
      wallet_then (provider_request ''wallet_switchEthereumChain'' (Some [JObj [(''chainId'', JStr chainIdHex)]]))
        (\<lambda>_. Inr ()))"

text \<open>\<open>BigInt(s)\<close> of a string; \<open>None\<close> is the \<open>SyntaxError\<close>.\<close>

definition digits_of :: "nat \<Rightarrow> js_string \<Rightarrow> int option" where
  "digits_of b s = (if s = [] then None else map_option int (digits_value b 0 s))"

definition bigint_of :: "js_string \<Rightarrow> int option" where
  "bigint_of s =
     (let t = js_trim s in
      if t = [] then Some 0
      else if has_hex_prefix t then digits_of 16 (drop 2 t)
      else if startsWith t ''0o'' \<or> startsWith t ''0O'' then digits_of 8 (drop 2 t)
      else if startsWith t ''0b'' \<or> startsWith t ''0B'' then digits_of 2 (drop 2 t)
      else if startsWith t ''-'' then map_option uminus (digits_of 10 (tl t))
      else if startsWith t ''+'' then digits_of 10 (tl t)
      else digits_of 10 t)"

definition normalizeTransactionValue :: "js_string option \<Rightarrow> js_error + js_string" where
  "normalizeTransactionValue value =
     (let trimmed = js_trim (opt_or value '''') in
      if trimmed = [] then Inr ''0x0''
      else (case bigint_of trimmed of
              None \<Rightarrow> Inl SyntaxError
            | Some parsed \<Rightarrow> Inr (''0x'' @ hex_text parsed)))"

section \<open>Transactions\<close>

record tx_input =
  tx_from :: js_string
  tx_to :: js_string
  tx_value :: "js_string option"
  tx_data :: "js_string option"

definition sendEthereumTransaction :: "tx_input \<Rightarrow> js_string wallet" where
  "sendEthereumTransaction input p log =
     (case normalizeTransactionValue (tx_value input) of
        Inl e \<Rightarrow> (Inl e, log)
      | Inr v \<Rightarrow>
          wallet_then
            (provider_request ''eth_sendTransaction''
               (Some [JObj [(''from'', JStr (tx_from input)), (''to'', JStr (tx_to input)), (''value'', JStr v),
                      (''data'', JStr (opt_or (tx_data input) ''0x''))]]))
            (\<lambda>txHash. case txHash of
               Some (JStr h) \<Rightarrow>
                 if js_trim h = [] then Inl (Error ''wallet returned invalid transaction hash'') else Inr h
             | _ \<Rightarrow> Inl (Error ''wallet returned invalid transaction hash''))
            p log)"

definition getEthereumTransactionReceipt :: "js_string \<Rightarrow> (js_string \<times> json) list option wallet" where
  "getEthereumTransactionReceipt txHash =
     wallet_then (provider_request ''eth_getTransactionReceipt'' (Some [JStr txHash]))
       (\<lambda>receipt. case receipt of
          None \<Rightarrow> Inr None
        | Some JNull \<Rightarrow> Inr None
        | Some (JObj kvs) \<Rightarrow> Inr (Some kvs)
        | Some _ \<Rightarrow> Inl (Error ''wallet returned invalid transaction receipt''))"

text \<open>The loop: \<open>now i\<close> is the reading of the clock after request \<open>i\<close>, and the delays slept so far are
  threaded through.\<close>

record receipt_result =
  rr_outcome :: "js_error + (js_string \<times> json) list"
  rr_log :: "rpc_request list"
  rr_slept :: "int list"

fun receipt_loop :: "nat \<Rightarrow> js_string \<Rightarrow> int \<Rightarrow> int \<Rightarrow> (nat \<Rightarrow> int) \<Rightarrow> provider \<Rightarrow> nat \<Rightarrow> rpc_request list
    \<Rightarrow> int list \<Rightarrow> receipt_result option" where
  "receipt_loop 0 txHash deadline pollMs now p i log slept = None"
| "receipt_loop (Suc fuel) txHash deadline pollMs now p i log slept =
     (case getEthereumTransactionReceipt txHash p log of
        (Inl e, l) \<Rightarrow> Some \<lparr>rr_outcome = Inl e, rr_log = l, rr_slept = slept\<rparr>
      | (Inr (Some receipt), l) \<Rightarrow> Some \<lparr>rr_outcome = Inr receipt, rr_log = l, rr_slept = slept\<rparr>
      | (Inr None, l) \<Rightarrow>
          if now i \<ge> deadline then
            Some \<lparr>rr_outcome = Inl (Error ''transaction was not mined before timeout''), rr_log = l, rr_slept = slept\<rparr>
          else receipt_loop fuel txHash deadline pollMs now p (Suc i) l (slept @ [pollMs]))"

definition waitForEthereumTransactionReceipt ::
  "nat \<Rightarrow> js_string \<Rightarrow> int option \<Rightarrow> int option \<Rightarrow> int \<Rightarrow> (nat \<Rightarrow> int) \<Rightarrow> provider \<Rightarrow> rpc_request list
    \<Rightarrow> receipt_result option" where
  "waitForEthereumTransactionReceipt fuel txHash timeoutMs pollMs start now p log =
     (let deadline = start + nullish timeoutMs (5 * 60 * 1000) in
      receipt_loop fuel txHash deadline (nullish pollMs (3 * 1000)) now p 0 log [])"

section \<open>Signatures\<close>

text \<open>\<open>try { return await c } catch { return await d }\<close>\<close>

definition wallet_catch :: "'a wallet \<Rightarrow> 'a wallet \<Rightarrow> 'a wallet" where
  "wallet_catch c d p log = (case c p log of (Inr x, l) \<Rightarrow> (Inr x, l) | (Inl _, l) \<Rightarrow> d p l)"

definition personalSign :: "js_string \<Rightarrow> js_string \<Rightarrow> json option wallet" where
  "personalSign message address =
     wallet_catch (provider_request ''personal_sign'' (Some [JStr message, JStr address]))
       (provider_request ''personal_sign'' (Some [JStr address, JStr message]))"

definition signTypedDataV4 :: "js_string \<Rightarrow> json \<Rightarrow> json option wallet" where
  "signTypedDataV4 address typedData =
     (let payload = (case typedData of JStr s \<Rightarrow> s | _ \<Rightarrow> json_stringify typedData);
          params = Some [JStr address, JStr payload] in
      wallet_catch (provider_request ''eth_signTypedData_v4'' params)
        (wallet_catch (provider_request ''eth_signTypedData_v3'' params)
          (provider_request ''eth_signTypedData'' params)))"

section \<open>Digests\<close>

definition pad_start2 :: "js_string \<Rightarrow> js_string" where
  "pad_start2 s = replicate (2 - length s) (CHR ''0'') @ s"

fun bytesToHex :: "nat list \<Rightarrow> js_string" where
  "bytesToHex [] = []"
| "bytesToHex (b # bs) = pad_start2 (nat_to_base 16 b) @ bytesToHex bs"

definition utf8_encode :: "js_string \<Rightarrow> nat list" where
  "utf8_encode s = concat (map utf8_char s)"

definition keccak256Utf8Hex :: "(nat list \<Rightarrow> nat list) \<Rightarrow> js_string \<Rightarrow> js_string" where
  "keccak256Utf8Hex keccak_256 message = ''0x'' @ bytesToHex (keccak_256 (utf8_encode message))"

section \<open>Transaction values\<close>

lemma hex_chars: "\<forall>c \<in> set (nat_to_base 16 n). hex_value c \<noteq> None"
proof (induction "16::nat" n rule: nat_to_base.induct)
  case (1 n)
  then show ?case by (cases "n < 16") (auto simp: nat_to_base.simps [of 16 n])
qed

lemma hex_value_no_space: "hex_value c \<noteq> None \<Longrightarrow> \<not> is_space c"
  by (auto simp: hex_value_def char_class_defs split: if_splits)

lemma string_of_nat_no_prefix:
  assumes "\<not> is_digit c"
  shows "\<not> startsWith (string_of_nat n) (a @ [c])"
proof
  assume "startsWith (string_of_nat n) (a @ [c])"
  then have "set (a @ [c]) \<subseteq> set (string_of_nat n)" by (metis startsWith_iff_prefix set_mono_prefix)
  then show False using string_of_nat_digits assms by auto
qed

lemma bigint_decimal: "bigint_of (string_of_nat n) = Some (int n)"
proof -
  have "js_trim (string_of_nat n) = string_of_nat n"
    by (rule trim_no_space) (use string_of_nat_digits [of n] in \<open>auto simp: char_class_defs\<close>)
  moreover have "\<not> startsWith (string_of_nat n) p" if "p \<in> {''0x'', ''0X'', ''0o'', ''0O'', ''0b'', ''0B'', ''-'', ''+''}" for p
    using that string_of_nat_no_prefix [of "last p" n "butlast p"] by (auto simp: is_digit_def)
  ultimately show ?thesis by (simp add: bigint_of_def has_hex_prefix_def digits_of_def)
qed

lemma bigint_hex: "bigint_of (''0x'' @ nat_to_base 16 n) = Some (int n)"
proof -
  have "\<not> is_space c" if "c \<in> set (''0x'' @ nat_to_base 16 n)" for c
  proof -
    have "c = CHR ''0'' \<or> c = CHR ''x'' \<or> hex_value c \<noteq> None" using that hex_chars [of n] by auto
    then show ?thesis by (elim disjE) (simp_all add: hex_value_no_space, simp_all add: is_space_def)
  qed
  then have "js_trim (''0x'' @ nat_to_base 16 n) = ''0x'' @ nat_to_base 16 n" by (rule trim_no_space)
  then show ?thesis by (simp add: bigint_of_def has_hex_prefix_def digits_of_def digits_value_nat_to_base startsWith_def)
qed

lemma bigint_minus: "0 < n \<Longrightarrow> bigint_of (CHR ''-'' # string_of_nat n) = Some (- int n)"
proof -
  have "\<not> is_space c" if "c \<in> set (CHR ''-'' # string_of_nat n)" for c
    using that string_of_nat_digits [of n] by (auto simp: char_class_defs)
  then have "js_trim (CHR ''-'' # string_of_nat n) = CHR ''-'' # string_of_nat n" by (rule trim_no_space)
  then show ?thesis by (simp add: bigint_of_def has_hex_prefix_def digits_of_def startsWith_def)
qed

lemma bigint_trim [simp]: "bigint_of (js_trim s) = bigint_of s"
  by (simp add: bigint_of_def)

text \<open>The value a caller means.\<close>

definition value_meant :: "js_string option \<Rightarrow> int option" where
  "value_meant value = bigint_of (opt_or value '''')"

lemma normalize_iff:
  "normalizeTransactionValue value =
     (case value_meant value of None \<Rightarrow> Inl SyntaxError | Some n \<Rightarrow> Inr (''0x'' @ hex_text n))"
proof (cases "js_trim (opt_or value '''') = []")
  case True
  have "nat_to_base 16 0 = ''0''" by (simp add: nat_to_base.simps hex_digit_def)
  then show ?thesis using True by (simp add: normalizeTransactionValue_def value_meant_def bigint_of_def hex_text_def)
next
  case False
  then show ?thesis by (simp add: normalizeTransactionValue_def value_meant_def Let_def)
qed

text \<open>A transaction value is sent as the hexadecimal text of the number that was meant, decimal or
  hexadecimal, blank being zero, and anything that is not a number is refused before the wallet is
  asked.  For a value that is not negative the text sent denotes the same number again; a negative
  one is not refused but sent as a malformed number with the sign after \<open>0x\<close>.\<close>

theorem transaction_value_preserved:
  "(value_meant value = None \<longrightarrow> sendEthereumTransaction \<lparr>tx_from = a, tx_to = b, tx_value = value, tx_data = d\<rparr> p log =
      (Inl SyntaxError, log)) \<and>
   (\<forall>n. value_meant value = Some n \<and> 0 \<le> n \<longrightarrow>
      (\<exists>s. normalizeTransactionValue value = Inr s \<and> value_meant (Some s) = Some n \<and>
         normalizeTransactionValue (Some s) = Inr s)) \<and>
   value_meant (Some (string_of_nat k)) = Some (int k) \<and>
   value_meant (Some (''0x'' @ nat_to_base 16 k)) = Some (int k) \<and>
   (0 < k \<longrightarrow> normalizeTransactionValue (Some (CHR ''-'' # string_of_nat k)) = Inr (''0x-'' @ nat_to_base 16 k) \<and>
      value_meant (Some (''0x-'' @ nat_to_base 16 k)) = None)"
proof (intro conjI impI allI)
  show "sendEthereumTransaction \<lparr>tx_from = a, tx_to = b, tx_value = value, tx_data = d\<rparr> p log = (Inl SyntaxError, log)"
    if "value_meant value = None" using that by (simp add: sendEthereumTransaction_def normalize_iff)
  show "\<exists>s. normalizeTransactionValue value = Inr s \<and> value_meant (Some s) = Some n \<and>
         normalizeTransactionValue (Some s) = Inr s" if "value_meant value = Some n \<and> 0 \<le> n" for n
  proof -
    have "value_meant (Some (''0x'' @ nat_to_base 16 (nat n))) = Some n"
      using that bigint_hex [of "nat n"] by (simp add: value_meant_def opt_or_def str_or_def)
    then show ?thesis using that by (simp add: normalize_iff hex_text_def)
  qed
  show "value_meant (Some (string_of_nat k)) = Some (int k)"
    by (simp add: value_meant_def opt_or_def str_or_def bigint_decimal)
  show "value_meant (Some (''0x'' @ nat_to_base 16 k)) = Some (int k)"
    using bigint_hex [of k] by (simp add: value_meant_def opt_or_def str_or_def)
  show "normalizeTransactionValue (Some (CHR ''-'' # string_of_nat k)) = Inr (''0x-'' @ nat_to_base 16 k)" if "0 < k"
    using bigint_minus [OF that] that by (simp add: normalize_iff value_meant_def opt_or_def str_or_def hex_text_def)
  have "\<not> is_space c" if "c \<in> set (''0x-'' @ nat_to_base 16 k)" for c
  proof -
    have "c = CHR ''0'' \<or> c = CHR ''x'' \<or> c = CHR ''-'' \<or> hex_value c \<noteq> None" using that hex_chars [of k] by auto
    then show ?thesis by (elim disjE) (simp_all add: hex_value_no_space, simp_all add: is_space_def)
  qed
  then have t: "js_trim (''0x-'' @ nat_to_base 16 k) = ''0x-'' @ nat_to_base 16 k" by (rule trim_no_space)
  have "hex_value (CHR ''-'') = None" by (simp add: hex_value_def is_digit_def)
  then show "value_meant (Some (''0x-'' @ nat_to_base 16 k)) = None"
    using t by (simp add: value_meant_def opt_or_def str_or_def bigint_of_def has_hex_prefix_def digits_of_def startsWith_def)
qed

theorem transaction_value_preserved_witness:
  "normalizeTransactionValue (Some (CHR ''-'' # string_of_nat 5)) = Inr (''0x-'' @ nat_to_base 16 5)"
  using transaction_value_preserved [where k = 5] by simp

section \<open>Waiting for a receipt\<close>

abbreviation receipt_request :: "js_string \<Rightarrow> rpc_request" where
  "receipt_request h \<equiv> \<lparr>rpc_method = ''eth_getTransactionReceipt'', rpc_params = Some [JStr h]\<rparr>"

text \<open>The answer to the \<open>i\<close>-th request of the loop, and whether it says that there is no receipt yet.\<close>

definition receipt_answer :: "provider \<Rightarrow> rpc_request list \<Rightarrow> js_string \<Rightarrow> nat \<Rightarrow> js_error + json option" where
  "receipt_answer p log h i = p (log @ replicate i (receipt_request h)) (receipt_request h)"

definition no_receipt :: "js_error + json option \<Rightarrow> bool" where
  "no_receipt a \<longleftrightarrow> a = Inr None \<or> a = Inr (Some JNull)"

lemma receipt_call:
  "getEthereumTransactionReceipt h p (log @ replicate i (receipt_request h)) =
     ((case receipt_answer p log h i of
         Inl e \<Rightarrow> Inl e
       | Inr None \<Rightarrow> Inr None
       | Inr (Some JNull) \<Rightarrow> Inr None
       | Inr (Some (JObj kvs)) \<Rightarrow> Inr (Some kvs)
       | Inr (Some _) \<Rightarrow> Inl (Error ''wallet returned invalid transaction receipt'')),
      log @ replicate (Suc i) (receipt_request h))"
  by (simp add: getEthereumTransactionReceipt_def wallet_then_def provider_request_def receipt_answer_def Let_def
      replicate_append_same split: sum.splits option.splits json.splits)

lemma receipt_loop_skip:
  assumes "\<And>j. j < k \<Longrightarrow> no_receipt (receipt_answer p log h (i + j)) \<and> now (i + j) < deadline"
  shows "receipt_loop (k + fuel) h deadline pollMs now p i (log @ replicate i (receipt_request h)) slept =
    receipt_loop fuel h deadline pollMs now p (i + k) (log @ replicate (i + k) (receipt_request h))
      (slept @ replicate k pollMs)"
  using assms
proof (induction k arbitrary: i slept)
  case (Suc k)
  have one: "receipt_loop (Suc k + fuel) h deadline pollMs now p i (log @ replicate i (receipt_request h)) slept =
      receipt_loop (k + fuel) h deadline pollMs now p (Suc i) (log @ replicate (Suc i) (receipt_request h)) (slept @ [pollMs])"
    using Suc.prems [of 0] by (auto simp: receipt_call no_receipt_def simp del: replicate.simps)
  show ?case unfolding one
    using Suc.IH [of "Suc i" "slept @ [pollMs]"] Suc.prems [of "Suc j" for j] by simp
qed simp

lemma receipt_loop_deadline:
  "deadline \<le> now (i + k) \<Longrightarrow>
     receipt_loop (Suc k) h deadline pollMs now p i (log @ replicate i (receipt_request h)) slept \<noteq> None"
proof (induction k arbitrary: i slept)
  case 0
  then show ?case by (auto simp: receipt_call split: sum.splits option.splits json.splits simp del: replicate.simps)
next
  case (Suc k)
  have "receipt_loop (Suc k) h deadline pollMs now p (Suc i) (log @ replicate (Suc i) (receipt_request h)) s \<noteq> None" for s
    by (rule Suc.IH) (use Suc.prems in simp)
  then show ?case
    by (subst receipt_loop.simps) (auto simp: receipt_call split: sum.splits option.splits json.splits
        simp del: replicate.simps receipt_loop.simps)
qed

text \<open>C33. Waiting for a receipt ends: when every sleep takes at least its poll time the wait returns
  after at most one more request than the timeout holds poll intervals, and if the receipt appears
  while the deadline has not passed it is returned at the first request that sees it, with exactly
  one sleep between two requests.\<close>

theorem receipt_wait_ends:
  fixes timeoutMs pollMs :: "int option" and start :: int
  assumes timeout_def: "timeout = nullish timeoutMs (5 * 60 * 1000)" and poll_def: "poll = nullish pollMs (3 * 1000)"
  shows "(0 < poll \<and> 0 \<le> timeout \<and> (\<forall>i. start + int i * poll \<le> now i) \<and> nat (timeout div poll) + 1 < fuel \<longrightarrow>
      (\<exists>r. waitForEthereumTransactionReceipt fuel h timeoutMs pollMs start now p log = Some r)) \<and>
   ((\<forall>j < n. no_receipt (receipt_answer p log h j) \<and> now j < start + timeout) \<and>
      receipt_answer p log h n = Inr (Some (JObj receipt)) \<longrightarrow>
      waitForEthereumTransactionReceipt (Suc (n + extra)) h timeoutMs pollMs start now p log =
        Some \<lparr>rr_outcome = Inr receipt, rr_log = log @ replicate (Suc n) (receipt_request h),
              rr_slept = replicate n poll\<rparr>)"
proof (intro conjI impI)
  assume a: "0 < poll \<and> 0 \<le> timeout \<and> (\<forall>i. start + int i * poll \<le> now i) \<and> nat (timeout div poll) + 1 < fuel"
  define k where "k = nat (timeout div poll) + 1"
  obtain x where x: "fuel = Suc (k + x)" using a less_iff_Suc_add k_def by auto
  have "timeout < (timeout div poll + 1) * poll" using a
    by (metis add.commute div_mult_mod_eq distrib_left mult.commute mult.right_neutral add_less_cancel_left pos_mod_bound)
  also have "timeout div poll + 1 = int k" using a by (simp add: k_def pos_imp_zdiv_nonneg_iff)
  also have "int k * poll \<le> int (k + x) * poll" using a by (simp add: mult_right_mono)
  finally have "start + timeout \<le> now (0 + (k + x))" using a [THEN conjunct2, THEN conjunct2, THEN conjunct1, rule_format, of "k + x"] by simp
  then show "\<exists>r. waitForEthereumTransactionReceipt fuel h timeoutMs pollMs start now p log = Some r"
    using receipt_loop_deadline [of "start + timeout" now 0 "k + x" h poll p log "[]"]
    by (auto simp: waitForEthereumTransactionReceipt_def x timeout_def poll_def simp del: receipt_loop.simps)
next
  assume a: "(\<forall>j < n. no_receipt (receipt_answer p log h j) \<and> now j < start + timeout) \<and>
      receipt_answer p log h n = Inr (Some (JObj receipt))"
  have "receipt_loop (n + Suc extra) h (start + timeout) poll now p 0 (log @ replicate 0 (receipt_request h)) [] =
      receipt_loop (Suc extra) h (start + timeout) poll now p (0 + n) (log @ replicate (0 + n) (receipt_request h))
        ([] @ replicate n poll)"
    by (rule receipt_loop_skip) (use a in simp)
  also have "\<dots> = Some \<lparr>rr_outcome = Inr receipt, rr_log = log @ replicate (Suc n) (receipt_request h),
      rr_slept = replicate n poll\<rparr>"
    using a by (simp add: receipt_call del: replicate.simps)
  finally show "waitForEthereumTransactionReceipt (Suc (n + extra)) h timeoutMs pollMs start now p log =
        Some \<lparr>rr_outcome = Inr receipt, rr_log = log @ replicate (Suc n) (receipt_request h), rr_slept = replicate n poll\<rparr>"
    by (simp add: waitForEthereumTransactionReceipt_def timeout_def poll_def del: receipt_loop.simps replicate.simps(2))
qed

theorem receipt_wait_ends_witness:
  "\<exists>r. waitForEthereumTransactionReceipt 102 ''0xab'' None None 0 (\<lambda>i. int i * 3000) (\<lambda>_ _. Inr None) [] = Some r"
proof -
  have "nullish None (5 * 60 * 1000) = (300000::int)" "nullish None (3 * 1000) = (3000::int)"
    by (simp_all add: nullish_def)
  then show ?thesis
    using receipt_wait_ends [of 300000 None 3000 None 0 "\<lambda>i. int i * 3000" 102 "''0xab''" "\<lambda>_ _. Inr None" "[]"]
    by simp
qed

section \<open>Signature fallbacks\<close>

lemma wallet_catch_requests:
  "wallet_catch (provider_request m ps) d p log =
     (case p log \<lparr>rpc_method = m, rpc_params = ps\<rparr> of
        Inr x \<Rightarrow> (Inr x, log @ [\<lparr>rpc_method = m, rpc_params = ps\<rparr>])
      | Inl _ \<Rightarrow> d p (log @ [\<lparr>rpc_method = m, rpc_params = ps\<rparr>]))"
  by (simp add: wallet_catch_def provider_request_def Let_def split: sum.splits)

definition typed_data_text :: "json \<Rightarrow> js_string" where
  "typed_data_text d = (case d of JStr s \<Rightarrow> s | _ \<Rightarrow> json_stringify d)"

text \<open>Signing asks the wallet with one payload only: the requests made for typed data are the first
  ones of the three method versions, all with the address and the same text, each sent only after
  every earlier one was rejected, and the answer is that of the last request made.  A message is
  signed in the same way with its two parameter orders, so any rejection, also the user's own,
  prompts a second time.\<close>

theorem signature_requests:
  "(\<exists>k < 3. snd (signTypedDataV4 addr d p log) = log @ take (Suc k)
        (map (\<lambda>m. \<lparr>rpc_method = m, rpc_params = Some [JStr addr, JStr (typed_data_text d)]\<rparr>)
           [''eth_signTypedData_v4'', ''eth_signTypedData_v3'', ''eth_signTypedData'']) \<and>
      fst (signTypedDataV4 addr d p log) =
        p (butlast (snd (signTypedDataV4 addr d p log))) (last (snd (signTypedDataV4 addr d p log))) \<and>
      (\<forall>j < k. \<exists>e. p (take (length log + j) (snd (signTypedDataV4 addr d p log)))
          (snd (signTypedDataV4 addr d p log) ! (length log + j)) = Inl e)) \<and>
   (let a = \<lparr>rpc_method = ''personal_sign'', rpc_params = Some [JStr msg, JStr addr]\<rparr>;
        b = \<lparr>rpc_method = ''personal_sign'', rpc_params = Some [JStr addr, JStr msg]\<rparr> in
    personalSign msg addr p log = (case p log a of Inr x \<Rightarrow> (Inr x, log @ [a]) | Inl _ \<Rightarrow> (p (log @ [a]) b, log @ [a, b])))"
proof (intro conjI)
  let ?r = "\<lambda>m. \<lparr>rpc_method = m, rpc_params = Some [JStr addr, JStr (typed_data_text d)]\<rparr>"
  let ?r4 = "?r ''eth_signTypedData_v4''" and ?r3 = "?r ''eth_signTypedData_v3''" and ?r1 = "?r ''eth_signTypedData''"
  have eq: "signTypedDataV4 addr d p log =
      (case p log ?r4 of Inr x \<Rightarrow> (Inr x, log @ [?r4])
       | Inl _ \<Rightarrow> (case p (log @ [?r4]) ?r3 of Inr x \<Rightarrow> (Inr x, log @ [?r4, ?r3])
          | Inl _ \<Rightarrow> (p (log @ [?r4, ?r3]) ?r1, log @ [?r4, ?r3, ?r1])))"
    by (simp add: signTypedDataV4_def wallet_catch_requests provider_request_def Let_def typed_data_text_def split: sum.splits)
  consider x where "p log ?r4 = Inr x"
    | e x where "p log ?r4 = Inl e" "p (log @ [?r4]) ?r3 = Inr x"
    | e f where "p log ?r4 = Inl e" "p (log @ [?r4]) ?r3 = Inl f"
    by (metis sum.exhaust)
  then show "\<exists>k < 3. snd (signTypedDataV4 addr d p log) = log @ take (Suc k)
        (map (\<lambda>m. \<lparr>rpc_method = m, rpc_params = Some [JStr addr, JStr (typed_data_text d)]\<rparr>)
           [''eth_signTypedData_v4'', ''eth_signTypedData_v3'', ''eth_signTypedData'']) \<and>
      fst (signTypedDataV4 addr d p log) =
        p (butlast (snd (signTypedDataV4 addr d p log))) (last (snd (signTypedDataV4 addr d p log))) \<and>
      (\<forall>j < k. \<exists>e. p (take (length log + j) (snd (signTypedDataV4 addr d p log)))
          (snd (signTypedDataV4 addr d p log) ! (length log + j)) = Inl e)"
  proof cases
    case 1
    then show ?thesis by (intro exI [of _ 0]) (simp add: eq)
  next
    case 2
    then show ?thesis by (intro exI [of _ 1]) (simp add: eq butlast_append numeral_2_eq_2)
  next
    case 3
    then show ?thesis
      by (intro exI [of _ 2]) (simp add: eq butlast_append numeral_2_eq_2 less_Suc_eq nth_append numeral_3_eq_3)
  qed
  show "let a = \<lparr>rpc_method = ''personal_sign'', rpc_params = Some [JStr msg, JStr addr]\<rparr>;
        b = \<lparr>rpc_method = ''personal_sign'', rpc_params = Some [JStr addr, JStr msg]\<rparr> in
    personalSign msg addr p log = (case p log a of Inr x \<Rightarrow> (Inr x, log @ [a]) | Inl _ \<Rightarrow> (p (log @ [a]) b, log @ [a, b]))"
    by (simp add: personalSign_def wallet_catch_requests provider_request_def Let_def split: sum.splits)
qed

theorem signature_requests_witness:
  "personalSign ''hi'' ''0xab'' (\<lambda>_ _. Inl AbortError) [] =
     (Inl AbortError, [\<lparr>rpc_method = ''personal_sign'', rpc_params = Some [JStr ''hi'', JStr ''0xab'']\<rparr>,
        \<lparr>rpc_method = ''personal_sign'', rpc_params = Some [JStr ''0xab'', JStr ''hi'']\<rparr>])"
  using signature_requests [of "''0xab''" JNull "\<lambda>_ _. Inl AbortError" "[]" "''hi''", THEN conjunct2] by simp

section \<open>Digests as text\<close>

fun hex_pairs :: "js_string \<Rightarrow> nat list option" where
  "hex_pairs [] = Some []"
| "hex_pairs (a # b # r) =
     (case digits_value 16 0 [a, b] of None \<Rightarrow> None | Some n \<Rightarrow> map_option ((#) n) (hex_pairs r))"
| "hex_pairs [a] = None"

lemma byte_hex: "b < 256 \<Longrightarrow> pad_start2 (nat_to_base 16 b) = [hex_digit (b div 16), hex_digit (b mod 16)]"
  by (cases "b < 16") (simp_all add: pad_start2_def nat_to_base.simps [of 16 b] nat_to_base.simps [of 16 "b div 16"]
      less_mult_imp_div_less hex_digit_def)

interpretation hex: codec bytesToHex hex_pairs "\<lambda>bs. \<forall>b \<in> set bs. b < 256"
proof
  fix bs :: "nat list" assume "\<forall>b \<in> set bs. b < 256"
  then show "hex_pairs (bytesToHex bs) = Some bs"
  proof (induction bs)
    case (Cons b bs)
    then have "b div 16 < 16" "b mod 16 < 16" "b < 256" by auto
    then show ?case using Cons by (simp add: byte_hex)
  qed simp
qed

lemma bytesToHex_length: "\<forall>b \<in> set bs. b < 256 \<Longrightarrow> length (bytesToHex bs) = 2 * length bs"
  by (induction bs) (simp_all add: byte_hex)

text \<open>The digest of a message is \<open>0x\<close> and two hexadecimal digits per byte, so that two messages have
  the same digest text exactly when the hash function gives the same bytes for their UTF-8 encodings.\<close>

theorem digest_text_faithful:
  assumes "\<And>m b. b \<in> set (hash m) \<Longrightarrow> b < 256"
  shows "(keccak256Utf8Hex hash m = keccak256Utf8Hex hash m' \<longleftrightarrow>
      hash (utf8_encode m) = hash (utf8_encode m')) \<and>
   hex_pairs (drop 2 (keccak256Utf8Hex hash m)) = Some (hash (utf8_encode m)) \<and>
   length (keccak256Utf8Hex hash m) = 2 + 2 * length (hash (utf8_encode m))"
proof -
  have v: "\<forall>b \<in> set (hash x). b < 256" for x using assms by blast
  show ?thesis
    using hex.enc_inject [OF v v] hex.dec_enc [OF v] bytesToHex_length [OF v] by (simp add: keccak256Utf8Hex_def)
qed

theorem digest_text_faithful_witness:
  "hex_pairs (drop 2 (keccak256Utf8Hex (\<lambda>m. [length m mod 256, 171]) ''abc'')) = Some [3, 171]"
proof -
  have "hex_pairs (drop 2 (keccak256Utf8Hex (\<lambda>m. [length m mod 256, 171]) ''abc'')) =
      Some [length (utf8_encode ''abc'') mod 256, 171]"
    by (rule digest_text_faithful [THEN conjunct2, THEN conjunct1]) auto
  then show ?thesis by (simp add: utf8_encode_def utf8_char_def)
qed

end
