(* ===== verification/Jcs.thy ===== *)
theory Jcs
  imports Http "HOL-Library.Multiset"
begin

text \<open>
  JSON canonicalisation, \<^verbatim>\<open>web/src/lib/wallet/jcs.ts\<close>: the text whose digest is signed.  The input is any
  JavaScript value, so that what is not JSON is a case of the model: a number that is not finite, an
  undefined member, and the types that are refused.

  The result of the theory is that the text is canonical: two JSON values have the same text exactly
  when they are equal up to the order of object members.
\<close>

section \<open>The code\<close>

datatype js_value =
    VNull
  | VBool bool
  | VNum "js_string option"
  | VStr js_string
  | VArr "js_value list"
  | VObj "(js_string \<times> js_value) list"
  | VUndefined
  | VOther js_string

text \<open>\<open>VNum None\<close> is a number that is not finite; \<open>VOther\<close> carries the \<open>typeof\<close> of a function, a
  symbol or a bigint.  The members of \<open>VObj\<close> have distinct keys.\<close>

fun collect_or_throw :: "(js_error + 'a) list \<Rightarrow> js_error + 'a list" where
  "collect_or_throw [] = Inr []"
| "collect_or_throw (Inl e # xs) = Inl e"
| "collect_or_throw (Inr x # xs) = (case collect_or_throw xs of Inl e \<Rightarrow> Inl e | Inr ys \<Rightarrow> Inr (x # ys))"

text \<open>The members are visited in the order of their sorted keys, the undefined ones skipped.\<close>

fun canonicalize :: "js_value \<Rightarrow> js_error + js_string" where
  "canonicalize VNull = Inr ''null''"
| "canonicalize (VBool b) = Inr (if b then ''true'' else ''false'')"
| "canonicalize (VNum None) = Inr ''null''"
| "canonicalize (VNum (Some n)) = Inr n"
| "canonicalize (VStr s) = Inr (json_quote s)"
| "canonicalize VUndefined = Inl (Error ''Unsupported value type for JCS: undefined'')"
| "canonicalize (VOther t) = Inl (Error (''Unsupported value type for JCS: '' @ t))"
| "canonicalize (VArr xs) =
     (case collect_or_throw (map canonicalize xs) of
        Inl e \<Rightarrow> Inl e
      | Inr ps \<Rightarrow> Inr (''['' @ join '','' ps @ '']''))"
| "canonicalize (VObj kvs) =
     (case collect_or_throw
        (map snd (sort_key fst
          (map (\<lambda>(k, v). (k, case canonicalize v of Inl e \<Rightarrow> Inl e | Inr t \<Rightarrow> Inr (json_quote k @ '':'' @ t)))
            (filter (\<lambda>(k, v). v \<noteq> VUndefined) kvs)))) of
        Inl e \<Rightarrow> Inl e
      | Inr parts \<Rightarrow> Inr (''{'' @ join '','' parts @ ''}''))"

definition jcsCanonicalize :: "js_value \<Rightarrow> js_error + js_string" where
  "jcsCanonicalize value = canonicalize value"

section \<open>The reference: sort the members, then print\<close>

fun value_of :: "json \<Rightarrow> js_value" where
  "value_of JNull = VNull"
| "value_of (JBool b) = VBool b"
| "value_of (JNum n) = VNum (Some n)"
| "value_of (JStr s) = VStr s"
| "value_of (JArr xs) = VArr (map value_of xs)"
| "value_of (JObj kvs) = VObj (map (\<lambda>(k, v). (k, value_of v)) kvs)"

fun sort_json :: "json \<Rightarrow> json" where
  "sort_json (JArr xs) = JArr (map sort_json xs)"
| "sort_json (JObj kvs) = JObj (sort_key fst (map (\<lambda>(k, v). (k, sort_json v)) kvs))"
| "sort_json v = v"

lemma insort_key_map: "(\<And>x. g (h x) = f x) \<Longrightarrow> insort_key g (h x) (map h xs) = map h (insort_key f x xs)"
  by (induction xs) simp_all

lemma sort_key_map: "(\<And>x. g (h x) = f x) \<Longrightarrow> sort_key g (map h xs) = map h (sort_key f xs)"
  by (induction xs) (simp_all add: insort_key_map)

lemma sort_key_map_fst: "sort_key fst (map (\<lambda>(k, v). (k, g k v)) kvs) = map (\<lambda>(k, v). (k, g k v)) (sort_key fst kvs)"
  by (rule sort_key_map) auto

lemma collect_Inr [simp]: "collect_or_throw (map Inr xs) = Inr xs"
  by (induction xs) simp_all

lemma collect_map_Inr: "(\<And>x. x \<in> set xs \<Longrightarrow> f x = Inr (g x)) \<Longrightarrow> collect_or_throw (map f xs) = Inr (map g xs)"
  by (induction xs) simp_all

lemma value_of_defined [simp]: "value_of v \<noteq> VUndefined"
  by (cases v) simp_all

lemma canonicalize_json: "canonicalize (value_of v) = Inr (json_stringify (sort_json v))"
proof (induction v rule: value_of.induct)
  case (5 xs)
  then have "collect_or_throw (map (canonicalize \<circ> value_of) xs) = Inr (map (json_stringify \<circ> sort_json) xs)"
    by (intro collect_map_Inr) simp
  then show ?case by simp
next
  case (6 kvs)
  let ?t = "\<lambda>(k, v). json_quote k @ '':'' @ json_stringify (sort_json v)"
  let ?s = "sort_key fst kvs"
  have "filter (\<lambda>(k, v). v \<noteq> VUndefined) (map (\<lambda>(k, v). (k, value_of v)) kvs) = map (\<lambda>(k, v). (k, value_of v)) kvs"
    by (auto simp: filter_id_conv)
  moreover have "map snd (sort_key fst (map (\<lambda>(k, v). (k, case canonicalize v of Inl e \<Rightarrow> Inl e
      | Inr t \<Rightarrow> Inr (json_quote k @ '':'' @ t))) (map (\<lambda>(k, v). (k, value_of v)) kvs))) =
      map (\<lambda>(k, v). case canonicalize (value_of v) of Inl e \<Rightarrow> Inl e | Inr t \<Rightarrow> Inr (json_quote k @ '':'' @ t)) ?s"
    unfolding sort_key_map_fst by (auto simp: case_prod_unfold comp_def split: sum.splits)
  moreover have "collect_or_throw \<dots> = Inr (map ?t ?s)"
    by (rule collect_map_Inr) (use 6 in auto)
  moreover have "json_stringify (sort_json (JObj kvs)) = ''{'' @ join '','' (map ?t ?s) @ ''}''"
    unfolding sort_json.simps sort_key_map_fst json_stringify.simps by (simp add: comp_def case_prod_unfold)
  ultimately show ?case by simp
qed simp_all

section \<open>Equality up to member order\<close>

inductive json_equiv :: "json \<Rightarrow> json \<Rightarrow> bool" where
  equiv_refl: "json_equiv v v"
| equiv_sym: "json_equiv v w \<Longrightarrow> json_equiv w v"
| equiv_trans: "json_equiv u v \<Longrightarrow> json_equiv v w \<Longrightarrow> json_equiv u w"
| equiv_arr: "list_all2 json_equiv xs ys \<Longrightarrow> json_equiv (JArr xs) (JArr ys)"
| equiv_obj: "list_all2 (rel_prod (=) json_equiv) kvs lvs \<Longrightarrow> json_equiv (JObj kvs) (JObj lvs)"
| equiv_perm: "distinct (map fst kvs) \<Longrightarrow> mset kvs = mset lvs \<Longrightarrow> json_equiv (JObj kvs) (JObj lvs)"

lemma sort_perm_eq:
  fixes kvs lvs :: "('k::linorder \<times> 'v) list"
  assumes "distinct (map fst kvs)" and "mset kvs = mset lvs"
  shows "sort_key fst kvs = sort_key fst lvs"
proof -
  have "inj_on fst (set kvs)" using assms(1) by (simp add: distinct_map)
  then show ?thesis by (intro sort_key_inj_key_eq) (simp_all add: assms(2))
qed

lemma equiv_sort: "json_equiv v w \<Longrightarrow> sort_json v = sort_json w"
proof (induction rule: json_equiv.induct)
  case (equiv_arr xs ys)
  then have "map sort_json xs = map sort_json ys" by (intro nth_equalityI) (auto simp: list_all2_conv_all_nth)
  then show ?case by simp
next
  case (equiv_obj kvs lvs)
  then have "map (\<lambda>(k, v). (k, sort_json v)) kvs = map (\<lambda>(k, v). (k, sort_json v)) lvs"
    by (intro nth_equalityI) (auto simp: list_all2_conv_all_nth rel_prod_sel case_prod_unfold)
  then show ?case by (simp only: sort_json.simps)
next
  case (equiv_perm kvs lvs)
  then show ?case by (simp add: sort_key_map_fst sort_perm_eq [of kvs lvs])
qed simp_all

lemma sort_equiv: "wf_json v \<Longrightarrow> json_equiv v (sort_json v)"
proof (induction v rule: sort_json.induct)
  case (1 xs)
  then have "list_all2 json_equiv xs (map sort_json xs)" by (simp add: list_all2_conv_all_nth list_all_length)
  then show ?case by (simp add: equiv_arr)
next
  case (2 kvs)
  let ?s = "map (\<lambda>(k, v). (k, sort_json v)) kvs"
  have "json_equiv v (sort_json v)" if "(k, v) \<in> set kvs" for k v
    using 2 that by (fastforce simp: list_all_iff)
  then have "json_equiv (snd (kvs ! i)) (sort_json (snd (kvs ! i)))" if "i < length kvs" for i
    using that by (metis nth_mem prod.collapse)
  then have "json_equiv (JObj kvs) (JObj ?s)"
    by (intro equiv_obj) (auto simp: list_all2_conv_all_nth rel_prod_sel case_prod_unfold)
  moreover have "distinct (map fst ?s)" using 2 by (simp add: case_prod_unfold comp_def)
  then have "json_equiv (JObj ?s) (JObj (sort_key fst ?s))" by (intro equiv_perm) simp_all
  ultimately show ?case by (auto intro: equiv_trans)
qed (simp_all add: equiv_refl)

lemma distinct_map_sort: "distinct (map f (sort_key g xs)) = distinct (map f xs)"
  by (rule mset_eq_imp_distinct_iff) (simp add: mset_map)

lemma wf_sort: "wf_json v \<Longrightarrow> wf_json (sort_json v)"
proof (induction v rule: sort_json.induct)
  case (2 kvs)
  let ?s = "map (\<lambda>(k, v). (k, sort_json v)) kvs"
  have "distinct (map fst (sort_key fst ?s))"
    unfolding distinct_map_sort using 2 by (simp add: case_prod_unfold comp_def)
  then show ?case using 2 by (fastforce simp: list_all_iff)
qed (simp_all add: list_all_iff)

text \<open>C32. The canonical text is canonical: two JSON values get the same text exactly when they are equal
  up to the order of object members at every depth, the text is never refused, it parses back to
  a value equal to the given one in that sense, and the members of that value are in key order.\<close>

theorem jcs_canonical:
  assumes "wf_json v" and "wf_json w"
  shows "(jcsCanonicalize (value_of v) = jcsCanonicalize (value_of w) \<longleftrightarrow> json_equiv v w) \<and>
    (\<exists>text parsed. jcsCanonicalize (value_of v) = Inr text \<and> json_parse text = Some parsed \<and> json_equiv v parsed \<and>
       (\<forall>kvs. parsed = JObj kvs \<longrightarrow> sorted (map fst kvs)))"
proof -
  have "sort_json v = sort_json w \<longleftrightarrow> json_equiv v w"
    using equiv_sort sort_equiv assms by (metis equiv_sym equiv_trans)
  moreover have "sorted (map fst kvs)" if "sort_json v = JObj kvs" for kvs
    using that by (cases v) auto
  moreover have "jcsCanonicalize (value_of v) = Inr (json_stringify (sort_json v))"
    "json_parse (json_stringify (sort_json v)) = Some (sort_json v)" "json_equiv v (sort_json v)"
    using json_codec.dec_enc wf_sort sort_equiv assms by (simp_all add: jcsCanonicalize_def canonicalize_json)
  ultimately show ?thesis
    using json_codec.enc_inject [OF wf_sort wf_sort, OF assms] by (simp add: jcsCanonicalize_def canonicalize_json)
qed

theorem jcs_canonical_witness:
  "jcsCanonicalize (value_of (JObj [(''b'', JNull), (''a'', JBool True)])) =
   jcsCanonicalize (value_of (JObj [(''a'', JBool True), (''b'', JNull)]))"
proof -
  have "json_equiv (JObj [(''b'', JNull), (''a'', JBool True)]) (JObj [(''a'', JBool True), (''b'', JNull)])"
    by (rule equiv_perm) simp_all
  then show ?thesis
    using jcs_canonical [of "JObj [(''b'', JNull), (''a'', JBool True)]" "JObj [(''a'', JBool True), (''b'', JNull)]"] by simp
qed

end
