(* ===== verification/Safe_App.thy ===== *)
theory Safe_App
  imports Router Http
begin

text \<open>
  The Safe app integration, \<^verbatim>\<open>web/src/lib/wallet/safeApp.ts\<close>: the link that opens the app inside the Safe
  wallet, detection of the surrounding wallet, the summary of an execution and the pending
  transaction hashes kept in local storage.

  The Safe SDK is third-party code: what it answers is an argument.  A promise raced against a timer
  is given by which of the two events comes first.
\<close>

definition SAFE_APP_TX_KEY_PREFIX :: js_string where
  "SAFE_APP_TX_KEY_PREFIX = ''lesser-host:safe-app:tx:v1:''"

definition SAFE_WALLET_APPS_OPEN_URL :: js_string where
  "SAFE_WALLET_APPS_OPEN_URL = ''https://app.safe.global/apps/open''"

record SafeAppExecutionStatus =
  sx_txStatus :: "js_string option"
  sx_txHash :: "js_string option"
  sx_executedAt :: "js_string option"
  sx_confirmationsRequired :: "js_string option"
  sx_confirmationsSubmitted :: "js_string option"

definition safeChainSlugForChainId :: "int \<Rightarrow> js_string option" where
  "safeChainSlugForChainId chainId =
     (if chainId = 1 then Some ''eth'' else if chainId = 11155111 then Some ''sep'' else None)"

record safe_link =
  sl_appUrl :: js_string
  sl_safeAddress :: js_string
  sl_chainId :: int

text \<open>The base URL has no query, so its \<open>searchParams\<close> start empty.\<close>

definition buildSafeWalletAppUrl :: "safe_link \<Rightarrow> js_string option" where
  "buildSafeWalletAppUrl input =
     (case safeChainSlugForChainId (sl_chainId input) of
        None \<Rightarrow> None
      | Some safeChainSlug \<Rightarrow>
          if sl_appUrl input = [] \<or> sl_safeAddress input = [] then None
          else
            (let params = usp_set (usp_set [] ''safe'' (safeChainSlug @ '':'' @ sl_safeAddress input))
                            ''appUrl'' (sl_appUrl input) in
             Some (SAFE_WALLET_APPS_OPEN_URL @ ''?'' @ usp_to_string params)))"

datatype 'a race = PromiseFirst "js_error + 'a" | TimerFirst

definition withTimeout :: "'a race \<Rightarrow> js_error + 'a" where
  "withTimeout r =
     (case r of PromiseFirst s \<Rightarrow> s | TimerFirst \<Rightarrow> Inl (Error ''safe app detection timed out''))"

text \<open>\<open>framed\<close> is \<open>window.self !== window.top\<close>; the SDK is asked only then.\<close>

definition detectSafeAppContext :: "bool \<Rightarrow> bool \<Rightarrow> 'info race \<Rightarrow> 'info option" where
  "detectSafeAppContext has_window framed getInfo =
     (if \<not> has_window \<or> \<not> framed then None
      else (case withTimeout getInfo of Inl _ \<Rightarrow> None | Inr info \<Rightarrow> Some info))"

definition number_member :: "json \<Rightarrow> js_string \<Rightarrow> js_string option" where
  "number_member j k = (case obj_get j k of Some (JNum n) \<Rightarrow> Some n | _ \<Rightarrow> None)"

text \<open>Truthiness of the optional \<open>detailedExecutionInfo\<close>, whose type says it is an object.\<close>

definition summarizeSafeAppExecution :: "json option \<Rightarrow> SafeAppExecutionStatus" where
  "summarizeSafeAppExecution details =
     (case details of
        Some (JObj kvs) \<Rightarrow>
          (let d = JObj kvs;
               execInfo = (case obj_get d ''detailedExecutionInfo'' of Some (JObj e) \<Rightarrow> Some (JObj e) | _ \<Rightarrow> None) in
           \<lparr>sx_txStatus = string_member d ''txStatus'',
            sx_txHash = (case string_member d ''txHash'' of Some h \<Rightarrow> if h \<noteq> [] then Some h else None | None \<Rightarrow> None),
            sx_executedAt = number_member d ''executedAt'',
            sx_confirmationsRequired = (case execInfo of None \<Rightarrow> None | Some e \<Rightarrow> number_member e ''confirmationsRequired''),
            sx_confirmationsSubmitted = (case execInfo of None \<Rightarrow> None | Some e \<Rightarrow> number_member e ''confirmationsSubmitted'')\<rparr>)
      | _ \<Rightarrow> \<lparr>sx_txStatus = None, sx_txHash = None, sx_executedAt = None,
              sx_confirmationsRequired = None, sx_confirmationsSubmitted = None\<rparr>)"

section \<open>Pending transactions\<close>

definition txStorageKey :: "js_string \<Rightarrow> js_string" where
  "txStorageKey operationId = SAFE_APP_TX_KEY_PREFIX @ operationId"

definition loadPendingSafeAppTxHash :: "js_string \<Rightarrow> web_storage \<Rightarrow> js_string" where
  "loadPendingSafeAppTxHash operationId ls =
     (case getItem (txStorageKey operationId) ls of Inl _ \<Rightarrow> [] | Inr v \<Rightarrow> opt_or v '''')"

definition savePendingSafeAppTxHash :: "js_string \<Rightarrow> js_string \<Rightarrow> web_storage \<Rightarrow> web_storage" where
  "savePendingSafeAppTxHash operationId safeTxHash ls =
     try_or ls (setItem (txStorageKey operationId) safeTxHash ls)"

definition clearPendingSafeAppTxHash :: "js_string \<Rightarrow> web_storage \<Rightarrow> web_storage" where
  "clearPendingSafeAppTxHash operationId ls = try_or ls (removeItem (txStorageKey operationId) ls)"

section \<open>Properties\<close>

lemma txStorageKey_inject [simp]: "txStorageKey a = txStorageKey b \<longleftrightarrow> a = b"
  by (simp add: txStorageKey_def)

lemma safe_link_query:
  "query_of (SAFE_WALLET_APPS_OPEN_URL @ ''?'' @ usp_to_string ps) = Some ps"
proof -
  have "\<forall>c \<in> set SAFE_WALLET_APPS_OPEN_URL. c \<noteq> CHR ''?'' \<and> c \<noteq> CHR ''#''"
    by (simp add: SAFE_WALLET_APPS_OPEN_URL_def)
  then have "url_query (SAFE_WALLET_APPS_OPEN_URL @ ''?'' @ usp_to_string ps) = usp_to_string ps"
    using usp_no_hash [of ps] by (auto simp: url_query_def)
  then show ?thesis by (simp add: query_of_def parse_query_usp)
qed

text \<open>The link into the Safe wallet carries the Safe's address with the prefix of its chain and the
  app's URL unchanged, whatever characters they hold, and no link is made for any other chain or
  when one of the two is missing.\<close>

theorem safe_link_faithful:
  "(case buildSafeWalletAppUrl input of
      Some url \<Rightarrow> startsWith url (SAFE_WALLET_APPS_OPEN_URL @ ''?'') \<and> sl_chainId input \<in> {1, 11155111} \<and>
        query_of url = Some [(''safe'', (if sl_chainId input = 1 then ''eth'' else ''sep'') @ '':'' @ sl_safeAddress input),
          (''appUrl'', sl_appUrl input)]
    | None \<Rightarrow> sl_chainId input \<notin> {1, 11155111} \<or> sl_appUrl input = [] \<or> sl_safeAddress input = [])"
  using safe_link_query
  by (auto simp: buildSafeWalletAppUrl_def safeChainSlugForChainId_def Let_def usp_set_def startsWith_iff_prefix)

text \<open>The pending hashes of different operations do not disturb each other: after saving, the hash
  of that operation loads and every other is as before; clearing removes only its own; and nothing
  throws on a blocked storage, where no hash is found.\<close>

theorem pending_hash_store:
  "(ws_accessible ls \<and> ws_writable ls \<longrightarrow>
      loadPendingSafeAppTxHash b (savePendingSafeAppTxHash a h ls) = (if b = a then h else loadPendingSafeAppTxHash b ls)) \<and>
   loadPendingSafeAppTxHash b (clearPendingSafeAppTxHash a ls) = (if b = a then [] else loadPendingSafeAppTxHash b ls) \<and>
   (\<not> ws_accessible ls \<longrightarrow> savePendingSafeAppTxHash a h ls = ls \<and> loadPendingSafeAppTxHash a ls = [])"
proof (intro conjI impI)
  assume "ws_accessible ls \<and> ws_writable ls"
  then obtain s where "setItem (txStorageKey a) h ls = Inr s" by (simp add: setItem_def)
  then show "loadPendingSafeAppTxHash b (savePendingSafeAppTxHash a h ls) = (if b = a then h else loadPendingSafeAppTxHash b ls)"
    using storage.get_set [of "txStorageKey a" h ls s "txStorageKey b"]
    by (simp add: loadPendingSafeAppTxHash_def savePendingSafeAppTxHash_def try_or_def opt_or_def str_or_def)
next
  show "loadPendingSafeAppTxHash b (clearPendingSafeAppTxHash a ls) = (if b = a then [] else loadPendingSafeAppTxHash b ls)"
  proof (cases "getItem (txStorageKey a) ls")
    case (Inr x)
    then show ?thesis using storage.del_try [OF Inr, of "txStorageKey b"]
      by (simp add: loadPendingSafeAppTxHash_def clearPendingSafeAppTxHash_def opt_or_def)
  next
    case (Inl e)
    then show ?thesis
      by (simp add: loadPendingSafeAppTxHash_def clearPendingSafeAppTxHash_def getItem_def removeItem_def try_or_def split: if_splits)
  qed
qed (simp_all add: savePendingSafeAppTxHash_def loadPendingSafeAppTxHash_def getItem_def setItem_def try_or_def)

theorem pending_hash_store_witness:
  "loadPendingSafeAppTxHash ''op1'' (savePendingSafeAppTxHash ''op1'' ''0xab''
     \<lparr>ws_items = (\<lambda>_. None), ws_accessible = True, ws_writable = True\<rparr>) = ''0xab''"
  using pending_hash_store [of "\<lparr>ws_items = (\<lambda>_. None), ws_accessible = True, ws_writable = True\<rparr>" "''op1''" "''op1''"] by simp

end
