(* ===== verification/Edge.thy ===== *)
theory Edge
  imports Uri
begin

text \<open>
  The edge of the deployment, \<^verbatim>\<open>cdk/lib/web-delivery.ts\<close> and \<^verbatim>\<open>cdk/lib/web-acl-rules.ts\<close>: the ordered CloudFront
  behaviours that send a path to the control plane, its streaming API, the trust API or the
  buckets, the viewer function that rewrites application paths, and the web ACL rules.

  \<open>configureWebDelivery\<close> is modelled by the list of behaviours it attaches, in its order.  The
  behaviours and the default that the third-party site construct brings are parameters.  Path patterns
  have CloudFront's meaning: \<open>*\<close> stands for any characters, \<open>?\<close> for one, the leading slash is
  optional, and the first matching behaviour wins.  The outcome of an AWS managed rule group is a
  parameter: the rules of the group that match a request, each with its label.
\<close>

section \<open>Path patterns\<close>

fun glob :: "js_string \<Rightarrow> js_string \<Rightarrow> bool" where
  "glob [] s = (s = [])"
| "glob (p # ps) [] = (p = CHR ''*'' \<and> glob ps [])"
| "glob (p # ps) (c # s) =
     (if p = CHR ''*'' then glob ps (c # s) \<or> glob (p # ps) s
      else (p = CHR ''?'' \<or> p = c) \<and> glob ps s)"

definition no_wildcard :: "js_string \<Rightarrow> bool" where
  "no_wildcard p \<longleftrightarrow> CHR ''*'' \<notin> set p \<and> CHR ''?'' \<notin> set p"

definition strip_slash :: "js_string \<Rightarrow> js_string" where
  "strip_slash path = (if startsWith path ''/'' then tl path else path)"

section \<open>Behaviours\<close>

datatype edge_origin =
    ControlPlaneOrigin | ControlPlaneSseOrigin | TrustOrigin | WebBucketOrigin | SidecarOrigin | SiteOrigin

datatype allowed_methods = AllowAll | AllowGetHeadOptions

datatype cache_policy = CachingDisabled | CachingOptimized

datatype headers_policy = WebSecurityHeaders | SafeAppSecurityHeaders | ApiSecurityHeaders

record behavior =
  bh_origin :: edge_origin
  bh_methods :: allowed_methods
  bh_cache :: cache_policy
  bh_forward_viewer :: bool
  bh_headers :: headers_policy
  bh_rewrite :: bool

definition api_like :: "edge_origin \<Rightarrow> allowed_methods \<Rightarrow> cache_policy \<Rightarrow> behavior" where
  "api_like orig meths cache =
     \<lparr>bh_origin = orig, bh_methods = meths, bh_cache = cache, bh_forward_viewer = True,
      bh_headers = ApiSecurityHeaders, bh_rewrite = False\<rparr>"

definition apiBehavior :: behavior where
  "apiBehavior = api_like ControlPlaneOrigin AllowAll CachingDisabled"

definition apiSseBehavior :: behavior where
  "apiSseBehavior = api_like ControlPlaneSseOrigin AllowAll CachingDisabled"

definition trustApiBehavior :: behavior where
  "trustApiBehavior = api_like TrustOrigin AllowAll CachingDisabled"

definition trustBehaviorNoCache :: behavior where
  "trustBehaviorNoCache = api_like TrustOrigin AllowGetHeadOptions CachingDisabled"

definition trustBehaviorCached :: behavior where
  "trustBehaviorCached = api_like TrustOrigin AllowGetHeadOptions CachingOptimized"

definition bucket_behaviors :: "(js_string \<times> behavior) list" where
  "bucket_behaviors =
     [(''_facetheory/data/*'',
       \<lparr>bh_origin = SidecarOrigin, bh_methods = AllowGetHeadOptions, bh_cache = CachingOptimized,
        bh_forward_viewer = False, bh_headers = WebSecurityHeaders, bh_rewrite = False\<rparr>),
      (''safe-app*'',
       \<lparr>bh_origin = WebBucketOrigin, bh_methods = AllowGetHeadOptions, bh_cache = CachingOptimized,
        bh_forward_viewer = False, bh_headers = SafeAppSecurityHeaders, bh_rewrite = True\<rparr>)]"

definition bearer_behaviors :: "(js_string \<times> behavior) list" where
  "bearer_behaviors =
     [(''resolve*'', trustBehaviorNoCache),
      (''health*'', trustBehaviorNoCache),
      (''api/v1/previews*'', trustApiBehavior),
      (''api/v1/renders*'', trustApiBehavior),
      (''api/v1/trust/*'', trustApiBehavior),
      (''api/v1/publish/jobs*'', trustApiBehavior),
      (''api/v1/soul/agents/*/update-registration'', trustApiBehavior),
      (''api/v1/ai/*'', trustApiBehavior),
      (''api/v1/budget/debit'', trustApiBehavior),
      (''api/v1/soul/agents/register/*/mint-conversation*'', apiSseBehavior),
      (''api/v1/soul/agents/*/mint-conversation*'', apiSseBehavior),
      (''api/v1/soul/instance/agents/register/*/mint-conversation*'', apiBehavior),
      (''api/*'', apiBehavior),
      (''auth/*'', apiBehavior),
      (''webhooks/*'', apiBehavior),
      (''setup/status'', apiBehavior),
      (''setup/bootstrap/*'', apiBehavior),
      (''setup/admin'', apiBehavior),
      (''setup/finalize'', apiBehavior),
      (''.well-known/*'', trustBehaviorCached),
      (''attestations'', trustBehaviorNoCache),
      (''attestations/*'', trustBehaviorCached)]"

text \<open>What the distribution does with a path: the construct's own behaviours come first.\<close>

record site =
  site_behaviors :: "(js_string \<times> behavior) list"
  site_default :: behavior

definition all_behaviors :: "site \<Rightarrow> (js_string \<times> behavior) list" where
  "all_behaviors st = site_behaviors st @ bucket_behaviors @ bearer_behaviors"

definition behavior_for :: "site \<Rightarrow> js_string \<Rightarrow> behavior" where
  "behavior_for st path =
     (case find (\<lambda>(p, _). glob (strip_slash p) (strip_slash path)) (all_behaviors st) of
        Some (_, b) \<Rightarrow> b
      | None \<Rightarrow> site_default st)"

definition method_allowed :: "allowed_methods \<Rightarrow> js_string \<Rightarrow> bool" where
  "method_allowed ms m = (ms = AllowAll \<or> m \<in> {''GET'', ''HEAD'', ''OPTIONS''})"

section \<open>The viewer function\<close>

definition webSpaRewrite :: "js_string \<Rightarrow> js_string" where
  "webSpaRewrite request_uri =
     (let uri = str_or request_uri ''/'';
          isSetupApi = (uri = ''/setup/status'' \<or> uri = ''/setup/admin'' \<or> uri = ''/setup/finalize'' \<or>
            startsWith uri ''/setup/bootstrap/'') in
      if startsWith uri ''/api/'' \<or> startsWith uri ''/auth/'' \<or> startsWith uri ''/webhooks/'' \<or>
         startsWith uri ''/resolve'' \<or> startsWith uri ''/health'' \<or> isSetupApi \<or>
         startsWith uri ''/.well-known/'' \<or> startsWith uri ''/attestations''
      then request_uri
      else if CHR ''.'' \<in> set uri then request_uri
      else ''/index.html'')"

section \<open>The domain\<close>

definition webDomainName :: "js_string \<Rightarrow> js_string \<Rightarrow> js_string" where
  "webDomainName stage rootDomain = (if stage = ''live'' then rootDomain else stage @ ''.'' @ rootDomain)"

definition publicBaseURL :: "js_string \<Rightarrow> js_string \<Rightarrow> js_string" where
  "publicBaseURL stage rootDomain = ''https://'' @ webDomainName stage rootDomain"

definition shouldUseLocalWebBundling :: "(js_string \<Rightarrow> js_string option) \<Rightarrow> bool" where
  "shouldUseLocalWebBundling env \<longleftrightarrow> env ''CI'' \<noteq> Some ''true'' \<and> env ''GITHUB_ACTIONS'' \<noteq> Some ''true''"

section \<open>Web ACL rules\<close>

definition NO_USER_AGENT_MANAGED_LABEL :: js_string where
  "NO_USER_AGENT_MANAGED_LABEL = ''awswaf:managed:aws:core-rule-set:NoUserAgent_Header''"

datatype waf_statement =
    ManagedGroup js_string "js_string list"
  | LabelMatch js_string
  | UriPathExactly js_string
  | RateLimit nat
  | AndStatement "waf_statement list"
  | NotStatement waf_statement

text \<open>\<open>ManagedGroup\<close> names the group and the rules whose action is overridden to count; a group's own
  actions apply (\<open>overrideAction: none\<close>), every other rule blocks.\<close>

record waf_rule =
  wr_name :: js_string
  wr_priority :: nat
  wr_statement :: waf_statement
  wr_metric :: js_string

definition hostWebAclRules :: "js_string \<Rightarrow> js_string \<Rightarrow> waf_rule list" where
  "hostWebAclRules namePrefix stage =
     [\<lparr>wr_name = ''AWSManagedRulesCommonRuleSet'', wr_priority = 0,
       wr_statement = ManagedGroup ''AWSManagedRulesCommonRuleSet'' [''NoUserAgent_HEADER''],
       wr_metric = namePrefix @ ''-waf-common''\<rparr>,
      \<lparr>wr_name = ''BlockNoUserAgentExceptResolve'', wr_priority = 1,
       wr_statement = AndStatement [LabelMatch NO_USER_AGENT_MANAGED_LABEL, NotStatement (UriPathExactly ''/resolve'')],
       wr_metric = namePrefix @ ''-waf-no-user-agent''\<rparr>,
      \<lparr>wr_name = ''AWSManagedRulesKnownBadInputsRuleSet'', wr_priority = 2,
       wr_statement = ManagedGroup ''AWSManagedRulesKnownBadInputsRuleSet'' [],
       wr_metric = namePrefix @ ''-waf-bad-inputs''\<rparr>,
      \<lparr>wr_name = ''IpRateLimit'', wr_priority = 3,
       wr_statement = RateLimit (if stage = ''live'' then 2000 else 5000),
       wr_metric = namePrefix @ ''-waf-ip-rate-limit''\<rparr>]"

record waf_request =
  wq_path :: js_string
  wq_recent :: nat

type_synonym managed_groups = "js_string \<Rightarrow> waf_request \<Rightarrow> (js_string \<times> js_string) list"

text \<open>Whether a statement matches, given the labels added so far; a managed group matches when one of its
  rules that is not counted does.\<close>

fun waf_matches :: "managed_groups \<Rightarrow> js_string list \<Rightarrow> waf_request \<Rightarrow> waf_statement \<Rightarrow> bool" where
  "waf_matches g ls q (ManagedGroup n counted) = (\<exists>(r, _) \<in> set (g n q). r \<notin> set counted)"
| "waf_matches g ls q (LabelMatch l) = (l \<in> set ls)"
| "waf_matches g ls q (UriPathExactly p) = (wq_path q = p)"
| "waf_matches g ls q (RateLimit n) = (n < wq_recent q)"
| "waf_matches g ls q (AndStatement ss) = (\<forall>s \<in> set ss. waf_matches g ls q s)"
| "waf_matches g ls q (NotStatement s) = (\<not> waf_matches g ls q s)"

definition waf_labels :: "managed_groups \<Rightarrow> waf_request \<Rightarrow> waf_rule \<Rightarrow> js_string list" where
  "waf_labels g q r = (case wr_statement r of ManagedGroup n _ \<Rightarrow> map snd (g n q) | _ \<Rightarrow> [])"

text \<open>The rules in order of priority; the first that matches blocks, with its name; the default action
  allows.\<close>

fun waf_run :: "managed_groups \<Rightarrow> js_string list \<Rightarrow> waf_request \<Rightarrow> waf_rule list \<Rightarrow> js_string option" where
  "waf_run g ls q [] = None"
| "waf_run g ls q (r # rs) =
     (if waf_matches g ls q (wr_statement r) then Some (wr_name r)
      else waf_run g (ls @ waf_labels g q r) q rs)"

definition waf_blocks :: "managed_groups \<Rightarrow> js_string \<Rightarrow> js_string \<Rightarrow> waf_request \<Rightarrow> js_string option" where
  "waf_blocks g namePrefix stage q = waf_run g [] q (sort_key wr_priority (hostWebAclRules namePrefix stage))"

section \<open>Pattern lemmas\<close>

lemma glob_star [simp]: "glob [CHR ''*''] s"
  by (induction s) simp_all

lemma glob_literal: "no_wildcard l \<Longrightarrow> glob (l @ p) s \<longleftrightarrow> startsWith s l \<and> glob p (drop (length l) s)"
proof (induction l arbitrary: s)
  case (Cons c l)
  then show ?case by (cases s) (auto simp: no_wildcard_def startsWith_def)
qed simp

lemma glob_star_append: "glob p s \<Longrightarrow> glob (CHR ''*'' # p) (r @ s)"
proof (induction r)
  case Nil
  then show ?case by (cases s) simp_all
qed simp

lemma glob_star_suffix: "glob (CHR ''*'' # p) s \<longleftrightarrow> (\<exists>r t. s = r @ t \<and> glob p t)"
proof
  show "glob (CHR ''*'' # p) s \<Longrightarrow> \<exists>r t. s = r @ t \<and> glob p t"
  proof (induction s)
    case (Cons c s)
    then consider "glob p (c # s)" | "glob (CHR ''*'' # p) s" by (auto split: if_splits)
    then show ?case
    proof cases
      case 1
      then show ?thesis by (metis append_Nil)
    next
      case 2
      then obtain r t where "s = r @ t" "glob p t" using Cons.IH by blast
      then show ?thesis by (metis append_Cons)
    qed
  qed simp
qed (auto intro: glob_star_append)

lemma glob_exact: "no_wildcard l \<Longrightarrow> glob l s \<longleftrightarrow> s = l"
  using glob_literal [of l "[]" s] by (auto simp: startsWith_def)

lemma glob_star_exact: "no_wildcard l \<Longrightarrow> glob (CHR ''*'' # l) s \<longleftrightarrow> suffix l s"
  by (auto simp: glob_star_suffix glob_exact suffix_def)

text \<open>The behaviours of the construct leave a path to the ones attached here.\<close>

definition site_quiet :: "site \<Rightarrow> js_string \<Rightarrow> bool" where
  "site_quiet st path \<longleftrightarrow> (\<forall>(p, _) \<in> set (site_behaviors st). \<not> glob (strip_slash p) (strip_slash path))"

lemma behavior_quiet:
  assumes "site_quiet st path"
  shows "behavior_for st path =
    (case find (\<lambda>(p, _). glob (strip_slash p) (strip_slash path)) (bucket_behaviors @ bearer_behaviors) of
       Some (_, b) \<Rightarrow> b | None \<Rightarrow> site_default st)"
proof -
  have find_skip: "(\<forall>x \<in> set xs. \<not> P x) \<Longrightarrow> find P (xs @ ys) = find P ys" for P :: "'a \<Rightarrow> bool" and xs ys
    by (induction xs) simp_all
  have "find (\<lambda>(p, _). glob (strip_slash p) (strip_slash path)) (all_behaviors st) =
      find (\<lambda>(p, _). glob (strip_slash p) (strip_slash path)) (bucket_behaviors @ bearer_behaviors)"
    unfolding all_behaviors_def by (rule find_skip) (use assms in \<open>auto simp: site_quiet_def\<close>)
  then show ?thesis by (simp add: behavior_for_def)
qed

lemmas edge_eval = behavior_quiet bucket_behaviors_def bearer_behaviors_def strip_slash_def startsWith_def

lemma control_plane_prefixes:
  assumes "site_quiet st (pre @ x)"
    and "pre \<in> {''/api/v1/portal/'', ''/api/v1/auth/'', ''/api/v1/operators/'', ''/api/v1/tip-registry/'', ''/auth/'',
      ''/webhooks/'', ''/setup/bootstrap/'', ''/api/v1/soul/instance/''}"
  shows "behavior_for st (pre @ x) = apiBehavior"
  using assms(2)
proof (elim insertE emptyE)
qed (use assms(1) in \<open>simp_all add: edge_eval\<close>)


section \<open>Routing\<close>

text \<open>The streaming conversations, for any id.\<close>

lemma mint_conversation_sse:
  assumes "site_quiet st (''/api/v1/soul/agents/'' @ a @ ''/mint-conversation'' @ y)"
    and "\<not> suffix ''/update-registration'' (a @ ''/mint-conversation'' @ y)"
  shows "behavior_for st (''/api/v1/soul/agents/'' @ a @ ''/mint-conversation'' @ y) = apiSseBehavior"
proof -
  let ?r = "a @ ''/mint-conversation'' @ y"
  have u: "\<not> glob (CHR ''*'' # ''/update-registration'') ?r"
    using assms(2) glob_star_exact [of "''/update-registration''" ?r] by (simp add: no_wildcard_def)
  have m: "glob (CHR ''*'' # ''/mint-conversation*'') ?r"
    by (rule glob_star_append) simp
  show ?thesis using behavior_quiet [OF assms(1)] u m
    by (simp add: bucket_behaviors_def bearer_behaviors_def strip_slash_def startsWith_def)
qed

lemma update_registration_trust:
  assumes "site_quiet st (''/api/v1/soul/agents/'' @ a @ ''/update-registration'')"
  shows "behavior_for st (''/api/v1/soul/agents/'' @ a @ ''/update-registration'') = trustApiBehavior"
proof -
  have u: "glob (CHR ''*'' # ''/update-registration'') (a @ ''/update-registration'')"
    by (rule glob_star_append) simp
  show ?thesis using behavior_quiet [OF assms] u
    by (simp add: bucket_behaviors_def bearer_behaviors_def strip_slash_def startsWith_def)
qed

definition api_prefixes :: "js_string list" where
  "api_prefixes = [''api/'', ''auth/'', ''webhooks/'', ''resolve'', ''health'', ''setup/bootstrap/'', ''.well-known/'', ''attestations'']"

definition setup_paths :: "js_string list" where
  "setup_paths = [''setup/status'', ''setup/admin'', ''setup/finalize'']"

lemma glob_prefix: "startsWith p l \<Longrightarrow> no_wildcard l \<Longrightarrow> glob p s \<Longrightarrow> startsWith s l"
  using glob_literal by (metis startsWith_iff_prefix prefixE)

lemma bearer_shape:
  "\<forall>(p, b) \<in> set bearer_behaviors. (\<exists>l \<in> set api_prefixes. startsWith p l) \<or> p \<in> set setup_paths"
  by (simp add: bearer_behaviors_def api_prefixes_def setup_paths_def startsWith_def)

lemma bearer_prefix:
  assumes "(p, b) \<in> set bearer_behaviors" and "glob p s"
  shows "(\<exists>l \<in> set api_prefixes. startsWith s l) \<or> s \<in> set setup_paths"
proof -
  consider l where "l \<in> set api_prefixes" "startsWith p l" | "p \<in> set setup_paths" using bearer_shape assms(1) by fast
  then show ?thesis
  proof cases
    case 1
    then have "no_wildcard l" by (auto simp: api_prefixes_def no_wildcard_def)
    then show ?thesis using 1 glob_prefix assms(2) by blast
  next
    case 2
    then have "no_wildcard p" by (auto simp: setup_paths_def no_wildcard_def)
    then show ?thesis using 2 glob_exact assms(2) by auto
  qed
qed

lemma spa_rewrite_iff:
  "webSpaRewrite (CHR ''/'' # s) =
     (if (\<exists>l \<in> set api_prefixes. startsWith s l) \<or> s \<in> set setup_paths \<or> CHR ''.'' \<in> set s
      then CHR ''/'' # s else ''/index.html'')"
  by (simp add: webSpaRewrite_def str_or_def api_prefixes_def setup_paths_def startsWith_def Let_def)

text \<open>The viewer function and the behaviours agree on what is an API path: a path that one of the
  API behaviours takes is never rewritten to the application page, nor is one that looks like a
  file, and a path of neither kind that is no API prefix always is.\<close>

theorem spa_rewrite_spares_api:
  "((\<exists>(p, b) \<in> set bearer_behaviors. glob p s) \<or> CHR ''.'' \<in> set s \<longrightarrow> webSpaRewrite (CHR ''/'' # s) = CHR ''/'' # s) \<and>
   ((\<forall>l \<in> set api_prefixes. \<not> startsWith s l) \<and> s \<notin> set setup_paths \<and> CHR ''.'' \<notin> set s \<longrightarrow>
      webSpaRewrite (CHR ''/'' # s) = ''/index.html'')"
  using bearer_prefix by (auto simp: spa_rewrite_iff)

theorem spa_rewrite_spares_api_witness:
  "webSpaRewrite ''/attestations/x'' = ''/attestations/x'' \<and> webSpaRewrite ''/safe-app/portal'' = ''/index.html''"
proof -
  have "(''attestations/*'', trustBehaviorCached) \<in> set bearer_behaviors" by (simp add: bearer_behaviors_def)
  moreover have "glob ''attestations/*'' ''attestations/x''" by simp
  ultimately have "webSpaRewrite ''/attestations/x'' = ''/attestations/x''" using spa_rewrite_spares_api by blast
  moreover have "webSpaRewrite ''/safe-app/portal'' = ''/index.html''"
    using spa_rewrite_spares_api [of "''safe-app/portal''", THEN conjunct2]
    by (simp add: api_prefixes_def setup_paths_def startsWith_def)
  ultimately show ?thesis ..
qed

section \<open>The web ACL\<close>

text \<open>A request is blocked exactly when a common rule other than the missing user agent matches, or the
  user agent is missing and the path is not exactly \<open>/resolve\<close>, or a known bad input matches, or
  the address is over the limit of the stage; so a client without a user agent can resolve names
  and do nothing else.\<close>

theorem web_acl_decision:
  "waf_blocks g namePrefix stage q \<noteq> None \<longleftrightarrow>
     (\<exists>(r, _) \<in> set (g ''AWSManagedRulesCommonRuleSet'' q). r \<noteq> ''NoUserAgent_HEADER'') \<or>
     (NO_USER_AGENT_MANAGED_LABEL \<in> snd ` set (g ''AWSManagedRulesCommonRuleSet'' q) \<and> wq_path q \<noteq> ''/resolve'') \<or>
     g ''AWSManagedRulesKnownBadInputsRuleSet'' q \<noteq> [] \<or>
     (if stage = ''live'' then 2000 else 5000) < wq_recent q"
proof -
  have "sort_key wr_priority (hostWebAclRules namePrefix stage) = hostWebAclRules namePrefix stage"
    by (simp add: hostWebAclRules_def)
  moreover have "(\<exists>(r, _) \<in> set xs. True) \<longleftrightarrow> xs \<noteq> []" for xs :: "(js_string \<times> js_string) list"
    by (cases xs) auto
  ultimately show ?thesis
    by (simp add: waf_blocks_def hostWebAclRules_def waf_labels_def)
qed

theorem web_acl_decision_witness:
  "waf_blocks (\<lambda>n q. if n = ''AWSManagedRulesCommonRuleSet'' then [(''NoUserAgent_HEADER'', NO_USER_AGENT_MANAGED_LABEL)] else [])
     ''host'' ''live'' \<lparr>wq_path = ''/resolve'', wq_recent = 1\<rparr> = None"
  using web_acl_decision [of "\<lambda>n q. if n = ''AWSManagedRulesCommonRuleSet'' then [(''NoUserAgent_HEADER'', NO_USER_AGENT_MANAGED_LABEL)] else []"
      "''host''" "''live''" "\<lparr>wq_path = ''/resolve'', wq_recent = 1\<rparr>"] by simp

end
