(* ===== verification/Deploy_Config.thy ===== *)
theory Deploy_Config
  imports Json Http
begin

text \<open>
  The configuration the deployment is synthesised from, \<^verbatim>\<open>cdk/lib\<close>: the web domain of a stage
  (\<^verbatim>\<open>app-theory-deploy-config.ts\<close>), the ENS gateway settings (\<^verbatim>\<open>ens-gateway-config.ts\<close>), the inbound mail
  domain (\<^verbatim>\<open>soul-email-inbound-domain.ts\<close>), the bootstrap wallet override (\<^verbatim>\<open>setup-bootstrap-wallet.ts\<close>),
  the Go toolchain (\<^verbatim>\<open>go-build-env.ts\<close>) and the context of the command line (\<^verbatim>\<open>bin/lesser-host.ts\<close>).

  A regular expression is written out as the predicate it decides.  The file that is read is an
  argument, with its absence and other failures as cases; the context of the construct tree is a
  function from keys to values.
\<close>

section \<open>Text patterns\<close>

definition is_hex :: "char \<Rightarrow> bool" where
  "is_hex c \<longleftrightarrow> hex_value c \<noteq> None"

text \<open>\<open>\w\<close>\<close>

definition is_word_char :: "char \<Rightarrow> bool" where
  "is_word_char c \<longleftrightarrow> is_alnum c \<or> c = CHR ''_''"

text \<open>An occurrence, ignoring case, of a lower-case word that satisfies a condition on what precedes and
  follows it.\<close>

fun occurs :: "js_string \<Rightarrow> (js_string \<Rightarrow> bool) \<Rightarrow> (js_string \<Rightarrow> bool) \<Rightarrow> js_string \<Rightarrow> js_string \<Rightarrow> bool" where
  "occurs w before after done [] = (w = [] \<and> before done \<and> after [])"
| "occurs w before after done (c # s) =
     ((startsWith (toLowerCase (c # s)) w \<and> before done \<and> after (drop (length w) (c # s))) \<or>
      occurs w before after (c # done) s)"

abbreviation anything :: "js_string \<Rightarrow> bool" where
  "anything \<equiv> \<lambda>_. True"

text \<open>The next character, or the last one read, is not a word character.\<close>

definition word_edge :: "js_string \<Rightarrow> bool" where
  "word_edge s = (case s of [] \<Rightarrow> True | c # _ \<Rightarrow> \<not> is_word_char c)"

definition starts_word :: "js_string \<Rightarrow> bool" where
  "starts_word s = (case s of [] \<Rightarrow> False | c # _ \<Rightarrow> is_word_char c)"

text \<open>\<open><[^>]+>\<close>\<close>

definition angle_text :: "js_string \<Rightarrow> bool" where
  "angle_text s =
     occurs ''<'' anything
       (\<lambda>r. let inner = takeWhile (\<lambda>c. c \<noteq> CHR ''>'') r in inner \<noteq> [] \<and> length inner < length r) [] s"

definition examplePlaceholderPattern :: "js_string \<Rightarrow> bool" where
  "examplePlaceholderPattern s \<longleftrightarrow>
     angle_text s \<or> occurs ''your_'' anything starts_word [] s \<or>
     occurs ''todo'' word_edge word_edge [] s \<or> occurs ''tbd'' word_edge word_edge [] s \<or>
     occurs ''placeholder'' word_edge word_edge [] s \<or> occurs ''changeme'' word_edge word_edge [] s \<or>
     occurs ''example'' anything anything [] s"

section \<open>The web domain\<close>

record WebDomainConfig =
  wd_rootDomain :: js_string
  wd_hostedZoneId :: js_string
  wd_hostedZoneName :: js_string

definition appConfigRelativePath :: js_string where
  "appConfigRelativePath = ''app-theory/app.json''"

definition webDomainConfigPath :: js_string where
  "webDomainConfigPath = ''lesserHost.webDomain''"

definition appConfigInstructions :: "js_string \<Rightarrow> js_string \<Rightarrow> js_string" where
  "appConfigInstructions stage configPath =
     ''Expected '' @ appConfigRelativePath @ '' at '' @ configPath @ '' to define '' @ webDomainConfigPath @ ''.'' @ stage @
     ''.{rootDomain,hostedZoneId,hostedZoneName}. This is the AppTheory app-up source of truth for lesser-host web domain config; no fallback to cdk.json context, environment variables, Route53 lookup, sidecar files, or CloudFront defaults is available.''"

definition failAppTheoryDeployConfig :: "js_string \<Rightarrow> js_string \<Rightarrow> js_string \<Rightarrow> js_error + 'a" where
  "failAppTheoryDeployConfig stage configPath message =
     Inl (Error (''AppTheory deploy config error: '' @ message @ ''. '' @ appConfigInstructions stage configPath))"

definition asConfigRecord :: "json option \<Rightarrow> (js_string \<times> json) list option" where
  "asConfigRecord v = (case v of Some (JObj kvs) \<Rightarrow> Some kvs | _ \<Rightarrow> None)"

text \<open>\<open>s.replace(/\.$/, '')\<close>\<close>

definition drop_final_dot :: "js_string \<Rightarrow> js_string" where
  "drop_final_dot s = (if s \<noteq> [] \<and> last s = CHR ''.'' then butlast s else s)"

text \<open>\<open>/^[a-z0-9](?:[a-z0-9.-]{0,251}[a-z0-9])?$/\<close>\<close>

definition dns_edge :: "char \<Rightarrow> bool" where
  "dns_edge c \<longleftrightarrow> is_lower c \<or> is_digit c"

definition dns_inner :: "char \<Rightarrow> bool" where
  "dns_inner c \<longleftrightarrow> dns_edge c \<or> c = CHR ''.'' \<or> c = CHR ''-''"

definition dns_shape :: "js_string \<Rightarrow> bool" where
  "dns_shape s \<longleftrightarrow> s \<noteq> [] \<and> length s \<le> 253 \<and> dns_edge (hd s) \<and> dns_edge (last s) \<and> list_all dns_inner s"

definition readRequiredDomainNameField ::
  "js_string \<Rightarrow> js_string \<Rightarrow> (js_string \<times> json) list \<Rightarrow> js_string \<Rightarrow> js_error + js_string" where
  "readRequiredDomainNameField stage configPath stageConfig fieldName =
     (let value = (case map_of stageConfig fieldName of
                     Some (JStr raw) \<Rightarrow> toLowerCase (drop_final_dot (js_trim raw)) | _ \<Rightarrow> []);
          field = webDomainConfigPath @ ''.'' @ stage @ ''.'' @ fieldName in
      if value = [] \<or> examplePlaceholderPattern value then
        failAppTheoryDeployConfig stage configPath (field @ '' is required'')
      else if CHR ''/'' \<in> set value \<or> CHR '':'' \<in> set value \<or> startsWith value ''*.'' \<or> \<not> dns_shape value \<or>
              CHR ''.'' \<notin> set value then
        failAppTheoryDeployConfig stage configPath (field @ '' must be a DNS name'')
      else Inr value)"

text \<open>\<open>/^Z[A-Z0-9]{4,32}$/\<close>\<close>

definition zone_id_shape :: "js_string \<Rightarrow> bool" where
  "zone_id_shape s \<longleftrightarrow>
     startsWith s ''Z'' \<and> 5 \<le> length s \<and> length s \<le> 33 \<and> list_all (\<lambda>c. is_upper c \<or> is_digit c) s"

definition readHostedZoneId ::
  "js_string \<Rightarrow> js_string \<Rightarrow> (js_string \<times> json) list \<Rightarrow> js_error + js_string" where
  "readHostedZoneId stage configPath stageConfig =
     (let value = (case map_of stageConfig ''hostedZoneId'' of Some (JStr raw) \<Rightarrow> js_trim raw | _ \<Rightarrow> []);
          field = webDomainConfigPath @ ''.'' @ stage @ ''.hostedZoneId'' in
      if value = [] \<or> examplePlaceholderPattern value then
        failAppTheoryDeployConfig stage configPath (field @ '' is required'')
      else if \<not> zone_id_shape value then
        failAppTheoryDeployConfig stage configPath (field @ '' must be an AWS Route53 hosted zone id'')
      else Inr value)"

datatype file_read = FileText js_string | FileMissing | FileError js_string

text \<open>\<open>syntax_text\<close> is what \<open>String(err)\<close> says of a text that does not parse.\<close>

definition readWebDomainConfig ::
  "(js_string \<Rightarrow> file_read) \<Rightarrow> (js_string \<Rightarrow> js_string) \<Rightarrow> js_string \<Rightarrow> js_string \<Rightarrow> js_error + WebDomainConfig" where
  "readWebDomainConfig readFile syntax_text stage configPath =
     (let stageKey = toLowerCase (js_trim stage) in
      if stageKey = [] then
        failAppTheoryDeployConfig ''lab'' configPath ''stage is required to select an AppTheory app web-domain entry''
      else
        case readFile configPath of
          FileMissing \<Rightarrow> failAppTheoryDeployConfig stageKey configPath (''missing '' @ appConfigRelativePath)
        | FileError err \<Rightarrow>
            failAppTheoryDeployConfig stageKey configPath (''failed reading '' @ appConfigRelativePath @ '': '' @ err)
        | FileText raw \<Rightarrow>
            (case json_parse raw of
               None \<Rightarrow>
                 failAppTheoryDeployConfig stageKey configPath
                   (''invalid JSON in '' @ appConfigRelativePath @ '': '' @ syntax_text raw)
             | Some parsed \<Rightarrow>
                 (let root = asConfigRecord (Some parsed);
                      lesserHost = asConfigRecord (Option.bind root (\<lambda>kvs. map_of kvs ''lesserHost''));
                      webDomain = asConfigRecord (Option.bind lesserHost (\<lambda>kvs. map_of kvs ''webDomain'')) in
                  case webDomain of
                    None \<Rightarrow> failAppTheoryDeployConfig stageKey configPath (''missing '' @ webDomainConfigPath @ '' map'')
                  | Some wd \<Rightarrow>
                      (case asConfigRecord (map_of wd stageKey) of
                         None \<Rightarrow>
                           failAppTheoryDeployConfig stageKey configPath
                             (''missing '' @ webDomainConfigPath @ ''.'' @ stageKey @ '' entry'')
                       | Some sc \<Rightarrow>
                           (case readRequiredDomainNameField stageKey configPath sc ''rootDomain'' of
                              Inl e \<Rightarrow> Inl e
                            | Inr rootDomain \<Rightarrow>
                                (case readHostedZoneId stageKey configPath sc of
                                   Inl e \<Rightarrow> Inl e
                                 | Inr zone \<Rightarrow>
                                     (case readRequiredDomainNameField stageKey configPath sc ''hostedZoneName'' of
                                        Inl e \<Rightarrow> Inl e
                                      | Inr zoneName \<Rightarrow>
                                          Inr \<lparr>wd_rootDomain = rootDomain, wd_hostedZoneId = zone,
                                               wd_hostedZoneName = zoneName\<rparr>)))))))"


section \<open>Stage settings from the context\<close>

type_synonym cdk_context = "js_string \<Rightarrow> json option"

definition contextString :: "cdk_context \<Rightarrow> js_string \<Rightarrow> js_string option" where
  "contextString ctx key = (case ctx key of None \<Rightarrow> None | Some JNull \<Rightarrow> None | Some v \<Rightarrow> Some (js_to_string v))"

definition stageSuffix :: "js_string \<Rightarrow> js_string" where
  "stageSuffix stage = (if js_trim stage = ''live'' then ''Live'' else ''Lab'')"

record EnsGatewayChainConfig =
  ens_chainId :: js_string
  ens_chainName :: js_string

definition ensGatewayChainConfigForStage :: "js_string \<Rightarrow> EnsGatewayChainConfig" where
  "ensGatewayChainConfigForStage stage =
     (if stageSuffix stage = ''Live'' then \<lparr>ens_chainId = ''1'', ens_chainName = ''mainnet''\<rparr>
      else \<lparr>ens_chainId = ''11155111'', ens_chainName = ''sepolia''\<rparr>)"

definition ensGatewayContextForStage :: "cdk_context \<Rightarrow> js_string \<Rightarrow> js_string \<Rightarrow> js_string \<Rightarrow> js_string" where
  "ensGatewayContextForStage ctx stage key fallback =
     nullish (contextString ctx (key @ stageSuffix stage)) (nullish (contextString ctx key) fallback)"

definition ensGatewayResolverAddressFromContext :: "cdk_context \<Rightarrow> js_string \<Rightarrow> js_string" where
  "ensGatewayResolverAddressFromContext ctx stage =
     (case contextString ctx (''ensGatewayResolverAddress'' @ stageSuffix stage) of
        Some stageSpecific \<Rightarrow> stageSpecific
      | None \<Rightarrow>
          if stageSuffix stage = ''Lab'' then nullish (contextString ctx ''ensGatewayResolverAddress'') []
          else [])"

definition DEFAULT_ENS_GATEWAY_ROOT_NAME :: js_string where
  "DEFAULT_ENS_GATEWAY_ROOT_NAME = ''lessersoul.eth''"

definition ensGatewayRootNameFromContext :: "cdk_context \<Rightarrow> js_string" where
  "ensGatewayRootNameFromContext ctx =
     str_or (toLowerCase (js_trim (nullish (contextString ctx ''ensGatewayRootName'') DEFAULT_ENS_GATEWAY_ROOT_NAME)))
       DEFAULT_ENS_GATEWAY_ROOT_NAME"

definition stringContext :: "json option \<Rightarrow> js_string" where
  "stringContext v = (case v of Some (JStr s) \<Rightarrow> js_trim s | _ \<Rightarrow> [])"

definition defaultSoulEmailInboundDomainForStage :: "js_string \<Rightarrow> js_string" where
  "defaultSoulEmailInboundDomainForStage stage =
     (if toLowerCase (js_trim stage) = ''live'' then ''inbound.lessersoul.ai'' else ''lab.lessersoul.ai'')"

definition soulEmailInboundDomainFromContext :: "cdk_context \<Rightarrow> js_string \<Rightarrow> js_string" where
  "soulEmailInboundDomainFromContext ctx stage =
     (let normalizedStage = toLowerCase (js_trim stage);
          suff = (if normalizedStage = ''live'' then ''Live'' else ''Lab'');
          stageSpecific = ctx (''soulEmailInboundDomain'' @ suff);
          generic = ctx ''soulEmailInboundDomain'';
          configured = str_or (stringContext stageSpecific) (stringContext generic) in
      str_or configured (defaultSoulEmailInboundDomainForStage normalizedStage))"

section \<open>The bootstrap wallet\<close>

text \<open>\<open>/<[^>]*YOUR[^>]*>|YOUR_[A-Z0-9_]+/i\<close> and \<open>/^0x[0-9a-fA-F]{40}$/\<close>\<close>

definition placeholderPattern :: "js_string \<Rightarrow> bool" where
  "placeholderPattern s \<longleftrightarrow>
     occurs ''<'' anything
       (\<lambda>r. let inner = takeWhile (\<lambda>c. c \<noteq> CHR ''>'') r in
            js_includes (toLowerCase inner) ''your'' \<and> length inner < length r) [] s \<or>
     occurs ''your_'' anything starts_word [] s"

definition evmAddressPattern :: "js_string \<Rightarrow> bool" where
  "evmAddressPattern s \<longleftrightarrow> startsWith s ''0x'' \<and> length s = 42 \<and> list_all is_hex (drop 2 s)"

definition normalizedBootstrapWalletOverride :: "json option \<Rightarrow> js_error + js_string" where
  "normalizedBootstrapWalletOverride rawValue =
     (let v = (case rawValue of Some (JStr s) \<Rightarrow> js_trim s | _ \<Rightarrow> []) in
      if v = [] then Inr []
      else if placeholderPattern v then
        Inl (Error ''bootstrapWalletAddress override must be a real EVM 0x address; placeholders are not accepted'')
      else if \<not> evmAddressPattern v then
        Inl (Error ''bootstrapWalletAddress override must be a valid EVM 0x address'')
      else Inr (''0x'' @ toLowerCase (drop 2 v)))"

section \<open>The Go toolchain\<close>

text \<open>A component read by \<open>Number\<close>; \<open>None\<close> is an infinity.\<close>

definition version_parts :: "js_string \<Rightarrow> nat option list" where
  "version_parts v = map (\<lambda>p. Option.bind (digits_value 10 0 p) to_double) (split_on (CHR ''.'') v)"

text \<open>The difference of two parts, of which only the sign matters when one is infinite; \<open>None\<close> is
  \<open>NaN\<close>, which is not \<open>0\<close> and not \<open>>= 0\<close>.\<close>

definition part_diff :: "nat option \<Rightarrow> nat option \<Rightarrow> int option" where
  "part_diff a b =
     (case (a, b) of
        (Some x, Some y) \<Rightarrow> Some (int x - int y)
      | (None, Some _) \<Rightarrow> Some 1
      | (Some _, None) \<Rightarrow> Some (- 1)
      | (None, None) \<Rightarrow> None)"

fun compare_parts :: "nat option list \<Rightarrow> nat option list \<Rightarrow> int option" where
  "compare_parts [] [] = Some 0"
| "compare_parts (a # as) [] =
     (let diff = part_diff a (Some 0) in if diff \<noteq> Some 0 then diff else compare_parts as [])"
| "compare_parts [] (b # bs) =
     (let diff = part_diff (Some 0) b in if diff \<noteq> Some 0 then diff else compare_parts [] bs)"
| "compare_parts (a # as) (b # bs) =
     (let diff = part_diff a b in if diff \<noteq> Some 0 then diff else compare_parts as bs)"

definition compareGoVersions :: "js_string \<Rightarrow> js_string \<Rightarrow> int option" where
  "compareGoVersions a b = compare_parts (version_parts a) (version_parts b)"

text \<open>The version of a directive line: \<open>[0-9]+(?:\.[0-9]+){1,2}\<close> with an optional comment, which has no
  line terminator, up to the end of the line.\<close>

definition is_version :: "js_string \<Rightarrow> bool" where
  "is_version v =
     (let ps = split_on (CHR ''.'') v in
      2 \<le> length ps \<and> length ps \<le> 3 \<and> list_all (\<lambda>p. p \<noteq> [] \<and> list_all is_digit p) ps)"

definition directive_version :: "js_string \<Rightarrow> js_string option" where
  "directive_version s =
     (let v = takeWhile (\<lambda>c. is_digit c \<or> c = CHR ''.'') s; r = drop (length v) s; c = dropWhile is_space r in
      if is_version v \<and> (r = [] \<or> startsWith c ''//'' \<and> list_all (\<lambda>d. code d \<noteq> 10 \<and> code d \<noteq> 13) c)
      then Some v else None)"

definition goDirective :: "js_string \<Rightarrow> js_string option" where
  "goDirective line =
     (if startsWith line ''go'' \<and> drop 2 line \<noteq> [] \<and> is_space (line ! 2)
      then directive_version (dropWhile is_space (drop 2 line)) else None)"

definition toolchainDirective :: "js_string \<Rightarrow> js_string option" where
  "toolchainDirective line =
     (let r = dropWhile is_space (drop 9 line) in
      if startsWith line ''toolchain'' \<and> drop 9 line \<noteq> [] \<and> is_space (line ! 9) \<and> startsWith r ''go''
      then directive_version (drop 2 r) else None)"

definition read_directive :: "js_string \<Rightarrow> js_string option \<times> js_string option \<Rightarrow> js_string option \<times> js_string option" where
  "read_directive rawLine st =
     (let line = js_trim rawLine in
      case goDirective line of
        Some v \<Rightarrow> (Some v, snd st)
      | None \<Rightarrow> (case toolchainDirective line of Some v \<Rightarrow> (fst st, Some v) | None \<Rightarrow> st))"

text \<open>The lines are trimmed, so a carriage return before the newline needs no case of its own.\<close>

definition resolvedGoToolchain :: "js_string \<Rightarrow> js_string \<Rightarrow> js_error + js_string" where
  "resolvedGoToolchain goModPath goMod =
     (case fold read_directive (split_on (CHR 0x0A) goMod) (None, None) of
        (None, _) \<Rightarrow> Inl (Error (''failed to resolve Go toolchain from '' @ goModPath))
      | (Some goVersion, None) \<Rightarrow> Inr (''go'' @ goVersion)
      | (Some goVersion, Some toolchainVersion) \<Rightarrow>
          (case compareGoVersions goVersion toolchainVersion of
             Some d \<Rightarrow> if d \<ge> 0 then Inr (''go'' @ goVersion) else Inr (''go'' @ toolchainVersion)
           | None \<Rightarrow> Inr (''go'' @ toolchainVersion)))"

text \<open>The cache of the module, and the file system as a reader that may throw.\<close>

type_synonym go_cache = "js_string \<Rightarrow> js_string option"

definition repoGoToolchain :: "(js_string \<Rightarrow> js_error + js_string) \<Rightarrow> js_string \<Rightarrow> go_cache \<Rightarrow> (js_error + js_string) \<times> go_cache" where
  "repoGoToolchain readFile repoRoot cache =
     (case keep_truthy (cache repoRoot) of
        Some cached \<Rightarrow> (Inr cached, cache)
      | None \<Rightarrow>
          (let goModPath = repoRoot @ ''/go.mod'' in
           case readFile goModPath of
             Inl e \<Rightarrow> (Inl e, cache)
           | Inr goMod \<Rightarrow>
               (case resolvedGoToolchain goModPath goMod of
                  Inl e \<Rightarrow> (Inl e, cache)
                | Inr toolchain \<Rightarrow> (Inr toolchain, cache(repoRoot \<mapsto> toolchain)))))"

record go_overrides =
  go_CGO_ENABLED :: "js_string option"
  go_GOOS :: "js_string option"
  go_GOARCH :: "js_string option"

definition synthGoBuildEnv :: "(js_string \<Rightarrow> js_error + js_string) \<Rightarrow> (js_string \<Rightarrow> js_string option) \<Rightarrow> js_string
    \<Rightarrow> go_overrides \<Rightarrow> go_cache \<Rightarrow> (js_error + (js_string \<Rightarrow> js_string option)) \<times> go_cache" where
  "synthGoBuildEnv readFile env repoRoot overrides cache =
     (case repoGoToolchain readFile repoRoot cache of
        (Inl e, c) \<Rightarrow> (Inl e, c)
      | (Inr toolchain, c) \<Rightarrow>
          (Inr (env(''CGO_ENABLED'' \<mapsto> nullish (go_CGO_ENABLED overrides) ''0'',
                    ''GOOS'' \<mapsto> nullish (go_GOOS overrides) ''linux'',
                    ''GOARCH'' \<mapsto> nullish (go_GOARCH overrides) ''amd64'',
                    ''GOTOOLCHAIN'' \<mapsto> toolchain)), c))"

section \<open>Context of the command line\<close>

definition assignment_key :: "js_string \<Rightarrow> js_string list" where
  "assignment_key assignment =
     (let key = js_trim (takeWhile (\<lambda>c. c \<noteq> CHR ''='') assignment) in if key \<noteq> [] then [key] else [])"

fun explicitCliContextKeys :: "js_string list \<Rightarrow> js_string list" where
  "explicitCliContextKeys [] = []"
| "explicitCliContextKeys [arg] =
     (if startsWith arg ''--context='' then assignment_key (drop 10 arg) else [])"
| "explicitCliContextKeys (arg # next # rest) =
     (if arg = ''-c'' \<or> arg = ''--context'' then assignment_key next @ explicitCliContextKeys rest
      else if startsWith arg ''--context='' then assignment_key (drop 10 arg) @ explicitCliContextKeys (next # rest)
      else explicitCliContextKeys (next # rest))"

text \<open>The entries of the local file that are applied: those of \<open>context\<close> if the file has that member,
  else its own.  The entries of an array are keyed by their indices.\<close>

definition local_context :: "json \<Rightarrow> (js_string \<times> json) list" where
  "local_context parsed =
     (let maybeContext = (case obj_get parsed ''context'' of Some c \<Rightarrow> c | None \<Rightarrow> parsed) in
      case maybeContext of JObj kvs \<Rightarrow> kvs | JArr xs \<Rightarrow> zip (map string_of_nat [0..<length xs]) xs | _ \<Rightarrow> [])"

text \<open>\<open>syntax_text\<close> is as above.\<close>

definition applyLocalContextOverrides ::
  "(js_string \<Rightarrow> js_string) \<Rightarrow> js_string list \<Rightarrow> js_string \<Rightarrow> file_read \<Rightarrow> cdk_context \<Rightarrow> js_error + cdk_context" where
  "applyLocalContextOverrides syntax_text argv localContextPath localFile ctx =
     (case localFile of
        FileMissing \<Rightarrow> Inr ctx
      | FileError err \<Rightarrow> Inl (Error (''Failed reading '' @ localContextPath @ '': '' @ err))
      | FileText raw \<Rightarrow>
          (case json_parse raw of
             None \<Rightarrow> Inl (Error (''Invalid JSON in '' @ localContextPath @ '': '' @ syntax_text raw))
           | Some parsed \<Rightarrow>
               Inr (fold (\<lambda>(key, v) c. if key \<in> set (explicitCliContextKeys argv) then c else c(key \<mapsto> v))
                      (local_context parsed) ctx)))"

section \<open>Properties\<close>

text \<open>What a domain name read from the file satisfies.\<close>

definition domain_ok :: "js_string \<Rightarrow> bool" where
  "domain_ok d \<longleftrightarrow> dns_shape d \<and> CHR ''.'' \<in> set d \<and> \<not> examplePlaceholderPattern d \<and> toLowerCase d = d"

definition domain_of :: "(js_string \<times> json) list \<Rightarrow> js_string \<Rightarrow> js_string option" where
  "domain_of sc field =
     (case map_of sc field of Some (JStr raw) \<Rightarrow> Some (toLowerCase (drop_final_dot (js_trim raw))) | _ \<Rightarrow> None)"

lemma read_domain_Inr:
  "readRequiredDomainNameField stage path sc field = Inr d \<longleftrightarrow> domain_of sc field = Some d \<and> domain_ok d"
proof
  assume r: "readRequiredDomainNameField stage path sc field = Inr d"
  then obtain raw where raw: "map_of sc field = Some (JStr raw)"
    by (auto simp: readRequiredDomainNameField_def Let_def failAppTheoryDeployConfig_def
        split: option.splits json.splits if_splits)
  then show "domain_of sc field = Some d \<and> domain_ok d"
    using r by (auto simp: readRequiredDomainNameField_def Let_def failAppTheoryDeployConfig_def domain_of_def
        domain_ok_def split: if_splits)
next
  assume a: "domain_of sc field = Some d \<and> domain_ok d"
  then obtain raw where raw: "map_of sc field = Some (JStr raw)" "d = toLowerCase (drop_final_dot (js_trim raw))"
    by (auto simp: domain_of_def split: option.splits json.splits)
  have shape: "dns_shape d" "\<not> examplePlaceholderPattern d" "CHR ''.'' \<in> set d" using a by (auto simp: domain_ok_def)
  have inner: "dns_inner c" if "c \<in> set d" for c using shape(1) that by (simp add: dns_shape_def list_all_iff)
  have "\<not> dns_inner (CHR ''/'')" "\<not> dns_inner (CHR '':'')" "\<not> dns_inner (CHR ''*'')"
    by (simp_all add: dns_inner_def dns_edge_def char_class_defs)
  then have "CHR ''/'' \<notin> set d" "CHR '':'' \<notin> set d" "CHR ''*'' \<notin> set d" using inner by blast+
  moreover have "d \<noteq> []" using shape(1) by (simp add: dns_shape_def)
  moreover have "\<not> startsWith d ''*.''"
    using \<open>CHR ''*'' \<notin> set d\<close> by (metis list.set_intros(1) startsWith_iff_prefix set_mono_prefix subsetD)
  ultimately show "readRequiredDomainNameField stage path sc field = Inr d"
    using shape by (simp add: readRequiredDomainNameField_def raw(1) Let_def raw(2) [symmetric])
qed

lemma read_zone_Inr:
  "readHostedZoneId stage path sc = Inr z \<longleftrightarrow>
     (\<exists>raw. map_of sc ''hostedZoneId'' = Some (JStr raw) \<and> z = js_trim raw) \<and> zone_id_shape z \<and> \<not> examplePlaceholderPattern z"
proof -
  have "\<not> zone_id_shape []" by (simp add: zone_id_shape_def)
  then show ?thesis
    by (auto simp: readHostedZoneId_def Let_def failAppTheoryDeployConfig_def split: option.splits json.splits if_splits)
qed

text \<open>The entry of a stage in the text of the file.\<close>

definition stage_entry :: "js_string \<Rightarrow> js_string \<Rightarrow> (js_string \<times> json) list option" where
  "stage_entry raw stage =
     (case json_parse raw of
        None \<Rightarrow> None
      | Some parsed \<Rightarrow>
          Option.bind (obj_get parsed ''lesserHost'') (\<lambda>lh. Option.bind (obj_get lh ''webDomain'')
            (\<lambda>wd. asConfigRecord (obj_get wd (toLowerCase (js_trim stage))))))"

lemma config_record_get: "Option.bind (asConfigRecord v) (\<lambda>kvs. map_of kvs k) = Option.bind v (\<lambda>j. obj_get j k)"
  by (cases v) (auto simp: asConfigRecord_def obj_get_def split: json.splits)

definition config_failure :: "js_string \<Rightarrow> js_error \<Rightarrow> bool" where
  "config_failure path e \<longleftrightarrow>
     (\<exists>m s. e = Error (''AppTheory deploy config error: '' @ m @ ''. '' @ appConfigInstructions s path))"

lemma config_error: "failAppTheoryDeployConfig s p m = Inl e \<Longrightarrow> config_failure p e"
  by (auto simp: failAppTheoryDeployConfig_def config_failure_def)

lemma domain_error: "readRequiredDomainNameField s p sc f = Inl e \<Longrightarrow> config_failure p e"
  unfolding readRequiredDomainNameField_def Let_def by (metis config_error sum.distinct(1))

lemma zone_error: "readHostedZoneId s p sc = Inl e \<Longrightarrow> config_failure p e"
  unfolding readHostedZoneId_def Let_def by (metis config_error sum.distinct(1))

definition read_entry :: "js_string \<Rightarrow> js_string \<Rightarrow> (js_string \<times> json) list \<Rightarrow> js_error + WebDomainConfig" where
  "read_entry stageKey path sc =
     (case readRequiredDomainNameField stageKey path sc ''rootDomain'' of
        Inl e \<Rightarrow> Inl e
      | Inr r \<Rightarrow>
          (case readHostedZoneId stageKey path sc of
             Inl e \<Rightarrow> Inl e
           | Inr z \<Rightarrow>
               (case readRequiredDomainNameField stageKey path sc ''hostedZoneName'' of
                  Inl e \<Rightarrow> Inl e
                | Inr n \<Rightarrow> Inr \<lparr>wd_rootDomain = r, wd_hostedZoneId = z, wd_hostedZoneName = n\<rparr>)))"

lemma read_entry_Inr:
  "read_entry k path sc = Inr cfg \<longleftrightarrow>
     (\<exists>z. domain_of sc ''rootDomain'' = Some (wd_rootDomain cfg) \<and> domain_ok (wd_rootDomain cfg) \<and>
        domain_of sc ''hostedZoneName'' = Some (wd_hostedZoneName cfg) \<and> domain_ok (wd_hostedZoneName cfg) \<and>
        map_of sc ''hostedZoneId'' = Some (JStr z) \<and> wd_hostedZoneId cfg = js_trim z \<and>
        zone_id_shape (wd_hostedZoneId cfg) \<and> \<not> examplePlaceholderPattern (wd_hostedZoneId cfg))"
proof -
  have "read_entry k path sc = Inr cfg \<longleftrightarrow>
      readRequiredDomainNameField k path sc ''rootDomain'' = Inr (wd_rootDomain cfg) \<and>
      readHostedZoneId k path sc = Inr (wd_hostedZoneId cfg) \<and>
      readRequiredDomainNameField k path sc ''hostedZoneName'' = Inr (wd_hostedZoneName cfg)"
    by (cases cfg) (auto simp: read_entry_def split: sum.splits)
  then show ?thesis unfolding read_domain_Inr read_zone_Inr by auto
qed

lemma read_entry_error: "read_entry k path sc = Inl e \<Longrightarrow> config_failure path e"
  by (auto simp: read_entry_def split: sum.splits intro: domain_error zone_error)

lemma read_config_error:
  "readWebDomainConfig readFile syn stage path = Inl e \<Longrightarrow> config_failure path e"
  unfolding readWebDomainConfig_def Let_def read_entry_def [symmetric]
  by (simp split: file_read.splits option.splits if_splits) (blast intro: config_error read_entry_error)+

lemma read_config_cases:
  "readWebDomainConfig readFile syn stage path = Inr cfg \<longleftrightarrow>
     js_trim stage \<noteq> [] \<and>
     (\<exists>raw sc. readFile path = FileText raw \<and> stage_entry raw stage = Some sc \<and>
        read_entry (toLowerCase (js_trim stage)) path sc = Inr cfg)"
proof -
  have empty: "toLowerCase s = [] \<longleftrightarrow> s = []" for s by (simp add: toLowerCase_def)
  have entry: "stage_entry raw stage =
      (case json_parse raw of None \<Rightarrow> None
       | Some parsed \<Rightarrow> (case asConfigRecord (Option.bind (asConfigRecord (Option.bind (asConfigRecord (Some parsed))
            (\<lambda>kvs. map_of kvs ''lesserHost''))) (\<lambda>kvs. map_of kvs ''webDomain'')) of None \<Rightarrow> None
          | Some wd \<Rightarrow> asConfigRecord (map_of wd (toLowerCase (js_trim stage)))))" for raw
  proof (cases "json_parse raw")
    case (Some parsed)
    have last: "Option.bind v (\<lambda>j. asConfigRecord (obj_get j k)) =
        (case asConfigRecord v of None \<Rightarrow> None | Some wd \<Rightarrow> asConfigRecord (map_of wd k))" for v k
      by (cases v) (auto simp: asConfigRecord_def obj_get_def split: json.splits)
    show ?thesis
      unfolding stage_entry_def Some option.case config_record_get last [symmetric] by simp
  qed (simp add: stage_entry_def)
  show ?thesis
  proof (cases "js_trim stage = []")
    case True
    then show ?thesis by (simp add: readWebDomainConfig_def empty failAppTheoryDeployConfig_def)
  next
    case False
    then show ?thesis
      unfolding readWebDomainConfig_def Let_def read_entry_def [symmetric] empty if_not_P [OF False]
      by (cases "readFile path") (simp_all add: failAppTheoryDeployConfig_def entry split: option.split)
  qed
qed

text \<open>The web domain comes from the deploy file or not at all: the configuration is read exactly when the
  stage's entry holds two names of the shape of a domain and a hosted zone id, none of them a
  placeholder; the names are those of the file, in lower case and without the final dot; and every
  failure is the one error that names the file and says that there is no fallback.\<close>

theorem web_domain_config_sound:
  "(\<forall>cfg. readWebDomainConfig readFile syn stage path = Inr cfg \<longleftrightarrow>
      js_trim stage \<noteq> [] \<and>
      (\<exists>raw sc z. readFile path = FileText raw \<and> stage_entry raw stage = Some sc \<and>
         domain_of sc ''rootDomain'' = Some (wd_rootDomain cfg) \<and> domain_ok (wd_rootDomain cfg) \<and>
         domain_of sc ''hostedZoneName'' = Some (wd_hostedZoneName cfg) \<and> domain_ok (wd_hostedZoneName cfg) \<and>
         map_of sc ''hostedZoneId'' = Some (JStr z) \<and> wd_hostedZoneId cfg = js_trim z \<and>
         zone_id_shape (wd_hostedZoneId cfg) \<and> \<not> examplePlaceholderPattern (wd_hostedZoneId cfg))) \<and>
   (\<forall>e. readWebDomainConfig readFile syn stage path = Inl e \<longrightarrow>
      (\<exists>m s. e = Error (''AppTheory deploy config error: '' @ m @ ''. '' @ appConfigInstructions s path)))"
proof (intro conjI allI impI)
  fix cfg :: WebDomainConfig
  show "readWebDomainConfig readFile syn stage path = Inr cfg \<longleftrightarrow>
      js_trim stage \<noteq> [] \<and>
      (\<exists>raw sc z. readFile path = FileText raw \<and> stage_entry raw stage = Some sc \<and>
         domain_of sc ''rootDomain'' = Some (wd_rootDomain cfg) \<and> domain_ok (wd_rootDomain cfg) \<and>
         domain_of sc ''hostedZoneName'' = Some (wd_hostedZoneName cfg) \<and> domain_ok (wd_hostedZoneName cfg) \<and>
         map_of sc ''hostedZoneId'' = Some (JStr z) \<and> wd_hostedZoneId cfg = js_trim z \<and>
         zone_id_shape (wd_hostedZoneId cfg) \<and> \<not> examplePlaceholderPattern (wd_hostedZoneId cfg))"
    unfolding read_config_cases
    by (auto simp: read_entry_Inr split: file_read.splits option.splits)
next
  fix e assume "readWebDomainConfig readFile syn stage path = Inl e"
  then show "\<exists>m s. e = Error (''AppTheory deploy config error: '' @ m @ ''. '' @ appConfigInstructions s path)"
    using read_config_error by (simp add: config_failure_def)
qed

theorem web_domain_config_sound_witness:
  "\<exists>e m s. readWebDomainConfig (\<lambda>_. FileMissing) (\<lambda>_. []) ''lab'' ''app.json'' = Inl e \<and>
     e = Error (''AppTheory deploy config error: '' @ m @ ''. '' @ appConfigInstructions s ''app.json'')"
proof -
  obtain e where e: "readWebDomainConfig (\<lambda>_. FileMissing) (\<lambda>_. []) ''lab'' ''app.json'' = Inl e"
    using web_domain_config_sound [of "\<lambda>_. FileMissing" "\<lambda>_. []" "''lab''" "''app.json''", THEN conjunct1]
    by (cases "readWebDomainConfig (\<lambda>_. FileMissing) (\<lambda>_. []) ''lab'' ''app.json''") auto
  show ?thesis using web_domain_config_sound [THEN conjunct2, rule_format, OF e] e by blast
qed

text \<open>The shape check is weaker than its message: an empty label passes for a DNS name.\<close>

lemma dns_shape_empty_label: "dns_shape ''a..b''"
  by (simp add: dns_shape_def dns_edge_def dns_inner_def char_class_defs)

section \<open>Stages\<close>

text \<open>Live is set apart: its ENS gateway serves mainnet and takes its resolver address from its own
  key alone, whatever the key shared with the lab says, while a stage-specific value always wins over
  the shared one.  The stage must be written in lower case, though: \<open>Live\<close> selects the lab chain and
  keys for the ENS gateway and the live domain for mail.\<close>

theorem live_settings_apart:
  "js_trim stage = ''live'' \<Longrightarrow>
     ens_chainName (ensGatewayChainConfigForStage stage) = ''mainnet'' \<and>
     ensGatewayResolverAddressFromContext (ctx(''ensGatewayResolverAddress'' := v)) stage =
       ensGatewayResolverAddressFromContext ctx stage \<and>
     (\<forall>key x. ctx (key @ ''Live'') = Some (JStr x) \<longrightarrow> ensGatewayContextForStage ctx stage key fallback = x) \<and>
     ensGatewayChainConfigForStage ''Live'' = ensGatewayChainConfigForStage ''lab'' \<and>
     defaultSoulEmailInboundDomainForStage ''Live'' = defaultSoulEmailInboundDomainForStage stage"
proof -
  assume live: "js_trim stage = ''live''"
  have names: "js_trim ''Live'' = ''Live''" "js_trim ''lab'' = ''lab''" "toLowerCase ''Live'' = ''live''" "toLowerCase ''live'' = ''live''"
    by code_simp+
  then show ?thesis using live
    by (simp add: ensGatewayChainConfigForStage_def stageSuffix_def ensGatewayResolverAddressFromContext_def
        contextString_def ensGatewayContextForStage_def nullish_def defaultSoulEmailInboundDomainForStage_def)
qed

theorem live_settings_apart_witness:
  "ensGatewayResolverAddressFromContext [''ensGatewayResolverAddress'' \<mapsto> JStr ''0xlab''] ''live'' =
   ensGatewayResolverAddressFromContext Map.empty ''live''"
proof -
  have "js_trim ''live'' = ''live''" by (simp add: js_trim_def is_space_def)
  from live_settings_apart [OF this, of Map.empty "Some (JStr ''0xlab'')"] show ?thesis by simp
qed

section \<open>The bootstrap wallet\<close>

lemma lower_hex: "is_hex c \<Longrightarrow> is_hex (lower_char c)"
  by (auto simp: is_hex_def hex_value_def lower_char_def char_class_defs Let_def split: if_splits)

lemma hex_not_space: "is_hex c \<Longrightarrow> \<not> is_space c"
  by (auto simp: is_hex_def hex_value_def char_class_defs split: if_splits)

text \<open>An override is either absent or a normalised EVM address, and normalising it again changes nothing.\<close>

lemma no_placeholder_hex:
  assumes "list_all is_hex s"
  shows "\<not> placeholderPattern (''0x'' @ s)"
proof -
  have hit: "w \<noteq> [] \<Longrightarrow> hd w \<notin> set (toLowerCase t) \<Longrightarrow> \<not> occurs w b a done t" for w b a "done" t
  proof (induction t arbitrary: "done")
    case (Cons c t)
    then have "\<not> startsWith (toLowerCase (c # t)) w"
      by (cases w) (auto simp: startsWith_def toLowerCase_def)
    then show ?case using Cons by (simp add: toLowerCase_def)
  qed simp
  have low: "c \<noteq> CHR ''<'' \<and> c \<noteq> CHR ''y''" if "c \<in> set (toLowerCase (''0x'' @ s))" for c
  proof -
    have "c = CHR ''0'' \<or> c = CHR ''x'' \<or> is_hex c"
      using that assms lower_hex by (auto simp: toLowerCase_def lower_char_def list_all_iff)
    then show ?thesis by (auto simp: is_hex_def hex_value_def char_class_defs)
  qed
  have "CHR ''<'' \<notin> set (toLowerCase (''0x'' @ s))" "CHR ''y'' \<notin> set (toLowerCase (''0x'' @ s))" using low by blast+
  then show ?thesis
    unfolding placeholderPattern_def using hit [of "''<''" "''0x'' @ s"] hit [of "''your_''" "''0x'' @ s"]
    by (simp del: occurs.simps)
qed

lemma bootstrap_override_normal:
  assumes "normalizedBootstrapWalletOverride v = Inr a" and "a \<noteq> []"
  shows "evmAddressPattern a \<and> toLowerCase a = a \<and> normalizedBootstrapWalletOverride (Some (JStr a)) = Inr a"
proof -
  obtain s where s: "evmAddressPattern s" "a = ''0x'' @ toLowerCase (drop 2 s)"
    using assms by (auto simp: normalizedBootstrapWalletOverride_def Let_def split: option.splits json.splits if_splits)
  let ?h = "toLowerCase (drop 2 s)"
  have h: "list_all is_hex ?h" "length ?h = 40"
    using s(1) lower_hex by (auto simp: evmAddressPattern_def list_all_iff toLowerCase_def)
  have pat: "evmAddressPattern a" using h by (simp add: s(2) evmAddressPattern_def startsWith_def)
  have "toLowerCase ''0x'' = ''0x''" by code_simp
  then have low: "toLowerCase a = a" unfolding s(2) toLowerCase_def map_append by (simp add: comp_def)
  have "\<not> is_space c" if "c \<in> set a" for c
    using that h(1) hex_not_space by (auto simp: s(2) list_all_iff is_space_def)
  then have "js_trim a = a" by (rule trim_no_space)
  moreover have "\<not> placeholderPattern a" unfolding s(2) by (rule no_placeholder_hex [OF h(1)])
  moreover have "toLowerCase (drop 2 a) = drop 2 a" by (simp add: s(2))
  ultimately have "normalizedBootstrapWalletOverride (Some (JStr a)) = Inr a"
    using pat by (simp add: normalizedBootstrapWalletOverride_def Let_def) (simp add: s(2))
  with pat low show ?thesis by blast
qed

section \<open>Local context\<close>

text \<open>An explicit command-line key is never overridden; every other key takes the value of the local file
  when that has one.\<close>

lemma local_context_priority:
  assumes "applyLocalContextOverrides syn argv path (FileText raw) ctx = Inr ctx'"
    and "json_parse raw = Some parsed" and "distinct (map fst (local_context parsed))"
  shows "ctx' k = (if k \<in> set (explicitCliContextKeys argv) then ctx k
     else case map_of (local_context parsed) k of Some v \<Rightarrow> Some v | None \<Rightarrow> ctx k)"
proof -
  have "distinct (map fst kvs) \<Longrightarrow>
      fold (\<lambda>(key, v) c. if key \<in> K then c else c(key \<mapsto> v)) kvs c k =
        (if k \<in> K then c k else case map_of kvs k of Some v \<Rightarrow> Some v | None \<Rightarrow> c k)" for kvs :: "(js_string \<times> json) list" and K c
  proof (induction kvs arbitrary: c)
    case (Cons x kvs)
    obtain a b where x: "x = (a, b)" by (cases x)
    have "map_of kvs a = None" using Cons.prems by (simp add: x map_of_eq_None_iff)
    then show ?case using Cons by (auto simp: x split: option.splits)
  qed simp
  from this [OF assms(3), of "set (explicitCliContextKeys argv)" ctx] show ?thesis
    using assms(1, 2) by (auto simp: applyLocalContextOverrides_def)
qed

end
