(* ===== verification/Async.thy ===== *)
theory Async
  imports Main "HOL-Library.Multiset"
begin

text \<open>
  Asynchronous event handlers over shared state, the way the pages of the web client are written.
  A handler runs without interruption up to its next \<open>await\<close>; the awaited operation is
  started at once, and the rest of the handler runs when its answer has arrived.  In between,
  other handlers start and continue, and they all read and write the same component state.

  A \<open>segment\<close> is one uninterrupted piece of a handler: it changes the state and either ends the
  handler or awaits an operation on the outside world, which yields the next segment.  A page is
  the component state, the world and the segments that wait to be continued.  A step of a page
  starts any of its handlers or continues any waiting segment, so every interleaving at the
  awaits is a run of the page.
\<close>

section \<open>Handlers and pages\<close>

datatype ('s, 'w) proc = Done | Await "'w \<Rightarrow> ('s \<Rightarrow> 's \<times> ('s, 'w) proc) \<times> 'w"

type_synonym ('s, 'w) segment = "'s \<Rightarrow> 's \<times> ('s, 'w) proc"

definition finish :: "('s, 'w) segment" where
  "finish s = (s, Done)"

text \<open>\<open>k(await op)\<close>: the operation's answer is what the rest of the handler is given.\<close>

definition await :: "('w \<Rightarrow> 'a \<times> 'w) \<Rightarrow> ('a \<Rightarrow> ('s, 'w) segment) \<Rightarrow> ('s, 'w) segment" where
  "await op k s = (s, Await (\<lambda>w. map_prod k (\<lambda>v. v) (op w)))"

record ('s, 'w) page =
  pg_state :: 's
  pg_world :: 'w
  pg_pending :: "('s, 'w) segment list"

definition fresh_page :: "'s \<Rightarrow> 'w \<Rightarrow> ('s, 'w) page" where
  "fresh_page s w = \<lparr>pg_state = s, pg_world = w, pg_pending = []\<rparr>"

definition run_segment :: "('s, 'w) segment \<Rightarrow> ('s, 'w) page \<Rightarrow> ('s, 'w) page" where
  "run_segment k pg =
     (case k (pg_state pg) of
        (s, Done) \<Rightarrow> pg\<lparr>pg_state := s\<rparr>
      | (s, Await op) \<Rightarrow>
          (case op (pg_world pg) of
             (k', w) \<Rightarrow> pg\<lparr>pg_state := s, pg_world := w, pg_pending := pg_pending pg @ [k']\<rparr>))"

definition resume :: "nat \<Rightarrow> ('s, 'w) page \<Rightarrow> ('s, 'w) page" where
  "resume i pg =
     run_segment (pg_pending pg ! i) (pg\<lparr>pg_pending := take i (pg_pending pg) @ drop (Suc i) (pg_pending pg)\<rparr>)"

inductive resume_step :: "('s, 'w) page \<Rightarrow> ('s, 'w) page \<Rightarrow> bool" where
  "i < length (pg_pending pg) \<Longrightarrow> resume_step pg (resume i pg)"

inductive page_step :: "('s, 'w) segment set \<Rightarrow> ('s, 'w) page \<Rightarrow> ('s, 'w) page \<Rightarrow> bool" for H where
  start: "h \<in> H \<Longrightarrow> page_step H pg (run_segment h pg)"
| continue: "resume_step pg pg' \<Longrightarrow> page_step H pg pg'"

inductive_cases resume_stepE: "resume_step pg pg'"
inductive_cases page_stepE: "page_step H pg pg'"

abbreviation page_reachable :: "('s, 'w) segment set \<Rightarrow> ('s, 'w) page \<Rightarrow> ('s, 'w) page \<Rightarrow> bool" where
  "page_reachable H \<equiv> (page_step H)\<^sup>*\<^sup>*"

text \<open>One handler run alone to its end.\<close>

primrec run_proc :: "('s, 'w) proc \<Rightarrow> 's \<Rightarrow> 'w \<Rightarrow> 's \<times> 'w" where
  "run_proc Done = (\<lambda>s w. (s, w))"
| "run_proc (Await op) =
     (\<lambda>s w. case (map_prod (\<lambda>k. map_prod (\<lambda>v. v) run_proc \<circ> k) (\<lambda>v. v) \<circ> op) w of
        (k, w') \<Rightarrow> (case k s of (s', r) \<Rightarrow> r s' w'))"

definition run :: "('s, 'w) segment \<Rightarrow> 's \<Rightarrow> 'w \<Rightarrow> 's \<times> 'w" where
  "run k s w = (case k s of (s', p) \<Rightarrow> run_proc p s' w)"

lemma run_finish [simp]: "run finish s w = (s, w)"
  by (simp add: run_def finish_def)

lemma run_await: "run (await op k) s w = (case op w of (a, w') \<Rightarrow> run (k a) s w')"
  by (simp add: run_def await_def split: prod.splits)


lemma resume_last [simp]:
  "pg_pending pg = ks @ [k] \<Longrightarrow> resume (length ks) pg = run_segment k (pg\<lparr>pg_pending := ks\<rparr>)"
  by (simp add: resume_def)

text \<open>Running one handler alone is one of the schedules of the page.\<close>

lemma run_segment_reaches_run:
  "page_reachable H (run_segment k pg)
     (pg\<lparr>pg_state := fst (run k (pg_state pg) (pg_world pg)), pg_world := snd (run k (pg_state pg) (pg_world pg))\<rparr>)"
proof -
  have "page_reachable H (run_segment k pg)
      (pg\<lparr>pg_state := fst (run_proc p s (pg_world pg)), pg_world := snd (run_proc p s (pg_world pg))\<rparr>)"
    if "k (pg_state pg) = (s, p)" for s p k pg
    using that
  proof (induction p arbitrary: k pg s)
    case Done
    then show ?case by (simp add: run_segment_def)
  next
    case (Await op)
    obtain k' w where op: "op (pg_world pg) = (k', w)" by fastforce
    obtain s' p' where k': "k' s = (s', p')" by fastforce
    let ?mid = "pg\<lparr>pg_state := s, pg_world := w, pg_pending := pg_pending pg @ [k']\<rparr>"
    let ?rest = "pg\<lparr>pg_state := s, pg_world := w\<rparr>"
    have "resume_step ?mid (run_segment k' ?rest)"
      using resume_step.intros [of "length (pg_pending pg)" ?mid] resume_last [of ?mid "pg_pending pg" k'] by simp
    moreover have "page_reachable H (run_segment k' ?rest)
        (?rest\<lparr>pg_state := fst (run_proc p' s' w), pg_world := snd (run_proc p' s' w)\<rparr>)"
      using Await.IH [of "op (pg_world pg)" k' "k' s" p' k' ?rest s'] op k'
      by (simp add: prod_set_simps rangeI) (metis rangeI fst_conv snd_conv fsts.intros snds.intros op k')
    ultimately have "page_reachable H ?mid
        (?rest\<lparr>pg_state := fst (run_proc p' s' w), pg_world := snd (run_proc p' s' w)\<rparr>)"
      by (meson page_step.continue converse_rtranclp_into_rtranclp)
    moreover have "run_segment k pg = ?mid" using Await.prems op by (simp add: run_segment_def)
    ultimately show ?case using op k' by simp
  qed
  then show ?thesis by (simp add: run_def split: prod.splits)
qed

text \<open>Handlers run one after the other.\<close>

fun run_all :: "('s, 'w) segment list \<Rightarrow> 's \<Rightarrow> 'w \<Rightarrow> 's \<times> 'w" where
  "run_all [] s w = (s, w)"
| "run_all (h # hs) s w = (case run h s w of (s', w') \<Rightarrow> run_all hs s' w')"

lemma run_all_reachable:
  assumes "set hs \<subseteq> H"
  shows "page_reachable H (fresh_page s w) (fresh_page (fst (run_all hs s w)) (snd (run_all hs s w)))"
  using assms
proof (induction hs arbitrary: s w)
  case (Cons h hs)
  obtain s' w' where r: "run h s w = (s', w')" by fastforce
  have "page_step H (fresh_page s w) (run_segment h (fresh_page s w))" using Cons.prems by (intro page_step.start) simp
  moreover have "page_reachable H (run_segment h (fresh_page s w)) (fresh_page s' w')"
    using run_segment_reaches_run [of H h "fresh_page s w"] r by (simp add: fresh_page_def)
  moreover have "page_reachable H (fresh_page s' w') (fresh_page (fst (run_all hs s' w')) (snd (run_all hs s' w')))"
    using Cons by simp
  ultimately have "page_reachable H (fresh_page s w) (fresh_page (fst (run_all hs s' w')) (snd (run_all hs s' w')))"
    by (meson converse_rtranclp_into_rtranclp rtranclp_trans)
  then show ?case using r by simp
qed simp

section \<open>Every page settles\<close>

text \<open>
  Continuing the waiting segments, in whatever order the answers arrive, comes to an end: a
  continued segment is replaced by at most one that is nearer to its end.
\<close>

inductive_set continues :: "(('s, 'w) segment \<times> ('s, 'w) segment) set" where
  "k s = (s', Await op) \<Longrightarrow> op w = (k', w') \<Longrightarrow> (k', k) \<in> continues"

lemma wf_continues: "wf continues"
proof -
  have step: "k' \<in> Wellfounded.acc continues" if "p = Await op" "op w = (k', w')"
    for p :: "('s, 'w) proc" and op w k' w'
    using that
  proof (induction p arbitrary: op w k' w')
    case (Await op0)
    show ?case
    proof (rule accI)
      fix k'' assume "(k'', k') \<in> continues"
      then obtain s s' op' v v' where "k' s = (s', Await op')" "op' v = (k'', v')"
        by (blast elim: continues.cases)
      moreover have "op0 = op" using Await.prems by simp
      ultimately show "k'' \<in> Wellfounded.acc continues"
        using Await.IH [of "op0 w" k' "k' s" "Await op'" op' v k'' v'] Await.prems(2)
        by (simp add: prod_set_simps rangeI) (metis rangeI)
    qed
  qed simp
  have "k' \<in> Wellfounded.acc continues" if "(k', k) \<in> continues" for k k' :: "('s, 'w) segment"
    using that by (cases rule: continues.cases) (erule step [OF refl])
  then have "k \<in> Wellfounded.acc continues" for k :: "('s, 'w) segment"
    by (rule accI)
  then show ?thesis by (intro acc_wfI allI)
qed

lemma run_segment_pending:
  "pg_pending (run_segment k pg) = pg_pending pg \<or>
     (\<exists>k'. (k', k) \<in> continues \<and> pg_pending (run_segment k pg) = pg_pending pg @ [k'])"
  by (auto simp: run_segment_def intro: continues.intros split: prod.splits proc.splits)

lemma resume_decreases:
  assumes "resume_step pg pg'"
  shows "(mset (pg_pending pg'), mset (pg_pending pg)) \<in> mult continues"
proof -
  obtain i where i: "i < length (pg_pending pg)" and pg': "pg' = resume i pg"
    using assms by (blast elim: resume_stepE)
  let ?ks = "take i (pg_pending pg) @ drop (Suc i) (pg_pending pg)"
  let ?k = "pg_pending pg ! i"
  have m: "mset (pg_pending pg) = mset ?ks + {#?k#}"
    using i by (subst id_take_nth_drop [OF i]) simp
  obtain K where "pg_pending pg' = ?ks @ K" "\<forall>k' \<in> set K. (k', ?k) \<in> continues"
    using run_segment_pending [of ?k "pg\<lparr>pg_pending := ?ks\<rparr>"] by (force simp: pg' resume_def)
  then show ?thesis
    using one_step_implies_mult [of "{#?k#}" "mset K" continues "mset ?ks"] by (simp add: m add.assoc)
qed

lemma wf_resume: "wfP (\<lambda>pg' pg. resume_step pg pg')"
proof (rule wfp_if_convertible_to_wfp)
  show "wfp (\<lambda>M N. (M, N) \<in> mult continues)" by (simp add: wfp_def wf_mult wf_continues)
  show "(mset (pg_pending pg'), mset (pg_pending pg)) \<in> mult continues" if "resume_step pg pg'" for pg pg' :: "('s, 'w) page"
    by (rule resume_decreases [OF that])
qed

text \<open>What holds, inevitably, once all answers have arrived and nothing is left to continue.\<close>

inductive settles :: "(('s, 'w) page \<Rightarrow> bool) \<Rightarrow> ('s, 'w) page \<Rightarrow> bool" for P where
  "(pg_pending pg = [] \<Longrightarrow> P pg) \<Longrightarrow> (\<And>pg'. resume_step pg pg' \<Longrightarrow> settles P pg') \<Longrightarrow> settles P pg"

lemma settles_if:
  assumes "\<And>pg'. resume_step\<^sup>*\<^sup>* pg pg' \<Longrightarrow> pg_pending pg' = [] \<Longrightarrow> P pg'"
  shows "settles P pg"
  using assms
proof (induction pg rule: wfp_induct_rule [OF wf_resume])
  case (1 pg)
  show ?case
  proof (rule settles.intros)
    show "pg_pending pg = [] \<Longrightarrow> P pg" using 1(2) by blast
    show "settles P pg'" if "resume_step pg pg'" for pg'
      using 1 that by (meson converse_rtranclp_into_rtranclp)
  qed
qed

lemma settles_conj: "settles P pg \<Longrightarrow> settles Q pg \<Longrightarrow> settles (\<lambda>q. P q \<and> Q q) pg"
proof (induction rule: settles.induct)
  case (1 pg)
  from \<open>settles Q pg\<close> show ?case
  proof cases
    case Q: 1
    show ?thesis
    proof (rule settles.intros)
      show "P pg \<and> Q pg" if "pg_pending pg = []" using 1(1) [OF that] Q(1) [OF that] by simp
      show "settles (\<lambda>q. P q \<and> Q q) pg'" if "resume_step pg pg'" for pg'
        by (rule 1(3) [OF that Q(2) [OF that]])
    qed
  qed
qed

section \<open>Invariants under every interleaving\<close>

text \<open>
  The world only grows, along \<open>R\<close>.  A segment that was created in the world \<open>w0\<close> is safe for a
  predicate on the state and the world when it keeps the predicate in every state and every later
  world it may be continued in, and so does everything that follows it.
\<close>

inductive safe :: "('w \<Rightarrow> 'w \<Rightarrow> bool) \<Rightarrow> ('s \<Rightarrow> 'w \<Rightarrow> bool) \<Rightarrow> 'w \<Rightarrow> ('s, 'w) segment \<Rightarrow> bool" for R I where
  safeI: "(\<And>s w s'. R w0 w \<Longrightarrow> I s w \<Longrightarrow> k s = (s', Done) \<Longrightarrow> I s' w) \<Longrightarrow>
    (\<And>s w s' op k' w'. R w0 w \<Longrightarrow> I s w \<Longrightarrow> k s = (s', Await op) \<Longrightarrow> op w = (k', w') \<Longrightarrow>
       R w w' \<and> I s' w' \<and> safe R I w' k') \<Longrightarrow>
    safe R I w0 k"

text \<open>What one result of a segment has to satisfy, for the combinators.\<close>

definition safe_result :: "('w \<Rightarrow> 'w \<Rightarrow> bool) \<Rightarrow> ('s \<Rightarrow> 'w \<Rightarrow> bool) \<Rightarrow> 'w \<Rightarrow> 's \<times> ('s, 'w) proc \<Rightarrow> bool" where
  "safe_result R I w r =
     (case r of
        (s, Done) \<Rightarrow> I s w
      | (s, Await op) \<Rightarrow> (case op w of (k, w') \<Rightarrow> R w w' \<and> I s w' \<and> safe R I w' k))"

lemma safe_iff: "safe R I w0 k \<longleftrightarrow> (\<forall>s w. R w0 w \<longrightarrow> I s w \<longrightarrow> safe_result R I w (k s))"
proof
  assume k: "safe R I w0 k"
  show "\<forall>s w. R w0 w \<longrightarrow> I s w \<longrightarrow> safe_result R I w (k s)"
  proof (intro allI impI)
    fix s w assume I: "R w0 w" "I s w"
    obtain s' p where ks: "k s = (s', p)" by fastforce
    from k show "safe_result R I w (k s)"
    proof cases
      case safeI
      show ?thesis
      proof (cases p)
        case Done
        then show ?thesis using safeI(1) [of w s s'] I by (simp add: safe_result_def ks)
      next
        case (Await op)
        obtain k' w' where "op w = (k', w')" by fastforce
        then show ?thesis using safeI(2) [of w s s' op k' w'] I by (simp add: safe_result_def ks Await)
      qed
    qed
  qed
next
  assume "\<forall>s w. R w0 w \<longrightarrow> I s w \<longrightarrow> safe_result R I w (k s)"
  then have r: "safe_result R I w (k s)" if "R w0 w" "I s w" for s w using that by blast
  show "safe R I w0 k"
  proof (rule safeI)
    show "I s' w" if "R w0 w" "I s w" "k s = (s', Done)" for s w s'
      using r [OF that(1,2)] that(3) by (simp add: safe_result_def)
    show "R w w' \<and> I s' w' \<and> safe R I w' k'"
      if "R w0 w" "I s w" "k s = (s', Await op)" "op w = (k', w')" for s w s' op k' w'
      using r [OF that(1,2)] that(3,4) by (simp add: safe_result_def)
  qed
qed

lemma safeR: "(\<And>s w. R w0 w \<Longrightarrow> I s w \<Longrightarrow> safe_result R I w (k s)) \<Longrightarrow> safe R I w0 k"
  by (simp add: safe_iff [of R I w0 k])

lemma safe_finish: "I s w \<Longrightarrow> safe_result R I w (finish s)"
  by (simp add: safe_result_def finish_def)

lemma safe_await:
  "(\<And>a w'. op w = (a, w') \<Longrightarrow> R w w' \<and> I s w' \<and> safe R I w' (k a)) \<Longrightarrow> safe_result R I w (await op k s)"
  by (cases "op w") (simp add: safe_result_def await_def)

locale page_invariant =
  fixes handlers :: "('s, 'w) segment set" and R :: "'w \<Rightarrow> 'w \<Rightarrow> bool" and I :: "'s \<Rightarrow> 'w \<Rightarrow> bool"
  assumes world_refl: "R w w" and world_trans: "R w w' \<Longrightarrow> R w' w'' \<Longrightarrow> R w w''"
    and handler_safe: "h \<in> handlers \<Longrightarrow> safe R I w h"
begin

lemma safe_later: "safe R I w k \<Longrightarrow> R w w' \<Longrightarrow> safe R I w' k"
  unfolding safe_iff [of R I w k] safe_iff [of R I w' k] using world_trans by blast

abbreviation page_ok :: "('s, 'w) page \<Rightarrow> bool" where
  "page_ok pg \<equiv> I (pg_state pg) (pg_world pg) \<and> (\<forall>k \<in> set (pg_pending pg). safe R I (pg_world pg) k)"

lemma safe_run_segment:
  assumes "safe R I (pg_world pg) k" and ok: "page_ok pg"
  shows "page_ok (run_segment k pg)"
proof -
  have r: "safe_result R I (pg_world pg) (k (pg_state pg))"
    using assms world_refl by (simp add: safe_iff [of R I _ k])
  obtain s p where ks: "k (pg_state pg) = (s, p)" by fastforce
  show ?thesis
  proof (cases p)
    case Done
    then show ?thesis using r ok by (simp add: run_segment_def safe_result_def ks)
  next
    case (Await op)
    obtain k' w' where op: "op (pg_world pg) = (k', w')" by fastforce
    then have "R (pg_world pg) w'" "I s w'" "safe R I w' k'"
      using r by (simp_all add: safe_result_def ks Await)
    then show ?thesis using ok safe_later by (auto simp: run_segment_def ks Await op)
  qed
qed

lemma step_invariant:
  assumes "page_step handlers pg pg'" and ok: "page_ok pg"
  shows "page_ok pg'"
  using assms(1)
proof cases
  case (start h)
  then show ?thesis using safe_run_segment handler_safe ok by metis
next
  case continue
  then obtain i where i: "i < length (pg_pending pg)" "pg' = resume i pg" by (blast elim: resume_stepE)
  let ?q = "pg\<lparr>pg_pending := take i (pg_pending pg) @ drop (Suc i) (pg_pending pg)\<rparr>"
  have "page_ok ?q" using ok by (auto dest: in_set_takeD in_set_dropD)
  moreover have "safe R I (pg_world ?q) (pg_pending pg ! i)" using ok i(1) by simp
  ultimately show ?thesis unfolding i(2) resume_def by (intro safe_run_segment)
qed

lemma reachable_invariant:
  assumes "page_reachable handlers pg pg'" and "I (pg_state pg) (pg_world pg)" and "pg_pending pg = []"
  shows "I (pg_state pg') (pg_world pg')"
proof -
  have "page_ok pg'"
    using assms(1) by (induction rule: rtranclp_induct) (use assms(2,3) step_invariant in auto)
  then show ?thesis by simp
qed

end

section \<open>What a step may do\<close>

text \<open>
  An invariant speaks of the states a page is in; \<open>obeys Q\<close> speaks of its steps: whenever a segment that starts in
  the state \<open>s\<close> takes the world from \<open>w\<close> to \<open>w'\<close>, then \<open>Q s w w'\<close>, and so for everything that follows it.
\<close>

inductive obeys :: "('s \<Rightarrow> 'w \<Rightarrow> 'w \<Rightarrow> bool) \<Rightarrow> ('s, 'w) segment \<Rightarrow> bool" for Q where
  obeysI: "(\<And>s s' op w k' w'. k s = (s', Await op) \<Longrightarrow> op w = (k', w') \<Longrightarrow> Q s w w' \<and> obeys Q k') \<Longrightarrow> obeys Q k"

definition obeys_result :: "('s \<Rightarrow> 'w \<Rightarrow> 'w \<Rightarrow> bool) \<Rightarrow> 's \<Rightarrow> 's \<times> ('s, 'w) proc \<Rightarrow> bool" where
  "obeys_result Q s r =
     (case r of (s', Done) \<Rightarrow> True | (s', Await op) \<Rightarrow> \<forall>w k' w'. op w = (k', w') \<longrightarrow> Q s w w' \<and> obeys Q k')"

lemma obeys_iff: "obeys Q k \<longleftrightarrow> (\<forall>s. obeys_result Q s (k s))"
proof
  assume "obeys Q k"
  then show "\<forall>s. obeys_result Q s (k s)"
    by cases (auto simp: obeys_result_def split: prod.splits proc.splits)
next
  assume *: "\<forall>s. obeys_result Q s (k s)"
  show "obeys Q k"
  proof (rule obeysI)
    show "Q s w w' \<and> obeys Q k'" if "k s = (s', Await op)" "op w = (k', w')" for s s' op w k' w'
      using spec [OF *, of s] that by (simp add: obeys_result_def)
  qed
qed

lemma obeysR: "(\<And>s. obeys_result Q s (k s)) \<Longrightarrow> obeys Q k"
  by (simp add: obeys_iff [of Q k])

lemma obeysD: "obeys Q k \<Longrightarrow> obeys_result Q s (k s)"
  by (simp add: obeys_iff [of Q k])

lemma obeys_moved: "obeys Q k \<Longrightarrow> (\<And>w w'. Q s' w w' \<Longrightarrow> Q s w w') \<Longrightarrow> obeys_result Q s (k s')"
  unfolding obeys_iff [of Q k] obeys_result_def by (drule spec [of _ s']) (auto split: prod.splits proc.splits)

lemma obeys_stop [simp]: "obeys_result Q s (finish s')"
  by (simp add: obeys_result_def finish_def)

lemma obeys_finish: "obeys Q finish"
  by (rule obeysR) simp

lemma obeys_await:
  "(\<And>w a w'. op w = (a, w') \<Longrightarrow> Q s w w' \<and> obeys Q (k a)) \<Longrightarrow> obeys_result Q s (await op k s')"
  by (auto simp: obeys_result_def await_def map_prod_def split: prod.splits)

locale step_discipline =
  fixes handlers :: "('s, 'w) segment set" and Q :: "'s \<Rightarrow> 'w \<Rightarrow> 'w \<Rightarrow> bool"
  assumes quiet: "Q s w w" and handler_obeys: "h \<in> handlers \<Longrightarrow> obeys Q h"
begin

lemma run_segment_obeys:
  assumes "obeys Q k" and "\<forall>k' \<in> set (pg_pending pg). obeys Q k'"
  shows "Q (pg_state pg) (pg_world pg) (pg_world (run_segment k pg)) \<and> (\<forall>k' \<in> set (pg_pending (run_segment k pg)). obeys Q k')"
proof -
  have r: "obeys_result Q (pg_state pg) (k (pg_state pg))" using assms(1) by (simp add: obeys_iff)
  obtain s p where ks: "k (pg_state pg) = (s, p)" by fastforce
  show ?thesis
  proof (cases p)
    case Done
    then show ?thesis using assms(2) quiet by (simp add: run_segment_def ks)
  next
    case (Await op)
    obtain k' w' where op: "op (pg_world pg) = (k', w')" by fastforce
    then have "Q (pg_state pg) (pg_world pg) w'" "obeys Q k'" using r by (simp_all add: obeys_result_def ks Await)
    then show ?thesis using assms(2) by (auto simp: run_segment_def ks Await op)
  qed
qed

lemma step_obeys:
  assumes "page_step handlers pg pg'" and pend: "\<forall>k \<in> set (pg_pending pg). obeys Q k"
  shows "Q (pg_state pg) (pg_world pg) (pg_world pg') \<and> (\<forall>k \<in> set (pg_pending pg'). obeys Q k)"
  using assms(1)
proof cases
  case (start h)
  then show ?thesis using run_segment_obeys [OF handler_obeys pend] by simp
next
  case continue
  then obtain i where i: "i < length (pg_pending pg)" "pg' = resume i pg" by (blast elim: resume_stepE)
  let ?q = "pg\<lparr>pg_pending := take i (pg_pending pg) @ drop (Suc i) (pg_pending pg)\<rparr>"
  have q: "\<forall>k \<in> set (pg_pending ?q). obeys Q k" using pend by (auto dest: in_set_takeD in_set_dropD)
  have "obeys Q (pg_pending pg ! i)" using pend i(1) by simp
  moreover have "pg_state ?q = pg_state pg" "pg_world ?q = pg_world pg" by simp_all
  ultimately show ?thesis using run_segment_obeys [OF _ q] unfolding i(2) resume_def by metis
qed

lemma reachable_step:
  assumes "page_reachable handlers pg0 pg" and "pg_pending pg0 = []" and "page_step handlers pg pg'"
  shows "Q (pg_state pg) (pg_world pg) (pg_world pg')"
proof -
  have "\<forall>k \<in> set (pg_pending pg). obeys Q k"
    using assms(1) by (induction rule: rtranclp_induct) (use assms(2) step_obeys in auto)
  then show ?thesis using step_obeys [OF assms(3)] by blast
qed

end

section \<open>Loading flags\<close>

text \<open>
  A flag is owed by a segment when its handler has raised the flag and will lower it.  A segment
  that owes a flag lowers it or hands the debt on to the next segment; a segment that does not owe
  it leaves a lowered flag lowered or takes the debt on.
\<close>

inductive owes :: "('s \<Rightarrow> bool) \<Rightarrow> bool \<Rightarrow> ('s, 'w) segment \<Rightarrow> bool" for f where
  owesI: "(\<And>s s'. k s = (s', Done) \<Longrightarrow> f s' \<Longrightarrow> \<not> b \<and> f s) \<Longrightarrow>
    (\<And>s s' op. k s = (s', Await op) \<Longrightarrow>
       \<exists>b'. (f s' \<longrightarrow> b' \<or> \<not> b \<and> f s) \<and> (\<forall>w k' w'. op w = (k', w') \<longrightarrow> owes f b' k')) \<Longrightarrow>
    owes f b k"

definition owes_result :: "('s \<Rightarrow> bool) \<Rightarrow> bool \<Rightarrow> 's \<Rightarrow> 's \<times> ('s, 'w) proc \<Rightarrow> bool" where
  "owes_result f b s r =
     (case r of
        (s', Done) \<Rightarrow> f s' \<longrightarrow> \<not> b \<and> f s
      | (s', Await op) \<Rightarrow> \<exists>b'. (f s' \<longrightarrow> b' \<or> \<not> b \<and> f s) \<and> (\<forall>w k' w'. op w = (k', w') \<longrightarrow> owes f b' k'))"

lemma owes_iff: "owes f b k \<longleftrightarrow> (\<forall>s. owes_result f b s (k s))"
proof
  assume "owes f b k"
  then show "\<forall>s. owes_result f b s (k s)"
    by cases (auto simp: owes_result_def split: prod.splits proc.splits)
next
  assume *: "\<forall>s. owes_result f b s (k s)"
  show "owes f b k"
  proof (rule owesI)
    show "\<not> b \<and> f s" if "k s = (s', Done)" "f s'" for s s'
      using spec [OF *, of s] that by (simp add: owes_result_def)
    show "\<exists>b'. (f s' \<longrightarrow> b' \<or> \<not> b \<and> f s) \<and> (\<forall>w k' w'. op w = (k', w') \<longrightarrow> owes f b' k')"
      if "k s = (s', Await op)" for s s' op
      using spec [OF *, of s] that by (simp add: owes_result_def)
  qed
qed

lemma owes_finish: "owes_result f b s (finish s') \<longleftrightarrow> (f s' \<longrightarrow> \<not> b \<and> f s)"
  by (simp add: owes_result_def finish_def)

lemma owes_await_raised: "(\<And>a. owes f True (k a)) \<Longrightarrow> owes_result f b s (await op k s')"
  unfolding owes_result_def await_def prod.case proc.case
  by (rule exI [of _ True]) (auto simp: map_prod_def split: prod.splits)

lemma owes_await_kept: "(f s' \<Longrightarrow> f s) \<Longrightarrow> (\<And>a. owes f False (k a)) \<Longrightarrow> owes_result f False s (await op k s')"
  unfolding owes_result_def await_def prod.case proc.case
  by (rule exI [of _ False]) (auto simp: map_prod_def split: prod.splits)

lemma owesR: "(\<And>s. owes_result f b s (k s)) \<Longrightarrow> owes f b k"
  by (simp add: owes_iff [of f b k])

lemma owesD: "owes f b k \<Longrightarrow> owes_result f b s (k s)"
  by (simp add: owes_iff [of f b k])

lemma owes_result_mono:
  "owes_result f b s r \<Longrightarrow> (\<not> b \<Longrightarrow> f s \<Longrightarrow> \<not> b' \<and> f s') \<Longrightarrow> owes_result f b' s' r"
  unfolding owes_result_def by (cases r; cases "snd r"; simp) blast+

lemma owes_true: "owes f True k \<Longrightarrow> owes_result f b s (k s')"
  by (erule owes_result_mono [OF owesD]) simp

lemma owes_same: "owes f False k \<Longrightarrow> (f s' \<Longrightarrow> f s) \<Longrightarrow> owes_result f False s (k s')"
  by (erule owes_result_mono [OF owesD]) simp

lemma owes_lowered: "owes f False k \<Longrightarrow> \<not> f s' \<Longrightarrow> owes_result f b s (k s')"
  by (erule owes_result_mono [OF owesD]) simp

lemma owes_stop: "(f s' \<Longrightarrow> \<not> b \<and> f s) \<Longrightarrow> owes_result f b s (finish s')"
  by (simp add: owes_finish)

lemma owes_finish_only: "owes f False finish"
  by (intro owesR owes_stop) simp

text \<open>The debts of a page: a raised flag is owed by a waiting segment.\<close>

definition debts_covered :: "('s \<Rightarrow> bool) \<Rightarrow> ('s, 'w) page \<Rightarrow> bool" where
  "debts_covered f pg \<longleftrightarrow>
     (\<forall>k \<in> set (pg_pending pg). \<exists>b. owes f b k) \<and>
     (f (pg_state pg) \<longrightarrow> (\<exists>k \<in> set (pg_pending pg). owes f True k))"

lemma run_segment_debts:
  assumes k: "owes f b k" and ks: "\<forall>k' \<in> set (pg_pending pg). \<exists>b. owes f b k'"
    and cov: "f (pg_state pg) \<Longrightarrow> \<not> b \<Longrightarrow> \<exists>k' \<in> set (pg_pending pg). owes f True k'"
  shows "debts_covered f (run_segment k pg)"
proof -
  have r: "owes_result f b (pg_state pg) (k (pg_state pg))" using k by (simp add: owes_iff)
  obtain s p where ksp: "k (pg_state pg) = (s, p)" by fastforce
  show ?thesis
  proof (cases p)
    case Done
    then show ?thesis using r ks cov
      by (auto simp: ksp debts_covered_def run_segment_def owes_result_def)
  next
    case (Await op)
    obtain k' w where op: "op (pg_world pg) = (k', w)" by fastforce
    with r obtain b' where b': "f s \<longrightarrow> b' \<or> \<not> b \<and> f (pg_state pg)" "owes f b' k'"
      by (auto simp: ksp Await owes_result_def)
    then show ?thesis using ks cov
      by (cases b') (auto simp: ksp Await op debts_covered_def run_segment_def)
  qed
qed

locale loading_flag =
  fixes handlers :: "('s, 'w) segment set" and f :: "'s \<Rightarrow> bool"
  assumes handler_owes: "h \<in> handlers \<Longrightarrow> owes f False h"
begin

lemma step_debts:
  assumes "page_step handlers pg pg'" and "debts_covered f pg"
  shows "debts_covered f pg'"
  using assms(1)
proof cases
  case (start h)
  then show ?thesis using run_segment_debts [of f False h pg] handler_owes assms(2)
    by (auto simp: debts_covered_def)
next
  case continue
  then obtain i where i: "i < length (pg_pending pg)" "pg' = resume i pg" by (blast elim: resume_stepE)
  let ?ks = "take i (pg_pending pg) @ drop (Suc i) (pg_pending pg)"
  let ?k = "pg_pending pg ! i"
  have set: "set (pg_pending pg) = insert ?k (set ?ks)"
    by (subst id_take_nth_drop [OF i(1)]) auto
  obtain b where b: "owes f b ?k" "owes f True ?k \<Longrightarrow> b"
    using assms(2) i(1) unfolding debts_covered_def by (metis nth_mem)
  then have "debts_covered f (run_segment ?k (pg\<lparr>pg_pending := ?ks\<rparr>))"
    using assms(2) set by (intro run_segment_debts [of f b]) (auto simp: debts_covered_def)
  then show ?thesis by (simp add: i(2) resume_def)
qed

text \<open>When everything has been answered, the flag is down; and that comes inevitably.\<close>

lemma flag_settles:
  assumes "page_reachable handlers pg pg'" and "\<not> f (pg_state pg)" and "pg_pending pg = []"
  shows "settles (\<lambda>q. \<not> f (pg_state q)) pg'"
proof (rule settles_if)
  fix q assume q: "resume_step\<^sup>*\<^sup>* pg' q" "pg_pending q = []"
  have "page_reachable handlers pg' q"
    using q(1) by (induction rule: rtranclp_induct) (auto intro: page_step.continue rtranclp.rtrancl_into_rtrancl)
  with assms(1) have "page_reachable handlers pg q" by (rule rtranclp_trans)
  moreover have "debts_covered f pg" using assms(2,3) by (simp add: debts_covered_def)
  ultimately have "debts_covered f q" by (induction rule: rtranclp_induct) (auto intro: step_debts)
  then show "\<not> f (pg_state q)" using q(2) by (simp add: debts_covered_def)
qed

end

end
