(* ===== verification/Page_Base.thy ===== *)
theory Page_Base
  imports Async Session Wallet Webauthn Api_Portal Api_Soul
begin

text \<open>
  What the pages share: the browser around them (the network, the wallet extension, the passkey
  authenticator), the awaited operations on it, and the helper functions each page repeats.

  The outside world is what the awaited operations act on: the network with the requests sent so
  far, the wallet calls and the passkey ceremonies made so far; \<open>w_sse\<close> answers the requests for an
  event stream (whether a read was waiting, and what the fetch yielded), and \<open>w_second_first\<close> says
  which of two rejected requests of one \<open>Promise.all\<close> was rejected first; \<open>w_clipboard\<close> holds the texts the
  page has tried to copy.  Answers are read with the types
  the TypeScript interfaces declare: a member declared as a string that is absent or of another type
  counts as the empty string, which the pages treat like \<open>undefined\<close>.  Reading a member of
  \<open>null\<close> throws.
\<close>

section \<open>The browser\<close>

text \<open>\<open>NotPublicKey\<close> is a credential that is not an instance of \<open>PublicKeyCredential\<close>.\<close>

datatype 'r credential = NotPublicKey | PublicKey PublicKeyCredential 'r

datatype ceremony = CreateCredential "(js_string \<times> wvalue) list" | GetCredential "(js_string \<times> wvalue) list"

record authenticator =
  credentials_create :: "ceremony list \<Rightarrow> (js_string \<times> wvalue) list \<Rightarrow> js_error + AttestationResponse credential option"
  credentials_get :: "ceremony list \<Rightarrow> (js_string \<times> wvalue) list \<Rightarrow> js_error + AssertionResponse credential option"

record world =
  w_net :: net
  w_http :: "request list"
  w_rpc :: "rpc_request list"
  w_authenticator :: authenticator
  w_ceremonies :: "ceremony list"
  w_sse :: "request list \<Rightarrow> request \<Rightarrow> bool \<times> (js_string + sse_response)"
  w_second_first :: "request list \<Rightarrow> bool"
  w_clipboard :: "js_string list"
  w_clipboard_denied :: "js_string list \<Rightarrow> bool"

text \<open>What a page reads synchronously: \<open>window.ethereum\<close>, whether passkeys are supported, the clock,
  the texts of the browser's own errors the user's answers to \<open>window.confirm\<close>, the URL parser and
  the origin of the page.\<close>

record env =
  env_ethereum :: "provider option"
  env_passkeys :: bool
  env_clock :: clock
  env_message :: "js_error \<Rightarrow> js_string"
  env_confirm :: "js_string \<Rightarrow> bool"
  env_URL :: url_parser
  env_origin :: js_string

definition http :: "'a io \<Rightarrow> world \<Rightarrow> (js_error + 'a) \<times> world" where
  "http m w = (case m (w_net w) (w_http w) of (r, l) \<Rightarrow> (r, w\<lparr>w_http := l\<rparr>))"

definition rpc :: "provider \<Rightarrow> 'a wallet \<Rightarrow> world \<Rightarrow> (js_error + 'a) \<times> world" where
  "rpc p m w = (case m p (w_rpc w) of (r, l) \<Rightarrow> (r, w\<lparr>w_rpc := l\<rparr>))"

definition create_credential ::
  "(js_string \<times> wvalue) list \<Rightarrow> world \<Rightarrow> (js_error + AttestationResponse credential option) \<times> world" where
  "create_credential opts w =
     (credentials_create (w_authenticator w) (w_ceremonies w) opts,
      w\<lparr>w_ceremonies := w_ceremonies w @ [CreateCredential opts]\<rparr>)"

definition get_credential ::
  "(js_string \<times> wvalue) list \<Rightarrow> world \<Rightarrow> (js_error + AssertionResponse credential option) \<times> world" where
  "get_credential opts w =
     (credentials_get (w_authenticator w) (w_ceremonies w) opts,
      w\<lparr>w_ceremonies := w_ceremonies w @ [GetCredential opts]\<rparr>)"

text \<open>\<open>Promise.all([a, b])\<close> of two requests, both sent at once.\<close>

definition http_all :: "'a io \<Rightarrow> 'b io \<Rightarrow> world \<Rightarrow> (js_error + 'a \<times> 'b) \<times> world" where
  "http_all a b w =
     (case http a w of
        (ra, w1) \<Rightarrow>
          (case http b w1 of
             (rb, w2) \<Rightarrow>
               ((case (ra, rb) of
                   (Inr x, Inr y) \<Rightarrow> Inr (x, y)
                 | (Inl e, Inr _) \<Rightarrow> Inl e
                 | (Inr _, Inl e) \<Rightarrow> Inl e
                 | (Inl e, Inl e') \<Rightarrow> Inl (if w_second_first w (w_http w) then e' else e)), w2)))"

text \<open>\<open>Promise.all([a, b, c])\<close>: the third is compared with the earlier rejection of the first two.\<close>

definition http_all3 :: "'a io \<Rightarrow> 'b io \<Rightarrow> 'c io \<Rightarrow> world \<Rightarrow> (js_error + 'a \<times> 'b \<times> 'c) \<times> world" where
  "http_all3 a b c w =
     (case http_all a b w of
        (rab, w2) \<Rightarrow>
          (case http c w2 of
             (rc, w3) \<Rightarrow>
               ((case (rab, rc) of
                   (Inr (x, y), Inr z) \<Rightarrow> Inr (x, y, z)
                 | (Inl e, Inr _) \<Rightarrow> Inl e
                 | (Inr _, Inl e) \<Rightarrow> Inl e
                 | (Inl e, Inl e') \<Rightarrow> Inl (if w_second_first w (w_http w2) then e' else e)), w3)))"

text \<open>Opening an event stream: the texts its reads will yield, and the error that may end them.\<close>

definition open_stream ::
  "request \<times> (bool \<Rightarrow> bool \<Rightarrow> js_string + sse_response \<Rightarrow> sse_stream) \<Rightarrow> world \<Rightarrow> (js_string list \<times> js_error option) \<times> world" where
  "open_stream sse w =
     (case sse of
        (r, start) \<Rightarrow>
          (case w_sse w (w_http w) r of
             (eager, outcome) \<Rightarrow>
               (let st = start eager False outcome in
                ((st_delivered st @ st_queue st, if st_phase st = StreamErrored then Some (TypeError ''stream errored'') else None),
                 w\<lparr>w_http := w_http w @ [r]\<rparr>))))"

text \<open>\<open>await\<close> of an operation that may reject, inside a \<open>try\<close>.\<close>

definition try_await ::
  "('w \<Rightarrow> (js_error + 'a) \<times> 'w) \<Rightarrow> (js_error \<Rightarrow> ('s, 'w) segment) \<Rightarrow> ('a \<Rightarrow> ('s, 'w) segment) \<Rightarrow> ('s, 'w) segment" where
  "try_await op catch k = await op (case_sum catch k)"

text \<open>A computation that may throw, inside a \<open>try\<close>.\<close>

definition try_throw ::
  "js_error + 'a \<Rightarrow> (js_error \<Rightarrow> ('s, 'w) segment) \<Rightarrow> ('a \<Rightarrow> ('s, 'w) segment) \<Rightarrow> ('s, 'w) segment" where
  "try_throw r catch k = (case r of Inl e \<Rightarrow> catch e | Inr x \<Rightarrow> k x)"

lemma owes_try_raised:
  "(\<And>e. owes f True (catch e)) \<Longrightarrow> (\<And>a. owes f True (k a)) \<Longrightarrow> owes_result f b s (try_await op catch k s')"
  unfolding try_await_def by (rule owes_await_raised) (simp split: sum.split)

lemma owes_try_kept:
  "(f s' \<Longrightarrow> f s) \<Longrightarrow> (\<And>e. owes f False (catch e)) \<Longrightarrow> (\<And>a. owes f False (k a)) \<Longrightarrow>
   owes_result f False s (try_await op catch k s')"
  unfolding try_await_def by (rule owes_await_kept) (simp_all split: sum.split)

lemmas owes_intros = owesR owes_try_kept owes_stop
lemmas pay_intros = owesR owes_try_raised owes_stop

section \<open>Values\<close>

fun json_truthy :: "json option \<Rightarrow> bool" where
  "json_truthy None = False"
| "json_truthy (Some JNull) = False"
| "json_truthy (Some (JBool b)) = b"
| "json_truthy (Some (JNum n)) = (\<not> zero_number n)"
| "json_truthy (Some (JStr s)) = (s \<noteq> [])"
| "json_truthy (Some (JArr _)) = True"
| "json_truthy (Some (JObj _)) = True"

text \<open>\<open>value?.member\<close> as a string and as a condition.\<close>

definition text_at :: "json \<Rightarrow> js_string \<Rightarrow> js_string" where
  "text_at v k = opt_or (string_member v k) []"

definition flag_at :: "json \<Rightarrow> js_string \<Rightarrow> bool" where
  "flag_at v k = json_truthy (obj_get v k)"

text \<open>\<open>value.member\<close> as a string: it throws when the value is \<open>null\<close>.\<close>

definition read_text :: "json \<Rightarrow> js_string \<Rightarrow> js_error + js_string" where
  "read_text v k = (if v = JNull then Inl (TypeError ''null has no properties'') else Inr (text_at v k))"

text \<open>\<open>s || undefined\<close> as a member of an object literal.\<close>

definition text_or_undefined :: "js_string \<Rightarrow> json option" where
  "text_or_undefined s = (if s = [] then None else Some (JStr s))"

definition first_account :: "js_string list \<Rightarrow> js_string" where
  "first_account accounts = (case accounts of [] \<Rightarrow> [] | a # _ \<Rightarrow> a)"

section \<open>Helpers that the pages repeat\<close>

definition formatError :: "env \<Rightarrow> js_error \<Rightarrow> js_string" where
  "formatError env err =
     (case err of
        ApiError message status c \<Rightarrow>
          message @ '' (HTTP '' @ string_of_nat status @ (if truthy c then '', '' @ the c else []) @ '')''
      | Error message \<Rightarrow> message
      | TypeError message \<Rightarrow> message
      | _ \<Rightarrow> env_message env err)"

definition storage_exception :: "storage_error \<Rightarrow> js_error" where
  "storage_exception e =
     (case e of SecurityError \<Rightarrow> DomException ''SecurityError'' | QuotaExceededError \<Rightarrow> DomException ''QuotaExceededError'')"

text \<open>\<open>(err as Partial<ApiError>).status === 401\<close>\<close>

definition unauthorized :: "js_error \<Rightarrow> bool" where
  "unauthorized e = (case e of ApiError _ status _ \<Rightarrow> status = 401 | _ \<Rightarrow> False)"

lemma unauthorized_simps [simp]:
  "\<not> unauthorized (TypeError m)" "\<not> unauthorized (Error m)" "\<not> unauthorized (storage_exception x)"
  by (simp_all add: unauthorized_def storage_exception_def split: storage_error.split)

definition normalizeAddress :: "js_string \<Rightarrow> js_string" where
  "normalizeAddress addr = toLowerCase (js_trim addr)"

definition no_wallet_message :: js_string where
  "no_wallet_message =
     ''No EIP-1193 wallet found (window.ethereum missing). Install MetaMask or another wallet.''"

text \<open>The options of a ceremony from the server's answer.\<close>

definition ceremony_options ::
  "((js_string \<times> json) list \<Rightarrow> js_error + (js_string \<times> wvalue) list) \<Rightarrow> json \<Rightarrow> js_error + (js_string \<times> wvalue) list" where
  "ceremony_options f begin_answer =
     (case obj_get begin_answer ''publicKey'' of
        None \<Rightarrow> Inl (TypeError ''no public key options'')
      | Some JNull \<Rightarrow> Inl (TypeError ''no public key options'')
      | Some (JObj kvs) \<Rightarrow> f kvs
      | Some _ \<Rightarrow> f [])"

text \<open>
  \<open>await logout()\<close>, where the page's state holds the application state: the token is revoked, and then the
  local session is cleared whatever the server answered; what \<open>clearSession\<close> throws wins.
\<close>

definition logout_then ::
  "('s \<Rightarrow> app) \<Rightarrow> (app \<Rightarrow> 's \<Rightarrow> 's) \<Rightarrow> (js_error \<Rightarrow> ('s, world) segment) \<Rightarrow> ('s, world) segment \<Rightarrow> ('s, world) segment" where
  "logout_then get_app set_app catch k s =
     (let token = (case app_session (get_app s) of None \<Rightarrow> None | Some v \<Rightarrow> string_member v ''token'');
          clear = (\<lambda>r s.
            case clearSession (get_app s) of
              (Some e, a) \<Rightarrow> catch (storage_exception e) (set_app a s)
            | (None, a) \<Rightarrow> (case r of None \<Rightarrow> k (set_app a s) | Some e \<Rightarrow> catch e (set_app a s))) in
      if truthy token
      then try_await (http (authLogout (the token))) (\<lambda>e. clear (Some e)) (\<lambda>_. clear None) s
      else clear None s)"

lemma clearSession_session: "clearSession a = (e, a') \<Longrightarrow> app_session a' = None"
  by (auto simp: clearSession_def set_null_def on_session_null_def Let_def
      removeSafeAppSessionHandoff_def clearPortalFleetState_def split: if_splits sum.splits)

lemma clearSession_fleet: "clearSession a = (e, a') \<Longrightarrow> portalFleetInstances a' = []"
  by (auto simp: clearSession_def set_null_def on_session_null_def Let_def
      removeSafeAppSessionHandoff_def clearPortalFleetState_def split: if_splits sum.splits)

lemma clearSession_snd: "app_session (snd (clearSession a)) = None"
  using clearSession_session [of a] by (metis surjective_pairing)

section \<open>The requests a page has sent\<close>

text \<open>\<open>answered net log r v\<close>: the request \<open>r\<close> is in the log and was answered with \<open>v\<close>.\<close>

definition answered :: "net \<Rightarrow> request list \<Rightarrow> request \<Rightarrow> json \<Rightarrow> bool" where
  "answered net log r v \<longleftrightarrow> (\<exists>l l'. log = l @ r # l' \<and> fst (fetchJson r net l) = Inr v)"

text \<open>Every request of the log satisfied \<open>P\<close> when it was sent.\<close>

definition requests_ok :: "(net \<Rightarrow> request list \<Rightarrow> request \<Rightarrow> bool) \<Rightarrow> net \<Rightarrow> request list \<Rightarrow> bool" where
  "requests_ok P net log \<longleftrightarrow> (\<forall>l r l'. log = l @ r # l' \<longrightarrow> P net l r)"

lemma answered_later: "answered net log r v \<Longrightarrow> answered net (log @ l) r v"
  by (force simp: answered_def)

lemma answered_now: "fst (fetchJson r net log) = Inr v \<Longrightarrow> answered net (log @ [r]) r v"
  by (auto simp: answered_def)

lemma requests_ok_nil [simp]: "requests_ok P net []"
  by (simp add: requests_ok_def)

lemma requests_ok_snoc [simp]: "requests_ok P net (log @ [r]) \<longleftrightarrow> requests_ok P net log \<and> P net log r"
proof -
  have "log @ [r] = l @ q # l' \<longleftrightarrow> l = log \<and> q = r \<and> l' = [] \<or> (\<exists>m. l' = m @ [r] \<and> log = l @ q # m)" for l q l'
    by (cases l' rule: rev_cases) auto
  then show ?thesis by (auto simp: requests_ok_def)
qed

lemma requests_ok_member: "requests_ok P net log \<Longrightarrow> r \<in> set log \<Longrightarrow> \<exists>l. P net l r"
  by (metis requests_ok_def split_list)

definition later :: "world \<Rightarrow> world \<Rightarrow> bool" where
  "later w w' \<longleftrightarrow> w_net w' = w_net w \<and> (\<exists>l. w_http w' = w_http w @ l)"

lemma later_refl [simp]: "later w w"
  by (simp add: later_def)

lemma later_trans: "later w w' \<Longrightarrow> later w' w'' \<Longrightarrow> later w w''"
  by (auto simp: later_def)

text \<open>An awaited operation that sends only requests of one kind.\<close>

definition sends :: "(world \<Rightarrow> 'a \<times> world) \<Rightarrow> (request \<Rightarrow> bool) \<Rightarrow> bool" where
  "sends op Q \<longleftrightarrow>
     (\<forall>w. w_net (snd (op w)) = w_net w \<and> (\<exists>l. w_http (snd (op w)) = w_http w @ l \<and> (\<forall>r \<in> set l. Q r)))"

lemma sends_fetch: "Q r \<Longrightarrow> sends (http (fetchJson r)) Q"
  by (simp add: sends_def http_def split_beta)

lemma sends_api: "Q \<lparr>req_method = m, req_url = u, req_headers = h, req_body = b\<rparr> \<Longrightarrow> sends (http (api_call m u h b)) Q"
  unfolding api_call_def by (rule sends_fetch)

text \<open>A call that is one request, named by the call itself.\<close>

definition single :: "json io \<Rightarrow> bool" where
  "single op \<longleftrightarrow> (\<exists>r. fetchJson r = op)"

lemma single_call [simp]: "single (api_call m u h b)"
  by (auto simp: single_def api_call_def)

lemma sends_single: "single op \<Longrightarrow> (\<And>r. fetchJson r = op \<Longrightarrow> Q r) \<Longrightarrow> sends (http op) Q"
  by (auto simp: single_def intro: sends_fetch)

lemma sends_then: "sends (http op) Q \<Longrightarrow> sends (http (io_then f op)) Q"
  unfolding sends_def http_def io_then_def by (simp add: split_beta split: sum.splits)

lemma sends_trans:
  assumes "sends op Q" and "sends op' Q"
  shows "\<exists>l. w_net (snd (op' (snd (op w)))) = w_net w \<and> w_http (snd (op' (snd (op w)))) = w_http w @ l \<and> (\<forall>r \<in> set l. Q r)"
proof -
  obtain l where "w_http (snd (op w)) = w_http w @ l" "\<forall>r \<in> set l. Q r" "w_net (snd (op w)) = w_net w"
    using assms(1) by (auto simp: sends_def)
  moreover obtain l' where "w_http (snd (op' (snd (op w)))) = w_http (snd (op w)) @ l'" "\<forall>r \<in> set l'. Q r"
      "w_net (snd (op' (snd (op w)))) = w_net (snd (op w))"
    using assms(2) by (auto simp: sends_def)
  ultimately show ?thesis by (intro exI [of _ "l @ l'"]) auto
qed

lemma sends_all: "sends (http a) Q \<Longrightarrow> sends (http b) Q \<Longrightarrow> sends (http_all a b) Q"
  using sends_trans [of "http a" Q "http b"] by (auto simp: sends_def [of "http_all a b"] http_all_def split_beta)

lemma sends_all3: "sends (http a) Q \<Longrightarrow> sends (http b) Q \<Longrightarrow> sends (http c) Q \<Longrightarrow> sends (http_all3 a b c) Q"
  using sends_trans [of "http_all a b" Q "http c"] sends_all [of a Q b]
  by (auto simp: sends_def [of "http_all3 a b c"] http_all3_def split_beta)

text \<open>A step from the state \<open>s\<close> that sends only requests with \<open>S s\<close>.\<close>

definition emits :: "('s \<Rightarrow> request \<Rightarrow> bool) \<Rightarrow> 's \<Rightarrow> world \<Rightarrow> world \<Rightarrow> bool" where
  "emits S s w w' \<longleftrightarrow> w_net w' = w_net w \<and> (\<exists>l. w_http w' = w_http w @ l \<and> (\<forall>r \<in> set l. S s r))"

lemma emits_refl [simp]: "emits S s w w"
  by (simp add: emits_def)

lemma emits_moved: "emits S s' w w' \<Longrightarrow> (\<And>r. S s' r \<Longrightarrow> S s r) \<Longrightarrow> emits S s w w'"
  by (auto simp: emits_def)

lemma obeys_call: "obeys (emits S) k \<Longrightarrow> (\<And>r. S s' r \<Longrightarrow> S s r) \<Longrightarrow> obeys_result (emits S) s (k s')"
  by (erule obeys_moved) (rule emits_moved)

lemma obeys_sends:
  assumes "sends op (S s)" and "\<And>e. obeys (emits S) (catch e)" and "\<And>v. obeys (emits S) (k v)"
  shows "obeys_result (emits S) s (try_await op catch k s')"
  unfolding try_await_def
proof (rule obeys_await)
  fix w a w' assume "op w = (a, w')"
  then have "w' = snd (op w)" by simp
  then show "emits S s w w' \<and> obeys (emits S) (case_sum catch k a)"
    using assms by (auto simp: sends_def emits_def split: sum.split)
qed

lemma sends_local: "(\<And>w. w_net (snd (op w)) = w_net w \<and> w_http (snd (op w)) = w_http w) \<Longrightarrow> sends op Q"
  by (simp add: sends_def)

text \<open>
  A page whose state satisfies \<open>T\<close>, given the requests sent so far and their answers, and which sends
  only requests that satisfy \<open>P\<close>.
\<close>

definition page_inv ::
  "('s \<Rightarrow> net \<Rightarrow> request list \<Rightarrow> bool) \<Rightarrow> (net \<Rightarrow> request list \<Rightarrow> request \<Rightarrow> bool) \<Rightarrow> 's \<Rightarrow> world \<Rightarrow> bool" where
  "page_inv T P s w \<longleftrightarrow> T s (w_net w) (w_http w) \<and> requests_ok P (w_net w) (w_http w)"

lemma safe_laterD: "safe later I w k \<Longrightarrow> I s w \<Longrightarrow> safe_result later I w (k s)"
  unfolding safe_iff [of _ _ w k] by simp

locale request_discipline =
  fixes T :: "'s \<Rightarrow> net \<Rightarrow> request list \<Rightarrow> bool" and P :: "net \<Rightarrow> request list \<Rightarrow> request \<Rightarrow> bool"
  assumes T_later: "T s net l \<Longrightarrow> T s net (l @ l')"
begin

abbreviation guarded :: "world \<Rightarrow> ('s, world) segment \<Rightarrow> bool" where
  "guarded \<equiv> safe later (page_inv T P)"

abbreviation guarded_result :: "world \<Rightarrow> 's \<times> ('s, world) proc \<Rightarrow> bool" where
  "guarded_result \<equiv> safe_result later (page_inv T P)"

lemma guarded_by:
  "(\<And>s w. later w0 w \<Longrightarrow> page_inv T P s w \<Longrightarrow> guarded_result w (k s)) \<Longrightarrow> guarded w0 k"
  by (rule safeR)

lemma guardedD: "guarded w k \<Longrightarrow> page_inv T P s w \<Longrightarrow> guarded_result w (k s)"
  unfolding safe_iff [of _ _ w k] by simp

lemma finish_guarded: "guarded w finish"
  by (intro guarded_by safe_finish)

lemma guarded_http:
  assumes "page_inv T P s w" and "P (w_net w) (w_http w) r"
    and "\<And>e w'. later w w' \<Longrightarrow> guarded w' (catch e)"
    and "\<And>v w'. later w w' \<Longrightarrow> answered (w_net w') (w_http w') r v \<Longrightarrow> guarded w' (k v)"
  shows "guarded_result w (try_await (http (fetchJson r)) catch k s)"
proof -
  let ?w = "w\<lparr>w_http := w_http w @ [r]\<rparr>"
  have op: "http (fetchJson r) w = (fst (fetchJson r (w_net w) (w_http w)), ?w)"
    by (simp add: http_def split_beta)
  have "later w ?w" by (simp add: later_def)
  moreover have "page_inv T P s ?w" using assms(1,2) T_later by (simp add: page_inv_def)
  moreover have "guarded ?w (case_sum catch k (fst (fetchJson r (w_net w) (w_http w))))"
    using assms(3,4) [OF \<open>later w ?w\<close>] answered_now [of r "w_net w" "w_http w"]
    by (auto split: sum.split)
  ultimately show ?thesis unfolding try_await_def by (intro safe_await) (simp add: op)
qed

text \<open>An awaited operation whose requests are allowed whatever was sent before.\<close>

lemma guarded_sends:
  assumes s: "page_inv T P s w" and op: "sends op Q" and Q: "\<And>r log. Q r \<Longrightarrow> P (w_net w) log r"
    and "\<And>e w'. later w w' \<Longrightarrow> guarded w' (catch e)" and "\<And>v w'. later w w' \<Longrightarrow> guarded w' (k v)"
  shows "guarded_result w (try_await op catch k s)"
proof -
  obtain l where l: "w_http (snd (op w)) = w_http w @ l" "\<forall>r \<in> set l. Q r" "w_net (snd (op w)) = w_net w"
    using op by (auto simp: sends_def)
  have "requests_ok P (w_net w) (w_http w @ l)"
    using s l(2) Q by (induction l rule: rev_induct) (simp_all add: page_inv_def append_assoc [symmetric] del: append_assoc)
  then have "page_inv T P s (snd (op w))" using s l T_later by (simp add: page_inv_def)
  moreover have later: "later w (snd (op w))" using l by (simp add: later_def)
  ultimately show ?thesis
    unfolding try_await_def using assms(4,5) [OF later]
    by (intro safe_await) (auto split: sum.split)
qed

text \<open>An awaited operation that sends no request.\<close>

lemma guarded_local:
  assumes "page_inv T P s w" and "\<And>w. w_net (snd (op w)) = w_net w \<and> w_http (snd (op w)) = w_http w"
    and "\<And>e w'. later w w' \<Longrightarrow> guarded w' (catch e)" and "\<And>v w'. later w w' \<Longrightarrow> guarded w' (k v)"
  shows "guarded_result w (try_await op catch k s)"
proof -
  have "later w (snd (op w))" using assms(2) [of w] by (simp add: later_def)
  moreover have "page_inv T P s (snd (op w))" using assms(1) assms(2) [of w] by (simp add: page_inv_def)
  ultimately show ?thesis unfolding try_await_def using assms(3,4)
    by (intro safe_await) (auto split: sum.split)
qed

end

lemma rpc_local [simp]: "w_net (snd (rpc p m w)) = w_net w \<and> w_http (snd (rpc p m w)) = w_http w"
  by (simp add: rpc_def split_beta)

lemma create_local [simp]: "w_net (snd (create_credential c w)) = w_net w \<and> w_http (snd (create_credential c w)) = w_http w"
  by (simp add: create_credential_def)

lemma get_local [simp]: "w_net (snd (get_credential c w)) = w_net w \<and> w_http (snd (get_credential c w)) = w_http w"
  by (simp add: get_credential_def)

section \<open>Answering networks\<close>

text \<open>A network that answers each request with a JSON value, for the concrete runs.\<close>

definition net_of :: "(request \<Rightarrow> json) \<Rightarrow> net" where
  "net_of f = (\<lambda>_ r. Fetched \<lparr>res_status = 200, res_url = req_url r, res_content_type = Some ''application/json'',
     res_body = json_stringify (f r)\<rparr>)"

lemma fetchJson_net_of: "wf_json (f r) \<Longrightarrow> fetchJson r (net_of f) l = (Inr (f r), l @ [r])"
  by (simp add: fetchJson_def fetch_def net_of_def read_response_def res_ok_def response_is_json_def opt_or_def
      response_json_def json_codec.dec_enc str_or_def startsWith_def)

lemma http_net_of:
  "w_net w = net_of f \<Longrightarrow> wf_json (f r) \<Longrightarrow> http (fetchJson r) w = (Inr (f r), w\<lparr>w_http := w_http w @ [r]\<rparr>)"
  by (simp add: http_def fetchJson_net_of)

lemma http_sample:
  "w_net w = net_of f \<Longrightarrow> wf_json (f \<lparr>req_method = m, req_url = u, req_headers = h, req_body = b\<rparr>) \<Longrightarrow>
   http (api_call m u h b) w =
     (Inr (f \<lparr>req_method = m, req_url = u, req_headers = h, req_body = b\<rparr>),
      w\<lparr>w_http := w_http w @ [\<lparr>req_method = m, req_url = u, req_headers = h, req_body = b\<rparr>]\<rparr>)"
  by (simp add: api_call_def http_net_of)

lemma run_try_case:
  "(case try_await op catch k s of (s', p) \<Rightarrow> run_proc p s' w) =
     (case op w of (Inl e, w') \<Rightarrow> run (catch e) s w' | (Inr v, w') \<Rightarrow> run (k v) s w')"
  by (simp add: try_await_def await_def run_def split: prod.split sum.split)

lemma run_finish_case: "(case finish s of (s', p) \<Rightarrow> run_proc p s' w) = (s, w)"
  by (simp add: finish_def)

lemmas run_eval = run_def run_try_case run_finish_case http_sample Let_def

text \<open>Alone, this is the logout of the session module.\<close>

lemma logout_then_run:
  "run (logout_then (\<lambda>a. a) (\<lambda>a _. a) (\<lambda>_. finish) finish) a w =
     (case logout (\<lambda>a. a) a (w_net w) (w_http w) of ((_, _, a'), l) \<Rightarrow> (a', w\<lparr>w_http := l\<rparr>))"
  by (auto simp: logout_then_def logout_def run_eval http_def finish_def split: prod.split sum.split option.split)

definition sample_authenticator :: authenticator where
  "sample_authenticator = \<lparr>credentials_create = \<lambda>_ _. Inr None, credentials_get = \<lambda>_ _. Inr None\<rparr>"

definition sample_wallet :: provider where
  "sample_wallet = (\<lambda>_ r. Inr (Some (if rpc_method r = ''eth_requestAccounts'' \<or> rpc_method r = ''eth_accounts''
     then JArr [JStr ''0xA1''] else if rpc_method r = ''eth_chainId'' then JNull else JStr ''0xsig'')))"

lemma sample_accounts: "rpc sample_wallet requestAccounts w = (Inr [''0xA1''], w\<lparr>w_rpc := w_rpc w @ [\<lparr>rpc_method = ''eth_requestAccounts'', rpc_params = None\<rparr>]\<rparr>)"
  by (simp add: rpc_def requestAccounts_def wallet_then_def provider_request_def sample_wallet_def accounts_of_def)

lemma sample_chain: "rpc sample_wallet getChainId w = (Inr 1, w\<lparr>w_rpc := w_rpc w @ [\<lparr>rpc_method = ''eth_chainId'', rpc_params = None\<rparr>]\<rparr>)"
  by (simp add: rpc_def getChainId_def wallet_then_def provider_request_def sample_wallet_def parseInt16_def startsWith_def has_hex_prefix_def)

lemma sample_sign: "rpc sample_wallet (personalSign m a) w = (Inr (Some (JStr ''0xsig'')), w\<lparr>w_rpc := w_rpc w @ [\<lparr>rpc_method = ''personal_sign'', rpc_params = Some [JStr m, JStr a]\<rparr>]\<rparr>)"
  by (simp add: rpc_def personalSign_def wallet_catch_def provider_request_def sample_wallet_def)

definition sample_env :: env where
  "sample_env = \<lparr>env_ethereum = Some sample_wallet, env_passkeys = True, env_clock = sample_clock 0,
     env_message = \<lambda>_. ''error'', env_confirm = \<lambda>_. True, env_URL = \<lambda>_ _. None, env_origin = ''https://lesser.host''\<rparr>"

definition sample_world :: "(request \<Rightarrow> json) \<Rightarrow> world" where
  "sample_world f = \<lparr>w_net = net_of f, w_http = [], w_rpc = [], w_authenticator = sample_authenticator, w_ceremonies = [],
     w_sse = \<lambda>_ _. (True, Inl ''offline''), w_second_first = \<lambda>_. False, w_clipboard = [], w_clipboard_denied = \<lambda>_. False\<rparr>"

end
