(* ===== verification/Setup_Page.thy ===== *)
theory Setup_Page
  imports Page_Base
begin

text \<open>
  The first-run setup page, \<^verbatim>\<open>web/src/pages/Setup.svelte\<close>: the bootstrap wallet proves its authority and
  is exchanged for a setup session; with that session the primary admin is created, with a wallet
  or with a passkey; the admin registers a passkey; the control plane is finalized.

  One record field per \<open>$state\<close> variable of the component, one definition per handler.  An async
  helper takes what follows it as arguments: the catch clause in force and the rest of the caller.
\<close>

section \<open>State\<close>

record setup_page =
  su_env :: env
  su_sessionStorage :: web_storage
  su_statusLoading :: bool
  su_statusError :: "js_string option"
  su_status :: json
  su_bootstrapProvider :: "provider option"
  su_bootstrapWalletAddress :: js_string
  su_bootstrapWalletChainId :: int
  su_bootstrapWalletError :: "js_string option"
  su_bootstrapWalletNotice :: "js_string option"
  su_adminProvider :: "provider option"
  su_adminWalletAddress :: js_string
  su_adminWalletChainId :: int
  su_adminWalletError :: "js_string option"
  su_setupSessionToken :: js_string
  su_bootstrapLoading :: bool
  su_bootstrapError :: "js_string option"
  su_bootstrapChallenge :: json
  su_adminUsername :: js_string
  su_adminDisplayName :: js_string
  su_adminSetupMode :: js_string
  su_adminLoading :: bool
  su_adminError :: "js_string option"
  su_adminChallenge :: json
  su_adminSessionToken :: js_string
  su_adminSessionUsername :: js_string
  su_passkeyName :: js_string
  su_passkeyLoading :: bool
  su_passkeyError :: "js_string option"
  su_passkeyRegistered :: bool
  su_finalizeLoading :: bool
  su_finalizeError :: "js_string option"
  su_finalizeAckLock :: bool
  su_finalizeAckBackup :: bool
  su_finalizeConfirm :: js_string

type_synonym setup_segment = "(setup_page, world) segment"

definition SETUP_SESSION_KEY :: js_string where
  "SETUP_SESSION_KEY = ''lesser-host:setupSessionToken''"

definition initial_setup :: "env \<Rightarrow> web_storage \<Rightarrow> int \<Rightarrow> setup_page" where
  "initial_setup env storage defaultWalletChainId =
     \<lparr>su_env = env, su_sessionStorage = storage, su_statusLoading = False, su_statusError = None, su_status = JNull,
      su_bootstrapProvider = None, su_bootstrapWalletAddress = [], su_bootstrapWalletChainId = defaultWalletChainId,
      su_bootstrapWalletError = None, su_bootstrapWalletNotice = None,
      su_adminProvider = None, su_adminWalletAddress = [], su_adminWalletChainId = defaultWalletChainId,
      su_adminWalletError = None, su_setupSessionToken = [],
      su_bootstrapLoading = False, su_bootstrapError = None, su_bootstrapChallenge = JNull,
      su_adminUsername = [], su_adminDisplayName = [], su_adminSetupMode = ''wallet'', su_adminLoading = False,
      su_adminError = None, su_adminChallenge = JNull, su_adminSessionToken = [], su_adminSessionUsername = [],
      su_passkeyName = ''Primary admin setup passkey'', su_passkeyLoading = False, su_passkeyError = None,
      su_passkeyRegistered = False, su_finalizeLoading = False, su_finalizeError = None,
      su_finalizeAckLock = False, su_finalizeAckBackup = False, su_finalizeConfirm = []\<rparr>"

section \<open>Helpers\<close>

text \<open>\<open>toUpperCase\<close> on the characters of the model; the upper case of y-diaeresis and of the micro sign is
  no character of it, and they are kept.\<close>

definition upper_text :: "char \<Rightarrow> js_string" where
  "upper_text c =
     (let n = code c in
      if (97 \<le> n \<and> n \<le> 122) \<or> (224 \<le> n \<and> n \<le> 254 \<and> n \<noteq> 247) then [char_of (n - 32)]
      else if n = 223 then ''SS'' else [c])"

definition toUpperCase :: "js_string \<Rightarrow> js_string" where
  "toUpperCase s = concat (map upper_text s)"

definition bootstrapWalletMatchesAdminWallet :: "setup_page \<Rightarrow> bool" where
  "bootstrapWalletMatchesAdminWallet s =
     (let bootstrap = normalizeAddress (text_at (su_status s) ''bootstrap_wallet_address'');
          connected = normalizeAddress (su_adminWalletAddress s) in
      bootstrap \<noteq> [] \<and> connected \<noteq> [] \<and> bootstrap = connected)"

definition adminWalletBootstrapMessage :: "setup_page \<Rightarrow> js_string option" where
  "adminWalletBootstrapMessage s =
     (if \<not> bootstrapWalletMatchesAdminWallet s then None
      else Some (''The connected primary admin wallet is the one-time bootstrap wallet. '' @
        ''Switch to a different wallet account before creating the primary admin.''))"

definition clearBootstrapWallet :: "js_string option \<Rightarrow> setup_page \<Rightarrow> setup_page" where
  "clearBootstrapWallet notice s =
     s\<lparr>su_bootstrapProvider := None, su_bootstrapWalletAddress := [], su_bootstrapWalletError := None,
       su_bootstrapWalletNotice := notice, su_bootstrapChallenge := JNull\<rparr>"

definition clearAdminSession :: "setup_page \<Rightarrow> setup_page" where
  "clearAdminSession s = s\<lparr>su_adminSessionToken := [], su_adminSessionUsername := [], su_adminChallenge := JNull\<rparr>"

definition currentAdminUsername :: "setup_page \<Rightarrow> js_string" where
  "currentAdminUsername s = js_trim (str_or (text_at (su_status s) ''primary_admin_username'') (su_adminUsername s))"

definition remove_setup_token :: "setup_page \<Rightarrow> js_error + setup_page" where
  "remove_setup_token s =
     (case removeItem SETUP_SESSION_KEY (su_sessionStorage s) of
        Inl e \<Rightarrow> Inl (storage_exception e)
      | Inr st \<Rightarrow> Inr (s\<lparr>su_sessionStorage := st\<rparr>))"

section \<open>Status\<close>

definition refreshStatus :: "setup_segment \<Rightarrow> setup_segment" where
  "refreshStatus k s =
     (let failed = (\<lambda>e s. k (s\<lparr>su_statusError := Some (formatError (su_env s) e), su_statusLoading := False\<rparr>)) in
      try_await (http getSetupStatus) failed
        (\<lambda>v s. let s = s\<lparr>su_status := v\<rparr> in
           if json_truthy (Some v) \<and> \<not> flag_at v ''locked'' then
             (let s = s\<lparr>su_setupSessionToken := []\<rparr> in
              case remove_setup_token s of
                Inl e \<Rightarrow> failed e s
              | Inr s \<Rightarrow> k (s\<lparr>su_statusLoading := False\<rparr>))
           else k (s\<lparr>su_statusLoading := False\<rparr>))
        (s\<lparr>su_statusLoading := True, su_statusError := None\<rparr>))"

section \<open>Wallet connections\<close>

definition connectBootstrapWallet :: setup_segment where
  "connectBootstrapWallet s =
     (let s = s\<lparr>su_bootstrapWalletError := None, su_bootstrapWalletNotice := None\<rparr>;
          failed = (\<lambda>e s. finish (s\<lparr>su_bootstrapWalletError := Some (formatError (su_env s) e)\<rparr>)) in
      case getEthereumProvider (env_ethereum (su_env s)) of
        None \<Rightarrow> finish (s\<lparr>su_bootstrapWalletError := Some no_wallet_message\<rparr>)
      | Some p \<Rightarrow>
          try_await (rpc p requestAccounts) failed
            (\<lambda>accounts s.
               let nextAddress = first_account accounts;
                   s = (if normalizeAddress nextAddress \<noteq> normalizeAddress (su_bootstrapWalletAddress s)
                        then s\<lparr>su_bootstrapChallenge := JNull\<rparr> else s) in
               try_await (rpc p getChainId) failed
                 (\<lambda>c s. finish (s\<lparr>su_bootstrapWalletChainId := c\<rparr>))
                 (s\<lparr>su_bootstrapWalletAddress := nextAddress\<rparr>))
            (s\<lparr>su_bootstrapProvider := Some p\<rparr>))"

definition connectAdminWallet :: setup_segment where
  "connectAdminWallet s =
     (let s = s\<lparr>su_adminWalletError := None\<rparr>;
          failed = (\<lambda>e s. finish (s\<lparr>su_adminWalletError := Some (formatError (su_env s) e)\<rparr>)) in
      case getEthereumProvider (env_ethereum (su_env s)) of
        None \<Rightarrow> finish (s\<lparr>su_adminWalletError := Some no_wallet_message\<rparr>)
      | Some p \<Rightarrow>
          try_await (rpc p requestAccounts) failed
            (\<lambda>accounts s.
               let nextAddress = first_account accounts;
                   s = (if normalizeAddress nextAddress \<noteq> normalizeAddress (su_adminWalletAddress s)
                        then clearAdminSession s else s) in
               try_await (rpc p getChainId) failed
                 (\<lambda>c s. finish (s\<lparr>su_adminWalletChainId := c\<rparr>))
                 (s\<lparr>su_adminWalletAddress := nextAddress\<rparr>))
            (s\<lparr>su_adminProvider := Some p\<rparr>))"

section \<open>Step 1: the bootstrap wallet\<close>

definition beginBootstrap :: setup_segment where
  "beginBootstrap s =
     (let s = s\<lparr>su_bootstrapError := None, su_bootstrapChallenge := JNull\<rparr>;
          stop = (\<lambda>msg. finish (s\<lparr>su_bootstrapError := Some msg\<rparr>)) in
      if \<not> flag_at (su_status s) ''locked'' then stop ''Control plane is already active.''
      else if flag_at (su_status s) ''primary_admin_set''
        then stop ''Bootstrap authority is retired: the primary admin already exists.''
      else if \<not> flag_at (su_status s) ''bootstrap_wallet_address_set'' then stop ''Bootstrap wallet is not configured.''
      else if su_bootstrapWalletAddress s = [] then stop ''Connect the bootstrap wallet first.''
      else
        try_await (http (setupBootstrapChallenge (su_bootstrapWalletAddress s) (su_bootstrapWalletChainId s)))
          (\<lambda>e s. finish (s\<lparr>su_bootstrapError := Some (formatError (su_env s) e), su_bootstrapLoading := False\<rparr>))
          (\<lambda>c s. finish (s\<lparr>su_bootstrapChallenge := c, su_bootstrapLoading := False\<rparr>))
          (s\<lparr>su_bootstrapLoading := True\<rparr>))"

definition completeBootstrap :: setup_segment where
  "completeBootstrap s =
     (let s = s\<lparr>su_bootstrapError := None\<rparr>;
          stop = (\<lambda>msg. finish (s\<lparr>su_bootstrapError := Some msg\<rparr>));
          fin = (\<lambda>s. refreshStatus finish (s\<lparr>su_bootstrapLoading := False\<rparr>));
          failed = (\<lambda>e s. fin (s\<lparr>su_bootstrapError := Some (formatError (su_env s) e)\<rparr>)) in
      if flag_at (su_status s) ''primary_admin_set''
        then stop ''Bootstrap authority is retired: the primary admin already exists.''
      else
        (case su_bootstrapProvider s of
           None \<Rightarrow> stop ''Connect the bootstrap wallet first.''
         | Some p \<Rightarrow>
             if su_bootstrapChallenge s = JNull then stop ''Create a bootstrap challenge first.''
             else if su_bootstrapWalletAddress s = [] then stop ''Wallet address missing.''
             else
               try_await (rpc p (personalSign (text_at (su_bootstrapChallenge s) ''message'') (su_bootstrapWalletAddress s)))
                 failed
                 (\<lambda>signature s.
                    if su_bootstrapChallenge s = JNull then failed (TypeError ''null has no properties'') s
                    else
                      try_await (http (setupBootstrapVerify (obj_lit
                          [(''challengeId'', Some (JStr (text_at (su_bootstrapChallenge s) ''id''))),
                           (''address'', Some (JStr (su_bootstrapWalletAddress s))),
                           (''signature'', signature),
                           (''message'', Some (JStr (text_at (su_bootstrapChallenge s) ''message'')))])))
                        failed
                        (\<lambda>verified s.
                           case read_text verified ''token'' of
                             Inl e \<Rightarrow> failed e s
                           | Inr token \<Rightarrow>
                               (let s = s\<lparr>su_setupSessionToken := token\<rparr> in
                                case remove_setup_token s of
                                  Inl e \<Rightarrow> failed e s
                                | Inr s \<Rightarrow>
                                    fin (clearBootstrapWallet (Some (''Bootstrap wallet retired after Step 1. '' @
                                      ''Connect the real primary admin credential before Step 2.'')) s)))
                        s)
                 (s\<lparr>su_bootstrapLoading := True\<rparr>)))"

section \<open>Step 2: the primary admin\<close>

definition beginAdminChallenge :: setup_segment where
  "beginAdminChallenge s =
     (let s = s\<lparr>su_adminError := None, su_adminChallenge := JNull\<rparr>;
          stop = (\<lambda>msg. finish (s\<lparr>su_adminError := Some msg\<rparr>)) in
      if su_setupSessionToken s = [] then stop ''Bootstrap session is missing. Complete Step 1 first.''
      else if su_adminWalletAddress s = [] then stop ''Connect the primary admin wallet before creating a challenge.''
      else
        (case adminWalletBootstrapMessage s of
           Some msg \<Rightarrow> stop msg
         | None \<Rightarrow>
             (let username = js_trim (su_adminUsername s) in
              if username = [] then stop ''Username is required.''
              else
                try_await (http (walletChallenge (obj_lit
                    [(''username'', Some (JStr username)), (''address'', Some (JStr (su_adminWalletAddress s))),
                     (''chainId'', Some (jnum (su_adminWalletChainId s)))])))
                  (\<lambda>e s. finish (s\<lparr>su_adminError := Some (formatError (su_env s) e), su_adminLoading := False\<rparr>))
                  (\<lambda>c s. finish (s\<lparr>su_adminChallenge := c, su_adminLoading := False\<rparr>))
                  (s\<lparr>su_adminLoading := True\<rparr>))))"

definition admin_wallet_payload :: "js_string \<Rightarrow> json option \<Rightarrow> setup_page \<Rightarrow> json" where
  "admin_wallet_payload username signature s =
     obj_lit
       [(''username'', Some (JStr username)),
        (''displayName'', text_or_undefined (js_trim (su_adminDisplayName s))),
        (''wallet'', Some (obj_lit
          [(''challengeId'', Some (JStr (text_at (su_adminChallenge s) ''id''))),
           (''address'', Some (JStr (su_adminWalletAddress s))),
           (''signature'', signature),
           (''message'', Some (JStr (text_at (su_adminChallenge s) ''message'')))]))]"

definition createAdmin :: setup_segment where
  "createAdmin s =
     (let s = s\<lparr>su_adminError := None\<rparr>;
          stop = (\<lambda>msg. finish (s\<lparr>su_adminError := Some msg\<rparr>));
          fin = (\<lambda>s. refreshStatus finish (s\<lparr>su_adminLoading := False\<rparr>));
          failed = (\<lambda>e s. fin (s\<lparr>su_adminError := Some (formatError (su_env s) e)\<rparr>)) in
      if su_setupSessionToken s = [] then stop ''Bootstrap session is missing. Complete Step 1 first.''
      else
        (case su_adminProvider s of
           None \<Rightarrow> stop ''Connect the primary admin wallet first.''
         | Some p \<Rightarrow>
             if su_adminChallenge s = JNull then stop ''Create an admin wallet challenge first.''
             else if su_adminWalletAddress s = [] then stop ''Wallet address missing.''
             else
               (case adminWalletBootstrapMessage s of
                  Some msg \<Rightarrow> stop msg
                | None \<Rightarrow>
                    if normalizeAddress (text_at (su_adminChallenge s) ''address'') \<noteq> normalizeAddress (su_adminWalletAddress s)
                    then finish (s\<lparr>su_adminError := Some (''Connected wallet changed after the admin challenge was created. ''
                        @ ''Create a new challenge.''), su_adminChallenge := JNull\<rparr>)
                    else
                      (let username = js_trim (su_adminUsername s) in
                       if username = [] then stop ''Username is required.''
                       else
                         try_await
                           (rpc p (personalSign (text_at (su_adminChallenge s) ''message'') (su_adminWalletAddress s)))
                           failed
                           (\<lambda>signature s.
                              if su_adminChallenge s = JNull then failed (TypeError ''null has no properties'') s
                              else
                                try_await
                                  (http (setupCreateAdmin (su_setupSessionToken s) (admin_wallet_payload username signature s)))
                                  failed
                                  (\<lambda>created s.
                                     case read_text created ''token'' of
                                       Inl e \<Rightarrow> failed e s
                                     | Inr token \<Rightarrow>
                                         (let s = (if token \<noteq> []
                                            then s\<lparr>su_adminSessionToken := token,
                                                   su_adminSessionUsername := text_at created ''username''\<rparr>
                                            else clearAdminSession s) in
                                          fin (s\<lparr>su_adminChallenge := JNull, su_passkeyRegistered := False\<rparr>)))
                                  s)
                           (s\<lparr>su_adminLoading := True\<rparr>)))))"

definition passkey_name :: "setup_page \<Rightarrow> js_string" where
  "passkey_name s = str_or (js_trim (su_passkeyName s)) ''Primary admin setup passkey''"

definition createAdminWithPasskey :: setup_segment where
  "createAdminWithPasskey s =
     (let s = s\<lparr>su_adminError := None\<rparr>;
          stop = (\<lambda>msg. finish (s\<lparr>su_adminError := Some msg\<rparr>));
          fin = (\<lambda>s. refreshStatus finish (s\<lparr>su_adminLoading := False\<rparr>));
          failed = (\<lambda>e s. fin ((clearAdminSession s)\<lparr>su_passkeyRegistered := False,
            su_adminError := Some (formatError (su_env s) e)\<rparr>));
          give_up = (\<lambda>msg s. fin (s\<lparr>su_adminError := Some msg\<rparr>));
          username = js_trim (su_adminUsername s) in
      if su_setupSessionToken s = [] then stop ''Bootstrap session is missing. Complete Step 1 first.''
      else if username = [] then stop ''Username is required.''
      else if \<not> env_passkeys (su_env s) then stop ''Passkeys are not supported in this browser.''
      else
        try_await (http (setupPasskeyRegisterBegin (su_setupSessionToken s) (obj_lit
            [(''username'', Some (JStr username)),
             (''displayName'', text_or_undefined (js_trim (su_adminDisplayName s)))])))
          failed
          (\<lambda>started s.
             case ceremony_options toPublicKeyCreationOptions started of
               Inl e \<Rightarrow> failed e s
             | Inr opts \<Rightarrow>
                 try_await (create_credential opts) failed
                   (\<lambda>credential s.
                      case credential of
                        None \<Rightarrow> give_up ''No credential returned.'' s
                      | Some NotPublicKey \<Rightarrow> give_up ''Unexpected credential type.'' s
                      | Some (PublicKey c r) \<Rightarrow>
                          try_await (http (setupCreateAdmin (su_setupSessionToken s) (obj_lit
                              [(''username'', Some (JStr username)),
                               (''displayName'', text_or_undefined (js_trim (su_adminDisplayName s))),
                               (''passkey'', Some (obj_lit
                                 [(''challenge'', Some (JStr (text_at started ''challenge''))),
                                  (''response'', Some (serializeCredentialCreation c r)),
                                  (''credential_name'', Some (JStr (passkey_name s)))]))])))
                            failed
                            (\<lambda>created s.
                               case read_text created ''token'' of
                                 Inl e \<Rightarrow> failed e s
                               | Inr token \<Rightarrow>
                                   if token = [] \<or> text_at created ''role'' \<noteq> ''admin'' \<or> text_at created ''method'' \<noteq> ''webauthn''
                                   then failed (Error ''Primary admin passkey setup did not return an admin session.'') s
                                   else fin (s\<lparr>su_adminSessionToken := token,
                                     su_adminSessionUsername := text_at created ''username'',
                                     su_adminChallenge := JNull, su_passkeyRegistered := True\<rparr>))
                            s)
                   s)
          (s\<lparr>su_adminLoading := True\<rparr>))"

section \<open>Step 3: the admin session and its passkey\<close>

definition loginAdminWithWallet ::
  "js_string \<Rightarrow> (js_error \<Rightarrow> setup_segment) \<Rightarrow> (json \<Rightarrow> setup_segment) \<Rightarrow> setup_segment" where
  "loginAdminWithWallet username catch k s =
     (if su_adminProvider s = None \<or> su_adminWalletAddress s = []
      then catch (Error ''Connect the primary admin wallet first.'') s
      else
        (case adminWalletBootstrapMessage s of
           Some msg \<Rightarrow> catch (Error msg) s
         | None \<Rightarrow>
             try_await (http (walletChallenge (obj_lit
                 [(''username'', Some (JStr username)), (''address'', Some (JStr (su_adminWalletAddress s))),
                  (''chainId'', Some (jnum (su_adminWalletChainId s)))])))
               catch
               (\<lambda>challenge s.
                  case (su_adminProvider s, read_text challenge ''message'') of
                    (Some p, Inr message) \<Rightarrow>
                      try_await (rpc p (personalSign message (su_adminWalletAddress s))) catch
                        (\<lambda>signature s.
                           try_await (http (walletLogin (obj_lit
                               [(''challengeId'', Some (JStr (text_at challenge ''id''))),
                                (''address'', Some (JStr (su_adminWalletAddress s))),
                                (''signature'', signature),
                                (''message'', Some (JStr message))])))
                             catch k s)
                        s
                  | _ \<Rightarrow> catch (TypeError ''null has no properties'') s)
               s))"

definition loginAdminWithPasskey ::
  "js_string \<Rightarrow> (js_error \<Rightarrow> setup_segment) \<Rightarrow> (json \<Rightarrow> setup_segment) \<Rightarrow> setup_segment" where
  "loginAdminWithPasskey username catch k s =
     (if \<not> env_passkeys (su_env s) then catch (Error ''Passkeys are not supported in this browser.'') s
      else
        try_await (http (webAuthnLoginBegin username)) catch
          (\<lambda>started s.
             case ceremony_options toPublicKeyRequestOptions started of
               Inl e \<Rightarrow> catch e s
             | Inr opts \<Rightarrow>
                 try_await (get_credential opts) catch
                   (\<lambda>credential s.
                      case credential of
                        None \<Rightarrow> catch (Error ''No credential returned.'') s
                      | Some NotPublicKey \<Rightarrow> catch (Error ''Unexpected credential type.'') s
                      | Some (PublicKey c r) \<Rightarrow>
                          try_await (http (webAuthnLoginFinish (obj_lit
                              [(''username'', Some (JStr username)),
                               (''challenge'', Some (JStr (text_at started ''challenge''))),
                               (''response'', Some (serializeCredentialRequest c r)),
                               (''device_name'', Some (JStr []))])))
                            catch k s)
                   s)
          s)"

definition ensureAdminSessionToken ::
  "(js_error \<Rightarrow> setup_segment) \<Rightarrow> (js_string \<Rightarrow> setup_segment) \<Rightarrow> setup_segment" where
  "ensureAdminSessionToken catch k s =
     (let username = currentAdminUsername s;
          accept = (\<lambda>session s.
            case read_text session ''username'' of
              Inl e \<Rightarrow> catch e s
            | Inr u \<Rightarrow>
                if u \<noteq> username \<or> text_at session ''role'' \<noteq> ''admin''
                then catch (Error ''Primary admin credential did not return an admin session.'') s
                else k (text_at session ''token'')
                  (s\<lparr>su_adminSessionToken := text_at session ''token'', su_adminSessionUsername := u\<rparr>)) in
      if \<not> flag_at (su_status s) ''primary_admin_set'' then catch (Error ''Primary admin is not configured yet.'') s
      else if username = [] then catch (Error ''Primary admin username missing.'') s
      else if su_adminSessionToken s \<noteq> [] \<and> su_adminSessionUsername s = username then k (su_adminSessionToken s) s
      else if su_adminProvider s \<noteq> None \<and> su_adminWalletAddress s \<noteq> [] \<and> adminWalletBootstrapMessage s = None
        then loginAdminWithWallet username catch accept s
      else loginAdminWithPasskey username catch accept s)"

definition drop_admin_token :: "setup_page \<Rightarrow> setup_page" where
  "drop_admin_token s = s\<lparr>su_adminSessionToken := [], su_adminSessionUsername := []\<rparr>"

text \<open>\<open>res.credentials.length > 0\<close>\<close>

definition has_credentials :: "json \<Rightarrow> js_error + bool" where
  "has_credentials res =
     (case obj_get res ''credentials'' of
        None \<Rightarrow> Inl (TypeError ''no credentials'')
      | Some JNull \<Rightarrow> Inl (TypeError ''no credentials'')
      | Some (JArr xs) \<Rightarrow> Inr (xs \<noteq> [])
      | Some (JStr t) \<Rightarrow> Inr (t \<noteq> [])
      | Some _ \<Rightarrow> Inr False)"

definition refreshPasskeyStatus :: setup_segment where
  "refreshPasskeyStatus s =
     (let failed = (\<lambda>e s. finish ((drop_admin_token s)\<lparr>su_passkeyError := Some (formatError (su_env s) e),
            su_passkeyLoading := False\<rparr>)) in
      ensureAdminSessionToken failed
        (\<lambda>token. try_await (http (webAuthnCredentials token)) failed
           (\<lambda>res s.
              case has_credentials res of
                Inl e \<Rightarrow> failed e s
              | Inr b \<Rightarrow> finish (s\<lparr>su_passkeyRegistered := b,
                  su_passkeyError := (if b then su_passkeyError s else Some ''No primary admin passkey is registered yet.''),
                  su_passkeyLoading := False\<rparr>)))
        (s\<lparr>su_passkeyError := None, su_passkeyLoading := True\<rparr>))"

definition registerPasskey :: setup_segment where
  "registerPasskey s =
     (let s = s\<lparr>su_passkeyError := None\<rparr>;
          failed = (\<lambda>e s. finish ((drop_admin_token s)\<lparr>su_passkeyError := Some (formatError (su_env s) e),
            su_passkeyLoading := False\<rparr>));
          give_up = (\<lambda>msg s. finish (s\<lparr>su_passkeyError := Some msg, su_passkeyLoading := False\<rparr>)) in
      if \<not> env_passkeys (su_env s) then finish (s\<lparr>su_passkeyError := Some ''Passkeys are not supported in this browser.''\<rparr>)
      else
        ensureAdminSessionToken failed
          (\<lambda>token. try_await (http (webAuthnRegisterBegin token)) failed
             (\<lambda>started s.
                case ceremony_options toPublicKeyCreationOptions started of
                  Inl e \<Rightarrow> failed e s
                | Inr opts \<Rightarrow>
                    try_await (create_credential opts) failed
                      (\<lambda>credential s.
                         case credential of
                           None \<Rightarrow> give_up ''No credential returned.'' s
                         | Some NotPublicKey \<Rightarrow> give_up ''Unexpected credential type.'' s
                         | Some (PublicKey c r) \<Rightarrow>
                             try_await (http (webAuthnRegisterFinish token (obj_lit
                                 [(''challenge'', Some (JStr (text_at started ''challenge''))),
                                  (''response'', Some (serializeCredentialCreation c r)),
                                  (''credential_name'', Some (JStr (passkey_name s)))])))
                               failed
                               (\<lambda>_ s. finish (s\<lparr>su_passkeyRegistered := True, su_passkeyLoading := False\<rparr>))
                               s)
                      s))
          (s\<lparr>su_passkeyLoading := True\<rparr>))"

section \<open>Step 4: finalizing\<close>

definition finalize_confirmed :: "setup_page \<Rightarrow> bool" where
  "finalize_confirmed s \<longleftrightarrow>
     su_finalizeAckLock s \<and> su_finalizeAckBackup s \<and> toUpperCase (js_trim (su_finalizeConfirm s)) = ''FINALIZE''"

definition finalizeSetup :: setup_segment where
  "finalizeSetup s =
     (let s = s\<lparr>su_finalizeError := None\<rparr>;
          stop = (\<lambda>msg. finish (s\<lparr>su_finalizeError := Some msg\<rparr>));
          fin = (\<lambda>s. refreshStatus finish (s\<lparr>su_finalizeLoading := False\<rparr>));
          failed = (\<lambda>e s. fin ((drop_admin_token s)\<lparr>su_finalizeError := Some (formatError (su_env s) e)\<rparr>)) in
      if \<not> flag_at (su_status s) ''locked'' then stop ''Control plane is already active.''
      else if \<not> flag_at (su_status s) ''primary_admin_set'' then stop ''Primary admin is not configured yet.''
      else if \<not> su_passkeyRegistered s then stop ''Register the primary admin passkey in Step 3 before finalizing.''
      else if \<not> finalize_confirmed s then stop ''Confirm the warnings to finalize.''
      else
        ensureAdminSessionToken failed
          (\<lambda>token. try_await (http (setupFinalize token)) failed
             (\<lambda>_ s.
                let s = s\<lparr>su_setupSessionToken := []\<rparr> in
                case remove_setup_token s of
                  Inl e \<Rightarrow> failed e s
                | Inr s \<Rightarrow> fin s))
          (s\<lparr>su_finalizeLoading := True\<rparr>))"

section \<open>What the page shows\<close>

definition step1Complete :: "setup_page \<Rightarrow> bool" where
  "step1Complete s \<longleftrightarrow> su_setupSessionToken s \<noteq> [] \<or> flag_at (su_status s) ''primary_admin_set''"

definition step4Complete :: "setup_page \<Rightarrow> bool" where
  "step4Complete s \<longleftrightarrow> json_truthy (Some (su_status s)) \<and> \<not> flag_at (su_status s) ''locked''"

definition activeStep :: "setup_page \<Rightarrow> nat" where
  "activeStep s =
     (if step4Complete s then 0
      else if \<not> step1Complete s then 1
      else if \<not> flag_at (su_status s) ''primary_admin_set'' then 2
      else if \<not> su_passkeyRegistered s then 3
      else 4)"

definition onMount_setup :: setup_segment where
  "onMount_setup s =
     (case remove_setup_token s of Inl e \<Rightarrow> finish s | Inr s \<Rightarrow> refreshStatus finish s)"

text \<open>What the user types and ticks, and the two buttons that choose how the admin is created.\<close>

inductive_set setup_inputs :: "setup_segment set" where
  "(\<lambda>s. finish (s\<lparr>su_adminUsername := t\<rparr>)) \<in> setup_inputs"
| "(\<lambda>s. finish (s\<lparr>su_adminDisplayName := t\<rparr>)) \<in> setup_inputs"
| "(\<lambda>s. finish (s\<lparr>su_passkeyName := t\<rparr>)) \<in> setup_inputs"
| "(\<lambda>s. finish (s\<lparr>su_finalizeConfirm := t\<rparr>)) \<in> setup_inputs"
| "(\<lambda>s. finish (s\<lparr>su_finalizeAckLock := b\<rparr>)) \<in> setup_inputs"
| "(\<lambda>s. finish (s\<lparr>su_finalizeAckBackup := b\<rparr>)) \<in> setup_inputs"
| "(\<lambda>s. finish (s\<lparr>su_adminSetupMode := ''wallet'', su_adminError := None\<rparr>)) \<in> setup_inputs"
| "(\<lambda>s. finish (s\<lparr>su_adminSetupMode := ''passkey'', su_adminChallenge := JNull, su_adminError := None\<rparr>)) \<in> setup_inputs"
| "(\<lambda>s. finish (s\<lparr>su_env := e\<rparr>)) \<in> setup_inputs"

definition setup_handlers :: "setup_segment set" where
  "setup_handlers =
     {onMount_setup, refreshStatus finish, connectBootstrapWallet, connectAdminWallet, beginBootstrap,
      completeBootstrap, beginAdminChallenge, createAdmin, createAdminWithPasskey, refreshPasskeyStatus,
      registerPasskey, finalizeSetup} \<union> setup_inputs"

end
