(* ===== verification/Setup_Progress.thy ===== *)
theory Setup_Progress
  imports Setup_Page
begin

text \<open>
  The loading flags of the setup page: every handler that raises one lowers it again on each of its
  paths, so the page always comes to rest with all of them down.
\<close>

lemma remove_setup_token_keeps:
  "remove_setup_token s = Inr s' \<Longrightarrow> s' = s\<lparr>su_sessionStorage := su_sessionStorage s'\<rparr>"
  by (auto simp: remove_setup_token_def split: sum.splits)

lemma refreshStatus_pays:
  assumes "owes su_statusLoading False k"
  shows "owes su_statusLoading b (refreshStatus k)"
  by (auto simp: refreshStatus_def Let_def intro!: pay_intros owes_lowered [OF assms] split: sum.splits)

lemma refreshStatus_keeps:
  assumes k: "owes f False k"
    and f: "\<And>s v. f (s\<lparr>su_statusError := v\<rparr>) = f s" "\<And>s v. f (s\<lparr>su_statusLoading := v\<rparr>) = f s"
      "\<And>s v. f (s\<lparr>su_status := v\<rparr>) = f s" "\<And>s v. f (s\<lparr>su_setupSessionToken := v\<rparr>) = f s"
      "\<And>s v. f (s\<lparr>su_sessionStorage := v\<rparr>) = f s"
  shows "owes f False (refreshStatus k)"
proof -
  have "f s' = f s" if "remove_setup_token s = Inr s'" for s s'
    using remove_setup_token_keeps [OF that] f(5) by metis
  then show ?thesis
    by (auto simp: refreshStatus_def Let_def f intro!: owes_intros owes_same [OF k] split: sum.splits)
qed


lemma remove_setup_token_flags:
  assumes "remove_setup_token s = Inr s'"
  shows "su_statusLoading s' = su_statusLoading s" "su_bootstrapLoading s' = su_bootstrapLoading s"
    "su_adminLoading s' = su_adminLoading s" "su_passkeyLoading s' = su_passkeyLoading s"
    "su_finalizeLoading s' = su_finalizeLoading s"
  by (subst remove_setup_token_keeps [OF assms], simp)+

lemma refresh_raised: "owes_result su_statusLoading b s (refreshStatus finish s')"
  by (intro owes_true refreshStatus_pays owes_finish_only)

lemma refresh_same:
  "(su_bootstrapLoading s' \<Longrightarrow> su_bootstrapLoading s) \<Longrightarrow> owes_result su_bootstrapLoading False s (refreshStatus finish s')"
  "(su_adminLoading s' \<Longrightarrow> su_adminLoading s) \<Longrightarrow> owes_result su_adminLoading False s (refreshStatus finish s')"
  "(su_passkeyLoading s' \<Longrightarrow> su_passkeyLoading s) \<Longrightarrow> owes_result su_passkeyLoading False s (refreshStatus finish s')"
  "(su_finalizeLoading s' \<Longrightarrow> su_finalizeLoading s) \<Longrightarrow> owes_result su_finalizeLoading False s (refreshStatus finish s')"
  by (rule owes_same [OF refreshStatus_keeps [OF owes_finish_only]]; simp)+

lemma refresh_lowered:
  "\<not> su_bootstrapLoading s' \<Longrightarrow> owes_result su_bootstrapLoading b s (refreshStatus finish s')"
  "\<not> su_adminLoading s' \<Longrightarrow> owes_result su_adminLoading b s (refreshStatus finish s')"
  "\<not> su_finalizeLoading s' \<Longrightarrow> owes_result su_finalizeLoading b s (refreshStatus finish s')"
  by (rule owes_lowered [OF refreshStatus_keeps [OF owes_finish_only]]; simp)+

lemmas keep_rules = owes_intros refresh_raised refresh_same
lemmas pay_rules = pay_intros refresh_lowered
lemmas setup_splits = option.splits if_splits sum.splits credential.splits

lemma ensureAdminSessionToken_keeps:
  assumes "\<And>e. owes f False (catch e)" and "\<And>t. owes f False (k t)"
    and f: "\<And>s v. f (s\<lparr>su_adminSessionToken := v\<rparr>) = f s" "\<And>s v. f (s\<lparr>su_adminSessionUsername := v\<rparr>) = f s"
  shows "owes f False (ensureAdminSessionToken catch k)"
  by (auto simp: ensureAdminSessionToken_def loginAdminWithWallet_def loginAdminWithPasskey_def Let_def f
      intro!: owes_intros owes_same [OF assms(1)] owes_same [OF assms(2)] assms(1) split: setup_splits)

lemma ensureAdminSessionToken_pays:
  assumes "\<And>e. owes f True (catch e)" and "\<And>t. owes f True (k t)"
  shows "owes f True (ensureAdminSessionToken catch k)"
  by (auto simp: ensureAdminSessionToken_def loginAdminWithWallet_def loginAdminWithPasskey_def Let_def
      intro!: pay_intros owes_true [OF assms(1)] owes_true [OF assms(2)] assms(1) split: setup_splits)

lemma onMount_setup_keeps:
  "owes su_statusLoading False onMount_setup"
  "owes su_bootstrapLoading False onMount_setup"
  "owes su_adminLoading False onMount_setup"
  "owes su_passkeyLoading False onMount_setup"
  "owes su_finalizeLoading False onMount_setup"
  by (auto simp: onMount_setup_def Let_def remove_setup_token_flags clearAdminSession_def clearBootstrapWallet_def
      intro!: keep_rules split: setup_splits)

lemma connectBootstrapWallet_keeps:
  "owes su_statusLoading False connectBootstrapWallet"
  "owes su_bootstrapLoading False connectBootstrapWallet"
  "owes su_adminLoading False connectBootstrapWallet"
  "owes su_passkeyLoading False connectBootstrapWallet"
  "owes su_finalizeLoading False connectBootstrapWallet"
  by (auto simp: connectBootstrapWallet_def Let_def remove_setup_token_flags clearAdminSession_def clearBootstrapWallet_def
      intro!: keep_rules split: setup_splits)

lemma connectAdminWallet_keeps:
  "owes su_statusLoading False connectAdminWallet"
  "owes su_bootstrapLoading False connectAdminWallet"
  "owes su_adminLoading False connectAdminWallet"
  "owes su_passkeyLoading False connectAdminWallet"
  "owes su_finalizeLoading False connectAdminWallet"
  by (auto simp: connectAdminWallet_def Let_def remove_setup_token_flags clearAdminSession_def clearBootstrapWallet_def
      intro!: keep_rules split: setup_splits)

lemma beginBootstrap_keeps:
  "owes su_statusLoading False beginBootstrap"
  "owes su_adminLoading False beginBootstrap"
  "owes su_passkeyLoading False beginBootstrap"
  "owes su_finalizeLoading False beginBootstrap"
  by (auto simp: beginBootstrap_def Let_def remove_setup_token_flags clearAdminSession_def clearBootstrapWallet_def
      intro!: keep_rules split: setup_splits)

lemma beginBootstrap_pays: "owes su_bootstrapLoading False beginBootstrap"
  by (auto simp: beginBootstrap_def Let_def remove_setup_token_flags clearAdminSession_def clearBootstrapWallet_def
      intro!: pay_rules split: setup_splits)

lemma completeBootstrap_keeps:
  "owes su_statusLoading False completeBootstrap"
  "owes su_adminLoading False completeBootstrap"
  "owes su_passkeyLoading False completeBootstrap"
  "owes su_finalizeLoading False completeBootstrap"
  by (auto simp: completeBootstrap_def Let_def remove_setup_token_flags clearAdminSession_def clearBootstrapWallet_def
      intro!: keep_rules split: setup_splits)

lemma completeBootstrap_pays: "owes su_bootstrapLoading False completeBootstrap"
  by (auto simp: completeBootstrap_def Let_def remove_setup_token_flags clearAdminSession_def clearBootstrapWallet_def
      intro!: pay_rules split: setup_splits)

lemma beginAdminChallenge_keeps:
  "owes su_statusLoading False beginAdminChallenge"
  "owes su_bootstrapLoading False beginAdminChallenge"
  "owes su_passkeyLoading False beginAdminChallenge"
  "owes su_finalizeLoading False beginAdminChallenge"
  by (auto simp: beginAdminChallenge_def Let_def remove_setup_token_flags clearAdminSession_def clearBootstrapWallet_def
      intro!: keep_rules split: setup_splits)

lemma beginAdminChallenge_pays: "owes su_adminLoading False beginAdminChallenge"
  by (auto simp: beginAdminChallenge_def Let_def remove_setup_token_flags clearAdminSession_def clearBootstrapWallet_def
      intro!: pay_rules split: setup_splits)

lemma createAdmin_keeps:
  "owes su_statusLoading False createAdmin"
  "owes su_bootstrapLoading False createAdmin"
  "owes su_passkeyLoading False createAdmin"
  "owes su_finalizeLoading False createAdmin"
  by (auto simp: createAdmin_def Let_def remove_setup_token_flags clearAdminSession_def clearBootstrapWallet_def
      intro!: keep_rules split: setup_splits)

lemma createAdmin_pays: "owes su_adminLoading False createAdmin"
  by (auto simp: createAdmin_def Let_def remove_setup_token_flags clearAdminSession_def clearBootstrapWallet_def
      intro!: pay_rules split: setup_splits)

lemma createAdminWithPasskey_keeps:
  "owes su_statusLoading False createAdminWithPasskey"
  "owes su_bootstrapLoading False createAdminWithPasskey"
  "owes su_passkeyLoading False createAdminWithPasskey"
  "owes su_finalizeLoading False createAdminWithPasskey"
  by (auto simp: createAdminWithPasskey_def Let_def remove_setup_token_flags clearAdminSession_def clearBootstrapWallet_def
      intro!: keep_rules split: setup_splits)

lemma createAdminWithPasskey_pays: "owes su_adminLoading False createAdminWithPasskey"
  by (auto simp: createAdminWithPasskey_def Let_def remove_setup_token_flags clearAdminSession_def clearBootstrapWallet_def
      intro!: pay_rules split: setup_splits)

lemma refreshPasskeyStatus_keeps:
  "owes su_statusLoading False refreshPasskeyStatus"
  "owes su_bootstrapLoading False refreshPasskeyStatus"
  "owes su_adminLoading False refreshPasskeyStatus"
  "owes su_finalizeLoading False refreshPasskeyStatus"
  by (auto simp: refreshPasskeyStatus_def Let_def remove_setup_token_flags drop_admin_token_def
      intro!: keep_rules owes_same [OF ensureAdminSessionToken_keeps] split: setup_splits)

lemma refreshPasskeyStatus_pays: "owes su_passkeyLoading False refreshPasskeyStatus"
  by (auto simp: refreshPasskeyStatus_def Let_def remove_setup_token_flags drop_admin_token_def
      intro!: pay_rules owes_true [OF ensureAdminSessionToken_pays] split: setup_splits)

lemma registerPasskey_keeps:
  "owes su_statusLoading False registerPasskey"
  "owes su_bootstrapLoading False registerPasskey"
  "owes su_adminLoading False registerPasskey"
  "owes su_finalizeLoading False registerPasskey"
  by (auto simp: registerPasskey_def Let_def remove_setup_token_flags drop_admin_token_def
      intro!: keep_rules owes_same [OF ensureAdminSessionToken_keeps] split: setup_splits)

lemma registerPasskey_pays: "owes su_passkeyLoading False registerPasskey"
  by (auto simp: registerPasskey_def Let_def remove_setup_token_flags drop_admin_token_def
      intro!: pay_rules owes_true [OF ensureAdminSessionToken_pays] split: setup_splits)

lemma finalizeSetup_keeps:
  "owes su_statusLoading False finalizeSetup"
  "owes su_bootstrapLoading False finalizeSetup"
  "owes su_adminLoading False finalizeSetup"
  "owes su_passkeyLoading False finalizeSetup"
  by (auto simp: finalizeSetup_def Let_def remove_setup_token_flags drop_admin_token_def
      intro!: keep_rules owes_same [OF ensureAdminSessionToken_keeps] split: setup_splits)

lemma finalizeSetup_pays: "owes su_finalizeLoading False finalizeSetup"
  by (auto simp: finalizeSetup_def Let_def remove_setup_token_flags drop_admin_token_def
      intro!: pay_rules owes_true [OF ensureAdminSessionToken_pays] split: setup_splits)

lemma setup_inputs_flags:
  assumes "h \<in> setup_inputs"
  shows "owes su_statusLoading False h" "owes su_bootstrapLoading False h" "owes su_adminLoading False h"
    "owes su_passkeyLoading False h" "owes su_finalizeLoading False h"
  using assms by (cases; auto intro!: owes_intros)+

lemmas setup_flag_facts = setup_inputs_flags onMount_setup_keeps
  refreshStatus_pays [OF owes_finish_only] refreshStatus_keeps [OF owes_finish_only]
  connectBootstrapWallet_keeps connectAdminWallet_keeps beginBootstrap_keeps beginBootstrap_pays
  completeBootstrap_keeps completeBootstrap_pays beginAdminChallenge_keeps beginAdminChallenge_pays
  createAdmin_keeps createAdmin_pays createAdminWithPasskey_keeps createAdminWithPasskey_pays
  refreshPasskeyStatus_keeps refreshPasskeyStatus_pays registerPasskey_keeps registerPasskey_pays
  finalizeSetup_keeps finalizeSetup_pays

interpretation setup_status: loading_flag setup_handlers su_statusLoading
  by unfold_locales (auto simp: setup_handlers_def setup_flag_facts)
interpretation setup_bootstrap: loading_flag setup_handlers su_bootstrapLoading
  by unfold_locales (auto simp: setup_handlers_def setup_flag_facts)
interpretation setup_admin: loading_flag setup_handlers su_adminLoading
  by unfold_locales (auto simp: setup_handlers_def setup_flag_facts)
interpretation setup_passkey: loading_flag setup_handlers su_passkeyLoading
  by unfold_locales (auto simp: setup_handlers_def setup_flag_facts)
interpretation setup_finalize: loading_flag setup_handlers su_finalizeLoading
  by unfold_locales (auto simp: setup_handlers_def setup_flag_facts)

definition setup_idle :: "setup_page \<Rightarrow> bool" where
  "setup_idle s \<longleftrightarrow> \<not> su_statusLoading s \<and> \<not> su_bootstrapLoading s \<and> \<not> su_adminLoading s \<and> \<not> su_passkeyLoading s
     \<and> \<not> su_finalizeLoading s"

text \<open>C23. Whatever the user does on the setup page, in whatever order the server, the wallet and the
  authenticator answer, and whichever of them fail, the page comes to rest once no answer is
  outstanding, and then no spinner is left on: each loading flag that was raised has been lowered.\<close>

theorem setup_page_settles:
  assumes "page_reachable setup_handlers (fresh_page (initial_setup env storage chain) w) pg"
  shows "settles (\<lambda>q. setup_idle (pg_state q)) pg"
proof -
  have start: "setup_idle (pg_state (fresh_page (initial_setup env storage chain) w))"
    "pg_pending (fresh_page (initial_setup env storage chain) w) = []"
    by (simp_all add: setup_idle_def fresh_page_def initial_setup_def)
  note facts = setup_status.flag_settles [OF assms] setup_bootstrap.flag_settles [OF assms]
    setup_admin.flag_settles [OF assms] setup_passkey.flag_settles [OF assms] setup_finalize.flag_settles [OF assms]
  show ?thesis unfolding setup_idle_def
    using start facts by (intro settles_conj) (simp_all add: setup_idle_def)
qed


text \<open>At rest after a click: while the status request is outstanding the spinner is on.\<close>

theorem setup_page_settles_witness:
  "su_statusLoading (pg_state (run_segment onMount_setup (fresh_page (initial_setup sample_env sample_storage 1)
       (sample_world (\<lambda>_. JNull))))) \<and>
   settles (\<lambda>q. setup_idle (pg_state q)) (run_segment onMount_setup (fresh_page (initial_setup sample_env sample_storage 1)
       (sample_world (\<lambda>_. JNull))))"
proof -
  let ?pg = "fresh_page (initial_setup sample_env sample_storage 1) (sample_world (\<lambda>_. JNull))"
  have "page_reachable setup_handlers ?pg (run_segment onMount_setup ?pg)"
    by (intro r_into_rtranclp page_step.start) (simp add: setup_handlers_def)
  moreover have "su_statusLoading (pg_state (run_segment onMount_setup ?pg))"
    by (simp add: run_segment_def fresh_page_def initial_setup_def onMount_setup_def remove_setup_token_def removeItem_def
        sample_storage_def refreshStatus_def try_await_def await_def split: prod.split)
  ultimately show ?thesis using setup_page_settles by blast
qed

end
