(* ===== verification/Setup_Tokens.thy ===== *)
theory Setup_Tokens
  imports Setup_Page
begin

text \<open>
  Which credentials the setup page presents where.  The page holds two kinds of bearer tokens: the
  setup session that the bootstrap wallet was exchanged for, and the session of the primary admin.
  Under every interleaving of its handlers, a token it presents was issued to it by the server in an
  earlier answer, and by an endpoint that issues the kind of token the request calls for.
\<close>

definition setup_token :: "net \<Rightarrow> request list \<Rightarrow> js_string \<Rightarrow> bool" where
  "setup_token net log t \<longleftrightarrow>
     (\<exists>r v. answered net log r v \<and> req_url r = ''/setup/bootstrap/verify'' \<and> text_at v ''token'' = t)"

definition admin_session :: "net \<Rightarrow> request list \<Rightarrow> js_string \<Rightarrow> js_string \<Rightarrow> bool" where
  "admin_session net log t u \<longleftrightarrow>
     (\<exists>r v. answered net log r v \<and>
        req_url r \<in> {''/setup/admin'', ''/auth/wallet/login'', ''/api/v1/auth/webauthn/login/finish''} \<and>
        text_at v ''token'' = t \<and> text_at v ''username'' = u)"

definition setup_request_ok :: "net \<Rightarrow> request list \<Rightarrow> request \<Rightarrow> bool" where
  "setup_request_ok net log r \<longleftrightarrow>
     (case map_of (req_headers r) ''authorization'' of
        None \<Rightarrow> True
      | Some a \<Rightarrow>
          if req_url r \<in> {''/setup/admin'', ''/setup/webauthn/register/begin''}
          then \<exists>t. a = ''Bearer '' @ t \<and> (t = [] \<or> setup_token net log t)
          else \<exists>t u. a = ''Bearer '' @ t \<and> u \<noteq> [] \<and> admin_session net log t u)"

definition setup_tokens_issued :: "setup_page \<Rightarrow> net \<Rightarrow> request list \<Rightarrow> bool" where
  "setup_tokens_issued s net log \<longleftrightarrow>
     (su_setupSessionToken s = [] \<or> setup_token net log (su_setupSessionToken s)) \<and>
     (su_adminSessionToken s = [] \<or> admin_session net log (su_adminSessionToken s) (su_adminSessionUsername s))"

lemma setup_token_later: "setup_token net log t \<Longrightarrow> setup_token net (log @ l) t"
  by (auto simp: setup_token_def intro: answered_later)

lemma admin_session_later: "admin_session net log t u \<Longrightarrow> admin_session net (log @ l) t u"
  unfolding admin_session_def using answered_later by fast

interpretation setup_requests: request_discipline setup_tokens_issued setup_request_ok
  by unfold_locales (auto simp: setup_tokens_issued_def setup_token_later admin_session_later)

abbreviation setup_inv :: "setup_page \<Rightarrow> world \<Rightarrow> bool" where
  "setup_inv \<equiv> page_inv setup_tokens_issued setup_request_ok"

text \<open>The invariant in terms of the three fields it is about.\<close>

definition setup_token_ok :: "js_string \<Rightarrow> world \<Rightarrow> bool" where
  "setup_token_ok t w \<longleftrightarrow> t = [] \<or> setup_token (w_net w) (w_http w) t"

definition admin_token_ok :: "js_string \<Rightarrow> js_string \<Rightarrow> world \<Rightarrow> bool" where
  "admin_token_ok a u w \<longleftrightarrow> a = [] \<or> admin_session (w_net w) (w_http w) a u"

lemma setup_inv_iff:
  "setup_inv s w \<longleftrightarrow>
     setup_token_ok (su_setupSessionToken s) w \<and> admin_token_ok (su_adminSessionToken s) (su_adminSessionUsername s) w \<and>
     requests_ok setup_request_ok (w_net w) (w_http w)"
  by (simp add: page_inv_def setup_tokens_issued_def setup_token_ok_def admin_token_ok_def)

lemma no_token_ok [simp]: "setup_token_ok [] w" "admin_token_ok [] u w"
  by (simp_all add: setup_token_ok_def admin_token_ok_def)

lemma open_request: "map_of (req_headers r) ''authorization'' = None \<Longrightarrow> setup_request_ok net log r"
  by (simp add: setup_request_ok_def)

lemma remove_setup_token_fields:
  assumes "remove_setup_token s = Inr s'"
  shows "su_setupSessionToken s' = su_setupSessionToken s" "su_adminSessionToken s' = su_adminSessionToken s"
    "su_adminSessionUsername s' = su_adminSessionUsername s"
  using assms by (auto simp: remove_setup_token_def split: sum.splits)

lemma refreshStatus_guarded:
  assumes k: "\<And>w. setup_requests.guarded w k"
  shows "setup_requests.guarded w (refreshStatus k)"
  unfolding refreshStatus_def Let_def getSetupStatus_def api_call_def
  by (auto simp: setup_inv_iff remove_setup_token_fields intro!: setup_requests.guarded_by setup_requests.guarded_http open_request
      setup_requests.guardedD [OF k] split: sum.splits)

lemmas api_unfold = api_call_def jsonRequest_def json_headers_def getSetupStatus_def setupBootstrapChallenge_def
  setupBootstrapVerify_def walletChallenge_def walletLogin_def webAuthnLoginBegin_def webAuthnLoginFinish_def Let_def

lemma connectBootstrapWallet_guarded: "setup_requests.guarded w connectBootstrapWallet"
  unfolding connectBootstrapWallet_def
  by (auto simp: setup_inv_iff Let_def intro!: setup_requests.guarded_by setup_requests.guarded_local safe_finish split: option.splits)

lemma beginBootstrap_guarded: "setup_requests.guarded w beginBootstrap"
  unfolding beginBootstrap_def api_unfold
  by (auto simp: setup_inv_iff intro!: setup_requests.guarded_by setup_requests.guarded_http safe_finish open_request)


lemma connectAdminWallet_guarded: "setup_requests.guarded w connectAdminWallet"
  unfolding connectAdminWallet_def
  by (auto simp: setup_inv_iff Let_def clearAdminSession_def intro!: setup_requests.guarded_by setup_requests.guarded_local safe_finish
      split: option.splits)

lemma setup_token_answered:
  "answered (w_net w) (w_http w)
     \<lparr>req_method = m, req_url = ''/setup/bootstrap/verify'', req_headers = h, req_body = b\<rparr> v \<Longrightarrow> later w w' \<Longrightarrow>
     setup_token_ok (text_at v ''token'') w'"
  unfolding setup_token_ok_def setup_token_def later_def using answered_later by fastforce

lemma admin_session_answered:
  "answered (w_net w) (w_http w) \<lparr>req_method = m, req_url = url, req_headers = h, req_body = b\<rparr> v \<Longrightarrow>
     later w w' \<Longrightarrow> url \<in> {''/setup/admin'', ''/auth/wallet/login'', ''/api/v1/auth/webauthn/login/finish''} \<Longrightarrow>
     admin_session (w_net w') (w_http w') (text_at v ''token'') (text_at v ''username'')"
  unfolding admin_session_def later_def using answered_later by fastforce

lemma admin_token_answered:
  "answered (w_net w) (w_http w) \<lparr>req_method = m, req_url = ''/setup/admin'', req_headers = h, req_body = b\<rparr> v \<Longrightarrow>
     later w w' \<Longrightarrow> admin_token_ok (text_at v ''token'') (text_at v ''username'') w'"
  unfolding admin_token_ok_def using admin_session_answered by blast

lemma setup_request_allowed:
  "setup_token_ok t w \<Longrightarrow> url \<in> {''/setup/admin'', ''/setup/webauthn/register/begin''} \<Longrightarrow>
     setup_request_ok (w_net w) (w_http w)
       \<lparr>req_method = m, req_url = url, req_headers = bearer t @ h, req_body = b\<rparr>"
  by (auto simp: setup_request_ok_def bearer_def setup_token_ok_def)

lemma admin_request_allowed:
  "admin_session (w_net w) (w_http w) t u \<Longrightarrow> u \<noteq> [] \<Longrightarrow> url \<notin> {''/setup/admin'', ''/setup/webauthn/register/begin''} \<Longrightarrow>
     setup_request_ok (w_net w) (w_http w)
       \<lparr>req_method = m, req_url = url, req_headers = bearer t @ h, req_body = b\<rparr>"
  by (auto simp: setup_request_ok_def bearer_def)

lemma read_text_Inr: "read_text v k = Inr t \<Longrightarrow> t = text_at v k"
  by (simp add: read_text_def split: if_splits)

lemmas guard_rules = setup_requests.guarded_by setup_requests.guarded_local setup_requests.guarded_http safe_finish
  setup_requests.guardedD [OF refreshStatus_guarded [OF setup_requests.finish_guarded]]

lemmas setup_api_unfold = setupCreateAdmin_def setupPasskeyRegisterBegin_def api_unfold

lemma completeBootstrap_guarded: "setup_requests.guarded w completeBootstrap"
  unfolding completeBootstrap_def api_unfold
  by (auto simp: setup_inv_iff remove_setup_token_fields clearBootstrapWallet_def dest!: read_text_Inr
      intro!: guard_rules open_request split: option.splits sum.splits)
    (erule (1) setup_token_answered)+

lemma beginAdminChallenge_guarded: "setup_requests.guarded w beginAdminChallenge"
  unfolding beginAdminChallenge_def api_unfold
  by (auto simp: setup_inv_iff intro!: guard_rules open_request split: option.splits)

lemma createAdmin_guarded: "setup_requests.guarded w createAdmin"
  unfolding createAdmin_def setup_api_unfold
  by (auto simp: setup_inv_iff clearAdminSession_def dest!: read_text_Inr
      intro!: guard_rules setup_request_allowed split: option.splits sum.splits)
    (erule (1) admin_token_answered)+

lemma createAdminWithPasskey_guarded: "setup_requests.guarded w createAdminWithPasskey"
  unfolding createAdminWithPasskey_def setup_api_unfold
  by (auto simp: setup_inv_iff clearAdminSession_def dest!: read_text_Inr
      intro!: guard_rules setup_request_allowed split: option.splits sum.splits credential.splits)
    (erule (1) admin_token_answered)+


text \<open>A continuation that is given a token runs in worlds where the token has been issued.\<close>

lemma login_guarded:
  assumes c: "\<And>e w. setup_requests.guarded w (catch e)"
    and k: "\<And>v w. admin_session (w_net w) (w_http w) (text_at v ''token'') (text_at v ''username'') \<Longrightarrow>
      setup_requests.guarded w (k v)"
  shows "setup_requests.guarded w (loginAdminWithWallet u catch k)" "setup_requests.guarded w (loginAdminWithPasskey u catch k)"
  unfolding loginAdminWithWallet_def loginAdminWithPasskey_def api_unfold
  by (auto simp: setup_inv_iff intro!: guard_rules open_request setup_requests.guardedD [OF c] c k
      split: option.splits sum.splits credential.splits) (erule admin_session_answered; simp)+


definition token_usable :: "js_string \<Rightarrow> world \<Rightarrow> bool" where
  "token_usable t w \<longleftrightarrow> (\<exists>u. u \<noteq> [] \<and> admin_session (w_net w) (w_http w) t u)"

lemma token_usable_later: "token_usable t w \<Longrightarrow> later w w' \<Longrightarrow> token_usable t w'"
  unfolding token_usable_def later_def by (metis admin_session_later)

lemma ensureAdminSessionToken_guarded:
  assumes c: "\<And>e w. setup_requests.guarded w (catch e)"
    and k: "\<And>t w. token_usable t w \<Longrightarrow> setup_requests.guarded w (k t)"
  shows "setup_requests.guarded w (ensureAdminSessionToken catch k)"
proof (rule setup_requests.guarded_by)
  fix s w assume inv: "setup_inv s w"
  define accept where "accept = (\<lambda>session s'.
    case read_text session ''username'' of
      Inl e \<Rightarrow> catch e s'
    | Inr u \<Rightarrow>
        if u \<noteq> currentAdminUsername s \<or> text_at session ''role'' \<noteq> ''admin''
        then catch (Error ''Primary admin credential did not return an admin session.'') s'
        else k (text_at session ''token'')
          (s'\<lparr>su_adminSessionToken := text_at session ''token'', su_adminSessionUsername := u\<rparr>))"
  have accept: "setup_requests.guarded w (accept v)"
    if "admin_session (w_net w) (w_http w) (text_at v ''token'') (text_at v ''username'')"
      "currentAdminUsername s \<noteq> []" for v w
  proof (rule setup_requests.guarded_by)
    fix s' w' assume "later w w'" and inv: "setup_inv s' w'"
    then have a: "admin_session (w_net w') (w_http w') (text_at v ''token'') (text_at v ''username'')"
      using that(1) by (auto simp: later_def admin_session_later)
    then show "setup_requests.guarded_result w' (accept v s')"
      using inv that(2) by (auto simp: accept_def setup_inv_iff admin_token_ok_def token_usable_def dest!: read_text_Inr
        intro!: setup_requests.guardedD [OF c] setup_requests.guardedD [OF k] split: sum.split)
  qed
  show "setup_requests.guarded_result w (ensureAdminSessionToken catch k s)"
  proof (cases "su_adminSessionToken s \<noteq> [] \<and> su_adminSessionUsername s = currentAdminUsername s \<and> currentAdminUsername s \<noteq> []")
    case True
    then have "admin_session (w_net w) (w_http w) (su_adminSessionToken s) (su_adminSessionUsername s)"
      using inv by (simp add: setup_inv_iff admin_token_ok_def)
    with True have "token_usable (su_adminSessionToken s) w" unfolding token_usable_def by metis
    with True show ?thesis using inv setup_requests.guardedD [OF k] setup_requests.guardedD [OF c]
      by (auto simp: ensureAdminSessionToken_def Let_def)
  next
    case False
    with inv show ?thesis using setup_requests.guardedD [OF c] setup_requests.guardedD [OF login_guarded(1) [OF c accept]]
        setup_requests.guardedD [OF login_guarded(2) [OF c accept]]
      by (auto simp: ensureAdminSessionToken_def Let_def accept_def)
  qed
qed


lemma admin_call_guarded:
  assumes t: "token_usable t w" and "setup_inv s w"
    and url: "url \<notin> {''/setup/admin'', ''/setup/webauthn/register/begin''}"
    and "\<And>e w'. later w w' \<Longrightarrow> setup_requests.guarded w' (catch e)" and "\<And>v w'. later w w' \<Longrightarrow> setup_requests.guarded w' (k v)"
  shows "setup_requests.guarded_result w (try_await (http (api_call m url (bearer t @ h) b)) catch k s)"
proof -
  obtain u where "u \<noteq> []" "admin_session (w_net w) (w_http w) t u" using t by (auto simp: token_usable_def)
  then show ?thesis unfolding api_call_def using assms admin_request_allowed [OF _ _ url]
    by (intro setup_requests.guarded_http) blast+
qed

lemmas admin_call_guarded_plain = admin_call_guarded [where h = "[]", simplified]

lemma refreshPasskeyStatus_guarded: "setup_requests.guarded w refreshPasskeyStatus"
  unfolding refreshPasskeyStatus_def Let_def webAuthnCredentials_def
  by (auto simp: setup_inv_iff drop_admin_token_def intro!: setup_requests.guarded_by admin_call_guarded_plain safe_finish
      setup_requests.guardedD [OF ensureAdminSessionToken_guarded] split: sum.split) (erule (1) token_usable_later)

lemma finalizeSetup_guarded: "setup_requests.guarded w finalizeSetup"
  unfolding finalizeSetup_def Let_def setupFinalize_def
  by (auto simp: setup_inv_iff drop_admin_token_def remove_setup_token_fields
      intro!: setup_requests.guarded_by admin_call_guarded_plain safe_finish
      setup_requests.guardedD [OF ensureAdminSessionToken_guarded] setup_requests.guardedD [OF refreshStatus_guarded [OF setup_requests.finish_guarded]] split: sum.splits)
    (erule (1) token_usable_later)

lemma registerPasskey_guarded: "setup_requests.guarded w registerPasskey"
  unfolding registerPasskey_def Let_def webAuthnRegisterBegin_def webAuthnRegisterFinish_def
  by (auto simp: setup_inv_iff drop_admin_token_def
      intro!: setup_requests.guarded_by admin_call_guarded_plain admin_call_guarded safe_finish
        setup_requests.guarded_local [where op = "create_credential c" for c]
        setup_requests.guardedD [OF ensureAdminSessionToken_guarded] split: sum.splits option.splits credential.splits)
    (meson token_usable_later later_trans)+


lemma onMount_setup_guarded: "setup_requests.guarded w onMount_setup"
  unfolding onMount_setup_def
  by (auto simp: setup_inv_iff remove_setup_token_fields intro!: guard_rules split: sum.splits)

lemma setup_inputs_guarded: "h \<in> setup_inputs \<Longrightarrow> setup_requests.guarded w h"
  by (erule setup_inputs.cases) (auto simp: setup_inv_iff intro!: setup_requests.guarded_by safe_finish)

lemmas setup_guarded = onMount_setup_guarded refreshStatus_guarded [OF setup_requests.finish_guarded] connectBootstrapWallet_guarded
  connectAdminWallet_guarded beginBootstrap_guarded completeBootstrap_guarded beginAdminChallenge_guarded
  createAdmin_guarded createAdminWithPasskey_guarded refreshPasskeyStatus_guarded registerPasskey_guarded
  finalizeSetup_guarded setup_inputs_guarded

interpretation setup_invariant: page_invariant setup_handlers later setup_inv
  by unfold_locales (auto simp: setup_handlers_def setup_guarded intro: later_trans)

text \<open>C20. The setup page presents only tokens it was issued, each only where it belongs.  However the
  user's actions and the answers interleave, every request the page has sent that carries an
  authorization header carries the bearer token of an earlier answer to the page: for the two calls
  that create the primary admin, the setup session that the bootstrap verification issued (or an empty
  token, when that session was dropped while the wallet was asked to sign); for every other
  call, the session that the creation or the login of the admin issued for a named user.\<close>

theorem setup_tokens_presented:
  assumes "page_reachable setup_handlers (fresh_page (initial_setup env storage chain) w) pg" and "w_http w = []"
    and "w_http (pg_world pg) = before @ r # after" and "map_of (req_headers r) ''authorization'' = Some a"
  shows "if req_url r \<in> {''/setup/admin'', ''/setup/webauthn/register/begin''}
     then \<exists>t. a = ''Bearer '' @ t \<and> (t = [] \<or> setup_token (w_net (pg_world pg)) before t)
     else \<exists>t u. a = ''Bearer '' @ t \<and> u \<noteq> [] \<and> admin_session (w_net (pg_world pg)) before t u"
proof -
  have "setup_inv (pg_state pg) (pg_world pg)"
    by (rule setup_invariant.reachable_invariant [OF assms(1)])
      (simp_all add: setup_inv_iff fresh_page_def initial_setup_def assms(2))
  then have "setup_request_ok (w_net (pg_world pg)) before r"
    using assms(3) by (simp add: page_inv_def requests_ok_def)
  then show ?thesis using assms(4) by (simp add: setup_request_ok_def)
qed


definition sample_setup_answer :: json where
  "sample_setup_answer = JObj [(''locked'', JBool True), (''bootstrap_wallet_address_set'', JBool True),
     (''id'', JStr ''c1''), (''message'', JStr ''sign me''), (''token'', JStr ''T'')]"

definition sample_setup_run :: "setup_segment list" where
  "sample_setup_run = [refreshStatus finish, connectBootstrapWallet, beginBootstrap, completeBootstrap,
     \<lambda>s. finish (s\<lparr>su_adminUsername := ''root''\<rparr>), createAdminWithPasskey]"

lemma sample_setup_wf: "wf_json sample_setup_answer"
  by (simp add: sample_setup_answer_def)

lemma sample_setup_handlers: "set sample_setup_run \<subseteq> setup_handlers"
  by (auto simp: sample_setup_run_def setup_handlers_def intro: setup_inputs.intros)


lemma sample_setup_members [simp]:
  "flag_at sample_setup_answer ''locked''" "\<not> flag_at sample_setup_answer ''primary_admin_set''"
  "flag_at sample_setup_answer ''bootstrap_wallet_address_set''" "sample_setup_answer \<noteq> JNull"
  "json_truthy (Some sample_setup_answer)" "read_text sample_setup_answer ''token'' = Inr ''T''"
  "ceremony_options f sample_setup_answer = Inl (TypeError ''no public key options'')"
  by (simp_all add: sample_setup_answer_def flag_at_def obj_get_def read_text_def text_at_def string_member_def
      opt_or_def str_or_def ceremony_options_def)

abbreviation sample_setup_requests :: "request list" where
  "sample_setup_requests \<equiv> w_http (snd (run_all sample_setup_run (initial_setup sample_env sample_storage 1)
     (sample_world (\<lambda>_. sample_setup_answer))))"

lemmas sample_setup_eval = sample_setup_run_def sample_world_def initial_setup_def run_eval sample_setup_wf refreshStatus_def
  getSetupStatus_def connectBootstrapWallet_def beginBootstrap_def completeBootstrap_def createAdminWithPasskey_def
  sample_accounts sample_chain sample_sign sample_env_def getEthereumProvider_def first_account_def
  setupBootstrapChallenge_def setupBootstrapVerify_def remove_setup_token_def removeItem_def sample_storage_def
  clearBootstrapWallet_def setupPasskeyRegisterBegin_def js_trim_def is_space_def jsonRequest_def json_headers_def bearer_def

lemma sample_setup_log:
  "map (\<lambda>r. (req_url r, map_of (req_headers r) ''authorization'')) sample_setup_requests =
     [(''/setup/status'', None), (''/setup/bootstrap/challenge'', None), (''/setup/bootstrap/verify'', None),
      (''/setup/status'', None), (''/setup/webauthn/register/begin'', Some ''Bearer T''), (''/setup/status'', None)]"
  by (simp add: sample_setup_eval)

lemma sample_setup_net:
  "w_net (snd (run_all sample_setup_run (initial_setup sample_env sample_storage 1)
     (sample_world (\<lambda>_. sample_setup_answer)))) = net_of (\<lambda>_. sample_setup_answer)"
  by (simp add: sample_setup_eval)

theorem setup_tokens_presented_witness:
  "req_url (sample_setup_requests ! 4) = ''/setup/webauthn/register/begin'' \<and>
   setup_token (net_of (\<lambda>_. sample_setup_answer)) (take 4 sample_setup_requests) ''T''"
proof -
  let ?l = sample_setup_requests
  have n: "length ?l = 6" using arg_cong [OF sample_setup_log, of length] by simp
  have h: "req_url (?l ! 4) = ''/setup/webauthn/register/begin''"
    "map_of (req_headers (?l ! 4)) ''authorization'' = Some ''Bearer T''"
    using arg_cong [OF sample_setup_log, of "\<lambda>l. l ! 4"] n by (simp_all add: nth_append)
  have "?l = take 4 ?l @ ?l ! 4 # drop 5 ?l" using id_take_nth_drop [of 4 ?l] n by simp
  then show ?thesis
    using setup_tokens_presented [OF run_all_reachable [OF sample_setup_handlers,
          of "initial_setup sample_env sample_storage 1" "sample_world (\<lambda>_. sample_setup_answer)"],
        where before = "take 4 ?l" and r = "?l ! 4" and a = "''Bearer T''"] h sample_setup_net
    by (simp add: fresh_page_def sample_world_def)
qed

end
