(* ===== verification/Login_Page.thy ===== *)
theory Login_Page
  imports Page_Base
begin

text \<open>
  The sign-in page, \<^verbatim>\<open>web/src/pages/Login.svelte\<close>: the portal and the operator sign in with a wallet
  signature over a server challenge, the operator also with a passkey; a successful login writes the
  session store (\<open>Session\<close>) and navigates (\<open>Router\<close>).  The application state and the router are
  part of the page's state, since they are shared with every handler.
\<close>

section \<open>State\<close>

record challenge =
  ch_id :: js_string
  ch_message :: js_string

record login_page =
  ln_env :: env
  ln_app :: app
  ln_router :: router
  ln_mode :: js_string
  ln_operatorMethod :: js_string
  ln_provider :: "provider option"
  ln_walletAddress :: js_string
  ln_walletChainId :: int
  ln_walletError :: "js_string option"
  ln_portalEmail :: js_string
  ln_portalDisplayName :: js_string
  ln_portalLoading :: bool
  ln_portalError :: "js_string option"
  ln_portalChallenge :: "challenge option"
  ln_operatorUsername :: js_string
  ln_operatorLoading :: bool
  ln_operatorError :: "js_string option"
  ln_operatorChallenge :: "challenge option"
  ln_passkeyUsername :: js_string
  ln_passkeyLoading :: bool
  ln_passkeyError :: "js_string option"
  ln_sessionExpiredAt :: "js_string option"

type_synonym login_segment = "(login_page, world) segment"

definition initial_login :: "env \<Rightarrow> app \<Rightarrow> router \<Rightarrow> int \<Rightarrow> login_page" where
  "initial_login env a r chain =
     \<lparr>ln_env = env, ln_app = a, ln_router = r, ln_mode = ''portal'', ln_operatorMethod = ''wallet'',
      ln_provider = None, ln_walletAddress = [], ln_walletChainId = chain, ln_walletError = None,
      ln_portalEmail = [], ln_portalDisplayName = [], ln_portalLoading = False, ln_portalError = None,
      ln_portalChallenge = None, ln_operatorUsername = [], ln_operatorLoading = False, ln_operatorError = None,
      ln_operatorChallenge = None, ln_passkeyUsername = [], ln_passkeyLoading = False, ln_passkeyError = None,
      ln_sessionExpiredAt = None\<rparr>"

section \<open>Handlers\<close>

definition defaultRouteForRole :: "js_string \<Rightarrow> js_string" where
  "defaultRouteForRole role = (if role = ''admin'' \<or> role = ''operator'' then ''/operator'' else ''/portal'')"

definition goto :: "js_string \<Rightarrow> login_page \<Rightarrow> login_page" where
  "goto path s = s\<lparr>ln_router := navigate path (ln_router s)\<rparr>"

definition challenge_of :: "json \<Rightarrow> js_error + challenge" where
  "challenge_of c =
     (case read_text c ''id'' of
        Inl e \<Rightarrow> Inl e
      | Inr i \<Rightarrow> Inr \<lparr>ch_id = i, ch_message = text_at c ''message''\<rparr>)"

definition connectWallet :: login_segment where
  "connectWallet s =
     (let s = s\<lparr>ln_walletError := None\<rparr>;
          failed = (\<lambda>e s. finish (s\<lparr>ln_walletError := Some (formatError (ln_env s) e)\<rparr>)) in
      case getEthereumProvider (env_ethereum (ln_env s)) of
        None \<Rightarrow> finish (s\<lparr>ln_walletError := Some no_wallet_message\<rparr>)
      | Some p \<Rightarrow>
          try_await (rpc p requestAccounts) failed
            (\<lambda>accounts s.
               try_await (rpc p getChainId) failed
                 (\<lambda>c s. finish (s\<lparr>ln_walletChainId := c\<rparr>))
                 (s\<lparr>ln_walletAddress := first_account accounts\<rparr>))
            (s\<lparr>ln_provider := Some p\<rparr>))"

definition beginPortalChallenge :: login_segment where
  "beginPortalChallenge s =
     (let s = s\<lparr>ln_portalError := None, ln_portalChallenge := None\<rparr>;
          failed = (\<lambda>e s. finish (s\<lparr>ln_portalError := Some (formatError (ln_env s) e), ln_portalLoading := False\<rparr>)) in
      if ln_walletAddress s = [] then finish (s\<lparr>ln_portalError := Some ''Connect your wallet first.''\<rparr>)
      else
        try_await (http (portalWalletChallenge (ln_walletAddress s) (ln_walletChainId s))) failed
          (\<lambda>c s. case challenge_of c of
             Inl e \<Rightarrow> failed e s
           | Inr ch \<Rightarrow> finish (s\<lparr>ln_portalChallenge := Some ch, ln_portalLoading := False\<rparr>))
          (s\<lparr>ln_portalLoading := True\<rparr>))"

text \<open>The session that is stored for the server's answer.\<close>

definition session_json :: "json \<Rightarrow> js_string option \<Rightarrow> json" where
  "session_json sessionData walletAddress =
     obj_lit
       [(''tokenType'', Some (JStr (text_at sessionData ''token_type''))),
        (''token'', Some (JStr (text_at sessionData ''token''))),
        (''expiresAt'', Some (JStr (text_at sessionData ''expires_at''))),
        (''username'', Some (JStr (text_at sessionData ''username''))),
        (''role'', Some (JStr (text_at sessionData ''role''))),
        (''method'', Some (JStr (text_at sessionData ''method''))),
        (''walletAddress'', map_option JStr walletAddress)]"

text \<open>\<open>setSession(...); navigate(defaultRouteForRole(sessionData.role))\<close>\<close>

definition sign_in ::
  "json \<Rightarrow> (login_page \<Rightarrow> js_string option) \<Rightarrow> (js_error \<Rightarrow> login_segment) \<Rightarrow> login_segment \<Rightarrow> login_segment" where
  "sign_in sessionData wallet failed k s =
     (if sessionData = JNull then failed (TypeError ''null has no properties'') s
      else
        (case setSession (env_clock (ln_env s)) (Some (session_json sessionData (wallet s))) (ln_app s) of
           (Some e, a) \<Rightarrow> failed (storage_exception e) (s\<lparr>ln_app := a\<rparr>)
         | (None, a) \<Rightarrow> k (goto (defaultRouteForRole (text_at sessionData ''role'')) (s\<lparr>ln_app := a\<rparr>))))"

definition loginPortalWithWallet :: login_segment where
  "loginPortalWithWallet s =
     (let s = s\<lparr>ln_portalError := None\<rparr>;
          stop = (\<lambda>msg. finish (s\<lparr>ln_portalError := Some msg\<rparr>));
          failed = (\<lambda>e s. finish (s\<lparr>ln_portalError := Some (formatError (ln_env s) e), ln_portalLoading := False\<rparr>)) in
      case ln_provider s of
        None \<Rightarrow> stop ''Connect your wallet first.''
      | Some p \<Rightarrow>
          if ln_walletAddress s = [] then stop ''Wallet address missing.''
          else
            (case ln_portalChallenge s of
               None \<Rightarrow> stop ''Create a challenge first.''
             | Some ch \<Rightarrow>
                 try_await (rpc p (personalSign (ch_message ch) (ln_walletAddress s))) failed
                   (\<lambda>signature s.
                      case ln_portalChallenge s of
                        None \<Rightarrow> failed (TypeError ''null has no properties'') s
                      | Some ch \<Rightarrow>
                          try_await (http (portalWalletLogin (obj_lit
                              [(''challengeId'', Some (JStr (ch_id ch))),
                               (''address'', Some (JStr (ln_walletAddress s))),
                               (''signature'', signature),
                               (''message'', Some (JStr (ch_message ch))),
                               (''email'', text_or_undefined (js_trim (ln_portalEmail s))),
                               (''display_name'', text_or_undefined (js_trim (ln_portalDisplayName s)))])))
                            failed
                            (\<lambda>sessionData. sign_in sessionData (\<lambda>s. Some (ln_walletAddress s)) failed
                               (\<lambda>s. finish (s\<lparr>ln_portalLoading := False\<rparr>)))
                            s)
                   (s\<lparr>ln_portalLoading := True\<rparr>)))"

definition beginOperatorChallenge :: login_segment where
  "beginOperatorChallenge s =
     (let s = s\<lparr>ln_operatorError := None, ln_operatorChallenge := None\<rparr>;
          stop = (\<lambda>msg. finish (s\<lparr>ln_operatorError := Some msg\<rparr>));
          failed = (\<lambda>e s. finish (s\<lparr>ln_operatorError := Some (formatError (ln_env s) e), ln_operatorLoading := False\<rparr>));
          username = js_trim (ln_operatorUsername s) in
      if username = [] then stop ''Username is required.''
      else if ln_walletAddress s = [] then stop ''Connect your wallet first.''
      else
        try_await (http (walletChallenge (obj_lit
            [(''username'', Some (JStr username)), (''address'', Some (JStr (ln_walletAddress s))),
             (''chainId'', Some (jnum (ln_walletChainId s)))]))) failed
          (\<lambda>c s. case challenge_of c of
             Inl e \<Rightarrow> failed e s
           | Inr ch \<Rightarrow> finish (s\<lparr>ln_operatorChallenge := Some ch, ln_operatorLoading := False\<rparr>))
          (s\<lparr>ln_operatorLoading := True\<rparr>))"

definition loginOperatorWithWallet :: login_segment where
  "loginOperatorWithWallet s =
     (let s = s\<lparr>ln_operatorError := None\<rparr>;
          stop = (\<lambda>msg. finish (s\<lparr>ln_operatorError := Some msg\<rparr>));
          failed = (\<lambda>e s. finish (s\<lparr>ln_operatorError := Some (formatError (ln_env s) e), ln_operatorLoading := False\<rparr>)) in
      if js_trim (ln_operatorUsername s) = [] then stop ''Username is required.''
      else
        (case ln_provider s of
           None \<Rightarrow> stop ''Connect your wallet first.''
         | Some p \<Rightarrow>
             if ln_walletAddress s = [] then stop ''Wallet address missing.''
             else
               (case ln_operatorChallenge s of
                  None \<Rightarrow> stop ''Create a challenge first.''
                | Some ch \<Rightarrow>
                    try_await (rpc p (personalSign (ch_message ch) (ln_walletAddress s))) failed
                      (\<lambda>signature s.
                         case ln_operatorChallenge s of
                           None \<Rightarrow> failed (TypeError ''null has no properties'') s
                         | Some ch \<Rightarrow>
                             try_await (http (walletLogin (obj_lit
                                 [(''challengeId'', Some (JStr (ch_id ch))),
                                  (''address'', Some (JStr (ln_walletAddress s))),
                                  (''signature'', signature),
                                  (''message'', Some (JStr (ch_message ch)))])))
                               failed
                               (\<lambda>sessionData. sign_in sessionData (\<lambda>s. Some (ln_walletAddress s)) failed
                                  (\<lambda>s. finish (s\<lparr>ln_operatorLoading := False\<rparr>)))
                               s)
                      (s\<lparr>ln_operatorLoading := True\<rparr>))))"

definition loginOperatorWithPasskey :: login_segment where
  "loginOperatorWithPasskey s =
     (let s = s\<lparr>ln_passkeyError := None\<rparr>;
          stop = (\<lambda>msg. finish (s\<lparr>ln_passkeyError := Some msg\<rparr>));
          give_up = (\<lambda>msg s. finish (s\<lparr>ln_passkeyError := Some msg, ln_passkeyLoading := False\<rparr>));
          failed = (\<lambda>e s. finish (s\<lparr>ln_passkeyError := Some (formatError (ln_env s) e), ln_passkeyLoading := False\<rparr>));
          username = js_trim (ln_passkeyUsername s) in
      if username = [] then stop ''Username is required.''
      else if \<not> env_passkeys (ln_env s) then stop ''Passkeys are not supported in this browser.''
      else
        try_await (http (webAuthnLoginBegin username)) failed
          (\<lambda>started s.
             case ceremony_options toPublicKeyRequestOptions started of
               Inl e \<Rightarrow> failed e s
             | Inr opts \<Rightarrow>
                 try_await (get_credential opts) failed
                   (\<lambda>credential s.
                      case credential of
                        None \<Rightarrow> give_up ''No credential returned.'' s
                      | Some NotPublicKey \<Rightarrow> give_up ''Unexpected credential type.'' s
                      | Some (PublicKey c r) \<Rightarrow>
                          try_await (http (webAuthnLoginFinish (obj_lit
                              [(''username'', Some (JStr username)),
                               (''challenge'', Some (JStr (text_at started ''challenge''))),
                               (''response'', Some (serializeCredentialRequest c r)),
                               (''device_name'', Some (JStr []))])))
                            failed
                            (\<lambda>sessionData. sign_in sessionData (\<lambda>_. None) failed
                               (\<lambda>s. finish (s\<lparr>ln_passkeyLoading := False\<rparr>)))
                            s)
                   s)
          (s\<lparr>ln_passkeyLoading := True\<rparr>))"

definition onMount_login :: login_segment where
  "onMount_login s =
     (case consumeSessionExpiredAt (ln_app s) of
        (t, a) \<Rightarrow>
          (let s = s\<lparr>ln_sessionExpiredAt := t, ln_app := a\<rparr> in
           case app_session a of
             None \<Rightarrow> finish s
           | Some v \<Rightarrow> finish (goto (defaultRouteForRole (text_at v ''role'')) s)))"

definition handleLogout :: login_segment where
  "handleLogout =
     logout_then ln_app (\<lambda>a s. s\<lparr>ln_app := a\<rparr>) (\<lambda>_. finish)
       (\<lambda>s. finish (s\<lparr>ln_portalChallenge := None, ln_operatorChallenge := None\<rparr>))"

definition clearSession_click :: login_segment where
  "clearSession_click s = finish (s\<lparr>ln_app := snd (clearSession (ln_app s))\<rparr>)"

text \<open>What the user types and selects; the clock, the wallet and the browser change by themselves.\<close>

inductive_set login_inputs :: "login_segment set" where
  "(\<lambda>s. finish (s\<lparr>ln_portalEmail := t\<rparr>)) \<in> login_inputs"
| "(\<lambda>s. finish (s\<lparr>ln_portalDisplayName := t\<rparr>)) \<in> login_inputs"
| "(\<lambda>s. finish (s\<lparr>ln_operatorUsername := t\<rparr>)) \<in> login_inputs"
| "(\<lambda>s. finish (s\<lparr>ln_passkeyUsername := t\<rparr>)) \<in> login_inputs"
| "(\<lambda>s. finish (s\<lparr>ln_mode := ''portal'', ln_operatorMethod := ''wallet''\<rparr>)) \<in> login_inputs"
| "(\<lambda>s. finish (s\<lparr>ln_mode := ''operator''\<rparr>)) \<in> login_inputs"
| "(\<lambda>s. finish (s\<lparr>ln_operatorMethod := t\<rparr>)) \<in> login_inputs"
| "(\<lambda>s. finish (s\<lparr>ln_env := e\<rparr>)) \<in> login_inputs"

definition login_handlers :: "login_segment set" where
  "login_handlers =
     {onMount_login, connectWallet, beginPortalChallenge, loginPortalWithWallet, beginOperatorChallenge,
      loginOperatorWithWallet, loginOperatorWithPasskey, handleLogout, clearSession_click} \<union> login_inputs"

end
