(* ===== verification/Login_Correct.thy ===== *)
theory Login_Correct
  imports Login_Page
begin

text \<open>
  The sign-in page under every interleaving: its loading flags always come down, and the session in
  the store is one that the server issued to this page.
\<close>

section \<open>Loading flags\<close>

lemmas login_splits = option.splits if_splits sum.splits prod.splits credential.splits

lemma onMount_login_keeps:
  "owes ln_portalLoading False onMount_login" "owes ln_operatorLoading False onMount_login" "owes ln_passkeyLoading False onMount_login"
  by (auto simp: onMount_login_def Let_def goto_def
      intro!: owes_intros split: login_splits)

lemma connectWallet_keeps:
  "owes ln_portalLoading False connectWallet" "owes ln_operatorLoading False connectWallet" "owes ln_passkeyLoading False connectWallet"
  by (auto simp: connectWallet_def Let_def
      intro!: owes_intros split: login_splits)

lemma beginPortalChallenge_keeps:
  "owes ln_operatorLoading False beginPortalChallenge" "owes ln_passkeyLoading False beginPortalChallenge"
  by (auto simp: beginPortalChallenge_def Let_def
      intro!: owes_intros split: login_splits)

lemma beginPortalChallenge_pays: "owes ln_portalLoading False beginPortalChallenge"
  by (auto simp: beginPortalChallenge_def Let_def
      intro!: pay_intros split: login_splits)

lemma loginPortalWithWallet_keeps:
  "owes ln_operatorLoading False loginPortalWithWallet" "owes ln_passkeyLoading False loginPortalWithWallet"
  by (auto simp: loginPortalWithWallet_def Let_def sign_in_def goto_def
      intro!: owes_intros split: login_splits)

lemma loginPortalWithWallet_pays: "owes ln_portalLoading False loginPortalWithWallet"
  by (auto simp: loginPortalWithWallet_def Let_def sign_in_def goto_def
      intro!: pay_intros split: login_splits)

lemma beginOperatorChallenge_keeps:
  "owes ln_portalLoading False beginOperatorChallenge" "owes ln_passkeyLoading False beginOperatorChallenge"
  by (auto simp: beginOperatorChallenge_def Let_def
      intro!: owes_intros split: login_splits)

lemma beginOperatorChallenge_pays: "owes ln_operatorLoading False beginOperatorChallenge"
  by (auto simp: beginOperatorChallenge_def Let_def
      intro!: pay_intros split: login_splits)

lemma loginOperatorWithWallet_keeps:
  "owes ln_portalLoading False loginOperatorWithWallet" "owes ln_passkeyLoading False loginOperatorWithWallet"
  by (auto simp: loginOperatorWithWallet_def Let_def sign_in_def goto_def
      intro!: owes_intros split: login_splits)

lemma loginOperatorWithWallet_pays: "owes ln_operatorLoading False loginOperatorWithWallet"
  by (auto simp: loginOperatorWithWallet_def Let_def sign_in_def goto_def
      intro!: pay_intros split: login_splits)

lemma loginOperatorWithPasskey_keeps:
  "owes ln_portalLoading False loginOperatorWithPasskey" "owes ln_operatorLoading False loginOperatorWithPasskey"
  by (auto simp: loginOperatorWithPasskey_def Let_def sign_in_def goto_def
      intro!: owes_intros split: login_splits)

lemma loginOperatorWithPasskey_pays: "owes ln_passkeyLoading False loginOperatorWithPasskey"
  by (auto simp: loginOperatorWithPasskey_def Let_def sign_in_def goto_def
      intro!: pay_intros split: login_splits)

lemma handleLogout_keeps:
  "owes ln_portalLoading False handleLogout" "owes ln_operatorLoading False handleLogout" "owes ln_passkeyLoading False handleLogout"
  by (auto simp: handleLogout_def Let_def logout_then_def
      intro!: owes_intros split: login_splits)

lemma clearSession_click_keeps:
  "owes ln_portalLoading False clearSession_click" "owes ln_operatorLoading False clearSession_click" "owes ln_passkeyLoading False clearSession_click"
  by (auto simp: clearSession_click_def Let_def
      intro!: owes_intros split: login_splits)

lemma login_inputs_flags:
  assumes "h \<in> login_inputs"
  shows "owes ln_portalLoading False h" "owes ln_operatorLoading False h" "owes ln_passkeyLoading False h"
  using assms by (cases; auto intro!: owes_intros)+

lemmas login_flag_facts = login_inputs_flags onMount_login_keeps connectWallet_keeps beginPortalChallenge_keeps
  beginPortalChallenge_pays loginPortalWithWallet_keeps loginPortalWithWallet_pays beginOperatorChallenge_keeps
  beginOperatorChallenge_pays loginOperatorWithWallet_keeps loginOperatorWithWallet_pays
  loginOperatorWithPasskey_keeps loginOperatorWithPasskey_pays handleLogout_keeps clearSession_click_keeps

interpretation login_portal: loading_flag login_handlers ln_portalLoading
  by unfold_locales (auto simp: login_handlers_def login_flag_facts)
interpretation login_operator: loading_flag login_handlers ln_operatorLoading
  by unfold_locales (auto simp: login_handlers_def login_flag_facts)
interpretation login_passkey: loading_flag login_handlers ln_passkeyLoading
  by unfold_locales (auto simp: login_handlers_def login_flag_facts)

text \<open>Whatever is clicked and in whatever order the answers arrive, the page comes to rest with
  no spinner on.\<close>

theorem login_page_settles:
  assumes "page_reachable login_handlers (fresh_page (initial_login env a r chain) w) pg"
  shows "settles (\<lambda>q. \<not> ln_portalLoading (pg_state q) \<and> \<not> ln_operatorLoading (pg_state q) \<and> \<not> ln_passkeyLoading (pg_state q)) pg"
proof -
  have start: "\<not> ln_portalLoading (initial_login env a r chain)" "\<not> ln_operatorLoading (initial_login env a r chain)"
    "\<not> ln_passkeyLoading (initial_login env a r chain)"
    by (simp_all add: initial_login_def)
  show ?thesis
    using login_portal.flag_settles [OF assms] login_operator.flag_settles [OF assms] login_passkey.flag_settles [OF assms] start
    by (intro settles_conj) (simp_all add: fresh_page_def)
qed

section \<open>The session was issued\<close>

definition login_urls :: "js_string list" where
  "login_urls = [''/api/v1/portal/auth/wallet/login'', ''/auth/wallet/login'', ''/api/v1/auth/webauthn/login/finish'']"

text \<open>The session \<open>v\<close> carries the token, the user, the role and the expiry of one answer.\<close>

definition session_issued :: "net \<Rightarrow> request list \<Rightarrow> json \<Rightarrow> bool" where
  "session_issued net log v \<longleftrightarrow>
     (\<exists>r d. answered net log r d \<and> req_url r \<in> set login_urls \<and>
        string_member v ''token'' = Some (text_at d ''token'') \<and> string_member v ''username'' = Some (text_at d ''username'') \<and>
        string_member v ''role'' = Some (text_at d ''role'') \<and> string_member v ''expiresAt'' = Some (text_at d ''expires_at''))"

definition login_state_ok :: "login_page \<Rightarrow> net \<Rightarrow> request list \<Rightarrow> bool" where
  "login_state_ok s net log \<longleftrightarrow> pred_option (session_issued net log) (app_session (ln_app s))"

text \<open>The only authorized request is the logout of such a session.\<close>

definition login_request_ok :: "net \<Rightarrow> request list \<Rightarrow> request \<Rightarrow> bool" where
  "login_request_ok net log r \<longleftrightarrow>
     (case map_of (req_headers r) ''authorization'' of
        None \<Rightarrow> True
      | Some b \<Rightarrow> req_url r = ''/api/v1/auth/logout'' \<and>
          (\<exists>v t. session_issued net log v \<and> string_member v ''token'' = Some t \<and> b = ''Bearer '' @ t))"

lemma session_issued_later: "session_issued net log v \<Longrightarrow> session_issued net (log @ l) v"
  unfolding session_issued_def using answered_later by fast

interpretation login_requests: request_discipline login_state_ok login_request_ok
  by unfold_locales (auto simp: login_state_ok_def session_issued_later elim!: option.pred_mono_strong)

abbreviation login_inv :: "login_page \<Rightarrow> world \<Rightarrow> bool" where
  "login_inv \<equiv> page_inv login_state_ok login_request_ok"

definition app_ok :: "app \<Rightarrow> world \<Rightarrow> bool" where
  "app_ok a w \<longleftrightarrow> pred_option (session_issued (w_net w) (w_http w)) (app_session a)"

lemma login_inv_iff: "login_inv s w \<longleftrightarrow> app_ok (ln_app s) w \<and> requests_ok login_request_ok (w_net w) (w_http w)"
  by (simp add: page_inv_def login_state_ok_def app_ok_def)

lemma setSession_session: "setSession clk (Some v) a = (e, a') \<Longrightarrow> app_session a' = None \<or> app_session a' = Some v"
  by (auto simp: setSession_def session_set_def on_session_value_def set_null_def on_session_null_def Let_def
      removeSafeAppSessionHandoff_def clearPortalFleetState_def split: if_splits sum.splits)

lemma consume_session: "consumeSessionExpiredAt a = (t, a') \<Longrightarrow> app_session a' = app_session a"
  by (auto simp: consumeSessionExpiredAt_def split: if_splits sum.splits)

lemma session_json_members:
  "string_member (session_json d wa) ''token'' = Some (text_at d ''token'')"
  "string_member (session_json d wa) ''username'' = Some (text_at d ''username'')"
  "string_member (session_json d wa) ''role'' = Some (text_at d ''role'')"
  "string_member (session_json d wa) ''expiresAt'' = Some (text_at d ''expires_at'')"
  by (cases wa; simp add: session_json_def obj_lit_def string_member_def obj_get_def)+

lemma app_ok_set:
  assumes "setSession clk (Some (session_json d wa)) a = (e, a')"
    and "answered (w_net w) (w_http w) \<lparr>req_method = m, req_url = url, req_headers = h, req_body = b\<rparr> d" and "later w w'"
    and "url \<in> set login_urls"
  shows "app_ok a' w'"
proof -
  have "answered (w_net w') (w_http w') \<lparr>req_method = m, req_url = url, req_headers = h, req_body = b\<rparr> d"
    using assms(2,3) by (auto simp: later_def answered_later)
  then have "session_issued (w_net w') (w_http w') (session_json d wa)"
    unfolding session_issued_def using assms(4) session_json_members by (metis request.select_convs(2))
  then show ?thesis using setSession_session [OF assms(1)] by (auto simp: app_ok_def)
qed

lemma app_ok_none: "app_session a = None \<Longrightarrow> app_ok a w"
  by (simp add: app_ok_def)

lemma app_ok_same: "app_session a = app_session a' \<Longrightarrow> app_ok a w \<Longrightarrow> app_ok a' w"
  by (simp add: app_ok_def)

lemma open_login_request: "map_of (req_headers r) ''authorization'' = None \<Longrightarrow> login_request_ok net log r"
  by (simp add: login_request_ok_def)

lemma logout_request:
  "app_ok a w \<Longrightarrow> app_session a = Some v \<Longrightarrow> string_member v ''token'' = Some t \<Longrightarrow>
     login_request_ok (w_net w) (w_http w) \<lparr>req_method = m, req_url = ''/api/v1/auth/logout'', req_headers = bearer t, req_body = b\<rparr>"
  by (auto simp: login_request_ok_def bearer_def app_ok_def)

lemma goto_app [simp]: "ln_app (goto p s) = ln_app s"
  by (simp add: goto_def)

lemmas login_guards = login_requests.guarded_by login_requests.guarded_local [where op = "rpc p c" for p c]
  login_requests.guarded_local [where op = "get_credential c" for c] login_requests.guarded_http open_login_request safe_finish

lemmas login_api = api_call_def jsonRequest_def json_headers_def walletChallenge_def walletLogin_def webAuthnLoginBegin_def
  webAuthnLoginFinish_def portalWalletChallenge_def portalWalletLogin_def Let_def

lemma login_urls_simps [simp]:
  "''/api/v1/portal/auth/wallet/login'' \<in> set login_urls" "''/auth/wallet/login'' \<in> set login_urls"
  "''/api/v1/auth/webauthn/login/finish'' \<in> set login_urls"
  by (simp_all add: login_urls_def)

lemma sign_in_guarded:
  assumes "login_inv s w" and "answered (w_net w0) (w_http w0) \<lparr>req_method = m, req_url = url, req_headers = h, req_body = b\<rparr> d"
    and "later w0 w" and "url \<in> set login_urls"
    and "\<And>e w. login_requests.guarded w (failed e)" and "\<And>w. login_requests.guarded w k"
  shows "login_requests.guarded_result w (sign_in d wa failed k s)"
proof -
  have "app_ok a w" if "setSession clk (Some (session_json d (wa s))) x = (e, a)" for clk x e a
    using app_ok_set [OF that assms(2,3,4)] .
  then show ?thesis
    using assms(1) login_requests.guardedD [OF assms(5)] login_requests.guardedD [OF assms(6)]
    by (auto simp: sign_in_def login_inv_iff split: prod.split option.split)
qed

lemma connectWallet_guarded: "login_requests.guarded w connectWallet"
  unfolding connectWallet_def login_api
  by (auto simp: login_inv_iff intro!: login_guards split: option.splits sum.splits)

lemma beginPortalChallenge_guarded: "login_requests.guarded w beginPortalChallenge"
  unfolding beginPortalChallenge_def login_api
  by (auto simp: login_inv_iff intro!: login_guards split: option.splits sum.splits)

lemma beginOperatorChallenge_guarded: "login_requests.guarded w beginOperatorChallenge"
  unfolding beginOperatorChallenge_def login_api
  by (auto simp: login_inv_iff intro!: login_guards split: option.splits sum.splits)

lemma loginPortalWithWallet_guarded: "login_requests.guarded w loginPortalWithWallet"
  unfolding loginPortalWithWallet_def login_api
  by (auto simp: login_inv_iff intro!: login_guards split: option.splits sum.splits credential.splits)
    (erule sign_in_guarded [rotated]; auto simp: login_inv_iff intro!: login_guards)+

lemma loginOperatorWithWallet_guarded: "login_requests.guarded w loginOperatorWithWallet"
  unfolding loginOperatorWithWallet_def login_api
  by (auto simp: login_inv_iff intro!: login_guards split: option.splits sum.splits credential.splits)
    (erule sign_in_guarded [rotated]; auto simp: login_inv_iff intro!: login_guards)+

lemma loginOperatorWithPasskey_guarded: "login_requests.guarded w loginOperatorWithPasskey"
  unfolding loginOperatorWithPasskey_def login_api
  by (auto simp: login_inv_iff intro!: login_guards split: option.splits sum.splits credential.splits)
    (erule sign_in_guarded [rotated]; auto simp: login_inv_iff intro!: login_guards)+

lemma handleLogout_guarded: "login_requests.guarded w handleLogout"
  unfolding handleLogout_def logout_then_def authLogout_def api_call_def
  by (auto simp: login_inv_iff Let_def truthy_def app_ok_none dest!: clearSession_session
      intro!: login_requests.guarded_by login_requests.guarded_http safe_finish logout_request split: option.splits prod.splits)

lemma other_guarded: "login_requests.guarded w onMount_login" "login_requests.guarded w clearSession_click"
  unfolding onMount_login_def clearSession_click_def
  by (auto simp: login_inv_iff Let_def intro!: login_requests.guarded_by safe_finish split: prod.splits option.splits)
    (auto simp: app_ok_def clearSession_snd dest: consume_session)

lemma login_inputs_guarded: "h \<in> login_inputs \<Longrightarrow> login_requests.guarded w h"
  by (erule login_inputs.cases) (auto simp: login_inv_iff intro!: login_requests.guarded_by safe_finish)

interpretation login_invariant: page_invariant login_handlers later login_inv
  by unfold_locales
    (auto simp: login_handlers_def connectWallet_guarded beginPortalChallenge_guarded beginOperatorChallenge_guarded
      loginPortalWithWallet_guarded loginOperatorWithWallet_guarded loginOperatorWithPasskey_guarded handleLogout_guarded
      other_guarded login_inputs_guarded intro: later_trans)

text \<open>C21. Nobody is signed in but by the server.  However the clicks, logouts and answers interleave on a
  page that was opened without a session, a session in the store carries the token, the
  user, the role and the expiry of one answer of a login endpoint to a request of this page; and a request
  of the page that carries an authorization header is a logout with the token of such a session.\<close>

theorem login_session_issued:
  assumes "page_reachable login_handlers (fresh_page (initial_login env a rt chain) w) pg"
    and "app_session a = None" and "w_http w = []"
  shows "(\<forall>v. app_session (ln_app (pg_state pg)) = Some v \<longrightarrow>
       session_issued (w_net (pg_world pg)) (w_http (pg_world pg)) v) \<and>
     (\<forall>before r after b. w_http (pg_world pg) = before @ r # after \<longrightarrow> map_of (req_headers r) ''authorization'' = Some b \<longrightarrow>
       req_url r = ''/api/v1/auth/logout'' \<and>
       (\<exists>v t. session_issued (w_net (pg_world pg)) before v \<and> string_member v ''token'' = Some t \<and> b = ''Bearer '' @ t))"
proof -
  have "login_inv (pg_state pg) (pg_world pg)"
    by (rule login_invariant.reachable_invariant [OF assms(1)])
      (simp_all add: login_inv_iff fresh_page_def initial_login_def app_ok_def assms(2,3))
  then have s: "app_ok (ln_app (pg_state pg)) (pg_world pg)"
    and l: "requests_ok login_request_ok (w_net (pg_world pg)) (w_http (pg_world pg))"
    by (simp_all add: login_inv_iff)
  have "req_url r = ''/api/v1/auth/logout'' \<and>
      (\<exists>v t. session_issued (w_net (pg_world pg)) before v \<and> string_member v ''token'' = Some t \<and> b = ''Bearer '' @ t)"
    if "w_http (pg_world pg) = before @ r # after" "map_of (req_headers r) ''authorization'' = Some b" for before r after b
  proof -
    have "login_request_ok (w_net (pg_world pg)) before r" using l that(1) unfolding requests_ok_def by blast
    then show ?thesis using that(2) by (simp add: login_request_ok_def)
  qed
  moreover have "session_issued (w_net (pg_world pg)) (w_http (pg_world pg)) v"
    if "app_session (ln_app (pg_state pg)) = Some v" for v using s that by (simp add: app_ok_def)
  ultimately show ?thesis by blast
qed

definition sample_login_answer :: json where
  "sample_login_answer = JObj [(''id'', JStr ''c1''), (''message'', JStr ''sign me''), (''token'', JStr ''T''),
     (''username'', JStr ''alice''), (''role'', JStr ''customer''), (''expires_at'', JStr ''9'')]"

definition sample_login :: login_page where
  "sample_login = initial_login sample_env sample_app (load_router ''/login'' sample_storage) 1"

lemma sample_login_wf: "wf_json sample_login_answer"
  by (simp add: sample_login_answer_def)

lemma sample_login_members [simp]:
  "sample_login_answer \<noteq> JNull" "challenge_of sample_login_answer = Inr \<lparr>ch_id = ''c1'', ch_message = ''sign me''\<rparr>"
  "text_at sample_login_answer ''token'' = ''T''" "text_at sample_login_answer ''role'' = ''customer''"
  "text_at sample_login_answer ''username'' = ''alice''" "text_at sample_login_answer ''expires_at'' = ''9''"
  by (simp_all add: sample_login_answer_def challenge_of_def obj_get_def read_text_def text_at_def string_member_def
      opt_or_def str_or_def)

lemmas sample_login_eval = sample_login_def initial_login_def sample_world_def run_eval sample_login_wf connectWallet_def
  beginPortalChallenge_def loginPortalWithWallet_def sample_accounts sample_chain sample_sign sample_env_def
  getEthereumProvider_def first_account_def portalWalletChallenge_def portalWalletLogin_def sign_in_def

lemma sample_sign_in:
  "setSession (sample_clock 0) (Some (session_json sample_login_answer wa)) sample_app =
     (None, sample_app\<lparr>app_session := Some (session_json sample_login_answer wa), app_sessionStorage :=
        sample_storage\<lparr>ws_items := [SESSION_STORAGE_KEY \<mapsto> json_stringify (session_json sample_login_answer wa)]\<rparr>\<rparr>)"
proof -
  have "digits_value 10 0 ''9'' = Some 9" by code_simp
  then have "\<not> isExpired (sample_clock 0) (session_text (session_json sample_login_answer wa) ''expiresAt'')"
    by (simp add: isExpired_def sample_clock_def session_text_def session_json_members nullish_def)
  then show ?thesis
    by (simp add: setSession_def session_set_def on_session_value_def sample_app_def setItem_def sample_storage_def)
qed

lemma sample_login_state:
  "app_session (ln_app (fst (run_all [connectWallet, beginPortalChallenge, loginPortalWithWallet] sample_login
     (sample_world (\<lambda>_. sample_login_answer))))) = Some (session_json sample_login_answer (Some ''0xA1''))"
  by (simp add: sample_login_eval sample_sign_in)

theorem login_session_issued_witness:
  "\<exists>s w. run_all [connectWallet, beginPortalChallenge, loginPortalWithWallet] sample_login
       (sample_world (\<lambda>_. sample_login_answer)) = (s, w) \<and>
     session_issued (w_net w) (w_http w) (session_json sample_login_answer (Some ''0xA1''))"
proof -
  let ?hs = "[connectWallet, beginPortalChallenge, loginPortalWithWallet]"
  let ?r = "run_all ?hs sample_login (sample_world (\<lambda>_. sample_login_answer))"
  have "set ?hs \<subseteq> login_handlers" by (simp add: login_handlers_def)
  from run_all_reachable [OF this, of sample_login "sample_world (\<lambda>_. sample_login_answer)"]
  have "session_issued (w_net (snd ?r)) (w_http (snd ?r)) (session_json sample_login_answer (Some ''0xA1''))"
    using login_session_issued [of sample_env sample_app "load_router ''/login'' sample_storage" 1] sample_login_state
    unfolding sample_login_def by (fastforce simp: fresh_page_def sample_world_def sample_app_def)
  then show ?thesis by (metis surjective_pairing)
qed

end
