(* ===== verification/Mint_Page.thy ===== *)
theory Mint_Page
  imports Page_Base
begin

text \<open>
  The page on which an agent describes itself, \<^verbatim>\<open>web/src/pages/portal/SoulMintConversation.svelte\<close>: the
  owner talks to a model over an event stream, completes the conversation to obtain declarations,
  and publishes them with a wallet signature for each boundary and one over the whole.

  The events of the stream are read chunk by chunk; each read is an await, at which other handlers may
  run.  The digest function is a parameter of the component's environment (\<open>keccak_256\<close>).
\<close>

section \<open>Parsing\<close>

datatype mint_role = User | Assistant

record MintMessage =
  mm_role :: mint_role
  mm_content :: js_string

record ProducedBoundary =
  pb_id :: js_string
  pb_statement :: js_string

text \<open>\<open>String(value.member || '')\<close> of an object, an array or a string.\<close>

definition member_text :: "json \<Rightarrow> js_string \<Rightarrow> js_string" where
  "member_text v k = (let m = obj_get v k in if json_truthy m then js_to_string (the m) else [])"

definition is_object :: "json \<Rightarrow> bool" where
  "is_object v = (case v of JObj _ \<Rightarrow> True | JArr _ \<Rightarrow> True | _ \<Rightarrow> False)"

definition mint_message :: "json \<Rightarrow> MintMessage option" where
  "mint_message item =
     (if \<not> is_object item then None
      else
        (let role = toLowerCase (member_text item ''role'');
             content = member_text item ''content'' in
         if content = [] then None
         else if role = ''user'' then Some \<lparr>mm_role = User, mm_content = content\<rparr>
         else if role = ''assistant'' then Some \<lparr>mm_role = Assistant, mm_content = content\<rparr>
         else None))"

definition parseMintMessages :: "js_string \<Rightarrow> MintMessage list" where
  "parseMintMessages raw =
     (if raw = [] then []
      else (case json_parse raw of Some (JArr items) \<Rightarrow> List.map_filter mint_message items | _ \<Rightarrow> []))"

definition parseProducedDeclarations :: "js_string \<Rightarrow> json" where
  "parseProducedDeclarations raw =
     (if raw = [] then JNull else (case json_parse raw of None \<Rightarrow> JStr raw | Some v \<Rightarrow> v))"

definition produced_boundary :: "json \<Rightarrow> ProducedBoundary option" where
  "produced_boundary item =
     (if \<not> is_object item then None
      else
        (let i = js_trim (member_text item ''id''); statement = js_trim (member_text item ''statement'') in
         if i \<noteq> [] \<and> statement \<noteq> [] then Some \<lparr>pb_id = i, pb_statement = statement\<rparr> else None))"

definition extractProducedBoundaries :: "json \<Rightarrow> ProducedBoundary list" where
  "extractProducedBoundaries value =
     (if \<not> is_object value then []
      else (case obj_get value ''boundaries'' of Some (JArr items) \<Rightarrow> List.map_filter produced_boundary items | _ \<Rightarrow> []))"

text \<open>\<open>trimEnd\<close> and the lines of an event.\<close>

definition trim_end :: "js_string \<Rightarrow> js_string" where
  "trim_end s = rev (dropWhile is_space (rev s))"

fun sse_lines :: "js_string list \<Rightarrow> js_string \<times> js_string list \<Rightarrow> js_string \<times> js_string list" where
  "sse_lines [] acc = acc"
| "sse_lines (line # ls) (eventName, dataLines) =
     (if startsWith line ''event:'' then sse_lines ls (str_or (js_trim (drop 6 line)) ''message'', dataLines)
      else if startsWith line ''data:'' then sse_lines ls (eventName, dataLines @ [js_trim (drop 5 line)])
      else sse_lines ls (eventName, dataLines))"

record sse_event =
  ev_name :: js_string
  ev_data :: json

definition parseSseEvent :: "js_string \<Rightarrow> sse_event option" where
  "parseSseEvent raw =
     (let ls = filter (\<lambda>l. l \<noteq> []) (map trim_end (split_on newline raw));
          (eventName, dataLines) = sse_lines ls (''message'', []);
          dataStr = js_trim (join [newline] dataLines) in
      if dataStr = [] then None
      else Some \<lparr>ev_name = eventName,
        ev_data = (case json_parse dataStr of None \<Rightarrow> JStr dataStr | Some v \<Rightarrow> v)\<rparr>)"

text \<open>The error text of an event; \<open>undefined\<close> is \<open>None\<close>.\<close>

fun parseSseErrorMessage :: "json \<Rightarrow> js_string" and nested_message :: "js_string \<Rightarrow> (js_string \<times> json) list \<Rightarrow> js_string" where
  "parseSseErrorMessage (JStr s) = str_or (js_trim s) ''stream error''"
| "parseSseErrorMessage JNull = ''stream error''"
| "parseSseErrorMessage (JBool b) = (if b then ''true'' else ''false'')"
| "parseSseErrorMessage (JNum n) = n"
| "parseSseErrorMessage (JArr xs) = json_stringify (JArr xs)"
| "parseSseErrorMessage (JObj kvs) =
     (let m = nested_message ''message'' kvs; e = nested_message ''error'' kvs; d = nested_message ''detail'' kvs;
          c = js_trim (text_at (JObj kvs) ''code'') in
      if m \<noteq> ''stream error'' then m
      else if e \<noteq> ''stream error'' then e
      else if d \<noteq> ''stream error'' then d
      else if c \<noteq> [] then c
      else if kvs = [] then ''stream error'' else json_stringify (JObj kvs))"
| "nested_message key [] = ''stream error''"
| "nested_message key ((k, v) # kvs) = (if k = key then parseSseErrorMessage v else nested_message key kvs)"

section \<open>The event stream\<close>

text \<open>\<open>indexOf\<close> of an empty line: what is before it and what is after it.\<close>

fun next_block :: "js_string \<Rightarrow> (js_string \<times> js_string) option" where
  "next_block (a # b # s) =
     (if a = newline \<and> b = newline then Some ([], s)
      else map_option (\<lambda>(x, r). (a # x, r)) (next_block (b # s)))"
| "next_block _ = None"

lemma next_block_shorter: "next_block s = Some (raw, rest) \<Longrightarrow> length rest < length s"
  by (induction s arbitrary: raw rest rule: next_block.induct) (fastforce split: if_splits)+

function split_blocks :: "js_string \<Rightarrow> js_string list \<times> js_string" where
  "split_blocks buffer =
     (case next_block buffer of
        None \<Rightarrow> ([], buffer)
      | Some (raw, rest) \<Rightarrow> (case split_blocks rest of (bs, r) \<Rightarrow> (raw # bs, r)))"
  by auto
termination
  by (relation "measure length") (auto dest: next_block_shorter)

declare split_blocks.simps [simp del]

section \<open>State\<close>

record mint_page =
  mc_env :: env
  mc_app :: app
  mc_router :: router
  mc_keccak :: "nat list \<Rightarrow> nat list"
  mc_token :: js_string
  mc_agentId :: js_string
  mc_loading :: bool
  mc_errorMessage :: "js_string option"
  mc_agent :: json
  mc_conversations :: "json list"
  mc_mintModel :: js_string
  mc_conversationId :: js_string
  mc_conversation :: json
  mc_messages :: "MintMessage list"
  mc_userMessage :: js_string
  mc_assistantPartial :: js_string
  mc_streaming :: bool
  mc_error :: "js_string option"
  mc_completeLoading :: bool
  mc_completeError :: "js_string option"
  mc_declarations :: json
  mc_finalizeLoading :: bool
  mc_finalizeError :: "js_string option"
  mc_finalizeBegin :: json
  mc_finalizeResult :: json

type_synonym mint_segment = "(mint_page, world) segment"

definition initial_mint :: "env \<Rightarrow> app \<Rightarrow> router \<Rightarrow> (nat list \<Rightarrow> nat list) \<Rightarrow> js_string \<Rightarrow> js_string \<Rightarrow> mint_page" where
  "initial_mint env a r keccak token agentId =
     \<lparr>mc_env = env, mc_app = a, mc_router = r, mc_keccak = keccak, mc_token = token, mc_agentId = agentId,
      mc_loading = False, mc_errorMessage = None, mc_agent = JNull, mc_conversations = [],
      mc_mintModel = ''gpt-5.6-luna'', mc_conversationId = [], mc_conversation = JNull, mc_messages = [],
      mc_userMessage = [], mc_assistantPartial = [], mc_streaming = False, mc_error = None,
      mc_completeLoading = False, mc_completeError = None, mc_declarations = JNull,
      mc_finalizeLoading = False, mc_finalizeError = None, mc_finalizeBegin = JNull, mc_finalizeResult = JNull\<rparr>"

text \<open>\<open>agent?.agent\<close> and its published version.\<close>

definition current_agent :: "mint_page \<Rightarrow> json" where
  "current_agent s = nullish (obj_get (mc_agent s) ''agent'') JNull"

definition positive_number :: "json option \<Rightarrow> bool" where
  "positive_number v = (case v of Some (JNum n) \<Rightarrow> \<not> zero_number n \<and> \<not> startsWith n ''-'' | _ \<Rightarrow> False)"

definition published :: "mint_page \<Rightarrow> bool" where
  "published s = positive_number (obj_get (current_agent s) ''self_description_version'')"

section \<open>Loading\<close>

definition resetMintConversation :: "mint_page \<Rightarrow> mint_page" where
  "resetMintConversation s =
     s\<lparr>mc_conversationId := [], mc_conversation := JNull, mc_messages := [], mc_userMessage := [],
       mc_assistantPartial := [], mc_error := None, mc_completeError := None, mc_finalizeError := None,
       mc_finalizeBegin := JNull, mc_finalizeResult := JNull, mc_declarations := JNull\<rparr>"

text \<open>\<open>await logout(); navigate('/login');\<close> and then what follows.\<close>

definition sign_out :: "(js_error \<Rightarrow> mint_segment) \<Rightarrow> mint_segment \<Rightarrow> mint_segment" where
  "sign_out catch k =
     logout_then mc_app (\<lambda>a s. s\<lparr>mc_app := a\<rparr>) catch (\<lambda>s. k (s\<lparr>mc_router := navigate ''/login'' (mc_router s)\<rparr>))"

definition refreshMintConversation :: "js_string \<Rightarrow> (js_error \<Rightarrow> mint_segment) \<Rightarrow> mint_segment \<Rightarrow> mint_segment" where
  "refreshMintConversation conversationId catch k s =
     (let failed = (\<lambda>e s. if unauthorized e then sign_out catch k s
            else k (s\<lparr>mc_error := Some (formatError (mc_env s) e)\<rparr>)) in
      try_await (http (soulAgentGetMintConversation (mc_token s) (mc_agentId s) conversationId)) failed
        (\<lambda>c s.
           let s = s\<lparr>mc_conversation := c, mc_conversationId := conversationId\<rparr> in
           case read_text c ''messages'' of
             Inl e \<Rightarrow> failed e s
           | Inr messages \<Rightarrow> k (s\<lparr>mc_messages := parseMintMessages messages,
               mc_declarations := parseProducedDeclarations (text_at c ''produced_declarations'')\<rparr>))
        (s\<lparr>mc_error := None\<rparr>))"

definition find_status :: "js_string \<Rightarrow> json list \<Rightarrow> json option" where
  "find_status status = find (\<lambda>item. string_member item ''status'' = Some status)"

definition next_conversation :: "json list \<Rightarrow> js_string" where
  "next_conversation cs =
     (case find_status ''in_progress'' cs of
        Some c \<Rightarrow> text_at c ''conversation_id''
      | None \<Rightarrow> (case find_status ''completed'' cs of Some c \<Rightarrow> text_at c ''conversation_id'' | None \<Rightarrow> []))"

text \<open>An async function called by others: what it throws (when \<open>logout\<close> is rejected) goes to \<open>catch\<close>.\<close>

definition load :: "(js_error \<Rightarrow> mint_segment) \<Rightarrow> mint_segment \<Rightarrow> mint_segment" where
  "load catch k s =
     (let throw = (\<lambda>e s. catch e (s\<lparr>mc_loading := False\<rparr>));
          fin = (\<lambda>s. k (s\<lparr>mc_loading := False\<rparr>));
          failed = (\<lambda>e s. if unauthorized e then sign_out throw fin s
            else fin (s\<lparr>mc_errorMessage := Some (formatError (mc_env s) e)\<rparr>)) in
      try_await (http_all (soulPublicGetAgent (mc_agentId s))
            (soulAgentListMintConversations (mc_token s) (mc_agentId s) (Some 20))) failed
        (\<lambda>(agentRes, convRes) s.
           let s = s\<lparr>mc_agent := agentRes\<rparr> in
           if convRes = JNull then failed (TypeError ''null has no properties'') s
           else
             (let cs = (case obj_get convRes ''conversations'' of Some (JArr xs) \<Rightarrow> xs | _ \<Rightarrow> []);
                  s = s\<lparr>mc_conversations := cs\<rparr> in
              if next_conversation cs \<noteq> []
              then refreshMintConversation (next_conversation cs) failed fin s
              else fin (resetMintConversation s)))
        (s\<lparr>mc_errorMessage := None, mc_error := None, mc_loading := True\<rparr>))"

section \<open>Sending a message\<close>

text \<open>Reading a member of an event's data.\<close>

definition event_text :: "json \<Rightarrow> js_string \<Rightarrow> js_error + js_string" where
  "event_text data k = (if data = JNull then Inl (TypeError ''null has no properties'') else Inr (member_text data k))"

text \<open>One event: \<open>k\<close> continues, told whether the stream has failed.\<close>

definition handle_event ::
  "sse_event \<Rightarrow> bool \<Rightarrow> (js_error \<Rightarrow> mint_segment) \<Rightarrow> (bool \<Rightarrow> mint_segment) \<Rightarrow> mint_segment" where
  "handle_event ev streamFailed catch k s =
     (if ev_name ev = ''conversation_start'' then
        (case event_text (ev_data ev) ''conversation_id'' of
           Inl e \<Rightarrow> catch e s
         | Inr t \<Rightarrow> k streamFailed (if js_trim t \<noteq> [] then s\<lparr>mc_conversationId := js_trim t\<rparr> else s))
      else if ev_name ev = ''delta'' then
        (case event_text (ev_data ev) ''text'' of
           Inl e \<Rightarrow> catch e s
         | Inr t \<Rightarrow> k streamFailed (s\<lparr>mc_assistantPartial := mc_assistantPartial s @ t\<rparr>))
      else if ev_name ev = ''conversation_done'' then
        (case event_text (ev_data ev) ''full_response'' of
           Inl e \<Rightarrow> catch e s
         | Inr full \<Rightarrow>
             (let assistantText = str_or full (mc_assistantPartial s);
                  s = (if assistantText \<noteq> []
                       then s\<lparr>mc_messages := mc_messages s @ [\<lparr>mm_role = Assistant, mm_content = assistantText\<rparr>]\<rparr> else s);
                  s = s\<lparr>mc_assistantPartial := []\<rparr> in
              if mc_conversationId s \<noteq> [] then refreshMintConversation (mc_conversationId s) catch (k streamFailed) s
              else k streamFailed s))
      else if ev_name ev = ''error'' then
        k True (s\<lparr>mc_error := Some (parseSseErrorMessage (ev_data ev))\<rparr>)
      else k streamFailed s)"

primrec handle_blocks ::
  "js_string list \<Rightarrow> bool \<Rightarrow> (js_error \<Rightarrow> mint_segment) \<Rightarrow> (bool \<Rightarrow> mint_segment) \<Rightarrow> mint_segment" where
  "handle_blocks [] streamFailed catch k = k streamFailed"
| "handle_blocks (raw # bs) streamFailed catch k =
     (case parseSseEvent raw of
        None \<Rightarrow> handle_blocks bs streamFailed catch k
      | Some ev \<Rightarrow> handle_event ev streamFailed catch (\<lambda>f. handle_blocks bs f catch k))"

text \<open>The loop over the reads: the buffer and the failure mark are its local variables.\<close>

primrec read_loop ::
  "js_string list \<Rightarrow> js_error option \<Rightarrow> (js_error \<Rightarrow> mint_segment) \<Rightarrow> (bool \<Rightarrow> mint_segment) \<Rightarrow> js_string \<Rightarrow> bool \<Rightarrow> mint_segment" where
  "read_loop [] ending catch k buffer streamFailed =
     await (\<lambda>w. (ending, w)) (\<lambda>e. case e of None \<Rightarrow> k streamFailed | Some e \<Rightarrow> catch e)"
| "read_loop (chunk # chunks) ending catch k buffer streamFailed =
     await (\<lambda>w. (chunk, w))
       (\<lambda>value. case split_blocks (buffer @ value) of
          (blocks, rest) \<Rightarrow> handle_blocks blocks streamFailed catch (read_loop chunks ending catch k rest))"

definition sendMintMessage :: mint_segment where
  "sendMintMessage s =
     (let s = s\<lparr>mc_error := None, mc_completeError := None, mc_finalizeError := None\<rparr>;
          msg = js_trim (mc_userMessage s);
          fin = (\<lambda>s. finish (s\<lparr>mc_streaming := False\<rparr>));
          failed = (\<lambda>e s. fin (s\<lparr>mc_error := Some (formatError (mc_env s) e)\<rparr>)) in
      if published s then finish (s\<lparr>mc_error := Some (''This agent already published its self-description. ''
        @ ''Use registration updates for later edits.'')\<rparr>)
      else if msg = [] then finish (s\<lparr>mc_error := Some ''Message is required.''\<rparr>)
      else
        (let s = s\<lparr>mc_userMessage := [], mc_messages := mc_messages s @ [\<lparr>mm_role = User, mm_content = msg\<rparr>],
                   mc_assistantPartial := [], mc_streaming := True\<rparr> in
         await (open_stream (soulStartAgentMintConversationSSE (mc_token s) (mc_agentId s) (obj_lit
             [(''model'', if mc_conversationId s \<noteq> [] then None else Some (JStr (mc_mintModel s))),
              (''conversation_id'', text_or_undefined (mc_conversationId s)),
              (''message'', Some (JStr msg))])))
           (\<lambda>(chunks, ending). read_loop chunks ending failed
              (\<lambda>streamFailed. if streamFailed then fin else load failed fin) [] False)
           s))"

section \<open>Completing and publishing\<close>

definition completeMintConversation :: mint_segment where
  "completeMintConversation s =
     (let s = s\<lparr>mc_completeError := None\<rparr>;
          fin = (\<lambda>s. finish (s\<lparr>mc_completeLoading := False\<rparr>));
          failed = (\<lambda>e s. if unauthorized e then sign_out (\<lambda>_. fin) fin s
            else fin (s\<lparr>mc_completeError := Some (formatError (mc_env s) e)\<rparr>)) in
      if mc_conversationId s = [] then finish (s\<lparr>mc_completeError := Some ''No conversation in progress.''\<rparr>)
      else
        try_await (http (soulAgentCompleteMintConversation (mc_token s) (mc_agentId s) (mc_conversationId s) None)) failed
          (\<lambda>c s.
             let s = s\<lparr>mc_conversation := c\<rparr> in
             case read_text c ''produced_declarations'' of
               Inl e \<Rightarrow> failed e s
             | Inr raw \<Rightarrow> load failed fin (s\<lparr>mc_declarations := parseProducedDeclarations raw\<rparr>))
          (s\<lparr>mc_completeLoading := True\<rparr>))"

text \<open>\<open>boundarySignatures[boundary.id] = await personalSign(...)\<close> for each boundary in turn.\<close>

primrec sign_boundaries ::
  "provider \<Rightarrow> js_string \<Rightarrow> ProducedBoundary list \<Rightarrow> (js_error \<Rightarrow> mint_segment)
     \<Rightarrow> ((js_string \<times> json option) list \<Rightarrow> mint_segment) \<Rightarrow> (js_string \<times> json option) list \<Rightarrow> mint_segment" where
  "sign_boundaries p wallet [] catch k sigs = k sigs"
| "sign_boundaries p wallet (b # bs) catch k sigs =
     (\<lambda>s. try_await (rpc p (personalSign (keccak256Utf8Hex (mc_keccak s) (pb_statement b)) wallet)) catch
        (\<lambda>sig. sign_boundaries p wallet bs catch k (prop_set sigs (pb_id b) sig)) s)"

text \<open>The \<open>finally\<close> and \<open>catch\<close> clauses of \<open>finalizeMintConversation\<close>.\<close>

definition finalize_done :: mint_segment where
  "finalize_done s = finish (s\<lparr>mc_finalizeLoading := False\<rparr>)"

definition finalize_failed :: "js_error \<Rightarrow> mint_segment" where
  "finalize_failed e s =
     (if unauthorized e then sign_out (\<lambda>_. finalize_done) finalize_done s
      else finalize_done (s\<lparr>mc_finalizeError := Some (formatError (mc_env s) e)\<rparr>))"

text \<open>From the server's answer to the boundary signatures on: the self attestation and the publication.\<close>

definition finalize_attest :: "provider \<Rightarrow> js_string \<Rightarrow> (js_string \<times> json option) list \<Rightarrow> json \<Rightarrow> mint_segment" where
  "finalize_attest p wallet sigs b s =
     (let s = s\<lparr>mc_finalizeBegin := b\<rparr> in
      case read_text b ''digest_hex'' of
        Inl e \<Rightarrow> finalize_failed e s
      | Inr digest \<Rightarrow>
          if digest = []
          then finalize_done (s\<lparr>mc_finalizeError := Some ''Finalize preflight did not return wallet signing material.''\<rparr>)
          else
            try_await (rpc p (personalSign digest wallet)) finalize_failed
              (\<lambda>selfAttestation s.
                 if mc_finalizeBegin s = JNull then finalize_failed (TypeError ''null has no properties'') s
                 else
                   try_await (http (soulAgentMintConversationFinalize (mc_token s) (mc_agentId s)
                       (mc_conversationId s) (obj_lit
                         [(''boundary_signatures'', Some (obj_lit sigs)),
                          (''issued_at'', obj_get (mc_finalizeBegin s) ''issued_at''),
                          (''expected_version'', obj_get (mc_finalizeBegin s) ''expected_version''),
                          (''self_attestation'', selfAttestation)])))
                     finalize_failed
                     (\<lambda>res s. load finalize_failed finalize_done (s\<lparr>mc_finalizeResult := res\<rparr>))
                     s)
              s)"

definition finalizeMintConversation :: mint_segment where
  "finalizeMintConversation s =
     (let s = s\<lparr>mc_finalizeError := None, mc_finalizeBegin := JNull, mc_finalizeResult := JNull\<rparr>;
          stop = (\<lambda>msg. finish (s\<lparr>mc_finalizeError := Some msg\<rparr>));
          boundaries = extractProducedBoundaries (mc_declarations s);
          wallet = js_trim (text_at (current_agent s) ''wallet'') in
      if current_agent s = JNull then stop ''Agent is not loaded yet.''
      else if published s then stop (''This agent already published v'' @
        js_to_string (the (obj_get (current_agent s) ''self_description_version'')) @ ''.'')
      else if mc_conversationId s = [] then stop ''No completed conversation to finalize.''
      else if \<not> json_truthy (Some (mc_declarations s)) then stop ''Complete the conversation first to produce declarations.''
      else if boundaries = [] then stop ''No boundaries found in produced declarations.''
      else
        (case getEthereumProvider (env_ethereum (mc_env s)) of
           None \<Rightarrow> stop ''No wallet detected. Install or enable a wallet extension.''
         | Some p \<Rightarrow>
             if wallet = [] then stop ''Agent wallet address is required.''
             else
               try_await (rpc p ensureAccounts) finalize_failed
                 (\<lambda>accounts s.
                    if toLowerCase wallet \<notin> toLowerCase ` set accounts
                    then finalize_done (s\<lparr>mc_finalizeError :=
                      Some (''Connected wallet does not match agent wallet ('' @ wallet @ '').'')\<rparr>)
                    else
                      sign_boundaries p wallet boundaries finalize_failed
                        (\<lambda>sigs s.
                           try_await (http (soulAgentMintConversationFinalizeBegin (mc_token s) (mc_agentId s)
                               (mc_conversationId s) (obj_lit [(''boundary_signatures'', Some (obj_lit sigs))])))
                             finalize_failed (finalize_attest p wallet sigs) s)
                        [] s)
                 (s\<lparr>mc_finalizeLoading := True\<rparr>)))"

text \<open>The rest of the page's events.\<close>

inductive_set mint_inputs :: "mint_segment set" where
  "(\<lambda>s. finish (s\<lparr>mc_userMessage := t\<rparr>)) \<in> mint_inputs"
| "(\<lambda>s. finish (s\<lparr>mc_mintModel := t\<rparr>)) \<in> mint_inputs"
| "(\<lambda>s. finish (resetMintConversation s)) \<in> mint_inputs"
| "(\<lambda>s. finish (s\<lparr>mc_env := e\<rparr>)) \<in> mint_inputs"
| "refreshMintConversation c (\<lambda>_. finish) finish \<in> mint_inputs"

definition mint_handlers :: "mint_segment set" where
  "mint_handlers =
     {load (\<lambda>_. finish) finish, sendMintMessage, completeMintConversation, finalizeMintConversation} \<union> mint_inputs"

end
