(* ===== verification/Mint_Progress.thy ===== *)
theory Mint_Progress
  imports Mint_Page
begin

text \<open>
  The mint conversation page under every interleaving: its loading flags always come down, also when
  the event stream breaks off, a wallet prompt is refused or the session has ended.
\<close>

definition mint_flags :: "(mint_page \<Rightarrow> bool) set" where
  "mint_flags = {mc_loading, mc_streaming, mc_completeLoading, mc_finalizeLoading}"

lemma flag_updates:
  assumes "f \<in> mint_flags"
  shows "f (mc_env_update va s) = f s"
    "f (mc_app_update vb s) = f s"
    "f (mc_router_update vc s) = f s"
    "f (mc_errorMessage_update vd s) = f s"
    "f (mc_agent_update ve s) = f s"
    "f (mc_conversations_update vf s) = f s"
    "f (mc_mintModel_update vg s) = f s"
    "f (mc_conversationId_update vh s) = f s"
    "f (mc_conversation_update vi s) = f s"
    "f (mc_messages_update vj s) = f s"
    "f (mc_userMessage_update vk s) = f s"
    "f (mc_assistantPartial_update vl s) = f s"
    "f (mc_error_update vm s) = f s"
    "f (mc_completeError_update vn s) = f s"
    "f (mc_declarations_update vo s) = f s"
    "f (mc_finalizeError_update vp s) = f s"
    "f (mc_finalizeBegin_update vq s) = f s"
    "f (mc_finalizeResult_update vr s) = f s"
  using assms by (auto simp: mint_flags_def)

lemma sign_out_keeps:
  assumes "f \<in> mint_flags" and c: "\<And>e. owes f False (catch e)" and k: "owes f False k"
  shows "owes f False (sign_out catch k)"
  by (auto simp: sign_out_def logout_then_def Let_def flag_updates [OF assms(1)]
      intro!: owes_intros owes_same [OF c] owes_same [OF k] split: option.splits prod.splits)

lemma sign_out_pays:
  assumes c: "\<And>e. owes f True (catch e)" and k: "owes f True k"
  shows "owes f True (sign_out catch k)"
  by (auto simp: sign_out_def logout_then_def Let_def
      intro!: pay_intros owes_true [OF c] owes_true [OF k] split: option.splits prod.splits)

lemma refresh_keeps:
  assumes "f \<in> mint_flags" and c: "\<And>e. owes f False (catch e)" and k: "owes f False k"
  shows "owes f False (refreshMintConversation i catch k)"
  by (auto simp: refreshMintConversation_def Let_def flag_updates [OF assms(1)]
      intro!: owes_intros owes_same [OF sign_out_keeps [OF assms]] owes_same [OF k] split: sum.splits)

lemma refresh_pays:
  assumes c: "\<And>e. owes f True (catch e)" and k: "owes f True k"
  shows "owes f True (refreshMintConversation i catch k)"
  by (auto simp: refreshMintConversation_def Let_def
      intro!: pay_intros owes_true [OF sign_out_pays [OF assms]] owes_true [OF k] split: sum.splits)


lemma reset_flags: "f \<in> mint_flags \<Longrightarrow> f (resetMintConversation s) = f s"
  by (auto simp: mint_flags_def resetMintConversation_def)

lemma loading_update:
  "f \<in> mint_flags \<Longrightarrow> f \<noteq> mc_loading \<Longrightarrow> f (mc_loading_update v s) = f s"
  by (auto simp: mint_flags_def)

lemma owes_after_loading:
  assumes "f \<in> mint_flags" and "f \<noteq> mc_loading" and "owes f b k"
  shows "owes f b (\<lambda>s. k (s\<lparr>mc_loading := v\<rparr>))"
proof (cases b)
  case True
  with assms(3) have "owes f True k" by simp
  then show ?thesis using True by (intro owesR) (simp add: owes_true)
next
  case False
  with assms(3) have "owes f False k" by simp
  from owes_same [OF this] show ?thesis using False loading_update [OF assms(1,2)] by (auto intro!: owesR)
qed

lemma load_keeps:
  assumes f: "f \<in> mint_flags" "f \<noteq> mc_loading" and c: "\<And>e. owes f False (catch e)" and k: "owes f False k"
  shows "owes f False (load catch k)"
proof -
  note c' = owes_after_loading [OF f c] and k' = owes_after_loading [OF f k]
  have failed: "owes f False (\<lambda>s. if unauthorized e then sign_out (\<lambda>e s. catch e (s\<lparr>mc_loading := False\<rparr>)) (\<lambda>s. k (s\<lparr>mc_loading := False\<rparr>)) s
      else k (s\<lparr>mc_errorMessage := Some (formatError (mc_env s) e), mc_loading := False\<rparr>))" for e
    by (auto simp: flag_updates [OF f(1)] loading_update [OF f]
        intro!: owesR owes_same [OF sign_out_keeps [OF f(1) c' k']] owes_same [OF k])
  show ?thesis unfolding load_def Let_def
    by (auto simp: flag_updates [OF f(1)] loading_update [OF f] reset_flags [OF f(1)]
        intro!: owes_intros failed owes_same [OF failed] owes_same [OF k] owes_same [OF refresh_keeps [OF f(1) failed k']])
qed

lemma load_pays:
  assumes c: "\<And>e. owes f True (catch e)" and k: "owes f True k"
  shows "owes f True (load catch k)"
proof -
  have c': "owes f True (\<lambda>s. catch e (s\<lparr>mc_loading := False\<rparr>))" and k': "owes f True (\<lambda>s. k (s\<lparr>mc_loading := False\<rparr>))" for e
    by (rule owesR, rule owes_true [OF c], rule owesR, rule owes_true [OF k])
  have failed: "owes f True (\<lambda>s. if unauthorized e then sign_out (\<lambda>e s. catch e (s\<lparr>mc_loading := False\<rparr>)) (\<lambda>s. k (s\<lparr>mc_loading := False\<rparr>)) s
      else k (s\<lparr>mc_errorMessage := Some (formatError (mc_env s) e), mc_loading := False\<rparr>))" for e
    by (auto intro!: owesR owes_true [OF sign_out_pays [OF c' k']] owes_true [OF k])
  show ?thesis unfolding load_def Let_def
    by (auto intro!: pay_intros failed owes_true [OF failed] owes_true [OF k] owes_true [OF refresh_pays [OF failed k']])
qed

lemma load_lowers:
  assumes c: "\<And>e. owes mc_loading False (catch e)" and k: "owes mc_loading False k"
  shows "owes mc_loading b (load catch k)"
proof -
  have c': "owes mc_loading True (\<lambda>s. catch e (s\<lparr>mc_loading := False\<rparr>))"
    and k': "owes mc_loading True (\<lambda>s. k (s\<lparr>mc_loading := False\<rparr>))" for e
    by (rule owesR, rule owes_lowered [OF c], simp, rule owesR, rule owes_lowered [OF k], simp)
  have failed: "owes mc_loading True (\<lambda>s. if unauthorized e then sign_out (\<lambda>e s. catch e (s\<lparr>mc_loading := False\<rparr>)) (\<lambda>s. k (s\<lparr>mc_loading := False\<rparr>)) s
      else k (s\<lparr>mc_errorMessage := Some (formatError (mc_env s) e), mc_loading := False\<rparr>))" for e
    by (auto intro!: owesR owes_true [OF sign_out_pays [OF c' k']] owes_lowered [OF k])
  show ?thesis unfolding load_def Let_def
    by (auto intro!: pay_intros failed owes_true [OF failed] owes_lowered [OF k] owes_true [OF refresh_pays [OF failed k']])
qed


section \<open>The event stream\<close>

lemma handle_event_keeps:
  assumes f: "f \<in> mint_flags" and c: "\<And>e. owes f False (catch e)" and k: "\<And>b. owes f False (k b)"
  shows "owes f False (handle_event ev b catch k)"
  by (auto simp: handle_event_def Let_def flag_updates [OF f] intro!: owesR owes_same [OF c] owes_same [OF k]
      owes_same [OF refresh_keeps [OF f c k]] split: sum.splits)

lemma handle_event_pays:
  assumes c: "\<And>e. owes f True (catch e)" and k: "\<And>b. owes f True (k b)"
  shows "owes f True (handle_event ev b catch k)"
  by (auto simp: handle_event_def Let_def intro!: owesR owes_true [OF c] owes_true [OF k]
      owes_true [OF refresh_pays [OF c k]] split: sum.splits)

lemma handle_blocks_keeps:
  assumes f: "f \<in> mint_flags" and c: "\<And>e. owes f False (catch e)" and k: "\<And>b. owes f False (k b)"
  shows "owes f False (handle_blocks bs b catch k)"
  by (induction bs arbitrary: b) (auto simp: k intro!: handle_event_keeps [OF f c] split: option.split)

lemma handle_blocks_pays:
  assumes c: "\<And>e. owes f True (catch e)" and k: "\<And>b. owes f True (k b)"
  shows "owes f True (handle_blocks bs b catch k)"
  by (induction bs arbitrary: b) (auto simp: k intro!: handle_event_pays [OF c] split: option.split)

lemma read_loop_keeps:
  assumes f: "f \<in> mint_flags" and c: "\<And>e. owes f False (catch e)" and k: "\<And>b. owes f False (k b)"
  shows "owes f False (read_loop cs ending catch k buffer b)"
proof (induction cs arbitrary: buffer b)
  case Nil
  show ?case by (auto intro!: owesR owes_await_kept owesD [OF c] owesD [OF k] split: option.split)
next
  case (Cons chunk cs)
  show ?case by (auto intro!: owesR owes_await_kept handle_blocks_keeps [OF f c, THEN owesD] Cons.IH split: prod.split)
qed

lemma read_loop_pays:
  assumes c: "\<And>e. owes f True (catch e)" and k: "\<And>b. owes f True (k b)"
  shows "owes f True (read_loop cs ending catch k buffer b)"
proof (induction cs arbitrary: buffer b)
  case Nil
  show ?case by (auto intro!: owesR owes_await_raised owesD [OF c] owesD [OF k] split: option.split)
next
  case (Cons chunk cs)
  show ?case by (auto intro!: owesR owes_await_raised handle_blocks_pays [OF c, THEN owesD] Cons.IH split: prod.split)
qed

lemma sign_boundaries_keeps:
  assumes c: "\<And>e. owes f False (catch e)" and k: "\<And>sigs. owes f False (k sigs)"
  shows "owes f False (sign_boundaries p wallet bs catch k sigs)"
  by (induction bs arbitrary: sigs) (auto intro!: k owesR owes_try_kept owesD [OF c] intro: owesD)

lemma sign_boundaries_pays:
  assumes c: "\<And>e. owes f True (catch e)" and k: "\<And>sigs. owes f True (k sigs)"
  shows "owes f True (sign_boundaries p wallet bs catch k sigs)"
  by (induction bs arbitrary: sigs) (auto intro!: k owesR owes_try_raised owesD [OF c] intro: owesD)

section \<open>The handlers\<close>

lemma flags_apart [simp]:
  "(mc_streaming :: mint_page \<Rightarrow> bool) \<noteq> mc_loading" "(mc_completeLoading :: mint_page \<Rightarrow> bool) \<noteq> mc_loading"
  "(mc_finalizeLoading :: mint_page \<Rightarrow> bool) \<noteq> mc_loading"
proof -
  fix s :: mint_page
  let ?s = "s\<lparr>mc_loading := False, mc_streaming := True, mc_completeLoading := True, mc_finalizeLoading := True\<rparr>"
  have "mc_streaming ?s \<noteq> mc_loading ?s" "mc_completeLoading ?s \<noteq> mc_loading ?s" "mc_finalizeLoading ?s \<noteq> mc_loading ?s" by simp_all
  then show "(mc_streaming :: mint_page \<Rightarrow> bool) \<noteq> mc_loading" "(mc_completeLoading :: mint_page \<Rightarrow> bool) \<noteq> mc_loading"
    "(mc_finalizeLoading :: mint_page \<Rightarrow> bool) \<noteq> mc_loading" by metis+
qed

lemma mint_flag_members [simp]:
  "mc_loading \<in> mint_flags" "mc_streaming \<in> mint_flags" "mc_completeLoading \<in> mint_flags" "mc_finalizeLoading \<in> mint_flags"
  by (simp_all add: mint_flags_def)


lemma send_pays: "owes mc_streaming False sendMintMessage"
proof -
  have fin: "owes mc_streaming True (\<lambda>s. finish (s\<lparr>mc_streaming := False\<rparr>))"
    and failed: "owes mc_streaming True (\<lambda>s. finish (s\<lparr>mc_error := g s, mc_streaming := False\<rparr>))" for g
    by (auto intro!: owesR owes_stop)
  show ?thesis unfolding sendMintMessage_def Let_def
    by (auto intro!: owesR owes_await_raised owes_stop read_loop_pays [THEN owesD] failed fin load_pays [THEN owesD] split: prod.split)
qed

lemma send_keeps:
  "owes mc_loading False sendMintMessage" "owes mc_completeLoading False sendMintMessage" "owes mc_finalizeLoading False sendMintMessage"
proof -
  have fin: "owes f False (\<lambda>s. finish (s\<lparr>mc_streaming := False\<rparr>))"
    and failed: "owes f False (\<lambda>s. finish (s\<lparr>mc_error := g s, mc_streaming := False\<rparr>))"
    if "f \<in> {mc_loading, mc_completeLoading, mc_finalizeLoading}" for g f
    using that by (auto intro!: owesR owes_stop)
  show "owes mc_loading False sendMintMessage" unfolding sendMintMessage_def Let_def
    by (auto intro!: owesR owes_await_kept owes_stop read_loop_keeps [THEN owesD] failed fin load_lowers [THEN owesD] split: prod.split)
  show "owes mc_completeLoading False sendMintMessage" "owes mc_finalizeLoading False sendMintMessage"
    unfolding sendMintMessage_def Let_def
    by (auto intro!: owesR owes_await_kept owes_stop read_loop_keeps [THEN owesD] failed fin load_keeps [THEN owesD] split: prod.split)
qed


lemma completeMintConversation_pays: "owes mc_completeLoading False completeMintConversation"
proof -
  have fin: "owes mc_completeLoading True (\<lambda>s. finish (s\<lparr>mc_completeLoading := False\<rparr>))"
    and stop: "owes mc_completeLoading True (\<lambda>s. finish (s\<lparr>mc_completeError := g s, mc_completeLoading := False\<rparr>))" for g
    by (auto intro!: owesR owes_stop)
  have failed: "owes mc_completeLoading True (\<lambda>s. if unauthorized e then sign_out (\<lambda>_ s. finish (s\<lparr>mc_completeLoading := False\<rparr>)) (\<lambda>s. finish (s\<lparr>mc_completeLoading := False\<rparr>)) s
      else finish (s\<lparr>mc_completeError := g s, mc_completeLoading := False\<rparr>))" for e g
    by (auto intro!: owesR owes_stop sign_out_pays [THEN owes_true] fin)
  show ?thesis unfolding completeMintConversation_def Let_def
    by (auto intro!: owesR owes_try_raised owes_stop failed stop fin load_pays [THEN owes_true] sign_boundaries_pays [THEN owes_true]
        sign_out_pays [THEN owes_true] split: sum.splits option.splits)
qed

lemma completeMintConversation_keeps_loading: "owes mc_loading False completeMintConversation"
proof -
  have fin: "owes mc_loading False (\<lambda>s. finish (s\<lparr>mc_completeLoading := False\<rparr>))" by (auto intro!: owesR owes_stop)
  have failed: "owes mc_loading False (\<lambda>s. if unauthorized e then sign_out (\<lambda>_ s. finish (s\<lparr>mc_completeLoading := False\<rparr>)) (\<lambda>s. finish (s\<lparr>mc_completeLoading := False\<rparr>)) s
      else finish (s\<lparr>mc_completeError := g s, mc_completeLoading := False\<rparr>))" for e g
    by (auto intro!: owesR owes_stop sign_out_keeps [THEN owes_same] fin)
  show ?thesis unfolding completeMintConversation_def Let_def
    by (auto intro!: owesR owes_try_kept owes_stop failed fin load_lowers [THEN owes_true]
        sign_boundaries_keeps [THEN owes_same] sign_out_keeps [THEN owes_same] split: sum.splits option.splits)
qed

lemma completeMintConversation_keeps_streaming: "owes mc_streaming False completeMintConversation"
proof -
  have fin: "owes mc_streaming False (\<lambda>s. finish (s\<lparr>mc_completeLoading := False\<rparr>))" by (auto intro!: owesR owes_stop)
  have failed: "owes mc_streaming False (\<lambda>s. if unauthorized e then sign_out (\<lambda>_ s. finish (s\<lparr>mc_completeLoading := False\<rparr>)) (\<lambda>s. finish (s\<lparr>mc_completeLoading := False\<rparr>)) s
      else finish (s\<lparr>mc_completeError := g s, mc_completeLoading := False\<rparr>))" for e g
    by (auto intro!: owesR owes_stop sign_out_keeps [THEN owes_same] fin)
  show ?thesis unfolding completeMintConversation_def Let_def
    by (auto intro!: owesR owes_try_kept owes_stop failed fin load_keeps [THEN owes_same]
        sign_boundaries_keeps [THEN owes_same] sign_out_keeps [THEN owes_same] split: sum.splits option.splits)
qed

lemma completeMintConversation_keeps_finalizeLoading: "owes mc_finalizeLoading False completeMintConversation"
proof -
  have fin: "owes mc_finalizeLoading False (\<lambda>s. finish (s\<lparr>mc_completeLoading := False\<rparr>))" by (auto intro!: owesR owes_stop)
  have failed: "owes mc_finalizeLoading False (\<lambda>s. if unauthorized e then sign_out (\<lambda>_ s. finish (s\<lparr>mc_completeLoading := False\<rparr>)) (\<lambda>s. finish (s\<lparr>mc_completeLoading := False\<rparr>)) s
      else finish (s\<lparr>mc_completeError := g s, mc_completeLoading := False\<rparr>))" for e g
    by (auto intro!: owesR owes_stop sign_out_keeps [THEN owes_same] fin)
  show ?thesis unfolding completeMintConversation_def Let_def
    by (auto intro!: owesR owes_try_kept owes_stop failed fin load_keeps [THEN owes_same]
        sign_boundaries_keeps [THEN owes_same] sign_out_keeps [THEN owes_same] split: sum.splits option.splits)
qed

lemma finalizeMintConversation_pays: "owes mc_finalizeLoading False finalizeMintConversation"
proof -
  have fin: "owes mc_finalizeLoading True (\<lambda>s. finish (s\<lparr>mc_finalizeLoading := False\<rparr>))"
    and stop: "owes mc_finalizeLoading True (\<lambda>s. finish (s\<lparr>mc_finalizeError := g s, mc_finalizeLoading := False\<rparr>))" for g
    by (auto intro!: owesR owes_stop)
  have failed: "owes mc_finalizeLoading True (\<lambda>s. if unauthorized e then sign_out (\<lambda>_ s. finish (s\<lparr>mc_finalizeLoading := False\<rparr>)) (\<lambda>s. finish (s\<lparr>mc_finalizeLoading := False\<rparr>)) s
      else finish (s\<lparr>mc_finalizeError := g s, mc_finalizeLoading := False\<rparr>))" for e g
    by (auto intro!: owesR owes_stop sign_out_pays [THEN owes_true] fin)
  show ?thesis unfolding finalizeMintConversation_def finalize_attest_def finalize_failed_def finalize_done_def Let_def
    by (auto intro!: owesR owes_try_raised owes_stop failed stop fin load_pays [THEN owes_true] sign_boundaries_pays [THEN owes_true]
        sign_out_pays [THEN owes_true] split: sum.splits option.splits)
qed

lemma finalizeMintConversation_keeps_loading: "owes mc_loading False finalizeMintConversation"
proof -
  have fin: "owes mc_loading False (\<lambda>s. finish (s\<lparr>mc_finalizeLoading := False\<rparr>))" by (auto intro!: owesR owes_stop)
  have failed: "owes mc_loading False (\<lambda>s. if unauthorized e then sign_out (\<lambda>_ s. finish (s\<lparr>mc_finalizeLoading := False\<rparr>)) (\<lambda>s. finish (s\<lparr>mc_finalizeLoading := False\<rparr>)) s
      else finish (s\<lparr>mc_finalizeError := g s, mc_finalizeLoading := False\<rparr>))" for e g
    by (auto intro!: owesR owes_stop sign_out_keeps [THEN owes_same] fin)
  show ?thesis unfolding finalizeMintConversation_def finalize_attest_def finalize_failed_def finalize_done_def Let_def
    by (auto intro!: owesR owes_try_kept owes_stop failed fin load_lowers [THEN owes_true]
        sign_boundaries_keeps [THEN owes_same] sign_out_keeps [THEN owes_same] split: sum.splits option.splits)
qed

lemma finalizeMintConversation_keeps_streaming: "owes mc_streaming False finalizeMintConversation"
proof -
  have fin: "owes mc_streaming False (\<lambda>s. finish (s\<lparr>mc_finalizeLoading := False\<rparr>))" by (auto intro!: owesR owes_stop)
  have failed: "owes mc_streaming False (\<lambda>s. if unauthorized e then sign_out (\<lambda>_ s. finish (s\<lparr>mc_finalizeLoading := False\<rparr>)) (\<lambda>s. finish (s\<lparr>mc_finalizeLoading := False\<rparr>)) s
      else finish (s\<lparr>mc_finalizeError := g s, mc_finalizeLoading := False\<rparr>))" for e g
    by (auto intro!: owesR owes_stop sign_out_keeps [THEN owes_same] fin)
  show ?thesis unfolding finalizeMintConversation_def finalize_attest_def finalize_failed_def finalize_done_def Let_def
    by (auto intro!: owesR owes_try_kept owes_stop failed fin load_keeps [THEN owes_same]
        sign_boundaries_keeps [THEN owes_same] sign_out_keeps [THEN owes_same] split: sum.splits option.splits)
qed

lemma finalizeMintConversation_keeps_completeLoading: "owes mc_completeLoading False finalizeMintConversation"
proof -
  have fin: "owes mc_completeLoading False (\<lambda>s. finish (s\<lparr>mc_finalizeLoading := False\<rparr>))" by (auto intro!: owesR owes_stop)
  have failed: "owes mc_completeLoading False (\<lambda>s. if unauthorized e then sign_out (\<lambda>_ s. finish (s\<lparr>mc_finalizeLoading := False\<rparr>)) (\<lambda>s. finish (s\<lparr>mc_finalizeLoading := False\<rparr>)) s
      else finish (s\<lparr>mc_finalizeError := g s, mc_finalizeLoading := False\<rparr>))" for e g
    by (auto intro!: owesR owes_stop sign_out_keeps [THEN owes_same] fin)
  show ?thesis unfolding finalizeMintConversation_def finalize_attest_def finalize_failed_def finalize_done_def Let_def
    by (auto intro!: owesR owes_try_kept owes_stop failed fin load_keeps [THEN owes_same]
        sign_boundaries_keeps [THEN owes_same] sign_out_keeps [THEN owes_same] split: sum.splits option.splits)
qed


lemma mint_inputs_keep:
  assumes "h \<in> mint_inputs" and f: "f \<in> mint_flags"
  shows "owes f False h"
  using assms(1)
  by cases (auto simp: flag_updates [OF f] reset_flags [OF f] intro!: owesR owes_stop
      refresh_keeps [OF f owes_finish_only owes_finish_only, THEN owesD])

lemma load_flags:
  "owes mc_loading False (load (\<lambda>_. finish) finish)" "owes mc_streaming False (load (\<lambda>_. finish) finish)"
  "owes mc_completeLoading False (load (\<lambda>_. finish) finish)" "owes mc_finalizeLoading False (load (\<lambda>_. finish) finish)"
  by (rule load_lowers load_keeps; simp add: owes_finish_only)+

lemmas mint_flag_facts = load_flags send_pays send_keeps completeMintConversation_pays completeMintConversation_keeps_loading
  completeMintConversation_keeps_streaming completeMintConversation_keeps_finalizeLoading finalizeMintConversation_pays
  finalizeMintConversation_keeps_loading finalizeMintConversation_keeps_streaming
  finalizeMintConversation_keeps_completeLoading mint_inputs_keep

interpretation mint_loading: loading_flag mint_handlers mc_loading
  by unfold_locales (auto simp: mint_handlers_def mint_flag_facts)
interpretation mint_streaming: loading_flag mint_handlers mc_streaming
  by unfold_locales (auto simp: mint_handlers_def mint_flag_facts)
interpretation mint_complete: loading_flag mint_handlers mc_completeLoading
  by unfold_locales (auto simp: mint_handlers_def mint_flag_facts)
interpretation mint_finalize: loading_flag mint_handlers mc_finalizeLoading
  by unfold_locales (auto simp: mint_handlers_def mint_flag_facts)

text \<open>However the conversation, its completion, its publication and reloads interleave, and
  wherever the stream or a request breaks off, the page comes to rest with no spinner left on.\<close>

theorem mint_page_settles:
  assumes "page_reachable mint_handlers (fresh_page (initial_mint env a r keccak token agentId) w) pg"
  shows "settles (\<lambda>q. \<not> mc_loading (pg_state q) \<and> \<not> mc_streaming (pg_state q) \<and> \<not> mc_completeLoading (pg_state q) \<and>
     \<not> mc_finalizeLoading (pg_state q)) pg"
  using mint_loading.flag_settles [OF assms] mint_streaming.flag_settles [OF assms] mint_complete.flag_settles [OF assms]
    mint_finalize.flag_settles [OF assms]
  by (intro settles_conj) (simp_all add: fresh_page_def initial_mint_def)

theorem mint_page_settles_witness:
  "settles (\<lambda>q. \<not> mc_loading (pg_state q) \<and> \<not> mc_streaming (pg_state q) \<and> \<not> mc_completeLoading (pg_state q) \<and>
     \<not> mc_finalizeLoading (pg_state q))
     (run_segment (load (\<lambda>_. finish) finish)
        (fresh_page (initial_mint sample_env sample_app (load_router ''/'' sample_storage) (\<lambda>b. b) ''T'' ''agent'')
           (sample_world (\<lambda>_. JNull))))"
  by (rule mint_page_settles, rule r_into_rtranclp, rule page_step.start) (simp add: mint_handlers_def)

end
