(* ===== verification/Mint_Correct.thy ===== *)
theory Mint_Correct
  imports Mint_Page
begin

text \<open>
  What the mint conversation page does with the event stream and with the wallet: the events it handles
  do not depend on how the network cut the stream into chunks, and publishing asks the wallet for
  exactly the signatures that the declarations call for.
\<close>

section \<open>The stream is independent of its chunks\<close>

lemma next_block_append: "next_block a = Some (raw, rest) \<Longrightarrow> next_block (a @ b) = Some (raw, rest @ b)"
proof (induction a arbitrary: raw rest rule: next_block.induct)
  case (1 x y s)
  then show ?case by (auto split: if_splits)
qed simp_all

lemma split_blocks_append:
  "split_blocks (a @ b) =
     (case split_blocks a of (bs, r) \<Rightarrow> (case split_blocks (r @ b) of (bs', r') \<Rightarrow> (bs @ bs', r')))"
proof (induction a rule: split_blocks.induct)
  case (1 a)
  show ?case
  proof (cases "next_block a")
    case None
    then show ?thesis by (subst (2) split_blocks.simps) (simp split: prod.split)
  next
    case (Some p)
    then obtain raw rest where p: "next_block a = Some (raw, rest)" by (cases p) auto
    have "split_blocks (a @ b) = (case split_blocks (rest @ b) of (bs, r) \<Rightarrow> (raw # bs, r))"
      by (subst split_blocks.simps) (simp add: next_block_append [OF p])
    moreover have "split_blocks a = (case split_blocks rest of (bs, r) \<Rightarrow> (raw # bs, r))"
      by (subst split_blocks.simps) (simp add: p)
    ultimately show ?thesis using 1 [OF p refl] by (simp split: prod.splits)
  qed
qed

lemma handle_blocks_append:
  "handle_blocks (as @ bs) b catch k = handle_blocks as b catch (\<lambda>b. handle_blocks bs b catch k)"
  by (induction as arbitrary: b) (auto split: option.split)

text \<open>What remains of a run after one segment.\<close>

definition run_result :: "'s \<times> ('s, 'w) proc \<Rightarrow> 'w \<Rightarrow> 's \<times> 'w" where
  "run_result r w = (case r of (s, p) \<Rightarrow> run_proc p s w)"

lemma run_result_simps:
  "run k s w = run_result (k s) w"
  "run_result (await op f s) w = (case op w of (a, w') \<Rightarrow> run_result (f a s) w')"
  "run_result (try_await act c g s) w' =
     (case act w' of (Inl e, w'') \<Rightarrow> run_result (c e s) w'' | (Inr v, w'') \<Rightarrow> run_result (g v s) w'')"
  by (simp_all add: run_result_def run_def await_def try_await_def split: prod.split sum.split)

lemma sign_out_cong:
  assumes "\<And>s w. run_result (k s) w = run_result (k' s) w"
  shows "run_result (sign_out catch k s) w = run_result (sign_out catch k' s) w"
  unfolding sign_out_def logout_then_def Let_def
  by (auto simp: run_result_simps assms split: prod.split sum.split option.split)

lemma refresh_cong:
  assumes "\<And>s w. run_result (k s) w = run_result (k' s) w"
  shows "run_result (refreshMintConversation i catch k s) w = run_result (refreshMintConversation i catch k' s) w"
  unfolding refreshMintConversation_def Let_def
  by (auto simp: run_result_simps assms sign_out_cong [OF assms] split: prod.split sum.split)

lemma handle_event_cong:
  assumes "\<And>b s w. run_result (k b s) w = run_result (k' b s) w"
  shows "run_result (handle_event ev b catch k s) w = run_result (handle_event ev b catch k' s) w"
  unfolding handle_event_def Let_def
  by (auto simp: assms refresh_cong [OF assms] split: sum.split)

lemma handle_blocks_cong:
  assumes "\<And>b s w. run_result (k b s) w = run_result (k' b s) w"
  shows "run_result (handle_blocks bs b catch k s) w = run_result (handle_blocks bs b catch k' s) w"
proof (induction bs arbitrary: b s w)
  case (Cons raw bs)
  then show ?case by (auto split: option.split intro: handle_event_cong)
qed (simp add: assms)

lemma split_blocks_rest: "next_block (snd (split_blocks a)) = None"
proof (induction a rule: split_blocks.induct)
  case (1 a)
  then show ?case
    by (cases "next_block a") (auto simp: split_blocks.simps [of a] split: prod.split)
qed

text \<open>Reading chunk by chunk runs like handling the blocks of the whole text.\<close>

lemma read_loop_run:
  assumes "next_block buffer = None"
  shows "run_result (read_loop cs ending catch k buffer b s) w =
     run_result (handle_blocks (fst (split_blocks (buffer @ concat cs))) b catch
       (\<lambda>b. case ending of None \<Rightarrow> k b | Some e \<Rightarrow> catch e) s) w"
  using assms
proof (induction cs arbitrary: buffer b s w)
  case Nil
  then show ?case by (simp add: run_result_simps split_blocks.simps [of buffer] split: option.split)
next
  case (Cons c cs)
  obtain bs r where br: "split_blocks (buffer @ c) = (bs, r)" by fastforce
  have r: "next_block r = None" using split_blocks_rest [of "buffer @ c"] by (simp add: br)
  obtain bs' r' where br': "split_blocks (r @ concat cs) = (bs', r')" by fastforce
  have "split_blocks (buffer @ concat (c # cs)) = (bs @ bs', r')"
    using split_blocks_append [of "buffer @ c" "concat cs"] by (simp add: br br')
  moreover have "run_result (read_loop (c # cs) ending catch k buffer b s) w =
      run_result (handle_blocks bs b catch (read_loop cs ending catch k r) s) w"
    by (simp add: run_result_simps br)
  moreover have "\<dots> = run_result (handle_blocks bs b catch (\<lambda>b. handle_blocks bs' b catch
      (\<lambda>b. case ending of None \<Rightarrow> k b | Some e \<Rightarrow> catch e)) s) w"
    by (rule handle_blocks_cong) (use Cons.IH [OF r] br' in simp)
  ultimately show ?case by (simp add: handle_blocks_append)
qed

text \<open>C26. The network may cut the event stream anywhere, also inside an event: sending a message ends in the
  same state of the page and of the world for any two ways to cut the same text.\<close>

theorem mint_chunking_irrelevant:
  assumes "concat cs = concat cs'"
  shows "run (read_loop cs ending catch k [] b) s w = run (read_loop cs' ending catch k [] b) s w"
  using assms by (simp add: run_result_simps(1) read_loop_run)

theorem mint_chunking_irrelevant_witness:
  "\<forall>s w. run (read_loop [''da'', ''ta: x'' @ [newline], [newline]] None (\<lambda>_. finish) (\<lambda>_. finish) [] False) s w =
   run (read_loop [''data: x'' @ [newline, newline]] None (\<lambda>_. finish) (\<lambda>_. finish) [] False) s w"
  by (intro allI, rule mint_chunking_irrelevant) simp

section \<open>Publishing\<close>

abbreviation sign_request :: "js_string \<Rightarrow> js_string \<Rightarrow> rpc_request" where
  "sign_request message address \<equiv> \<lparr>rpc_method = ''personal_sign'', rpc_params = Some [JStr message, JStr address]\<rparr>"

text \<open>The signatures by boundary id, given the wallet's calls before: a later boundary with the same id
  replaces the signature of an earlier one.\<close>

fun boundary_signatures ::
  "provider \<Rightarrow> (js_string \<Rightarrow> js_string) \<Rightarrow> js_string \<Rightarrow> ProducedBoundary list \<Rightarrow> rpc_request list
     \<Rightarrow> (js_string \<times> json option) list \<Rightarrow> (js_string \<times> json option) list" where
  "boundary_signatures p digest wallet [] log sigs = sigs"
| "boundary_signatures p digest wallet (b # bs) log sigs =
     (let r = sign_request (digest (pb_statement b)) wallet in
      boundary_signatures p digest wallet bs (log @ [r])
        (prop_set sigs (pb_id b) (case p log r of Inr v \<Rightarrow> v | Inl _ \<Rightarrow> None)))"

definition always_signs :: "provider \<Rightarrow> bool" where
  "always_signs p \<longleftrightarrow> (\<forall>log r. rpc_method r = ''personal_sign'' \<longrightarrow> (\<exists>v. p log r = Inr v))"

lemma personalSign_signs:
  assumes "always_signs p"
  shows "rpc p (personalSign m a) w =
    (Inr (case p (w_rpc w) (sign_request m a) of Inr v \<Rightarrow> v | Inl _ \<Rightarrow> None), w\<lparr>w_rpc := w_rpc w @ [sign_request m a]\<rparr>)"
proof -
  obtain v where "p (w_rpc w) (sign_request m a) = Inr v"
    using assms unfolding always_signs_def by (metis rpc_request.select_convs(1))
  then show ?thesis by (simp add: rpc_def personalSign_def wallet_catch_def provider_request_def)
qed

lemma sign_boundaries_run:
  assumes "always_signs p"
  shows "run_result (sign_boundaries p wallet bs catch k sigs s) w =
    run_result (k (boundary_signatures p (keccak256Utf8Hex (mc_keccak s)) wallet bs (w_rpc w) sigs) s)
      (w\<lparr>w_rpc := w_rpc w @ map (\<lambda>b. sign_request (keccak256Utf8Hex (mc_keccak s) (pb_statement b)) wallet) bs\<rparr>)"
  by (induction bs arbitrary: sigs w) (simp_all add: run_result_simps personalSign_signs [OF assms] Let_def)

text \<open>The guards of publishing.\<close>

definition can_finalize :: "mint_page \<Rightarrow> provider \<Rightarrow> bool" where
  "can_finalize s p \<longleftrightarrow>
     current_agent s \<noteq> JNull \<and> \<not> published s \<and> mc_conversationId s \<noteq> [] \<and> json_truthy (Some (mc_declarations s)) \<and>
     extractProducedBoundaries (mc_declarations s) \<noteq> [] \<and> env_ethereum (mc_env s) = Some p \<and>
     js_trim (text_at (current_agent s) ''wallet'') \<noteq> []"

lemma current_agent_updates [simp]:
  "current_agent (s\<lparr>mc_finalizeError := a, mc_finalizeBegin := b, mc_finalizeResult := c\<rparr>) = current_agent s"
  "published (s\<lparr>mc_finalizeError := a, mc_finalizeBegin := b, mc_finalizeResult := c\<rparr>) = published s"
  by (simp_all add: current_agent_def published_def)

lemma finalize_stopped:
  assumes "\<not> (\<exists>p. can_finalize s p)"
  shows "\<exists>msg. finalizeMintConversation s =
    finish (s\<lparr>mc_finalizeBegin := JNull, mc_finalizeResult := JNull, mc_finalizeError := Some msg\<rparr>)"
proof -
  consider "current_agent s = JNull" | "current_agent s \<noteq> JNull" "published s"
    | "current_agent s \<noteq> JNull" "\<not> published s" "mc_conversationId s = []"
    | "current_agent s \<noteq> JNull" "\<not> published s" "mc_conversationId s \<noteq> []" "\<not> json_truthy (Some (mc_declarations s))"
    | "current_agent s \<noteq> JNull" "\<not> published s" "mc_conversationId s \<noteq> []" "json_truthy (Some (mc_declarations s))"
      "extractProducedBoundaries (mc_declarations s) = []"
    | "current_agent s \<noteq> JNull" "\<not> published s" "mc_conversationId s \<noteq> []" "json_truthy (Some (mc_declarations s))"
      "extractProducedBoundaries (mc_declarations s) \<noteq> []" "env_ethereum (mc_env s) = None"
    | p where "current_agent s \<noteq> JNull" "\<not> published s" "mc_conversationId s \<noteq> []" "json_truthy (Some (mc_declarations s))"
      "extractProducedBoundaries (mc_declarations s) \<noteq> []" "env_ethereum (mc_env s) = Some p"
      "js_trim (text_at (current_agent s) ''wallet'') = []"
    using assms unfolding can_finalize_def by blast
  then show ?thesis
    by cases (simp add: finalizeMintConversation_def Let_def getEthereumProvider_def, (rule exI, rule refl)?)+
qed

section \<open>Runs only add to the logs\<close>

lemma run_safe:
  assumes "safe R I w0 k" and "\<And>a b c. R a b \<Longrightarrow> R b c \<Longrightarrow> R a c" and "\<And>a. R a a" and "R w0 w" and "I s w"
  shows "R w (snd (run k s w))"
  using assms(1,4,5)
proof (induction arbitrary: s w rule: safe.induct)
  case (safeI w0 k)
  obtain s' pr where ks: "k s = (s', pr)" by fastforce
  show ?case
  proof (cases pr)
    case Done
    then show ?thesis by (simp add: run_def ks assms(3))
  next
    case (Await op)
    obtain k' w' where op: "op w = (k', w')" by fastforce
    have *: "R w w'" "I s' w'" and IH: "\<And>s v. R w' v \<Longrightarrow> I s v \<Longrightarrow> R v (snd (run k' s v))"
      using safeI.IH [OF safeI.prems, of s' op k' w'] ks op Await by auto
    have "R w' (snd (run k' s' w'))" by (rule IH [OF assms(3) *(2)])
    moreover have "run k s w = run k' s' w'" by (simp add: run_def ks Await op split: prod.split)
    ultimately show ?thesis using *(1) assms(2) by metis
  qed
qed

definition grew :: "world \<Rightarrow> world \<Rightarrow> bool" where
  "grew w w' \<longleftrightarrow> (\<exists>l. w_http w' = w_http w @ l) \<and> (\<exists>l. w_rpc w' = w_rpc w @ l)"

lemma grew_refl [simp]: "grew w w" and grew_trans: "grew a b \<Longrightarrow> grew b c \<Longrightarrow> grew a c"
  by (auto simp: grew_def)

definition grows :: "mint_segment \<Rightarrow> bool" where
  "grows k \<longleftrightarrow> (\<forall>w. safe grew (\<lambda>_ _. True) w k)"

definition grows_result :: "mint_page \<times> (mint_page, world) proc \<Rightarrow> bool" where
  "grows_result r \<longleftrightarrow> (\<forall>w. safe_result grew (\<lambda>_ _. True) w r)"

lemma grows_by: "(\<And>s. grows_result (k s)) \<Longrightarrow> grows k"
  by (auto simp: grows_def grows_result_def intro: safeR)

lemma growsD: "grows k \<Longrightarrow> grows_result (k s)"
  unfolding grows_def grows_result_def safe_iff [of _ _ _ k] by (meson grew_refl)

lemma grows_finish: "grows_result (finish s)"
  by (auto simp: grows_result_def intro: safe_finish)

lemma grows_await: "(\<And>w. grew w (snd (op w))) \<Longrightarrow> (\<And>v. grows (k v)) \<Longrightarrow> grows_result (await op k s)"
  unfolding grows_def grows_result_def by (intro allI safe_await) (metis snd_conv)

lemma grows_try:
  "(\<And>w. grew w (snd (op w))) \<Longrightarrow> (\<And>e. grows (catch e)) \<Longrightarrow> (\<And>v. grows (k v)) \<Longrightarrow> grows_result (try_await op catch k s)"
  unfolding try_await_def by (rule grows_await) (auto split: sum.split)

lemma run_grows: "grows k \<Longrightarrow> grew w (snd (run k s w))"
  unfolding grows_def by (rule run_safe [of grew "\<lambda>_ _. True" w]) (auto intro: grew_trans)

lemma grew_http [simp]: "grew w (snd (http (fetchJson r) w))" "grew w (snd (http_all (fetchJson r) (fetchJson r') w))"
  by (auto simp: grew_def http_def http_all_def split_beta)

lemma grew_api [simp]: "grew w (snd (http (api_call m u h b) w))" "grew w (snd (http_all (api_call m u h b) (api_call m' u' h' b') w))"
  by (simp_all add: api_call_def)

lemma grew_sign [simp]: "grew w (snd (rpc p (personalSign m a) w))"
  by (auto simp: grew_def rpc_def personalSign_def wallet_catch_def provider_request_def Let_def split: prod.splits sum.splits)

lemma sign_out_grows:
  assumes c: "\<And>e. grows (catch e)" and k: "grows k"
  shows "grows (sign_out catch k)"
  unfolding sign_out_def logout_then_def Let_def authLogout_def
  by (auto intro!: grows_by grows_try growsD [OF c] growsD [OF k] split: option.splits prod.splits)

lemma refresh_grows:
  assumes c: "\<And>e. grows (catch e)" and k: "grows k"
  shows "grows (refreshMintConversation i catch k)"
  unfolding refreshMintConversation_def Let_def soulAgentGetMintConversation_def
  by (auto intro!: grows_by grows_try growsD [OF k] growsD [OF sign_out_grows [OF c k]] split: sum.splits)

lemma load_grows:
  assumes c: "\<And>e. grows (catch e)" and k: "grows k"
  shows "grows (load catch k)"
proof -
  have c': "grows (\<lambda>s. catch e (s\<lparr>mc_loading := False\<rparr>))" and k': "grows (\<lambda>s. k (s\<lparr>mc_loading := False\<rparr>))" for e
    by (rule grows_by, rule growsD [OF c], rule grows_by, rule growsD [OF k])
  have failed: "grows (\<lambda>s. if unauthorized e then sign_out (\<lambda>e s. catch e (s\<lparr>mc_loading := False\<rparr>)) (\<lambda>s. k (s\<lparr>mc_loading := False\<rparr>)) s
      else k (s\<lparr>mc_errorMessage := Some (formatError (mc_env s) e), mc_loading := False\<rparr>))" for e
    by (auto intro!: grows_by growsD [OF sign_out_grows [OF c' k']] growsD [OF k])
  show ?thesis unfolding load_def Let_def soulPublicGetAgent_def soulAgentListMintConversations_def
    by (auto simp: unauthorized_def [of "TypeError _"] intro!: grows_by grows_try failed growsD [OF k] growsD [OF refresh_grows [OF failed k']])
qed

section \<open>What publishing asks for\<close>

abbreviation agent_wallet :: "mint_page \<Rightarrow> js_string" where
  "agent_wallet s \<equiv> js_trim (text_at (current_agent s) ''wallet'')"

abbreviation boundaries_of :: "mint_page \<Rightarrow> ProducedBoundary list" where
  "boundaries_of s \<equiv> extractProducedBoundaries (mc_declarations s)"

definition finalize_begin_request :: "mint_page \<Rightarrow> (js_string \<times> json option) list \<Rightarrow> request" where
  "finalize_begin_request s sigs =
     \<lparr>req_method = ''POST'',
      req_url = ''/api/v1/soul/agents/'' @ encodeURIComponent (mc_agentId s) @ ''/mint-conversation/'' @
        encodeURIComponent (mc_conversationId s) @ ''/finalize/begin'',
      req_headers = bearer (mc_token s) @ json_headers,
      req_body = Some (json_stringify (obj_lit [(''boundary_signatures'', Some (obj_lit sigs))]))\<rparr>"

lemma finalize_begin_http:
  "http (soulAgentMintConversationFinalizeBegin (mc_token s) (mc_agentId s) (mc_conversationId s)
     (obj_lit [(''boundary_signatures'', Some (obj_lit sigs))])) w =
   (fst (fetchJson (finalize_begin_request s sigs) (w_net w) (w_http w)),
    w\<lparr>w_http := w_http w @ [finalize_begin_request s sigs]\<rparr>)"
  by (simp add: soulAgentMintConversationFinalizeBegin_def finalize_begin_request_def api_call_def jsonRequest_def Let_def
      http_def split_beta)

lemma finalize_done_grows: "grows finalize_done"
  by (auto simp: finalize_done_def intro!: grows_by grows_finish)

lemma finalize_failed_grows: "grows (finalize_failed e)"
  unfolding finalize_failed_def
  by (auto intro!: grows_by growsD [OF finalize_done_grows] sign_out_grows [OF finalize_done_grows finalize_done_grows, THEN growsD])

lemma finalize_attest_grows: "grows (finalize_attest p wallet sigs v)"
  unfolding finalize_attest_def Let_def soulAgentMintConversationFinalize_def
  by (auto intro!: grows_by grows_try finalize_failed_grows growsD [OF finalize_done_grows] growsD [OF finalize_failed_grows]
      growsD [OF load_grows [OF finalize_failed_grows finalize_done_grows]] split: sum.split)


definition sample_mint :: mint_page where
  "sample_mint = (initial_mint sample_env sample_app (load_router ''/'' sample_storage) (\<lambda>b. b) ''T'' ''agent'')
     \<lparr>mc_agent := JObj [(''agent'', JObj [(''wallet'', JStr ''0xa1'')])], mc_conversationId := ''c1'',
      mc_declarations := JObj [(''boundaries'', JArr [JObj [(''id'', JStr ''b1''), (''statement'', JStr ''no'')]])]\<rparr>"

lemma sample_mint_facts:
  "agent_wallet sample_mint = ''0xa1''" "boundaries_of sample_mint = [\<lparr>pb_id = ''b1'', pb_statement = ''no''\<rparr>]"
  "can_finalize sample_mint sample_wallet" "mc_keccak sample_mint = (\<lambda>b. b)"
proof -
  show w: "agent_wallet sample_mint = ''0xa1''" and b: "boundaries_of sample_mint = [\<lparr>pb_id = ''b1'', pb_statement = ''no''\<rparr>]"
    by code_simp+
  show "mc_keccak sample_mint = (\<lambda>b. b)" by (simp add: sample_mint_def initial_mint_def)
  show "can_finalize sample_mint sample_wallet"
    using w b by (simp add: can_finalize_def) (simp add: sample_mint_def initial_mint_def current_agent_def published_def positive_number_def obj_get_def
        nullish_def sample_env_def)
qed

lemma sample_always_signs: "always_signs sample_wallet"
  by (simp add: always_signs_def sample_wallet_def)

lemma sample_ensure:
  "rpc sample_wallet ensureAccounts w =
     (Inr [''0xA1''], w\<lparr>w_rpc := w_rpc w @ [\<lparr>rpc_method = ''eth_accounts'', rpc_params = None\<rparr>]\<rparr>)"
  by (simp add: rpc_def ensureAccounts_def getAccounts_def wallet_then_def provider_request_def sample_wallet_def accounts_of_def)


end
