(* ===== verification/Frame.thy ===== *)
theory Frame
  imports Page_Base
begin

text \<open>
  What the signed-in pages share.  Each of them is mounted with the token of the session and keeps its own
  fields beside the application state and the router, so their states extend the record \<open>frame\<close>; each
  handler runs its requests in a \<open>try\<close> whose \<open>catch\<close> signs out on a 401 and otherwise shows the
  error, and whose \<open>finally\<close> lowers a loading flag.
\<close>

record frame =
  fr_env :: env
  fr_app :: app
  fr_router :: router
  fr_assigned :: "js_string list"

definition initial_frame :: "env \<Rightarrow> app \<Rightarrow> router \<Rightarrow> frame" where
  "initial_frame env a r = \<lparr>fr_env = env, fr_app = a, fr_router = r, fr_assigned = []\<rparr>"

definition go :: "js_string \<Rightarrow> 'a frame_scheme \<Rightarrow> 'a frame_scheme" where
  "go path s = s\<lparr>fr_router := navigate path (fr_router s)\<rparr>"

text \<open>\<open>window.location.assign(url)\<close>\<close>

definition location_assign :: "js_string \<Rightarrow> 'a frame_scheme \<Rightarrow> 'a frame_scheme" where
  "location_assign url s = s\<lparr>fr_assigned := fr_assigned s @ [url]\<rparr>"

definition show_error :: "'a frame_scheme \<Rightarrow> js_error \<Rightarrow> js_string option" where
  "show_error s e = Some (formatError (fr_env s) e)"

section \<open>Signing out\<close>

text \<open>\<open>await logout();\<close>, with or without \<open>navigate('/login');\<close>, and then what follows.\<close>

definition sign_off ::
  "(js_error \<Rightarrow> ('a frame_scheme, world) segment) \<Rightarrow> ('a frame_scheme, world) segment \<Rightarrow> ('a frame_scheme, world) segment" where
  "sign_off = logout_then fr_app (\<lambda>a s. s\<lparr>fr_app := a\<rparr>)"

definition leave ::
  "(js_error \<Rightarrow> ('a frame_scheme, world) segment) \<Rightarrow> ('a frame_scheme, world) segment \<Rightarrow> ('a frame_scheme, world) segment" where
  "leave throw k = sign_off throw (\<lambda>s. k (go ''/login'' s))"

text \<open>
  The \<open>catch\<close> and \<open>finally\<close> of a handler: \<open>lower\<close> is the \<open>finally\<close> block, \<open>fail\<close> shows the error.  What
  \<open>logout\<close> throws leaves the handler after \<open>lower\<close>; \<open>throw\<close> and \<open>k\<close> say where the handler's promise goes.
\<close>

definition rejected ::
  "('a frame_scheme \<Rightarrow> 'a frame_scheme) \<Rightarrow> (js_error \<Rightarrow> 'a frame_scheme \<Rightarrow> 'a frame_scheme) \<Rightarrow>
   (js_error \<Rightarrow> ('a frame_scheme, world) segment) \<Rightarrow> ('a frame_scheme, world) segment \<Rightarrow>
   js_error \<Rightarrow> ('a frame_scheme, world) segment" where
  "rejected lower fail throw k e s =
     (if unauthorized e then leave (\<lambda>e s. throw e (lower s)) (\<lambda>s. k (lower s)) s
      else k (lower (fail e s)))"

text \<open>\<open>void f();\<close> as the last statement of a handler, and then its \<open>finally\<close>: the called function runs up to its
  first \<open>await\<close>, the \<open>finally\<close> block runs, and the called function goes on by itself.\<close>

definition detach :: "('s \<Rightarrow> 's) \<Rightarrow> ('s, 'w) segment \<Rightarrow> ('s, 'w) segment" where
  "detach lower f s = (case f s of (s', p) \<Rightarrow> (lower s', p))"

text \<open>\<open>navigator.clipboard.writeText\<close>, and a \<open>setTimeout\<close> whose delay passes.\<close>

definition clipboard_write :: "js_string \<Rightarrow> world \<Rightarrow> (js_error + unit) \<times> world" where
  "clipboard_write text w =
     (if w_clipboard_denied w (w_clipboard w) then Inl (DomException ''NotAllowedError'') else Inr (),
      w\<lparr>w_clipboard := w_clipboard w @ [text]\<rparr>)"

definition timer :: "world \<Rightarrow> (js_error + unit) \<times> world" where
  "timer w = (Inr (), w)"

lemma clipboard_local [simp]:
  "w_net (snd (clipboard_write t w)) = w_net w \<and> w_http (snd (clipboard_write t w)) = w_http w"
  by (simp add: clipboard_write_def)

lemma timer_local [simp]: "w_net (snd (timer w)) = w_net w \<and> w_http (snd (timer w)) = w_http w"
  by (simp add: timer_def)

lemma go_simps [simp]:
  "fr_app (go p s) = fr_app s" "fr_env (go p s) = fr_env s" "fr_assigned (go p s) = fr_assigned s"
  "frame.more (go p s) = frame.more s"
  by (simp_all add: go_def)

section \<open>Loading flags of framed pages\<close>

text \<open>A flag of the page's own part: the shared part does not touch it.\<close>

definition own_flag :: "('a frame_scheme \<Rightarrow> bool) \<Rightarrow> bool" where
  "own_flag f \<longleftrightarrow> (\<forall>s a r. f (s\<lparr>fr_app := a\<rparr>) = f s \<and> f (s\<lparr>fr_router := r\<rparr>) = f s)"

lemma own_flag_simps [simp]:
  assumes "own_flag f"
  shows "f (s\<lparr>fr_app := a\<rparr>) = f s" "f (go p s) = f s"
  using assms by (simp_all add: own_flag_def go_def)

lemma sign_off_keeps:
  assumes "own_flag f" and c: "\<And>e. owes f False (throw e)" and k: "owes f False k"
  shows "owes f False (sign_off throw k)"
  using assms(1)
  by (auto simp: sign_off_def logout_then_def Let_def
      intro!: owes_intros owes_same [OF c] owes_same [OF k] split: option.splits prod.splits)

lemma sign_off_pays:
  assumes c: "\<And>e. owes f True (throw e)" and k: "owes f True k"
  shows "owes f True (sign_off throw k)"
  by (auto simp: sign_off_def logout_then_def Let_def
      intro!: pay_intros owes_true [OF c] owes_true [OF k] split: option.splits prod.splits)

lemma leave_keeps:
  assumes "own_flag f" and "\<And>e. owes f False (throw e)" and k: "owes f False k"
  shows "owes f False (leave throw k)"
  unfolding leave_def using assms(1) by (intro sign_off_keeps assms owesR owes_same [OF k]) simp

lemma leave_pays:
  assumes "\<And>e. owes f True (throw e)" and k: "owes f True k"
  shows "owes f True (leave throw k)"
  unfolding leave_def by (intro sign_off_pays assms owesR owes_true [OF k])

text \<open>A handler that has raised \<open>f\<close> and whose \<open>finally\<close> lowers it.\<close>

lemma rejected_lowers:
  assumes low: "\<And>s. \<not> f (lower s)" and t: "\<And>e. owes f False (throw e)" and k: "owes f False k"
  shows "owes f True (rejected lower fail throw k e)"
proof -
  have "owes f True (\<lambda>s. throw e (lower s))" "owes f True (\<lambda>s. k (lower s))" for e
    by (intro owesR owes_lowered [OF t] owes_lowered [OF k] low)+
  then have "owes f True (leave (\<lambda>e s. throw e (lower s)) (\<lambda>s. k (lower s)))" by (intro leave_pays)
  then show ?thesis
    by (intro owesR) (auto simp: rejected_def low intro!: owes_lowered [OF k] dest: owesD)
qed

text \<open>A handler that has nothing to do with \<open>f\<close>.\<close>

lemma rejected_keeps:
  assumes own: "own_flag f" and low: "\<And>s. f (lower s) = f s" and fail: "\<And>e s. f (fail e s) = f s"
    and t: "\<And>e. owes f False (throw e)" and k: "owes f False k"
  shows "owes f False (rejected lower fail throw k e)"
proof -
  have "owes f False (\<lambda>s. throw e (lower s))" "owes f False (\<lambda>s. k (lower s))" for e
    by (intro owesR owes_same [OF t] owes_same [OF k]; simp add: low)+
  then have "owes f False (leave (\<lambda>e s. throw e (lower s)) (\<lambda>s. k (lower s)))" by (intro leave_keeps own)
  then show ?thesis
    by (intro owesR) (auto simp: rejected_def low fail intro!: owes_same [OF k] dest: owesD)
qed

text \<open>An inner call whose caller has raised \<open>f\<close>.\<close>

lemma rejected_pays:
  assumes "\<And>e. owes f True (throw e)" and "owes f True k"
  shows "owes f True (rejected lower fail throw k e)"
proof -
  have "owes f True (\<lambda>s. throw e (lower s))" "owes f True (\<lambda>s. k (lower s))" for e
    by (intro owesR owes_true [OF assms(1)] owes_true [OF assms(2)])+
  then have "owes f True (leave (\<lambda>e s. throw e (lower s)) (\<lambda>s. k (lower s)))" by (intro leave_pays)
  then show ?thesis
    by (intro owesR) (auto simp: rejected_def intro!: owes_true [OF assms(2)] dest: owesD)
qed

lemma detach_lowers: "(\<And>s. \<not> f (lower s)) \<Longrightarrow> owes f False k \<Longrightarrow> owes_result f b s (detach lower k s')"
  using owesD [of f False k s']
  by (auto simp: owes_result_def detach_def split: prod.splits proc.splits)

lemma detach_keeps:
  "(\<And>s. f (lower s) = f s) \<Longrightarrow> owes f False k \<Longrightarrow> (f s' \<Longrightarrow> f s) \<Longrightarrow> owes_result f False s (detach lower k s')"
  using owesD [of f False k s']
  by (auto simp: owes_result_def detach_def split: prod.splits proc.splits)

section \<open>Requests of framed pages\<close>

definition logout_request :: "js_string \<Rightarrow> request" where
  "logout_request t = \<lparr>req_method = ''POST'', req_url = ''/api/v1/auth/logout'', req_headers = bearer t, req_body = None\<rparr>"

text \<open>
  What the shared part asks of an invariant of a page: ending the session, moving to another route and
  the logout request keep it.
\<close>

locale safe_frame =
  fixes I :: "'a frame_scheme \<Rightarrow> world \<Rightarrow> bool"
  assumes signed_out_inv: "I s w \<Longrightarrow> app_session a = None \<Longrightarrow> portalFleetInstances a = [] \<Longrightarrow> I (s\<lparr>fr_app := a\<rparr>) w"
    and route_inv: "I s w \<Longrightarrow> I (s\<lparr>fr_router := r\<rparr>) w"
    and logout_inv: "I s w \<Longrightarrow> app_session (fr_app s) = Some v \<Longrightarrow> string_member v ''token'' = Some t \<Longrightarrow>
      I s (w\<lparr>w_http := w_http w @ [logout_request t]\<rparr>)"
begin

lemma guarded_later: "safe later I w k \<Longrightarrow> later w w' \<Longrightarrow> safe later I w' k"
  unfolding safe_iff [of later I w k] safe_iff [of later I w' k] using later_trans by blast

lemma go_ok: "I s w \<Longrightarrow> I (go p s) w"
  by (simp add: go_def route_inv)

lemma sign_off_guarded:
  assumes t: "\<And>e w'. later w w' \<Longrightarrow> safe later I w' (throw e)" and k: "\<And>w'. later w w' \<Longrightarrow> safe later I w' k"
  shows "safe later I w (sign_off throw k)"
proof (rule safeR)
  fix s w1 assume w: "later w w1" and s: "I s w1"
  let ?clear = "\<lambda>r s. case clearSession (fr_app s) of
      (Some e, a) \<Rightarrow> throw (storage_exception e) (s\<lparr>fr_app := a\<rparr>)
    | (None, a) \<Rightarrow> (case r of None \<Rightarrow> k (s\<lparr>fr_app := a\<rparr>) | Some e \<Rightarrow> throw e (s\<lparr>fr_app := a\<rparr>))"
  have ok: "I (s\<lparr>fr_app := a\<rparr>) w" if "I s w" "clearSession x = (e, a)" for s w x e a
    using that signed_out_inv [OF _ clearSession_session clearSession_fleet] by blast
  have clear: "safe later I w' (?clear r)" if w': "later w w'" for w' r
  proof (rule safeR)
    fix s w2 assume w2: "later w' w2" and s: "I s w2"
    note lt = later_trans [OF w' w2]
    show "safe_result later I w2 (?clear r s)"
      using safe_laterD [OF t [OF lt]] safe_laterD [OF k [OF lt]] ok [OF s]
      by (simp split: prod.split option.split)
  qed
  have "safe_result later I w1 (?clear None s)" using safe_laterD [OF clear [OF w] s] .
  moreover have "safe_result later I w1 (try_await (http (authLogout tk)) (\<lambda>e. ?clear (Some e)) (\<lambda>_. ?clear None) s)"
    if tok: "app_session (fr_app s) = Some v" "string_member v ''token'' = Some tk" for v tk
    unfolding try_await_def
  proof (rule safe_await)
    fix a w' assume "http (authLogout tk) w1 = (a, w')"
    then have w': "w' = w1\<lparr>w_http := w_http w1 @ [logout_request tk]\<rparr>"
      by (simp add: authLogout_def api_call_def http_def split_beta logout_request_def)
    have "later w1 w'" by (simp add: w' later_def)
    then show "later w1 w' \<and> I s w' \<and> safe later I w' (case_sum (\<lambda>e. ?clear (Some e)) (\<lambda>_. ?clear None) a)"
      using logout_inv [OF s tok] clear later_trans [OF w] w' by (auto split: sum.split)
  qed
  ultimately show "safe_result later I w1 (sign_off throw k s)"
    unfolding sign_off_def logout_then_def Let_def
    by (cases "app_session (fr_app s)"; cases "string_member (the (app_session (fr_app s))) ''token''")
      (simp_all add: truthy_def)
qed

lemma leave_guarded:
  assumes "\<And>e w'. later w w' \<Longrightarrow> safe later I w' (throw e)" and k: "\<And>w'. later w w' \<Longrightarrow> safe later I w' k"
  shows "safe later I w (leave throw k)"
proof -
  have "safe later I w' (\<lambda>s. k (go ''/login'' s))" if w': "later w w'" for w'
  proof (rule safeR)
    fix s w2 assume "later w' w2" and "I s w2"
    then show "safe_result later I w2 (k (go ''/login'' s))"
      using safe_laterD [OF k [OF later_trans [OF w']]] go_ok by simp
  qed
  then show ?thesis unfolding leave_def by (intro sign_off_guarded assms)
qed

lemma rejected_guarded:
  assumes fail: "\<And>e s w'. later w w' \<Longrightarrow> I s w' \<Longrightarrow> I (lower (fail e s)) w'"
    and low: "\<And>s w'. later w w' \<Longrightarrow> I s w' \<Longrightarrow> I (lower s) w'"
    and t: "\<And>e w'. later w w' \<Longrightarrow> safe later I w' (throw e)" and k: "\<And>w'. later w w' \<Longrightarrow> safe later I w' k"
  shows "safe later I w (rejected lower fail throw k e)"
proof -
  have "safe later I w' (\<lambda>s. throw e (lower s))" if "later w w'" for e w'
    using that low t later_trans by (blast intro!: safeR intro: safe_laterD)
  moreover have "safe later I w' (\<lambda>s. k (lower s))" if "later w w'" for w'
    using that low k later_trans by (blast intro!: safeR intro: safe_laterD)
  ultimately have l: "safe later I w (leave (\<lambda>e s. throw e (lower s)) (\<lambda>s. k (lower s)))" by (intro leave_guarded)
  show ?thesis
  proof (rule safeR)
    fix s w' assume w': "later w w'" and s: "I s w'"
    show "safe_result later I w' (rejected lower fail throw k e s)"
      using safe_laterD [OF guarded_later [OF l w'] s] safe_laterD [OF k [OF w'] fail [OF w' s]] by (simp add: rejected_def)
  qed
qed

lemma detach_guarded:
  assumes "safe later I w k" and low: "\<And>s w'. later w w' \<Longrightarrow> I s w' \<Longrightarrow> I (lower s) w'" and "I s w"
  shows "safe_result later I w (detach lower k s)"
  using safe_laterD [OF assms(1,3)] low
  by (auto simp: safe_result_def detach_def split: prod.splits proc.splits)

end

text \<open>The invariants of \<open>request_discipline\<close>, when the logout may present the token of the session.\<close>

locale framed_page = request_discipline T P
  for T :: "'a frame_scheme \<Rightarrow> net \<Rightarrow> request list \<Rightarrow> bool" and P +
  assumes signed_out_ok: "T s net l \<Longrightarrow> app_session a = None \<Longrightarrow> portalFleetInstances a = [] \<Longrightarrow> T (s\<lparr>fr_app := a\<rparr>) net l"
    and route_ok: "T s net l \<Longrightarrow> T (s\<lparr>fr_router := r\<rparr>) net l"
    and logout_ok: "T s net l \<Longrightarrow> app_session (fr_app s) = Some v \<Longrightarrow> string_member v ''token'' = Some t \<Longrightarrow> P net l (logout_request t)"

sublocale framed_page \<subseteq> safe_frame "page_inv T P"
  by unfold_locales (auto simp: page_inv_def signed_out_ok route_ok logout_ok T_later)

section \<open>Steps of framed pages\<close>

text \<open>
  A page that sends, in a step from the state \<open>s\<close>, only requests with \<open>S s\<close>.  The shared part sends the logout
  of the session, and it goes on in a state that is signed out or at another route.
\<close>

locale emitting_page =
  fixes S :: "'a frame_scheme \<Rightarrow> request \<Rightarrow> bool"
  assumes logout_allowed: "app_session (fr_app s) = Some v \<Longrightarrow> string_member v ''token'' = Some t \<Longrightarrow> S s (logout_request t)"
    and app_moved: "S (s\<lparr>fr_app := a\<rparr>) r \<Longrightarrow> app_session a = None \<Longrightarrow> S s r"
    and route_moved: "S (s\<lparr>fr_router := x\<rparr>) r \<Longrightarrow> S s r"
begin

lemma sign_off_obeys:
  assumes t: "\<And>e. obeys (emits S) (throw e)" and k: "obeys (emits S) k"
  shows "obeys (emits S) (sign_off throw k)"
proof (rule obeysR)
  fix s
  let ?clear = "\<lambda>r s. case clearSession (fr_app s) of
      (Some e, a) \<Rightarrow> throw (storage_exception e) (s\<lparr>fr_app := a\<rparr>)
    | (None, a) \<Rightarrow> (case r of None \<Rightarrow> k (s\<lparr>fr_app := a\<rparr>) | Some e \<Rightarrow> throw e (s\<lparr>fr_app := a\<rparr>))"
  have clear: "obeys (emits S) (?clear r)" for r
    by (intro obeysR)
      (auto intro!: obeys_call [OF t] obeys_call [OF k] dest: clearSession_session app_moved split: prod.split option.split)
  then have "obeys_result (emits S) s (?clear None s)" by (rule obeysD)
  moreover have "obeys_result (emits S) s (try_await (http (authLogout tk)) (\<lambda>e. ?clear (Some e)) (\<lambda>_. ?clear None) s)"
    if "app_session (fr_app s) = Some v" "string_member v ''token'' = Some tk" for v tk
    using logout_allowed [OF that] clear unfolding authLogout_def
    by (intro obeys_sends sends_api) (auto simp: logout_request_def)
  ultimately show "obeys_result (emits S) s (sign_off throw k s)"
    unfolding sign_off_def logout_then_def Let_def
    by (cases "app_session (fr_app s)"; cases "string_member (the (app_session (fr_app s))) ''token''")
      (simp_all add: truthy_def)
qed

lemma leave_obeys:
  assumes "\<And>e. obeys (emits S) (throw e)" and k: "obeys (emits S) k"
  shows "obeys (emits S) (leave throw k)"
  unfolding leave_def
  by (intro sign_off_obeys assms obeysR obeys_call [OF k]) (auto simp: go_def dest: route_moved)

lemma rejected_obeys:
  assumes t: "\<And>e. obeys (emits S) (throw e)" and k: "obeys (emits S) k"
    and low: "\<And>s r. S (lower s) r \<Longrightarrow> S s r" and fail: "\<And>e s r. S (fail e s) r \<Longrightarrow> S s r"
  shows "obeys (emits S) (rejected lower fail throw k e)"
proof -
  have "obeys (emits S) (\<lambda>s. throw e (lower s))" "obeys (emits S) (\<lambda>s. k (lower s))" for e
    by (rule obeysR, rule obeys_call [OF t], erule low) (rule obeysR, rule obeys_call [OF k], erule low)
  then have "obeys (emits S) (leave (\<lambda>e s. throw e (lower s)) (\<lambda>s. k (lower s)))" by (intro leave_obeys)
  then have l: "obeys_result (emits S) s (leave (\<lambda>e s. throw e (lower s)) (\<lambda>s. k (lower s)) s)" for s
    by (rule obeysD)
  show ?thesis
    by (intro obeysR) (auto simp: rejected_def l intro!: obeys_call [OF k] dest: low fail)
qed

lemma rejected_finish: "obeys (emits S) (rejected lower fail (\<lambda>_. finish) finish e)"
proof -
  have "obeys (emits S) (leave (\<lambda>e s. finish (lower s)) (\<lambda>s. finish (lower s)))"
    by (intro leave_obeys obeysR obeys_stop)
  then have l: "obeys_result (emits S) s (leave (\<lambda>e s. finish (lower s)) (\<lambda>s. finish (lower s)) s)" for s
    by (rule obeysD)
  show ?thesis by (intro obeysR) (simp add: rejected_def l)
qed

end

end
