(* ===== verification/Views.thy ===== *)
theory Views
  imports Frame
begin

text \<open>
  Which page is shown: the dispatch of \<^verbatim>\<open>web/src/App.svelte\<close> on the current path, the routes of
  \<^verbatim>\<open>web/src/pages/Portal.svelte\<close> and \<^verbatim>\<open>web/src/pages/Operator.svelte\<close>, and the two frames
  themselves, which load the account behind the session (\<open>loadMe\<close>) before they mount a page with
  its token.
\<close>

section \<open>The application's dispatch\<close>

datatype chrome = OperatorLayout | PortalShell | PortalLayout | Bare

datatype view = OperatorPage | FleetPage | TrustDashboard | TrustPage | AccountPage | PortalPage
  | TipRegistryPage | HomePage | LoginPage | SetupPage | NotFoundPage

definition isOperatorRoute :: "js_string \<Rightarrow> bool" where
  "isOperatorRoute path \<longleftrightarrow> path = ''/operator'' \<or> startsWith path ''/operator/''"

definition isPortalShellRoute :: "js_string \<Rightarrow> bool" where
  "isPortalShellRoute path \<longleftrightarrow>
     path = ''/portal'' \<or> path = ''/portal/fleet'' \<or> startsWith path ''/portal/fleet/'' \<or> startsWith path ''/portal/'' \<or>
     path = ''/trust'' \<or> startsWith path ''/trust/'' \<or> path = ''/account'' \<or>
     path = ''/tip-registry'' \<or> path = ''/tip-registry/register''"

definition isPortalRoute :: "js_string \<Rightarrow> bool" where
  "isPortalRoute path \<longleftrightarrow> \<not> isPortalShellRoute path \<and> (path = ''/'' \<or> path = ''/trust'' \<or> path = ''/account'')"

definition isPortalTrustDashboardRoute :: "js_string \<Rightarrow> bool" where
  "isPortalTrustDashboardRoute path \<longleftrightarrow> path = ''/portal/trust''"

definition isPortalTrustRoute :: "js_string \<Rightarrow> bool" where
  "isPortalTrustRoute path \<longleftrightarrow> isPortalTrustDashboardRoute path \<or> startsWith path ''/portal/trust/attestations''"

definition isPortalAccountRoute :: "js_string \<Rightarrow> bool" where
  "isPortalAccountRoute path \<longleftrightarrow> path = ''/portal/account''"

text \<open>What the shell and the public layout hold; \<open>None\<close> is an empty frame.\<close>

definition shell_view :: "js_string \<Rightarrow> view option" where
  "shell_view path =
     (if path = ''/portal'' \<or> path = ''/portal/fleet'' \<or> startsWith path ''/portal/fleet/'' then Some FleetPage
      else if isPortalTrustRoute path then Some (if isPortalTrustDashboardRoute path then TrustDashboard else TrustPage)
      else if isPortalAccountRoute path then Some AccountPage
      else if startsWith path ''/portal/'' then Some PortalPage
      else if path = ''/trust'' \<or> startsWith path ''/trust/'' then Some TrustPage
      else if path = ''/account'' then Some AccountPage
      else if path = ''/tip-registry'' \<or> path = ''/tip-registry/register'' then Some TipRegistryPage
      else None)"

definition layout_view :: "js_string \<Rightarrow> view option" where
  "layout_view path =
     (if path = ''/'' then Some HomePage
      else if path = ''/portal'' \<or> startsWith path ''/portal/'' then Some PortalPage
      else if path = ''/trust'' \<or> startsWith path ''/trust/'' then Some TrustPage
      else if path = ''/account'' then Some AccountPage
      else if path = ''/tip-registry'' \<or> path = ''/tip-registry/register'' then Some TipRegistryPage
      else None)"

definition app_view :: "js_string \<Rightarrow> chrome \<times> view option" where
  "app_view path =
     (if isOperatorRoute path then (OperatorLayout, Some OperatorPage)
      else if isPortalShellRoute path then (PortalShell, shell_view path)
      else if isPortalRoute path then (PortalLayout, layout_view path)
      else if path = ''/login'' then (Bare, Some LoginPage)
      else if path = ''/setup'' then (Bare, Some SetupPage)
      else (PortalLayout, Some NotFoundPage))"

text \<open>The Safe app opens at its root and goes on to the target that was staged for it.\<close>

definition onMount_app :: "router \<Rightarrow> router" where
  "onMount_app r =
     (if \<not> isSafeAppPath (location_path r) \<or> currentPath r \<noteq> ''/'' then r
      else (case consumeSafeAppTarget r of
              (target, r) \<Rightarrow> if target \<noteq> [] \<and> target \<noteq> ''/'' then navigate target r else r))"

section \<open>Routes of the portal and the console\<close>

datatype portal_route = PortalInstances | PortalInstance js_string | PortalInstanceCost js_string
  | PortalInstanceConfig js_string | PortalInstanceBudgets js_string | PortalInstanceUsage js_string
  | PortalInstanceDomains js_string | PortalInstanceKeys js_string | PortalInstanceSouls js_string
  | PortalSouls | PortalSoulRegister | PortalSoulMint js_string | PortalSoulAgent js_string
  | PortalBilling | PortalTrust | PortalNotFound

datatype operator_route = OperatorDashboard | OperatorVanityDomains | OperatorPortalUsers
  | OperatorExternalRegistrations | OperatorProvisioningJobs | OperatorProvisioningJobDetail js_string
  | OperatorReleases | OperatorTipRegistry | OperatorTipRegistryOperation js_string | OperatorSoulRegistry
  | OperatorSoulOperation js_string | OperatorAudit | OperatorInstances | OperatorInstanceDetail js_string
  | OperatorNotFound

text \<open>\<open>path.slice(root.length).split('/').filter(Boolean)\<close>\<close>

definition path_parts :: "js_string \<Rightarrow> js_string \<Rightarrow> js_string list" where
  "path_parts root path = filter (\<lambda>p. p \<noteq> []) (split_on CHR ''/'' (drop (length root) path))"

definition instance_route :: "js_string \<Rightarrow> js_string list \<Rightarrow> portal_route" where
  "instance_route slug rest =
     (case rest of
        [] \<Rightarrow> PortalInstance slug
      | tab # _ \<Rightarrow>
          if tab = ''overview'' then PortalInstance slug
          else if tab = ''cost'' then PortalInstanceCost slug
          else if tab = ''config'' then PortalInstanceConfig slug
          else if tab = ''budgets'' then PortalInstanceBudgets slug
          else if tab = ''usage'' then PortalInstanceUsage slug
          else if tab = ''domains'' then PortalInstanceDomains slug
          else if tab = ''keys'' then PortalInstanceKeys slug
          else if tab = ''souls'' then PortalInstanceSouls slug
          else PortalNotFound)"

definition soul_route :: "js_string list \<Rightarrow> portal_route" where
  "soul_route rest =
     (case rest of
        [] \<Rightarrow> PortalSouls
      | agent # parts \<Rightarrow>
          if agent = ''register'' then PortalSoulRegister
          else if parts \<noteq> [] \<and> hd parts = ''mint'' then PortalSoulMint agent
          else PortalSoulAgent agent)"

definition portalRoute :: "js_string \<Rightarrow> portal_route" where
  "portalRoute path =
     (if \<not> startsWith path ''/portal'' then PortalInstances
      else
        (case path_parts ''/portal'' path of
           [] \<Rightarrow> PortalInstances
         | part # rest \<Rightarrow>
             if part = ''instances'' then (case rest of [] \<Rightarrow> PortalInstances | slug # rest \<Rightarrow> instance_route slug rest)
             else if part = ''billing'' then (if rest = [] then PortalBilling else PortalNotFound)
             else if part = ''trust'' then (if rest = [] then PortalTrust else PortalNotFound)
             else if part = ''souls'' then soul_route rest
             else PortalNotFound))"

definition operatorRoute :: "js_string \<Rightarrow> operator_route" where
  "operatorRoute path =
     (if \<not> startsWith path ''/operator'' then OperatorDashboard
      else
        (case path_parts ''/operator'' path of
           [] \<Rightarrow> OperatorDashboard
         | part # rest \<Rightarrow>
             if part = ''approvals'' then
               (case rest of
                  [] \<Rightarrow> OperatorNotFound
                | kind # _ \<Rightarrow>
                    if kind = ''domains'' then OperatorVanityDomains
                    else if kind = ''users'' then OperatorPortalUsers
                    else if kind = ''external-instances'' then OperatorExternalRegistrations
                    else OperatorNotFound)
             else if part = ''instances'' then
               (case rest of [] \<Rightarrow> OperatorInstances | slug # _ \<Rightarrow> OperatorInstanceDetail slug)
             else if part = ''provisioning'' then
               (case rest of
                  [] \<Rightarrow> OperatorProvisioningJobs
                | kind # rest \<Rightarrow>
                    if kind = ''jobs''
                    then (case rest of [] \<Rightarrow> OperatorProvisioningJobs | job # _ \<Rightarrow> OperatorProvisioningJobDetail job)
                    else OperatorNotFound)
             else if part = ''releases'' then (if rest = [] then OperatorReleases else OperatorNotFound)
             else if part = ''tip-registry'' then
               (case rest of
                  [] \<Rightarrow> OperatorTipRegistry
                | kind # op # _ \<Rightarrow> if kind = ''operations'' then OperatorTipRegistryOperation op else OperatorNotFound
                | _ \<Rightarrow> OperatorNotFound)
             else if part = ''soul'' then
               (case rest of
                  [] \<Rightarrow> OperatorSoulRegistry
                | kind # op # _ \<Rightarrow> if kind = ''operations'' then OperatorSoulOperation op else OperatorNotFound
                | _ \<Rightarrow> OperatorNotFound)
             else if part = ''audit'' then (if rest = [] then OperatorAudit else OperatorNotFound)
             else OperatorNotFound))"

section \<open>The tabs of an instance\<close>

text \<open>\<^verbatim>\<open>web/src/lib/components/InstanceDetailShell.svelte\<close>: the tab bar above the pages of one instance, driven by the
  current path.\<close>

datatype TabKey = Overview | Cost | Config | Domains | Keys | Souls

definition tabs :: "(TabKey \<times> js_string) list" where
  "tabs = [(Overview, []), (Cost, ''/cost''), (Config, ''/config''), (Domains, ''/domains''), (Keys, ''/keys''), (Souls, ''/souls'')]"

definition at_tab :: "js_string \<Rightarrow> js_string \<Rightarrow> bool" where
  "at_tab path tab \<longleftrightarrow> path = tab \<or> startsWith path (tab @ ''/'')"

definition activeKey :: "js_string \<Rightarrow> js_string \<Rightarrow> TabKey" where
  "activeKey slug path =
     (let prefix = ''/portal/instances/'' @ slug in
      if path = prefix then Overview
      else if at_tab path (prefix @ ''/cost'') then Cost
      else if at_tab path (prefix @ ''/config'') then Config
      else if at_tab path (prefix @ ''/domains'') then Domains
      else if at_tab path (prefix @ ''/keys'') then Keys
      else if at_tab path (prefix @ ''/souls'') then Souls
      else if at_tab path (prefix @ ''/budgets'') then Cost
      else if at_tab path (prefix @ ''/usage'') then Cost
      else Overview)"

definition tabHref :: "js_string \<Rightarrow> TabKey \<Rightarrow> js_string" where
  "tabHref slug key =
     ''/portal/instances/'' @ slug @ (case find (\<lambda>t. fst t = key) tabs of None \<Rightarrow> [] | Some t \<Rightarrow> snd t)"

definition onTabClick :: "js_string \<Rightarrow> TabKey \<Rightarrow> router \<Rightarrow> router" where
  "onTabClick slug key = navigate (tabHref slug key)"

text \<open>The index of the tab a key press moves to, and the tab that then gets the focus.\<close>

definition next_tab :: "js_string \<Rightarrow> nat \<Rightarrow> nat option" where
  "next_tab pressed index =
     (if pressed = ''ArrowRight'' then Some ((index + 1) mod length tabs)
      else if pressed = ''ArrowLeft'' then Some (nat ((int index - 1 + int (length tabs)) mod int (length tabs)))
      else if pressed = ''Home'' then Some 0
      else if pressed = ''End'' then Some (length tabs - 1)
      else None)"

definition onTabKeydown :: "js_string \<Rightarrow> js_string \<Rightarrow> nat \<Rightarrow> router \<Rightarrow> router \<times> TabKey option" where
  "onTabKeydown slug pressed index r =
     (case next_tab pressed index of
        None \<Rightarrow> (r, None)
      | Some i \<Rightarrow>
          if i < length tabs then (navigate (tabHref slug (fst (tabs ! i))) r, Some (fst (tabs ! i))) else (r, None))"

section \<open>The frames of the portal and the console\<close>

record console_page = frame +
  cp_loading :: bool
  cp_errorMessage :: "js_string option"
  cp_me :: "json option"

type_synonym console_segment = "(console_page, world) segment"

definition initial_console :: "env \<Rightarrow> app \<Rightarrow> router \<Rightarrow> console_page" where
  "initial_console env a r =
     frame.extend (initial_frame env a r) \<lparr>cp_loading = False, cp_errorMessage = None, cp_me = None\<rparr>"

definition operator_role :: "json \<Rightarrow> bool" where
  "operator_role v \<longleftrightarrow> text_at v ''role'' = ''admin'' \<or> text_at v ''role'' = ''operator''"

abbreviation lower_me :: "console_page \<Rightarrow> console_page" where
  "lower_me s \<equiv> s\<lparr>cp_loading := False\<rparr>"

text \<open>Both pages show the error also when they sign out on it; the console then stays where it is.\<close>

definition loadMe_portal :: console_segment where
  "loadMe_portal s =
     (let s = s\<lparr>cp_errorMessage := None, cp_me := None\<rparr> in
      case app_session (fr_app s) of
        None \<Rightarrow> finish (go ''/login'' s)
      | Some current \<Rightarrow>
          if operator_role current then finish (go ''/operator'' s)
          else
            try_await (http (getPortalMe (text_at current ''token'')))
              (\<lambda>e s. let s = s\<lparr>cp_errorMessage := show_error s e\<rparr> in
                 if unauthorized e then leave (\<lambda>_ s. finish (lower_me s)) (\<lambda>s. finish (lower_me s)) s
                 else finish (lower_me s))
              (\<lambda>me s. finish (lower_me (s\<lparr>cp_me := Some me\<rparr>)))
              (s\<lparr>cp_loading := True\<rparr>))"

definition loadMe_operator :: console_segment where
  "loadMe_operator s =
     (let s = s\<lparr>cp_errorMessage := None, cp_me := None\<rparr> in
      case app_session (fr_app s) of
        None \<Rightarrow> finish (go ''/login'' s)
      | Some current \<Rightarrow>
          if \<not> operator_role current then finish (s\<lparr>cp_errorMessage := Some ''Operator session required.''\<rparr>)
          else
            try_await (http (getOperatorMe (text_at current ''token'')))
              (\<lambda>e s. let s = s\<lparr>cp_errorMessage := show_error s e\<rparr> in
                 if unauthorized e
                 then sign_off (\<lambda>_ s. finish (lower_me s)) (\<lambda>s. finish (lower_me s)) s
                 else finish (lower_me s))
              (\<lambda>me s. finish (lower_me (s\<lparr>cp_me := Some me\<rparr>)))
              (s\<lparr>cp_loading := True\<rparr>))"

text \<open>\<open>handleLogout\<close> of the surrounding layout.\<close>

definition handleLogout_layout :: console_segment where
  "handleLogout_layout = leave (\<lambda>_. finish) finish"

text \<open>The page that is mounted inside the frame, with the token it is given.\<close>

definition portal_shown :: "console_page \<Rightarrow> (portal_route \<times> js_string) option" where
  "portal_shown s =
     (if cp_loading s \<or> truthy (cp_errorMessage s) \<or> \<not> json_truthy (cp_me s) then None
      else
        (case app_session (fr_app s) of
           None \<Rightarrow> None
         | Some v \<Rightarrow>
             (case portalRoute (currentPath (fr_router s)) of
                PortalNotFound \<Rightarrow> None
              | shown \<Rightarrow> Some (shown, text_at v ''token''))))"

definition operator_shown :: "console_page \<Rightarrow> (operator_route \<times> js_string) option" where
  "operator_shown s =
     (case app_session (fr_app s) of
        None \<Rightarrow> None
      | Some v \<Rightarrow>
          if json_truthy (cp_me s)
          then (case operatorRoute (currentPath (fr_router s)) of
                  OperatorNotFound \<Rightarrow> None
                | shown \<Rightarrow> Some (shown, text_at v ''token''))
          else None)"

text \<open>What happens around the frames: links and the browser's buttons change the route, and a page inside the
  frame may end the session.\<close>

inductive_set console_inputs :: "console_segment set" where
  "(\<lambda>s. finish (go path s)) \<in> console_inputs"
| "(\<lambda>s. finish (s\<lparr>fr_router := browser_traverse path (fr_router s)\<rparr>)) \<in> console_inputs"
| "(\<lambda>s. finish (s\<lparr>fr_app := snd (clearSession (fr_app s))\<rparr>)) \<in> console_inputs"
| "(\<lambda>s. finish (s\<lparr>fr_env := env\<rparr>)) \<in> console_inputs"

definition portal_handlers :: "console_segment set" where
  "portal_handlers = {loadMe_portal, handleLogout_layout} \<union> console_inputs"

definition operator_handlers :: "console_segment set" where
  "operator_handlers = {loadMe_operator, handleLogout_layout} \<union> console_inputs"

end
