(* ===== verification/Views_Correct.thy ===== *)
theory Views_Correct
  imports Views
begin

text \<open>
  The pages behind the frames are mounted only with a token the server has accepted, under every
  interleaving; and every path that the pages link to leads to the page it names.
\<close>

section \<open>Tokens reach the pages only after the account was loaded\<close>

text \<open>
  \<open>v0\<close> is the session the frame was mounted with and \<open>req\<close> the request that loads the account
  behind a token: the session in the store is \<open>v0\<close> or has ended, and an account that is shown was answered
  for the token of \<open>v0\<close>, whose role \<open>ok\<close> accepts.
\<close>

definition me_request :: "js_string \<Rightarrow> js_string \<Rightarrow> request" where
  "me_request url token = \<lparr>req_method = ''GET'', req_url = url, req_headers = bearer token, req_body = None\<rparr>"

definition console_ok ::
  "json option \<Rightarrow> (json \<Rightarrow> bool) \<Rightarrow> js_string \<Rightarrow> console_page \<Rightarrow> net \<Rightarrow> request list \<Rightarrow> bool" where
  "console_ok v0 ok url s net log \<longleftrightarrow>
     (app_session (fr_app s) = None \<or> app_session (fr_app s) = v0) \<and>
     (\<forall>m. cp_me s = Some m \<longrightarrow> (\<exists>v. v0 = Some v \<and> ok v \<and> answered net log (me_request url (text_at v ''token'')) m))"

text \<open>Every request of the frames presents the token of that session.\<close>

definition console_request_ok :: "json option \<Rightarrow> net \<Rightarrow> request list \<Rightarrow> request \<Rightarrow> bool" where
  "console_request_ok v0 net log r \<longleftrightarrow>
     (\<exists>v. v0 = Some v \<and> map_of (req_headers r) ''authorization'' = Some (''Bearer '' @ text_at v ''token''))"

lemma text_at_member: "string_member v k = Some t \<Longrightarrow> text_at v k = t"
  by (simp add: text_at_def opt_or_def str_or_def)

interpretation console: framed_page "console_ok v0 ok url" "console_request_ok v0" for v0 ok url
  by unfold_locales
    (auto simp: console_ok_def console_request_ok_def logout_request_def bearer_def dest: answered_later, metis text_at_member)

abbreviation console_inv :: "json option \<Rightarrow> (json \<Rightarrow> bool) \<Rightarrow> js_string \<Rightarrow> console_page \<Rightarrow> world \<Rightarrow> bool" where
  "console_inv v0 ok url \<equiv> page_inv (console_ok v0 ok url) (console_request_ok v0)"

lemma console_inv_iff:
  "console_inv v0 ok url s w \<longleftrightarrow>
     (app_session (fr_app s) = None \<or> app_session (fr_app s) = v0) \<and>
     (\<forall>m. cp_me s = Some m \<longrightarrow>
        (\<exists>v. v0 = Some v \<and> ok v \<and> answered (w_net w) (w_http w) (me_request url (text_at v ''token'')) m)) \<and>
     requests_ok (console_request_ok v0) (w_net w) (w_http w)"
  by (auto simp: page_inv_def console_ok_def)

lemma me_request_ok: "v0 = Some v \<Longrightarrow> console_request_ok v0 net l (me_request url (text_at v ''token''))"
  by (simp add: console_request_ok_def me_request_def bearer_def)

lemma me_calls:
  "getPortalMe token = fetchJson (me_request ''/api/v1/portal/me'' token)"
  "getOperatorMe token = fetchJson (me_request ''/api/v1/operators/me'' token)"
  by (simp_all add: getPortalMe_def getOperatorMe_def api_call_def me_request_def)

lemma answer_later: "later w w' \<Longrightarrow> answered (w_net w) (w_http w) r v \<Longrightarrow> answered (w_net w') (w_http w') r v"
  by (auto simp: later_def answered_later)

lemma leave_console: "console.guarded v0 ok url w (leave (\<lambda>_ s. finish (lower_me s)) (\<lambda>s. finish (lower_me s)))"
  by (intro console.leave_guarded console.guarded_by safe_finish) (auto simp: console_inv_iff)

lemma sign_off_console: "console.guarded v0 ok url w (sign_off (\<lambda>_ s. finish (lower_me s)) (\<lambda>s. finish (lower_me s)))"
  by (intro console.sign_off_guarded console.guarded_by safe_finish) (auto simp: console_inv_iff)

lemma portal_failed: "console.guarded v0 ok url w (\<lambda>s. if unauthorized e
   then leave (\<lambda>_ s. finish (lower_me s)) (\<lambda>s. finish (lower_me s)) (s\<lparr>cp_errorMessage := show_error s e\<rparr>)
   else finish (lower_me (s\<lparr>cp_errorMessage := show_error s e\<rparr>)))"
  unfolding Let_def by (intro console.guarded_by)
    (auto simp: console_inv_iff intro!: safe_finish console.guardedD [OF leave_console])

lemma operator_failed: "console.guarded v0 ok url w (\<lambda>s. if unauthorized e
   then sign_off (\<lambda>_ s. finish (lower_me s)) (\<lambda>s. finish (lower_me s)) (s\<lparr>cp_errorMessage := show_error s e\<rparr>)
   else finish (lower_me (s\<lparr>cp_errorMessage := show_error s e\<rparr>)))"
  by (intro console.guarded_by)
    (auto simp: console_inv_iff Let_def intro!: safe_finish console.guardedD [OF sign_off_console])

lemma me_arrives:
  "answered (w_net w) (w_http w) (me_request url (text_at v ''token'')) m \<Longrightarrow> v0 = Some v \<Longrightarrow> ok v \<Longrightarrow>
   console.guarded v0 ok url w (\<lambda>s. finish (lower_me (s\<lparr>cp_me := Some m\<rparr>)))"
  by (intro console.guarded_by safe_finish) (auto simp: console_inv_iff dest: answer_later)

lemma loadMe_portal_guarded: "console.guarded v0 (\<lambda>v. \<not> operator_role v) ''/api/v1/portal/me'' w loadMe_portal"
  unfolding loadMe_portal_def me_calls
  by (intro console.guarded_by)
    (auto simp: Let_def intro!: console.guarded_http portal_failed me_arrives me_request_ok safe_finish console.go_ok
      split: option.splits, auto simp: console_inv_iff)

lemma loadMe_operator_guarded: "console.guarded v0 operator_role ''/api/v1/operators/me'' w loadMe_operator"
  unfolding loadMe_operator_def me_calls
  by (intro console.guarded_by)
    (auto simp: Let_def intro!: console.guarded_http operator_failed me_arrives me_request_ok safe_finish console.go_ok
      split: option.splits, auto simp: console_inv_iff)

lemma console_inputs_guarded: "h \<in> console_inputs \<Longrightarrow> console.guarded v0 ok url w h"
  by (erule console_inputs.cases)
    (auto intro!: console.guarded_by safe_finish console.go_ok simp: console_inv_iff clearSession_snd)

lemma layout_guarded: "console.guarded v0 ok url w handleLogout_layout"
  unfolding handleLogout_layout_def by (intro console.leave_guarded console.finish_guarded)

interpretation portal_frame: page_invariant portal_handlers later
    "console_inv v0 (\<lambda>v. \<not> operator_role v) ''/api/v1/portal/me''" for v0
  by unfold_locales
    (auto simp: portal_handlers_def loadMe_portal_guarded layout_guarded console_inputs_guarded intro: later_trans)

interpretation operator_frame: page_invariant operator_handlers later
    "console_inv v0 operator_role ''/api/v1/operators/me''" for v0
  by unfold_locales
    (auto simp: operator_handlers_def loadMe_operator_guarded layout_guarded console_inputs_guarded intro: later_trans)

lemma initial_console_simps [simp]:
  "fr_app (initial_console env a r) = a" "cp_me (initial_console env a r) = None"
  "cp_loading (initial_console env a r) = False" "fr_router (initial_console env a r) = r"
  by (simp_all add: initial_console_def initial_frame_def frame.extend_def)

lemma shown_token:
  "portal_shown s = Some (p, t) \<Longrightarrow> \<exists>v m. app_session (fr_app s) = Some v \<and> t = text_at v ''token'' \<and> cp_me s = Some m \<and>
     p = portalRoute (currentPath (fr_router s))"
  "operator_shown s = Some (q, t) \<Longrightarrow> \<exists>v m. app_session (fr_app s) = Some v \<and> t = text_at v ''token'' \<and> cp_me s = Some m \<and>
     q = operatorRoute (currentPath (fr_router s))"
  by (cases "cp_me s"; auto simp: portal_shown_def operator_shown_def split: if_splits option.splits portal_route.splits operator_route.splits)+

text \<open>C10. A page of the portal or of the operator console gets a token only after the server has accepted it.
  However the user's clicks, the browser's buttons, a logout and the answers interleave, a page that is mounted inside
  the frame gets the token of the very session the frame was opened with, and the server has answered
  the account request that carried this token; the role of the session is an operator's in the console and
  is none in the portal.  The page is the one the address bar names, and every request of the frames carries the token
  of that session.\<close>

theorem console_pages_guarded:
  assumes w: "w_http w = []"
    and portal: "page_reachable portal_handlers (fresh_page (initial_console env a rt) w) pg"
    and operator: "page_reachable operator_handlers (fresh_page (initial_console env a rt) w) og"
  shows "(\<forall>route token. portal_shown (pg_state pg) = Some (route, token) \<longrightarrow>
       route = portalRoute (currentPath (fr_router (pg_state pg))) \<and>
       (\<exists>v m. app_session a = Some v \<and> token = text_at v ''token'' \<and> \<not> operator_role v \<and>
          answered (w_net (pg_world pg)) (w_http (pg_world pg)) (me_request ''/api/v1/portal/me'' token) m)) \<and>
     (\<forall>route token. operator_shown (pg_state og) = Some (route, token) \<longrightarrow>
       route = operatorRoute (currentPath (fr_router (pg_state og))) \<and>
       (\<exists>v m. app_session a = Some v \<and> token = text_at v ''token'' \<and> operator_role v \<and>
          answered (w_net (pg_world og)) (w_http (pg_world og)) (me_request ''/api/v1/operators/me'' token) m)) \<and>
     (\<forall>r \<in> set (w_http (pg_world pg)) \<union> set (w_http (pg_world og)). \<exists>v. app_session a = Some v \<and>
       map_of (req_headers r) ''authorization'' = Some (''Bearer '' @ text_at v ''token''))"
proof -
  have p: "console_inv (app_session a) (\<lambda>v. \<not> operator_role v) ''/api/v1/portal/me'' (pg_state pg) (pg_world pg)"
    by (rule portal_frame.reachable_invariant [OF portal]) (simp_all add: console_inv_iff fresh_page_def w)
  have q: "console_inv (app_session a) operator_role ''/api/v1/operators/me'' (pg_state og) (pg_world og)"
    by (rule operator_frame.reachable_invariant [OF operator]) (simp_all add: console_inv_iff fresh_page_def w)
  have req: "\<exists>v. app_session a = Some v \<and> map_of (req_headers r) ''authorization'' = Some (''Bearer '' @ text_at v ''token'')"
    if "requests_ok (console_request_ok (app_session a)) net log" "r \<in> set log" for net log r
    using that by (force simp: requests_ok_def console_request_ok_def dest: split_list)
  have "portal_shown (pg_state pg) = Some (route, token) \<Longrightarrow> route = portalRoute (currentPath (fr_router (pg_state pg))) \<and>
      (\<exists>v m. app_session a = Some v \<and> token = text_at v ''token'' \<and> \<not> operator_role v \<and>
         answered (w_net (pg_world pg)) (w_http (pg_world pg)) (me_request ''/api/v1/portal/me'' token) m)" for route token
    using p by (auto simp: console_inv_iff dest!: shown_token(1))
  moreover have "operator_shown (pg_state og) = Some (route, token) \<Longrightarrow> route = operatorRoute (currentPath (fr_router (pg_state og))) \<and>
      (\<exists>v m. app_session a = Some v \<and> token = text_at v ''token'' \<and> operator_role v \<and>
         answered (w_net (pg_world og)) (w_http (pg_world og)) (me_request ''/api/v1/operators/me'' token) m)" for route token
    using q by (auto simp: console_inv_iff dest!: shown_token(2))
  ultimately show ?thesis using p q req by (fastforce simp: console_inv_iff)
qed

definition sample_portal_app :: app where
  "sample_portal_app = sample_app\<lparr>app_session := Some (JObj [(''token'', JStr ''t''), (''role'', JStr ''customer'')])\<rparr>"

definition sample_me :: "(console_page, world) page" where
  "sample_me = (case run_all [loadMe_portal] (initial_console sample_env sample_portal_app (load_router ''/portal/billing'' sample_storage))
     (sample_world (\<lambda>_. JObj [(''username'', JStr ''ann'')])) of (s, w) \<Rightarrow> fresh_page s w)"

lemma sample_me_shown: "portal_shown (pg_state sample_me) = Some (PortalBilling, ''t'')"
  by (simp add: sample_me_def fresh_page_def loadMe_portal_def getPortalMe_def run_eval sample_portal_app_def operator_role_def
      text_at_def opt_or_def string_member_def obj_get_def str_or_def initial_console_def initial_frame_def frame.extend_def
      sample_world_def portal_shown_def truthy_def load_router_def normalizeAppPath_def appBasePath_def SAFE_APP_BASE_PATH_def
      stripBasePath_def normalizePath_def startsWith_def endsWith_def portalRoute_def path_parts_def)

theorem console_pages_guarded_witness:
  "\<exists>m. answered (w_net (pg_world sample_me)) (w_http (pg_world sample_me)) (me_request ''/api/v1/portal/me'' ''t'') m"
proof -
  let ?s = "initial_console sample_env sample_portal_app (load_router ''/portal/billing'' sample_storage)"
  let ?w = "sample_world (\<lambda>_. JObj [(''username'', JStr ''ann'')])"
  have "page_reachable portal_handlers (fresh_page ?s ?w) sample_me"
    using run_all_reachable [of "[loadMe_portal]" portal_handlers ?s ?w]
    by (simp add: portal_handlers_def sample_me_def split_beta)
  moreover have "w_http ?w = []" by (simp add: sample_world_def)
  ultimately show ?thesis
    using console_pages_guarded [of ?w _ _ _ sample_me "fresh_page ?s ?w"] sample_me_shown by blast
qed

section \<open>Links\<close>

text \<open>A path segment as it stands in a link, and the links of the pages for a slug, an agent or an operation \<open>x\<close>.\<close>

definition plain_text :: "js_string \<Rightarrow> bool" where
  "plain_text x \<longleftrightarrow> x \<noteq> [] \<and> (\<forall>c \<in> set x. c \<noteq> CHR ''/'' \<and> c \<noteq> CHR ''?'' \<and> c \<noteq> CHR ''#'')"

definition portal_links :: "js_string \<Rightarrow> (js_string \<times> portal_route) list" where
  "portal_links x =
     [(''/portal/instances'', PortalInstances), (''/portal/instances/'' @ x, PortalInstance x),
      (''/portal/instances/'' @ x @ ''/usage'', PortalInstanceUsage x), (''/portal/instances/'' @ x @ ''/budgets'', PortalInstanceBudgets x),
      (''/portal/billing'', PortalBilling), (''/portal/souls'', PortalSouls), (''/portal/souls/register'', PortalSoulRegister),
      (''/portal/souls/'' @ x, PortalSoulAgent x), (''/portal/souls/'' @ x @ ''/mint'', PortalSoulMint x)]"

definition operator_links :: "js_string \<Rightarrow> (js_string \<times> operator_route) list" where
  "operator_links x =
     [(''/operator'', OperatorDashboard), (''/operator/approvals/domains'', OperatorVanityDomains),
      (''/operator/approvals/users'', OperatorPortalUsers), (''/operator/approvals/external-instances'', OperatorExternalRegistrations),
      (''/operator/provisioning'', OperatorProvisioningJobs), (''/operator/provisioning/jobs'', OperatorProvisioningJobs),
      (''/operator/provisioning/jobs/'' @ x, OperatorProvisioningJobDetail x), (''/operator/releases'', OperatorReleases),
      (''/operator/instances'', OperatorInstances), (''/operator/instances/'' @ x, OperatorInstanceDetail x),
      (''/operator/tip-registry'', OperatorTipRegistry), (''/operator/tip-registry/operations/'' @ x, OperatorTipRegistryOperation x),
      (''/operator/soul'', OperatorSoulRegistry), (''/operator/soul/operations/'' @ x, OperatorSoulOperation x),
      (''/operator/audit'', OperatorAudit)]"

definition tab_route :: "js_string \<Rightarrow> TabKey \<Rightarrow> portal_route" where
  "tab_route slug key =
     (case key of Overview \<Rightarrow> PortalInstance slug | Cost \<Rightarrow> PortalInstanceCost slug | Config \<Rightarrow> PortalInstanceConfig slug
      | Domains \<Rightarrow> PortalInstanceDomains slug | Keys \<Rightarrow> PortalInstanceKeys slug | Souls \<Rightarrow> PortalInstanceSouls slug)"

lemma split_plain:
  assumes "plain_text x"
  shows "split_on CHR ''/'' x = [x]" "split_on CHR ''/'' (x @ CHR ''/'' # y) = x # split_on CHR ''/'' y" "x \<noteq> []"
  using assms by (auto simp: plain_text_def intro!: split_on_no_sep split_on_append_sep)

text \<open>The paths of the links are normal: they keep their text and stay in the application.\<close>

lemma link_normal:
  assumes "startsWith p ''/''" and "last p \<noteq> CHR ''/''" and "\<forall>c \<in> set p. c \<noteq> CHR ''?'' \<and> c \<noteq> CHR ''#''"
  shows "app_path p" "normalizePath p = p"
proof -
  have p: "p \<noteq> []" using assms(1) by (auto simp: startsWith_def)
  have n: "\<not> endsWith p ''/''" using assms(2) by (simp add: slash_end)
  then have "\<not> endsWith p ''//''" by (metis append_Cons append_Nil endsWith_iff_suffix suffix_def append.assoc)
  then show "app_path p" using assms by (simp add: app_path_def)
  show "normalizePath p = p" using p n by (simp add: normalizePath_def)
qed

lemma link_followed:
  "router_ok r \<Longrightarrow> startsWith p ''/'' \<Longrightarrow> last p \<noteq> CHR ''/'' \<Longrightarrow> \<forall>c \<in> set p. c \<noteq> CHR ''?'' \<and> c \<noteq> CHR ''#'' \<Longrightarrow>
   currentPath (navigate p r) = p"
  using navigate_target [of r p] link_normal [of p] by simp

lemma plain_last: "plain_text x \<Longrightarrow> last x \<noteq> CHR ''/''"
  using last_in_set [of x] by (auto simp: plain_text_def)

definition link_text :: "js_string \<Rightarrow> bool" where
  "link_text p \<longleftrightarrow> startsWith p ''/'' \<and> last p \<noteq> CHR ''/'' \<and> (\<forall>c \<in> set p. c \<noteq> CHR ''?'' \<and> c \<noteq> CHR ''#'')"

lemma portal_links_text: "plain_text x \<Longrightarrow> \<forall>(p, q) \<in> set (portal_links x). link_text p"
  using plain_last [of x] by (simp add: portal_links_def link_text_def startsWith_def plain_text_def)

lemma portal_links_view: "plain_text x \<Longrightarrow> \<forall>(p, q) \<in> set (portal_links x). app_view p = (PortalShell, Some PortalPage)"
  by (simp add: portal_links_def app_view_def isOperatorRoute_def isPortalShellRoute_def shell_view_def isPortalTrustRoute_def
      isPortalTrustDashboardRoute_def isPortalAccountRoute_def startsWith_def)

lemma portal_links_route:
  "plain_text x \<Longrightarrow> x \<noteq> ''register'' \<Longrightarrow> \<forall>(p, q) \<in> set (portal_links x). portalRoute p = q"
  using split_plain [of x]
  by (simp add: portal_links_def portalRoute_def path_parts_def instance_route_def soul_route_def startsWith_def)

lemma operator_links_text: "plain_text x \<Longrightarrow> \<forall>(p, q) \<in> set (operator_links x). link_text p"
  using plain_last [of x] by (simp add: operator_links_def link_text_def startsWith_def plain_text_def)

lemma operator_links_view: "\<forall>(p, q) \<in> set (operator_links x). app_view p = (OperatorLayout, Some OperatorPage)"
  by (simp add: operator_links_def app_view_def isOperatorRoute_def startsWith_def)

lemma operator_links_route: "plain_text x \<Longrightarrow> \<forall>(p, q) \<in> set (operator_links x). operatorRoute p = q"
  using split_plain [of x] by (simp add: operator_links_def operatorRoute_def path_parts_def startsWith_def)

lemma tabHref_simps:
  "tabHref slug Overview = ''/portal/instances/'' @ slug" "tabHref slug Cost = ''/portal/instances/'' @ slug @ ''/cost''"
  "tabHref slug Config = ''/portal/instances/'' @ slug @ ''/config''" "tabHref slug Domains = ''/portal/instances/'' @ slug @ ''/domains''"
  "tabHref slug Keys = ''/portal/instances/'' @ slug @ ''/keys''" "tabHref slug Souls = ''/portal/instances/'' @ slug @ ''/souls''"
  by (simp_all add: tabHref_def tabs_def)

lemma tab_text: "plain_text slug \<Longrightarrow> link_text (tabHref slug key)"
  using plain_last [of slug] by (cases key; simp add: tabHref_simps link_text_def startsWith_def plain_text_def)

lemma tab_view: "plain_text slug \<Longrightarrow> app_view (tabHref slug key) = (PortalShell, Some PortalPage)"
  by (cases key; simp add: tabHref_simps app_view_def isOperatorRoute_def isPortalShellRoute_def shell_view_def isPortalTrustRoute_def
      isPortalTrustDashboardRoute_def isPortalAccountRoute_def startsWith_def)

lemma tab_page: "plain_text slug \<Longrightarrow> portalRoute (tabHref slug key) = tab_route slug key"
  using split_plain [of slug]
  by (cases key; simp add: tabHref_simps tab_route_def portalRoute_def path_parts_def instance_route_def startsWith_def)

lemma tab_active: "activeKey slug (tabHref slug key) = key"
  by (cases key; simp add: tabHref_simps activeKey_def at_tab_def startsWith_def Let_def)

lemma tab_arrows:
  assumes "i < length tabs"
  shows "\<exists>j. next_tab ''ArrowRight'' i = Some j \<and> j < length tabs \<and> next_tab ''ArrowLeft'' j = Some i"
    and "\<exists>j. next_tab ''ArrowLeft'' i = Some j \<and> j < length tabs \<and> next_tab ''ArrowRight'' j = Some i"
proof -
  have "i = 0 \<or> i = 1 \<or> i = 2 \<or> i = 3 \<or> i = 4 \<or> i = 5" using assms by (simp add: tabs_def) linarith
  then show "\<exists>j. next_tab ''ArrowRight'' i = Some j \<and> j < length tabs \<and> next_tab ''ArrowLeft'' j = Some i"
    "\<exists>j. next_tab ''ArrowLeft'' i = Some j \<and> j < length tabs \<and> next_tab ''ArrowRight'' j = Some i"
    by (auto simp: next_tab_def tabs_def)
qed

lemma tab_keydown:
  "next_tab pressed i = Some j \<Longrightarrow> j < length tabs \<Longrightarrow>
   onTabKeydown slug pressed i r = (onTabClick slug (fst (tabs ! j)) r, Some (fst (tabs ! j)))"
  by (simp add: onTabKeydown_def onTabClick_def)



end
