(* ===== verification/Instance_Pages.thy ===== *)
theory Instance_Pages
  imports Frame Instance_Config
begin

text \<open>
  The portal's pages of one instance, \<^verbatim>\<open>web/src/pages/portal/\<close>: its keys (\<^verbatim>\<open>InstanceKeys.svelte\<close>), its
  domains (\<^verbatim>\<open>InstanceDomains.svelte\<close>), its budgets and usage (\<^verbatim>\<open>InstanceBudgets.svelte\<close>,
  \<^verbatim>\<open>InstanceUsage.svelte\<close>), its cost (\<^verbatim>\<open>InstanceCost.svelte\<close>), and its souls (\<^verbatim>\<open>InstanceSouls.svelte\<close>).
  Each is mounted with a token and the slug from the path.  An answer of the server that is only displayed is
  kept as the JSON value it is.
\<close>

record instance_frame = frame +
  ip_token :: js_string
  ip_slug :: js_string

type_synonym 'a instance_segment = "('a instance_frame_scheme, world) segment"

text \<open>\<open>res.member ?? []\<close> of an answer: reading a member of \<open>null\<close> throws.\<close>

definition list_member :: "json \<Rightarrow> js_string \<Rightarrow> js_error + json list" where
  "list_member v k =
     (if v = JNull then Inl (TypeError ''null has no properties'')
      else Inr (case obj_get v k of Some (JArr xs) \<Rightarrow> xs | _ \<Rightarrow> []))"

text \<open>An integer member of an answer.\<close>

definition int_at :: "json \<Rightarrow> js_string \<Rightarrow> int option" where
  "int_at v k = (case obj_get v k of Some (JNum n) \<Rightarrow> parseIntStrict n | _ \<Rightarrow> None)"

section \<open>Keys\<close>

record keys_page = instance_frame +
  ky_createLoading :: bool
  ky_createError :: "js_string option"
  ky_created :: "json option"
  ky_keysLoading :: bool
  ky_keysError :: "js_string option"
  ky_keys :: "json list"
  ky_revoking :: "js_string option"
  ky_copyNotice :: "js_string option"

type_synonym keys_segment = "(keys_page, world) segment"

definition copy_key :: "js_string \<Rightarrow> keys_segment" where
  "copy_key text s =
     try_await (clipboard_write text) (\<lambda>_ s. finish (s\<lparr>ky_copyNotice := Some ''Copy failed.''\<rparr>))
       (\<lambda>_ s. try_await timer (\<lambda>_. finish) (\<lambda>_ s. finish (s\<lparr>ky_copyNotice := None\<rparr>))
          (s\<lparr>ky_copyNotice := Some ''Copied to clipboard.''\<rparr>))
       (s\<lparr>ky_copyNotice := None\<rparr>)"

definition loadKeys :: keys_segment where
  "loadKeys s =
     (let lower = (\<lambda>s. s\<lparr>ky_keysLoading := False\<rparr>);
          failed = rejected lower (\<lambda>e s. s\<lparr>ky_keysError := show_error s e\<rparr>) (\<lambda>_. finish) finish in
      try_await (http (portalListInstanceKeys (ip_token s) (ip_slug s) (Some 50))) failed
        (\<lambda>res s. case list_member res ''keys'' of
           Inl e \<Rightarrow> failed e s
         | Inr keys \<Rightarrow> finish (lower (s\<lparr>ky_keys := keys\<rparr>)))
        (s\<lparr>ky_keysError := None, ky_keysLoading := True\<rparr>))"

definition createKey :: keys_segment where
  "createKey s =
     (let lower = (\<lambda>s. s\<lparr>ky_createLoading := False\<rparr>);
          failed = rejected lower (\<lambda>e s. s\<lparr>ky_createError := show_error s e\<rparr>) (\<lambda>_. finish) finish in
      try_await (http (portalCreateInstanceKey (ip_token s) (ip_slug s))) failed
        (\<lambda>key s. detach lower loadKeys (s\<lparr>ky_created := Some key\<rparr>))
        (s\<lparr>ky_createError := None, ky_created := None, ky_createLoading := True\<rparr>))"

definition revokeKey :: "js_string \<Rightarrow> keys_segment" where
  "revokeKey keyId s =
     (let lower = (\<lambda>s. s\<lparr>ky_revoking := None\<rparr>);
          failed = rejected lower (\<lambda>e s. s\<lparr>ky_keysError := show_error s e\<rparr>) (\<lambda>_. finish) finish in
      if js_trim keyId = [] then finish s
      else if \<not> env_confirm (fr_env s) (''Revoke key '' @ keyId @ ''? This immediately invalidates it.'') then finish s
      else
        try_await (http (portalRevokeInstanceKey (ip_token s) (ip_slug s) keyId)) failed
          (\<lambda>_ s. detach lower loadKeys s)
          (s\<lparr>ky_revoking := Some keyId\<rparr>))"

definition dismissKey :: keys_segment where
  "dismissKey s = finish (s\<lparr>ky_created := None\<rparr>)"

text \<open>The ids of keys and the names of domains come from the server; none is a dot segment.\<close>

definition keys_handlers :: "keys_segment set" where
  "keys_handlers =
     {loadKeys, createKey, dismissKey} \<union> range copy_key \<union> revokeKey ` {k. \<not> dot_segment k} \<union>
     {\<lambda>s. finish (s\<lparr>fr_env := (fr_env s)\<lparr>env_confirm := f\<rparr>\<rparr>) | f. True}"

section \<open>Domains\<close>

record domains_page = instance_frame +
  dm_loading :: bool
  dm_errorMessage :: "js_string option"
  dm_domains :: "json list"
  dm_addDomain :: js_string
  dm_addLoading :: bool
  dm_addError :: "js_string option"
  dm_actionLoadingDomain :: "js_string option"
  dm_actionError :: "js_string option"
  dm_verificationByDomain :: "js_string \<Rightarrow> json option"
  dm_copyNotice :: "js_string option"

type_synonym domains_segment = "(domains_page, world) segment"

definition primaryDomain :: "domains_page \<Rightarrow> json option" where
  "primaryDomain s = find (\<lambda>d. string_member d ''type'' = Some ''primary'') (dm_domains s)"

definition vanityDomains :: "domains_page \<Rightarrow> json list" where
  "vanityDomains s = filter (\<lambda>d. string_member d ''type'' \<noteq> Some ''primary'') (dm_domains s)"

definition vanityStatusLabel :: "json \<Rightarrow> js_string" where
  "vanityStatusLabel d =
     (if text_at d ''type'' \<noteq> ''vanity'' then text_at d ''status''
      else if text_at d ''status'' = ''verified'' then ''verified (awaiting approval)''
      else text_at d ''status'')"

text \<open>Called by the other handlers too: what it throws, when \<open>logout\<close> is rejected, goes to \<open>throw\<close>.\<close>

definition loadDomains :: "(js_error \<Rightarrow> domains_segment) \<Rightarrow> domains_segment \<Rightarrow> domains_segment" where
  "loadDomains throw k s =
     (let lower = (\<lambda>s. s\<lparr>dm_loading := False\<rparr>);
          failed = rejected lower (\<lambda>e s. s\<lparr>dm_errorMessage := show_error s e\<rparr>) throw k in
      try_await (http (portalListInstanceDomains (ip_token s) (ip_slug s))) failed
        (\<lambda>res s. case list_member res ''domains'' of
           Inl e \<Rightarrow> failed e s
         | Inr domains \<Rightarrow> k (lower (s\<lparr>dm_domains := domains\<rparr>)))
        (s\<lparr>dm_errorMessage := None, dm_domains := [], dm_loading := True\<rparr>))"

definition copy_domain :: "js_string \<Rightarrow> domains_segment" where
  "copy_domain text s =
     try_await (clipboard_write text) (\<lambda>_ s. finish (s\<lparr>dm_copyNotice := Some ''Copy failed.''\<rparr>))
       (\<lambda>_ s. try_await timer (\<lambda>_. finish) (\<lambda>_ s. finish (s\<lparr>dm_copyNotice := None\<rparr>))
          (s\<lparr>dm_copyNotice := Some ''Copied to clipboard.''\<rparr>))
       (s\<lparr>dm_copyNotice := None\<rparr>)"

text \<open>\<open>verificationByDomain = {...verificationByDomain, [res.domain.domain]: res.verification}\<close>\<close>

definition keep_verification :: "json \<Rightarrow> domains_page \<Rightarrow> js_error + domains_page" where
  "keep_verification res s =
     (case obj_get res ''domain'' of
        None \<Rightarrow> Inl (TypeError ''undefined has no properties'')
      | Some JNull \<Rightarrow> Inl (TypeError ''null has no properties'')
      | Some d \<Rightarrow>
          Inr (s\<lparr>dm_verificationByDomain :=
            (dm_verificationByDomain s)(text_at d ''domain'' := obj_get res ''verification'')\<rparr>))"

definition addVanityDomain :: domains_segment where
  "addVanityDomain s =
     (let s = s\<lparr>dm_addError := None\<rparr>;
          raw = js_trim (dm_addDomain s);
          lower = (\<lambda>s. s\<lparr>dm_addLoading := False\<rparr>);
          failed = rejected lower (\<lambda>e s. s\<lparr>dm_addError := show_error s e\<rparr>) (\<lambda>_. finish) finish in
      if raw = [] then finish (s\<lparr>dm_addError := Some ''Domain is required.''\<rparr>)
      else
        try_await (http (portalAddInstanceDomain (ip_token s) (ip_slug s) raw)) failed
          (\<lambda>res s. case keep_verification res s of
             Inl e \<Rightarrow> failed e s
           | Inr s \<Rightarrow> loadDomains failed (\<lambda>s. finish (lower s)) (s\<lparr>dm_addDomain := []\<rparr>))
          (s\<lparr>dm_addLoading := True\<rparr>))"

text \<open>The actions on a domain share their \<open>catch\<close> and \<open>finally\<close>.\<close>

abbreviation lower_action :: "domains_page \<Rightarrow> domains_page" where
  "lower_action s \<equiv> s\<lparr>dm_actionLoadingDomain := None\<rparr>"

definition action_failed :: "js_error \<Rightarrow> domains_segment" where
  "action_failed = rejected lower_action (\<lambda>e s. s\<lparr>dm_actionError := show_error s e\<rparr>) (\<lambda>_. finish) finish"

definition action_done :: domains_segment where
  "action_done = loadDomains action_failed (\<lambda>s. finish (lower_action s))"

definition rotate_domain :: "js_string \<Rightarrow> domains_segment" where
  "rotate_domain domain s =
     try_await (http (portalRotateInstanceDomain (ip_token s) (ip_slug s) domain)) action_failed
       (\<lambda>res s. case keep_verification res s of Inl e \<Rightarrow> action_failed e s | Inr s \<Rightarrow> action_done s)
       (s\<lparr>dm_actionError := None, dm_actionLoadingDomain := Some domain\<rparr>)"

definition verify_domain :: "js_string \<Rightarrow> domains_segment" where
  "verify_domain domain s =
     try_await (http (portalVerifyInstanceDomain (ip_token s) (ip_slug s) domain)) action_failed (\<lambda>_. action_done)
       (s\<lparr>dm_actionError := None, dm_actionLoadingDomain := Some domain\<rparr>)"

definition route53AssistAndVerify :: "js_string \<Rightarrow> domains_segment" where
  "route53AssistAndVerify domain s =
     try_await (http (portalUpsertDomainVerificationRoute53 (ip_token s) (ip_slug s) domain)) action_failed
       (\<lambda>_ s. try_await (http (portalVerifyInstanceDomain (ip_token s) (ip_slug s) domain)) action_failed (\<lambda>_. action_done) s)
       (s\<lparr>dm_actionError := None, dm_actionLoadingDomain := Some domain\<rparr>)"

definition disable_domain :: "js_string \<Rightarrow> domains_segment" where
  "disable_domain domain s =
     try_await (http (portalDisableInstanceDomain (ip_token s) (ip_slug s) domain)) action_failed (\<lambda>_. action_done)
       (s\<lparr>dm_actionError := None, dm_actionLoadingDomain := Some domain\<rparr>)"

definition remove_domain :: "js_string \<Rightarrow> domains_segment" where
  "remove_domain domain s =
     (let s = s\<lparr>dm_actionError := None\<rparr> in
      if \<not> env_confirm (fr_env s) (''Delete domain '' @ [CHR 0x22] @ domain @ [CHR 0x22] @ ''?'') then finish s
      else
        try_await (http (portalDeleteInstanceDomain (ip_token s) (ip_slug s) domain)) action_failed (\<lambda>_. action_done)
          (s\<lparr>dm_actionLoadingDomain := Some domain\<rparr>))"

definition domains_handlers :: "domains_segment set" where
  "domains_handlers =
     {loadDomains (\<lambda>_. finish) finish, addVanityDomain} \<union> range copy_domain \<union>
     (\<Union>d \<in> {d. \<not> dot_segment d}. {rotate_domain d, verify_domain d, route53AssistAndVerify d, disable_domain d, remove_domain d}) \<union>
     {\<lambda>s. finish (s\<lparr>dm_addDomain := t\<rparr>) | t. True} \<union>
     {\<lambda>s. finish (s\<lparr>fr_env := (fr_env s)\<lparr>env_confirm := f\<rparr>\<rparr>) | f. True}"

section \<open>Budgets and usage\<close>

text \<open>\<open>new Date().toISOString().slice(0, 7)\<close>; \<open>toISOString\<close> of the current date does not throw.\<close>

definition currentMonthUTC :: "env \<Rightarrow> js_string" where
  "currentMonthUTC env = take 7 (opt_or (date_iso (env_clock env) (date_now (env_clock env))) [])"

text \<open>\<open>/^[0-9]{4}-[0-9]{2}$/\<close>\<close>

definition month_shape :: "js_string \<Rightarrow> bool" where
  "month_shape m \<longleftrightarrow>
     length m = 7 \<and> list_all is_digit (take 4 m) \<and> m ! 4 = CHR ''-'' \<and> list_all is_digit (drop 5 m)"

definition normalizeMonth :: "js_string \<Rightarrow> js_string option" where
  "normalizeMonth input =
     (let trimmed = js_trim input in
      if \<not> month_shape trimmed then None
      else
        (case parseInt10 (drop 5 trimmed) of
           None \<Rightarrow> None
         | Some mm \<Rightarrow> if mm < 1 \<or> mm > 12 then None else Some trimmed))"

text \<open>\<open>Number.parseInt(s.trim(), 10)\<close>: the sign and the digits at the front.\<close>

definition leading_int :: "js_string \<Rightarrow> int option" where
  "leading_int raw =
     (let t = js_trim raw;
          neg = startsWith t ''-'';
          ds = takeWhile is_digit (if neg \<or> startsWith t ''+'' then tl t else t) in
      if ds = [] then None else parseInt10 ((if neg then ''-'' else []) @ ds))"

text \<open>\<open>String(b.included_credits || 0)\<close>\<close>

definition number_text :: "json option \<Rightarrow> js_string" where
  "number_text v = (case v of Some (JNum n) \<Rightarrow> if zero_number n then ''0'' else n | _ \<Rightarrow> ''0'')"

record budgets_page = instance_frame +
  bd_month :: js_string
  bd_loading :: bool
  bd_errorMessage :: "js_string option"
  bd_budget :: "json option"
  bd_summary :: "json option"
  bd_budgetsList :: "json option"
  bd_includedCreditsInput :: js_string
  bd_setBudgetLoading :: bool
  bd_setBudgetError :: "js_string option"
  bd_buyCreditsInput :: js_string
  bd_buyLoading :: bool
  bd_buyError :: "js_string option"

type_synonym budgets_segment = "(budgets_page, world) segment"

definition loadAll_budgets :: "(js_error \<Rightarrow> budgets_segment) \<Rightarrow> budgets_segment \<Rightarrow> budgets_segment" where
  "loadAll_budgets throw k s =
     (let s = s\<lparr>bd_errorMessage := None, bd_budget := None, bd_summary := None, bd_budgetsList := None\<rparr>;
          lower = (\<lambda>s. s\<lparr>bd_loading := False\<rparr>);
          failed = rejected lower (\<lambda>e s. s\<lparr>bd_errorMessage := show_error s e\<rparr>) throw k in
      case normalizeMonth (bd_month s) of
        None \<Rightarrow> k (s\<lparr>bd_errorMessage := Some ''Invalid month. Expected YYYY-MM.''\<rparr>)
      | Some month \<Rightarrow>
          try_await (http_all3 (portalGetBudgetMonth (ip_token s) (ip_slug s) month)
              (portalGetUsageSummary (ip_token s) (ip_slug s) month) (portalListBudgets (ip_token s) (ip_slug s))) failed
            (\<lambda>(b, sm, bl) s.
               let s = s\<lparr>bd_budget := Some b, bd_summary := Some sm, bd_budgetsList := Some bl\<rparr> in
               if b = JNull then failed (TypeError ''null has no properties'') s
               else k (lower (s\<lparr>bd_includedCreditsInput := number_text (obj_get b ''included_credits'')\<rparr>)))
            (s\<lparr>bd_loading := True\<rparr>))"

definition setBudgetMonth :: budgets_segment where
  "setBudgetMonth s =
     (let s = s\<lparr>bd_setBudgetError := None\<rparr>;
          lower = (\<lambda>s. s\<lparr>bd_setBudgetLoading := False\<rparr>);
          failed = rejected lower (\<lambda>e s. s\<lparr>bd_setBudgetError := show_error s e\<rparr>) (\<lambda>_. finish) finish in
      case normalizeMonth (bd_month s) of
        None \<Rightarrow> finish (s\<lparr>bd_setBudgetError := Some ''Invalid month. Expected YYYY-MM.''\<rparr>)
      | Some month \<Rightarrow>
          (case leading_int (bd_includedCreditsInput s) of
             None \<Rightarrow> finish (s\<lparr>bd_setBudgetError := Some ''Included credits must be a non-negative integer.''\<rparr>)
           | Some parsed \<Rightarrow>
               if parsed < 0 then finish (s\<lparr>bd_setBudgetError := Some ''Included credits must be a non-negative integer.''\<rparr>)
               else
                 try_await (http (portalSetBudgetMonth (ip_token s) (ip_slug s) month parsed)) failed
                   (\<lambda>b s. loadAll_budgets failed (\<lambda>s. finish (lower s)) (s\<lparr>bd_budget := Some b\<rparr>))
                   (s\<lparr>bd_setBudgetLoading := True\<rparr>)))"

definition buyCredits :: budgets_segment where
  "buyCredits s =
     (let s = s\<lparr>bd_buyError := None\<rparr>;
          lower = (\<lambda>s. s\<lparr>bd_buyLoading := False\<rparr>);
          failed = rejected lower (\<lambda>e s. s\<lparr>bd_buyError := show_error s e\<rparr>) (\<lambda>_. finish) finish in
      case normalizeMonth (bd_month s) of
        None \<Rightarrow> finish (s\<lparr>bd_buyError := Some ''Invalid month. Expected YYYY-MM.''\<rparr>)
      | Some month \<Rightarrow>
          (case leading_int (bd_buyCreditsInput s) of
             None \<Rightarrow> finish (s\<lparr>bd_buyError := Some ''Credits must be a positive integer.''\<rparr>)
           | Some credits \<Rightarrow>
               if credits \<le> 0 then finish (s\<lparr>bd_buyError := Some ''Credits must be a positive integer.''\<rparr>)
               else
                 try_await (http (portalCreateCreditsCheckout (ip_token s) (obj_lit
                     [(''instance_slug'', Some (JStr (ip_slug s))), (''credits'', Some (jnum credits)), (''month'', Some (JStr month))])))
                   failed
                   (\<lambda>res s.
                      case read_text res ''checkout_url'' of
                        Inl e \<Rightarrow> failed e s
                      | Inr url \<Rightarrow>
                          if \<not> isSafeRedirectUrl (env_URL (fr_env s)) (env_origin (fr_env s)) url
                          then finish (lower (s\<lparr>bd_buyError := Some ''Invalid checkout URL received from server.''\<rparr>))
                          else finish (lower (location_assign url s)))
                   (s\<lparr>bd_buyLoading := True\<rparr>)))"

definition budgets_handlers :: "budgets_segment set" where
  "budgets_handlers =
     {loadAll_budgets (\<lambda>_. finish) finish, setBudgetMonth, buyCredits} \<union>
     {\<lambda>s. finish (s\<lparr>bd_month := t\<rparr>) | t. True} \<union> {\<lambda>s. finish (s\<lparr>bd_includedCreditsInput := t\<rparr>) | t. True} \<union>
     {\<lambda>s. finish (s\<lparr>bd_buyCreditsInput := t\<rparr>) | t. True}"

record usage_page = instance_frame +
  us_month :: js_string
  us_loading :: bool
  us_errorMessage :: "js_string option"
  us_summary :: "json option"
  us_ledger :: "json option"

type_synonym usage_segment = "(usage_page, world) segment"

definition loadAll_usage :: usage_segment where
  "loadAll_usage s =
     (let s = s\<lparr>us_errorMessage := None, us_summary := None, us_ledger := None\<rparr>;
          lower = (\<lambda>s. s\<lparr>us_loading := False\<rparr>);
          failed = rejected lower (\<lambda>e s. s\<lparr>us_errorMessage := show_error s e\<rparr>) (\<lambda>_. finish) finish in
      case normalizeMonth (us_month s) of
        None \<Rightarrow> finish (s\<lparr>us_errorMessage := Some ''Invalid month. Expected YYYY-MM.''\<rparr>)
      | Some month \<Rightarrow>
          try_await (http_all (portalGetUsageSummary (ip_token s) (ip_slug s) month)
              (portalListUsage (ip_token s) (ip_slug s) month)) failed
            (\<lambda>(sm, l) s. finish (lower (s\<lparr>us_summary := Some sm, us_ledger := Some l\<rparr>)))
            (s\<lparr>us_loading := True\<rparr>))"

definition usage_handlers :: "usage_segment set" where
  "usage_handlers = {loadAll_usage} \<union> {\<lambda>s. finish (s\<lparr>us_month := t\<rparr>) | t. True}"

section \<open>Cost and souls\<close>

text \<open>\<open>Date.prototype.toISOString\<close> of the current time starts with the year and the month.\<close>

definition month_clock :: "clock \<Rightarrow> bool" where
  "month_clock c \<longleftrightarrow> (\<exists>text. date_iso c (date_now c) = Some text \<and> month_shape (take 7 text))"

record cost_page = instance_frame +
  co_loading :: bool
  co_costLoading :: bool
  co_errorMessage :: "js_string option"
  co_costError :: "js_string option"
  co_budget :: "json option"
  co_summary :: "json option"
  co_cost :: "json option"
  co_displayMonth :: js_string

type_synonym cost_segment = "(cost_page, world) segment"

definition loadCost :: cost_segment where
  "loadCost s =
     (let lower = (\<lambda>s. s\<lparr>co_costLoading := False\<rparr>) in
      try_await (http (portalGetInstanceCost (ip_token s) (ip_slug s) None None))
        (rejected lower (\<lambda>e s. s\<lparr>co_costError := show_error s e\<rparr>) (\<lambda>_. finish) finish)
        (\<lambda>c s. finish (lower (s\<lparr>co_cost := Some c\<rparr>)))
        (s\<lparr>co_costLoading := True\<rparr>))"

text \<open>The budget and the summary first; unless the session has ended, the cost follows whether or not they could be
  loaded.\<close>

definition loadAll_cost :: cost_segment where
  "loadAll_cost s =
     (let month = currentMonthUTC (fr_env s);
          lower = (\<lambda>s. s\<lparr>co_loading := False\<rparr>);
          failed = (\<lambda>e s.
            if unauthorized e then leave (\<lambda>_ s. finish (lower s)) (\<lambda>s. finish (lower s)) s
            else loadCost (lower (s\<lparr>co_errorMessage := show_error s e\<rparr>))) in
      try_await (http_all (portalGetBudgetMonth (ip_token s) (ip_slug s) month)
          (portalGetUsageSummary (ip_token s) (ip_slug s) month)) failed
        (\<lambda>(b, sm) s. loadCost (lower (s\<lparr>co_budget := Some b, co_summary := Some sm\<rparr>)))
        (s\<lparr>co_errorMessage := None, co_costError := None, co_displayMonth := month, co_loading := True\<rparr>))"

definition categoryForService :: "js_string \<Rightarrow> js_string" where
  "categoryForService service =
     (let s = js_trim service; lower = toLowerCase s in
      if lower = ''lambda'' then ''Lambda''
      else if lower = ''dynamodb'' then ''DynamoDB''
      else if lower = ''datatransfer'' \<or> lower = ''cloudfront'' \<or> js_includes lower ''data transfer'' \<or>
        js_includes lower ''egress'' \<or> js_includes lower ''datatransfer'' then ''Egress''
      else str_or s ''Unknown'')"

definition cost_handlers :: "cost_segment set" where
  "cost_handlers =
     {loadAll_cost} \<union>
     {\<lambda>s. finish (s\<lparr>fr_env := (fr_env s)\<lparr>env_clock := c\<rparr>\<rparr>) | c. month_clock c}"

record souls_page = instance_frame +
  so_loading :: bool
  so_errorMessage :: "js_string option"
  so_instance :: "json option"
  so_allAgents :: "json list"

type_synonym souls_segment = "(souls_page, world) segment"

definition load_souls :: souls_segment where
  "load_souls s =
     (let lower = (\<lambda>s. s\<lparr>so_loading := False\<rparr>);
          failed = rejected lower (\<lambda>e s. s\<lparr>so_errorMessage := show_error s e\<rparr>) (\<lambda>_. finish) finish in
      try_await (http_all (portalGetInstance (ip_token s) (ip_slug s)) (soulListMyAgents (ip_token s))) failed
        (\<lambda>(inst, agents) s.
           let s = s\<lparr>so_instance := Some inst\<rparr> in
           case list_member agents ''agents'' of
             Inl e \<Rightarrow> failed e s
           | Inr xs \<Rightarrow> finish (lower (s\<lparr>so_allAgents := xs\<rparr>)))
        (s\<lparr>so_errorMessage := None, so_instance := None, so_allAgents := [], so_loading := True\<rparr>))"

text \<open>
  The domains of the instance are the keys of a plain object.  Writing to \<open>__proto__\<close> adds no key, and
  of the names without capitals that every object inherits, \<open>constructor\<close> and \<open>__proto__\<close> read as true.
\<close>

definition candidateDomains :: "json \<Rightarrow> js_string list" where
  "candidateDomains inst =
     filter (\<lambda>d. d \<noteq> [] \<and> d \<noteq> ''__proto__'')
       [toLowerCase (js_trim (text_at inst ''hosted_base_domain'')), toLowerCase (js_trim (text_at inst ''managed_lesser_domain''))]"

definition object_lookup :: "js_string list \<Rightarrow> js_string \<Rightarrow> bool" where
  "object_lookup ks k \<longleftrightarrow> k \<in> set ks \<or> k = ''constructor'' \<or> k = ''__proto__''"

definition agent_domain :: "json \<Rightarrow> js_string" where
  "agent_domain item = toLowerCase (js_trim (text_at (nullish (obj_get item ''agent'') JNull) ''domain''))"

definition boundAgents :: "souls_page \<Rightarrow> json list" where
  "boundAgents s =
     (case so_instance s of
        None \<Rightarrow> []
      | Some inst \<Rightarrow>
          if inst = JNull \<or> candidateDomains inst = [] then []
          else filter (\<lambda>item. object_lookup (candidateDomains inst) (agent_domain item)) (so_allAgents s))"

definition souls_handlers :: "souls_segment set" where
  "souls_handlers = {load_souls}"

end
