(* ===== verification/Config_Page.thy ===== *)
theory Config_Page
  imports Instance_Pages "HOL-Library.AList"
begin

text \<open>
  The configuration of an instance, \<^verbatim>\<open>web/src/pages/portal/InstanceConfig.svelte\<close>, and the list of the instances with the creation
  of a new one, \<^verbatim>\<open>web/src/pages/portal/Instances.svelte\<close>.  The configuration page puts the form of \<open>Instance_Config\<close> to
  work: what it sends is always a valid form whose costs the user has acknowledged.  In a message, the en dash is written as a hyphen.
\<close>

section \<open>The configuration page\<close>

record config_page = instance_frame +
  cf_loading :: bool
  cf_saving :: bool
  cf_errorMessage :: "js_string option"
  cf_successMessage :: "js_string option"
  cf_instance :: "json option"
  cf_form :: "InstanceConfigForm option"
  cf_fieldErrors :: "(js_string \<times> js_string) list"
  cf_ackRenderAlways :: bool
  cf_ackAI :: bool

type_synonym config_segment = "(config_page, world) segment"

text \<open>The settings of an instance, as an answer holds them.\<close>

definition instance_config :: "json \<Rightarrow> InstanceConfig" where
  "instance_config v =
     \<lparr>in_hosted_previews_enabled = flag_at v ''hosted_previews_enabled'',
      in_link_safety_enabled = flag_at v ''link_safety_enabled'',
      in_renders_enabled = flag_at v ''renders_enabled'',
      in_translation_enabled = flag_at v ''translation_enabled'',
      in_render_policy = string_member v ''render_policy'',
      in_overage_policy = string_member v ''overage_policy'',
      in_moderation_enabled = flag_at v ''moderation_enabled'',
      in_moderation_trigger = string_member v ''moderation_trigger'',
      in_moderation_virality_min = int_at v ''moderation_virality_min'',
      in_ai_enabled = flag_at v ''ai_enabled'',
      in_ai_model_set = string_member v ''ai_model_set'',
      in_ai_batching_mode = string_member v ''ai_batching_mode'',
      in_ai_batch_max_items = int_at v ''ai_batch_max_items'',
      in_ai_batch_max_total_bytes = int_at v ''ai_batch_max_total_bytes'',
      in_ai_pricing_multiplier_bps = int_at v ''ai_pricing_multiplier_bps'',
      in_ai_max_inflight_jobs = int_at v ''ai_max_inflight_jobs''\<rparr>"

text \<open>The request as it is sent; \<open>JSON.stringify\<close> writes \<open>NaN\<close> as \<open>null\<close>.\<close>

definition number_json :: "int option \<Rightarrow> json" where
  "number_json v = (case v of None \<Rightarrow> JNull | Some n \<Rightarrow> jnum n)"

definition config_json :: "UpdateInstanceConfigRequest \<Rightarrow> json" where
  "config_json r = JObj
     [(''hosted_previews_enabled'', JBool (up_hosted_previews_enabled r)),
      (''link_safety_enabled'', JBool (up_link_safety_enabled r)),
      (''renders_enabled'', JBool (up_renders_enabled r)),
      (''translation_enabled'', JBool (up_translation_enabled r)),
      (''render_policy'', JStr (up_render_policy r)),
      (''overage_policy'', JStr (up_overage_policy r)),
      (''moderation_enabled'', JBool (up_moderation_enabled r)),
      (''moderation_trigger'', JStr (up_moderation_trigger r)),
      (''moderation_virality_min'', number_json (up_moderation_virality_min r)),
      (''ai_enabled'', JBool (up_ai_enabled r)),
      (''ai_model_set'', JStr (up_ai_model_set r)),
      (''ai_batching_mode'', JStr (up_ai_batching_mode r)),
      (''ai_batch_max_items'', number_json (up_ai_batch_max_items r)),
      (''ai_batch_max_total_bytes'', number_json (up_ai_batch_max_total_bytes r)),
      (''ai_pricing_multiplier_bps'', number_json (up_ai_pricing_multiplier_bps r)),
      (''ai_max_inflight_jobs'', number_json (up_ai_max_inflight_jobs r))]"

definition requiresRenderAlwaysAck :: "config_page \<Rightarrow> bool" where
  "requiresRenderAlwaysAck s =
     (case cf_form s of None \<Rightarrow> False | Some form \<Rightarrow> renders_enabled form \<and> render_policy form = ''always'')"

definition requiresAIAck :: "config_page \<Rightarrow> bool" where
  "requiresAIAck s = (case cf_form s of None \<Rightarrow> False | Some form \<Rightarrow> ai_enabled form)"

definition canSave :: "config_page \<Rightarrow> bool" where
  "canSave s \<longleftrightarrow>
     \<not> cf_saving s \<and> cf_form s \<noteq> None \<and> cf_fieldErrors s = [] \<and>
     (\<not> requiresRenderAlwaysAck s \<or> cf_ackRenderAlways s) \<and> (\<not> requiresAIAck s \<or> cf_ackAI s)"

text \<open>An assignment to the form, or to one of its fields, with the effect that it triggers.\<close>

definition set_form :: "InstanceConfigForm option \<Rightarrow> config_page \<Rightarrow> config_page" where
  "set_form form s =
     s\<lparr>cf_form := form, cf_fieldErrors := (case form of None \<Rightarrow> [] | Some f \<Rightarrow> validateInstanceConfigForm f)\<rparr>"

definition server_fields :: "js_string list" where
  "server_fields =
     [''render_policy'', ''overage_policy'', ''moderation_trigger'', ''moderation_virality_min'', ''ai_model_set'', ''ai_batching_mode'',
      ''ai_batch_max_items'', ''ai_batch_max_total_bytes'', ''ai_pricing_multiplier_bps'', ''ai_max_inflight_jobs'']"

definition applyServerFieldErrors :: "js_string \<Rightarrow> config_page \<Rightarrow> config_page" where
  "applyServerFieldErrors msg s =
     (let lowered = toLowerCase msg; named = [k \<leftarrow> server_fields. js_includes lowered k] in
      s\<lparr>cf_fieldErrors := foldl (\<lambda>errs k. AList.update k msg errs) (cf_fieldErrors s) named\<rparr>)"

definition load_config :: config_segment where
  "load_config s =
     (let s = set_form None (s\<lparr>cf_errorMessage := None, cf_successMessage := None, cf_instance := None, cf_ackAI := False,
                cf_ackRenderAlways := False\<rparr>);
          lower = (\<lambda>s. s\<lparr>cf_loading := False\<rparr>);
          failed = rejected lower (\<lambda>e s. s\<lparr>cf_errorMessage := show_error s e\<rparr>) (\<lambda>_. finish) finish in
      try_await (http (portalGetInstance (ip_token s) (ip_slug s))) failed
        (\<lambda>res s.
           let s = s\<lparr>cf_instance := Some res\<rparr> in
           if res = JNull then failed (TypeError ''null has no properties'') s
           else finish (lower (set_form (Some (configFormFromInstance (instance_config res))) s)))
        (s\<lparr>cf_loading := True\<rparr>))"

definition save_config :: config_segment where
  "save_config s =
     (let s = s\<lparr>cf_errorMessage := None, cf_successMessage := None\<rparr>;
          lower = (\<lambda>s. s\<lparr>cf_saving := False\<rparr>);
          failed = rejected lower
            (\<lambda>e s. applyServerFieldErrors (formatError (fr_env s) e) (s\<lparr>cf_errorMessage := show_error s e\<rparr>)) (\<lambda>_. finish) finish in
      case cf_form s of
        None \<Rightarrow> finish s
      | Some form \<Rightarrow>
          (let errors = validateInstanceConfigForm form; s = s\<lparr>cf_fieldErrors := errors\<rparr> in
           if errors \<noteq> [] then finish (s\<lparr>cf_errorMessage := Some ''Fix validation errors before saving.''\<rparr>)
           else if requiresRenderAlwaysAck s \<and> \<not> cf_ackRenderAlways s
             then finish (s\<lparr>cf_errorMessage := Some ''Acknowledge render policy cost warning before saving.''\<rparr>)
           else if requiresAIAck s \<and> \<not> cf_ackAI s
             then finish (s\<lparr>cf_errorMessage := Some ''Acknowledge AI cost warning before saving.''\<rparr>)
           else
             try_await (http (portalUpdateInstanceConfig (ip_token s) (ip_slug s) (config_json (buildUpdateInstanceConfigRequest form))))
               failed
               (\<lambda>updated s.
                  let s = s\<lparr>cf_instance := Some updated\<rparr> in
                  if updated = JNull then failed (TypeError ''null has no properties'') s
                  else finish (lower (set_form (Some (configFormFromInstance (instance_config updated))) s
                                        \<lparr>cf_successMessage := Some ''Saved.''\<rparr>)))
               (s\<lparr>cf_saving := True\<rparr>)))"

text \<open>The fields and switches write through \<open>bind:\<close>; the fields of the form are there once it is loaded.\<close>

definition edit_form :: "(InstanceConfigForm \<Rightarrow> InstanceConfigForm) \<Rightarrow> config_segment" where
  "edit_form g s = finish (case cf_form s of None \<Rightarrow> s | Some form \<Rightarrow> set_form (Some (g form)) s)"

definition config_handlers :: "config_segment set" where
  "config_handlers =
     {load_config, save_config} \<union> range edit_form \<union>
     {\<lambda>s. finish (s\<lparr>cf_ackRenderAlways := b\<rparr>) | b. True} \<union> {\<lambda>s. finish (s\<lparr>cf_ackAI := b\<rparr>) | b. True}"

section \<open>The list of the instances\<close>

record instances_page = frame +
  il_token :: js_string
  il_loading :: bool
  il_errorMessage :: "js_string option"
  il_instances :: "json list"
  il_createSlug :: js_string
  il_createLoading :: bool
  il_createError :: "js_string option"

type_synonym instances_segment = "(instances_page, world) segment"

text \<open>\<open>/^[a-z0-9](?:[a-z0-9-]{1,61}[a-z0-9])?$/\<close>\<close>

definition slug_char :: "char \<Rightarrow> bool" where
  "slug_char c \<longleftrightarrow> is_lower c \<or> is_digit c"

definition slugRE :: "js_string \<Rightarrow> bool" where
  "slugRE s \<longleftrightarrow>
     (case s of
        [] \<Rightarrow> False
      | c # r \<Rightarrow> slug_char c \<and>
          (r = [] \<or> 1 \<le> length (butlast r) \<and> length (butlast r) \<le> 61 \<and> list_all (\<lambda>d. slug_char d \<or> d = CHR ''-'') (butlast r) \<and>
             slug_char (last r)))"

definition loadInstances :: "(js_error \<Rightarrow> instances_segment) \<Rightarrow> instances_segment \<Rightarrow> instances_segment" where
  "loadInstances throw k s =
     (let s = s\<lparr>il_errorMessage := None, il_instances := []\<rparr>;
          lower = (\<lambda>s. s\<lparr>il_loading := False\<rparr>);
          failed = rejected lower (\<lambda>e s. s\<lparr>il_errorMessage := show_error s e\<rparr>) throw k in
      try_await (http (portalListInstances (il_token s))) failed
        (\<lambda>res s.
           case list_member res ''instances'' of
             Inl e \<Rightarrow> failed e s
           | Inr xs \<Rightarrow> k (lower (s\<lparr>il_instances := xs\<rparr>)))
        (s\<lparr>il_loading := True\<rparr>))"

text \<open>What the page says of a failed creation.\<close>

definition create_error :: "'a frame_scheme \<Rightarrow> js_error \<Rightarrow> js_string" where
  "create_error s e =
     (case e of
        ApiError m st _ \<Rightarrow>
          (let lower = toLowerCase m in
           if st = 403 \<and> js_includes lower ''approval rejected''
             then ''Your account was rejected. Contact support if you believe this is a mistake.''
           else if st = 403 \<and> js_includes lower ''approval required''
             then ''Your account is pending approval. Instance creation and provisioning are blocked until an admin approves your user.''
           else formatError (fr_env s) e)
      | _ \<Rightarrow> formatError (fr_env s) e)"

definition createInstance :: instances_segment where
  "createInstance s =
     (let s = s\<lparr>il_createError := None\<rparr>;
          slug = toLowerCase (js_trim (il_createSlug s));
          lower = (\<lambda>s. s\<lparr>il_createLoading := False\<rparr>);
          failed = rejected lower (\<lambda>e s. s\<lparr>il_createError := Some (create_error s e)\<rparr>) (\<lambda>_. finish) finish in
      if slug = [] then finish (s\<lparr>il_createError := Some ''Slug is required.''\<rparr>)
      else if \<not> slugRE slug
        then finish (s\<lparr>il_createError := Some
               ''Slug must be 1-63 chars, lowercase letters/numbers, and hyphens (cannot start/end with hyphen).''\<rparr>)
      else
        try_await (http (portalCreateInstance (il_token s) slug)) failed
          (\<lambda>inst s.
             loadInstances failed
               (\<lambda>s. case read_text inst ''slug'' of
                      Inl e \<Rightarrow> failed e s
                    | Inr x \<Rightarrow> finish (lower (go (''/portal/instances/'' @ x) s)))
               (s\<lparr>il_createSlug := []\<rparr>))
          (s\<lparr>il_createLoading := True\<rparr>))"

definition instances_handlers :: "instances_segment set" where
  "instances_handlers =
     {loadInstances (\<lambda>_. finish) finish, createInstance} \<union> {\<lambda>s. finish (s\<lparr>il_createSlug := t\<rparr>) | t. True}"

end
