(* ===== verification/Overview_Page.thy ===== *)
theory Overview_Page
  imports Config_Page Polling
begin

text \<open>
  The overview of an instance, \<^verbatim>\<open>web/src/pages/portal/InstanceDetail.svelte\<close>, with the card of its stack,
  \<^verbatim>\<open>components/StackCard.svelte\<close>: the page loads the instance, starts its provisioning with a consent that the wallet signs,
  starts updates, and polls the jobs that run.

  An abort controller is a number; the page's state holds how many were made and which are aborted.  The loop of \<open>pollUntil\<close>
  may run for ever, so a page's handlers have fuel: a loop without fuel left goes no further.  What the page does in
  finitely many steps it does with enough fuel, so that a theorem about every fuel speaks of everything the page can do.
  In a text, a dash is written as a hyphen.
\<close>

record overview_page = instance_frame +
  ov_instanceLoading :: bool
  ov_instanceError :: "js_string option"
  ov_instance :: json
  ov_domainsLoading :: bool
  ov_domainsError :: "js_string option"
  ov_domains :: "json list"
  ov_provisioningLoading :: bool
  ov_provisioningError :: "js_string option"
  ov_provisioningJob :: json
  ov_polling :: bool
  ov_updatesLoading :: bool
  ov_updatesError :: "js_string option"
  ov_updateJobs :: "json list"
  ov_updatesPolling :: bool
  ov_updateCreating :: bool
  ov_updateLesserVersion :: js_string
  ov_updateLesserBodyVersion :: js_string
  ov_provisionRegion :: js_string
  ov_provisionLesserVersion :: js_string
  ov_provisionAdminUsername :: js_string
  ov_pollController :: "nat option"
  ov_updatesPollController :: "nat option"
  ov_controllers :: nat
  ov_aborted :: "nat list"

type_synonym overview_segment = "(overview_page, world) segment"

section \<open>Jobs and their labels\<close>

text \<open>\<open>xs.findIndex(p)\<close> and \<open>xs.find(p)\<close>, where \<open>p\<close> may throw.\<close>

fun findIndex :: "('a \<Rightarrow> js_error + bool) \<Rightarrow> 'a list \<Rightarrow> js_error + nat option" where
  "findIndex p [] = Inr None"
| "findIndex p (x # xs) =
     (case p x of
        Inl e \<Rightarrow> Inl e
      | Inr True \<Rightarrow> Inr (Some 0)
      | Inr False \<Rightarrow> (case findIndex p xs of Inl e \<Rightarrow> Inl e | Inr i \<Rightarrow> Inr (map_option Suc i)))"

definition find_in :: "('a \<Rightarrow> js_error + bool) \<Rightarrow> 'a list \<Rightarrow> js_error + 'a option" where
  "find_in p xs = (case findIndex p xs of Inl e \<Rightarrow> Inl e | Inr i \<Rightarrow> Inr (map_option (\<lambda>i. xs ! i) i))"

definition has_id :: "js_string \<Rightarrow> json \<Rightarrow> js_error + bool" where
  "has_id i job = (case read_text job ''id'' of Inl e \<Rightarrow> Inl e | Inr x \<Rightarrow> Inr (x = i))"

definition isProvisionTerminal :: "json \<Rightarrow> bool" where
  "isProvisionTerminal job \<longleftrightarrow> job = JNull \<or> text_at job ''status'' = ''ok'' \<or> text_at job ''status'' = ''error''"

definition isUpdateTerminal :: "json \<Rightarrow> bool" where
  "isUpdateTerminal job \<longleftrightarrow> job = JNull \<or> text_at job ''status'' = ''ok'' \<or> text_at job ''status'' = ''error''"

definition isManagedInstance :: "json \<Rightarrow> bool" where
  "isManagedInstance inst \<longleftrightarrow> obj_get inst ''managed'' = Some (JBool True)"

text \<open>The first domain of type \<open>primary\<close>; reading the type of \<open>null\<close> throws.\<close>

definition overview_primaryDomain :: "overview_page \<Rightarrow> js_error + json option" where
  "overview_primaryDomain s =
     find_in (\<lambda>d. case read_text d ''type'' of Inl e \<Rightarrow> Inl e | Inr t \<Rightarrow> Inr (t = ''primary'')) (ov_domains s)"

definition latestUpdateJob :: "overview_page \<Rightarrow> json" where
  "latestUpdateJob s = (case ov_updateJobs s of [] \<Rightarrow> JNull | j # _ \<Rightarrow> j)"

definition overview_jobKind :: "json \<Rightarrow> js_string" where
  "overview_jobKind job =
     (let kind = js_trim (text_at job ''kind'') in
      if job = JNull then ''lesser''
      else if kind \<noteq> [] then kind
      else if flag_at job ''mcp_only'' then ''mcp''
      else if flag_at job ''body_only'' then ''lesser-body''
      else ''lesser'')"

definition overview_jobKindLabel :: "json \<Rightarrow> js_string" where
  "overview_jobKindLabel job =
     (let kind = overview_jobKind job in
      if kind = ''lesser-body'' then ''lesser-body'' else if kind = ''mcp'' then ''MCP'' else ''Lesser'')"

definition latestUpdateJobForKind :: "js_string \<Rightarrow> overview_page \<Rightarrow> json" where
  "latestUpdateJobForKind kind s =
     (case [job \<leftarrow> ov_updateJobs s. overview_jobKind job = kind] of [] \<Rightarrow> JNull | j # _ \<Rightarrow> j)"

definition activeUpdateJobs :: "overview_page \<Rightarrow> json list" where
  "activeUpdateJobs s = [job \<leftarrow> ov_updateJobs s. \<not> isUpdateTerminal job]"

definition updateInProgress :: "overview_page \<Rightarrow> bool" where
  "updateInProgress s \<longleftrightarrow> activeUpdateJobs s \<noteq> []"

text \<open>The four health labels differ in the members they read.\<close>

definition health_label :: "js_string \<Rightarrow> js_string \<Rightarrow> overview_page \<Rightarrow> js_string" where
  "health_label ok err s =
     (let job = latestUpdateJobForKind ''lesser'' s in
      if job = JNull then ''unverified''
      else if obj_get job ok = Some (JBool True) then ''ok''
      else if obj_get job ok = Some (JBool False)
        then ''fail'' @ (if text_at job err = [] then [] else '': '' @ text_at job err)
      else ''unverified'')"

definition trustHealthLabel :: "overview_page \<Rightarrow> js_string" where
  "trustHealthLabel = health_label ''verify_trust_ok'' ''verify_trust_err''"

definition translationHealthLabel :: "overview_page \<Rightarrow> js_string" where
  "translationHealthLabel = health_label ''verify_translation_ok'' ''verify_translation_err''"

definition tipsHealthLabel :: "overview_page \<Rightarrow> js_string" where
  "tipsHealthLabel = health_label ''verify_tips_ok'' ''verify_tips_err''"

definition aiHealthLabel :: "overview_page \<Rightarrow> js_string" where
  "aiHealthLabel = health_label ''verify_ai_ok'' ''verify_ai_err''"

section \<open>Loading\<close>

definition loadInstance :: overview_segment where
  "loadInstance s =
     (let lower = (\<lambda>s. s\<lparr>ov_instanceLoading := False\<rparr>);
          failed = rejected lower (\<lambda>e s. s\<lparr>ov_instanceError := show_error s e\<rparr>) (\<lambda>_. finish) finish in
      try_await (http (portalGetInstance (ip_token s) (ip_slug s))) failed
        (\<lambda>res s. finish (lower (s\<lparr>ov_instance := res\<rparr>)))
        (s\<lparr>ov_instanceError := None, ov_instance := JNull, ov_instanceLoading := True\<rparr>))"

definition loadDomains_overview :: overview_segment where
  "loadDomains_overview s =
     (let lower = (\<lambda>s. s\<lparr>ov_domainsLoading := False\<rparr>);
          failed = rejected lower (\<lambda>e s. s\<lparr>ov_domainsError := show_error s e\<rparr>) (\<lambda>_. finish) finish in
      try_await (http (portalListInstanceDomains (ip_token s) (ip_slug s))) failed
        (\<lambda>res s. case list_member res ''domains'' of
           Inl e \<Rightarrow> failed e s
         | Inr ds \<Rightarrow> finish (lower (s\<lparr>ov_domains := ds\<rparr>)))
        (s\<lparr>ov_domainsError := None, ov_domains := [], ov_domainsLoading := True\<rparr>))"

definition not_found :: "js_error \<Rightarrow> bool" where
  "not_found e = (case e of ApiError _ status _ \<Rightarrow> status = 404 | _ \<Rightarrow> False)"

definition loadProvisioning :: overview_segment where
  "loadProvisioning s =
     (let lower = (\<lambda>s. s\<lparr>ov_provisioningLoading := False\<rparr>);
          failed = rejected lower
            (\<lambda>e s. if not_found e then s\<lparr>ov_provisioningJob := JNull\<rparr> else s\<lparr>ov_provisioningError := show_error s e\<rparr>)
            (\<lambda>_. finish) finish in
      try_await (http (portalGetProvisioning (ip_token s) (ip_slug s))) failed
        (\<lambda>res s. finish (lower (s\<lparr>ov_provisioningJob := res\<rparr>)))
        (s\<lparr>ov_provisioningError := None, ov_provisioningJob := JNull, ov_provisioningLoading := True\<rparr>))"

definition loadUpdates :: overview_segment where
  "loadUpdates s =
     (let lower = (\<lambda>s. s\<lparr>ov_updatesLoading := False\<rparr>);
          failed = rejected lower (\<lambda>e s. s\<lparr>ov_updatesError := show_error s e\<rparr>) (\<lambda>_. finish) finish in
      try_await (http (portalListUpdateJobs (ip_token s) (ip_slug s) (Some 50))) failed
        (\<lambda>res s. case list_member res ''jobs'' of
           Inl e \<Rightarrow> failed e s
         | Inr jobs \<Rightarrow> finish (lower (s\<lparr>ov_updateJobs := jobs\<rparr>)))
        (s\<lparr>ov_updatesError := None, ov_updateJobs := [], ov_updatesLoading := True\<rparr>))"

section \<open>Polling\<close>

definition abort_controller :: "nat option \<Rightarrow> overview_page \<Rightarrow> overview_page" where
  "abort_controller c s = (case c of None \<Rightarrow> s | Some n \<Rightarrow> s\<lparr>ov_aborted := n # ov_aborted s\<rparr>)"

definition abortPolling :: "overview_page \<Rightarrow> overview_page" where
  "abortPolling s = (abort_controller (ov_pollController s) s)\<lparr>ov_pollController := None, ov_polling := False\<rparr>"

definition abortUpdatesPolling :: "overview_page \<Rightarrow> overview_page" where
  "abortUpdatesPolling s =
     (abort_controller (ov_updatesPollController s) s)\<lparr>ov_updatesPollController := None, ov_updatesPolling := False\<rparr>"

text \<open>
  \<open>pollUntil(fn, isDone, opts)\<close> inside a page: \<open>fn catch k\<close> asks once, \<open>update\<close> is \<open>onUpdate\<close>, \<open>ctl\<close> is
  the controller of the signal, and \<open>aborted\<close> reads from the page's state which controllers are aborted.  The sleep is a timer of any length; an abort during the sleep is noticed when it is continued.
\<close>

primrec poll_until ::
  "('s \<Rightarrow> nat list) \<Rightarrow> nat \<Rightarrow> nat \<Rightarrow> ((js_error \<Rightarrow> ('s, world) segment) \<Rightarrow> (json \<Rightarrow> ('s, world) segment) \<Rightarrow> ('s, world) segment) \<Rightarrow>
   (json \<Rightarrow> 's \<Rightarrow> js_error + 's) \<Rightarrow> (json \<Rightarrow> js_error + bool) \<Rightarrow>
   (js_error \<Rightarrow> ('s, world) segment) \<Rightarrow> ('s, world) segment \<Rightarrow> ('s, world) segment" where
  "poll_until aborted 0 ctl fn update isDone catch k = finish"
| "poll_until aborted (Suc fuel) ctl fn update isDone catch k =
     (\<lambda>s.
        if ctl \<in> set (aborted s) then catch AbortError s
        else
          fn catch
            (\<lambda>v s.
               case update v s of
                 Inl e \<Rightarrow> catch e s
               | Inr s \<Rightarrow>
                   (case isDone v of
                      Inl e \<Rightarrow> catch e s
                    | Inr True \<Rightarrow> k s
                    | Inr False \<Rightarrow>
                        if ctl \<in> set (aborted s) then catch AbortError s
                        else try_await timer catch (\<lambda>_. poll_until aborted fuel ctl fn update isDone catch k) s))
            s)"

text \<open>What an \<open>async\<close> function returns or throws reaches its caller in a later turn.\<close>

definition returned ::
  "js_error + json \<Rightarrow> (js_error \<Rightarrow> ('s, world) segment) \<Rightarrow> (json \<Rightarrow> ('s, world) segment) \<Rightarrow> ('s, world) segment" where
  "returned r catch k = try_await (\<lambda>w. (r, w)) catch k"

definition provision_done :: "json \<Rightarrow> js_error + bool" where
  "provision_done job =
     (case read_text job ''status'' of Inl e \<Rightarrow> Inl e | Inr st \<Rightarrow> Inr (st = ''ok'' \<or> st = ''error''))"

definition ask_provisioning :: "(js_error \<Rightarrow> overview_segment) \<Rightarrow> (json \<Rightarrow> overview_segment) \<Rightarrow> overview_segment" where
  "ask_provisioning catch k s = try_await (http (portalGetProvisioning (ip_token s) (ip_slug s))) catch k s"

definition pollProvisioning :: "nat \<Rightarrow> overview_segment" where
  "pollProvisioning fuel s =
     (let s = abortPolling s in
      if isProvisionTerminal (ov_provisioningJob s) then finish s
      else
        (let ctl = ov_controllers s;
             lower = (\<lambda>s. s\<lparr>ov_polling := False,
                ov_pollController := (if ov_pollController s = Some ctl then None else ov_pollController s)\<rparr>);
             failed = rejected lower
               (\<lambda>e s. if e = AbortError then s else s\<lparr>ov_provisioningError := show_error s e\<rparr>) (\<lambda>_. finish) finish in
         poll_until ov_aborted fuel ctl ask_provisioning (\<lambda>job s. Inr (s\<lparr>ov_provisioningJob := job\<rparr>)) provision_done failed
           (\<lambda>s. finish (lower s))
           (s\<lparr>ov_polling := True, ov_controllers := Suc ctl, ov_pollController := Some ctl\<rparr>)))"

definition ask_updates :: "js_string \<Rightarrow> (js_error \<Rightarrow> overview_segment) \<Rightarrow> (json \<Rightarrow> overview_segment) \<Rightarrow> overview_segment" where
  "ask_updates jobId catch k s =
     try_await (http (portalListUpdateJobs (ip_token s) (ip_slug s) (Some 50))) (\<lambda>e. returned (Inl e) catch k)
       (\<lambda>res s.
          case list_member res ''jobs'' of
            Inl e \<Rightarrow> returned (Inl e) catch k s
          | Inr jobs \<Rightarrow>
              returned (case find_in (has_id jobId) jobs of
                  Inl e \<Rightarrow> Inl e | Inr None \<Rightarrow> Inr JNull | Inr (Some job) \<Rightarrow> Inr job) catch k
                (s\<lparr>ov_updateJobs := jobs\<rparr>))
       s"

definition update_seen :: "json \<Rightarrow> overview_page \<Rightarrow> js_error + overview_page" where
  "update_seen job s =
     (if job = JNull then Inr s
      else
        (case findIndex (has_id (text_at job ''id'')) (ov_updateJobs s) of
           Inl e \<Rightarrow> Inl e
         | Inr None \<Rightarrow> Inr s
         | Inr (Some idx) \<Rightarrow>
             Inr (s\<lparr>ov_updateJobs := job # take idx (ov_updateJobs s) @ drop (Suc idx) (ov_updateJobs s)\<rparr>)))"

definition pollUpdateJob :: "nat \<Rightarrow> js_string \<Rightarrow> overview_segment" where
  "pollUpdateJob fuel jobId s =
     (let s = abortUpdatesPolling s in
      case find_in (has_id jobId) (ov_updateJobs s) of
        Inl e \<Rightarrow> finish s
      | Inr current \<Rightarrow>
          if (case current of None \<Rightarrow> False | Some job \<Rightarrow> isUpdateTerminal job) then finish s
          else
            (let ctl = ov_controllers s;
                 lower = (\<lambda>s. s\<lparr>ov_updatesPolling := False,
                    ov_updatesPollController := (if ov_updatesPollController s = Some ctl then None else ov_updatesPollController s)\<rparr>);
                 failed = rejected lower
                   (\<lambda>e s. if e = AbortError then s else s\<lparr>ov_updatesError := show_error s e\<rparr>) (\<lambda>_. finish) finish in
             poll_until ov_aborted fuel ctl (ask_updates jobId) update_seen (\<lambda>job. Inr (job \<noteq> JNull \<and> isUpdateTerminal job)) failed
               (detach lower loadInstance)
               (s\<lparr>ov_updatesPolling := True, ov_controllers := Suc ctl, ov_updatesPollController := Some ctl\<rparr>)))"

section \<open>Starting an update\<close>

record update_options =
  uo_lesserVersion :: "js_string option"
  uo_lesserBodyVersion :: "js_string option"
  uo_rotateInstanceKey :: bool
  uo_bodyOnly :: bool
  uo_mcpOnly :: bool
  uo_allowBlankLesserVersion :: "bool option"

definition no_update_options :: update_options where
  "no_update_options =
     \<lparr>uo_lesserVersion = None, uo_lesserBodyVersion = None, uo_rotateInstanceKey = False, uo_bodyOnly = False,
      uo_mcpOnly = False, uo_allowBlankLesserVersion = None\<rparr>"

definition true_or_undefined :: "bool \<Rightarrow> json option" where
  "true_or_undefined b = (if b then Some (JBool True) else None)"

definition update_request :: "update_options \<Rightarrow> json" where
  "update_request opts =
     obj_lit
       [(''lesser_version'', text_or_undefined (js_trim (opt_or (uo_lesserVersion opts) []))),
        (''lesser_body_version'', text_or_undefined (js_trim (opt_or (uo_lesserBodyVersion opts) []))),
        (''rotate_instance_key'', true_or_undefined (uo_rotateInstanceKey opts)),
        (''body_only'', true_or_undefined (uo_bodyOnly opts)),
        (''mcp_only'', true_or_undefined (uo_mcpOnly opts))]"

definition version_error :: "update_options \<Rightarrow> js_string option" where
  "version_error opts =
     (let versionErr =
            (if \<not> uo_bodyOnly opts \<and> \<not> uo_mcpOnly opts
             then validateManagedReleaseTag (js_trim (opt_or (uo_lesserVersion opts) []))
                    (Some \<lparr>tag_allowBlank = Some (nullish (uo_allowBlankLesserVersion opts) False), tag_label = Some ''Lesser version''\<rparr>)
             else None);
          bodyVersionErr =
            (if uo_bodyOnly opts
             then validateManagedReleaseTag (js_trim (opt_or (uo_lesserBodyVersion opts) []))
                    (Some \<lparr>tag_allowBlank = Some True, tag_label = Some ''lesser-body version''\<rparr>)
             else None) in
      first_truthy versionErr bodyVersionErr)"

text \<open>\<open>updateJobs.filter((j) => j.id !== job.id)\<close>\<close>

definition without_job :: "json \<Rightarrow> json list \<Rightarrow> js_error + json list" where
  "without_job job jobs =
     (if JNull \<in> set jobs \<or> job = JNull \<and> jobs \<noteq> [] then Inl (TypeError ''null has no properties'')
      else Inr [j \<leftarrow> jobs. text_at j ''id'' \<noteq> text_at job ''id''])"

definition startUpdateJob :: "nat \<Rightarrow> update_options \<Rightarrow> overview_segment" where
  "startUpdateJob fuel opts s =
     (let s = s\<lparr>ov_updatesError := None\<rparr>;
          lower = (\<lambda>s. s\<lparr>ov_updateCreating := False\<rparr>);
          failed = rejected lower (\<lambda>e s. s\<lparr>ov_updatesError := show_error s e\<rparr>) (\<lambda>_. finish) finish in
      case version_error opts of
        Some msg \<Rightarrow> finish (s\<lparr>ov_updatesError := Some msg\<rparr>)
      | None \<Rightarrow>
          try_await (http (portalCreateUpdateJob (ip_token s) (ip_slug s) (Some (update_request opts)))) failed
            (\<lambda>job s.
               case without_job job (ov_updateJobs s) of
                 Inl e \<Rightarrow> failed e s
               | Inr rest \<Rightarrow>
                   (let s = s\<lparr>ov_updateJobs := job # rest\<rparr> in
                    case read_text job ''id'' of
                      Inl e \<Rightarrow> failed e s
                    | Inr jobId \<Rightarrow> detach lower (pollUpdateJob fuel jobId) s))
            (s\<lparr>ov_updateCreating := True\<rparr>))"

text \<open>The buttons of the page.\<close>

definition applyConfiguration :: "nat \<Rightarrow> overview_segment" where
  "applyConfiguration fuel s =
     startUpdateJob fuel (no_update_options\<lparr>uo_lesserVersion := Some (ov_updateLesserVersion s), uo_allowBlankLesserVersion := Some True\<rparr>) s"

definition rotateInstanceKey :: "nat \<Rightarrow> overview_segment" where
  "rotateInstanceKey fuel s =
     startUpdateJob fuel (no_update_options\<lparr>uo_lesserVersion := Some (ov_updateLesserVersion s), uo_rotateInstanceKey := True,
       uo_allowBlankLesserVersion := Some True\<rparr>) s"

definition startVersionUpdate :: "nat \<Rightarrow> overview_segment" where
  "startVersionUpdate fuel s =
     startUpdateJob fuel (no_update_options\<lparr>uo_lesserVersion := Some (ov_updateLesserVersion s)\<rparr>) s"

definition updateBodyOnly :: "nat \<Rightarrow> overview_segment" where
  "updateBodyOnly fuel s =
     startUpdateJob fuel (no_update_options\<lparr>uo_lesserBodyVersion := Some (ov_updateLesserBodyVersion s), uo_bodyOnly := True\<rparr>) s"

definition updateMcpOnly :: "nat \<Rightarrow> overview_segment" where
  "updateMcpOnly fuel s = startUpdateJob fuel (no_update_options\<lparr>uo_mcpOnly := True\<rparr>) s"

section \<open>Starting the provisioning\<close>

text \<open>\<open>(err as Partial<ApiError>).message\<close>\<close>

definition error_message :: "env \<Rightarrow> js_error \<Rightarrow> js_string" where
  "error_message env e =
     (case e of ApiError m _ _ \<Rightarrow> m | TypeError m \<Rightarrow> m | Error m \<Rightarrow> m | _ \<Rightarrow> env_message env e)"

definition forbidden :: "js_error \<Rightarrow> bool" where
  "forbidden e = (case e of ApiError _ status _ \<Rightarrow> status = 403 | _ \<Rightarrow> False)"

definition provision_error :: "overview_page \<Rightarrow> js_error \<Rightarrow> js_string" where
  "provision_error s e =
     (let message = error_message (fr_env s) e in
      if forbidden e \<and> js_includes message ''approval''
        then ''Your account is pending approval. Provisioning is blocked until an admin approves your user.''
      else if js_includes message ''reserved''
        then ''This wallet address is reserved and cannot be used for managed instance provisioning.''
      else formatError (fr_env s) e)"

definition provision_lower :: "overview_page \<Rightarrow> overview_page" where
  "provision_lower s = s\<lparr>ov_provisioningLoading := False\<rparr>"

definition provision_failed :: "js_error \<Rightarrow> overview_segment" where
  "provision_failed =
     rejected provision_lower (\<lambda>e s. s\<lparr>ov_provisioningError := Some (provision_error s e)\<rparr>) (\<lambda>_. finish) finish"

definition provision_request :: "js_string \<Rightarrow> js_string \<Rightarrow> json \<Rightarrow> json \<Rightarrow> json option \<Rightarrow> json" where
  "provision_request region lesserVersion challenge wallet signature =
     obj_lit
       [(''region'', text_or_undefined region), (''lesser_version'', text_or_undefined lesserVersion),
        (''admin_username'', map_option JStr (string_member challenge ''admin_username'')),
        (''consent_challenge_id'', map_option JStr (string_member wallet ''id'')),
        (''consent_message'', map_option JStr (string_member wallet ''message'')),
        (''consent_signature'', signature)]"

text \<open>The \<open>try\<close> block from its end: once the signature, the accounts and the challenge have arrived.\<close>

definition with_signature ::
  "nat \<Rightarrow> js_string \<Rightarrow> js_string \<Rightarrow> json \<Rightarrow> json \<Rightarrow> json option \<Rightarrow> overview_segment" where
  "with_signature fuel region lesserVersion challenge wallet signature s =
     try_await (http (portalStartProvisioning (ip_token s) (ip_slug s)
           (provision_request region lesserVersion challenge wallet signature))) provision_failed
       (\<lambda>job s. detach provision_lower (pollProvisioning fuel) (s\<lparr>ov_provisioningJob := job\<rparr>))
       s"

definition with_accounts ::
  "nat \<Rightarrow> provider \<Rightarrow> js_string \<Rightarrow> js_string \<Rightarrow> json \<Rightarrow> json \<Rightarrow> js_string \<Rightarrow> js_string list \<Rightarrow> overview_segment" where
  "with_accounts fuel p region lesserVersion challenge wallet expected accounts s =
     (if toLowerCase expected \<notin> set (map toLowerCase accounts)
      then finish (provision_lower (s\<lparr>ov_provisioningError :=
             Some (''Connected wallet does not match your portal wallet ('' @ expected @ '').'')\<rparr>))
      else
        try_await (rpc p (personalSign (text_at wallet ''message'') expected)) provision_failed
          (with_signature fuel region lesserVersion challenge wallet) s)"

text \<open>\<open>v?.k\<close> as an object.\<close>

definition part_of :: "json \<Rightarrow> js_string \<Rightarrow> json" where
  "part_of v k = (case obj_get v k of None \<Rightarrow> JNull | Some x \<Rightarrow> x)"

definition sign_consent :: "nat \<Rightarrow> provider \<Rightarrow> js_string \<Rightarrow> js_string \<Rightarrow> json \<Rightarrow> overview_segment" where
  "sign_consent fuel p region lesserVersion challenge s =
     (if challenge = JNull then provision_failed (TypeError ''null has no properties'') s
      else
        (let wallet = part_of challenge ''wallet'';
             expected = js_trim (text_at wallet ''address'') in
         if expected = []
           then finish (provision_lower (s\<lparr>ov_provisioningError := Some ''Consent challenge did not include a wallet address.''\<rparr>))
         else
           try_await (rpc p requestAccounts) provision_failed (with_accounts fuel p region lesserVersion challenge wallet expected) s))"

definition startProvisioning :: "nat \<Rightarrow> overview_segment" where
  "startProvisioning fuel s =
     (let s = s\<lparr>ov_provisioningError := None\<rparr>;
          stop = (\<lambda>msg. finish (s\<lparr>ov_provisioningError := Some msg\<rparr>));
          region = js_trim (ov_provisionRegion s);
          lesserVersion = js_trim (ov_provisionLesserVersion s);
          adminUsername = opt_or (Some (toLowerCase (js_trim (ov_provisionAdminUsername s)))) (toLowerCase (js_trim (ip_slug s))) in
      case validateManagedReleaseTag lesserVersion (Some \<lparr>tag_allowBlank = Some True, tag_label = Some ''Lesser version''\<rparr>) of
        Some msg \<Rightarrow> stop msg
      | None \<Rightarrow>
          if \<not> slugRE adminUsername
          then stop (''Admin username must be 1-63 chars, lowercase letters/numbers, and hyphens '' @
                     ''(cannot start/end with hyphen).'')
          else
            (case env_ethereum (fr_env s) of
               None \<Rightarrow> stop ''No wallet detected. Install or enable a wallet extension to sign the consent message.''
             | Some p \<Rightarrow>
                 try_await (http (portalProvisionConsentChallenge (ip_token s) (ip_slug s) (Some adminUsername))) provision_failed
                   (sign_consent fuel p region lesserVersion)
                   (s\<lparr>ov_provisioningLoading := True\<rparr>)))"

section \<open>The page\<close>

text \<open>
  \<open>refreshAll\<close> starts its four loads together and goes on when all have ended.  Its parts are handlers of their own, which may start
  at any moment: the page has every run of the program, and some in which a part starts earlier or without the others.
\<close>

definition poll_active :: "nat \<Rightarrow> overview_segment" where
  "poll_active fuel s =
     (let active = (case activeUpdateJobs s of [] \<Rightarrow> latestUpdateJob s | j # _ \<Rightarrow> j) in
      if active \<noteq> JNull \<and> \<not> isUpdateTerminal active then pollUpdateJob fuel (text_at active ''id'') s else finish s)"

definition refreshAll :: "nat \<Rightarrow> overview_segment list" where
  "refreshAll fuel =
     [\<lambda>s. finish (abortUpdatesPolling (abortPolling s)), loadInstance, loadDomains_overview, loadProvisioning, loadUpdates,
      pollProvisioning fuel, poll_active fuel]"

text \<open>The two effects: a slug that is not normalized is left for the normalized one, which is also the first admin username.\<close>

definition overview_slug_effect :: overview_segment where
  "overview_slug_effect s =
     (let normalized = toLowerCase (js_trim (ip_slug s)) in
      finish (if normalized = [] \<or> normalized = ip_slug s then s else go (''/portal/instances/'' @ normalized) s))"

definition username_effect :: overview_segment where
  "username_effect s =
     (let normalized = toLowerCase (js_trim (ip_slug s)) in
      finish (if normalized \<noteq> [] \<and> js_trim (ov_provisionAdminUsername s) = []
              then s\<lparr>ov_provisionAdminUsername := normalized\<rparr> else s))"

definition overview_handlers :: "nat \<Rightarrow> overview_segment set" where
  "overview_handlers fuel =
     set (refreshAll fuel) \<union>
     {applyConfiguration fuel, rotateInstanceKey fuel, startVersionUpdate fuel, updateBodyOnly fuel, updateMcpOnly fuel,
      startProvisioning fuel, overview_slug_effect, username_effect} \<union>
     {\<lambda>s. finish (s\<lparr>ov_updateLesserVersion := t\<rparr>) | t. True} \<union> {\<lambda>s. finish (s\<lparr>ov_updateLesserBodyVersion := t\<rparr>) | t. True} \<union>
     {\<lambda>s. finish (s\<lparr>ov_provisionRegion := t\<rparr>) | t. True} \<union> {\<lambda>s. finish (s\<lparr>ov_provisionLesserVersion := t\<rparr>) | t. True} \<union>
     {\<lambda>s. finish (s\<lparr>ov_provisionAdminUsername := t\<rparr>) | t. True}"

text \<open>The page when it is mounted.\<close>

definition initial_overview :: "instance_frame \<Rightarrow> overview_page" where
  "initial_overview f = instance_frame.extend f
     \<lparr>ov_instanceLoading = False, ov_instanceError = None, ov_instance = JNull, ov_domainsLoading = False, ov_domainsError = None,
      ov_domains = [], ov_provisioningLoading = False, ov_provisioningError = None, ov_provisioningJob = JNull, ov_polling = False,
      ov_updatesLoading = False, ov_updatesError = None, ov_updateJobs = [], ov_updatesPolling = False, ov_updateCreating = False,
      ov_updateLesserVersion = [], ov_updateLesserBodyVersion = [], ov_provisionRegion = [], ov_provisionLesserVersion = [],
      ov_provisionAdminUsername = [], ov_pollController = None, ov_updatesPollController = None, ov_controllers = 0, ov_aborted = []\<rparr>"

section \<open>The card of the stack\<close>

record stack_card = instance_frame +
  sk_loading :: bool
  sk_stack :: json
  sk_stackError :: "js_string option"
  sk_endpointPending :: bool

type_synonym stack_segment = "(stack_card, world) segment"

definition not_deployed :: "js_error \<Rightarrow> bool" where
  "not_deployed e = (case e of ApiError _ status _ \<Rightarrow> status = 404 \<or> status = 501 | _ \<Rightarrow> False)"

definition loadStack :: stack_segment where
  "loadStack s =
     try_await (http (portalGetInstanceStack (ip_token s) (ip_slug s)))
       (\<lambda>e s. finish ((if not_deployed e then s\<lparr>sk_endpointPending := True\<rparr> else s\<lparr>sk_stackError := show_error s e\<rparr>)\<lparr>sk_loading := False\<rparr>))
       (\<lambda>res s. finish (s\<lparr>sk_stack := res, sk_loading := False\<rparr>))
       (s\<lparr>sk_stackError := None, sk_endpointPending := False, sk_loading := True\<rparr>)"

datatype drift = DriftOk | DriftStale | DriftWireStale | DriftUnknown | DriftMissing

definition normalizeDrift :: "json option \<Rightarrow> drift" where
  "normalizeDrift v =
     (if v = Some (JStr ''ok'') then DriftOk
      else if v = Some (JStr ''stale'') then DriftStale
      else if v = Some (JStr ''wire-stale'') then DriftWireStale
      else DriftUnknown)"

text \<open>The variant, the color and the label of a badge.\<close>

definition driftBadge :: "drift \<Rightarrow> js_string \<times> js_string \<times> js_string" where
  "driftBadge d =
     (case d of
        DriftOk \<Rightarrow> (''filled'', ''success'', ''up to date'')
      | DriftStale \<Rightarrow> (''filled'', ''warning'', ''stale'')
      | DriftWireStale \<Rightarrow> (''filled'', ''warning'', ''MCP wire stale'')
      | DriftMissing \<Rightarrow> (''outlined'', ''gray'', ''not installed'')
      | DriftUnknown \<Rightarrow> (''outlined'', ''gray'', ''unknown''))"

record stack_row =
  sr_id :: js_string
  sr_label :: js_string
  sr_version :: js_string
  sr_deployedAt :: js_string
  sr_drift :: drift
  sr_addAgentic :: bool

definition dashed :: "js_string \<Rightarrow> js_string" where
  "dashed t = (if t = [] then ''-'' else t)"

definition stack_rows :: "json \<Rightarrow> json \<Rightarrow> stack_row list" where
  "stack_rows stack fallback =
     (if stack \<noteq> JNull then
        (let lesser = part_of stack ''lesser''; body = part_of stack ''body''; mcp = part_of stack ''mcp'';
             bodyEnabled = flag_at body ''enabled'' in
         [\<lparr>sr_id = ''lesser'', sr_label = ''Lesser'', sr_version = dashed (text_at lesser ''current_version''),
           sr_deployedAt = dashed (text_at lesser ''deployed_at''), sr_drift = normalizeDrift (obj_get lesser ''drift''), sr_addAgentic = False\<rparr>,
          \<lparr>sr_id = ''body'', sr_label = ''Body'', sr_version = (if bodyEnabled then dashed (text_at body ''current_version'') else ''-''),
           sr_deployedAt = (if bodyEnabled then dashed (text_at body ''deployed_at'') else ''-''),
           sr_drift = (if bodyEnabled then normalizeDrift (obj_get body ''drift'') else DriftMissing), sr_addAgentic = (\<not> bodyEnabled)\<rparr>,
          \<lparr>sr_id = ''mcp'', sr_label = ''MCP'', sr_version = dashed (text_at mcp ''wired_against_body_version''),
           sr_deployedAt = dashed (text_at mcp ''wired_at''), sr_drift = normalizeDrift (obj_get mcp ''drift''), sr_addAgentic = False\<rparr>])
      else if fallback \<noteq> JNull then
        (let hasBody = (text_at fallback ''body_provisioned_at'' \<noteq> [] \<or> text_at fallback ''lesser_body_version'' \<noteq> []);
             first = (\<lambda>a b. dashed (if text_at fallback a = [] then text_at fallback b else text_at fallback a)) in
         [\<lparr>sr_id = ''lesser'', sr_label = ''Lesser'', sr_version = dashed (text_at fallback ''lesser_version''),
           sr_deployedAt = dashed (text_at fallback ''lesser_update_at''), sr_drift = DriftUnknown, sr_addAgentic = False\<rparr>,
          \<lparr>sr_id = ''body'', sr_label = ''Body'', sr_version = (if hasBody then dashed (text_at fallback ''lesser_body_version'') else ''-''),
           sr_deployedAt = (if hasBody then first ''lesser_body_update_at'' ''body_provisioned_at'' else ''-''),
           sr_drift = (if hasBody then DriftUnknown else DriftMissing), sr_addAgentic = (\<not> hasBody)\<rparr>,
          \<lparr>sr_id = ''mcp'', sr_label = ''MCP'', sr_version = dashed (text_at fallback ''lesser_body_version''),
           sr_deployedAt = first ''mcp_update_at'' ''mcp_wired_at'', sr_drift = DriftUnknown, sr_addAgentic = False\<rparr>])
      else [])"

definition row_named :: "js_string \<Rightarrow> stack_row list \<Rightarrow> stack_row option" where
  "row_named i rows = (case [r \<leftarrow> rows. sr_id r = i] of [] \<Rightarrow> None | r # _ \<Rightarrow> Some r)"

definition mcpDriftWarning :: "json \<Rightarrow> json \<Rightarrow> js_string option" where
  "mcpDriftWarning stack fallback =
     (let rows = stack_rows stack fallback in
      case row_named ''mcp'' rows of
        None \<Rightarrow> None
      | Some mcpRow \<Rightarrow>
          if sr_drift mcpRow \<noteq> DriftWireStale then None
          else
            (let currentBody = (case row_named ''body'' rows of None \<Rightarrow> [] | Some r \<Rightarrow> sr_version r);
                 wiredAgainst = text_at (part_of stack ''mcp'') ''wired_against_body_version'' in
             Some (''MCP was wired against body '' @ (if wiredAgainst = [] then sr_version mcpRow else wiredAgainst) @ '', but body '' @
               (if currentBody = [] then ''current body'' else currentBody) @
               '' is now deployed. Run a '' @ quote_char # ''Wire MCP'' @ quote_char # '' update to re-bind.'')))"

section \<open>Invariants of a polling page\<close>

lemma timer_safe:
  assumes "I s w" and "\<And>w. safe later I w k"
  shows "safe_result later I w (try_await timer catch (\<lambda>_. k) s)"
  unfolding try_await_def by (rule safe_await) (use assms in \<open>auto simp: timer_def\<close>)

lemma poll_until_safe:
  assumes fn: "\<And>catch k w. (\<And>e w. safe later I w (catch e)) \<Longrightarrow> (\<And>v w. safe later I w (k v)) \<Longrightarrow> safe later I w (fn catch k)"
    and update: "\<And>v s s' w. I s w \<Longrightarrow> update v s = Inr s' \<Longrightarrow> I s' w"
    and c: "\<And>e w. safe later I w (catch e)" and k: "\<And>w. safe later I w k"
  shows "safe later I w (poll_until aborted fuel ctl fn update isDone catch k)"
proof (induction fuel arbitrary: w)
  case 0
  then show ?case by (auto intro!: safeR safe_finish)
next
  case (Suc fuel)
  let ?next = "poll_until aborted fuel ctl fn update isDone catch k"
  let ?seen = "\<lambda>v s. case update v s of
      Inl e \<Rightarrow> catch e s
    | Inr s \<Rightarrow> (case isDone v of
          Inl e \<Rightarrow> catch e s
        | Inr True \<Rightarrow> k s
        | Inr False \<Rightarrow> if ctl \<in> set (aborted s) then catch AbortError s else try_await timer catch (\<lambda>_. ?next) s)"
  have "safe later I w (?seen v)" for v w
    by (rule safeR)
      (auto intro!: safe_laterD [OF c] safe_laterD [OF k] timer_safe Suc.IH dest: update split: sum.split bool.split)
  then have "safe later I w (fn catch ?seen)" for w by (intro fn c)
  then show ?case by (intro safeR) (auto intro: safe_laterD [OF c] safe_laterD)
qed

end
