(* ===== verification/Instance_Scope.thy ===== *)
theory Instance_Scope
  imports Overview_Page
begin

text \<open>
  The pages of an instance under every interleaving: their requests stay with their instance and their token, a
  browser redirect goes only to a safe address, and every loading flag comes down.
\<close>

section \<open>Requests of an instance page\<close>

text \<open>
  A request in scope: it carries the page's token, and the server reads from its path a resource of the page's instance;
  or it is one of the two calls of the pages that are not about one instance.
\<close>

definition in_scope :: "js_string \<Rightarrow> js_string \<Rightarrow> request \<Rightarrow> bool" where
  "in_scope token slug r \<longleftrightarrow>
     map_of (req_headers r) ''authorization'' = Some (''Bearer '' @ token) \<and>
     ((\<exists>rest. route (req_url r) = Some ([''api'', ''v1'', ''portal'', ''instances'', slug] @ rest)) \<or>
      req_url r \<in> {''/api/v1/portal/billing/credits/checkout'', ''/api/v1/soul/agents/mine''})"

lemma scope_path:
  assumes "\<not> dot_segment slug" and "list_all piece_ok ps" and "query_suffix q"
  shows "\<exists>rest. route (''/api/v1/portal/instances/'' @ encodeURIComponent slug @ path_of ps @ q) =
     Some ([''api'', ''v1'', ''portal'', ''instances'', slug] @ rest)"
proof -
  have url: "''/api/v1/portal/instances/'' @ encodeURIComponent slug @ path_of ps @ q = path_of (portal_instance slug @ ps) @ q"
    by (simp add: path_of_def)
  have "list_all piece_ok (portal_instance slug @ ps)" using assms(1,2) by simp
  then have "route (path_of (portal_instance slug @ ps) @ q) = Some (map piece_value (portal_instance slug @ ps))"
    by (rule route_path_of [OF _ assms(3)])
  then show ?thesis unfolding url by (intro exI [of _ "map piece_value ps"]) simp
qed

lemma month_plain: "month_shape m \<Longrightarrow> plain_segment m"
proof -
  assume m: "month_shape m"
  then have "m = take 4 m @ [m ! 4] @ drop 5 m"
    by (simp add: month_shape_def) (metis Cons_nth_drop_Suc append_take_drop_id lessI numeral_eq_Suc pred_numeral_simps(2-3)
        less_Suc_eq_le Suc_le_lessD nat_less_le semiring_norm(26-28))
  then have "set m = set (take 4 m) \<union> {m ! 4} \<union> set (drop 5 m)" by (metis list.set(1,2) set_append sup_assoc)
  then show ?thesis using m by (auto simp: month_shape_def plain_segment_def list_all_iff)
qed

lemma in_scope_by:
  assumes "\<not> dot_segment slug" and "list_all piece_ok ps" and "query_suffix q"
    and "u = ''/api/v1/portal/instances/'' @ encodeURIComponent slug @ path_of ps @ q"
    and "map_of h ''authorization'' = Some (''Bearer '' @ token)"
  shows "in_scope token slug \<lparr>req_method = m, req_url = u, req_headers = h, req_body = b\<rparr>"
  using scope_path [OF assms(1-3)] assms(4,5) by (simp add: in_scope_def)

lemma sends_scoped:
  assumes "\<not> dot_segment slug" and "list_all piece_ok ps" and "query_suffix q"
    and "op = api_call mt (''/api/v1/portal/instances/'' @ encodeURIComponent slug @ path_of ps @ q) h b"
    and "map_of h ''authorization'' = Some (''Bearer '' @ token)"
  shows "sends (http op) (in_scope token slug)"
  unfolding assms(4) by (intro sends_api in_scope_by [OF assms(1-3) refl assms(5)])

lemmas call_simps = path_of_def bearer_def json_headers_def jsonRequest_def query_suffix_def month_plain Let_def
  keep_truthy_def opt_set_def maybe_query_def truthy_def

text \<open>Every call of the pages stays in scope.\<close>

lemma list_keys_scoped: "\<not> dot_segment slug \<Longrightarrow> sends (http (portalListInstanceKeys token slug n)) (in_scope token slug)"
  unfolding portalListInstanceKeys_def
  by (intro sends_then, rule sends_scoped [where ps = "[Lit ''keys'']"
        and q = "one_param ''limit'' (map_option string_of_int (keep_nonzero n))"])
    (auto simp: call_simps one_param_def split: option.split)

lemma portalCreateInstanceKey_scoped: "\<not> dot_segment slug \<Longrightarrow> sends (http (portalCreateInstanceKey token slug)) (in_scope token slug)"
  by (rule sends_scoped [where ps = "[Lit ''keys'']" and q = "[]"]) (simp_all add: portalCreateInstanceKey_def call_simps)+

lemma portalRevokeInstanceKey_scoped: "\<not> dot_segment slug \<Longrightarrow> \<not> dot_segment x \<Longrightarrow> sends (http (portalRevokeInstanceKey token slug x)) (in_scope token slug)"
  by (rule sends_scoped [where ps = "[Lit ''keys'', Val x]" and q = "[]"]) (simp_all add: portalRevokeInstanceKey_def call_simps)+

lemma portalListInstanceDomains_scoped: "\<not> dot_segment slug \<Longrightarrow> sends (http (portalListInstanceDomains token slug)) (in_scope token slug)"
  by (rule sends_scoped [where ps = "[Lit ''domains'']" and q = "[]"]) (simp_all add: portalListInstanceDomains_def call_simps)+

lemma portalAddInstanceDomain_scoped: "\<not> dot_segment slug \<Longrightarrow> sends (http (portalAddInstanceDomain token slug d)) (in_scope token slug)"
  by (rule sends_scoped [where ps = "[Lit ''domains'']" and q = "[]"]) (simp_all add: portalAddInstanceDomain_def call_simps)+

lemma portalRotateInstanceDomain_scoped: "\<not> dot_segment slug \<Longrightarrow> \<not> dot_segment x \<Longrightarrow> sends (http (portalRotateInstanceDomain token slug x)) (in_scope token slug)"
  by (rule sends_scoped [where ps = "[Lit ''domains'', Val x, Lit ''rotate'']" and q = "[]"]) (simp_all add: portalRotateInstanceDomain_def call_simps)+

lemma portalVerifyInstanceDomain_scoped: "\<not> dot_segment slug \<Longrightarrow> \<not> dot_segment x \<Longrightarrow> sends (http (portalVerifyInstanceDomain token slug x)) (in_scope token slug)"
  by (rule sends_scoped [where ps = "[Lit ''domains'', Val x, Lit ''verify'']" and q = "[]"]) (simp_all add: portalVerifyInstanceDomain_def call_simps)+

lemma portalUpsertDomainVerificationRoute53_scoped: "\<not> dot_segment slug \<Longrightarrow> \<not> dot_segment x \<Longrightarrow> sends (http (portalUpsertDomainVerificationRoute53 token slug x)) (in_scope token slug)"
  by (rule sends_scoped [where ps = "[Lit ''domains'', Val x, Lit ''dns'', Lit ''route53'']" and q = "[]"]) (simp_all add: portalUpsertDomainVerificationRoute53_def call_simps)+

lemma portalDisableInstanceDomain_scoped: "\<not> dot_segment slug \<Longrightarrow> \<not> dot_segment x \<Longrightarrow> sends (http (portalDisableInstanceDomain token slug x)) (in_scope token slug)"
  by (rule sends_scoped [where ps = "[Lit ''domains'', Val x, Lit ''disable'']" and q = "[]"]) (simp_all add: portalDisableInstanceDomain_def call_simps)+

lemma portalDeleteInstanceDomain_scoped: "\<not> dot_segment slug \<Longrightarrow> \<not> dot_segment x \<Longrightarrow> sends (http (portalDeleteInstanceDomain token slug x)) (in_scope token slug)"
  by (rule sends_scoped [where ps = "[Lit ''domains'', Val x]" and q = "[]"]) (simp_all add: portalDeleteInstanceDomain_def call_simps)+

lemma portalGetBudgetMonth_scoped: "\<not> dot_segment slug \<Longrightarrow> month_shape m \<Longrightarrow> sends (http (portalGetBudgetMonth token slug m)) (in_scope token slug)"
  by (rule sends_scoped [where ps = "[Lit ''budgets'', Lit m]" and q = "[]"]) (simp_all add: portalGetBudgetMonth_def call_simps)+

lemma portalSetBudgetMonth_scoped: "\<not> dot_segment slug \<Longrightarrow> month_shape m \<Longrightarrow> sends (http (portalSetBudgetMonth token slug m c)) (in_scope token slug)"
  by (rule sends_scoped [where ps = "[Lit ''budgets'', Lit m]" and q = "[]"]) (simp_all add: portalSetBudgetMonth_def call_simps)+

lemma portalListBudgets_scoped: "\<not> dot_segment slug \<Longrightarrow> sends (http (portalListBudgets token slug)) (in_scope token slug)"
  by (rule sends_scoped [where ps = "[Lit ''budgets'']" and q = "[]"]) (simp_all add: portalListBudgets_def call_simps)+

lemma portalGetUsageSummary_scoped: "\<not> dot_segment slug \<Longrightarrow> month_shape m \<Longrightarrow> sends (http (portalGetUsageSummary token slug m)) (in_scope token slug)"
  by (rule sends_scoped [where ps = "[Lit ''usage'', Lit m, Lit ''summary'']" and q = "[]"]) (simp_all add: portalGetUsageSummary_def call_simps)+

lemma portalListUsage_scoped: "\<not> dot_segment slug \<Longrightarrow> month_shape m \<Longrightarrow> sends (http (portalListUsage token slug m)) (in_scope token slug)"
  by (rule sends_scoped [where ps = "[Lit ''usage'', Lit m]" and q = "[]"]) (simp_all add: portalListUsage_def call_simps)+

lemma portalGetInstanceCost_scoped: "\<not> dot_segment slug \<Longrightarrow> sends (http (portalGetInstanceCost token slug None None)) (in_scope token slug)"
  by (rule sends_scoped [where ps = "[Lit ''cost'']" and q = "[]"]) (simp_all add: portalGetInstanceCost_def call_simps)+

lemma portalGetInstance_scoped: "\<not> dot_segment slug \<Longrightarrow> sends (http (portalGetInstance token slug)) (in_scope token slug)"
  by (rule sends_scoped [where ps = "[]" and q = "[]"]) (simp_all add: portalGetInstance_def call_simps)+

lemma portalUpdateInstanceConfig_scoped: "\<not> dot_segment slug \<Longrightarrow> sends (http (portalUpdateInstanceConfig token slug j)) (in_scope token slug)"
  by (rule sends_scoped [where ps = "[Lit ''config'']" and q = "[]"]) (simp_all add: portalUpdateInstanceConfig_def call_simps)+

lemma portalListUpdateJobs_scoped: "\<not> dot_segment slug \<Longrightarrow> sends (http (portalListUpdateJobs token slug n)) (in_scope token slug)"
  by (rule sends_scoped [where ps = "[Lit ''updates'']" and q = "one_param ''limit'' (map_option string_of_int (keep_nonzero n))"])
    (auto simp: portalListUpdateJobs_def call_simps one_param_def split: option.split)

lemma portalGetProvisioning_scoped: "\<not> dot_segment slug \<Longrightarrow> sends (http (portalGetProvisioning token slug)) (in_scope token slug)"
  by (rule sends_scoped [where ps = "[Lit ''provision'']" and q = "[]"]) (simp_all add: portalGetProvisioning_def call_simps)+

lemma portalCreateUpdateJob_scoped: "\<not> dot_segment slug \<Longrightarrow> sends (http (portalCreateUpdateJob token slug j)) (in_scope token slug)"
  by (rule sends_scoped [where ps = "[Lit ''updates'']" and q = "[]"]) (simp_all add: portalCreateUpdateJob_def call_simps)+

lemma portalStartProvisioning_scoped: "\<not> dot_segment slug \<Longrightarrow> sends (http (portalStartProvisioning token slug j)) (in_scope token slug)"
  by (rule sends_scoped [where ps = "[Lit ''provision'']" and q = "[]"]) (simp_all add: portalStartProvisioning_def call_simps)+

lemma portalProvisionConsentChallenge_scoped: "\<not> dot_segment slug \<Longrightarrow> sends (http (portalProvisionConsentChallenge token slug u)) (in_scope token slug)"
  by (rule sends_scoped [where ps = "[Lit ''provision'', Lit ''consent'', Lit ''challenge'']" and q = "[]"])
    (simp_all add: portalProvisionConsentChallenge_def call_simps)+

lemmas scoped_calls = list_keys_scoped portalListUpdateJobs_scoped portalGetProvisioning_scoped portalCreateUpdateJob_scoped
  portalStartProvisioning_scoped portalProvisionConsentChallenge_scoped
  portalCreateInstanceKey_scoped portalRevokeInstanceKey_scoped portalListInstanceDomains_scoped portalAddInstanceDomain_scoped portalRotateInstanceDomain_scoped portalVerifyInstanceDomain_scoped portalUpsertDomainVerificationRoute53_scoped portalDisableInstanceDomain_scoped portalDeleteInstanceDomain_scoped portalGetBudgetMonth_scoped portalSetBudgetMonth_scoped portalListBudgets_scoped portalGetUsageSummary_scoped portalListUsage_scoped portalGetInstanceCost_scoped portalGetInstance_scoped portalUpdateInstanceConfig_scoped

section \<open>The discipline of the pages\<close>

text \<open>
  \<open>v0\<close> is the session the page was mounted in, \<open>URL\<close> and \<open>here\<close> the browser's URL parser and the page's origin.
\<close>

definition instance_ok ::
  "json option \<Rightarrow> js_string \<Rightarrow> js_string \<Rightarrow> url_parser \<Rightarrow> js_string \<Rightarrow> 'a instance_frame_scheme \<Rightarrow> net \<Rightarrow> request list \<Rightarrow> bool" where
  "instance_ok v0 token slug URL here s net log \<longleftrightarrow>
     ip_token s = token \<and> ip_slug s = slug \<and> \<not> dot_segment slug \<and> (app_session (fr_app s) = None \<or> app_session (fr_app s) = v0) \<and>
     env_URL (fr_env s) = URL \<and> env_origin (fr_env s) = here \<and> month_clock (env_clock (fr_env s)) \<and>
     (\<forall>u \<in> set (fr_assigned s). isSafeRedirectUrl URL here u)"

definition instance_request_ok :: "json option \<Rightarrow> js_string \<Rightarrow> js_string \<Rightarrow> net \<Rightarrow> request list \<Rightarrow> request \<Rightarrow> bool" where
  "instance_request_ok v0 token slug net log r \<longleftrightarrow>
     in_scope token slug r \<or> (\<exists>v t. v0 = Some v \<and> string_member v ''token'' = Some t \<and> r = logout_request t)"

interpretation inst: framed_page "instance_ok v0 token slug URL here" "instance_request_ok v0 token slug"
  for v0 token slug URL here
  by unfold_locales (auto simp: instance_ok_def instance_request_ok_def logout_request_def, metis)

abbreviation instance_inv ::
  "json option \<Rightarrow> js_string \<Rightarrow> js_string \<Rightarrow> url_parser \<Rightarrow> js_string \<Rightarrow> 'a instance_frame_scheme \<Rightarrow> world \<Rightarrow> bool" where
  "instance_inv v0 token slug URL here \<equiv> page_inv (instance_ok v0 token slug URL here) (instance_request_ok v0 token slug)"

lemma scope_ok: "in_scope token slug r \<Longrightarrow> instance_request_ok v0 token slug net log r"
  by (simp add: instance_request_ok_def)

lemma instance_inv_iff:
  "instance_inv v0 token slug URL here s w \<longleftrightarrow>
     ip_token s = token \<and> ip_slug s = slug \<and> \<not> dot_segment slug \<and> (app_session (fr_app s) = None \<or> app_session (fr_app s) = v0) \<and>
     env_URL (fr_env s) = URL \<and> env_origin (fr_env s) = here \<and> month_clock (env_clock (fr_env s)) \<and>
     (\<forall>u \<in> set (fr_assigned s). isSafeRedirectUrl URL here u) \<and>
     requests_ok (instance_request_ok v0 token slug) (w_net w) (w_http w)"
  by (auto simp: page_inv_def instance_ok_def)

text \<open>The pages' own fields do not matter to the discipline.\<close>

lemma keys_page_fields [simp]:
  "instance_inv v0 t g U h (ky_createLoading_update x1 s) w \<longleftrightarrow> instance_inv v0 t g U h s w"
  "instance_inv v0 t g U h (ky_createError_update x2 s) w \<longleftrightarrow> instance_inv v0 t g U h s w"
  "instance_inv v0 t g U h (ky_created_update x3 s) w \<longleftrightarrow> instance_inv v0 t g U h s w"
  "instance_inv v0 t g U h (ky_keysLoading_update x4 s) w \<longleftrightarrow> instance_inv v0 t g U h s w"
  "instance_inv v0 t g U h (ky_keysError_update x5 s) w \<longleftrightarrow> instance_inv v0 t g U h s w"
  "instance_inv v0 t g U h (ky_keys_update x6 s) w \<longleftrightarrow> instance_inv v0 t g U h s w"
  "instance_inv v0 t g U h (ky_revoking_update x7 s) w \<longleftrightarrow> instance_inv v0 t g U h s w"
  "instance_inv v0 t g U h (ky_copyNotice_update x8 s) w \<longleftrightarrow> instance_inv v0 t g U h s w"
  by (simp_all add: instance_inv_iff)

lemma domains_page_fields [simp]:
  "instance_inv v0 t g U h (dm_loading_update x9 s) w \<longleftrightarrow> instance_inv v0 t g U h s w"
  "instance_inv v0 t g U h (dm_errorMessage_update x10 s) w \<longleftrightarrow> instance_inv v0 t g U h s w"
  "instance_inv v0 t g U h (dm_domains_update x11 s) w \<longleftrightarrow> instance_inv v0 t g U h s w"
  "instance_inv v0 t g U h (dm_addDomain_update x12 s) w \<longleftrightarrow> instance_inv v0 t g U h s w"
  "instance_inv v0 t g U h (dm_addLoading_update x13 s) w \<longleftrightarrow> instance_inv v0 t g U h s w"
  "instance_inv v0 t g U h (dm_addError_update x14 s) w \<longleftrightarrow> instance_inv v0 t g U h s w"
  "instance_inv v0 t g U h (dm_actionLoadingDomain_update x15 s) w \<longleftrightarrow> instance_inv v0 t g U h s w"
  "instance_inv v0 t g U h (dm_actionError_update x16 s) w \<longleftrightarrow> instance_inv v0 t g U h s w"
  "instance_inv v0 t g U h (dm_verificationByDomain_update x17 s) w \<longleftrightarrow> instance_inv v0 t g U h s w"
  "instance_inv v0 t g U h (dm_copyNotice_update x18 s) w \<longleftrightarrow> instance_inv v0 t g U h s w"
  by (simp_all add: instance_inv_iff)

lemma budgets_page_fields [simp]:
  "instance_inv v0 t g U h (bd_month_update x19 s) w \<longleftrightarrow> instance_inv v0 t g U h s w"
  "instance_inv v0 t g U h (bd_loading_update x20 s) w \<longleftrightarrow> instance_inv v0 t g U h s w"
  "instance_inv v0 t g U h (bd_errorMessage_update x21 s) w \<longleftrightarrow> instance_inv v0 t g U h s w"
  "instance_inv v0 t g U h (bd_budget_update x22 s) w \<longleftrightarrow> instance_inv v0 t g U h s w"
  "instance_inv v0 t g U h (bd_summary_update x23 s) w \<longleftrightarrow> instance_inv v0 t g U h s w"
  "instance_inv v0 t g U h (bd_budgetsList_update x24 s) w \<longleftrightarrow> instance_inv v0 t g U h s w"
  "instance_inv v0 t g U h (bd_includedCreditsInput_update x25 s) w \<longleftrightarrow> instance_inv v0 t g U h s w"
  "instance_inv v0 t g U h (bd_setBudgetLoading_update x26 s) w \<longleftrightarrow> instance_inv v0 t g U h s w"
  "instance_inv v0 t g U h (bd_setBudgetError_update x27 s) w \<longleftrightarrow> instance_inv v0 t g U h s w"
  "instance_inv v0 t g U h (bd_buyCreditsInput_update x28 s) w \<longleftrightarrow> instance_inv v0 t g U h s w"
  "instance_inv v0 t g U h (bd_buyLoading_update x29 s) w \<longleftrightarrow> instance_inv v0 t g U h s w"
  "instance_inv v0 t g U h (bd_buyError_update x30 s) w \<longleftrightarrow> instance_inv v0 t g U h s w"
  by (simp_all add: instance_inv_iff)

lemma usage_page_fields [simp]:
  "instance_inv v0 t g U h (us_month_update x31 s) w \<longleftrightarrow> instance_inv v0 t g U h s w"
  "instance_inv v0 t g U h (us_loading_update x32 s) w \<longleftrightarrow> instance_inv v0 t g U h s w"
  "instance_inv v0 t g U h (us_errorMessage_update x33 s) w \<longleftrightarrow> instance_inv v0 t g U h s w"
  "instance_inv v0 t g U h (us_summary_update x34 s) w \<longleftrightarrow> instance_inv v0 t g U h s w"
  "instance_inv v0 t g U h (us_ledger_update x35 s) w \<longleftrightarrow> instance_inv v0 t g U h s w"
  by (simp_all add: instance_inv_iff)

lemma cost_page_fields [simp]:
  "instance_inv v0 t g U h (co_loading_update x36 s) w \<longleftrightarrow> instance_inv v0 t g U h s w"
  "instance_inv v0 t g U h (co_costLoading_update x37 s) w \<longleftrightarrow> instance_inv v0 t g U h s w"
  "instance_inv v0 t g U h (co_errorMessage_update x38 s) w \<longleftrightarrow> instance_inv v0 t g U h s w"
  "instance_inv v0 t g U h (co_costError_update x39 s) w \<longleftrightarrow> instance_inv v0 t g U h s w"
  "instance_inv v0 t g U h (co_budget_update x40 s) w \<longleftrightarrow> instance_inv v0 t g U h s w"
  "instance_inv v0 t g U h (co_summary_update x41 s) w \<longleftrightarrow> instance_inv v0 t g U h s w"
  "instance_inv v0 t g U h (co_cost_update x42 s) w \<longleftrightarrow> instance_inv v0 t g U h s w"
  "instance_inv v0 t g U h (co_displayMonth_update x43 s) w \<longleftrightarrow> instance_inv v0 t g U h s w"
  by (simp_all add: instance_inv_iff)

lemma souls_page_fields [simp]:
  "instance_inv v0 t g U h (so_loading_update x44 s) w \<longleftrightarrow> instance_inv v0 t g U h s w"
  "instance_inv v0 t g U h (so_errorMessage_update x45 s) w \<longleftrightarrow> instance_inv v0 t g U h s w"
  "instance_inv v0 t g U h (so_instance_update x46 s) w \<longleftrightarrow> instance_inv v0 t g U h s w"
  "instance_inv v0 t g U h (so_allAgents_update x47 s) w \<longleftrightarrow> instance_inv v0 t g U h s w"
  by (simp_all add: instance_inv_iff)

lemma config_page_fields [simp]:
  "instance_inv v0 t g U h (cf_loading_update y0 s) w \<longleftrightarrow> instance_inv v0 t g U h s w"
  "instance_inv v0 t g U h (cf_saving_update y1 s) w \<longleftrightarrow> instance_inv v0 t g U h s w"
  "instance_inv v0 t g U h (cf_errorMessage_update y2 s) w \<longleftrightarrow> instance_inv v0 t g U h s w"
  "instance_inv v0 t g U h (cf_successMessage_update y3 s) w \<longleftrightarrow> instance_inv v0 t g U h s w"
  "instance_inv v0 t g U h (cf_instance_update y4 s) w \<longleftrightarrow> instance_inv v0 t g U h s w"
  "instance_inv v0 t g U h (cf_form_update y5 s) w \<longleftrightarrow> instance_inv v0 t g U h s w"
  "instance_inv v0 t g U h (cf_fieldErrors_update y6 s) w \<longleftrightarrow> instance_inv v0 t g U h s w"
  "instance_inv v0 t g U h (cf_ackRenderAlways_update y7 s) w \<longleftrightarrow> instance_inv v0 t g U h s w"
  "instance_inv v0 t g U h (cf_ackAI_update y8 s) w \<longleftrightarrow> instance_inv v0 t g U h s w"
  by (simp_all add: instance_inv_iff)

lemma overview_page_fields [simp]:
  "instance_inv v0 t g U h (ov_instanceLoading_update z0 s) w \<longleftrightarrow> instance_inv v0 t g U h s w"
  "instance_inv v0 t g U h (ov_instanceError_update z1 s) w \<longleftrightarrow> instance_inv v0 t g U h s w"
  "instance_inv v0 t g U h (ov_instance_update z2 s) w \<longleftrightarrow> instance_inv v0 t g U h s w"
  "instance_inv v0 t g U h (ov_domainsLoading_update z3 s) w \<longleftrightarrow> instance_inv v0 t g U h s w"
  "instance_inv v0 t g U h (ov_domainsError_update z4 s) w \<longleftrightarrow> instance_inv v0 t g U h s w"
  "instance_inv v0 t g U h (ov_domains_update z5 s) w \<longleftrightarrow> instance_inv v0 t g U h s w"
  "instance_inv v0 t g U h (ov_provisioningLoading_update z6 s) w \<longleftrightarrow> instance_inv v0 t g U h s w"
  "instance_inv v0 t g U h (ov_provisioningError_update z7 s) w \<longleftrightarrow> instance_inv v0 t g U h s w"
  "instance_inv v0 t g U h (ov_provisioningJob_update z8 s) w \<longleftrightarrow> instance_inv v0 t g U h s w"
  "instance_inv v0 t g U h (ov_polling_update z9 s) w \<longleftrightarrow> instance_inv v0 t g U h s w"
  "instance_inv v0 t g U h (ov_updatesLoading_update z10 s) w \<longleftrightarrow> instance_inv v0 t g U h s w"
  "instance_inv v0 t g U h (ov_updatesError_update z11 s) w \<longleftrightarrow> instance_inv v0 t g U h s w"
  "instance_inv v0 t g U h (ov_updateJobs_update z12 s) w \<longleftrightarrow> instance_inv v0 t g U h s w"
  "instance_inv v0 t g U h (ov_updatesPolling_update z13 s) w \<longleftrightarrow> instance_inv v0 t g U h s w"
  "instance_inv v0 t g U h (ov_updateCreating_update z14 s) w \<longleftrightarrow> instance_inv v0 t g U h s w"
  "instance_inv v0 t g U h (ov_updateLesserVersion_update z15 s) w \<longleftrightarrow> instance_inv v0 t g U h s w"
  "instance_inv v0 t g U h (ov_updateLesserBodyVersion_update z16 s) w \<longleftrightarrow> instance_inv v0 t g U h s w"
  "instance_inv v0 t g U h (ov_provisionRegion_update z17 s) w \<longleftrightarrow> instance_inv v0 t g U h s w"
  "instance_inv v0 t g U h (ov_provisionLesserVersion_update z18 s) w \<longleftrightarrow> instance_inv v0 t g U h s w"
  "instance_inv v0 t g U h (ov_provisionAdminUsername_update z19 s) w \<longleftrightarrow> instance_inv v0 t g U h s w"
  "instance_inv v0 t g U h (ov_pollController_update z20 s) w \<longleftrightarrow> instance_inv v0 t g U h s w"
  "instance_inv v0 t g U h (ov_updatesPollController_update z21 s) w \<longleftrightarrow> instance_inv v0 t g U h s w"
  "instance_inv v0 t g U h (ov_controllers_update z22 s) w \<longleftrightarrow> instance_inv v0 t g U h s w"
  "instance_inv v0 t g U h (ov_aborted_update z23 s) w \<longleftrightarrow> instance_inv v0 t g U h s w"
  by (simp_all add: instance_inv_iff)

lemma confirm_field [simp]:
  "instance_inv v0 t g U h (s\<lparr>fr_env := (fr_env s)\<lparr>env_confirm := f\<rparr>\<rparr>) w \<longleftrightarrow> instance_inv v0 t g U h s w"
  by (simp add: instance_inv_iff)

lemma scoped_call:
  assumes "instance_inv v0 token slug URL here s w"
    and "\<not> dot_segment (ip_slug s) \<Longrightarrow> sends op (in_scope (ip_token s) (ip_slug s))"
    and "\<And>e w'. later w w' \<Longrightarrow> inst.guarded v0 token slug URL here w' (catch e)"
    and "\<And>v w'. later w w' \<Longrightarrow> inst.guarded v0 token slug URL here w' (k v)"
  shows "inst.guarded_result v0 token slug URL here w (try_await op catch k s)"
  using assms by (intro inst.guarded_sends [OF assms(1) _ scope_ok]) (auto simp: instance_inv_iff)

lemma failed_guard:
  assumes "\<And>e w. inst.guarded v0 token slug URL here w (throw e)" and "\<And>w. inst.guarded v0 token slug URL here w k"
    and "\<And>e s w. instance_inv v0 token slug URL here s w \<Longrightarrow> instance_inv v0 token slug URL here (lower (fail e s)) w"
    and "\<And>s w. instance_inv v0 token slug URL here s w \<Longrightarrow> instance_inv v0 token slug URL here (lower s) w"
    and "instance_inv v0 token slug URL here s w"
  shows "inst.guarded_result v0 token slug URL here w (rejected lower fail throw k e s)"
  using assms by (intro inst.guardedD [OF inst.rejected_guarded])

lemmas instance_guards = inst.guarded_by scoped_call
  inst.guarded_local [where op = "clipboard_write t" for t] inst.guarded_local [where op = timer]
  failed_guard inst.detach_guarded inst.finish_guarded safe_finish scoped_calls sends_all sends_all3

lemma instant_guarded:
  "(\<And>s w. instance_inv v0 token slug URL here s w \<Longrightarrow> instance_inv v0 token slug URL here (g s) w) \<Longrightarrow>
   inst.guarded v0 token slug URL here w (\<lambda>s. finish (g s))"
  by (intro inst.guarded_by safe_finish)

lemma normalizeMonth_shape: "normalizeMonth x = Some m \<Longrightarrow> month_shape m"
  by (auto simp: normalizeMonth_def Let_def split: if_splits option.splits)

lemma current_month: "instance_inv v0 token slug URL here s w \<Longrightarrow> month_shape (currentMonthUTC (fr_env s))"
  by (auto simp: instance_inv_iff month_clock_def currentMonthUTC_def opt_or_def str_or_def month_shape_def)

lemma assign_ok:
  "instance_inv v0 token slug URL here s w \<Longrightarrow> isSafeRedirectUrl (env_URL (fr_env s)) (env_origin (fr_env s)) u \<Longrightarrow>
   instance_inv v0 token slug URL here (location_assign u s) w"
  by (auto simp: instance_inv_iff location_assign_def)

lemma loadKeys_guarded: "inst.guarded v0 token slug URL here w loadKeys"
  unfolding loadKeys_def Let_def by (auto intro!: instance_guards failed_guard split: sum.splits)

lemma keys_guarded:
  assumes "h \<in> keys_handlers"
  shows "inst.guarded v0 token slug URL here w h"
proof -
  have "inst.guarded v0 token slug URL here w createKey"
    unfolding createKey_def Let_def by (auto intro!: instance_guards loadKeys_guarded)
  moreover have "inst.guarded v0 token slug URL here w (revokeKey k)" if "\<not> dot_segment k" for k
    unfolding revokeKey_def Let_def using that by (auto intro!: instance_guards loadKeys_guarded)
  moreover have "inst.guarded v0 token slug URL here w (copy_key t)" for t
    unfolding copy_key_def by (auto intro!: instance_guards)
  ultimately show ?thesis
    using assms loadKeys_guarded
    by (auto simp: keys_handlers_def dismissKey_def [abs_def] intro!: instant_guarded)
qed

lemma loadDomains_guarded:
  assumes t: "\<And>e w. inst.guarded v0 token slug URL here w (throw e)"
    and k: "\<And>w. inst.guarded v0 token slug URL here w k"
  shows "inst.guarded v0 token slug URL here w (loadDomains throw k)"
  unfolding loadDomains_def Let_def
  by (auto intro!: instance_guards inst.guardedD [OF k] inst.guardedD [OF t] split: sum.splits)

lemma action_failed_guarded: "inst.guarded v0 token slug URL here w (action_failed e)"
  unfolding action_failed_def by (intro inst.guarded_by failed_guard inst.finish_guarded; simp)

lemma action_done_guarded: "inst.guarded v0 token slug URL here w action_done"
  unfolding action_done_def by (intro loadDomains_guarded action_failed_guarded inst.guarded_by safe_finish) simp_all

lemma keep_verification_inv:
  "keep_verification res s = Inr s' \<Longrightarrow> instance_inv v0 token slug URL here s' w \<longleftrightarrow> instance_inv v0 token slug URL here s w"
  by (auto simp: keep_verification_def split: option.splits json.splits)

lemma domains_guarded:
  assumes "h \<in> domains_handlers"
  shows "inst.guarded v0 token slug URL here w h"
proof -
  note acts = instance_guards action_failed_guarded action_done_guarded inst.guardedD [OF action_failed_guarded]
    inst.guardedD [OF action_done_guarded]
  have "inst.guarded v0 token slug URL here w addVanityDomain"
    unfolding addVanityDomain_def Let_def
    by (auto simp: keep_verification_inv intro!: acts inst.guardedD [OF loadDomains_guarded] split: sum.splits)
  moreover have "inst.guarded v0 token slug URL here w (rotate_domain d)" "inst.guarded v0 token slug URL here w (verify_domain d)"
    "inst.guarded v0 token slug URL here w (route53AssistAndVerify d)" "inst.guarded v0 token slug URL here w (disable_domain d)"
    "inst.guarded v0 token slug URL here w (remove_domain d)" if "\<not> dot_segment d" for d
    unfolding rotate_domain_def verify_domain_def route53AssistAndVerify_def disable_domain_def remove_domain_def Let_def
    using that by (auto simp: keep_verification_inv intro!: acts split: sum.splits)
  moreover have "inst.guarded v0 token slug URL here w (copy_domain t)" for t
    unfolding copy_domain_def by (auto intro!: instance_guards)
  ultimately show ?thesis
    using assms by (auto simp: domains_handlers_def intro!: instant_guarded loadDomains_guarded inst.finish_guarded)
qed

lemma loadAll_budgets_guarded:
  assumes t: "\<And>e w. inst.guarded v0 token slug URL here w (throw e)"
    and k: "\<And>w. inst.guarded v0 token slug URL here w k"
  shows "inst.guarded v0 token slug URL here w (loadAll_budgets throw k)"
  unfolding loadAll_budgets_def Let_def
  by (auto intro!: normalizeMonth_shape instance_guards inst.guardedD [OF k] inst.guardedD [OF t] split: option.splits)

lemma budgets_guarded:
  assumes "h \<in> budgets_handlers"
  shows "inst.guarded v0 token slug URL here w h"
proof -
  have "inst.guarded v0 token slug URL here w setBudgetMonth"
    unfolding setBudgetMonth_def Let_def
    by (auto intro!: normalizeMonth_shape instance_guards inst.guardedD [OF loadAll_budgets_guarded] split: option.splits)
  moreover have checkout: "sends (http (portalCreateCreditsCheckout token j)) (in_scope token slug)" for token slug j
    unfolding portalCreateCreditsCheckout_def Let_def by (rule sends_api) (simp add: in_scope_def bearer_def)
  have "inst.guarded v0 token slug URL here w buyCredits"
    unfolding buyCredits_def Let_def
    by (auto intro!: assign_ok checkout normalizeMonth_shape instance_guards split: option.splits sum.splits)
  ultimately show ?thesis
    using assms by (auto simp: budgets_handlers_def intro!: instant_guarded loadAll_budgets_guarded inst.finish_guarded)
qed

lemma usage_guarded:
  assumes "h \<in> usage_handlers"
  shows "inst.guarded v0 token slug URL here w h"
proof -
  have "inst.guarded v0 token slug URL here w loadAll_usage"
    unfolding loadAll_usage_def Let_def
    by (auto intro!: normalizeMonth_shape instance_guards split: option.splits)
  then show ?thesis using assms by (auto simp: usage_handlers_def intro!: instant_guarded)
qed

lemma cost_guarded:
  assumes "h \<in> cost_handlers"
  shows "inst.guarded v0 token slug URL here w h"
proof -
  have "inst.guarded v0 token slug URL here w loadCost" for w
    unfolding loadCost_def Let_def by (auto intro!: instance_guards)
  note cost = inst.guardedD [OF this]
  have "inst.guarded v0 token slug URL here w (leave (\<lambda>_ s. finish (s\<lparr>co_loading := False\<rparr>)) (\<lambda>s. finish (s\<lparr>co_loading := False\<rparr>)))" for w
    by (auto intro!: inst.leave_guarded instant_guarded)
  note lv = inst.guardedD [OF this]
  have "inst.guarded v0 token slug URL here w loadAll_cost"
    unfolding loadAll_cost_def Let_def
    by (auto intro: current_month intro!: instance_guards cost lv)
  moreover have "instance_inv v0 token slug URL here (s\<lparr>fr_env := (fr_env s)\<lparr>env_clock := c\<rparr>\<rparr>) w"
    if "month_clock c" "instance_inv v0 token slug URL here s w" for s :: cost_page and c w
    using that by (simp add: instance_inv_iff)
  ultimately show ?thesis using assms by (auto simp: cost_handlers_def intro!: instant_guarded)
qed

lemma souls_guarded:
  assumes "h \<in> souls_handlers"
  shows "inst.guarded v0 token slug URL here w h"
proof -
  have mine: "sends (http (soulListMyAgents token)) (in_scope token slug)" for token slug
    unfolding soulListMyAgents_def by (rule sends_api) (simp add: in_scope_def bearer_def)
  then show ?thesis
    using assms unfolding souls_handlers_def
    by (auto simp: load_souls_def Let_def intro!: instance_guards mine split: sum.splits)
qed

lemma set_form_inv [simp]: "instance_inv v0 t g U h (set_form f s) w \<longleftrightarrow> instance_inv v0 t g U h s w"
  by (simp add: set_form_def)

lemma config_guarded:
  assumes "h \<in> config_handlers"
  shows "inst.guarded v0 token slug URL here w h"
proof -
  have e: "instance_inv v0 t g U h (applyServerFieldErrors m s) w \<longleftrightarrow> instance_inv v0 t g U h s w" for v0 t g U h m s w
    by (simp add: applyServerFieldErrors_def Let_def)
  have "inst.guarded v0 token slug URL here w load_config"
    unfolding load_config_def Let_def by (auto intro!: instance_guards)
  moreover have "inst.guarded v0 token slug URL here w save_config"
    unfolding save_config_def Let_def by (auto simp: e intro!: instance_guards split: option.splits)
  moreover have "inst.guarded v0 token slug URL here w (edit_form g)" for g
    unfolding edit_form_def [abs_def] by (rule instant_guarded) (simp split: option.splits)
  ultimately show ?thesis using assms by (auto simp: config_handlers_def intro!: instant_guarded)
qed

text \<open>The overview: its loads, its polls and what it starts.\<close>

lemma abort_inv [simp]:
  "instance_inv v0 t g U h (abortPolling s) w \<longleftrightarrow> instance_inv v0 t g U h s w"
  "instance_inv v0 t g U h (abortUpdatesPolling s) w \<longleftrightarrow> instance_inv v0 t g U h s w"
  by (simp_all add: abortPolling_def abortUpdatesPolling_def abort_controller_def split: option.split)

lemma loadInstance_guarded: "inst.guarded v0 token slug URL here w loadInstance"
  unfolding loadInstance_def Let_def by (auto intro!: instance_guards)

lemma overview_loads_guarded:
  "inst.guarded v0 token slug URL here w loadDomains_overview" "inst.guarded v0 token slug URL here w loadProvisioning"
  "inst.guarded v0 token slug URL here w loadUpdates"
  unfolding loadDomains_overview_def loadProvisioning_def loadUpdates_def Let_def
  by (auto intro!: instance_guards split: sum.splits)

lemma returned_guarded:
  assumes "\<And>e w. inst.guarded v0 token slug URL here w (catch e)" and "\<And>v w. inst.guarded v0 token slug URL here w (k v)"
  shows "inst.guarded v0 token slug URL here w (returned r catch k)"
  unfolding returned_def [abs_def] by (rule inst.guarded_by, rule inst.guarded_local) (simp_all add: assms)

lemma pollProvisioning_guarded: "inst.guarded v0 token slug URL here w (pollProvisioning fuel)"
proof -
  have ask: "inst.guarded v0 token slug URL here w (ask_provisioning catch k)"
    if "\<And>e w. inst.guarded v0 token slug URL here w (catch e)" "\<And>v w. inst.guarded v0 token slug URL here w (k v)" for catch k w
    unfolding ask_provisioning_def [abs_def]
    by (rule inst.guarded_by, rule scoped_call, assumption, erule scoped_calls) (rule that)+
  have poll: "inst.guarded v0 token slug URL here w
      (poll_until ov_aborted fuel ctl ask_provisioning (\<lambda>job s. Inr (s\<lparr>ov_provisioningJob := job\<rparr>)) d failed k)"
    if "\<And>e w. inst.guarded v0 token slug URL here w (failed e)" "\<And>w. inst.guarded v0 token slug URL here w k" for w ctl d failed k
    using that by (intro poll_until_safe ask) auto
  show ?thesis
    unfolding pollProvisioning_def Let_def
    by (rule inst.guarded_by) (auto intro!: safe_laterD [OF poll] instance_guards)
qed

lemma ask_updates_guarded:
  assumes c: "\<And>e w. inst.guarded v0 token slug URL here w (catch e)" and k: "\<And>v w. inst.guarded v0 token slug URL here w (k v)"
  shows "inst.guarded v0 token slug URL here w (ask_updates jobId catch k)"
proof -
  note r = returned_guarded [where catch = catch and k = k, OF c k]
  show ?thesis
    unfolding ask_updates_def [abs_def]
    by (rule inst.guarded_by, rule scoped_call, assumption, erule scoped_calls, rule r)
      (auto intro!: inst.guarded_by inst.guardedD [OF r] split: sum.split option.split)
qed

lemma update_seen_inv: "update_seen job s = Inr s' \<Longrightarrow> instance_inv v0 t g U h s' w \<longleftrightarrow> instance_inv v0 t g U h s w"
  by (auto simp: update_seen_def split: if_splits sum.splits option.splits)

lemma pollUpdateJob_guarded: "inst.guarded v0 token slug URL here w (pollUpdateJob fuel jobId)"
proof -
  have poll: "inst.guarded v0 token slug URL here w (poll_until ov_aborted fuel ctl (ask_updates jobId) update_seen d failed k)"
    if "\<And>e w. inst.guarded v0 token slug URL here w (failed e)" "\<And>w. inst.guarded v0 token slug URL here w k" for w ctl d failed k
    using that by (intro poll_until_safe ask_updates_guarded) (simp_all add: update_seen_inv)
  show ?thesis
    unfolding pollUpdateJob_def Let_def
    by (rule inst.guarded_by)
      (auto intro!: safe_laterD [OF poll] loadInstance_guarded instance_guards split: sum.split option.split)
qed

lemma startUpdateJob_guarded: "inst.guarded v0 token slug URL here w (startUpdateJob fuel opts)"
  unfolding startUpdateJob_def Let_def
  by (auto intro!: instance_guards pollUpdateJob_guarded split: sum.splits option.splits)

lemma provision_failed_guarded: "inst.guarded v0 token slug URL here w (provision_failed e)"
  unfolding provision_failed_def by (intro inst.guarded_by failed_guard inst.finish_guarded; simp add: provision_lower_def)

lemma startProvisioning_guarded: "inst.guarded v0 token slug URL here w (startProvisioning fuel)"
proof -
  have local: "sends (rpc p m) (in_scope token slug)" for p and m :: "'x wallet" and token slug
    by (rule sends_local) (simp add: rpc_def split_beta)
  note failed = inst.guardedD [OF provision_failed_guarded] provision_failed_guarded
  have "inst.guarded v0 token slug URL here w (sign_consent fuel p region version challenge)" for w p region version challenge
    unfolding sign_consent_def with_accounts_def with_signature_def Let_def
    by (auto simp: provision_lower_def [abs_def] intro!: failed instance_guards local pollProvisioning_guarded)
  note sign = inst.guardedD [OF this]
  show ?thesis
    unfolding startProvisioning_def Let_def by (auto intro!: sign failed instance_guards split: option.splits)
qed

lemma go_inv: "instance_inv v0 t g U h s w \<Longrightarrow> instance_inv v0 t g U h (go p s) w"
  by (rule inst.go_ok)

lemma overview_guarded:
  assumes "h \<in> overview_handlers fuel"
  shows "inst.guarded v0 token slug URL here w h"
proof -
  have "inst.guarded v0 token slug URL here w (poll_active fuel)"
    unfolding poll_active_def Let_def by (auto intro!: inst.guarded_by inst.guardedD [OF pollUpdateJob_guarded] safe_finish)
  moreover have "inst.guarded v0 token slug URL here w (applyConfiguration fuel)" "inst.guarded v0 token slug URL here w (rotateInstanceKey fuel)"
    "inst.guarded v0 token slug URL here w (startVersionUpdate fuel)" "inst.guarded v0 token slug URL here w (updateBodyOnly fuel)"
    "inst.guarded v0 token slug URL here w (updateMcpOnly fuel)"
    unfolding applyConfiguration_def [abs_def] rotateInstanceKey_def [abs_def] startVersionUpdate_def [abs_def]
      updateBodyOnly_def [abs_def] updateMcpOnly_def [abs_def]
    by (rule inst.guarded_by, rule inst.guardedD [OF startUpdateJob_guarded], assumption)+
  moreover have "inst.guarded v0 token slug URL here w overview_slug_effect" "inst.guarded v0 token slug URL here w username_effect"
    unfolding overview_slug_effect_def [abs_def] username_effect_def [abs_def] Let_def
    by (auto intro!: instant_guarded intro: go_inv)
  ultimately show ?thesis
    using assms
    by (auto simp: overview_handlers_def refreshAll_def intro!: instant_guarded loadInstance_guarded overview_loads_guarded
        pollProvisioning_guarded startProvisioning_guarded)
qed

section \<open>Every page stays with its instance\<close>

interpretation keys_page: page_invariant keys_handlers later "instance_inv v0 token slug URL here" for v0 token slug URL here
  by unfold_locales (simp_all add: keys_guarded later_trans)

interpretation domains_page: page_invariant domains_handlers later "instance_inv v0 token slug URL here" for v0 token slug URL here
  by unfold_locales (simp_all add: domains_guarded later_trans)

interpretation budgets_page: page_invariant budgets_handlers later "instance_inv v0 token slug URL here" for v0 token slug URL here
  by unfold_locales (simp_all add: budgets_guarded later_trans)

interpretation usage_page: page_invariant usage_handlers later "instance_inv v0 token slug URL here" for v0 token slug URL here
  by unfold_locales (simp_all add: usage_guarded later_trans)

interpretation cost_page: page_invariant cost_handlers later "instance_inv v0 token slug URL here" for v0 token slug URL here
  by unfold_locales (simp_all add: cost_guarded later_trans)

interpretation souls_page: page_invariant souls_handlers later "instance_inv v0 token slug URL here" for v0 token slug URL here
  by unfold_locales (simp_all add: souls_guarded later_trans)

interpretation config_page: page_invariant config_handlers later "instance_inv v0 token slug URL here" for v0 token slug URL here
  by unfold_locales (simp_all add: config_guarded later_trans)

interpretation overview_page: page_invariant "overview_handlers fuel" later "instance_inv v0 token slug URL here"
  for fuel v0 token slug URL here
  by unfold_locales (simp_all add: overview_guarded later_trans)

text \<open>
  A page with the handlers \<open>H\<close> that is mounted with any values of its own fields and before any request: whatever has
  happened on it, its requests are in scope or end the session it was mounted in, and it has left only for
  safe addresses.
\<close>

definition stays_in_scope :: "('a instance_frame_scheme, world) segment set \<Rightarrow> bool" where
  "stays_in_scope H \<longleftrightarrow>
     (\<forall>s w pg. page_reachable H (fresh_page s w) pg \<longrightarrow> w_http w = [] \<longrightarrow> fr_assigned s = [] \<longrightarrow>
        \<not> dot_segment (ip_slug s) \<longrightarrow> month_clock (env_clock (fr_env s)) \<longrightarrow>
        (\<forall>r \<in> set (w_http (pg_world pg)). in_scope (ip_token s) (ip_slug s) r \<or>
           (\<exists>v t. app_session (fr_app s) = Some v \<and> string_member v ''token'' = Some t \<and> r = logout_request t)) \<and>
        (\<forall>u \<in> set (fr_assigned (pg_state pg)). isSafeRedirectUrl (env_URL (fr_env s)) (env_origin (fr_env s)) u))"

lemma stays_in_scope_by:
  assumes "\<And>s w pg v0 token slug URL here. page_reachable H (fresh_page s w) pg \<Longrightarrow>
      instance_inv v0 token slug URL here s w \<Longrightarrow> instance_inv v0 token slug URL here (pg_state pg) (pg_world pg)"
  shows "stays_in_scope H"
  unfolding stays_in_scope_def
proof (intro allI impI)
  fix s w pg assume pg: "page_reachable H (fresh_page s w) pg"
    and s: "w_http w = []" "fr_assigned s = []" "\<not> dot_segment (ip_slug s)" "month_clock (env_clock (fr_env s))"
  have "instance_inv (app_session (fr_app s)) (ip_token s) (ip_slug s) (env_URL (fr_env s)) (env_origin (fr_env s))
      (pg_state pg) (pg_world pg)"
    by (rule assms [OF pg]) (simp add: instance_inv_iff s)
  then show "(\<forall>r \<in> set (w_http (pg_world pg)). in_scope (ip_token s) (ip_slug s) r \<or>
           (\<exists>v t. app_session (fr_app s) = Some v \<and> string_member v ''token'' = Some t \<and> r = logout_request t)) \<and>
        (\<forall>u \<in> set (fr_assigned (pg_state pg)). isSafeRedirectUrl (env_URL (fr_env s)) (env_origin (fr_env s)) u)"
    unfolding instance_inv_iff instance_request_ok_def by (auto dest: requests_ok_member)
qed


definition sample_domains :: domains_page where
  "sample_domains = \<lparr>fr_env = sample_env\<lparr>env_clock := \<lparr>date_now = 0, date_parse = \<lambda>_. None, date_iso = \<lambda>_. Some ''2026-05-24T00:00:00.000Z''\<rparr>\<rparr>,
     fr_app = sample_app, fr_router = load_router ''/'' sample_storage, fr_assigned = [], ip_token = ''t'', ip_slug = ''a/../b'',
     dm_loading = False, dm_errorMessage = None, dm_domains = [], dm_addDomain = [], dm_addLoading = False, dm_addError = None,
     dm_actionLoadingDomain = None, dm_actionError = None, dm_verificationByDomain = \<lambda>_. None, dm_copyNotice = None\<rparr>"

abbreviation sample_domains_run :: "domains_page \<times> world" where
  "sample_domains_run \<equiv> run_all [verify_domain ''../x''] sample_domains (sample_world (\<lambda>_. JObj []))"

lemma sample_domains_log:
  "map req_url (w_http (snd sample_domains_run)) =
     [''/api/v1/portal/instances/'' @ encodeURIComponent ''a/../b'' @ ''/domains/'' @ encodeURIComponent ''../x'' @ ''/verify'',
      ''/api/v1/portal/instances/'' @ encodeURIComponent ''a/../b'' @ ''/domains'']"
  by (simp add: verify_domain_def action_done_def loadDomains_def portalVerifyInstanceDomain_def portalListInstanceDomains_def
      run_eval sample_domains_def sample_world_def list_member_def obj_get_def)

lemma verify_domain_handler: "\<not> dot_segment d \<Longrightarrow> verify_domain d \<in> domains_handlers"
  unfolding domains_handlers_def by blast


end
