(* ===== verification/Instance_Progress.thy ===== *)
theory Instance_Progress
  imports Overview_Page
begin

text \<open>
  The pages of an instance come to rest: whatever the user does and however the answers interleave, once
  they have all arrived no loading flag is up.  For each flag of a page its handlers either leave it alone or
  raise and lower it (\<open>Async\<close>).
\<close>

lemmas keep_intros = owesR owes_try_kept owes_stop rejected_keeps owes_same [OF rejected_keeps] owes_finish_only detach_keeps
lemmas lower_intros = owesR owes_try_raised owes_stop rejected_lowers owes_true [OF rejected_lowers] owes_finish_only detach_lowers
lemmas pass_intros = owesR owes_try_raised rejected_pays owes_true [OF rejected_pays]

lemma input_keeps: "(\<And>s. f (g s) \<Longrightarrow> f s) \<Longrightarrow> owes f False (\<lambda>s. finish (g s))"
  by (intro owesR owes_stop) simp

section \<open>Keys\<close>

abbreviation revoking :: "keys_page \<Rightarrow> bool" where
  "revoking s \<equiv> \<exists>k. ky_revoking s = Some k"

lemma own_keys: "own_flag ky_createLoading" "own_flag ky_keysLoading" "own_flag revoking"
  by (simp_all add: own_flag_def)

lemma loadKeys_ky_createLoading: "owes ky_createLoading False (loadKeys)"
  unfolding loadKeys_def Let_def
  by (auto simp: own_keys intro!: keep_intros split: sum.splits option.splits prod.splits)

lemma loadKeys_ky_keysLoading: "owes ky_keysLoading False (loadKeys)"
  unfolding loadKeys_def Let_def
  by (auto simp: own_keys intro!: lower_intros split: sum.splits option.splits prod.splits)

lemma loadKeys_revoking: "owes revoking False (loadKeys)"
  unfolding loadKeys_def Let_def
  by (auto simp: own_keys intro!: keep_intros split: sum.splits option.splits prod.splits)

lemma createKey_ky_createLoading: "owes ky_createLoading False (createKey)"
  unfolding createKey_def Let_def
  by (auto simp: own_keys intro!: lower_intros loadKeys_ky_createLoading owesD [OF loadKeys_ky_createLoading] split: sum.splits option.splits prod.splits)

lemma createKey_ky_keysLoading: "owes ky_keysLoading False (createKey)"
  unfolding createKey_def Let_def
  by (auto simp: own_keys intro!: keep_intros loadKeys_ky_keysLoading owesD [OF loadKeys_ky_keysLoading] split: sum.splits option.splits prod.splits)

lemma createKey_revoking: "owes revoking False (createKey)"
  unfolding createKey_def Let_def
  by (auto simp: own_keys intro!: keep_intros loadKeys_revoking owesD [OF loadKeys_revoking] split: sum.splits option.splits prod.splits)

lemma revokeKey_ky_createLoading: "owes ky_createLoading False (revokeKey k)"
  unfolding revokeKey_def Let_def
  by (auto simp: own_keys intro!: keep_intros loadKeys_ky_createLoading owesD [OF loadKeys_ky_createLoading] split: sum.splits option.splits prod.splits)

lemma revokeKey_ky_keysLoading: "owes ky_keysLoading False (revokeKey k)"
  unfolding revokeKey_def Let_def
  by (auto simp: own_keys intro!: keep_intros loadKeys_ky_keysLoading owesD [OF loadKeys_ky_keysLoading] split: sum.splits option.splits prod.splits)

lemma revokeKey_revoking: "owes revoking False (revokeKey k)"
  unfolding revokeKey_def Let_def
  by (auto simp: own_keys intro!: lower_intros loadKeys_revoking owesD [OF loadKeys_revoking] split: sum.splits option.splits prod.splits)

lemma copy_key_ky_createLoading: "owes ky_createLoading False (copy_key t)"
  unfolding copy_key_def Let_def
  by (auto simp: own_keys intro!: keep_intros split: sum.splits option.splits prod.splits)

lemma copy_key_ky_keysLoading: "owes ky_keysLoading False (copy_key t)"
  unfolding copy_key_def Let_def
  by (auto simp: own_keys intro!: keep_intros split: sum.splits option.splits prod.splits)

lemma copy_key_revoking: "owes revoking False (copy_key t)"
  unfolding copy_key_def Let_def
  by (auto simp: own_keys intro!: keep_intros split: sum.splits option.splits prod.splits)

lemma dismissKey_ky_createLoading: "owes ky_createLoading False (dismissKey)"
  unfolding dismissKey_def Let_def
  by (auto simp: own_keys intro!: keep_intros split: sum.splits option.splits prod.splits)

lemma dismissKey_ky_keysLoading: "owes ky_keysLoading False (dismissKey)"
  unfolding dismissKey_def Let_def
  by (auto simp: own_keys intro!: keep_intros split: sum.splits option.splits prod.splits)

lemma dismissKey_revoking: "owes revoking False (dismissKey)"
  unfolding dismissKey_def Let_def
  by (auto simp: own_keys intro!: keep_intros split: sum.splits option.splits prod.splits)

lemma keys_ky_createLoading: "h \<in> keys_handlers \<Longrightarrow> owes ky_createLoading False h"
  by (auto simp: keys_handlers_def intro!: input_keeps loadKeys_ky_createLoading createKey_ky_createLoading revokeKey_ky_createLoading copy_key_ky_createLoading dismissKey_ky_createLoading)

lemma keys_ky_keysLoading: "h \<in> keys_handlers \<Longrightarrow> owes ky_keysLoading False h"
  by (auto simp: keys_handlers_def intro!: input_keeps loadKeys_ky_keysLoading createKey_ky_keysLoading revokeKey_ky_keysLoading copy_key_ky_keysLoading dismissKey_ky_keysLoading)

lemma keys_revoking: "h \<in> keys_handlers \<Longrightarrow> owes revoking False h"
  by (auto simp: keys_handlers_def intro!: input_keeps loadKeys_revoking createKey_revoking revokeKey_revoking copy_key_revoking dismissKey_revoking)

interpretation keys_create: loading_flag keys_handlers ky_createLoading by unfold_locales (rule keys_ky_createLoading)
interpretation keys_load: loading_flag keys_handlers ky_keysLoading by unfold_locales (rule keys_ky_keysLoading)
interpretation keys_revoke: loading_flag keys_handlers revoking by unfold_locales (rule keys_revoking)

section \<open>Domains\<close>

abbreviation acting :: "domains_page \<Rightarrow> bool" where
  "acting s \<equiv> \<exists>d. dm_actionLoadingDomain s = Some d"

lemma own_domains: "own_flag dm_loading" "own_flag dm_addLoading" "own_flag acting"
  by (simp_all add: own_flag_def)

text \<open>The reload, inside a handler that owes a flag and inside one that does not.\<close>

lemma loadDomains_pays:
  assumes t: "\<And>e. owes f True (throw e)" and k: "owes f True k"
  shows "owes f True (loadDomains throw k)"
  unfolding loadDomains_def Let_def
  by (auto intro!: pass_intros t k owes_true [OF k] split: sum.splits)

lemma loadDomains_lowers:
  assumes t: "\<And>e. owes dm_loading False (throw e)" and k: "owes dm_loading False k"
  shows "owes dm_loading False (loadDomains throw k)"
  unfolding loadDomains_def Let_def
  by (auto simp: own_domains intro!: owesR owes_try_raised rejected_lowers owes_true [OF rejected_lowers] t k owes_lowered [OF k] split: sum.splits)

lemma loadDomains_keeps:
  assumes f: "f = dm_addLoading \<or> f = acting" and t: "\<And>e. owes f False (throw e)" and k: "owes f False k"
  shows "owes f False (loadDomains throw k)"
proof -
  have f': "own_flag f" "f (dm_loading_update a s) = f s" "f (dm_errorMessage_update b s) = f s" "f (dm_domains_update c s) = f s" for a b c s
    using f own_domains by auto
  show ?thesis
    unfolding loadDomains_def Let_def
    by (auto simp: f' intro!: owesR owes_try_kept rejected_keeps owes_same [OF rejected_keeps] t k owes_same [OF k] split: sum.splits)
qed

lemma keep_verification_flags:
  assumes "keep_verification res s = Inr s'"
  shows "dm_loading s' = dm_loading s" "dm_addLoading s' = dm_addLoading s" "dm_actionLoadingDomain s' = dm_actionLoadingDomain s"
  using assms by (auto simp: keep_verification_def split: option.splits json.splits)

lemma action_failed_flags:
  "owes dm_loading False (action_failed e)" "owes dm_addLoading False (action_failed e)" "owes acting True (action_failed e)"
  unfolding action_failed_def
  by (rule rejected_keeps rejected_lowers; simp add: own_domains owes_finish_only)+

lemma action_done_flags: "owes dm_loading False action_done" "owes dm_addLoading False action_done" "owes acting True action_done"
  unfolding action_done_def
  by (intro loadDomains_lowers loadDomains_keeps loadDomains_pays action_failed_flags owesR owes_stop; simp)+

lemma rotate_domain_dm_loading: "owes dm_loading False (rotate_domain d)"
  unfolding rotate_domain_def Let_def
  by (auto simp: action_failed_flags action_done_flags dest!: keep_verification_flags(1) intro!: owesR owes_try_kept owes_stop owes_same [OF action_failed_flags(1)] owes_same [OF action_done_flags(1)] split: sum.splits)

lemma rotate_domain_dm_addLoading: "owes dm_addLoading False (rotate_domain d)"
  unfolding rotate_domain_def Let_def
  by (auto simp: action_failed_flags action_done_flags dest!: keep_verification_flags(2) intro!: owesR owes_try_kept owes_stop owes_same [OF action_failed_flags(2)] owes_same [OF action_done_flags(2)] split: sum.splits)

lemma rotate_domain_acting: "owes acting False (rotate_domain d)"
  unfolding rotate_domain_def Let_def
  by (auto simp: action_failed_flags action_done_flags intro!: owesR owes_try_raised owes_stop owes_true [OF action_failed_flags(3)] owes_true [OF action_done_flags(3)] split: sum.splits)

lemma verify_domain_dm_loading: "owes dm_loading False (verify_domain d)"
  unfolding verify_domain_def Let_def
  by (auto simp: action_failed_flags action_done_flags dest!: keep_verification_flags(1) intro!: owesR owes_try_kept owes_stop owes_same [OF action_failed_flags(1)] owes_same [OF action_done_flags(1)] split: sum.splits)

lemma verify_domain_dm_addLoading: "owes dm_addLoading False (verify_domain d)"
  unfolding verify_domain_def Let_def
  by (auto simp: action_failed_flags action_done_flags dest!: keep_verification_flags(2) intro!: owesR owes_try_kept owes_stop owes_same [OF action_failed_flags(2)] owes_same [OF action_done_flags(2)] split: sum.splits)

lemma verify_domain_acting: "owes acting False (verify_domain d)"
  unfolding verify_domain_def Let_def
  by (auto simp: action_failed_flags action_done_flags intro!: owesR owes_try_raised owes_stop owes_true [OF action_failed_flags(3)] owes_true [OF action_done_flags(3)] split: sum.splits)

lemma route53AssistAndVerify_dm_loading: "owes dm_loading False (route53AssistAndVerify d)"
  unfolding route53AssistAndVerify_def Let_def
  by (auto simp: action_failed_flags action_done_flags dest!: keep_verification_flags(1) intro!: owesR owes_try_kept owes_stop owes_same [OF action_failed_flags(1)] owes_same [OF action_done_flags(1)] split: sum.splits)

lemma route53AssistAndVerify_dm_addLoading: "owes dm_addLoading False (route53AssistAndVerify d)"
  unfolding route53AssistAndVerify_def Let_def
  by (auto simp: action_failed_flags action_done_flags dest!: keep_verification_flags(2) intro!: owesR owes_try_kept owes_stop owes_same [OF action_failed_flags(2)] owes_same [OF action_done_flags(2)] split: sum.splits)

lemma route53AssistAndVerify_acting: "owes acting False (route53AssistAndVerify d)"
  unfolding route53AssistAndVerify_def Let_def
  by (auto simp: action_failed_flags action_done_flags intro!: owesR owes_try_raised owes_stop owes_true [OF action_failed_flags(3)] owes_true [OF action_done_flags(3)] split: sum.splits)

lemma disable_domain_dm_loading: "owes dm_loading False (disable_domain d)"
  unfolding disable_domain_def Let_def
  by (auto simp: action_failed_flags action_done_flags dest!: keep_verification_flags(1) intro!: owesR owes_try_kept owes_stop owes_same [OF action_failed_flags(1)] owes_same [OF action_done_flags(1)] split: sum.splits)

lemma disable_domain_dm_addLoading: "owes dm_addLoading False (disable_domain d)"
  unfolding disable_domain_def Let_def
  by (auto simp: action_failed_flags action_done_flags dest!: keep_verification_flags(2) intro!: owesR owes_try_kept owes_stop owes_same [OF action_failed_flags(2)] owes_same [OF action_done_flags(2)] split: sum.splits)

lemma disable_domain_acting: "owes acting False (disable_domain d)"
  unfolding disable_domain_def Let_def
  by (auto simp: action_failed_flags action_done_flags intro!: owesR owes_try_raised owes_stop owes_true [OF action_failed_flags(3)] owes_true [OF action_done_flags(3)] split: sum.splits)

lemma remove_domain_dm_loading: "owes dm_loading False (remove_domain d)"
  unfolding remove_domain_def Let_def
  by (auto simp: action_failed_flags action_done_flags dest!: keep_verification_flags(1) intro!: owesR owes_try_kept owes_stop owes_same [OF action_failed_flags(1)] owes_same [OF action_done_flags(1)] split: sum.splits)

lemma remove_domain_dm_addLoading: "owes dm_addLoading False (remove_domain d)"
  unfolding remove_domain_def Let_def
  by (auto simp: action_failed_flags action_done_flags dest!: keep_verification_flags(2) intro!: owesR owes_try_kept owes_stop owes_same [OF action_failed_flags(2)] owes_same [OF action_done_flags(2)] split: sum.splits)

lemma remove_domain_acting: "owes acting False (remove_domain d)"
  unfolding remove_domain_def Let_def
  by (auto simp: action_failed_flags action_done_flags intro!: owesR owes_try_raised owes_stop owes_true [OF action_failed_flags(3)] owes_true [OF action_done_flags(3)] split: sum.splits)

lemma addVanityDomain_dm_addLoading: "owes dm_addLoading False addVanityDomain"
proof -
  let ?failed = "rejected (\<lambda>s. s\<lparr>dm_addLoading := False\<rparr>) (\<lambda>e s. s\<lparr>dm_addError := show_error s e\<rparr>) (\<lambda>_. finish) finish"
  have f: "owes dm_addLoading True (?failed e)" for e by (rule rejected_lowers) (simp_all add: owes_finish_only)
  have "owes dm_addLoading True (loadDomains ?failed (\<lambda>s. finish (s\<lparr>dm_addLoading := False\<rparr>)))"
    by (intro loadDomains_pays f owesR owes_stop) simp
  note l = owes_true [OF this]
  show ?thesis unfolding addVanityDomain_def Let_def
    by (auto intro!: owesR owes_try_raised owes_stop f owes_true [OF f] l split: sum.splits)
qed

lemma addVanityDomain_keeps:
  assumes f: "f = dm_loading \<or> f = acting"
  shows "owes f False addVanityDomain"
proof -
  let ?failed = "rejected (\<lambda>s. s\<lparr>dm_addLoading := False\<rparr>) (\<lambda>e s. s\<lparr>dm_addError := show_error s e\<rparr>) (\<lambda>_. finish) finish"
  have u: "own_flag f" "f (dm_addLoading_update a s) = f s" "f (dm_addError_update b s) = f s" "f (dm_addDomain_update c s) = f s" for a b c s
    using f own_domains by auto
  have v: "f s' = f s" if "keep_verification res s = Inr s'" for res s s' using f keep_verification_flags [OF that] by (elim disjE) simp_all
  have g: "owes f False (?failed e)" for e by (rule rejected_keeps) (simp_all add: u owes_finish_only)
  have "owes f False (loadDomains ?failed (\<lambda>s. finish (s\<lparr>dm_addLoading := False\<rparr>)))"
    using f g input_keeps [of f "\<lambda>s. s\<lparr>dm_addLoading := False\<rparr>"] loadDomains_lowers [of ?failed]
      loadDomains_keeps [of f ?failed] by (elim disjE) (simp_all add: u)
  note l = owes_same [OF this]
  show ?thesis unfolding addVanityDomain_def Let_def
    by (auto simp: u dest!: v intro!: owesR owes_try_kept owes_stop g owes_same [OF g] l split: sum.splits)
qed

lemmas addVanityDomain_dm_loading = addVanityDomain_keeps [of dm_loading, simplified]
lemmas addVanityDomain_acting = addVanityDomain_keeps [of acting, simplified]

lemma loadDomains_dm_loading: "owes dm_loading False (loadDomains (\<lambda>_. finish) finish)"
  by (intro loadDomains_lowers owes_finish_only)

lemma loadDomains_dm_addLoading: "owes dm_addLoading False (loadDomains (\<lambda>_. finish) finish)"
  by (intro loadDomains_keeps owes_finish_only) simp

lemma loadDomains_acting: "owes acting False (loadDomains (\<lambda>_. finish) finish)"
  by (intro loadDomains_keeps owes_finish_only) simp

lemma copy_domain_dm_loading: "owes dm_loading False (copy_domain t)"
  unfolding copy_domain_def Let_def
  by (auto simp: own_domains intro!: keep_intros split: sum.splits option.splits prod.splits)

lemma copy_domain_dm_addLoading: "owes dm_addLoading False (copy_domain t)"
  unfolding copy_domain_def Let_def
  by (auto simp: own_domains intro!: keep_intros split: sum.splits option.splits prod.splits)

lemma copy_domain_acting: "owes acting False (copy_domain t)"
  unfolding copy_domain_def Let_def
  by (auto simp: own_domains intro!: keep_intros split: sum.splits option.splits prod.splits)

lemma domains_dm_loading: "h \<in> domains_handlers \<Longrightarrow> owes dm_loading False h"
  by (auto simp: domains_handlers_def intro!: input_keeps loadDomains_dm_loading addVanityDomain_dm_loading copy_domain_dm_loading rotate_domain_dm_loading verify_domain_dm_loading route53AssistAndVerify_dm_loading disable_domain_dm_loading remove_domain_dm_loading)

lemma domains_dm_addLoading: "h \<in> domains_handlers \<Longrightarrow> owes dm_addLoading False h"
  by (auto simp: domains_handlers_def intro!: input_keeps loadDomains_dm_addLoading addVanityDomain_dm_addLoading copy_domain_dm_addLoading rotate_domain_dm_addLoading verify_domain_dm_addLoading route53AssistAndVerify_dm_addLoading disable_domain_dm_addLoading remove_domain_dm_addLoading)

lemma domains_acting: "h \<in> domains_handlers \<Longrightarrow> owes acting False h"
  by (auto simp: domains_handlers_def intro!: input_keeps loadDomains_acting addVanityDomain_acting copy_domain_acting rotate_domain_acting verify_domain_acting route53AssistAndVerify_acting disable_domain_acting remove_domain_acting)

interpretation domains_load: loading_flag domains_handlers dm_loading by unfold_locales (rule domains_dm_loading)
interpretation domains_add: loading_flag domains_handlers dm_addLoading by unfold_locales (rule domains_dm_addLoading)
interpretation domains_act: loading_flag domains_handlers acting by unfold_locales (rule domains_acting)

section \<open>Budgets\<close>

lemma own_budgets: "own_flag bd_loading" "own_flag bd_setBudgetLoading" "own_flag bd_buyLoading"
  by (simp_all add: own_flag_def)

lemma loadAll_budgets_pays:
  assumes t: "\<And>e. owes f True (throw e)" and k: "owes f True k"
  shows "owes f True (loadAll_budgets throw k)"
  unfolding loadAll_budgets_def Let_def
  by (auto intro!: pass_intros t k owes_true [OF k] split: option.splits)

lemma loadAll_budgets_lowers:
  assumes t: "\<And>e. owes bd_loading False (throw e)" and k: "owes bd_loading False k"
  shows "owes bd_loading False (loadAll_budgets throw k)"
  unfolding loadAll_budgets_def Let_def
  by (auto simp: own_budgets intro!: owesR owes_try_raised rejected_lowers owes_true [OF rejected_lowers] t k owes_lowered [OF k]
      owes_same [OF k] split: option.splits)

lemma loadAll_budgets_keeps:
  assumes f: "f = bd_setBudgetLoading \<or> f = bd_buyLoading" and t: "\<And>e. owes f False (throw e)" and k: "owes f False k"
  shows "owes f False (loadAll_budgets throw k)"
proof -
  have f': "own_flag f" "f (bd_loading_update a s) = f s" "f (bd_errorMessage_update b s) = f s" "f (bd_budget_update c s) = f s"
    "f (bd_summary_update d s) = f s" "f (bd_budgetsList_update x s) = f s" "f (bd_includedCreditsInput_update y s) = f s" for a b c d x y s
    using f own_budgets by auto
  show ?thesis
    unfolding loadAll_budgets_def Let_def
    by (auto simp: f' intro!: owesR owes_try_kept rejected_keeps owes_same [OF rejected_keeps] t k owes_same [OF k] split: option.splits)
qed

lemma loadAll_budgets_bd_loading: "owes bd_loading False (loadAll_budgets (\<lambda>_. finish) finish)"
  by (intro loadAll_budgets_lowers owes_finish_only)

lemma loadAll_budgets_bd_setBudgetLoading: "owes bd_setBudgetLoading False (loadAll_budgets (\<lambda>_. finish) finish)"
  by (intro loadAll_budgets_keeps owes_finish_only) simp

lemma loadAll_budgets_bd_buyLoading: "owes bd_buyLoading False (loadAll_budgets (\<lambda>_. finish) finish)"
  by (intro loadAll_budgets_keeps owes_finish_only) simp

lemma setBudgetMonth_bd_setBudgetLoading: "owes bd_setBudgetLoading False setBudgetMonth"
proof -
  let ?failed = "rejected (\<lambda>s. s\<lparr>bd_setBudgetLoading := False\<rparr>) (\<lambda>e s. s\<lparr>bd_setBudgetError := show_error s e\<rparr>) (\<lambda>_. finish) finish"
  have f: "owes bd_setBudgetLoading True (?failed e)" for e by (rule rejected_lowers) (simp_all add: owes_finish_only)
  have "owes bd_setBudgetLoading True (loadAll_budgets ?failed (\<lambda>s. finish (s\<lparr>bd_setBudgetLoading := False\<rparr>)))"
    by (intro loadAll_budgets_pays f owesR owes_stop) simp
  note l = owes_true [OF this]
  show ?thesis unfolding setBudgetMonth_def Let_def
    by (auto intro!: owesR owes_try_raised owes_stop f owes_true [OF f] l split: option.splits)
qed

lemma setBudgetMonth_keeps:
  assumes f: "f = bd_loading \<or> f = bd_buyLoading"
  shows "owes f False setBudgetMonth"
proof -
  let ?failed = "rejected (\<lambda>s. s\<lparr>bd_setBudgetLoading := False\<rparr>) (\<lambda>e s. s\<lparr>bd_setBudgetError := show_error s e\<rparr>) (\<lambda>_. finish) finish"
  have u: "own_flag f" "f (bd_setBudgetLoading_update a s) = f s" "f (bd_setBudgetError_update b s) = f s" "f (bd_budget_update c s) = f s" for a b c s
    using f own_budgets by auto
  have g: "owes f False (?failed e)" for e by (rule rejected_keeps) (simp_all add: u owes_finish_only)
  have "owes f False (loadAll_budgets ?failed (\<lambda>s. finish (s\<lparr>bd_setBudgetLoading := False\<rparr>)))"
    using f g input_keeps [of f "\<lambda>s. s\<lparr>bd_setBudgetLoading := False\<rparr>"] loadAll_budgets_lowers [of ?failed]
      loadAll_budgets_keeps [of f ?failed] by (elim disjE) (simp_all add: u)
  note l = owes_same [OF this]
  show ?thesis unfolding setBudgetMonth_def Let_def
    by (auto simp: u intro!: owesR owes_try_kept owes_stop g owes_same [OF g] l split: option.splits)
qed

lemmas setBudgetMonth_bd_loading = setBudgetMonth_keeps [of bd_loading, simplified]
lemmas setBudgetMonth_bd_buyLoading = setBudgetMonth_keeps [of bd_buyLoading, simplified]

lemma buyCredits_bd_loading: "owes bd_loading False (buyCredits)"
  unfolding buyCredits_def location_assign_def Let_def
  by (auto simp: own_budgets intro!: keep_intros split: sum.splits option.splits prod.splits)

lemma buyCredits_bd_setBudgetLoading: "owes bd_setBudgetLoading False (buyCredits)"
  unfolding buyCredits_def location_assign_def Let_def
  by (auto simp: own_budgets intro!: keep_intros split: sum.splits option.splits prod.splits)

lemma buyCredits_bd_buyLoading: "owes bd_buyLoading False (buyCredits)"
  unfolding buyCredits_def location_assign_def Let_def
  by (auto simp: own_budgets intro!: lower_intros split: sum.splits option.splits prod.splits)

lemma budgets_bd_loading: "h \<in> budgets_handlers \<Longrightarrow> owes bd_loading False h"
  by (auto simp: budgets_handlers_def intro!: input_keeps loadAll_budgets_bd_loading setBudgetMonth_bd_loading buyCredits_bd_loading)

lemma budgets_bd_setBudgetLoading: "h \<in> budgets_handlers \<Longrightarrow> owes bd_setBudgetLoading False h"
  by (auto simp: budgets_handlers_def intro!: input_keeps loadAll_budgets_bd_setBudgetLoading setBudgetMonth_bd_setBudgetLoading buyCredits_bd_setBudgetLoading)

lemma budgets_bd_buyLoading: "h \<in> budgets_handlers \<Longrightarrow> owes bd_buyLoading False h"
  by (auto simp: budgets_handlers_def intro!: input_keeps loadAll_budgets_bd_buyLoading setBudgetMonth_bd_buyLoading buyCredits_bd_buyLoading)

interpretation budgets_load: loading_flag budgets_handlers bd_loading by unfold_locales (rule budgets_bd_loading)
interpretation budgets_set: loading_flag budgets_handlers bd_setBudgetLoading by unfold_locales (rule budgets_bd_setBudgetLoading)
interpretation budgets_buy: loading_flag budgets_handlers bd_buyLoading by unfold_locales (rule budgets_bd_buyLoading)

section \<open>Usage, cost and souls\<close>

lemma own_rest: "own_flag us_loading" "own_flag co_loading" "own_flag co_costLoading" "own_flag so_loading"
  by (simp_all add: own_flag_def)

lemma loadAll_usage_us_loading: "owes us_loading False (loadAll_usage)"
  unfolding loadAll_usage_def Let_def
  by (auto simp: own_rest intro!: lower_intros split: sum.splits option.splits prod.splits)

lemma usage_us_loading: "h \<in> usage_handlers \<Longrightarrow> owes us_loading False h"
  by (auto simp: usage_handlers_def intro!: input_keeps loadAll_usage_us_loading)

interpretation usage_load: loading_flag usage_handlers us_loading by unfold_locales (rule usage_us_loading)

lemma loadCost_co_loading: "owes co_loading False (loadCost)"
  unfolding loadCost_def Let_def
  by (auto simp: own_rest intro!: keep_intros split: sum.splits option.splits prod.splits)

lemma loadCost_co_costLoading: "owes co_costLoading False (loadCost)"
  unfolding loadCost_def Let_def
  by (auto simp: own_rest intro!: lower_intros split: sum.splits option.splits prod.splits)

lemma loadAll_cost_co_loading: "owes co_loading False loadAll_cost"
proof -
  have "owes co_loading True (leave (\<lambda>_ s. finish (s\<lparr>co_loading := False\<rparr>)) (\<lambda>s. finish (s\<lparr>co_loading := False\<rparr>)))"
    by (intro leave_pays owesR owes_stop) simp_all
  note lv = owes_true [OF this]
  show ?thesis unfolding loadAll_cost_def Let_def
    by (auto intro!: owesR owes_try_raised lv owes_lowered [OF loadCost_co_loading])
qed

lemma loadAll_cost_co_costLoading: "owes co_costLoading False loadAll_cost"
proof -
  have "owes co_costLoading False (leave (\<lambda>_ s. finish (s\<lparr>co_loading := False\<rparr>)) (\<lambda>s. finish (s\<lparr>co_loading := False\<rparr>)))"
    by (intro leave_keeps own_rest owesR owes_stop) simp_all
  note lv = owesD [OF this]
  show ?thesis unfolding loadAll_cost_def Let_def
    by (auto intro!: owesR owes_try_kept lv owes_same [OF loadCost_co_costLoading])
qed

lemma cost_co_loading: "h \<in> cost_handlers \<Longrightarrow> owes co_loading False h"
  by (auto simp: cost_handlers_def intro!: input_keeps loadAll_cost_co_loading)

lemma cost_co_costLoading: "h \<in> cost_handlers \<Longrightarrow> owes co_costLoading False h"
  by (auto simp: cost_handlers_def intro!: input_keeps loadAll_cost_co_costLoading)

interpretation cost_load: loading_flag cost_handlers co_loading by unfold_locales (rule cost_co_loading)
interpretation cost_cost: loading_flag cost_handlers co_costLoading by unfold_locales (rule cost_co_costLoading)

lemma load_souls_so_loading: "owes so_loading False (load_souls)"
  unfolding load_souls_def Let_def
  by (auto simp: own_rest intro!: lower_intros split: sum.splits option.splits prod.splits)

lemma souls_so_loading: "h \<in> souls_handlers \<Longrightarrow> owes so_loading False h"
  by (auto simp: souls_handlers_def intro!: input_keeps load_souls_so_loading)

interpretation souls_load: loading_flag souls_handlers so_loading by unfold_locales (rule souls_so_loading)

section \<open>Configuration\<close>

lemma own_config: "own_flag cf_loading" "own_flag cf_saving"
  by (simp_all add: own_flag_def)

lemma config_helpers_flags [simp]:
  "cf_loading (set_form g s) = cf_loading s" "cf_saving (set_form g s) = cf_saving s"
  "cf_loading (applyServerFieldErrors m s) = cf_loading s" "cf_saving (applyServerFieldErrors m s) = cf_saving s"
  by (simp_all add: set_form_def applyServerFieldErrors_def Let_def)

lemma load_config_cf_loading: "owes cf_loading False (load_config)"
  unfolding load_config_def Let_def
  by (auto simp: own_config intro!: lower_intros split: sum.splits option.splits prod.splits)

lemma load_config_cf_saving: "owes cf_saving False (load_config)"
  unfolding load_config_def Let_def
  by (auto simp: own_config intro!: keep_intros split: sum.splits option.splits prod.splits)

lemma save_config_cf_loading: "owes cf_loading False (save_config)"
  unfolding save_config_def Let_def
  by (auto simp: own_config intro!: keep_intros split: sum.splits option.splits prod.splits)

lemma save_config_cf_saving: "owes cf_saving False (save_config)"
  unfolding save_config_def Let_def
  by (auto simp: own_config intro!: lower_intros split: sum.splits option.splits prod.splits)

lemma edit_form_cf_loading: "owes cf_loading False (edit_form g)"
  unfolding edit_form_def by (auto intro!: owesR owes_stop split: option.splits)

lemma edit_form_cf_saving: "owes cf_saving False (edit_form g)"
  unfolding edit_form_def by (auto intro!: owesR owes_stop split: option.splits)

lemma config_cf_loading: "h \<in> config_handlers \<Longrightarrow> owes cf_loading False h"
  by (auto simp: config_handlers_def intro!: input_keeps load_config_cf_loading save_config_cf_loading edit_form_cf_loading)

lemma config_cf_saving: "h \<in> config_handlers \<Longrightarrow> owes cf_saving False h"
  by (auto simp: config_handlers_def intro!: input_keeps load_config_cf_saving save_config_cf_saving edit_form_cf_saving)

interpretation config_load: loading_flag config_handlers cf_loading by unfold_locales (rule config_cf_loading)
interpretation config_save: loading_flag config_handlers cf_saving by unfold_locales (rule config_cf_saving)

section \<open>Overview\<close>

lemma own_overview: "own_flag ov_instanceLoading" "own_flag ov_domainsLoading" "own_flag ov_provisioningLoading" "own_flag ov_updatesLoading" "own_flag ov_updateCreating"
  by (simp_all add: own_flag_def)

lemma abort_flags [simp]:
  "ov_instanceLoading (abortPolling s) = ov_instanceLoading s" "ov_instanceLoading (abortUpdatesPolling s) = ov_instanceLoading s"
  "ov_domainsLoading (abortPolling s) = ov_domainsLoading s" "ov_domainsLoading (abortUpdatesPolling s) = ov_domainsLoading s"
  "ov_provisioningLoading (abortPolling s) = ov_provisioningLoading s" "ov_provisioningLoading (abortUpdatesPolling s) = ov_provisioningLoading s"
  "ov_updatesLoading (abortPolling s) = ov_updatesLoading s" "ov_updatesLoading (abortUpdatesPolling s) = ov_updatesLoading s"
  "ov_updateCreating (abortPolling s) = ov_updateCreating s" "ov_updateCreating (abortUpdatesPolling s) = ov_updateCreating s"
  by (simp_all add: abortPolling_def abortUpdatesPolling_def abort_controller_def split: option.split)

lemma poll_until_keeps:
  assumes fn: "\<And>catch k. (\<And>e. owes f False (catch e)) \<Longrightarrow> (\<And>v. owes f False (k v)) \<Longrightarrow> owes f False (fn catch k)"
    and update: "\<And>v s s'. update v s = Inr s' \<Longrightarrow> f s' \<Longrightarrow> f s"
    and c: "\<And>e. owes f False (catch e)" and k: "owes f False k"
  shows "owes f False (poll_until ov_aborted fuel ctl fn update isDone catch k)"
proof (induction fuel)
  case 0
  then show ?case by (simp add: owes_finish_only)
next
  case (Suc fuel)
  have "owes f False (\<lambda>s. case update v s of
      Inl e \<Rightarrow> catch e s
    | Inr s \<Rightarrow> (case isDone v of
          Inl e \<Rightarrow> catch e s
        | Inr True \<Rightarrow> k s
        | Inr False \<Rightarrow> if ctl \<in> set (ov_aborted s) then catch AbortError s
                       else try_await timer catch (\<lambda>_. poll_until ov_aborted fuel ctl fn update isDone catch k) s))" for v
    by (rule owesR)
      (auto intro!: owes_same [OF c] owes_same [OF k] owes_try_kept c Suc.IH owesD [OF c] dest: update
        split: sum.split bool.split)
  then have "owes f False (fn catch (\<lambda>v s. case update v s of
      Inl e \<Rightarrow> catch e s
    | Inr s \<Rightarrow> (case isDone v of
          Inl e \<Rightarrow> catch e s
        | Inr True \<Rightarrow> k s
        | Inr False \<Rightarrow> if ctl \<in> set (ov_aborted s) then catch AbortError s
                       else try_await timer catch (\<lambda>_. poll_until ov_aborted fuel ctl fn update isDone catch k) s)))"
    by (intro fn c)
  then show ?case by (intro owesR) (auto intro: owesD [OF c] owesD)
qed

lemma asked_keeps:
  assumes c: "\<And>e. owes f False (catch e)" and k: "\<And>v. owes f False (k v)"
  shows "owes f False (ask_provisioning catch k)"
    and "(\<And>s x. f (s\<lparr>ov_updateJobs := x\<rparr>) = f s) \<Longrightarrow> owes f False (ask_updates i catch k)"
proof -
  show "owes f False (ask_provisioning catch k)"
    unfolding ask_provisioning_def [abs_def] by (rule owesR) (auto intro!: owes_try_kept c k)
  have r: "owes f False (returned x catch k)" for x
    unfolding returned_def [abs_def] by (rule owesR) (auto intro!: owes_try_kept c k)
  show "owes f False (ask_updates i catch k)" if "\<And>s x. f (s\<lparr>ov_updateJobs := x\<rparr>) = f s"
    unfolding ask_updates_def [abs_def]
    by (rule owesR, rule owes_try_kept, assumption, rule r, rule owesR)
      (auto simp: that intro!: owesD [OF r] owes_same [OF r] split: sum.split)
qed

lemma loadInstance_lowers: "owes ov_instanceLoading False (loadInstance)"
  unfolding loadInstance_def Let_def
  by (auto simp: own_overview intro!: lower_intros split: sum.splits option.splits prod.splits if_splits)+

lemma loadInstance_keeps:
  "owes ov_domainsLoading False (loadInstance)"
  "owes ov_provisioningLoading False (loadInstance)"
  "owes ov_updatesLoading False (loadInstance)"
  "owes ov_updateCreating False (loadInstance)"
  unfolding loadInstance_def Let_def
  by (auto simp: own_overview intro!: keep_intros split: sum.splits option.splits prod.splits if_splits)+

lemma loadDomains_overview_lowers: "owes ov_domainsLoading False (loadDomains_overview)"
  unfolding loadDomains_overview_def Let_def
  by (auto simp: own_overview intro!: lower_intros split: sum.splits option.splits prod.splits if_splits)+

lemma loadDomains_overview_keeps:
  "owes ov_instanceLoading False (loadDomains_overview)"
  "owes ov_provisioningLoading False (loadDomains_overview)"
  "owes ov_updatesLoading False (loadDomains_overview)"
  "owes ov_updateCreating False (loadDomains_overview)"
  unfolding loadDomains_overview_def Let_def
  by (auto simp: own_overview intro!: keep_intros split: sum.splits option.splits prod.splits if_splits)+

lemma loadProvisioning_lowers: "owes ov_provisioningLoading False (loadProvisioning)"
  unfolding loadProvisioning_def Let_def
  by (auto simp: own_overview intro!: lower_intros split: sum.splits option.splits prod.splits if_splits)+

lemma loadProvisioning_keeps:
  "owes ov_instanceLoading False (loadProvisioning)"
  "owes ov_domainsLoading False (loadProvisioning)"
  "owes ov_updatesLoading False (loadProvisioning)"
  "owes ov_updateCreating False (loadProvisioning)"
  unfolding loadProvisioning_def Let_def
  by (auto simp: own_overview intro!: keep_intros split: sum.splits option.splits prod.splits if_splits)+

lemma loadUpdates_lowers: "owes ov_updatesLoading False (loadUpdates)"
  unfolding loadUpdates_def Let_def
  by (auto simp: own_overview intro!: lower_intros split: sum.splits option.splits prod.splits if_splits)+

lemma loadUpdates_keeps:
  "owes ov_instanceLoading False (loadUpdates)"
  "owes ov_domainsLoading False (loadUpdates)"
  "owes ov_provisioningLoading False (loadUpdates)"
  "owes ov_updateCreating False (loadUpdates)"
  unfolding loadUpdates_def Let_def
  by (auto simp: own_overview intro!: keep_intros split: sum.splits option.splits prod.splits if_splits)+

lemma update_seen_flags:
  assumes "update_seen job s = Inr s'"
  shows "ov_instanceLoading s' = ov_instanceLoading s" "ov_domainsLoading s' = ov_domainsLoading s" "ov_provisioningLoading s' = ov_provisioningLoading s" "ov_updatesLoading s' = ov_updatesLoading s" "ov_updateCreating s' = ov_updateCreating s"
  using assms by (auto simp: update_seen_def split: if_splits sum.splits option.splits)

lemmas loadInstance_owes = loadInstance_lowers loadInstance_keeps
  owesD [OF loadInstance_lowers] loadInstance_keeps [THEN owesD]

lemma pollProvisioning_keeps:
  "owes ov_instanceLoading False (pollProvisioning fuel)"
  "owes ov_domainsLoading False (pollProvisioning fuel)"
  "owes ov_provisioningLoading False (pollProvisioning fuel)"
  "owes ov_updatesLoading False (pollProvisioning fuel)"
  "owes ov_updateCreating False (pollProvisioning fuel)"
  unfolding pollProvisioning_def Let_def
  by (rule owesR; auto simp: own_overview intro!: owes_stop owes_same [OF poll_until_keeps] asked_keeps rejected_keeps input_keeps owes_finish_only split: if_splits)+

lemma pollUpdateJob_keeps:
  "owes ov_instanceLoading False (pollUpdateJob fuel i)"
  "owes ov_domainsLoading False (pollUpdateJob fuel i)"
  "owes ov_provisioningLoading False (pollUpdateJob fuel i)"
  "owes ov_updatesLoading False (pollUpdateJob fuel i)"
  "owes ov_updateCreating False (pollUpdateJob fuel i)"
  unfolding pollUpdateJob_def Let_def
  by (rule owesR; auto simp: own_overview update_seen_flags intro!: owes_stop owes_same [OF poll_until_keeps] asked_keeps rejected_keeps
      owesR [where k = "detach g h" for g h] detach_keeps loadInstance_owes owes_finish_only split: sum.splits option.splits if_splits)+

lemma startUpdateJob_lowers: "owes ov_updateCreating False (startUpdateJob fuel opts)"
  unfolding startUpdateJob_def Let_def
  by (auto simp: own_overview intro!: lower_intros pollUpdateJob_keeps split: sum.splits option.splits prod.splits if_splits)+

lemma startUpdateJob_keeps:
  "owes ov_instanceLoading False (startUpdateJob fuel opts)"
  "owes ov_domainsLoading False (startUpdateJob fuel opts)"
  "owes ov_provisioningLoading False (startUpdateJob fuel opts)"
  "owes ov_updatesLoading False (startUpdateJob fuel opts)"
  unfolding startUpdateJob_def Let_def
  by (auto simp: own_overview intro!: keep_intros pollUpdateJob_keeps split: sum.splits option.splits prod.splits if_splits)+

lemma provision_flags [simp]:
  "ov_instanceLoading (provision_lower s) = ov_instanceLoading s"
  "ov_domainsLoading (provision_lower s) = ov_domainsLoading s"
  "ov_updatesLoading (provision_lower s) = ov_updatesLoading s"
  "ov_updateCreating (provision_lower s) = ov_updateCreating s"
  "\<not> ov_provisioningLoading (provision_lower s)"
  by (simp_all add: provision_lower_def)

lemma provision_failed_lowers: "owes ov_provisioningLoading True (provision_failed e)"
  unfolding provision_failed_def by (rule rejected_lowers) (simp_all add: owes_finish_only)

lemma provision_failed_keeps:
  "owes ov_instanceLoading False (provision_failed e)"
  "owes ov_domainsLoading False (provision_failed e)"
  "owes ov_updatesLoading False (provision_failed e)"
  "owes ov_updateCreating False (provision_failed e)"
  unfolding provision_failed_def by (rule rejected_keeps; simp add: own_overview owes_finish_only)+

lemma startProvisioning_keeps:
  "owes ov_instanceLoading False (startProvisioning fuel)"
  "owes ov_domainsLoading False (startProvisioning fuel)"
  "owes ov_updatesLoading False (startProvisioning fuel)"
  "owes ov_updateCreating False (startProvisioning fuel)"
proof -
  note defs = startProvisioning_def sign_consent_def with_accounts_def with_signature_def Let_def
  note intros = owes_stop owes_try_kept provision_failed_keeps provision_failed_keeps [THEN owesD] detach_keeps pollProvisioning_keeps owesR
  show "owes ov_instanceLoading False (startProvisioning fuel)" unfolding defs by (auto intro!: intros split: option.splits)
  show "owes ov_domainsLoading False (startProvisioning fuel)" unfolding defs by (auto intro!: intros split: option.splits)
  show "owes ov_updatesLoading False (startProvisioning fuel)" unfolding defs by (auto intro!: intros split: option.splits)
  show "owes ov_updateCreating False (startProvisioning fuel)" unfolding defs by (auto intro!: intros split: option.splits)
qed

lemma startProvisioning_lowers: "owes ov_provisioningLoading False (startProvisioning fuel)"
proof -
  have "owes ov_provisioningLoading True (sign_consent fuel p region version challenge)" for p region version challenge
    unfolding sign_consent_def with_accounts_def with_signature_def Let_def
    by (auto intro!: owesR owes_stop owes_try_raised provision_failed_lowers provision_failed_lowers [THEN owes_true]
        detach_lowers pollProvisioning_keeps)
  note sign = this
  show ?thesis
    unfolding startProvisioning_def Let_def
    by (auto intro!: owesR owes_stop owes_try_raised provision_failed_lowers sign [THEN owesD] split: option.splits)
qed

lemma overview_small_handlers:
  assumes "\<And>i. owes f False (pollUpdateJob fuel i)" and "\<And>opts. owes f False (startUpdateJob fuel opts)"
    and "own_flag f" and "\<And>s x. f (s\<lparr>ov_provisionAdminUsername := x\<rparr>) = f s"
  shows "owes f False (poll_active fuel)" "owes f False (applyConfiguration fuel)" "owes f False (rotateInstanceKey fuel)"
    "owes f False (startVersionUpdate fuel)" "owes f False (updateBodyOnly fuel)" "owes f False (updateMcpOnly fuel)"
    "owes f False overview_slug_effect" "owes f False username_effect"
  unfolding poll_active_def [abs_def] applyConfiguration_def [abs_def] rotateInstanceKey_def [abs_def] startVersionUpdate_def [abs_def]
    updateBodyOnly_def [abs_def] updateMcpOnly_def [abs_def] overview_slug_effect_def [abs_def] username_effect_def [abs_def] Let_def
  by (rule owesR; auto simp: assms(3,4) intro!: owes_stop owes_finish_only [THEN owesD] assms(1,2) [THEN owesD])+

lemmas overview_steps = loadInstance_lowers loadInstance_keeps loadDomains_overview_lowers loadDomains_overview_keeps
  loadProvisioning_lowers loadProvisioning_keeps loadUpdates_lowers loadUpdates_keeps pollProvisioning_keeps
  pollUpdateJob_keeps startUpdateJob_lowers startUpdateJob_keeps startProvisioning_keeps startProvisioning_lowers

lemma overview_ov_instanceLoading: "h \<in> overview_handlers fuel \<Longrightarrow> owes ov_instanceLoading False h"
  using overview_small_handlers [of ov_instanceLoading fuel]
  by (auto simp: overview_handlers_def refreshAll_def own_overview intro!: input_keeps overview_steps)

lemma overview_ov_domainsLoading: "h \<in> overview_handlers fuel \<Longrightarrow> owes ov_domainsLoading False h"
  using overview_small_handlers [of ov_domainsLoading fuel]
  by (auto simp: overview_handlers_def refreshAll_def own_overview intro!: input_keeps overview_steps)

lemma overview_ov_provisioningLoading: "h \<in> overview_handlers fuel \<Longrightarrow> owes ov_provisioningLoading False h"
  using overview_small_handlers [of ov_provisioningLoading fuel]
  by (auto simp: overview_handlers_def refreshAll_def own_overview intro!: input_keeps overview_steps)

lemma overview_ov_updatesLoading: "h \<in> overview_handlers fuel \<Longrightarrow> owes ov_updatesLoading False h"
  using overview_small_handlers [of ov_updatesLoading fuel]
  by (auto simp: overview_handlers_def refreshAll_def own_overview intro!: input_keeps overview_steps)

lemma overview_ov_updateCreating: "h \<in> overview_handlers fuel \<Longrightarrow> owes ov_updateCreating False h"
  using overview_small_handlers [of ov_updateCreating fuel]
  by (auto simp: overview_handlers_def refreshAll_def own_overview intro!: input_keeps overview_steps)

interpretation overview_instance: loading_flag "overview_handlers fuel" ov_instanceLoading for fuel by unfold_locales (rule overview_ov_instanceLoading)
interpretation overview_domains: loading_flag "overview_handlers fuel" ov_domainsLoading for fuel by unfold_locales (rule overview_ov_domainsLoading)
interpretation overview_provisioning: loading_flag "overview_handlers fuel" ov_provisioningLoading for fuel by unfold_locales (rule overview_ov_provisioningLoading)
interpretation overview_updates: loading_flag "overview_handlers fuel" ov_updatesLoading for fuel by unfold_locales (rule overview_ov_updatesLoading)
interpretation overview_creating: loading_flag "overview_handlers fuel" ov_updateCreating for fuel by unfold_locales (rule overview_ov_updateCreating)

section \<open>The pages come to rest\<close>

text \<open>A page with the handlers \<open>H\<close> that is mounted with its flags down: after whatever has happened on it, it inevitably
  comes to a state where no flag is up.\<close>

definition comes_to_rest :: "('s, world) segment set \<Rightarrow> ('s \<Rightarrow> bool) \<Rightarrow> bool" where
  "comes_to_rest H busy \<longleftrightarrow>
     (\<forall>s w pg. \<not> busy s \<longrightarrow> page_reachable H (fresh_page s w) pg \<longrightarrow> settles (\<lambda>q. \<not> busy (pg_state q)) pg)"

lemma comes_to_rest_or:
  assumes "comes_to_rest H f" and "comes_to_rest H g"
  shows "comes_to_rest H (\<lambda>s. f s \<or> g s)"
  using assms settles_conj unfolding comes_to_rest_def by fastforce

lemma rest_by: "loading_flag H f \<Longrightarrow> comes_to_rest H f"
  by (simp add: comes_to_rest_def loading_flag.flag_settles fresh_page_def)

lemmas rests = keys_create.loading_flag_axioms keys_load.loading_flag_axioms keys_revoke.loading_flag_axioms
  domains_load.loading_flag_axioms domains_add.loading_flag_axioms domains_act.loading_flag_axioms
  budgets_load.loading_flag_axioms budgets_set.loading_flag_axioms budgets_buy.loading_flag_axioms
  usage_load.loading_flag_axioms cost_load.loading_flag_axioms cost_cost.loading_flag_axioms souls_load.loading_flag_axioms
  config_load.loading_flag_axioms config_save.loading_flag_axioms
  overview_instance.loading_flag_axioms overview_domains.loading_flag_axioms overview_provisioning.loading_flag_axioms
  overview_updates.loading_flag_axioms overview_creating.loading_flag_axioms


end
