(* ===== verification/Config_Correct.thy ===== *)
theory Config_Correct
  imports Config_Page Views_Correct
begin

text \<open>
  What the configuration page and the list of the instances send: a configuration only as the valid, acknowledged form that
  stands on the page at that moment, a new instance only with a slug that is a host label; and that a
  configuration survives the way to the server and into the form again.
\<close>

section \<open>A configuration is sent as it stands\<close>

text \<open>The user has acknowledged the costs of the form.\<close>

definition acknowledged :: "config_page \<Rightarrow> InstanceConfigForm \<Rightarrow> bool" where
  "acknowledged s form \<longleftrightarrow>
     (renders_enabled form \<and> render_policy form = ''always'' \<longrightarrow> cf_ackRenderAlways s) \<and> (ai_enabled form \<longrightarrow> cf_ackAI s)"

definition config_emits :: "config_page \<Rightarrow> request \<Rightarrow> bool" where
  "config_emits s r \<longleftrightarrow>
     fetchJson r = portalGetInstance (ip_token s) (ip_slug s) \<or>
     (\<exists>v t. app_session (fr_app s) = Some v \<and> string_member v ''token'' = Some t \<and> r = logout_request t) \<or>
     (\<exists>form. cf_form s = Some form \<and> validateInstanceConfigForm form = [] \<and> acknowledged s form \<and>
        request_ok (buildUpdateInstanceConfigRequest form) \<and>
        fetchJson r = portalUpdateInstanceConfig (ip_token s) (ip_slug s) (config_json (buildUpdateInstanceConfigRequest form)))"

interpretation config: emitting_page config_emits
  by unfold_locales (auto simp: config_emits_def acknowledged_def)

lemma config_sends:
  "sends (http (portalGetInstance (ip_token s) (ip_slug s))) (config_emits s)"
  "cf_form s = Some form \<Longrightarrow> validateInstanceConfigForm form = [] \<Longrightarrow> acknowledged s form \<Longrightarrow>
   sends (http (portalUpdateInstanceConfig (ip_token s) (ip_slug s) (config_json (buildUpdateInstanceConfigRequest form)))) (config_emits s)"
proof -
  show "sends (http (portalGetInstance (ip_token s) (ip_slug s))) (config_emits s)"
    by (rule sends_single) (simp_all add: portalGetInstance_def config_emits_def)
  show "sends (http (portalUpdateInstanceConfig (ip_token s) (ip_slug s) (config_json (buildUpdateInstanceConfigRequest form)))) (config_emits s)"
    if "cf_form s = Some form" "validateInstanceConfigForm form = []" "acknowledged s form"
    using that by (intro sends_single) (auto simp: portalUpdateInstanceConfig_def [of _ _ "config_json _"] Let_def config_emits_def form_validates)
qed

lemma config_emits_shown [simp]: "config_emits (cf_instance_update x s) = config_emits s"
  by (simp add: fun_eq_iff config_emits_def acknowledged_def)

lemmas config_ends = config.rejected_finish obeys_call [OF config.rejected_finish] obeys_stop

lemma load_config_obeys: "obeys (emits config_emits) load_config"
proof (rule obeysR)
  fix s
  show "obeys_result (emits config_emits) s (load_config s)"
    unfolding load_config_def Let_def
    by (rule obeys_sends) (use config_sends(1) [of s] in \<open>auto simp: set_form_def intro!: config_ends obeysR [of _ "\<lambda>s. if _ then _ s else _ s"]\<close>)
qed

lemma save_config_obeys: "obeys (emits config_emits) save_config"
proof (rule obeysR)
  fix s
  show "obeys_result (emits config_emits) s (save_config s)"
    unfolding save_config_def Let_def
    by (auto simp: requiresRenderAlwaysAck_def requiresAIAck_def acknowledged_def
        intro!: obeys_sends config_sends config_ends obeysR [of _ "\<lambda>s. if _ then _ s else _ s"] split: option.splits)
qed

interpretation config_steps: step_discipline config_handlers "emits config_emits"
  by unfold_locales
    (auto simp: config_handlers_def edit_form_def [abs_def] load_config_obeys save_config_obeys intro: obeysR)

text \<open>C39. A configuration is saved only as it stands and only when it is valid.  At every step of the page, after whatever has
  happened before, the requests that are sent are the reading of the page's instance, the logout of the current
  session, and an update that carries exactly the form on the page at that moment; that form is valid, the server may rely on
  the values of the request, and where the form causes costs the user has acknowledged them.\<close>

theorem config_saved_as_shown:
  assumes "page_reachable config_handlers (fresh_page s w) pg" and "page_step config_handlers pg pg'"
  shows "\<exists>sent. w_http (pg_world pg') = w_http (pg_world pg) @ sent \<and> list_all (config_emits (pg_state pg)) sent"
  using config_steps.reachable_step [OF assms(1) _ assms(2)]
  by (auto simp: fresh_page_def emits_def list_all_iff)

definition sample_config :: config_page where
  "sample_config = \<lparr>fr_env = sample_env, fr_app = sample_app, fr_router = load_router ''/'' sample_storage, fr_assigned = [],
     ip_token = ''t'', ip_slug = ''demo'', cf_loading = False, cf_saving = False, cf_errorMessage = None, cf_successMessage = None,
     cf_instance = None, cf_form = Some (configFormFromInstance sample_instance), cf_fieldErrors = [], cf_ackRenderAlways = True,
     cf_ackAI = True\<rparr>"

abbreviation sample_request :: UpdateInstanceConfigRequest where
  "sample_request \<equiv> buildUpdateInstanceConfigRequest (configFormFromInstance sample_instance)"

lemma sample_save:
  "save_config sample_config = try_await (http (portalUpdateInstanceConfig ''t'' ''demo'' (config_json sample_request)))
     (rejected (\<lambda>s. s\<lparr>cf_saving := False\<rparr>)
       (\<lambda>e s. applyServerFieldErrors (formatError (fr_env s) e) (s\<lparr>cf_errorMessage := show_error s e\<rparr>)) (\<lambda>_. finish) finish)
     (\<lambda>updated s.
        let s = s\<lparr>cf_instance := Some updated\<rparr> in
        if updated = JNull then rejected (\<lambda>s. s\<lparr>cf_saving := False\<rparr>)
            (\<lambda>e s. applyServerFieldErrors (formatError (fr_env s) e) (s\<lparr>cf_errorMessage := show_error s e\<rparr>)) (\<lambda>_. finish) finish
            (TypeError ''null has no properties'') s
        else finish ((set_form (Some (configFormFromInstance (instance_config updated))) s
                        \<lparr>cf_successMessage := Some ''Saved.''\<rparr>)\<lparr>cf_saving := False\<rparr>))
     (sample_config\<lparr>cf_saving := True\<rparr>)"
  by (simp add: save_config_def sample_config_def requiresRenderAlwaysAck_def requiresAIAck_def sample_form_valid Let_def)

theorem config_saved_as_shown_witness:
  "\<exists>sent. w_http (pg_world (run_segment save_config (fresh_page sample_config (sample_world (\<lambda>_. JObj []))))) = sent \<and> sent \<noteq> [] \<and>
     list_all (config_emits sample_config) sent"
proof -
  let ?pg = "fresh_page sample_config (sample_world (\<lambda>_. JObj []))"
  have "page_step config_handlers ?pg (run_segment save_config ?pg)"
    by (rule page_step.start) (simp add: config_handlers_def)
  from config_saved_as_shown [OF rtranclp.rtrancl_refl this]
  have "\<exists>sent. w_http (pg_world (run_segment save_config ?pg)) = sent \<and> list_all (config_emits sample_config) sent"
    by (simp add: fresh_page_def sample_world_def)
  moreover have "w_http (pg_world (run_segment save_config ?pg)) \<noteq> []"
    by (simp add: run_segment_def fresh_page_def sample_save try_await_def await_def portalUpdateInstanceConfig_def http_sample
        Let_def sample_world_def)
  ultimately show ?thesis by blast
qed

section \<open>A saved configuration comes into the form again\<close>

lemma config_json_object [simp]: "config_json r \<noteq> JNull"
  by (simp add: config_json_def)

lemma int_at_number:
  assumes "0 \<le> n" and "n \<le> 2 ^ 53" and "obj_get v k = Some (number_json (Some n))"
  shows "int_at v k = Some n"
  using assms by (simp add: int_at_def number_json_def jnum_def parseIntStrict_string_of_int)

text \<open>The three settings without an upper bound of their own are exact doubles.\<close>

definition exact_numbers :: "UpdateInstanceConfigRequest \<Rightarrow> bool" where
  "exact_numbers r \<longleftrightarrow>
     list_all (\<lambda>v. case v of None \<Rightarrow> False | Some n \<Rightarrow> n \<le> 2 ^ 53)
       [up_moderation_virality_min r, up_ai_batch_max_items r, up_ai_batch_max_total_bytes r]"

lemma saved_form:
  assumes "request_ok r" and "exact_numbers r"
  shows "validateInstanceConfigForm (configFormFromInstance (instance_config (config_json r))) = [] \<and>
    buildUpdateInstanceConfigRequest (configFormFromInstance (instance_config (config_json r))) = r"
proof -
  obtain v n1 n2 n3 n4 where n: "up_moderation_virality_min r = Some v" "0 \<le> v" "v \<le> 2 ^ 53" "up_ai_batch_max_items r = Some n1" "0 < n1" "n1 \<le> 2 ^ 53"
    "up_ai_batch_max_total_bytes r = Some n2" "0 < n2" "n2 \<le> 2 ^ 53" "up_ai_pricing_multiplier_bps r = Some n3" "0 < n3" "n3 \<le> 1000000"
    "up_ai_max_inflight_jobs r = Some n4" "0 < n4" "n4 \<le> 10000"
    using assms by (auto simp: request_ok_def exact_numbers_def)
  let ?i = "instance_config (config_json r)"
  have i: "in_render_policy ?i = Some (up_render_policy r)" "in_overage_policy ?i = Some (up_overage_policy r)"
    "in_moderation_trigger ?i = Some (up_moderation_trigger r)" "in_ai_batching_mode ?i = Some (up_ai_batching_mode r)"
    "in_ai_model_set ?i = Some (up_ai_model_set r)"
    "in_hosted_previews_enabled ?i = up_hosted_previews_enabled r" "in_link_safety_enabled ?i = up_link_safety_enabled r"
    "in_renders_enabled ?i = up_renders_enabled r" "in_translation_enabled ?i = up_translation_enabled r"
    "in_moderation_enabled ?i = up_moderation_enabled r" "in_ai_enabled ?i = up_ai_enabled r"
    by (simp_all add: instance_config_def config_json_def string_member_def obj_get_def flag_at_def)
  have k: "in_moderation_virality_min ?i = Some v" "in_ai_batch_max_items ?i = Some n1" "in_ai_batch_max_total_bytes ?i = Some n2"
    "in_ai_pricing_multiplier_bps ?i = Some n3" "in_ai_max_inflight_jobs ?i = Some n4"
    using n by (auto simp: instance_config_def config_json_def obj_get_def intro!: int_at_number)
  show ?thesis
    using config_form_round_trip [of ?i "up_moderation_trigger r" "up_ai_batching_mode r" "up_ai_model_set r" v n1 n2 n3 n4] assms(1) n
    unfolding i k by (auto simp: request_ok_def intro!: UpdateInstanceConfigRequest.equality)
qed

text \<open>A saved configuration comes into the form again.  When a valid and acknowledged form is saved and the server
  answers with the settings it was sent, then the page says so, is not saving any more, and shows a form that is
  valid again and stands for the very same settings, down to the last number; the user could save it once more at once.\<close>

theorem config_save_round_trip:
  assumes "cf_form s = Some form" and "validateInstanceConfigForm form = []" and "acknowledged s form"
    and "exact_numbers (buildUpdateInstanceConfigRequest form)"
    and "fst (http (portalUpdateInstanceConfig (ip_token s) (ip_slug s) (config_json (buildUpdateInstanceConfigRequest form))) w) =
      Inr (config_json (buildUpdateInstanceConfigRequest form))"
  shows "\<exists>form'. cf_form (fst (run save_config s w)) = Some form' \<and>
    buildUpdateInstanceConfigRequest form' = buildUpdateInstanceConfigRequest form \<and>
    cf_successMessage (fst (run save_config s w)) = Some ''Saved.'' \<and> canSave (fst (run save_config s w))"
proof -
  let ?r = "buildUpdateInstanceConfigRequest form"
  let ?form = "configFormFromInstance (instance_config (config_json ?r))"
  have f: "validateInstanceConfigForm ?form = []" "buildUpdateInstanceConfigRequest ?form = ?r"
    using saved_form [of ?r] assms(2,4) by (simp_all add: form_validates)
  have up: "renders_enabled ?form = renders_enabled form" "render_policy ?form = render_policy form" "ai_enabled ?form = ai_enabled form"
    using f(2) by (simp_all add: buildUpdateInstanceConfigRequest_def)
  obtain w' where op: "http (portalUpdateInstanceConfig (ip_token s) (ip_slug s) (config_json ?r)) w = (Inr (config_json ?r), w')"
    using assms(5) by (metis prod.collapse)
  have "\<not> (requiresRenderAlwaysAck s \<and> \<not> cf_ackRenderAlways s)" "\<not> (requiresAIAck s \<and> \<not> cf_ackAI s)"
    using assms(1,3) by (auto simp: requiresRenderAlwaysAck_def requiresAIAck_def acknowledged_def)
  then have "fst (run save_config s w) =
      (set_form (Some ?form) (s\<lparr>cf_errorMessage := None, cf_successMessage := None, cf_fieldErrors := [], cf_saving := True,
         cf_instance := Some (config_json ?r)\<rparr>))\<lparr>cf_successMessage := Some ''Saved.'', cf_saving := False\<rparr>"
    using assms(1,2) op
    by (auto simp: save_config_def run_def run_try_case Let_def requiresRenderAlwaysAck_def requiresAIAck_def finish_def)
  then show ?thesis using f assms(1,3) up
    by (simp add: set_form_def canSave_def requiresRenderAlwaysAck_def requiresAIAck_def acknowledged_def)
qed

theorem config_save_round_trip_witness:
  "canSave (fst (run save_config sample_config (sample_world (\<lambda>_. config_json sample_request))))"
proof -
  have small: "exact_numbers sample_request"
    by (simp add: exact_numbers_def buildUpdateInstanceConfigRequest_def configFormFromInstance_def sample_instance_def nullish_def
        parseIntStrict_string_of_int)
  have "wf_json (config_json r)" for r by (simp add: config_json_def number_json_def split: option.split)
  then have "fst (http (portalUpdateInstanceConfig ''t'' ''demo'' (config_json sample_request)) (sample_world (\<lambda>_. config_json sample_request))) =
      Inr (config_json sample_request)"
    by (simp add: portalUpdateInstanceConfig_def Let_def http_sample sample_world_def)
  moreover have "cf_form sample_config = Some (configFormFromInstance sample_instance)" "ip_token sample_config = ''t''"
      "ip_slug sample_config = ''demo''" "acknowledged sample_config (configFormFromInstance sample_instance)"
    by (simp_all add: sample_config_def acknowledged_def)
  ultimately show ?thesis
    using config_save_round_trip [of sample_config "configFormFromInstance sample_instance"] sample_form_valid small by metis
qed

section \<open>A new instance has a host label\<close>

text \<open>What may stand as a label of a host name; two characters are too few for the page, though.\<close>

definition host_label :: "js_string \<Rightarrow> bool" where
  "host_label s \<longleftrightarrow>
     s \<noteq> [] \<and> length s \<le> 63 \<and> length s \<noteq> 2 \<and> (\<forall>c \<in> set s. is_lower c \<or> is_digit c \<or> c = CHR ''-'') \<and>
     hd s \<noteq> CHR ''-'' \<and> last s \<noteq> CHR ''-''"

lemma slugRE_host_label: "slugRE s \<longleftrightarrow> host_label s"
proof (cases s)
  case (Cons c r)
  have hyphen: "\<not> slug_char CHR ''-''" by (simp add: slug_char_def is_lower_def is_digit_def)
  show ?thesis
  proof (cases r rule: rev_cases)
    case Nil
    then show ?thesis using hyphen unfolding Cons by (auto simp: slugRE_def host_label_def slug_char_def)
  next
    case (snoc m d)
    then show ?thesis using hyphen unfolding Cons
      by (auto simp: slugRE_def host_label_def slug_char_def list_all_iff Suc_le_eq)
  qed
qed (simp add: slugRE_def host_label_def)

lemma host_label_plain: "host_label s \<Longrightarrow> plain_text s"
  by (auto simp: host_label_def plain_text_def is_lower_def is_digit_def)

definition instances_emits :: "instances_page \<Rightarrow> request \<Rightarrow> bool" where
  "instances_emits s r \<longleftrightarrow>
     fetchJson r = portalListInstances (il_token s) \<or>
     (\<exists>v t. app_session (fr_app s) = Some v \<and> string_member v ''token'' = Some t \<and> r = logout_request t) \<or>
     (\<exists>slug. slug = toLowerCase (js_trim (il_createSlug s)) \<and> host_label slug \<and> \<not> dot_segment slug \<and>
        portalRoute (''/portal/instances/'' @ slug) = PortalInstance slug \<and> fetchJson r = portalCreateInstance (il_token s) slug)"

interpretation instances: emitting_page instances_emits
  by unfold_locales (auto simp: instances_emits_def)

lemma instances_emits_shown [simp]:
  "instances_emits (il_loading_update a s) = instances_emits s" "instances_emits (il_errorMessage_update b s) = instances_emits s"
  "instances_emits (il_instances_update c s) = instances_emits s" "instances_emits (il_createLoading_update d s) = instances_emits s"
  "instances_emits (il_createError_update e s) = instances_emits s" "instances_emits (go p s) = instances_emits s"
  by (simp_all add: fun_eq_iff instances_emits_def go_def)

lemma instances_sends:
  "sends (http (portalListInstances (il_token s))) (instances_emits s)"
  "slug = toLowerCase (js_trim (il_createSlug s)) \<Longrightarrow> slugRE slug \<Longrightarrow>
   sends (http (portalCreateInstance (il_token s) slug)) (instances_emits s)"
proof -
  show "sends (http (portalListInstances (il_token s))) (instances_emits s)"
    by (rule sends_single) (simp_all add: portalListInstances_def instances_emits_def)
  assume slug: "slug = toLowerCase (js_trim (il_createSlug s))" "slugRE slug"
  then have h: "host_label slug" by (simp add: slugRE_host_label)
  have create: "single (portalCreateInstance (il_token s) slug)" by (simp add: portalCreateInstance_def Let_def)
  have "\<not> dot_segment slug" using h by (auto simp: host_label_def dot_segment_def is_lower_def is_digit_def)
  moreover have "portalRoute (''/portal/instances/'' @ slug) = PortalInstance slug"
    using tab_page [OF host_label_plain [OF h], of Overview] by (simp add: tabHref_simps tab_route_def)
  ultimately show "sends (http (portalCreateInstance (il_token s) slug)) (instances_emits s)"
    using slug h create by (intro sends_single) (auto simp: instances_emits_def)
qed

lemma loadInstances_obeys:
  assumes t: "\<And>e. obeys (emits instances_emits) (throw e)" and k: "obeys (emits instances_emits) k"
  shows "obeys (emits instances_emits) (loadInstances throw k)"
proof (rule obeysR)
  fix s
  let ?failed = "rejected (\<lambda>s. s\<lparr>il_loading := False\<rparr>) (\<lambda>e s. s\<lparr>il_errorMessage := show_error s e\<rparr>) throw k"
  have f: "obeys (emits instances_emits) (?failed e)" for e by (rule instances.rejected_obeys [OF t k]) simp_all
  have "obeys (emits instances_emits) (\<lambda>s. case list_member res ''instances'' of Inl e \<Rightarrow> ?failed e s | Inr xs \<Rightarrow> k (s\<lparr>il_instances := xs, il_loading := False\<rparr>))" for res
    by (cases "list_member res ''instances''") (auto intro!: obeysR obeysD [OF f] obeys_call [OF k])
  then show "obeys_result (emits instances_emits) s (loadInstances throw k s)"
    unfolding loadInstances_def Let_def using instances_sends(1) [of s] f by (intro obeys_sends) auto
qed

lemma createInstance_obeys: "obeys (emits instances_emits) createInstance"
proof (rule obeysR)
  fix s
  let ?failed = "rejected (\<lambda>s. s\<lparr>il_createLoading := False\<rparr>) (\<lambda>e s. s\<lparr>il_createError := Some (create_error s e)\<rparr>) (\<lambda>_. finish) finish"
  have f: "obeys (emits instances_emits) (?failed e)" for e by (rule instances.rejected_finish)
  have "obeys (emits instances_emits) (loadInstances ?failed (\<lambda>s. case read_text inst ''slug'' of Inl e \<Rightarrow> ?failed e s
      | Inr x \<Rightarrow> finish ((go (''/portal/instances/'' @ x) s)\<lparr>il_createLoading := False\<rparr>)))" for inst
    by (intro loadInstances_obeys f) (cases "read_text inst ''slug''"; auto intro!: obeysR obeysD [OF f])
  note l = this
  have "obeys (emits instances_emits) (\<lambda>s. loadInstances ?failed (\<lambda>s. case read_text inst ''slug'' of Inl e \<Rightarrow> ?failed e s
      | Inr x \<Rightarrow> finish ((go (''/portal/instances/'' @ x) s)\<lparr>il_createLoading := False\<rparr>)) (s\<lparr>il_createSlug := []\<rparr>))" for inst
    by (intro obeysR obeys_call [OF l])
      (auto simp: instances_emits_def toLowerCase_def js_trim_def host_label_def)
  then show "obeys_result (emits instances_emits) s (createInstance s)"
    unfolding createInstance_def Let_def
    by (auto intro!: obeys_sends f instances_sends(2))
qed

interpretation instances_steps: step_discipline instances_handlers "emits instances_emits"
  by unfold_locales
    (auto simp: instances_handlers_def intro!: createInstance_obeys loadInstances_obeys obeys_finish intro: obeysR)

text \<open>A new instance is asked for only with a host label.  At every step of the list of instances the requests sent are the list, the
  logout of the current session, and a creation with the trimmed and lower-cased text of the field, which then has
  between one and 63 lower-case letters, digits and inner hyphens: it fits into a host name, it is one path segment, and the
  portal's route for it is the page of that instance.  (A text of two such characters is refused, against what the
  message says.)\<close>

theorem created_slug_bounds:
  assumes "page_reachable instances_handlers (fresh_page s w) pg" and "page_step instances_handlers pg pg'"
  shows "\<exists>sent. w_http (pg_world pg') = w_http (pg_world pg) @ sent \<and> list_all (instances_emits (pg_state pg)) sent"
  using instances_steps.reachable_step [OF assms(1) _ assms(2)] by (auto simp: fresh_page_def emits_def list_all_iff)

definition sample_instances :: instances_page where
  "sample_instances = \<lparr>fr_env = sample_env, fr_app = sample_app, fr_router = load_router ''/'' sample_storage, fr_assigned = [],
     il_token = ''t'', il_loading = False, il_errorMessage = None, il_instances = [], il_createSlug = '' Demo-1 '',
     il_createLoading = False, il_createError = None\<rparr>"

theorem created_slug_bounds_witness:
  "\<exists>r. w_http (pg_world (run_segment createInstance (fresh_page sample_instances (sample_world (\<lambda>_. JObj []))))) = [r] \<and>
     instances_emits sample_instances r \<and> fetchJson r = portalCreateInstance ''t'' ''demo-1''"
proof -
  let ?pg = "fresh_page sample_instances (sample_world (\<lambda>_. JObj []))"
  have slug: "toLowerCase (js_trim (il_createSlug sample_instances)) = ''demo-1''" "slugRE ''demo-1''"
    by (simp add: sample_instances_def, code_simp) code_simp
  have "\<exists>r. w_http (pg_world (run_segment createInstance ?pg)) = [r] \<and> fetchJson r = portalCreateInstance ''t'' ''demo-1''"
    using slug
    by (simp add: createInstance_def run_segment_def fresh_page_def try_await_def await_def portalCreateInstance_def api_call_def http_def
        fetchJson_net_of sample_world_def Let_def sample_instances_def)
  moreover have "page_step instances_handlers ?pg (run_segment createInstance ?pg)"
    by (rule page_step.start) (simp add: instances_handlers_def)
  ultimately show ?thesis
    using created_slug_bounds [OF rtranclp.rtrancl_refl] by (fastforce simp: fresh_page_def sample_world_def)
qed

end
