(* ===== verification/Register_Page.thy ===== *)
theory Register_Page
  imports Instance_Pages Mint_Page
begin

text \<open>
  The registration of an agent, \<^verbatim>\<open>web/src/pages/portal/SoulRegister.svelte\<close>: a challenge is requested for a domain and a wallet, the
  wallet signs the challenge, the principal signs a declaration, the registration is verified, the token is minted
  from the wallet or by a Safe, and a conversation produces the agent's declarations, which the wallet signs and publishes.

  The parsers of the conversation are those of \<open>Mint_Page\<close>; the two pages hold the same text of them.  \<open>rg_params\<close> is
  what \<open>new URLSearchParams(window.location.search)\<close> holds.  A variable that is \<open>null\<close> until an answer arrives is
  \<open>JNull\<close>; a signature is what the wallet answered.  In messages, an ellipsis is written as three dots.
\<close>

section \<open>State\<close>

record conversation_part = frame +
  rg_token :: js_string
  rg_keccak :: "nat list \<Rightarrow> nat list"
  rg_mintModel :: js_string
  rg_mintConversationId :: js_string
  rg_mintConversation :: json
  rg_mintMessages :: "MintMessage list"
  rg_mintUserMessage :: js_string
  rg_mintAssistantPartial :: js_string
  rg_mintStreaming :: bool
  rg_mintError :: "js_string option"
  rg_mintCompleteLoading :: bool
  rg_mintCompleteError :: "js_string option"
  rg_mintProducedDeclarations :: json
  rg_mintFinalizeLoading :: bool
  rg_mintFinalizeError :: "js_string option"
  rg_mintFinalizeBegin :: json
  rg_mintFinalizeResult :: json

record register_page = conversation_part +
  rg_params :: "(js_string \<times> js_string) list"
  rg_domain :: js_string
  rg_localId :: js_string
  rg_walletAddress :: js_string
  rg_capabilities :: js_string
  rg_portalUsername :: js_string
  rg_instances :: "json list"
  rg_instancesLoading :: bool
  rg_instancesError :: "js_string option"
  rg_selectedInstanceSlug :: js_string
  rg_beginLoading :: bool
  rg_beginError :: "js_string option"
  rg_beginResult :: json
  rg_signature :: "json option"
  rg_signLoading :: bool
  rg_signError :: "js_string option"
  rg_principalAddress :: js_string
  rg_principalDeclaration :: js_string
  rg_principalSignature :: "json option"
  rg_principalDeclaredAt :: js_string
  rg_principalSignLoading :: bool
  rg_principalSignError :: "js_string option"
  rg_verifyLoading :: bool
  rg_verifyError :: "js_string option"
  rg_verifyResult :: json
  rg_showVerifySafePayload :: bool
  rg_soulConfig :: json
  rg_mintDirectLoading :: bool
  rg_mintDirectError :: "js_string option"
  rg_mintDirectNotice :: "js_string option"
  rg_mintDirectTxHash :: js_string

definition initial_register ::
  "env \<Rightarrow> app \<Rightarrow> router \<Rightarrow> (nat list \<Rightarrow> nat list) \<Rightarrow> js_string \<Rightarrow> (js_string \<times> js_string) list \<Rightarrow> register_page" where
  "initial_register env a r keccak token params =
     \<lparr>fr_env = env, fr_app = a, fr_router = r, fr_assigned = [], rg_token = token, rg_keccak = keccak,
      rg_mintModel = ''gpt-5.6-luna'', rg_mintConversationId = [], rg_mintConversation = JNull, rg_mintMessages = [], rg_mintUserMessage = [],
      rg_mintAssistantPartial = [], rg_mintStreaming = False, rg_mintError = None, rg_mintCompleteLoading = False,
      rg_mintCompleteError = None, rg_mintProducedDeclarations = JNull, rg_mintFinalizeLoading = False, rg_mintFinalizeError = None,
      rg_mintFinalizeBegin = JNull, rg_mintFinalizeResult = JNull,
      rg_params = params, rg_domain = [], rg_localId = [], rg_walletAddress = [], rg_capabilities = [], rg_portalUsername = [],
      rg_instances = [], rg_instancesLoading = False, rg_instancesError = None, rg_selectedInstanceSlug = [],
      rg_beginLoading = False, rg_beginError = None, rg_beginResult = JNull, rg_signature = Some (JStr []), rg_signLoading = False,
      rg_signError = None, rg_principalAddress = [], rg_principalDeclaration = ''I accept responsibility for this agent'' @ [CHR 0x27] @ ''s behavior.'',
      rg_principalSignature = Some (JStr []), rg_principalDeclaredAt = [], rg_principalSignLoading = False, rg_principalSignError = None,
      rg_verifyLoading = False, rg_verifyError = None, rg_verifyResult = JNull, rg_showVerifySafePayload = False, rg_soulConfig = JNull,
      rg_mintDirectLoading = False, rg_mintDirectError = None, rg_mintDirectNotice = None, rg_mintDirectTxHash = []\<rparr>"

type_synonym register_segment = "(register_page, world) segment"

text \<open>\<open>value?.member\<close> as a value, and the registration of the challenge.\<close>

definition member :: "json \<Rightarrow> js_string \<Rightarrow> json" where
  "member v k = nullish (obj_get v k) JNull"

definition registration :: "register_page \<Rightarrow> json" where
  "registration s = member (rg_beginResult s) ''registration''"

definition agent_wallet :: "register_page \<Rightarrow> js_string" where
  "agent_wallet s = str_or (js_trim (text_at (registration s) ''wallet_address'')) (js_trim (rg_walletAddress s))"

text \<open>\<open>new Date().toISOString()\<close>\<close>

definition now_iso :: "'a frame_scheme \<Rightarrow> js_string" where
  "now_iso s = opt_or (date_iso (env_clock (fr_env s)) (date_now (env_clock (fr_env s)))) []"

definition wallet_missing :: js_string where
  "wallet_missing = ''No wallet detected. Install or enable a wallet extension.''"

section \<open>The fields of the form\<close>

fun dedup_lower :: "js_string list \<Rightarrow> js_string list \<Rightarrow> js_string list" where
  "dedup_lower seen [] = []"
| "dedup_lower seen (p # ps) =
     (let lower = toLowerCase p in
      if object_lookup seen lower then dedup_lower seen ps else lower # dedup_lower (lower # seen) ps)"

definition parseCapabilities :: "js_string \<Rightarrow> js_string list" where
  "parseCapabilities raw = dedup_lower [] (filter (\<lambda>p. p \<noteq> []) (map js_trim (split_on CHR '','' raw)))"

definition preferredDomainForInstance :: "json \<Rightarrow> js_string" where
  "preferredDomainForInstance inst =
     str_or (js_trim (text_at inst ''managed_lesser_domain'')) (js_trim (text_at inst ''hosted_base_domain''))"

definition find_slug :: "js_string \<Rightarrow> json list \<Rightarrow> json option" where
  "find_slug slug = find (\<lambda>inst. string_member inst ''slug'' = Some slug)"

definition applySelectedInstance :: "js_string \<Rightarrow> register_page \<Rightarrow> register_page" where
  "applySelectedInstance slug s =
     (let s = s\<lparr>rg_selectedInstanceSlug := slug\<rparr>;
          preferredDomain = (case find_slug slug (rg_instances s) of None \<Rightarrow> [] | Some i \<Rightarrow> preferredDomainForInstance i) in
      if preferredDomain \<noteq> [] then s\<lparr>rg_domain := preferredDomain\<rparr> else s)"

text \<open>\<open>/^0x[0-9a-f]{40}$/\<close>\<close>

definition address_shape :: "js_string \<Rightarrow> bool" where
  "address_shape h \<longleftrightarrow> startsWith h ''0x'' \<and> length h = 42 \<and> list_all (\<lambda>c. is_digit c \<or> c \<in> set ''abcdef'') (drop 2 h)"

definition inferWalletAddressFromUsername :: "js_string \<Rightarrow> js_string" where
  "inferWalletAddressFromUsername username =
     (let normalized = toLowerCase (js_trim username); hex = drop 7 normalized in
      if \<not> startsWith normalized ''wallet-'' then [] else if address_shape hex then hex else [])"

text \<open>The wallet that is already connected, or the one the user name stands for.\<close>

definition infer_wallet :: "register_page \<Rightarrow> register_page" where
  "infer_wallet s =
     (let inferred = inferWalletAddressFromUsername (rg_portalUsername s) in
      if inferred \<noteq> [] then s\<lparr>rg_walletAddress := inferred\<rparr> else s)"

definition populateWalletAddress :: "register_segment \<Rightarrow> register_segment" where
  "populateWalletAddress k s =
     (case getEthereumProvider (env_ethereum (fr_env s)) of
        None \<Rightarrow> k (infer_wallet s)
      | Some p \<Rightarrow>
          try_await (rpc p (provider_request ''eth_accounts'' None)) (\<lambda>_ s. k (infer_wallet s))
            (\<lambda>accounts s.
               case accounts of
                 Some (JArr (a # _)) \<Rightarrow> k (s\<lparr>rg_walletAddress := js_to_string a\<rparr>)
               | _ \<Rightarrow> k (infer_wallet s))
            s)"

definition preset :: "register_page \<Rightarrow> js_string \<Rightarrow> js_string" where
  "preset s k = js_trim (opt_or (map_of (rg_params s) k) [])"

text \<open>The instance the page opens with: the one named in the address, else the one of the domain there, else the only one.\<close>

definition selected_instance :: "register_page \<Rightarrow> json option" where
  "selected_instance s =
     (let presetSlug = preset s ''slug''; presetDomain = preset s ''domain'';
          by_slug = (if presetSlug = [] then None else find_slug presetSlug (rg_instances s));
          by_domain = (if presetDomain = [] then None
            else find (\<lambda>i. toLowerCase (preferredDomainForInstance i) = toLowerCase presetDomain) (rg_instances s)) in
      case by_slug of
        Some i \<Rightarrow> Some i
      | None \<Rightarrow> (case by_domain of
          Some i \<Rightarrow> Some i
        | None \<Rightarrow> (case rg_instances s of [i] \<Rightarrow> Some i | _ \<Rightarrow> None)))"

definition apply_presets :: "register_page \<Rightarrow> register_page" where
  "apply_presets s =
     (let presetLocal = str_or (opt_or (map_of (rg_params s) ''local_id'') []) (opt_or (map_of (rg_params s) ''localId'') []);
          presetDomain = preset s ''domain'';
          s = (if presetLocal \<noteq> [] then s\<lparr>rg_localId := presetLocal\<rparr>
               else if js_trim (rg_localId s) = [] then s\<lparr>rg_localId := ''agent-0''\<rparr> else s);
          s = (if presetDomain \<noteq> [] then s\<lparr>rg_domain := presetDomain\<rparr> else s) in
      case selected_instance s of None \<Rightarrow> s | Some i \<Rightarrow> applySelectedInstance (text_at i ''slug'') s)"

definition loadRegistrationDefaults :: register_segment where
  "loadRegistrationDefaults s =
     (let lower = (\<lambda>s. s\<lparr>rg_instancesLoading := False\<rparr>);
          failed = rejected lower (\<lambda>e s. s\<lparr>rg_instancesError := show_error s e\<rparr>) (\<lambda>_. finish) finish;
          rest = (\<lambda>s. finish (lower (if js_trim (rg_capabilities s) = [] then s\<lparr>rg_capabilities := ''social''\<rparr> else s))) in
      try_await (http_all (getPortalMe (rg_token s)) (portalListInstances (rg_token s))) failed
        (\<lambda>(me, list) s.
           if me = JNull then failed (TypeError ''null has no properties'') s
           else
             (let s = s\<lparr>rg_portalUsername := text_at me ''username''\<rparr> in
              if list = JNull then failed (TypeError ''null has no properties'') s
              else
                (let xs = (case obj_get list ''instances'' of Some (JArr xs) \<Rightarrow> xs | _ \<Rightarrow> []);
                     s = apply_presets (s\<lparr>rg_instances := xs\<rparr>) in
                 if js_trim (rg_walletAddress s) = [] then populateWalletAddress rest s else rest s)))
        (s\<lparr>rg_instancesLoading := True, rg_instancesError := None\<rparr>))"

definition loadSoulConfig :: register_segment where
  "loadSoulConfig =
     try_await (http soulPublicGetConfig) (\<lambda>_ s. finish (s\<lparr>rg_soulConfig := JNull\<rparr>)) (\<lambda>c s. finish (s\<lparr>rg_soulConfig := c\<rparr>))"

section \<open>The conversation\<close>

definition mintStorageKey :: "js_string \<Rightarrow> js_string" where
  "mintStorageKey registrationId = ''soul_mint_conversation:'' @ registrationId"

text \<open>A change of \<open>localStorage\<close> inside a \<open>try\<close> that ignores what it throws.\<close>

definition store :: "(web_storage \<Rightarrow> storage_error + web_storage) \<Rightarrow> 'a frame_scheme \<Rightarrow> 'a frame_scheme" where
  "store f s =
     (case f (app_localStorage (fr_app s)) of
        Inl _ \<Rightarrow> s
      | Inr ls \<Rightarrow> s\<lparr>fr_app := (fr_app s)\<lparr>app_localStorage := ls\<rparr>\<rparr>)"

definition refreshMintConversation_reg ::
  "js_string \<Rightarrow> js_string \<Rightarrow> (js_error \<Rightarrow> register_segment) \<Rightarrow> register_segment \<Rightarrow> register_segment" where
  "refreshMintConversation_reg registrationId conversationId throw k s =
     (let failed = rejected (\<lambda>s. s) (\<lambda>e s. s\<lparr>rg_mintError := show_error s e\<rparr>) throw k in
      try_await (http (soulGetMintConversation (rg_token s) registrationId conversationId)) failed
        (\<lambda>c s.
           let s = s\<lparr>rg_mintConversation := c\<rparr> in
           if c = JNull then failed (TypeError ''null has no properties'') s
           else k (s\<lparr>rg_mintMessages := parseMintMessages (text_at c ''messages''),
             rg_mintProducedDeclarations := parseProducedDeclarations (text_at c ''produced_declarations'')\<rparr>))
        (s\<lparr>rg_mintError := None\<rparr>))"

definition clear_conversation :: "register_page \<Rightarrow> register_page" where
  "clear_conversation s =
     s\<lparr>rg_mintConversation := JNull, rg_mintMessages := [], rg_mintAssistantPartial := [], rg_mintError := None,
       rg_mintCompleteError := None, rg_mintFinalizeError := None, rg_mintFinalizeBegin := JNull, rg_mintFinalizeResult := JNull,
       rg_mintProducedDeclarations := JNull\<rparr>"

definition loadMintConversationFromStorage :: "js_string \<Rightarrow> register_segment \<Rightarrow> register_segment" where
  "loadMintConversationFromStorage registrationId k s =
     (let s = clear_conversation s in
      case getItem (mintStorageKey registrationId) (app_localStorage (fr_app s)) of
        Inl _ \<Rightarrow> k s
      | Inr stored \<Rightarrow>
          (let cid = js_trim (opt_or stored []) in
           if cid = [] then k s
           else refreshMintConversation_reg registrationId cid (\<lambda>_. k) k (s\<lparr>rg_mintConversationId := cid\<rparr>)))"

definition resetMintConversation_reg :: "js_string \<Rightarrow> register_page \<Rightarrow> register_page" where
  "resetMintConversation_reg registrationId s =
     store (removeItem (mintStorageKey registrationId)) ((clear_conversation s)\<lparr>rg_mintConversationId := [], rg_mintUserMessage := []\<rparr>)"

definition handle_event_reg :: "js_string \<Rightarrow> sse_event \<Rightarrow> (js_error \<Rightarrow> register_segment) \<Rightarrow> register_segment \<Rightarrow> register_segment" where
  "handle_event_reg registrationId ev catch k s =
     (if ev_name ev = ''conversation_start'' then
        (case event_text (ev_data ev) ''conversation_id'' of
           Inl e \<Rightarrow> catch e s
         | Inr t \<Rightarrow>
             (let cid = js_trim t in
              k (if cid \<noteq> [] then store (setItem (mintStorageKey registrationId) cid) (s\<lparr>rg_mintConversationId := cid\<rparr>) else s)))
      else if ev_name ev = ''delta'' then
        (case event_text (ev_data ev) ''text'' of
           Inl e \<Rightarrow> catch e s
         | Inr t \<Rightarrow> k (s\<lparr>rg_mintAssistantPartial := rg_mintAssistantPartial s @ t\<rparr>))
      else if ev_name ev = ''conversation_done'' then
        (case event_text (ev_data ev) ''full_response'' of
           Inl e \<Rightarrow> catch e s
         | Inr full \<Rightarrow>
             (let assistantText = str_or full (rg_mintAssistantPartial s);
                  s = (if assistantText \<noteq> []
                       then s\<lparr>rg_mintMessages := rg_mintMessages s @ [\<lparr>mm_role = Assistant, mm_content = assistantText\<rparr>]\<rparr> else s);
                  s = s\<lparr>rg_mintAssistantPartial := []\<rparr> in
              if rg_mintConversationId s \<noteq> []
              then refreshMintConversation_reg registrationId (rg_mintConversationId s) catch k s
              else k s))
      else if ev_name ev = ''error'' then k (s\<lparr>rg_mintError := Some (parseSseErrorMessage (ev_data ev))\<rparr>)
      else k s)"

primrec handle_blocks_reg ::
  "js_string \<Rightarrow> js_string list \<Rightarrow> (js_error \<Rightarrow> register_segment) \<Rightarrow> register_segment \<Rightarrow> register_segment" where
  "handle_blocks_reg registrationId [] catch k = k"
| "handle_blocks_reg registrationId (raw # bs) catch k =
     (case parseSseEvent raw of
        None \<Rightarrow> handle_blocks_reg registrationId bs catch k
      | Some ev \<Rightarrow> handle_event_reg registrationId ev catch (handle_blocks_reg registrationId bs catch k))"

primrec read_loop_reg ::
  "js_string \<Rightarrow> js_string list \<Rightarrow> js_error option \<Rightarrow> (js_error \<Rightarrow> register_segment) \<Rightarrow> register_segment \<Rightarrow> js_string \<Rightarrow> register_segment" where
  "read_loop_reg registrationId [] ending catch k buffer =
     await (\<lambda>w. (ending, w)) (\<lambda>e. case e of None \<Rightarrow> k | Some e \<Rightarrow> catch e)"
| "read_loop_reg registrationId (chunk # chunks) ending catch k buffer =
     await (\<lambda>w. (chunk, w))
       (\<lambda>value. case split_blocks (buffer @ value) of
          (blocks, rest) \<Rightarrow> handle_blocks_reg registrationId blocks catch (read_loop_reg registrationId chunks ending catch k rest))"

definition sendMintMessage_reg :: "js_string \<Rightarrow> register_segment" where
  "sendMintMessage_reg registrationId s =
     (let s = s\<lparr>rg_mintError := None, rg_mintCompleteError := None\<rparr>;
          msg = js_trim (rg_mintUserMessage s);
          fin = (\<lambda>s. finish (s\<lparr>rg_mintStreaming := False\<rparr>));
          failed = (\<lambda>e s. fin (s\<lparr>rg_mintError := show_error s e\<rparr>)) in
      if msg = [] then finish (s\<lparr>rg_mintError := Some ''Message is required.''\<rparr>)
      else
        (let s = s\<lparr>rg_mintUserMessage := [], rg_mintMessages := rg_mintMessages s @ [\<lparr>mm_role = User, mm_content = msg\<rparr>],
                   rg_mintAssistantPartial := [], rg_mintStreaming := True\<rparr> in
         await (open_stream (soulStartMintConversationSSE (rg_token s) registrationId (obj_lit
             [(''model'', if rg_mintConversationId s \<noteq> [] then None else Some (JStr (rg_mintModel s))),
              (''conversation_id'', text_or_undefined (rg_mintConversationId s)),
              (''message'', Some (JStr msg))])))
           (\<lambda>(chunks, ending). read_loop_reg registrationId chunks ending failed fin [])
           s))"

definition completeMintConversation_reg :: "js_string \<Rightarrow> register_segment" where
  "completeMintConversation_reg registrationId s =
     (let s = s\<lparr>rg_mintCompleteError := None\<rparr>;
          lower = (\<lambda>s. s\<lparr>rg_mintCompleteLoading := False\<rparr>);
          failed = rejected lower (\<lambda>e s. s\<lparr>rg_mintCompleteError := show_error s e\<rparr>) (\<lambda>_. finish) finish in
      if rg_mintConversationId s = [] then finish (s\<lparr>rg_mintCompleteError := Some ''No conversation in progress.''\<rparr>)
      else
        try_await (http (soulCompleteMintConversation (rg_token s) registrationId (rg_mintConversationId s) None)) failed
          (\<lambda>c s.
             let s = s\<lparr>rg_mintConversation := c\<rparr> in
             if c = JNull then failed (TypeError ''null has no properties'') s
             else finish (lower (s\<lparr>rg_mintProducedDeclarations := parseProducedDeclarations (text_at c ''produced_declarations'')\<rparr>)))
          (s\<lparr>rg_mintCompleteLoading := True\<rparr>))"

primrec sign_boundaries_reg ::
  "provider \<Rightarrow> js_string \<Rightarrow> ProducedBoundary list \<Rightarrow> (js_error \<Rightarrow> register_segment)
     \<Rightarrow> ((js_string \<times> json option) list \<Rightarrow> register_segment) \<Rightarrow> (js_string \<times> json option) list \<Rightarrow> register_segment" where
  "sign_boundaries_reg p wallet [] catch k sigs = k sigs"
| "sign_boundaries_reg p wallet (b # bs) catch k sigs =
     (\<lambda>s. try_await (rpc p (personalSign (keccak256Utf8Hex (rg_keccak s) (pb_statement b)) wallet)) catch
        (\<lambda>sig. sign_boundaries_reg p wallet bs catch k (prop_set sigs (pb_id b) sig)) s)"

definition finalize_lower :: "register_page \<Rightarrow> register_page" where
  "finalize_lower s = s\<lparr>rg_mintFinalizeLoading := False\<rparr>"

definition finalize_failed_reg :: "js_error \<Rightarrow> register_segment" where
  "finalize_failed_reg = rejected finalize_lower (\<lambda>e s. s\<lparr>rg_mintFinalizeError := show_error s e\<rparr>) (\<lambda>_. finish) finish"

text \<open>From the answer to the boundary signatures on: the self attestation and the publication.\<close>

definition finalize_attest_reg ::
  "js_string \<Rightarrow> provider \<Rightarrow> js_string \<Rightarrow> (js_string \<times> json option) list \<Rightarrow> json \<Rightarrow> register_segment" where
  "finalize_attest_reg registrationId p wallet sigs b s =
     (let s = s\<lparr>rg_mintFinalizeBegin := b\<rparr> in
      if b = JNull then finalize_failed_reg (TypeError ''null has no properties'') s
      else if text_at b ''digest_hex'' = []
        then finish (finalize_lower (s\<lparr>rg_mintFinalizeError := Some ''Finalize preflight did not return wallet signing material.''\<rparr>))
      else
        try_await (rpc p (personalSign (text_at b ''digest_hex'') wallet)) finalize_failed_reg
          (\<lambda>selfAttestation s.
             if rg_mintFinalizeBegin s = JNull then finalize_failed_reg (TypeError ''null has no properties'') s
             else
               try_await (http (soulMintConversationFinalize (rg_token s) registrationId (rg_mintConversationId s) (obj_lit
                     [(''boundary_signatures'', Some (obj_lit sigs)),
                      (''issued_at'', obj_get (rg_mintFinalizeBegin s) ''issued_at''),
                      (''expected_version'', obj_get (rg_mintFinalizeBegin s) ''expected_version''),
                      (''self_attestation'', selfAttestation)])))
                 finalize_failed_reg (\<lambda>res s. finish (finalize_lower (s\<lparr>rg_mintFinalizeResult := res\<rparr>)))
                 s)
          s)"

definition finalizeMintConversation_reg :: "js_string \<Rightarrow> register_segment" where
  "finalizeMintConversation_reg registrationId s =
     (let s = s\<lparr>rg_mintFinalizeError := None, rg_mintFinalizeBegin := JNull, rg_mintFinalizeResult := JNull\<rparr>;
          stop = (\<lambda>msg. finish (s\<lparr>rg_mintFinalizeError := Some msg\<rparr>));
          boundaries = extractProducedBoundaries (rg_mintProducedDeclarations s);
          wallet = agent_wallet s in
      if rg_verifyResult s = JNull then stop ''Verify the registration first (Step 3) to create the pending agent identity.''
      else if rg_mintConversationId s = [] then stop ''No completed conversation to finalize.''
      else if \<not> json_truthy (Some (rg_mintProducedDeclarations s)) then stop ''Complete the mint conversation first to produce declarations.''
      else if boundaries = [] then stop ''No boundaries found in produced declarations.''
      else
        (case getEthereumProvider (env_ethereum (fr_env s)) of
           None \<Rightarrow> stop wallet_missing
         | Some p \<Rightarrow>
             if wallet = [] then stop ''Agent wallet address is required.''
             else
               try_await (rpc p ensureAccounts) finalize_failed_reg
                 (\<lambda>accounts s.
                    if toLowerCase wallet \<notin> toLowerCase ` set accounts
                    then finish (finalize_lower (s\<lparr>rg_mintFinalizeError :=
                      Some (''Connected wallet does not match agent wallet ('' @ wallet @ '').'')\<rparr>))
                    else
                      sign_boundaries_reg p wallet boundaries finalize_failed_reg
                        (\<lambda>sigs s.
                           try_await (http (soulMintConversationFinalizeBegin (rg_token s) registrationId
                               (rg_mintConversationId s) (obj_lit [(''boundary_signatures'', Some (obj_lit sigs))])))
                             finalize_failed_reg (finalize_attest_reg registrationId p wallet sigs) s)
                        [] s)
                 (s\<lparr>rg_mintFinalizeLoading := True\<rparr>)))"

section \<open>Minting from the wallet\<close>

text \<open>
  \<open>waitForEthereumTransactionReceipt\<close> with its sleeps as awaits.  A sleep takes its poll time, so that the deadline is passed after at
  most one more request than the timeout holds poll times (\<open>Wallet\<close>), which is what \<open>n\<close> counts down from.
\<close>

primrec wait_receipt ::
  "nat \<Rightarrow> provider \<Rightarrow> js_string \<Rightarrow> int \<Rightarrow> (js_error \<Rightarrow> register_segment) \<Rightarrow> register_segment \<Rightarrow> register_segment" where
  "wait_receipt 0 p txHash deadline throw k = throw (Error ''transaction was not mined before timeout'')"
| "wait_receipt (Suc n) p txHash deadline throw k =
     try_await (rpc p (getEthereumTransactionReceipt txHash)) throw
       (\<lambda>receipt s.
          case receipt of
            Some _ \<Rightarrow> k s
          | None \<Rightarrow>
              if date_now (env_clock (fr_env s)) \<ge> deadline then throw (Error ''transaction was not mined before timeout'') s
              else try_await timer throw (\<lambda>_. wait_receipt n p txHash deadline throw k) s)"

definition receipt_polls :: nat where
  "receipt_polls = nat (10 * 60 * 1000 div 3000) + 1"

definition put_member :: "(js_string \<times> json) list \<Rightarrow> js_string \<Rightarrow> json option \<Rightarrow> (js_string \<times> json) list" where
  "put_member kvs k v = (case v of None \<Rightarrow> filter (\<lambda>(k', _). k' \<noteq> k) kvs | Some x \<Rightarrow> obj_set kvs k x)"

text \<open>\<open>{...verifyResult, operation: updated.operation, safe_tx: updated.safe_tx ?? verifyResult.safe_tx}\<close>\<close>

definition with_execution :: "json \<Rightarrow> json \<Rightarrow> json" where
  "with_execution v updated =
     (case v of
        JObj kvs \<Rightarrow>
          (let tx = (case obj_get updated ''safe_tx'' of None \<Rightarrow> obj_get v ''safe_tx'' | Some JNull \<Rightarrow> obj_get v ''safe_tx'' | Some x \<Rightarrow> Some x) in
           JObj (put_member (put_member kvs ''operation'' (obj_get updated ''operation'')) ''safe_tx'' tx))
      | _ \<Rightarrow> v)"

definition direct_lower :: "register_page \<Rightarrow> register_page" where
  "direct_lower s = s\<lparr>rg_mintDirectLoading := False\<rparr>"

definition direct_failed :: "js_string \<Rightarrow> js_error \<Rightarrow> register_segment" where
  "direct_failed txHash = rejected direct_lower
     (\<lambda>e s. s\<lparr>rg_mintDirectError := Some (formatError (fr_env s) e @ (if txHash = [] then [] else
        ''. Transaction sent as '' @ txHash @ ''. You can recover it from the agent detail page if needed.''))\<rparr>) (\<lambda>_. finish) finish"

text \<open>From the transaction's hash on.\<close>

definition direct_sent :: "js_string \<Rightarrow> provider \<Rightarrow> js_string \<Rightarrow> register_segment" where
  "direct_sent agentId p txHash s =
     (let s = s\<lparr>rg_mintDirectTxHash := txHash,
                rg_mintDirectNotice := Some ''Transaction submitted. Waiting for Sepolia confirmation...''\<rparr>;
          deadline = date_now (env_clock (fr_env s)) + 10 * 60 * 1000 in
      wait_receipt receipt_polls p txHash deadline (direct_failed txHash)
        (\<lambda>s. try_await (http (soulRecordAgentMintExecution (rg_token s) agentId txHash)) (direct_failed txHash)
           (\<lambda>updated s.
              if rg_verifyResult s \<noteq> JNull \<and> updated = JNull then direct_failed txHash (TypeError ''null has no properties'') s
              else finish (direct_lower (s\<lparr>rg_verifyResult := with_execution (rg_verifyResult s) updated, rg_mintDirectNotice := Some
                ''Mint confirmed onchain and recorded. You can continue the profile conversation now.''\<rparr>)))
           (s\<lparr>rg_mintDirectNotice := Some ''Transaction confirmed. Recording execution in lesser-host...''\<rparr>))
        s)"

definition direct_send :: "js_string \<Rightarrow> provider \<Rightarrow> js_string \<Rightarrow> json \<Rightarrow> register_segment" where
  "direct_send agentId p wallet payload s =
     try_await (rpc p (sendEthereumTransaction \<lparr>tx_from = wallet, tx_to = text_at payload ''to'', tx_value = string_member payload ''value'',
         tx_data = string_member payload ''data''\<rparr>)) (direct_failed [])
       (direct_sent agentId p)
       (s\<lparr>rg_mintDirectNotice := Some ''Sending mint transaction from the connected wallet...''\<rparr>)"

definition executeDirectMint :: "js_string \<Rightarrow> register_segment" where
  "executeDirectMint agentId s =
     (let s = s\<lparr>rg_mintDirectError := None, rg_mintDirectNotice := None\<rparr>;
          stop = (\<lambda>msg. finish (s\<lparr>rg_mintDirectError := Some msg\<rparr>));
          payload = member (rg_verifyResult s) ''safe_tx'';
          wallet = agent_wallet s in
      if payload = JNull then stop ''No mint transaction payload is available yet.''
      else if js_trim (text_at payload ''safe_address'') \<noteq> [] then stop ''This mint still requires Safe execution.''
      else
        (case getEthereumProvider (env_ethereum (fr_env s)) of
           None \<Rightarrow> stop wallet_missing
         | Some p \<Rightarrow>
             if wallet = [] then stop ''Agent wallet address is required.''
             else
               try_await (rpc p ensureAccounts) (direct_failed [])
                 (\<lambda>accounts s.
                    if toLowerCase wallet \<notin> toLowerCase ` set accounts
                    then finish (direct_lower (s\<lparr>rg_mintDirectError :=
                      Some (''Connected wallet does not match agent wallet ('' @ wallet @ '').'')\<rparr>))
                    else
                      (case int_at (rg_soulConfig s) ''chain_id'' of
                         None \<Rightarrow> direct_send agentId p wallet payload s
                       | Some expected \<Rightarrow>
                           if expected = 0 then direct_send agentId p wallet payload s
                           else
                             try_await (rpc p getChainId) (direct_failed [])
                               (\<lambda>current s.
                                  if current = expected then direct_send agentId p wallet payload s
                                  else try_await (rpc p (switchEthereumChain expected)) (direct_failed [])
                                    (\<lambda>_. direct_send agentId p wallet payload)
                                    (s\<lparr>rg_mintDirectNotice := Some (''Switching wallet to chain '' @ string_of_int expected @ ''...'')\<rparr>))
                               s))
                 (s\<lparr>rg_mintDirectLoading := True\<rparr>)))"

section \<open>Registering\<close>

definition principal_text :: "json \<Rightarrow> js_string" where
  "principal_text reg = ''I accept responsibility for the lesser-soul agent '' @ text_at reg ''domain_normalized'' @ ''/'' @
     text_at reg ''local_id'' @ '' (agentId: '' @ text_at reg ''agent_id'' @ '').''"

definition handleBegin :: register_segment where
  "handleBegin s =
     (let s = (clear_conversation s)\<lparr>rg_beginError := None, rg_signError := None, rg_principalSignError := None, rg_verifyError := None,
                rg_beginResult := JNull, rg_verifyResult := JNull, rg_signature := Some (JStr []), rg_principalSignature := Some (JStr []),
                rg_principalDeclaredAt := [], rg_mintConversationId := [], rg_mintDirectError := None, rg_mintDirectNotice := None,
                rg_mintDirectTxHash := []\<rparr>;
          stop = (\<lambda>msg. finish (s\<lparr>rg_beginError := Some msg\<rparr>));
          nextDomain = js_trim (rg_domain s);
          nextLocal = js_trim (rg_localId s);
          nextWallet = js_trim (rg_walletAddress s);
          lower = (\<lambda>s. s\<lparr>rg_beginLoading := False\<rparr>);
          failed = rejected lower (\<lambda>e s. s\<lparr>rg_beginError := show_error s e\<rparr>) (\<lambda>_. finish) finish in
      if nextDomain = [] then stop ''Domain is required.''
      else if nextLocal = [] then stop ''Local ID is required.''
      else if nextWallet = [] then stop ''Wallet address is required.''
      else
        try_await (http (soulAgentRegistrationBegin (rg_token s) (obj_lit
            [(''domain'', Some (JStr nextDomain)), (''local_id'', Some (JStr nextLocal)), (''wallet_address'', Some (JStr nextWallet)),
             (''capabilities'', Some (JArr (map JStr (parseCapabilities (rg_capabilities s)))))])))
          failed
          (\<lambda>res s.
             let s = s\<lparr>rg_beginResult := res, rg_principalAddress := nextWallet\<rparr>; reg = member res ''registration'' in
             if reg = JNull then failed (TypeError ''null has no properties'') s
             else loadMintConversationFromStorage (text_at reg ''id'') (\<lambda>s. finish (lower s))
               (s\<lparr>rg_principalDeclaration := principal_text reg\<rparr>))
          (s\<lparr>rg_beginLoading := True\<rparr>))"

definition useConnectedWallet :: register_segment where
  "useConnectedWallet s =
     (let s = s\<lparr>rg_signError := None\<rparr> in
      case getEthereumProvider (env_ethereum (fr_env s)) of
        None \<Rightarrow> finish (s\<lparr>rg_signError := Some wallet_missing\<rparr>)
      | Some p \<Rightarrow>
          try_await (rpc p requestAccounts) (\<lambda>e s. finish (s\<lparr>rg_signError := show_error s e\<rparr>))
            (\<lambda>accounts s.
               case accounts of
                 [] \<Rightarrow> finish (s\<lparr>rg_signError := Some ''Wallet returned no accounts.''\<rparr>)
               | a # _ \<Rightarrow> finish (s\<lparr>rg_walletAddress := a\<rparr>))
            s)"

definition signMessage :: register_segment where
  "signMessage s =
     (let s = s\<lparr>rg_signError := None, rg_signature := Some (JStr [])\<rparr>;
          stop = (\<lambda>msg. finish (s\<lparr>rg_signError := Some msg\<rparr>));
          lower = (\<lambda>s. s\<lparr>rg_signLoading := False\<rparr>);
          failed = (\<lambda>e s. finish (lower (s\<lparr>rg_signError := show_error s e\<rparr>)));
          addr = js_trim (rg_walletAddress s) in
      case getEthereumProvider (env_ethereum (fr_env s)) of
        None \<Rightarrow> stop wallet_missing
      | Some p \<Rightarrow>
          if text_at (member (rg_beginResult s) ''wallet'') ''message'' = [] then stop ''Generate a registration challenge first.''
          else if addr = [] then stop ''Wallet address is required.''
          else
            try_await (rpc p requestAccounts) failed
              (\<lambda>accounts s.
                 if toLowerCase addr \<notin> toLowerCase ` set accounts
                 then finish (lower (s\<lparr>rg_signError := Some ''Connected wallet does not match the wallet address above.''\<rparr>))
                 else if member (rg_beginResult s) ''wallet'' = JNull then failed (TypeError ''null has no properties'') s
                 else
                   try_await (rpc p (personalSign (text_at (member (rg_beginResult s) ''wallet'') ''message'') addr)) failed
                     (\<lambda>sig s. finish (lower (s\<lparr>rg_signature := sig\<rparr>))) s)
              (s\<lparr>rg_signLoading := True\<rparr>))"

definition principal_lower :: "register_page \<Rightarrow> register_page" where
  "principal_lower s = s\<lparr>rg_principalSignLoading := False\<rparr>"

definition principal_failed :: "js_error \<Rightarrow> register_segment" where
  "principal_failed e s = finish (principal_lower (s\<lparr>rg_principalSignError := show_error s e\<rparr>))"

text \<open>From the server's answer with the material to sign on.\<close>

definition principal_preflight :: "provider \<Rightarrow> json \<Rightarrow> register_segment" where
  "principal_preflight p preflight s =
     (if preflight = JNull then principal_failed (TypeError ''null has no properties'') s
      else if text_at preflight ''signing_method'' \<noteq> ''eip191_personal_sign'' \<or> text_at preflight ''message_encoding'' \<noteq> ''hex_bytes''
        then finish (principal_lower (s\<lparr>rg_principalSignError := Some ''Unsupported principal signing preflight returned by lesser-host.''\<rparr>))
      else
        try_await (rpc p (personalSign (text_at preflight ''message_hex'') (text_at preflight ''principal_address''))) principal_failed
          (\<lambda>sig s. finish (principal_lower (s\<lparr>rg_principalSignature := sig, rg_principalAddress := text_at preflight ''principal_address'',
             rg_principalDeclaredAt := text_at preflight ''declared_at''\<rparr>)))
          s)"

definition signPrincipal :: register_segment where
  "signPrincipal s =
     (let s = s\<lparr>rg_principalSignError := None, rg_principalSignature := Some (JStr [])\<rparr>;
          stop = (\<lambda>msg. finish (s\<lparr>rg_principalSignError := Some msg\<rparr>));
          addr = js_trim (rg_principalAddress s);
          decl = js_trim (rg_principalDeclaration s) in
      case getEthereumProvider (env_ethereum (fr_env s)) of
        None \<Rightarrow> stop wallet_missing
      | Some p \<Rightarrow>
          if addr = [] then stop ''Principal address is required.''
          else if decl = [] then stop ''Declaration is required.''
          else if registration s = JNull then stop ''Generate a registration challenge first.''
          else
            try_await (rpc p requestAccounts) principal_failed
              (\<lambda>accounts s.
                 if toLowerCase addr \<notin> toLowerCase ` set accounts
                 then finish (principal_lower (s\<lparr>rg_principalSignError := Some ''Connected wallet does not match the principal address above.''\<rparr>))
                 else if registration s = JNull then principal_failed (TypeError ''null has no properties'') s
                 else
                   try_await (http (soulAgentRegistrationPrincipalDeclarationPreflight (rg_token s) (text_at (registration s) ''id'') (obj_lit
                       [(''principal_address'', Some (JStr addr)), (''principal_declaration'', Some (JStr decl)),
                        (''declared_at'', Some (JStr (now_iso s)))])))
                     principal_failed (principal_preflight p) s)
              (s\<lparr>rg_principalSignLoading := True\<rparr>))"

text \<open>\<open>signature.trim()\<close>, which throws when the wallet has answered with something that is not a string.\<close>

definition trimmed_signature :: "json option \<Rightarrow> js_string option" where
  "trimmed_signature v = (case v of Some (JStr t) \<Rightarrow> Some (js_trim t) | _ \<Rightarrow> None)"

definition verifyRegistration :: register_segment where
  "verifyRegistration s =
     (let s = s\<lparr>rg_verifyError := None, rg_verifyResult := JNull, rg_showVerifySafePayload := False, rg_mintDirectError := None,
                rg_mintDirectNotice := None, rg_mintDirectTxHash := []\<rparr>;
          stop = (\<lambda>msg. finish (s\<lparr>rg_verifyError := Some msg\<rparr>));
          lower = (\<lambda>s. s\<lparr>rg_verifyLoading := False\<rparr>);
          failed = rejected lower (\<lambda>e s. s\<lparr>rg_verifyError := show_error s e\<rparr>) (\<lambda>_. finish) finish in
      if text_at (registration s) ''id'' = [] then stop ''Generate a registration challenge first.''
      else if \<not> json_truthy (rg_signature s) then stop ''Sign the registration message first.''
      else if js_trim (rg_principalAddress s) = [] then stop ''Principal address is required.''
      else if js_trim (rg_principalDeclaration s) = [] then stop ''Principal declaration is required.''
      else
        (case trimmed_signature (rg_principalSignature s) of
           None \<Rightarrow> finish s
         | Some sig \<Rightarrow>
             if sig = [] then stop ''Principal signature is required. Sign the declaration first.''
             else
               try_await (http (soulAgentRegistrationVerify (rg_token s) (text_at (registration s) ''id'') (obj_lit
                   [(''signature'', rg_signature s), (''principal_address'', Some (JStr (js_trim (rg_principalAddress s)))),
                    (''principal_declaration'', Some (JStr (js_trim (rg_principalDeclaration s)))),
                    (''principal_signature'', Some (JStr sig)),
                    (''declared_at'', Some (JStr (str_or (rg_principalDeclaredAt s) (now_iso s))))])))
                 failed (\<lambda>res s. finish (lower (s\<lparr>rg_verifyResult := res\<rparr>)))
                 (s\<lparr>rg_verifyLoading := True\<rparr>)))"

section \<open>Events\<close>

text \<open>The buttons of the later steps pass the ids of the registration on the page.\<close>

definition with_registration :: "(js_string \<Rightarrow> register_segment) \<Rightarrow> register_segment" where
  "with_registration f s = f (text_at (registration s) ''id'') s"

inductive_set register_inputs :: "register_segment set" where
  "(\<lambda>s. finish (s\<lparr>rg_domain := t\<rparr>)) \<in> register_inputs"
| "(\<lambda>s. finish (s\<lparr>rg_localId := t\<rparr>)) \<in> register_inputs"
| "(\<lambda>s. finish (s\<lparr>rg_walletAddress := t\<rparr>)) \<in> register_inputs"
| "(\<lambda>s. finish (s\<lparr>rg_capabilities := t\<rparr>)) \<in> register_inputs"
| "(\<lambda>s. finish (s\<lparr>rg_principalAddress := t\<rparr>)) \<in> register_inputs"
| "(\<lambda>s. finish (s\<lparr>rg_principalDeclaration := t\<rparr>)) \<in> register_inputs"
| "(\<lambda>s. finish (s\<lparr>rg_mintUserMessage := t\<rparr>)) \<in> register_inputs"
| "(\<lambda>s. finish (s\<lparr>rg_mintModel := t\<rparr>)) \<in> register_inputs"
| "(\<lambda>s. finish (s\<lparr>rg_showVerifySafePayload := \<not> rg_showVerifySafePayload s\<rparr>)) \<in> register_inputs"
| "(\<lambda>s. finish (applySelectedInstance t s)) \<in> register_inputs"
| "(\<lambda>s. finish (go p s)) \<in> register_inputs"
| "(\<lambda>s. finish (s\<lparr>fr_env := e\<rparr>)) \<in> register_inputs"
| "with_registration (\<lambda>r s. finish (resetMintConversation_reg r s)) \<in> register_inputs"

definition register_handlers :: "register_segment set" where
  "register_handlers =
     {loadRegistrationDefaults, loadSoulConfig, handleBegin, useConnectedWallet, signMessage, signPrincipal, verifyRegistration,
      with_registration sendMintMessage_reg, with_registration completeMintConversation_reg, with_registration finalizeMintConversation_reg,
      with_registration (\<lambda>r s. refreshMintConversation_reg r (rg_mintConversationId s) (\<lambda>_. finish) finish s),
      (\<lambda>s. executeDirectMint (text_at (registration s) ''agent_id'') s)} \<union> register_inputs"

end
