(* ===== verification/Signing.thy ===== *)
theory Signing
  imports Frame
begin

text \<open>
  What a page asks the wallet for.  Signatures and transactions are what a page can do most harm with, so for a page
  with a wallet the invariant speaks of every call the wallet has received: the interface \<open>signing_page\<close> has an invariant \<open>T\<close> of the page's
  state, given the requests and their answers so far, and a condition \<open>G\<close> on the calls, and it combines the two
  for the awaited operations of a page.
\<close>

section \<open>The calls of the wallet client\<close>

definition asks :: "'a wallet \<Rightarrow> (rpc_request \<Rightarrow> bool) \<Rightarrow> bool" where
  "asks m Q \<longleftrightarrow> (\<forall>p log. \<exists>l. snd (m p log) = log @ l \<and> (\<forall>r \<in> set l. Q r))"

lemma asks_request: "Q \<lparr>rpc_method = m, rpc_params = ps\<rparr> \<Longrightarrow> asks (provider_request m ps) Q"
  by (simp add: asks_def provider_request_def Let_def)

lemma asks_then: "asks c Q \<Longrightarrow> asks (wallet_then c f) Q"
  unfolding asks_def wallet_then_def by (simp add: split_beta split: sum.split)

lemma asks_sequel:
  assumes "asks c Q" and "asks d Q"
  shows "\<exists>l. snd (d p (snd (c p log))) = log @ l \<and> (\<forall>r \<in> set l. Q r)"
proof -
  obtain l1 where "snd (c p log) = log @ l1" "\<forall>r \<in> set l1. Q r" using assms(1) unfolding asks_def by blast
  moreover obtain l2 where "snd (d p (log @ l1)) = (log @ l1) @ l2" "\<forall>r \<in> set l2. Q r" using assms(2) unfolding asks_def by blast
  ultimately show ?thesis by (intro exI [of _ "l1 @ l2"]) auto
qed

lemma asks_catch: "asks c Q \<Longrightarrow> asks d Q \<Longrightarrow> asks (wallet_catch c d) Q"
  using asks_sequel [of c Q d] unfolding asks_def [of c] asks_def [of "wallet_catch c d"] wallet_catch_def
  by (simp add: split_beta split: sum.split)

text \<open>The two forms of a request to sign the message \<open>m\<close> with the address \<open>a\<close>: wallets differ in the order.\<close>

definition signs :: "js_string \<Rightarrow> js_string \<Rightarrow> rpc_request \<Rightarrow> bool" where
  "signs m a r \<longleftrightarrow>
     rpc_method r = ''personal_sign'' \<and> (rpc_params r = Some [JStr m, JStr a] \<or> rpc_params r = Some [JStr a, JStr m])"

definition reads_wallet :: "rpc_request \<Rightarrow> bool" where
  "reads_wallet r \<longleftrightarrow>
     rpc_method r \<in> {''eth_accounts'', ''eth_requestAccounts'', ''eth_chainId'', ''wallet_switchEthereumChain'', ''eth_getTransactionReceipt''}"

definition sends_tx :: "tx_input \<Rightarrow> rpc_request \<Rightarrow> bool" where
  "sends_tx input r \<longleftrightarrow>
     rpc_method r = ''eth_sendTransaction'' \<and>
     (\<exists>v. normalizeTransactionValue (tx_value input) = Inr v \<and>
        rpc_params r = Some [JObj [(''from'', JStr (tx_from input)), (''to'', JStr (tx_to input)), (''value'', JStr v),
          (''data'', JStr (opt_or (tx_data input) ''0x''))]])"

lemma personalSign_asks: "asks (personalSign m a) (signs m a)"
  unfolding personalSign_def by (intro asks_catch asks_request) (simp_all add: signs_def)

lemma sendEthereumTransaction_asks: "asks (sendEthereumTransaction input) (sends_tx input)"
proof -
  have "\<exists>l. snd (sendEthereumTransaction input p log) = log @ l \<and> (\<forall>r \<in> set l. sends_tx input r)" for p log
    by (auto simp: sendEthereumTransaction_def wallet_then_def provider_request_def sends_tx_def Let_def split: sum.split)
  then show ?thesis by (simp add: asks_def)
qed

lemma reading_asks:
  "asks (provider_request ''eth_accounts'' None) reads_wallet" "asks requestAccounts reads_wallet" "asks ensureAccounts reads_wallet"
  "asks getChainId reads_wallet" "asks (switchEthereumChain c) reads_wallet" "asks (getEthereumTransactionReceipt h) reads_wallet"
proof -
  have get: "asks getAccounts reads_wallet" and req: "asks requestAccounts reads_wallet"
    unfolding getAccounts_def requestAccounts_def by (intro asks_then asks_request, simp add: reads_wallet_def)+
  show "asks requestAccounts reads_wallet" by (rule req)
  show "asks (provider_request ''eth_accounts'' None) reads_wallet" by (rule asks_request) (simp add: reads_wallet_def)
  show "asks getChainId reads_wallet" "asks (switchEthereumChain c) reads_wallet"
    unfolding getChainId_def switchEthereumChain_def Let_def by (intro asks_then asks_request, simp add: reads_wallet_def)+
  show "asks (getEthereumTransactionReceipt h) reads_wallet"
    unfolding getEthereumTransactionReceipt_def by (intro asks_then asks_request) (simp add: reads_wallet_def)
  have "\<exists>l. snd (ensureAccounts p log) = log @ l \<and> (\<forall>r \<in> set l. reads_wallet r)" for p log
    using asks_sequel [OF get req] get [unfolded asks_def] by (auto simp: ensureAccounts_def split_beta split: sum.split)
  then show "asks ensureAccounts reads_wallet" by (simp add: asks_def)
qed

section \<open>Pages with a wallet\<close>

definition signing_inv ::
  "('s \<Rightarrow> net \<Rightarrow> request list \<Rightarrow> bool) \<Rightarrow> (net \<Rightarrow> request list \<Rightarrow> rpc_request \<Rightarrow> bool) \<Rightarrow> 's \<Rightarrow> world \<Rightarrow> bool" where
  "signing_inv T G s w \<longleftrightarrow> T s (w_net w) (w_http w) \<and> (\<forall>r \<in> set (w_rpc w). G (w_net w) (w_http w) r)"

locale signing_page =
  fixes T :: "'a frame_scheme \<Rightarrow> net \<Rightarrow> request list \<Rightarrow> bool" and G :: "net \<Rightarrow> request list \<Rightarrow> rpc_request \<Rightarrow> bool"
  assumes T_later: "T s net l \<Longrightarrow> T s net (l @ l')" and G_later: "G net l r \<Longrightarrow> G net (l @ l') r"
    and T_app: "T s net l \<Longrightarrow> T (s\<lparr>fr_app := a\<rparr>) net l" and T_route: "T s net l \<Longrightarrow> T (s\<lparr>fr_router := x\<rparr>) net l"
begin

lemma inv_later:
  assumes "signing_inv T G s w" and "w_net w' = w_net w" and "w_http w' = w_http w @ l" and "w_rpc w' = w_rpc w"
  shows "signing_inv T G s w'"
  using assms T_later G_later by (simp add: signing_inv_def)

lemma signing_call:
  assumes "signing_inv T G s w" and "single op"
    and "\<And>e w'. later w w' \<Longrightarrow> safe later (signing_inv T G) w' (catch e)"
    and "\<And>r v w'. later w w' \<Longrightarrow> fetchJson r = op \<Longrightarrow> answered (w_net w') (w_http w') r v \<Longrightarrow> safe later (signing_inv T G) w' (k v)"
  shows "safe_result later (signing_inv T G) w (try_await (http op) catch k s)"
proof -
  obtain r where r: "fetchJson r = op" using assms(2) by (auto simp: single_def)
  let ?w = "w\<lparr>w_http := w_http w @ [r]\<rparr>"
  have op: "http op w = (fst (fetchJson r (w_net w) (w_http w)), ?w)" by (simp add: r [symmetric] http_def split_beta)
  have later: "later w ?w" by (simp add: later_def)
  moreover have "signing_inv T G s ?w" by (rule inv_later [OF assms(1)]) simp_all
  moreover have "safe later (signing_inv T G) ?w (case_sum catch k (fst (fetchJson r (w_net w) (w_http w))))"
    using assms(3,4) [OF later] r answered_now [of r "w_net w" "w_http w"] by (auto split: sum.split)
  ultimately show ?thesis unfolding try_await_def by (intro safe_await) (simp add: op)
qed

lemma signing_answer:
  assumes "signing_inv T G s w" and "single op" and "\<And>e w. safe later (signing_inv T G) w (catch e)"
    and "\<And>r v s w w'. fetchJson r = op \<Longrightarrow> answered (w_net w) (w_http w) r v \<Longrightarrow> later w w' \<Longrightarrow>
      signing_inv T G s w' \<Longrightarrow> safe_result later (signing_inv T G) w' (k v s)"
  shows "safe_result later (signing_inv T G) w (try_await (http op) catch k s)"
  using assms by (intro signing_call) (auto intro: safeR)

lemma signing_sends:
  assumes "signing_inv T G s w" and "sends op (\<lambda>_. True)" and "\<And>w. w_rpc (snd (op w)) = w_rpc w"
    and "\<And>e w'. later w w' \<Longrightarrow> safe later (signing_inv T G) w' (catch e)" and "\<And>v w'. later w w' \<Longrightarrow> safe later (signing_inv T G) w' (k v)"
  shows "safe_result later (signing_inv T G) w (try_await op catch k s)"
proof -
  obtain l where l: "w_http (snd (op w)) = w_http w @ l" "w_net (snd (op w)) = w_net w" using assms(2) by (auto simp: sends_def)
  then have "later w (snd (op w))" by (simp add: later_def)
  moreover have "signing_inv T G s (snd (op w))" by (rule inv_later [OF assms(1) l(2,1) assms(3)])
  ultimately show ?thesis unfolding try_await_def using assms(4,5) by (intro safe_await) (auto split: sum.split)
qed

lemma signing_await:
  assumes "signing_inv T G s w" and "sends op (\<lambda>_. True)" and "\<And>w. w_rpc (snd (op w)) = w_rpc w"
    and "\<And>v w'. later w w' \<Longrightarrow> safe later (signing_inv T G) w' (k v)"
  shows "safe_result later (signing_inv T G) w (await op k s)"
proof -
  obtain l where l: "w_http (snd (op w)) = w_http w @ l" "w_net (snd (op w)) = w_net w" using assms(2) by (auto simp: sends_def)
  then have "later w (snd (op w))" by (simp add: later_def)
  moreover have "signing_inv T G s (snd (op w))" by (rule inv_later [OF assms(1) l(2,1) assms(3)])
  ultimately show ?thesis using assms(4) by (intro safe_await) auto
qed

lemma signing_rpc:
  assumes "signing_inv T G s w" and "asks m Q" and "\<And>r. Q r \<Longrightarrow> G (w_net w) (w_http w) r"
    and "\<And>e w'. later w w' \<Longrightarrow> safe later (signing_inv T G) w' (catch e)" and "\<And>v w'. later w w' \<Longrightarrow> safe later (signing_inv T G) w' (k v)"
  shows "safe_result later (signing_inv T G) w (try_await (rpc p m) catch k s)"
proof -
  obtain l where l: "snd (m p (w_rpc w)) = w_rpc w @ l" "\<forall>r \<in> set l. Q r" using assms(2) unfolding asks_def by blast
  have w: "snd (rpc p m w) = w\<lparr>w_rpc := w_rpc w @ l\<rparr>" by (simp add: rpc_def split_beta l(1))
  have "later w (snd (rpc p m w))" by (simp add: later_def)
  moreover have "signing_inv T G s (snd (rpc p m w))" using assms(1,3) l(2) by (auto simp: w signing_inv_def)
  ultimately show ?thesis unfolding try_await_def using assms(4,5) by (intro safe_await) (auto split: sum.split)
qed

lemma signing_stop: "signing_inv T G s w \<Longrightarrow> safe_result later (signing_inv T G) w (finish s)"
  by (rule safe_finish)

lemma signing_finish: "safe later (signing_inv T G) w finish"
  by (intro safeR safe_finish)

end

sublocale signing_page \<subseteq> safe_frame "signing_inv T G"
  by unfold_locales (auto simp: signing_inv_def T_app T_route T_later G_later)

lemma http_keeps_rpc [simp]: "w_rpc (snd (http op w)) = w_rpc w"
  by (simp add: http_def split_beta)

lemma http_all_keeps_rpc [simp]: "w_rpc (snd (http_all a b w)) = w_rpc w"
  by (simp add: http_all_def split_beta)

lemma stream_keeps_rpc [simp]: "w_rpc (snd (open_stream sse w)) = w_rpc w"
  by (simp add: open_stream_def split_beta Let_def)

lemma timer_keeps_rpc [simp]: "w_rpc (snd (timer w)) = w_rpc w"
  by (simp add: timer_def)

lemma stream_sends: "sends (open_stream sse) (\<lambda>_. True)"
  by (simp add: sends_def open_stream_def split_beta Let_def)

lemma timer_sends: "sends timer Q"
  by (rule sends_local) simp

lemma pure_sends: "sends (\<lambda>w. (x, w)) Q"
  by (rule sends_local) simp

end
