(* ===== verification/Register_Correct.thy ===== *)
theory Register_Correct
  imports Register_Page Signing
begin

text \<open>
  What the registration page asks the wallet to sign and to send, under every interleaving: only what the server has issued to this
  page, or the digest of a boundary that a conversation of this page has declared.
\<close>

section \<open>Where a message may come from\<close>

text \<open>A boundary statement that an answer of the server declares.\<close>

definition declared :: "js_string \<Rightarrow> net \<Rightarrow> request list \<Rightarrow> js_string \<Rightarrow> bool" where
  "declared token net log st \<longleftrightarrow>
     (\<exists>r v reg cid. (fetchJson r = soulGetMintConversation token reg cid \<or> fetchJson r = soulCompleteMintConversation token reg cid None) \<and>
        answered net log r v \<and>
        st \<in> pb_statement ` set (extractProducedBoundaries (parseProducedDeclarations (text_at v ''produced_declarations''))))"

text \<open>A transaction that an answer of the server holds.\<close>

definition issued_tx :: "js_string \<Rightarrow> net \<Rightarrow> request list \<Rightarrow> json \<Rightarrow> bool" where
  "issued_tx token net log tx \<longleftrightarrow>
     (\<exists>r v. ((\<exists>reg i. fetchJson r = soulAgentRegistrationVerify token reg i) \<or>
             (\<exists>agent h. fetchJson r = soulRecordAgentMintExecution token agent h)) \<and>
        answered net log r v \<and> obj_get v ''safe_tx'' = Some tx)"

definition signable :: "js_string \<Rightarrow> (nat list \<Rightarrow> nat list) \<Rightarrow> net \<Rightarrow> request list \<Rightarrow> js_string \<Rightarrow> bool" where
  "signable token kc net log m \<longleftrightarrow>
     (\<exists>r i v. fetchJson r = soulAgentRegistrationBegin token i \<and> answered net log r v \<and> m = text_at (member v ''wallet'') ''message'') \<or>
     (\<exists>r reg i v. fetchJson r = soulAgentRegistrationPrincipalDeclarationPreflight token reg i \<and> answered net log r v \<and>
        text_at v ''signing_method'' = ''eip191_personal_sign'' \<and> text_at v ''message_encoding'' = ''hex_bytes'' \<and>
        m = text_at v ''message_hex'') \<or>
     (\<exists>st. declared token net log st \<and> m = keccak256Utf8Hex kc st) \<or>
     (\<exists>r reg cid i v. fetchJson r = soulMintConversationFinalizeBegin token reg cid i \<and> answered net log r v \<and>
        m = text_at v ''digest_hex'' \<and> m \<noteq> [])"

text \<open>What the wallet may be asked for.\<close>

definition wallet_call_ok :: "js_string \<Rightarrow> (nat list \<Rightarrow> nat list) \<Rightarrow> net \<Rightarrow> request list \<Rightarrow> rpc_request \<Rightarrow> bool" where
  "wallet_call_ok token kc net log r \<longleftrightarrow>
     reads_wallet r \<or> (\<exists>m a. signs m a r \<and> signable token kc net log m) \<or>
     (\<exists>tx wallet. issued_tx token net log tx \<and> js_trim (text_at tx ''safe_address'') = [] \<and>
        sends_tx \<lparr>tx_from = wallet, tx_to = text_at tx ''to'', tx_value = string_member tx ''value'', tx_data = string_member tx ''data''\<rparr> r)"

definition register_ok :: "js_string \<Rightarrow> (nat list \<Rightarrow> nat list) \<Rightarrow> register_page \<Rightarrow> net \<Rightarrow> request list \<Rightarrow> bool" where
  "register_ok token kc s net log \<longleftrightarrow>
     rg_token s = token \<and> rg_keccak s = kc \<and>
     (rg_beginResult s = JNull \<or> (\<exists>r i. fetchJson r = soulAgentRegistrationBegin token i \<and> answered net log r (rg_beginResult s))) \<and>
     (\<forall>b \<in> set (extractProducedBoundaries (rg_mintProducedDeclarations s)). declared token net log (pb_statement b)) \<and>
     (\<forall>tx. obj_get (rg_verifyResult s) ''safe_tx'' = Some tx \<longrightarrow> tx = JNull \<or> issued_tx token net log tx)"

lemma declared_later: "declared token net l st \<Longrightarrow> declared token net (l @ l') st"
  unfolding declared_def by (blast intro: answered_later)

lemma issued_later: "issued_tx token net l tx \<Longrightarrow> issued_tx token net (l @ l') tx"
  unfolding issued_tx_def by (blast intro: answered_later)

lemma signable_later: "signable token kc net l m \<Longrightarrow> signable token kc net (l @ l') m"
  unfolding signable_def by (elim disjE exE conjE) (blast intro: answered_later declared_later)+

interpretation register: signing_page "register_ok token kc" "wallet_call_ok token kc" for token kc
proof unfold_locales
  show "register_ok token kc s net l \<Longrightarrow> register_ok token kc s net (l @ l')" for s net l l'
    unfolding register_ok_def using answered_later declared_later issued_later by blast
  show "wallet_call_ok token kc net l r \<Longrightarrow> wallet_call_ok token kc net (l @ l') r" for net l l' r
    unfolding wallet_call_ok_def using signable_later issued_later by blast
qed (simp_all add: register_ok_def)

abbreviation register_inv :: "js_string \<Rightarrow> (nat list \<Rightarrow> nat list) \<Rightarrow> register_page \<Rightarrow> world \<Rightarrow> bool" where
  "register_inv token kc \<equiv> signing_inv (register_ok token kc) (wallet_call_ok token kc)"

section \<open>The handlers\<close>

text \<open>Only the answers that the page keeps matter to the invariant.\<close>

lemma register_fields [simp]:
  "register_inv token kc (rg_mintModel_update x0 s) w \<longleftrightarrow> register_inv token kc s w"
  "register_inv token kc (rg_mintConversationId_update x1 s) w \<longleftrightarrow> register_inv token kc s w"
  "register_inv token kc (rg_mintConversation_update x2 s) w \<longleftrightarrow> register_inv token kc s w"
  "register_inv token kc (rg_mintMessages_update x3 s) w \<longleftrightarrow> register_inv token kc s w"
  "register_inv token kc (rg_mintUserMessage_update x4 s) w \<longleftrightarrow> register_inv token kc s w"
  "register_inv token kc (rg_mintAssistantPartial_update x5 s) w \<longleftrightarrow> register_inv token kc s w"
  "register_inv token kc (rg_mintStreaming_update x6 s) w \<longleftrightarrow> register_inv token kc s w"
  "register_inv token kc (rg_mintError_update x7 s) w \<longleftrightarrow> register_inv token kc s w"
  "register_inv token kc (rg_mintCompleteLoading_update x8 s) w \<longleftrightarrow> register_inv token kc s w"
  "register_inv token kc (rg_mintCompleteError_update x9 s) w \<longleftrightarrow> register_inv token kc s w"
  "register_inv token kc (rg_mintFinalizeLoading_update x10 s) w \<longleftrightarrow> register_inv token kc s w"
  "register_inv token kc (rg_mintFinalizeError_update x11 s) w \<longleftrightarrow> register_inv token kc s w"
  "register_inv token kc (rg_mintFinalizeBegin_update x12 s) w \<longleftrightarrow> register_inv token kc s w"
  "register_inv token kc (rg_mintFinalizeResult_update x13 s) w \<longleftrightarrow> register_inv token kc s w"
  "register_inv token kc (rg_params_update x14 s) w \<longleftrightarrow> register_inv token kc s w"
  "register_inv token kc (rg_domain_update x15 s) w \<longleftrightarrow> register_inv token kc s w"
  "register_inv token kc (rg_localId_update x16 s) w \<longleftrightarrow> register_inv token kc s w"
  "register_inv token kc (rg_walletAddress_update x17 s) w \<longleftrightarrow> register_inv token kc s w"
  "register_inv token kc (rg_capabilities_update x18 s) w \<longleftrightarrow> register_inv token kc s w"
  "register_inv token kc (rg_portalUsername_update x19 s) w \<longleftrightarrow> register_inv token kc s w"
  "register_inv token kc (rg_instances_update x20 s) w \<longleftrightarrow> register_inv token kc s w"
  "register_inv token kc (rg_instancesLoading_update x21 s) w \<longleftrightarrow> register_inv token kc s w"
  "register_inv token kc (rg_instancesError_update x22 s) w \<longleftrightarrow> register_inv token kc s w"
  "register_inv token kc (rg_selectedInstanceSlug_update x23 s) w \<longleftrightarrow> register_inv token kc s w"
  "register_inv token kc (rg_beginLoading_update x24 s) w \<longleftrightarrow> register_inv token kc s w"
  "register_inv token kc (rg_beginError_update x25 s) w \<longleftrightarrow> register_inv token kc s w"
  "register_inv token kc (rg_signature_update x26 s) w \<longleftrightarrow> register_inv token kc s w"
  "register_inv token kc (rg_signLoading_update x27 s) w \<longleftrightarrow> register_inv token kc s w"
  "register_inv token kc (rg_signError_update x28 s) w \<longleftrightarrow> register_inv token kc s w"
  "register_inv token kc (rg_principalAddress_update x29 s) w \<longleftrightarrow> register_inv token kc s w"
  "register_inv token kc (rg_principalDeclaration_update x30 s) w \<longleftrightarrow> register_inv token kc s w"
  "register_inv token kc (rg_principalSignature_update x31 s) w \<longleftrightarrow> register_inv token kc s w"
  "register_inv token kc (rg_principalDeclaredAt_update x32 s) w \<longleftrightarrow> register_inv token kc s w"
  "register_inv token kc (rg_principalSignLoading_update x33 s) w \<longleftrightarrow> register_inv token kc s w"
  "register_inv token kc (rg_principalSignError_update x34 s) w \<longleftrightarrow> register_inv token kc s w"
  "register_inv token kc (rg_verifyLoading_update x35 s) w \<longleftrightarrow> register_inv token kc s w"
  "register_inv token kc (rg_verifyError_update x36 s) w \<longleftrightarrow> register_inv token kc s w"
  "register_inv token kc (rg_showVerifySafePayload_update x37 s) w \<longleftrightarrow> register_inv token kc s w"
  "register_inv token kc (rg_soulConfig_update x38 s) w \<longleftrightarrow> register_inv token kc s w"
  "register_inv token kc (rg_mintDirectLoading_update x39 s) w \<longleftrightarrow> register_inv token kc s w"
  "register_inv token kc (rg_mintDirectError_update x40 s) w \<longleftrightarrow> register_inv token kc s w"
  "register_inv token kc (rg_mintDirectNotice_update x41 s) w \<longleftrightarrow> register_inv token kc s w"
  "register_inv token kc (rg_mintDirectTxHash_update x42 s) w \<longleftrightarrow> register_inv token kc s w"
  "register_inv token kc (fr_app_update y s) w \<longleftrightarrow> register_inv token kc s w"
  "register_inv token kc (fr_env_update z s) w \<longleftrightarrow> register_inv token kc s w"
  by (simp_all add: signing_inv_def register_ok_def)

lemma register_resets [simp]:
  "register_inv token kc s w \<Longrightarrow> register_inv token kc (s\<lparr>rg_beginResult := JNull\<rparr>) w"
  "register_inv token kc s w \<Longrightarrow> register_inv token kc (s\<lparr>rg_verifyResult := JNull\<rparr>) w"
  "register_inv token kc s w \<Longrightarrow> register_inv token kc (s\<lparr>rg_mintProducedDeclarations := JNull\<rparr>) w"
  by (simp_all add: signing_inv_def register_ok_def obj_get_def extractProducedBoundaries_def is_object_def)

lemma register_moves [simp]:
  "register_inv token kc (go p s) w \<longleftrightarrow> register_inv token kc s w"
  "register_inv token kc (store f s) w \<longleftrightarrow> register_inv token kc s w"
  "register_inv token kc (applySelectedInstance t s) w \<longleftrightarrow> register_inv token kc s w"
  "register_inv token kc (infer_wallet s) w \<longleftrightarrow> register_inv token kc s w"
  "register_inv token kc (finalize_lower s) w \<longleftrightarrow> register_inv token kc s w"
  "register_inv token kc (direct_lower s) w \<longleftrightarrow> register_inv token kc s w"
  "register_inv token kc (principal_lower s) w \<longleftrightarrow> register_inv token kc s w"
  by (simp_all add: go_def store_def applySelectedInstance_def infer_wallet_def finalize_lower_def direct_lower_def principal_lower_def
      Let_def split: sum.split) (simp add: signing_inv_def register_ok_def)

lemma clear_conversation_inv: "register_inv token kc s w \<Longrightarrow> register_inv token kc (clear_conversation s) w"
  by (simp add: clear_conversation_def)

lemma presets_inv [simp]: "register_inv token kc (apply_presets s) w \<longleftrightarrow> register_inv token kc s w"
  by (simp add: apply_presets_def Let_def split: option.split)

lemma conversation_arrives:
  assumes "answered (w_net w) (w_http w) r c" and "fetchJson r = soulGetMintConversation token reg cid \<or> fetchJson r = soulCompleteMintConversation token reg cid None"
    and "register_inv token kc s w'" and "later w w'"
  shows "register_inv token kc (s\<lparr>rg_mintProducedDeclarations := parseProducedDeclarations (text_at c ''produced_declarations'')\<rparr>) w'"
proof -
  have a: "answered (w_net w') (w_http w') r c" using assms(1,4) by (auto simp: later_def answered_later)
  have "declared token (w_net w') (w_http w') (pb_statement b)"
    if "b \<in> set (extractProducedBoundaries (parseProducedDeclarations (text_at c ''produced_declarations'')))" for b
    unfolding declared_def using a assms(2) that by blast
  then show ?thesis using assms(3) by (simp add: signing_inv_def register_ok_def)
qed

lemma read_ok: "reads_wallet r \<Longrightarrow> wallet_call_ok token kc net log r"
  by (simp add: wallet_call_ok_def)

lemmas read_guards = register.signing_rpc [OF _ reading_asks(1) read_ok]
  register.signing_rpc [OF _ reading_asks(2) read_ok]
  register.signing_rpc [OF _ reading_asks(3) read_ok]
  register.signing_rpc [OF _ reading_asks(4) read_ok]
  register.signing_rpc [OF _ reading_asks(5) read_ok]
  register.signing_rpc [OF _ reading_asks(6) read_ok]

lemma register_rejected:
  assumes "\<And>e s w. register_inv token kc s w \<Longrightarrow> register_inv token kc (lower (fail e s)) w"
    and "\<And>s w. register_inv token kc s w \<Longrightarrow> register_inv token kc (lower s) w"
  shows "safe later (register_inv token kc) w (rejected lower fail (\<lambda>_. finish) finish e)"
  using assms by (intro register.rejected_guarded register.signing_finish)

lemma register_instant:
  "(\<And>s w. register_inv token kc s w \<Longrightarrow> register_inv token kc (g s) w) \<Longrightarrow> safe later (register_inv token kc) w (\<lambda>s. finish (g s))"
  by (intro safeR safe_finish)

lemmas register_guards = safeR read_guards safe_finish register_rejected safe_laterD [OF register_rejected] register_instant

lemma populate_guarded:
  assumes "\<And>w. safe later (register_inv token kc) w k"
  shows "safe later (register_inv token kc) w (populateWalletAddress k)"
proof (rule safeR)
  fix s w' assume "later w w'" and s: "register_inv token kc s w'"
  have "safe later (register_inv token kc) w (\<lambda>s. k (infer_wallet s))" for w
    by (rule safeR) (simp add: safe_laterD [OF assms])
  then show "safe_result later (register_inv token kc) w' (populateWalletAddress k s)"
    unfolding populateWalletAddress_def using s
    by (auto intro!: read_guards safeR safe_laterD [OF assms] split: option.split json.split list.split)
qed

lemma defaults_guarded: "safe later (register_inv token kc) w loadRegistrationDefaults"
proof -
  let ?rest = "\<lambda>s. finish ((if js_trim (rg_capabilities s) = [] then s\<lparr>rg_capabilities := ''social''\<rparr> else s)\<lparr>rg_instancesLoading := False\<rparr>)"
  have "safe later (register_inv token kc) w ?rest" for w by (rule register_instant) simp
  note pop = safe_laterD [OF populate_guarded [OF this]]
  show ?thesis
    unfolding loadRegistrationDefaults_def Let_def getPortalMe_def portalListInstances_def
    by (auto intro!: safeR register.signing_sends sends_all sends_api register_rejected safe_laterD [OF register_rejected] pop safe_finish
        split: prod.split option.split json.split)
qed

lemma soul_config_guarded: "safe later (register_inv token kc) w loadSoulConfig"
  unfolding loadSoulConfig_def soulPublicGetConfig_def
  by (auto intro!: safeR register.signing_sends sends_api safe_finish)

lemma wallet_guarded: "safe later (register_inv token kc) w useConnectedWallet"
  unfolding useConnectedWallet_def Let_def
  by (auto intro!: safeR read_guards safe_finish split: option.split list.split)

lemma challenge_signable:
  assumes "register_inv token kc s w" and "member (rg_beginResult s) ''wallet'' \<noteq> JNull"
    and "signs (text_at (member (rg_beginResult s) ''wallet'') ''message'') a r"
  shows "wallet_call_ok token kc (w_net w) (w_http w) r"
proof -
  have "rg_beginResult s \<noteq> JNull" using assms(2) by (auto simp: member_def obj_get_def nullish_def)
  then have "signable token kc (w_net w) (w_http w) (text_at (member (rg_beginResult s) ''wallet'') ''message'')"
    using assms(1) unfolding signing_inv_def register_ok_def signable_def by blast
  then show ?thesis using assms(3) by (auto simp: wallet_call_ok_def)
qed

lemma sign_guarded: "safe later (register_inv token kc) w signMessage"
proof (rule safeR)
  fix s w' assume "later w w'" and s: "register_inv token kc s w'"
  have sign: "safe_result later (register_inv token kc) w
      (try_await (rpc p (personalSign (text_at (member (rg_beginResult s) ''wallet'') ''message'') a)) catch k s)"
    if "register_inv token kc s w" "member (rg_beginResult s) ''wallet'' \<noteq> JNull"
      "\<And>e w. safe later (register_inv token kc) w (catch e)" "\<And>v w. safe later (register_inv token kc) w (k v)" for s w p a catch k
    using that(3,4) by (intro register.signing_rpc [OF that(1) personalSign_asks] challenge_signable [OF that(1,2)])
  show "safe_result later (register_inv token kc) w' (signMessage s)"
    unfolding signMessage_def Let_def using s
    by (auto intro!: safeR read_guards safe_finish sign split: option.split)
qed

lemma principal_failed_guarded: "safe later (register_inv token kc) w (principal_failed e)"
  unfolding principal_failed_def by (rule register_instant) simp

lemma preflight_guarded:
  assumes "fetchJson r = soulAgentRegistrationPrincipalDeclarationPreflight token reg i" and "answered (w_net w) (w_http w) r v"
  shows "safe later (register_inv token kc) w (principal_preflight p v)"
proof (rule safeR)
  fix s w' assume w': "later w w'" and s: "register_inv token kc s w'"
  have a: "answered (w_net w') (w_http w') r v" using assms(2) w' by (auto simp: later_def answered_later)
  have "wallet_call_ok token kc (w_net w') (w_http w') q"
    if "signs (text_at v ''message_hex'') x q" "text_at v ''signing_method'' = ''eip191_personal_sign''" "text_at v ''message_encoding'' = ''hex_bytes''" for q x
    using that a assms(1) unfolding wallet_call_ok_def signable_def by blast
  then show "safe_result later (register_inv token kc) w' (principal_preflight p v s)"
    unfolding principal_preflight_def using s
    by (auto intro!: register.signing_rpc [OF _ personalSign_asks] safe_laterD [OF principal_failed_guarded] principal_failed_guarded
        register_instant safe_finish)
qed

lemma register_token: "register_inv token kc s w \<Longrightarrow> rg_token s = token"
  by (simp add: signing_inv_def register_ok_def)

lemma single_register [simp]:
  "single (soulAgentRegistrationPrincipalDeclarationPreflight t reg i)" "single (soulAgentRegistrationVerify t reg i)"
  "single (soulAgentRegistrationBegin t i)" "single (soulGetMintConversation t reg c)" "single (soulCompleteMintConversation t reg c z)"
  "single (soulMintConversationFinalizeBegin t reg c i)" "single (soulMintConversationFinalize t reg c i)"
  "single (soulRecordAgentMintExecution t g h)"
  by (simp_all add: soulAgentRegistrationPrincipalDeclarationPreflight_def soulAgentRegistrationVerify_def soulAgentRegistrationBegin_def
      soulGetMintConversation_def soulCompleteMintConversation_def soulMintConversationFinalizeBegin_def soulMintConversationFinalize_def
      soulRecordAgentMintExecution_def Let_def)

lemma principal_guarded: "safe later (register_inv token kc) w signPrincipal"
proof (rule safeR)
  fix s w' assume "later w w'" and s: "register_inv token kc s w'"
  have call: "safe_result later (register_inv token kc) w (try_await
      (http (soulAgentRegistrationPrincipalDeclarationPreflight (rg_token s) reg i)) principal_failed (principal_preflight p) s)"
    if "register_inv token kc s w" for s w reg i p
    using that by (intro register.signing_call) (auto simp: register_token intro: principal_failed_guarded preflight_guarded)
  show "safe_result later (register_inv token kc) w' (signPrincipal s)"
    unfolding signPrincipal_def Let_def using s
    by (auto intro!: safeR read_guards safe_finish call principal_failed_guarded safe_laterD [OF principal_failed_guarded] split: option.split)
qed

lemma verified_arrives:
  assumes "fetchJson r = soulAgentRegistrationVerify token reg i" and "answered (w_net w) (w_http w) r v"
    and "register_inv token kc s w'" and "later w w'"
  shows "register_inv token kc (s\<lparr>rg_verifyResult := v\<rparr>) w'"
proof -
  have "answered (w_net w') (w_http w') r v" using assms(2,4) by (auto simp: later_def answered_later)
  then show ?thesis using assms(1,3) unfolding signing_inv_def register_ok_def issued_tx_def by fastforce
qed

lemma verify_guarded: "safe later (register_inv token kc) w verifyRegistration"
proof (rule safeR)
  fix s w' assume "later w w'" and s: "register_inv token kc s w'"
  have call: "safe_result later (register_inv token kc) w (try_await (http (soulAgentRegistrationVerify token reg i)) catch
      (\<lambda>res s. finish (s\<lparr>rg_verifyResult := res, rg_verifyLoading := False\<rparr>)) s)"
    if "register_inv token kc s w" "\<And>e w. safe later (register_inv token kc) w (catch e)" for s w reg i catch
    using that(1) by (intro register.signing_call that(2) safeR safe_finish)
      (auto intro: verified_arrives)
  show "safe_result later (register_inv token kc) w' (verifyRegistration s)"
    unfolding verifyRegistration_def Let_def using s
    by (auto simp: register_token intro!: call safe_finish register_rejected split: option.split)
qed

section \<open>The conversation\<close>

lemma refresh_guarded:
  assumes t: "\<And>e w. safe later (register_inv token kc) w (throw e)" and k: "\<And>w. safe later (register_inv token kc) w k"
  shows "safe later (register_inv token kc) w (refreshMintConversation_reg reg cid throw k)"
proof (rule safeR)
  fix s w' assume "later w w'" and s: "register_inv token kc s w'"
  let ?failed = "rejected (\<lambda>s. s) (\<lambda>e s. s\<lparr>rg_mintError := show_error s e\<rparr>) throw k"
  have fail: "safe later (register_inv token kc) w (?failed e)" for e w
    by (intro register.rejected_guarded t k) simp_all
  let ?next = "\<lambda>c s. let s = s\<lparr>rg_mintConversation := c\<rparr> in
     if c = JNull then ?failed (TypeError ''null has no properties'') s
     else k (s\<lparr>rg_mintMessages := parseMintMessages (text_at c ''messages''),
       rg_mintProducedDeclarations := parseProducedDeclarations (text_at c ''produced_declarations'')\<rparr>)"
  have "safe later (register_inv token kc) w (?next c)"
    if "answered (w_net w) (w_http w) r c" "fetchJson r = soulGetMintConversation token reg cid" for r c w
    using that by (auto simp: Let_def intro!: safeR safe_laterD [OF fail] safe_laterD [OF k] conversation_arrives)
  then have "safe_result later (register_inv token kc) w'
      (try_await (http (soulGetMintConversation (rg_token s) reg cid)) ?failed ?next (s\<lparr>rg_mintError := None\<rparr>))"
    using s by (intro register.signing_call fail) (auto simp: register_token)
  then show "safe_result later (register_inv token kc) w' (refreshMintConversation_reg reg cid throw k s)"
    by (simp add: refreshMintConversation_reg_def Let_def)
qed

lemma stored_guarded:
  assumes "\<And>w. safe later (register_inv token kc) w k"
  shows "safe later (register_inv token kc) w (loadMintConversationFromStorage reg k)"
  unfolding loadMintConversationFromStorage_def Let_def
  by (auto intro!: safeR safe_laterD [OF assms] safe_laterD [OF refresh_guarded] assms clear_conversation_inv split: sum.split)

lemma begin_arrives:
  assumes "fetchJson r = soulAgentRegistrationBegin token i" and "answered (w_net w) (w_http w) r v"
    and "register_inv token kc s w'" and "later w w'"
  shows "register_inv token kc (s\<lparr>rg_beginResult := v\<rparr>) w'"
proof -
  have "answered (w_net w') (w_http w') r v" using assms(2,4) by (auto simp: later_def answered_later)
  then show ?thesis using assms(1,3) unfolding signing_inv_def register_ok_def by fastforce
qed

lemma begin_guarded: "safe later (register_inv token kc) w handleBegin"
proof (rule safeR)
  fix s w' assume "later w w'" and s: "register_inv token kc s w'"
  let ?done = "\<lambda>s. finish (s\<lparr>rg_beginLoading := False\<rparr>)"
  have lower: "safe later (register_inv token kc) w ?done" for w by (rule register_instant) simp
  show "safe_result later (register_inv token kc) w' (handleBegin s)"
    unfolding handleBegin_def Let_def using s
    by (auto simp: register_token clear_conversation_def intro!: register.signing_answer safe_finish register_rejected safe_laterD [OF register_rejected]
        safe_laterD [OF stored_guarded [OF lower]] begin_arrives split: option.split)
qed

lemma complete_guarded: "safe later (register_inv token kc) w (completeMintConversation_reg reg)"
proof (rule safeR)
  fix s w' assume "later w w'" and s: "register_inv token kc s w'"
  show "safe_result later (register_inv token kc) w' (completeMintConversation_reg reg s)"
    unfolding completeMintConversation_reg_def Let_def using s
    by (auto simp: register_token intro!: register.signing_answer safe_finish register_rejected safe_laterD [OF register_rejected]
        conversation_arrives [OF _ disjI2])
qed

lemma event_guarded:
  assumes c: "\<And>e w. safe later (register_inv token kc) w (catch e)" and k: "\<And>w. safe later (register_inv token kc) w k"
  shows "safe later (register_inv token kc) w (handle_event_reg reg ev catch k)"
  unfolding handle_event_reg_def Let_def
  by (auto intro!: safeR safe_laterD [OF c] safe_laterD [OF k] safe_laterD [OF refresh_guarded [OF c k]] split: sum.split)

lemma blocks_guarded:
  assumes c: "\<And>e w. safe later (register_inv token kc) w (catch e)" and k: "\<And>w. safe later (register_inv token kc) w k"
  shows "safe later (register_inv token kc) w (handle_blocks_reg reg bs catch k)"
  by (induction bs arbitrary: w) (auto intro: k event_guarded [OF c] split: option.split)

lemma loop_guarded:
  assumes c: "\<And>e w. safe later (register_inv token kc) w (catch e)" and k: "\<And>w. safe later (register_inv token kc) w k"
  shows "safe later (register_inv token kc) w (read_loop_reg reg chunks ending catch k buffer)"
proof (induction chunks arbitrary: w buffer)
  case Nil
  show ?case by (auto intro!: safeR register.signing_await pure_sends safe_laterD [OF c] safe_laterD [OF k] split: option.split)
next
  case (Cons chunk chunks)
  show ?case by (auto intro!: safeR register.signing_await pure_sends safe_laterD [OF blocks_guarded [OF c Cons.IH]] split: prod.split)
qed

lemma send_guarded: "safe later (register_inv token kc) w (sendMintMessage_reg reg)"
  unfolding sendMintMessage_reg_def Let_def
  by (auto intro!: safeR register.signing_await stream_sends safe_finish safe_laterD [OF loop_guarded] split: prod.split)

lemma finalize_failed_guarded: "safe later (register_inv token kc) w (finalize_failed_reg e)"
  unfolding finalize_failed_reg_def by (rule register_rejected) simp_all

lemma boundaries_guarded:
  assumes c: "\<And>e w. safe later (register_inv token kc) w (catch e)" and k: "\<And>sigs w. safe later (register_inv token kc) w (k sigs)"
  shows "\<forall>b \<in> set bs. declared token (w_net w) (w_http w) (pb_statement b) \<Longrightarrow>
    safe later (register_inv token kc) w (sign_boundaries_reg p wallet bs catch k sigs)"
proof (induction bs arbitrary: w sigs)
  case Nil
  show ?case using k by simp
next
  case (Cons b bs)
  have kept: "\<forall>b \<in> set (b # bs). declared token (w_net w') (w_http w') (pb_statement b)" if "later w w'" for w'
    using Cons.prems that by (auto simp: later_def declared_later)
  show ?case
  proof (simp, rule safeR)
    fix s w' assume w': "later w w'" and s: "register_inv token kc s w'"
    have kc: "rg_keccak s = kc" using s by (simp add: signing_inv_def register_ok_def)
    have ok: "wallet_call_ok token kc (w_net w') (w_http w') r" if "signs (keccak256Utf8Hex kc (pb_statement b)) wallet r" for r
      using that kept [OF w'] unfolding wallet_call_ok_def signable_def by auto
    show "safe_result later (register_inv token kc) w' (try_await (rpc p (personalSign (keccak256Utf8Hex (rg_keccak s) (pb_statement b)) wallet))
        catch (\<lambda>sig. sign_boundaries_reg p wallet bs catch k (prop_set sigs (pb_id b) sig)) s)"
      unfolding kc using kept [OF later_trans [OF w']]
      by (intro register.signing_rpc [OF s personalSign_asks ok] c Cons.IH) auto
  qed
qed

lemma attest_guarded:
  assumes "fetchJson r = soulMintConversationFinalizeBegin token reg' cid i" and "answered (w_net w) (w_http w) r b"
  shows "safe later (register_inv token kc) w (finalize_attest_reg reg p wallet sigs b)"
proof (rule safeR)
  fix s w' assume w': "later w w'" and s: "register_inv token kc s w'"
  have a: "answered (w_net w') (w_http w') r b" using assms(2) w' by (auto simp: later_def answered_later)
  have ok: "wallet_call_ok token kc (w_net w') (w_http w') q" if "signs (text_at b ''digest_hex'') x q" "text_at b ''digest_hex'' \<noteq> []" for q x
    using that a assms(1) unfolding wallet_call_ok_def signable_def by blast
  have call: "safe_result later (register_inv token kc) w (try_await (http (soulMintConversationFinalize t reg cid i)) catch k s)"
    if "register_inv token kc s w" "\<And>e w. safe later (register_inv token kc) w (catch e)" "\<And>v w. safe later (register_inv token kc) w (k v)"
    for s w t cid i catch k
    using that by (intro register.signing_call) auto
  show "safe_result later (register_inv token kc) w' (finalize_attest_reg reg p wallet sigs b s)"
    unfolding finalize_attest_reg_def Let_def using s ok
    by (auto intro!: register.signing_rpc [OF _ personalSign_asks] safe_laterD [OF finalize_failed_guarded] finalize_failed_guarded
        register_instant safe_finish call safeR)
qed

lemma finalize_guarded: "safe later (register_inv token kc) w (finalizeMintConversation_reg reg)"
proof (rule safeR)
  fix s w' assume "later w w'" and s: "register_inv token kc s w'"
  let ?publish = "\<lambda>p wallet sigs s. try_await (http (soulMintConversationFinalizeBegin (rg_token s) reg (rg_mintConversationId s)
      (obj_lit [(''boundary_signatures'', Some (obj_lit sigs))]))) finalize_failed_reg (finalize_attest_reg reg p wallet sigs) s"
  have publish: "safe later (register_inv token kc) w (?publish p wallet sigs)" for p wallet sigs w
    by (auto intro!: safeR register.signing_answer finalize_failed_guarded simp: register_token)
      (blast intro: safe_laterD attest_guarded register.guarded_later)
  have "\<forall>b \<in> set (extractProducedBoundaries (rg_mintProducedDeclarations s)). declared token (w_net w') (w_http w') (pb_statement b)"
    using s by (simp add: signing_inv_def register_ok_def)
  then have sign: "safe later (register_inv token kc) w1 (sign_boundaries_reg p wallet
      (extractProducedBoundaries (rg_mintProducedDeclarations s)) finalize_failed_reg (?publish p wallet) [])" if "later w' w1" for p wallet w1
    using that by (intro boundaries_guarded finalize_failed_guarded publish) (auto simp: later_def declared_later)
  show "safe_result later (register_inv token kc) w' (finalizeMintConversation_reg reg s)"
    unfolding finalizeMintConversation_reg_def Let_def using s
    by (auto intro!: safe_finish read_guards finalize_failed_guarded safeR safe_laterD [OF sign] simp: later_trans split: option.split)
qed

section \<open>Minting from the wallet\<close>

lemma direct_failed_guarded: "safe later (register_inv token kc) w (direct_failed h e)"
  unfolding direct_failed_def by (rule register_rejected) simp_all

lemma receipt_guarded:
  assumes c: "\<And>e w. safe later (register_inv token kc) w (throw e)" and k: "\<And>w. safe later (register_inv token kc) w k"
  shows "safe later (register_inv token kc) w (wait_receipt n p h deadline throw k)"
proof (induction n arbitrary: w)
  case 0
  show ?case using c by simp
next
  case (Suc n)
  show ?case
    by (auto intro!: safeR read_guards register.signing_sends timer_sends c Suc.IH safe_laterD [OF c] safe_laterD [OF k] split: option.split)
qed

lemma obj_get_put_member: "obj_get (JObj (put_member kvs k v)) k' = (if k' = k then v else obj_get (JObj kvs) k')"
proof -
  have "map_of (filter (\<lambda>(k', _). k' \<noteq> k) kvs) k' = (if k' = k then None else map_of kvs k')" for k' by (induction kvs) auto
  then show ?thesis by (simp add: put_member_def obj_get_def obj_get_obj_set split: option.split)
qed

lemma with_execution_null [simp]: "with_execution JNull v = JNull"
  by (simp add: with_execution_def)

lemma execution_arrives:
  assumes "fetchJson r = soulRecordAgentMintExecution token agent h" and "answered (w_net w) (w_http w) r v"
    and "register_inv token kc s w'" and "later w w'"
  shows "register_inv token kc (s\<lparr>rg_verifyResult := with_execution (rg_verifyResult s) v\<rparr>) w'"
proof -
  have "answered (w_net w') (w_http w') r v" using assms(2,4) by (auto simp: later_def answered_later)
  then have new: "issued_tx token (w_net w') (w_http w') tx" if "obj_get v ''safe_tx'' = Some tx" for tx
    using that assms(1) unfolding issued_tx_def by blast
  have "tx = JNull \<or> issued_tx token (w_net w') (w_http w') tx"
    if "obj_get (with_execution (rg_verifyResult s) v) ''safe_tx'' = Some tx" for tx
    using that new assms(3)
    by (auto simp: with_execution_def signing_inv_def register_ok_def Let_def obj_get_put_member split: json.splits option.splits)
  then show ?thesis using assms(3) by (simp add: signing_inv_def register_ok_def)
qed

lemma sent_guarded: "safe later (register_inv token kc) w (direct_sent agent p h)"
proof -
  let ?put = "\<lambda>s. try_await (http (soulRecordAgentMintExecution (rg_token s) agent h)) (direct_failed h)
      (\<lambda>updated s.
         if rg_verifyResult s \<noteq> JNull \<and> updated = JNull then direct_failed h (TypeError ''null has no properties'') s
         else finish (direct_lower (s\<lparr>rg_verifyResult := with_execution (rg_verifyResult s) updated, rg_mintDirectNotice := Some
           ''Mint confirmed onchain and recorded. You can continue the profile conversation now.''\<rparr>)))
      (s\<lparr>rg_mintDirectNotice := Some ''Transaction confirmed. Recording execution in lesser-host...''\<rparr>)"
  have "safe later (register_inv token kc) w ?put" for w
    by (intro safeR register.signing_answer direct_failed_guarded)
      (auto intro!: safe_laterD [OF direct_failed_guarded] safe_finish intro: execution_arrives simp: register_token)
  note receipt = safe_laterD [OF receipt_guarded [OF direct_failed_guarded this]]
  show ?thesis unfolding direct_sent_def Let_def by (intro safeR receipt) simp
qed

lemma direct_send_guarded:
  assumes "issued_tx token (w_net w) (w_http w) tx" and "js_trim (text_at tx ''safe_address'') = []"
  shows "safe later (register_inv token kc) w (direct_send agent p wallet tx)"
proof (rule safeR)
  fix s w' assume w': "later w w'" and s: "register_inv token kc s w'"
  have "issued_tx token (w_net w') (w_http w') tx" using assms(1) w' by (auto simp: later_def issued_later)
  then have "wallet_call_ok token kc (w_net w') (w_http w') r"
    if "sends_tx \<lparr>tx_from = wallet, tx_to = text_at tx ''to'', tx_value = string_member tx ''value'', tx_data = string_member tx ''data''\<rparr> r" for r
    using that assms(2) unfolding wallet_call_ok_def by blast
  then show "safe_result later (register_inv token kc) w' (direct_send agent p wallet tx s)"
    unfolding direct_send_def using s
    by (intro register.signing_rpc [OF _ sendEthereumTransaction_asks] direct_failed_guarded sent_guarded) simp_all
qed

lemma direct_guarded: "safe later (register_inv token kc) w (executeDirectMint agent)"
proof (rule safeR)
  fix s w' assume "later w w'" and s: "register_inv token kc s w'"
  let ?tx = "member (rg_verifyResult s) ''safe_tx''"
  have "issued_tx token (w_net w') (w_http w') ?tx" if "?tx \<noteq> JNull"
    using s that by (auto simp: signing_inv_def register_ok_def member_def nullish_def split: option.splits json.splits)
  then have send: "safe later (register_inv token kc) w1 (direct_send agent p wallet ?tx)"
    if "?tx \<noteq> JNull" "js_trim (text_at ?tx ''safe_address'') = []" "later w' w1" for p wallet w1
    using that by (intro direct_send_guarded) (auto simp: later_def issued_later)
  show "safe_result later (register_inv token kc) w' (executeDirectMint agent s)"
    unfolding executeDirectMint_def Let_def using s
    by (auto intro!: safe_finish read_guards direct_failed_guarded safeR safe_laterD [OF send] split: option.split)
      (blast intro: later_trans)+
qed

section \<open>The page\<close>

lemma inputs_guarded: "h \<in> register_inputs \<Longrightarrow> safe later (register_inv token kc) w h"
  by (induction rule: register_inputs.induct)
    (auto intro!: safeR safe_finish clear_conversation_inv simp: with_registration_def resetMintConversation_reg_def)

lemma with_registration_guarded:
  "(\<And>reg w. safe later (register_inv token kc) w (f reg)) \<Longrightarrow> safe later (register_inv token kc) w (with_registration f)"
  unfolding with_registration_def by (blast intro: safeR safe_laterD)

interpretation register_invariant: page_invariant register_handlers later "register_inv token kc" for token kc
proof unfold_locales
  fix h w assume "h \<in> register_handlers"
  moreover have "safe later (register_inv token kc) w (\<lambda>s. executeDirectMint (text_at (registration s) ''agent_id'') s)"
    by (intro safeR safe_laterD [OF direct_guarded])
  moreover have "safe later (register_inv token kc) w (\<lambda>s. refreshMintConversation_reg r (rg_mintConversationId s) (\<lambda>_. finish) finish s)" for r w
    by (intro safeR safe_laterD [OF refresh_guarded] register.signing_finish)
  ultimately show "safe later (register_inv token kc) w h"
    unfolding register_handlers_def
    by (auto intro: defaults_guarded soul_config_guarded begin_guarded wallet_guarded sign_guarded principal_guarded verify_guarded
        with_registration_guarded send_guarded complete_guarded finalize_guarded inputs_guarded)
qed (auto intro: later_trans)

text \<open>C11. Whatever the user does and in whatever order the answers arrive, the registration page asks the wallet only to name its accounts, to
  name or switch its chain and for receipts; to sign the challenge, the principal material (with the method and encoding the
  page supports), a digest to publish that the server has answered to this page under its own session, or the
  Keccak digest of a boundary that a conversation of this session has declared; and to send a transaction the server has
  answered that needs no Safe, with its recipient, value and data unchanged.\<close>

theorem wallet_asked_only_issued:
  assumes "page_reachable register_handlers (fresh_page (initial_register env a rt kc token params) w) pg"
    and "w_http w = []" and "w_rpc w = []" and "r \<in> set (w_rpc (pg_world pg))"
  shows "wallet_call_ok token kc (w_net (pg_world pg)) (w_http (pg_world pg)) r"
proof -
  have "register_inv token kc (pg_state pg) (pg_world pg)"
    by (rule register_invariant.reachable_invariant [OF assms(1)])
      (simp_all add: fresh_page_def signing_inv_def register_ok_def assms(2,3) initial_register_def obj_get_def
        extractProducedBoundaries_def is_object_def)
  then show ?thesis using assms(4) by (simp add: signing_inv_def)
qed

definition sample_challenge :: json where
  "sample_challenge = JObj [(''registration'', JObj [(''id'', JStr ''r1'')]), (''wallet'', JObj [(''message'', JStr ''sign me'')])]"

definition sample_register_run :: "register_segment list" where
  "sample_register_run = [\<lambda>s. finish (s\<lparr>rg_domain := ''a.example''\<rparr>), \<lambda>s. finish (s\<lparr>rg_localId := ''agent-0''\<rparr>),
     \<lambda>s. finish (s\<lparr>rg_walletAddress := ''0xA1''\<rparr>), handleBegin, signMessage]"

abbreviation sample_register_world :: "world" where
  "sample_register_world \<equiv> snd (run_all sample_register_run (initial_register sample_env sample_app (load_router ''/'' sample_storage) (\<lambda>_. []) ''T'' [])
     (sample_world (\<lambda>_. sample_challenge)))"

lemma sample_register_handlers: "set sample_register_run \<subseteq> register_handlers"
  by (auto simp: sample_register_run_def register_handlers_def intro: register_inputs.intros)

lemma sample_challenge_members [simp]:
  "wf_json sample_challenge" "member sample_challenge ''registration'' = JObj [(''id'', JStr ''r1'')]"
  "member sample_challenge ''wallet'' = JObj [(''message'', JStr ''sign me'')]"
  "text_at (JObj [(''message'', JStr ''sign me'')]) ''message'' = ''sign me''"
  by (simp_all add: sample_challenge_def member_def obj_get_def nullish_def text_at_def string_member_def opt_or_def str_or_def)

lemma sample_register_log:
  "w_rpc sample_register_world = [\<lparr>rpc_method = ''eth_requestAccounts'', rpc_params = None\<rparr>,
     \<lparr>rpc_method = ''personal_sign'', rpc_params = Some [JStr ''sign me'', JStr ''0xA1'']\<rparr>]"
  "w_net sample_register_world = net_of (\<lambda>_. sample_challenge)"
  by (simp_all add: sample_register_run_def sample_world_def initial_register_def run_eval handleBegin_def clear_conversation_def js_trim_def is_space_def
      soulAgentRegistrationBegin_def loadMintConversationFromStorage_def sample_app_def sample_storage_def getItem_def signMessage_def
      sample_accounts sample_sign sample_env_def getEthereumProvider_def toLowerCase_def opt_or_def)

theorem wallet_asked_only_issued_witness:
  "signable ''T'' (\<lambda>_. []) (net_of (\<lambda>_. sample_challenge)) (w_http sample_register_world) ''sign me'' \<or>
   signable ''T'' (\<lambda>_. []) (net_of (\<lambda>_. sample_challenge)) (w_http sample_register_world) ''0xA1''"
proof -
  let ?s = "initial_register sample_env sample_app (load_router ''/'' sample_storage) (\<lambda>_. []) ''T'' []" and ?r = "\<lparr>rpc_method = ''personal_sign'', rpc_params = Some [JStr ''sign me'', JStr ''0xA1'']\<rparr>"
  have "wallet_call_ok ''T'' (\<lambda>_. []) (net_of (\<lambda>_. sample_challenge)) (w_http sample_register_world) ?r"
    using wallet_asked_only_issued [OF run_all_reachable [OF sample_register_handlers, of ?s "sample_world (\<lambda>_. sample_challenge)"],
        where r = ?r] sample_register_log
    by (simp add: fresh_page_def sample_world_def)
  then show ?thesis by (auto simp: wallet_call_ok_def reads_wallet_def signs_def sends_tx_def)
qed

end
