(* ===== verification/Operator_Pages.thy ===== *)
theory Operator_Pages
  imports Instance_Pages Api_Operator
begin

text \<open>
  Pages of the operator console, \<^verbatim>\<open>web/src/pages/operator/\<close>: the three queues of approvals (\<^verbatim>\<open>UserApprovals.svelte\<close>,
  \<^verbatim>\<open>VanityDomainRequests.svelte\<close>, \<^verbatim>\<open>ExternalInstanceRegistrations.svelte\<close>) with the dashboard that counts them, the audit
  log, the details of a provisioning job and of a tip registry operation, and the monthly budget of an instance.
\<close>

section \<open>The queues of approvals\<close>

text \<open>
  The three pages hold the same text up to the calls they import and the names of their variables, so that a queue is
  described by what differs: the call for the list, the member with its rows, the text that marks the row that is being acted on, and the
  calls of the two decisions.  \<open>rv_data\<close> is \<open>JNull\<close> until the list has arrived; a page without a note keeps it empty.
\<close>

datatype review_action = Approve | Reject

record review_queue =
  rq_list :: "js_string \<Rightarrow> json io"
  rq_rows :: js_string
  rq_mark :: "json \<Rightarrow> js_string"
  rq_decide :: "review_action \<Rightarrow> js_string \<Rightarrow> json \<Rightarrow> js_string option \<Rightarrow> unit io"

definition answer_ignored :: "'a io \<Rightarrow> unit io" where
  "answer_ignored = io_then (\<lambda>_. Inr ())"

definition user_queue :: review_queue where
  "user_queue =
     \<lparr>rq_list = (\<lambda>token. listPortalUserApprovals token None), rq_rows = ''users'', rq_mark = (\<lambda>user. text_at user ''username''),
      rq_decide = (\<lambda>action token user note.
        case action of
          Approve \<Rightarrow> answer_ignored (approvePortalUser token (text_at user ''username'') note)
        | Reject \<Rightarrow> answer_ignored (rejectPortalUser token (text_at user ''username'') note))\<rparr>"

definition vanity_queue :: review_queue where
  "vanity_queue =
     \<lparr>rq_list = listVanityDomainRequests, rq_rows = ''requests'', rq_mark = (\<lambda>req. text_at req ''domain''),
      rq_decide = (\<lambda>action token req note.
        case action of
          Approve \<Rightarrow> answer_ignored (approveVanityDomainRequest token (text_at req ''domain'') note)
        | Reject \<Rightarrow> answer_ignored (rejectVanityDomainRequest token (text_at req ''domain'') note))\<rparr>"

definition external_queue :: review_queue where
  "external_queue =
     \<lparr>rq_list = listExternalInstanceRegistrations, rq_rows = ''registrations'', rq_mark = (\<lambda>reg. text_at reg ''id''),
      rq_decide = (\<lambda>action token reg note.
        case action of
          Approve \<Rightarrow> answer_ignored (approveExternalInstanceRegistration token (text_at reg ''username'') (text_at reg ''id''))
        | Reject \<Rightarrow> answer_ignored (rejectExternalInstanceRegistration token (text_at reg ''username'') (text_at reg ''id'')))\<rparr>"

record review_page = frame +
  rv_token :: js_string
  rv_loading :: bool
  rv_errorMessage :: "js_string option"
  rv_data :: json
  rv_reviewNote :: js_string
  rv_acting :: "js_string option"
  rv_actionError :: "js_string option"

type_synonym review_segment = "(review_page, world) segment"

definition load_reviews :: "review_queue \<Rightarrow> (js_error \<Rightarrow> review_segment) \<Rightarrow> review_segment \<Rightarrow> review_segment" where
  "load_reviews q throw k s =
     (let s = s\<lparr>rv_errorMessage := None, rv_actionError := None, rv_data := JNull\<rparr>;
          lower = (\<lambda>s. s\<lparr>rv_loading := False\<rparr>);
          failed = rejected lower (\<lambda>e s. s\<lparr>rv_errorMessage := show_error s e\<rparr>) throw k in
      try_await (http (rq_list q (rv_token s))) failed (\<lambda>res s. k (lower (s\<lparr>rv_data := res\<rparr>)))
        (s\<lparr>rv_loading := True\<rparr>))"

definition review_note :: "review_page \<Rightarrow> js_string option" where
  "review_note s = (let note = js_trim (rv_reviewNote s) in if note = [] then None else Some note)"

definition act_review :: "review_queue \<Rightarrow> json \<Rightarrow> review_action \<Rightarrow> review_segment" where
  "act_review q row action s =
     (let s = s\<lparr>rv_actionError := None, rv_acting := Some (rq_mark q row)\<rparr>;
          lower = (\<lambda>s. s\<lparr>rv_acting := None\<rparr>);
          failed = rejected lower (\<lambda>e s. s\<lparr>rv_actionError := show_error s e\<rparr>) (\<lambda>_. finish) finish in
      try_await (http (rq_decide q action (rv_token s) row (review_note s))) failed
        (\<lambda>_. load_reviews q failed (\<lambda>s. finish (lower s)))
        s)"

text \<open>The rows on the page, and the button of a row.\<close>

definition rows_shown :: "review_queue \<Rightarrow> review_page \<Rightarrow> json list" where
  "rows_shown q s = (case obj_get (rv_data s) (rq_rows q) of Some (JArr xs) \<Rightarrow> xs | _ \<Rightarrow> [])"

definition row_button :: "review_queue \<Rightarrow> nat \<Rightarrow> review_action \<Rightarrow> review_segment" where
  "row_button q i action s = (if i < length (rows_shown q s) then act_review q (rows_shown q s ! i) action s else finish s)"

definition review_handlers :: "review_queue \<Rightarrow> review_segment set" where
  "review_handlers q =
     {load_reviews q (\<lambda>_. finish) finish} \<union> {row_button q i action | i action. True} \<union>
     {\<lambda>s. finish (s\<lparr>rv_reviewNote := t\<rparr>) | t. True}"

section \<open>The dashboard\<close>

record dashboard_page = frame +
  db_token :: js_string
  db_loading :: bool
  db_errorMessage :: "js_string option"
  db_vanityCount :: "json option"
  db_externalCount :: "json option"
  db_userCount :: "json option"

type_synonym dashboard_segment = "(dashboard_page, world) segment"

text \<open>\<open>answer.count ?? answer.rows?.length ?? 0\<close>\<close>

definition queue_count :: "json \<Rightarrow> js_string \<Rightarrow> json" where
  "queue_count v rows =
     (case obj_get v ''count'' of
        Some (JNum n) \<Rightarrow> JNum n
      | _ \<Rightarrow> jnum (case obj_get v rows of Some (JArr xs) \<Rightarrow> int (length xs) | _ \<Rightarrow> 0))"

definition load_dashboard :: dashboard_segment where
  "load_dashboard s =
     (let s = s\<lparr>db_errorMessage := None, db_vanityCount := None, db_externalCount := None, db_userCount := None\<rparr>;
          lower = (\<lambda>s. s\<lparr>db_loading := False\<rparr>);
          failed = rejected lower (\<lambda>e s. s\<lparr>db_errorMessage := show_error s e\<rparr>) (\<lambda>_. finish) finish;
          null = failed (TypeError ''null has no properties'') in
      try_await (http_all3 (listVanityDomainRequests (db_token s)) (listExternalInstanceRegistrations (db_token s))
          (listPortalUserApprovals (db_token s) None)) failed
        (\<lambda>(vanity, external, users) s.
           if vanity = JNull then null s
           else
             (let s = s\<lparr>db_vanityCount := Some (queue_count vanity ''requests'')\<rparr> in
              if external = JNull then null s
              else
                (let s = s\<lparr>db_externalCount := Some (queue_count external ''registrations'')\<rparr> in
                 if users = JNull then null s
                 else finish (lower (s\<lparr>db_userCount := Some (queue_count users ''users'')\<rparr>)))))
        (s\<lparr>db_loading := True\<rparr>))"

section \<open>The audit log\<close>

record audit_page = frame +
  al_token :: js_string
  al_loading :: bool
  al_errorMessage :: "js_string option"
  al_data :: json
  al_actor :: js_string
  al_action :: js_string
  al_target :: js_string
  al_requestId :: js_string
  al_since :: js_string
  al_until :: js_string

type_synonym audit_segment = "(audit_page, world) segment"

definition filter_text :: "js_string \<Rightarrow> js_string option" where
  "filter_text t = (if js_trim t = [] then None else Some (js_trim t))"

definition load_audit :: audit_segment where
  "load_audit s =
     (let s = s\<lparr>al_errorMessage := None, al_data := JNull\<rparr>;
          lower = (\<lambda>s. s\<lparr>al_loading := False\<rparr>);
          failed = rejected lower (\<lambda>e s. s\<lparr>al_errorMessage := show_error s e\<rparr>) (\<lambda>_. finish) finish in
      try_await (http (listOperatorAuditLog (al_token s) (Some
          \<lparr>aq_target = filter_text (al_target s), aq_actor = filter_text (al_actor s), aq_action = filter_text (al_action s),
           aq_request_id = filter_text (al_requestId s), aq_since = filter_text (al_since s), aq_until = filter_text (al_until s),
           aq_limit = Some 100\<rparr>))) failed
        (\<lambda>res s. finish (lower (s\<lparr>al_data := res\<rparr>)))
        (s\<lparr>al_loading := True\<rparr>))"

inductive_set audit_inputs :: "audit_segment set" where
  "(\<lambda>s. finish (s\<lparr>al_actor := t\<rparr>)) \<in> audit_inputs"
| "(\<lambda>s. finish (s\<lparr>al_action := t\<rparr>)) \<in> audit_inputs"
| "(\<lambda>s. finish (s\<lparr>al_target := t\<rparr>)) \<in> audit_inputs"
| "(\<lambda>s. finish (s\<lparr>al_requestId := t\<rparr>)) \<in> audit_inputs"
| "(\<lambda>s. finish (s\<lparr>al_since := t\<rparr>)) \<in> audit_inputs"
| "(\<lambda>s. finish (s\<lparr>al_until := t\<rparr>)) \<in> audit_inputs"

definition audit_handlers :: "audit_segment set" where
  "audit_handlers = {load_audit} \<union> audit_inputs"

section \<open>A provisioning job\<close>

record job_page = frame +
  jb_token :: js_string
  jb_id :: js_string
  jb_loading :: bool
  jb_errorMessage :: "js_string option"
  jb_job :: json
  jb_retryLoading :: bool
  jb_retryError :: "js_string option"
  jb_noteInput :: js_string
  jb_noteLoading :: bool
  jb_noteError :: "js_string option"
  jb_adoptAccountId :: js_string
  jb_adoptAccountEmail :: js_string
  jb_adoptNote :: js_string
  jb_adoptLoading :: bool
  jb_adoptError :: "js_string option"
  jb_showReceipt :: bool

type_synonym job_segment = "(job_page, world) segment"

definition load_job :: job_segment where
  "load_job s =
     (let s = s\<lparr>jb_errorMessage := None, jb_job := JNull\<rparr>;
          lower = (\<lambda>s. s\<lparr>jb_loading := False\<rparr>);
          failed = rejected lower (\<lambda>e s. s\<lparr>jb_errorMessage := show_error s e\<rparr>) (\<lambda>_. finish) finish in
      try_await (http (getOperatorProvisionJob (jb_token s) (jb_id s))) failed (\<lambda>job s. finish (lower (s\<lparr>jb_job := job\<rparr>)))
        (s\<lparr>jb_loading := True\<rparr>))"

definition retry_job :: job_segment where
  "retry_job s =
     (let lower = (\<lambda>s. s\<lparr>jb_retryLoading := False\<rparr>);
          failed = rejected lower (\<lambda>e s. s\<lparr>jb_retryError := show_error s e\<rparr>) (\<lambda>_. finish) finish in
      try_await (http (retryOperatorProvisionJob (jb_token s) (jb_id s))) failed (\<lambda>job s. finish (lower (s\<lparr>jb_job := job\<rparr>)))
        (s\<lparr>jb_retryError := None, jb_retryLoading := True\<rparr>))"

definition appendNote :: job_segment where
  "appendNote s =
     (let s = s\<lparr>jb_noteError := None\<rparr>;
          trimmed = js_trim (jb_noteInput s);
          lower = (\<lambda>s. s\<lparr>jb_noteLoading := False\<rparr>);
          failed = rejected lower (\<lambda>e s. s\<lparr>jb_noteError := show_error s e\<rparr>) (\<lambda>_. finish) finish in
      if trimmed = [] then finish (s\<lparr>jb_noteError := Some ''Note is required.''\<rparr>)
      else
        try_await (http (appendOperatorProvisionJobNote (jb_token s) (jb_id s) trimmed)) failed
          (\<lambda>job s. finish (lower (s\<lparr>jb_job := job, jb_noteInput := []\<rparr>)))
          (s\<lparr>jb_noteLoading := True\<rparr>))"

text \<open>\<open>/^\d{12}$/\<close>\<close>

definition account_id_shape :: "js_string \<Rightarrow> bool" where
  "account_id_shape t \<longleftrightarrow> length t = 12 \<and> list_all is_digit t"

definition adopt_input :: "job_page \<Rightarrow> json" where
  "adopt_input s = obj_lit
     [(''account_id'', Some (JStr (js_trim (jb_adoptAccountId s)))),
      (''account_email'', text_or_undefined (js_trim (jb_adoptAccountEmail s))),
      (''note'', text_or_undefined (js_trim (jb_adoptNote s)))]"

definition adoptAccount :: job_segment where
  "adoptAccount s =
     (let s = s\<lparr>jb_adoptError := None\<rparr>;
          lower = (\<lambda>s. s\<lparr>jb_adoptLoading := False\<rparr>);
          failed = rejected lower (\<lambda>e s. s\<lparr>jb_adoptError := show_error s e\<rparr>) (\<lambda>_. finish) finish in
      if \<not> account_id_shape (js_trim (jb_adoptAccountId s))
        then finish (s\<lparr>jb_adoptError := Some ''Account id must be a 12-digit AWS account id.''\<rparr>)
      else
        try_await (http (adoptOperatorProvisionJobAccount (jb_token s) (jb_id s) (adopt_input s))) failed
          (\<lambda>job s. finish (lower (s\<lparr>jb_job := job, jb_adoptAccountId := [], jb_adoptAccountEmail := [], jb_adoptNote := []\<rparr>)))
          (s\<lparr>jb_adoptLoading := True\<rparr>))"

text \<open>The warning of a job that makes no progress: its age in minutes, from half an hour on.  \<open>Date.parse\<close> is the clock's.\<close>

definition stalledMinutes :: "job_page \<Rightarrow> int option" where
  "stalledMinutes s =
     (if jb_job s = JNull then None
      else if toLowerCase (text_at (jb_job s) ''status'') \<notin> {''queued'', ''running''} then None
      else
        (case date_parse (env_clock (fr_env s)) (text_at (jb_job s) ''updated_at'') of
           None \<Rightarrow> None
         | Some updatedAt \<Rightarrow>
             (let ageMs = date_now (env_clock (fr_env s)) - updatedAt in
              if ageMs < 30 * 60 * 1000 then None else Some (ageMs div 60000))))"

inductive_set job_inputs :: "job_segment set" where
  "(\<lambda>s. finish (s\<lparr>jb_noteInput := t\<rparr>)) \<in> job_inputs"
| "(\<lambda>s. finish (s\<lparr>jb_adoptAccountId := t\<rparr>)) \<in> job_inputs"
| "(\<lambda>s. finish (s\<lparr>jb_adoptAccountEmail := t\<rparr>)) \<in> job_inputs"
| "(\<lambda>s. finish (s\<lparr>jb_adoptNote := t\<rparr>)) \<in> job_inputs"
| "(\<lambda>s. finish (s\<lparr>jb_showReceipt := \<not> jb_showReceipt s\<rparr>)) \<in> job_inputs"

definition job_handlers :: "job_segment set" where
  "job_handlers = {load_job, retry_job, appendNote, adoptAccount} \<union> job_inputs"

section \<open>A tip registry operation\<close>

record tip_page = frame +
  tp_token :: js_string
  tp_id :: js_string
  tp_loading :: bool
  tp_errorMessage :: "js_string option"
  tp_op :: json
  tp_execTxHash :: js_string
  tp_recordLoading :: bool
  tp_recordError :: "js_string option"

type_synonym tip_segment = "(tip_page, world) segment"

definition load_tip :: tip_segment where
  "load_tip s =
     (let s = s\<lparr>tp_errorMessage := None, tp_recordError := None, tp_op := JNull\<rparr>;
          lower = (\<lambda>s. s\<lparr>tp_loading := False\<rparr>);
          failed = rejected lower (\<lambda>e s. s\<lparr>tp_errorMessage := show_error s e\<rparr>) (\<lambda>_. finish) finish in
      try_await (http (getTipRegistryOperation (tp_token s) (tp_id s))) failed (\<lambda>op s. finish (lower (s\<lparr>tp_op := op\<rparr>)))
        (s\<lparr>tp_loading := True\<rparr>))"

definition recordExecution :: tip_segment where
  "recordExecution s =
     (let s = s\<lparr>tp_recordError := None\<rparr>;
          trimmed = js_trim (tp_execTxHash s);
          lower = (\<lambda>s. s\<lparr>tp_recordLoading := False\<rparr>);
          failed = rejected lower (\<lambda>e s. s\<lparr>tp_recordError := show_error s e\<rparr>) (\<lambda>_. finish) finish in
      if trimmed = [] then finish (s\<lparr>tp_recordError := Some ''exec_tx_hash is required.''\<rparr>)
      else
        try_await (http (recordTipRegistryOperationExecution (tp_token s) (tp_id s) trimmed)) failed
          (\<lambda>op s. finish (lower (s\<lparr>tp_op := op, tp_execTxHash := []\<rparr>)))
          (s\<lparr>tp_recordLoading := True\<rparr>))"

definition tip_handlers :: "tip_segment set" where
  "tip_handlers = {load_tip, recordExecution} \<union> {\<lambda>s. finish (s\<lparr>tp_execTxHash := t\<rparr>) | t. True}"

section \<open>The monthly budget of an instance\<close>

text \<open>
  \<^verbatim>\<open>InstanceMonthlyBudget.svelte\<close> is mounted for the slug of a support page and reloads when that slug changes; Svelte runs the effect
  before the next event, so that the change of the slug and the effect are one step.  Each load takes a new number
  (\<open>requestGeneration\<close>), and an answer that comes after a later load has begun is dropped.
\<close>

record month_page = frame +
  mb_token :: js_string
  mb_slug :: js_string
  mb_canEdit :: bool
  mb_month :: js_string
  mb_budget :: json
  mb_loading :: bool
  mb_loadError :: "js_string option"
  mb_editing :: bool
  mb_includedCreditsInput :: js_string
  mb_pendingIncludedCredits :: "int option"
  mb_saveLoading :: bool
  mb_saveError :: "js_string option"
  mb_saveSuccess :: "js_string option"
  mb_loadedKey :: js_string
  mb_requestGeneration :: nat

type_synonym month_segment = "(month_page, world) segment"

definition initial_month :: "env \<Rightarrow> app \<Rightarrow> router \<Rightarrow> js_string \<Rightarrow> js_string \<Rightarrow> bool \<Rightarrow> month_page" where
  "initial_month env a r token slug canEdit =
     \<lparr>fr_env = env, fr_app = a, fr_router = r, fr_assigned = [], mb_token = token, mb_slug = slug, mb_canEdit = canEdit,
      mb_month = currentMonthUTC env, mb_budget = JNull, mb_loading = False, mb_loadError = None, mb_editing = False,
      mb_includedCreditsInput = [], mb_pendingIncludedCredits = None, mb_saveLoading = False, mb_saveError = None,
      mb_saveSuccess = None, mb_loadedKey = [], mb_requestGeneration = 0\<rparr>"

definition targetSlug :: "month_page \<Rightarrow> js_string" where
  "targetSlug s = toLowerCase (js_trim (mb_slug s))"

text \<open>\<open>String(value.member)\<close>\<close>

definition string_of_member :: "json \<Rightarrow> js_string \<Rightarrow> js_string" where
  "string_of_member v k = (case obj_get v k of None \<Rightarrow> ''undefined'' | Some x \<Rightarrow> js_to_string x)"

definition resetEditor :: "month_page \<Rightarrow> month_page" where
  "resetEditor s = s\<lparr>mb_editing := False, mb_pendingIncludedCredits := None, mb_saveError := None\<rparr>"

text \<open>The answer is awaited also when it is \<open>false\<close> at once.\<close>

definition handleUnauthorized :: "js_error \<Rightarrow> (js_error \<Rightarrow> month_segment) \<Rightarrow> (bool \<Rightarrow> month_segment) \<Rightarrow> month_segment" where
  "handleUnauthorized err throw k =
     (if unauthorized err then leave throw (k True) else await (\<lambda>w. (False, w)) k)"

definition load_lower :: "nat \<Rightarrow> month_page \<Rightarrow> month_page" where
  "load_lower generation s = (if generation = mb_requestGeneration s then s\<lparr>mb_loading := False\<rparr> else s)"

definition load_failed :: "nat \<Rightarrow> js_error \<Rightarrow> month_segment" where
  "load_failed generation err s =
     (if generation \<noteq> mb_requestGeneration s then finish s
      else
        handleUnauthorized err (\<lambda>_ s. finish (load_lower generation s))
          (\<lambda>out s. finish (load_lower generation (if out then s else s\<lparr>mb_loadError := show_error s err\<rparr>))) s)"

definition load_result :: "nat \<Rightarrow> json \<Rightarrow> month_segment" where
  "load_result generation result s =
     (if generation \<noteq> mb_requestGeneration s then finish s
      else
        (let s = s\<lparr>mb_budget := result\<rparr> in
         if result = JNull then load_failed generation (TypeError ''null has no properties'') s
         else finish (load_lower generation (s\<lparr>mb_includedCreditsInput := string_of_member result ''included_credits''\<rparr>))))"

definition loadCurrentBudget :: "js_string \<Rightarrow> js_string \<Rightarrow> month_segment" where
  "loadCurrentBudget slug month s =
     (let generation = Suc (mb_requestGeneration s);
          s = resetEditor (s\<lparr>mb_requestGeneration := generation, mb_loading := True, mb_loadError := None, mb_budget := JNull,
                mb_saveSuccess := None\<rparr>) in
      try_await (http (portalGetBudgetMonth (mb_token s) slug month)) (load_failed generation) (load_result generation) s)"

definition budget_key :: "js_string \<Rightarrow> js_string \<Rightarrow> js_string" where
  "budget_key slug month = slug @ '':'' @ month"

definition refresh_budget :: month_segment where
  "refresh_budget s =
     (let slug = targetSlug s; month = currentMonthUTC (fr_env s) in
      if slug = [] then finish s
      else loadCurrentBudget slug month (s\<lparr>mb_month := month, mb_loadedKey := budget_key slug month\<rparr>))"

definition slug_effect :: month_segment where
  "slug_effect s =
     (let slug = targetSlug s; month = currentMonthUTC (fr_env s) in
      if slug = [] \<or> budget_key slug month = mb_loadedKey s then finish s
      else loadCurrentBudget slug month (s\<lparr>mb_month := month, mb_loadedKey := budget_key slug month\<rparr>))"

definition beginEdit :: "month_page \<Rightarrow> month_page" where
  "beginEdit s =
     (if \<not> mb_canEdit s \<or> mb_budget s = JNull then s
      else s\<lparr>mb_editing := True, mb_pendingIncludedCredits := None,
             mb_includedCreditsInput := string_of_member (mb_budget s) ''included_credits'', mb_saveError := None, mb_saveSuccess := None\<rparr>)"

text \<open>\<open>Number(raw)\<close> of a text of digits, and \<open>Number.isSafeInteger\<close>.\<close>

definition safe_integer :: "int option \<Rightarrow> bool" where
  "safe_integer v \<longleftrightarrow> (case v of None \<Rightarrow> False | Some n \<Rightarrow> \<bar>n\<bar> \<le> 2 ^ 53 - 1)"

definition reviewChange :: "month_page \<Rightarrow> month_page" where
  "reviewChange s =
     (let s = s\<lparr>mb_saveError := None, mb_pendingIncludedCredits := None\<rparr>;
          raw = js_trim (mb_includedCreditsInput s);
          parsed = parseInt10 raw in
      if raw = [] \<or> \<not> list_all is_digit raw then s\<lparr>mb_saveError := Some ''Included credits must be a non-negative integer.''\<rparr>
      else if \<not> safe_integer parsed then s\<lparr>mb_saveError := Some ''Included credits must be a safe integer.''\<rparr>
      else if mb_budget s \<noteq> JNull \<and> int_at (mb_budget s) ''included_credits'' = parsed
        then s\<lparr>mb_saveError := Some ''Enter a different included credit total.''\<rparr>
      else s\<lparr>mb_pendingIncludedCredits := parsed\<rparr>)"

definition save_failed :: "js_error \<Rightarrow> month_segment" where
  "save_failed err =
     handleUnauthorized err (\<lambda>_ s. finish (s\<lparr>mb_saveLoading := False\<rparr>))
       (\<lambda>out s. finish ((if out then s else s\<lparr>mb_saveError := show_error s err\<rparr>)\<lparr>mb_saveLoading := False\<rparr>))"

definition save_result :: "js_string \<Rightarrow> js_string \<Rightarrow> json \<Rightarrow> month_segment" where
  "save_result slug month result s =
     (if slug \<noteq> targetSlug s \<or> month \<noteq> mb_month s then finish (s\<lparr>mb_saveLoading := False\<rparr>)
      else
        (let s = s\<lparr>mb_budget := result\<rparr> in
         if result = JNull then save_failed (TypeError ''null has no properties'') s
         else finish ((resetEditor (s\<lparr>mb_includedCreditsInput := string_of_member result ''included_credits''\<rparr>))
                \<lparr>mb_saveSuccess := Some ''Monthly budget updated.'', mb_saveLoading := False\<rparr>)))"

definition confirmChange :: month_segment where
  "confirmChange s =
     (case mb_pendingIncludedCredits s of
        None \<Rightarrow> finish s
      | Some includedCredits \<Rightarrow>
          if \<not> mb_canEdit s \<or> mb_budget s = JNull then finish s
          else
            (let slug = targetSlug s; month = mb_month s in
             try_await (http (operatorSetBudgetMonth (mb_token s) slug month includedCredits)) save_failed (save_result slug month)
               (s\<lparr>mb_saveLoading := True, mb_saveError := None, mb_saveSuccess := None\<rparr>)))"

text \<open>A clock writes a month as four digits, a hyphen and two digits (\<open>Date.prototype.toISOString\<close> in the years 0 to 9999).\<close>

inductive_set month_inputs :: "month_segment set" where
  "(\<lambda>s. finish (beginEdit s)) \<in> month_inputs"
| "(\<lambda>s. finish (reviewChange s)) \<in> month_inputs"
| "(\<lambda>s. finish (resetEditor s)) \<in> month_inputs"
| "(\<lambda>s. finish (s\<lparr>mb_pendingIncludedCredits := None\<rparr>)) \<in> month_inputs"
| "(\<lambda>s. finish (s\<lparr>mb_includedCreditsInput := t\<rparr>)) \<in> month_inputs"
| "(\<lambda>s. finish (s\<lparr>mb_canEdit := b\<rparr>)) \<in> month_inputs"
| "month_shape (currentMonthUTC e) \<Longrightarrow> (\<lambda>s. finish (s\<lparr>fr_env := e\<rparr>)) \<in> month_inputs"
| "toLowerCase (js_trim t) \<noteq> [] \<Longrightarrow> (\<lambda>s. slug_effect (s\<lparr>mb_slug := t\<rparr>)) \<in> month_inputs"

definition month_handlers :: "month_segment set" where
  "month_handlers = {slug_effect, refresh_budget, confirmChange} \<union> month_inputs"

end
