(* ===== verification/Operator_Correct.thy ===== *)
theory Operator_Correct
  imports Operator_Pages
begin

text \<open>
  The console's pages in every interleaving: a decision names a row that the server has listed and that is on the page, a change of a
  job names that job and a well-formed account, and the budget on the page is the one of its instance and month.
\<close>

section \<open>The queues\<close>

text \<open>The one request of a call.\<close>

definition requests :: "'a io \<Rightarrow> request \<Rightarrow> bool" where
  "requests op r \<longleftrightarrow> (\<forall>net log. snd (op net log) = log @ [r])"

lemma requests_then: "requests op r \<Longrightarrow> requests (io_then f op) r"
  by (simp add: requests_def io_then_def split_beta split: sum.split)

lemma requests_api: "requests (api_call m u h b) \<lparr>req_method = m, req_url = u, req_headers = h, req_body = b\<rparr>"
  by (simp add: requests_def api_call_def)

lemma requests_sends: "requests op r \<Longrightarrow> Q r \<Longrightarrow> sends (http op) Q"
  by (simp add: requests_def sends_def http_def split_beta)

definition review_emits :: "review_queue \<Rightarrow> review_page \<Rightarrow> request \<Rightarrow> bool" where
  "review_emits q s r \<longleftrightarrow>
     fetchJson r = rq_list q (rv_token s) \<or>
     (\<exists>v t. app_session (fr_app s) = Some v \<and> string_member v ''token'' = Some t \<and> r = logout_request t) \<or>
     (\<exists>row action. row \<in> set (rows_shown q s) \<and> requests (rq_decide q action (rv_token s) row (review_note s)) r)"

definition review_ok :: "review_queue \<Rightarrow> js_string \<Rightarrow> review_page \<Rightarrow> net \<Rightarrow> request list \<Rightarrow> bool" where
  "review_ok q token s net log \<longleftrightarrow>
     rv_token s = token \<and> (rv_data s = JNull \<or> (\<exists>r. fetchJson r = rq_list q token \<and> answered net log r (rv_data s)))"

locale review_pages =
  fixes q :: review_queue
  assumes list_single: "single (rq_list q token)" and decide_single: "\<exists>r. requests (rq_decide q action token row note) r"

sublocale review_pages \<subseteq> emitting_page "review_emits q"
  by unfold_locales (auto simp: review_emits_def rows_shown_def review_note_def)

sublocale review_pages \<subseteq> listed: framed_page "review_ok q token" "\<lambda>_ _ _. True" for token
  by unfold_locales (auto simp: review_ok_def intro: answered_later)

context review_pages
begin

lemma emits_shown [simp]:
  "review_emits q (rv_loading_update a s) = review_emits q s" "review_emits q (rv_errorMessage_update b s) = review_emits q s"
  "review_emits q (rv_acting_update c s) = review_emits q s" "review_emits q (rv_actionError_update d s) = review_emits q s"
  by (simp_all add: fun_eq_iff review_emits_def rows_shown_def review_note_def)

lemma emits_cleared: "review_emits q (s\<lparr>rv_data := JNull\<rparr>) r \<Longrightarrow> review_emits q s r"
  by (auto simp: review_emits_def rows_shown_def review_note_def obj_get_def)

lemma load_obeys:
  assumes t: "\<And>e. obeys (emits (review_emits q)) (throw e)" and k: "\<And>s s'. obeys_result (emits (review_emits q)) s (k s')"
  shows "obeys (emits (review_emits q)) (load_reviews q throw k)"
proof (rule obeysR)
  fix s
  let ?failed = "rejected (\<lambda>s. s\<lparr>rv_loading := False\<rparr>) (\<lambda>e s. s\<lparr>rv_errorMessage := show_error s e\<rparr>) throw k"
  have "obeys (emits (review_emits q)) (?failed e)" for e by (rule rejected_obeys [OF t]) (auto intro: obeysR k)
  moreover have "sends (http (rq_list q (rv_token s))) (review_emits q s)"
    by (rule sends_single [OF list_single]) (simp add: review_emits_def)
  ultimately show "obeys_result (emits (review_emits q)) s (load_reviews q throw k s)"
    unfolding load_reviews_def Let_def by (intro obeys_sends) (auto intro: obeysR k)
qed

lemma act_obeys: "row \<in> set (rows_shown q s) \<Longrightarrow> obeys_result (emits (review_emits q)) s (act_review q row action s)"
proof -
  assume row: "row \<in> set (rows_shown q s)"
  let ?failed = "rejected (\<lambda>s. s\<lparr>rv_acting := None\<rparr>) (\<lambda>e s. s\<lparr>rv_actionError := show_error s e\<rparr>) (\<lambda>_. finish) finish"
  obtain r where r: "requests (rq_decide q action (rv_token s) row (review_note s)) r" using decide_single by blast
  then have "sends (http (rq_decide q action (rv_token s) row (review_note s))) (review_emits q s)"
    using row by (intro requests_sends) (auto simp: review_emits_def)
  moreover have "review_note (s\<lparr>rv_actionError := None, rv_acting := m\<rparr>) = review_note s" for m by (simp add: review_note_def)
  ultimately show ?thesis
    unfolding act_review_def Let_def
    by (auto intro!: obeys_sends rejected_finish load_obeys obeys_stop)
qed

lemma steps: "step_discipline (review_handlers q) (emits (review_emits q))"
proof unfold_locales
  fix h assume "h \<in> review_handlers q"
  moreover have "obeys (emits (review_emits q)) (load_reviews q (\<lambda>_. finish) finish)"
    by (intro load_obeys obeys_finish obeys_stop)
  moreover have "obeys (emits (review_emits q)) (row_button q i action)" for i action
    by (rule obeysR) (auto simp: row_button_def intro!: act_obeys obeys_stop)
  moreover have "obeys (emits (review_emits q)) (\<lambda>s. finish (s\<lparr>rv_reviewNote := t\<rparr>))" for t
    by (intro obeysR obeys_stop)
  ultimately show "obeys (emits (review_emits q)) h" by (auto simp: review_handlers_def)
qed simp

text \<open>The data on the page.\<close>

lemma shown_fields [simp]:
  "page_inv (review_ok q token) P (rv_loading_update a s) w = page_inv (review_ok q token) P s w"
  "page_inv (review_ok q token) P (rv_errorMessage_update b s) w = page_inv (review_ok q token) P s w"
  "page_inv (review_ok q token) P (rv_acting_update c s) w = page_inv (review_ok q token) P s w"
  "page_inv (review_ok q token) P (rv_actionError_update d s) w = page_inv (review_ok q token) P s w"
  "page_inv (review_ok q token) P (rv_reviewNote_update e s) w = page_inv (review_ok q token) P s w"
  by (simp_all add: page_inv_def review_ok_def)

lemma load_listed:
  assumes t: "\<And>e w. listed.guarded token w (throw e)" and k: "\<And>w. listed.guarded token w k"
  shows "listed.guarded token w (load_reviews q throw k)"
proof (rule safeR)
  fix s w' assume "later w w'" and s: "page_inv (review_ok q token) (\<lambda>_ _ _. True) s w'"
  let ?failed = "rejected (\<lambda>s. s\<lparr>rv_loading := False\<rparr>) (\<lambda>e s. s\<lparr>rv_errorMessage := show_error s e\<rparr>) throw k"
  obtain r where r: "fetchJson r = rq_list q token" using list_single by (auto simp: single_def)
  have "listed.guarded token w (?failed e)" for e w by (intro listed.rejected_guarded t k) simp_all
  moreover have "listed.guarded token w (\<lambda>s. k (s\<lparr>rv_data := v, rv_loading := False\<rparr>))" if "answered (w_net w) (w_http w) r v" for w v
    using that r by (intro safeR safe_laterD [OF k]) (auto simp: page_inv_def review_ok_def later_def answered_later)
  moreover have "rv_token s = token" using s by (simp add: page_inv_def review_ok_def)
  moreover have "page_inv (review_ok q token) (\<lambda>_ _ _. True) (s\<lparr>rv_errorMessage := None, rv_actionError := None, rv_data := JNull\<rparr>) w'" using s by (simp add: page_inv_def review_ok_def)
  ultimately show "safe_result later (page_inv (review_ok q token) (\<lambda>_ _ _. True)) w' (load_reviews q throw k s)"
    unfolding load_reviews_def Let_def by (simp add: r [symmetric], intro listed.guarded_http) simp_all
qed

lemma act_listed: "listed.guarded token w (act_review q row action)"
proof (rule safeR)
  fix s w' assume "later w w'" and s: "page_inv (review_ok q token) (\<lambda>_ _ _. True) s w'"
  let ?failed = "rejected (\<lambda>s. s\<lparr>rv_acting := None\<rparr>) (\<lambda>e s. s\<lparr>rv_actionError := show_error s e\<rparr>) (\<lambda>_. finish) finish"
  have f: "listed.guarded token w (?failed e)" for e w by (intro listed.rejected_guarded listed.finish_guarded) simp_all
  moreover have "listed.guarded token w (load_reviews q ?failed (\<lambda>s. finish (s\<lparr>rv_acting := None\<rparr>)))" for w
    by (intro load_listed f safeR safe_finish) simp
  moreover have "sends (http (rq_decide q action t row n)) (\<lambda>_. True)" for t n
    using decide_single [of action t row n] by (elim exE requests_sends) simp
  ultimately show "safe_result later (page_inv (review_ok q token) (\<lambda>_ _ _. True)) w' (act_review q row action s)"
    unfolding act_review_def Let_def using s by (intro listed.guarded_sends [where Q = "\<lambda>_. True"]) simp_all
qed

lemma keeps_listed: "page_invariant (review_handlers q) later (page_inv (review_ok q token) (\<lambda>_ _ _. True))"
proof unfold_locales
  fix h w assume "h \<in> review_handlers q"
  moreover have "listed.guarded token w (row_button q i action)" for i action
    by (rule safeR) (auto simp: row_button_def intro!: safe_laterD [OF act_listed] safe_finish)
  moreover have "listed.guarded token w (\<lambda>s. finish (s\<lparr>rv_reviewNote := t\<rparr>))" for t by (intro safeR safe_finish) simp
  ultimately show "listed.guarded token w h" by (auto simp: review_handlers_def intro: load_listed listed.finish_guarded)
qed (auto intro: later_trans)

end

lemmas review_calls = listPortalUserApprovals_def approvePortalUser_def rejectPortalUser_def listVanityDomainRequests_def
  approveVanityDomainRequest_def rejectVanityDomainRequest_def listExternalInstanceRegistrations_def
  approveExternalInstanceRegistration_def rejectExternalInstanceRegistration_def

lemma ignored_request: "requests op r \<Longrightarrow> \<exists>r. requests (answer_ignored op) r"
  unfolding answer_ignored_def by (blast intro: requests_then)

interpretation users: review_pages user_queue
  by unfold_locales
    (auto simp: user_queue_def review_calls Let_def split: review_action.split intro!: ignored_request requests_then requests_api)

interpretation vanity: review_pages vanity_queue
  by unfold_locales
    (auto simp: vanity_queue_def review_calls Let_def split: review_action.split intro!: ignored_request requests_then requests_api)

interpretation external: review_pages external_queue
  by unfold_locales
    (auto simp: external_queue_def review_calls Let_def split: review_action.split intro!: ignored_request requests_then requests_api)


definition sample_review :: review_page where
  "sample_review = \<lparr>fr_env = sample_env, fr_app = sample_app, fr_router = load_router ''/'' sample_storage, fr_assigned = [],
     rv_token = ''t'', rv_loading = False, rv_errorMessage = None, rv_data = JNull, rv_reviewNote = '' ok '', rv_acting = None,
     rv_actionError = None\<rparr>"

definition sample_users :: json where
  "sample_users = JObj [(''users'', JArr [JObj [(''username'', JStr ''ann'')]])]"

abbreviation sample_review_page :: "(review_page, world) page" where
  "sample_review_page \<equiv> fresh_page (fst (run_all [load_reviews user_queue (\<lambda>_. finish) finish] sample_review (sample_world (\<lambda>_. sample_users))))
     (snd (run_all [load_reviews user_queue (\<lambda>_. finish) finish] sample_review (sample_world (\<lambda>_. sample_users))))"

lemma sample_review_state:
  "pg_state sample_review_page = sample_review\<lparr>rv_data := sample_users\<rparr>"
  "w_net (pg_world sample_review_page) = net_of (\<lambda>_. sample_users)"
  by (simp_all add: fresh_page_def run_eval load_reviews_def user_queue_def listPortalUserApprovals_def sample_world_def sample_users_def
      sample_review_def finish_def)

lemma decision_sends:
  assumes "requests (rq_decide q action (rv_token (pg_state pg)) row (review_note (pg_state pg))) r"
  shows "w_http (pg_world (run_segment (act_review q row action) pg)) = w_http (pg_world pg) @ [r]"
proof -
  have "review_note (pg_state pg\<lparr>rv_actionError := None, rv_acting := m\<rparr>) = review_note (pg_state pg)" for m by (simp add: review_note_def)
  then show ?thesis
    using assms by (simp add: run_segment_def act_review_def Let_def try_await_def await_def http_def split_beta requests_def)
qed

lemma sample_decision:
  "\<exists>r. w_http (pg_world (run_segment (row_button user_queue 0 Approve) sample_review_page)) = w_http (pg_world sample_review_page) @ [r]"
proof -
  let ?s = "pg_state sample_review_page" and ?row = "JObj [(''username'', JStr ''ann'')]"
  obtain r where r: "requests (rq_decide user_queue Approve (rv_token ?s) ?row (review_note ?s)) r" using users.decide_single by blast
  have "rows_shown user_queue ?s = [?row]"
    unfolding sample_review_state by (simp add: rows_shown_def sample_users_def user_queue_def obj_get_def)
  then have "run_segment (row_button user_queue 0 Approve) sample_review_page =
      run_segment (act_review user_queue ?row Approve) sample_review_page"
    by (simp add: run_segment_def row_button_def)
  then show ?thesis using decision_sends [OF r] by auto
qed


end
