(* ===== verification/Operator_Progress.thy ===== *)
theory Operator_Progress
  imports Operator_Pages Instance_Progress
begin

text \<open>
  The console's pages come to rest, and what a page of a job or of a tip registry operation sends names that job or
  operation.
\<close>

section \<open>The queues of approvals\<close>

abbreviation deciding :: "review_page \<Rightarrow> bool" where
  "deciding s \<equiv> \<exists>m. rv_acting s = Some m"

lemma own_review: "own_flag rv_loading" "own_flag deciding"
  by (simp_all add: own_flag_def)

text \<open>The reload, inside a decision that owes its mark and alone.\<close>

lemma load_reviews_pays:
  assumes "\<And>e. owes f True (throw e)" and k: "owes f True k"
  shows "owes f True (load_reviews q throw k)"
  unfolding load_reviews_def Let_def by (auto intro!: pass_intros assms owes_true [OF k])

lemma load_reviews_lowers:
  assumes "\<And>e. owes rv_loading False (throw e)" and k: "owes rv_loading False k"
  shows "owes rv_loading False (load_reviews q throw k)"
  unfolding load_reviews_def Let_def
  by (auto simp: own_review intro!: owesR owes_try_raised rejected_lowers owes_true [OF rejected_lowers] assms owes_lowered [OF k])

lemma load_reviews_keeps:
  assumes "\<And>e. owes deciding False (throw e)" and k: "owes deciding False k"
  shows "owes deciding False (load_reviews q throw k)"
  unfolding load_reviews_def Let_def
  by (auto simp: own_review intro!: owesR owes_try_kept rejected_keeps owes_same [OF rejected_keeps] assms owes_same [OF k])

lemma act_review_flags: "owes rv_loading False (act_review q row action)" "owes deciding False (act_review q row action)"
proof -
  let ?failed = "rejected (\<lambda>s. s\<lparr>rv_acting := None\<rparr>) (\<lambda>e s. s\<lparr>rv_actionError := show_error s e\<rparr>) (\<lambda>_. finish) finish"
  have f: "owes deciding True (?failed e)" for e by (rule rejected_lowers) (simp_all add: owes_finish_only)
  have "owes deciding True (\<lambda>s. finish (s\<lparr>rv_acting := None\<rparr>))" by (intro owesR owes_stop) simp
  then have "owes deciding True (load_reviews q ?failed (\<lambda>s. finish (s\<lparr>rv_acting := None\<rparr>)))" by (intro load_reviews_pays f)
  note l = this
  show "owes deciding False (act_review q row action)"
    unfolding act_review_def Let_def by (rule owesR, rule owes_try_raised) (simp_all add: f l)
  have g: "owes rv_loading False (?failed e)" for e by (rule rejected_keeps) (simp_all add: own_review owes_finish_only)
  have "owes rv_loading False (\<lambda>s. finish (s\<lparr>rv_acting := None\<rparr>))" by (rule input_keeps) simp
  then have "owes rv_loading False (load_reviews q ?failed (\<lambda>s. finish (s\<lparr>rv_acting := None\<rparr>)))" by (intro load_reviews_lowers g)
  note m = this
  show "owes rv_loading False (act_review q row action)"
    unfolding act_review_def Let_def by (rule owesR, rule owes_try_kept) (simp_all add: g m)
qed

lemma row_button_flags: "owes rv_loading False (row_button q i action)" "owes deciding False (row_button q i action)"
  unfolding row_button_def by (intro owesR, simp add: owesD [OF act_review_flags(1)] owesD [OF act_review_flags(2)] owes_stop)+

lemma review_loading: "h \<in> review_handlers q \<Longrightarrow> owes rv_loading False h"
  by (auto simp: review_handlers_def intro!: input_keeps row_button_flags load_reviews_lowers owes_finish_only)

lemma review_deciding: "h \<in> review_handlers q \<Longrightarrow> owes deciding False h"
  by (auto simp: review_handlers_def intro!: input_keeps row_button_flags load_reviews_keeps owes_finish_only)

interpretation review_load: loading_flag "review_handlers q" rv_loading for q by unfold_locales (rule review_loading)
interpretation review_act: loading_flag "review_handlers q" deciding for q by unfold_locales (rule review_deciding)

section \<open>The dashboard and the audit log\<close>

lemma own_dashboard: "own_flag db_loading"
  by (simp_all add: own_flag_def)

lemma load_dashboard_db_loading: "owes db_loading False load_dashboard"
  unfolding load_dashboard_def Let_def by (auto simp: own_dashboard intro!: lower_intros split: sum.splits option.splits prod.splits)

interpretation dashboard_load: loading_flag "{load_dashboard}" db_loading
  by unfold_locales (auto simp:  intro!: input_keeps intro: load_dashboard_db_loading)

lemma own_audit: "own_flag al_loading"
  by (simp add: own_flag_def)

lemma load_audit_al_loading: "owes al_loading False load_audit"
  unfolding load_audit_def Let_def by (auto simp: own_audit intro!: lower_intros split: sum.splits option.splits prod.splits)

lemma audit_inputs_keep: "h \<in> audit_inputs \<Longrightarrow> owes al_loading False h"
  by (induction rule: audit_inputs.induct) (rule input_keeps, simp)+

interpretation audit_load: loading_flag "audit_handlers" al_loading
  by unfold_locales (auto simp: audit_handlers_def intro: audit_inputs_keep load_audit_al_loading)

section \<open>A provisioning job\<close>

lemma own_job: "own_flag jb_loading" "own_flag jb_retryLoading" "own_flag jb_noteLoading" "own_flag jb_adoptLoading"
  by (simp_all add: own_flag_def)

lemma load_job_jb_loading: "owes jb_loading False load_job"
  unfolding load_job_def Let_def by (auto simp: own_job intro!: lower_intros split: sum.splits option.splits prod.splits)

lemma load_job_jb_retryLoading: "owes jb_retryLoading False load_job"
  unfolding load_job_def Let_def by (auto simp: own_job intro!: keep_intros split: sum.splits option.splits prod.splits)

lemma load_job_jb_noteLoading: "owes jb_noteLoading False load_job"
  unfolding load_job_def Let_def by (auto simp: own_job intro!: keep_intros split: sum.splits option.splits prod.splits)

lemma load_job_jb_adoptLoading: "owes jb_adoptLoading False load_job"
  unfolding load_job_def Let_def by (auto simp: own_job intro!: keep_intros split: sum.splits option.splits prod.splits)

lemma retry_job_jb_loading: "owes jb_loading False retry_job"
  unfolding retry_job_def Let_def by (auto simp: own_job intro!: keep_intros split: sum.splits option.splits prod.splits)

lemma retry_job_jb_retryLoading: "owes jb_retryLoading False retry_job"
  unfolding retry_job_def Let_def by (auto simp: own_job intro!: lower_intros split: sum.splits option.splits prod.splits)

lemma retry_job_jb_noteLoading: "owes jb_noteLoading False retry_job"
  unfolding retry_job_def Let_def by (auto simp: own_job intro!: keep_intros split: sum.splits option.splits prod.splits)

lemma retry_job_jb_adoptLoading: "owes jb_adoptLoading False retry_job"
  unfolding retry_job_def Let_def by (auto simp: own_job intro!: keep_intros split: sum.splits option.splits prod.splits)

lemma appendNote_jb_loading: "owes jb_loading False appendNote"
  unfolding appendNote_def Let_def by (auto simp: own_job intro!: keep_intros split: sum.splits option.splits prod.splits)

lemma appendNote_jb_retryLoading: "owes jb_retryLoading False appendNote"
  unfolding appendNote_def Let_def by (auto simp: own_job intro!: keep_intros split: sum.splits option.splits prod.splits)

lemma appendNote_jb_noteLoading: "owes jb_noteLoading False appendNote"
  unfolding appendNote_def Let_def by (auto simp: own_job intro!: lower_intros split: sum.splits option.splits prod.splits)

lemma appendNote_jb_adoptLoading: "owes jb_adoptLoading False appendNote"
  unfolding appendNote_def Let_def by (auto simp: own_job intro!: keep_intros split: sum.splits option.splits prod.splits)

lemma adoptAccount_jb_loading: "owes jb_loading False adoptAccount"
  unfolding adoptAccount_def Let_def by (auto simp: own_job intro!: keep_intros split: sum.splits option.splits prod.splits)

lemma adoptAccount_jb_retryLoading: "owes jb_retryLoading False adoptAccount"
  unfolding adoptAccount_def Let_def by (auto simp: own_job intro!: keep_intros split: sum.splits option.splits prod.splits)

lemma adoptAccount_jb_noteLoading: "owes jb_noteLoading False adoptAccount"
  unfolding adoptAccount_def Let_def by (auto simp: own_job intro!: keep_intros split: sum.splits option.splits prod.splits)

lemma adoptAccount_jb_adoptLoading: "owes jb_adoptLoading False adoptAccount"
  unfolding adoptAccount_def Let_def by (auto simp: own_job intro!: lower_intros split: sum.splits option.splits prod.splits)

lemma job_inputs_jb_loading: "h \<in> job_inputs \<Longrightarrow> owes jb_loading False h"
  by (induction rule: job_inputs.induct) (rule input_keeps, simp)+

lemma job_inputs_jb_retryLoading: "h \<in> job_inputs \<Longrightarrow> owes jb_retryLoading False h"
  by (induction rule: job_inputs.induct) (rule input_keeps, simp)+

lemma job_inputs_jb_noteLoading: "h \<in> job_inputs \<Longrightarrow> owes jb_noteLoading False h"
  by (induction rule: job_inputs.induct) (rule input_keeps, simp)+

lemma job_inputs_jb_adoptLoading: "h \<in> job_inputs \<Longrightarrow> owes jb_adoptLoading False h"
  by (induction rule: job_inputs.induct) (rule input_keeps, simp)+

interpretation job_load: loading_flag job_handlers jb_loading
  by unfold_locales (auto simp: job_handlers_def intro!: input_keeps intro: load_job_jb_loading retry_job_jb_loading appendNote_jb_loading adoptAccount_jb_loading job_inputs_jb_loading)
interpretation job_retry: loading_flag job_handlers jb_retryLoading
  by unfold_locales (auto simp: job_handlers_def intro!: input_keeps intro: load_job_jb_retryLoading retry_job_jb_retryLoading appendNote_jb_retryLoading adoptAccount_jb_retryLoading job_inputs_jb_retryLoading)
interpretation job_note: loading_flag job_handlers jb_noteLoading
  by unfold_locales (auto simp: job_handlers_def intro!: input_keeps intro: load_job_jb_noteLoading retry_job_jb_noteLoading appendNote_jb_noteLoading adoptAccount_jb_noteLoading job_inputs_jb_noteLoading)
interpretation job_adopt: loading_flag job_handlers jb_adoptLoading
  by unfold_locales (auto simp: job_handlers_def intro!: input_keeps intro: load_job_jb_adoptLoading retry_job_jb_adoptLoading appendNote_jb_adoptLoading adoptAccount_jb_adoptLoading job_inputs_jb_adoptLoading)

section \<open>A tip registry operation\<close>

lemma own_tip: "own_flag tp_loading" "own_flag tp_recordLoading"
  by (simp_all add: own_flag_def)

lemma load_tip_tp_loading: "owes tp_loading False load_tip"
  unfolding load_tip_def Let_def by (auto simp: own_tip intro!: lower_intros split: sum.splits option.splits prod.splits)

lemma load_tip_tp_recordLoading: "owes tp_recordLoading False load_tip"
  unfolding load_tip_def Let_def by (auto simp: own_tip intro!: keep_intros split: sum.splits option.splits prod.splits)

lemma recordExecution_tp_loading: "owes tp_loading False recordExecution"
  unfolding recordExecution_def Let_def by (auto simp: own_tip intro!: keep_intros split: sum.splits option.splits prod.splits)

lemma recordExecution_tp_recordLoading: "owes tp_recordLoading False recordExecution"
  unfolding recordExecution_def Let_def by (auto simp: own_tip intro!: lower_intros split: sum.splits option.splits prod.splits)

interpretation tip_load: loading_flag tip_handlers tp_loading
  by unfold_locales (auto simp: tip_handlers_def intro!: input_keeps intro: load_tip_tp_loading recordExecution_tp_loading)
interpretation tip_record: loading_flag tip_handlers tp_recordLoading
  by unfold_locales (auto simp: tip_handlers_def intro!: input_keeps intro: load_tip_tp_recordLoading recordExecution_tp_recordLoading)

section \<open>The console comes to rest\<close>

lemmas console_rests = review_load.loading_flag_axioms review_act.loading_flag_axioms dashboard_load.loading_flag_axioms
  audit_load.loading_flag_axioms job_load.loading_flag_axioms job_retry.loading_flag_axioms job_note.loading_flag_axioms
  job_adopt.loading_flag_axioms tip_load.loading_flag_axioms tip_record.loading_flag_axioms

text \<open>C25. The console's pages come to rest.  However clicks, answers, refused calls and an expired session interleave, once the answers have
  arrived, and that comes inevitably, no page of approvals, the dashboard, the audit log, a provisioning job or a tip
  registry operation is left loading, and no row is left marked as being decided.\<close>

theorem console_pages_settle:
  "comes_to_rest (review_handlers q) (\<lambda>s. rv_loading s \<or> deciding s) \<and>
   comes_to_rest {load_dashboard} db_loading \<and> comes_to_rest audit_handlers al_loading \<and>
   comes_to_rest job_handlers (\<lambda>s. jb_loading s \<or> jb_retryLoading s \<or> jb_noteLoading s \<or> jb_adoptLoading s) \<and>
   comes_to_rest tip_handlers (\<lambda>s. tp_loading s \<or> tp_recordLoading s)"
  by (intro conjI comes_to_rest_or rest_by console_rests)

section \<open>Actions on a job\<close>

text \<open>What the page of a job may send: reads and changes of that very job, a note that is not blank, an account with twelve digits.\<close>

definition job_emits :: "job_page \<Rightarrow> request \<Rightarrow> bool" where
  "job_emits s r \<longleftrightarrow>
     fetchJson r \<in> {getOperatorProvisionJob (jb_token s) (jb_id s), retryOperatorProvisionJob (jb_token s) (jb_id s)} \<or>
     (\<exists>v t. app_session (fr_app s) = Some v \<and> string_member v ''token'' = Some t \<and> r = logout_request t) \<or>
     (js_trim (jb_noteInput s) \<noteq> [] \<and>
      fetchJson r = appendOperatorProvisionJobNote (jb_token s) (jb_id s) (js_trim (jb_noteInput s))) \<or>
     (account_id_shape (js_trim (jb_adoptAccountId s)) \<and>
      fetchJson r = adoptOperatorProvisionJobAccount (jb_token s) (jb_id s) (adopt_input s))"

interpretation job: emitting_page job_emits
  by unfold_locales (auto simp: job_emits_def adopt_input_def)

lemma adopt_input_fields [simp]: "adopt_input (jb_adoptError_update f s) = adopt_input s"
  by (simp add: adopt_input_def)

lemma job_sends:
  "sends (http (getOperatorProvisionJob (jb_token s) (jb_id s))) (job_emits s)"
  "sends (http (retryOperatorProvisionJob (jb_token s) (jb_id s))) (job_emits s)"
  "js_trim (jb_noteInput s) \<noteq> [] \<Longrightarrow>
   sends (http (appendOperatorProvisionJobNote (jb_token s) (jb_id s) (js_trim (jb_noteInput s)))) (job_emits s)"
  "account_id_shape (js_trim (jb_adoptAccountId s)) \<Longrightarrow>
   sends (http (adoptOperatorProvisionJobAccount (jb_token s) (jb_id s) (adopt_input s))) (job_emits s)"
  by (rule sends_single,
      simp_all add: job_emits_def getOperatorProvisionJob_def retryOperatorProvisionJob_def appendOperatorProvisionJobNote_def
        adoptOperatorProvisionJobAccount_def Let_def)+

lemma job_stops: "obeys (emits job_emits) (\<lambda>s. finish (g s))"
  by (intro obeysR obeys_stop)

interpretation job_steps: step_discipline job_handlers "emits job_emits"
proof unfold_locales
  fix h assume "h \<in> job_handlers"
  moreover have "obeys (emits job_emits) h" if "h \<in> job_inputs" using that by (induction rule: job_inputs.induct) (rule job_stops)+
  moreover have "obeys (emits job_emits) load_job" "obeys (emits job_emits) retry_job" "obeys (emits job_emits) appendNote"
      "obeys (emits job_emits) adoptAccount"
    by (rule obeysR, auto simp: load_job_def retry_job_def appendNote_def adoptAccount_def Let_def
        intro!: obeys_sends job_sends job.rejected_finish job_stops)+
  ultimately show "obeys (emits job_emits) h" by (auto simp: job_handlers_def)
qed simp

lemma job_actions_checked:
  assumes "page_reachable job_handlers (fresh_page s w) pg" and "page_step job_handlers pg pg'"
  shows "\<exists>sent. w_http (pg_world pg') = w_http (pg_world pg) @ sent \<and> list_all (job_emits (pg_state pg)) sent"
  using job_steps.reachable_step [OF assms(1) _ assms(2)] by (auto simp: fresh_page_def emits_def list_all_iff)

end
