(* ===== verification/Budget_Correct.thy ===== *)
theory Budget_Correct
  imports Operator_Pages
begin

text \<open>
  The monthly budget of the console in every interleaving: the budget on the page is an answer for the instance and the month
  on the page, however late other answers come, and what is saved is the reviewed number.  The number of a load
  (\<open>requestGeneration\<close>) counts the reading requests the page has sent, so that the last of these tells which answer may be shown.
\<close>

section \<open>The requests\<close>

definition read_request :: "js_string \<Rightarrow> js_string \<Rightarrow> js_string \<Rightarrow> request" where
  "read_request token slug month =
     \<lparr>req_method = ''GET'', req_url = ''/api/v1/portal/instances/'' @ encodeURIComponent slug @ ''/budgets/'' @ month,
      req_headers = bearer token, req_body = None\<rparr>"

definition save_request :: "js_string \<Rightarrow> js_string \<Rightarrow> js_string \<Rightarrow> int \<Rightarrow> request" where
  "save_request token slug month n =
     (let req = jsonRequest (obj_lit [(''included_credits'', Some (jnum n))]) in
      \<lparr>req_method = ''PUT'', req_url = ''/api/v1/instances/'' @ encodeURIComponent slug @ ''/budgets/'' @ encodeURIComponent month,
       req_headers = bearer token @ fst req, req_body = snd req\<rparr>)"

lemma budget_calls: "portalGetBudgetMonth token slug month = fetchJson (read_request token slug month)"
  "operatorSetBudgetMonth token slug month n = fetchJson (save_request token slug month n)"
  by (simp_all add: portalGetBudgetMonth_def operatorSetBudgetMonth_def read_request_def save_request_def api_call_def Let_def)

definition reads :: "request list \<Rightarrow> request list" where
  "reads = filter (\<lambda>r. req_method r = ''GET'')"

lemma reads_simps [simp]:
  "reads [] = []" "reads [read_request token slug month] = [read_request token slug month]"
  "reads [save_request token slug month n] = []" "reads [logout_request t] = []" "reads (l @ l') = reads l @ reads l'"
  by (simp_all add: reads_def read_request_def save_request_def logout_request_def Let_def)

lemma http_fetch: "http (fetchJson r) w = (fst (fetchJson r (w_net w) (w_http w)), w\<lparr>w_http := w_http w @ [r]\<rparr>)"
  by (simp add: http_def split_beta)

section \<open>The invariant\<close>

definition shown_for :: "js_string \<Rightarrow> month_page \<Rightarrow> world \<Rightarrow> bool" where
  "shown_for token s w \<longleftrightarrow>
     (\<exists>r. (r = read_request token (targetSlug s) (mb_month s) \<or> (\<exists>n. r = save_request token (targetSlug s) (mb_month s) n)) \<and>
        answered (w_net w) (w_http w) r (mb_budget s))"

definition latest_read :: "js_string \<Rightarrow> month_page \<Rightarrow> world \<Rightarrow> bool" where
  "latest_read token s w \<longleftrightarrow>
     mb_requestGeneration s = length (reads (w_http w)) \<and>
     (if reads (w_http w) = [] then mb_loadedKey s = [] \<and> mb_budget s = JNull
      else targetSlug s \<noteq> [] \<and> month_shape (mb_month s) \<and> mb_loadedKey s = budget_key (targetSlug s) (mb_month s) \<and>
        last (reads (w_http w)) = read_request token (targetSlug s) (mb_month s))"

definition month_inv :: "js_string \<Rightarrow> month_page \<Rightarrow> world \<Rightarrow> bool" where
  "month_inv token s w \<longleftrightarrow>
     mb_token s = token \<and> month_shape (currentMonthUTC (fr_env s)) \<and> latest_read token s w \<and>
     (mb_budget s = JNull \<or> shown_for token s w) \<and>
     (\<forall>n. mb_pendingIncludedCredits s = Some n \<longrightarrow> 0 \<le> n \<and> n < 2 ^ 53)"

lemma targetSlug_fields [simp]:
  "targetSlug (mb_month_update f s) = targetSlug s" "targetSlug (mb_budget_update g s) = targetSlug s"
  "targetSlug (mb_loadedKey_update h s) = targetSlug s" "targetSlug (fr_env_update e s) = targetSlug s"
  "targetSlug (fr_app_update a s) = targetSlug s" "targetSlug (fr_router_update b s) = targetSlug s"
  "targetSlug (mb_loading_update c s) = targetSlug s" "targetSlug (mb_loadError_update d s) = targetSlug s"
  "targetSlug (mb_includedCreditsInput_update i s) = targetSlug s" "targetSlug (mb_editing_update j s) = targetSlug s"
  "targetSlug (mb_pendingIncludedCredits_update k s) = targetSlug s" "targetSlug (mb_saveError_update l s) = targetSlug s"
  "targetSlug (mb_saveLoading_update m s) = targetSlug s" "targetSlug (mb_saveSuccess_update n s) = targetSlug s"
  "targetSlug (mb_canEdit_update p s) = targetSlug s" "targetSlug (mb_requestGeneration_update q s) = targetSlug s"
  by (simp_all add: targetSlug_def)

lemmas month_defs = month_inv_def latest_read_def shown_for_def

lemma month_fields [simp]:
  "month_inv token (fr_app_update a s) w \<longleftrightarrow> month_inv token s w" "month_inv token (fr_router_update b s) w \<longleftrightarrow> month_inv token s w"
  "month_inv token (mb_loading_update c s) w \<longleftrightarrow> month_inv token s w" "month_inv token (mb_loadError_update d s) w \<longleftrightarrow> month_inv token s w"
  "month_inv token (mb_includedCreditsInput_update e s) w \<longleftrightarrow> month_inv token s w"
  "month_inv token (mb_editing_update f s) w \<longleftrightarrow> month_inv token s w" "month_inv token (mb_saveError_update g s) w \<longleftrightarrow> month_inv token s w"
  "month_inv token (mb_saveLoading_update h s) w \<longleftrightarrow> month_inv token s w"
  "month_inv token (mb_saveSuccess_update i s) w \<longleftrightarrow> month_inv token s w"
  "month_inv token (mb_canEdit_update j s) w \<longleftrightarrow> month_inv token s w"
  by (simp_all add: month_defs)

lemma month_dropped: "month_inv token s w \<Longrightarrow> month_inv token (s\<lparr>mb_pendingIncludedCredits := None\<rparr>) w"
  by (simp add: month_defs)

lemma month_local [simp]:
  "month_inv token s w \<Longrightarrow> month_inv token (go p s) w" "month_inv token s w \<Longrightarrow> month_inv token (resetEditor s) w"
  "month_inv token s w \<Longrightarrow> month_inv token (load_lower n s) w" "month_inv token s w \<Longrightarrow> month_inv token (beginEdit s) w"
  by (simp_all add: go_def resetEditor_def load_lower_def beginEdit_def month_dropped)

lemma month_later:
  assumes "month_inv token s w" and "w_net w' = w_net w" and "w_http w' = w_http w @ l" and "reads l = []"
  shows "month_inv token s w'"
  using assms answered_later [of "w_net w" "w_http w" _ "mb_budget s" l] unfolding month_defs by auto

interpretation month: safe_frame "month_inv token" for token
  by unfold_locales
    (auto simp: reads_def logout_request_def intro: month_later [where l = "[logout_request t]" for t])

lemma answer_shown:
  assumes "month_inv token s w'" and "r = read_request token (targetSlug s) (mb_month s) \<or> (\<exists>n. r = save_request token (targetSlug s) (mb_month s) n)"
    and "answered (w_net w) (w_http w) r v" and "later w w'" and "v = JNull \<or> reads (w_http w') \<noteq> []"
  shows "month_inv token (s\<lparr>mb_budget := v\<rparr>) w'"
proof -
  have "answered (w_net w') (w_http w') r v" using assms(3,4) by (auto simp: later_def answered_later)
  then show ?thesis using assms(1,2,5) unfolding month_defs by auto
qed

text \<open>A reviewed number is a safe integer that is not negative.\<close>

lemma parsed_digits: "list_all is_digit raw \<Longrightarrow> raw \<noteq> [] \<Longrightarrow> parseInt10 raw = Some n \<Longrightarrow> 0 \<le> n"
  by (cases raw) (auto simp: parseInt10_def startsWith_def is_digit_def split: if_splits)

lemma month_reviewed: "month_inv token s w \<Longrightarrow> month_inv token (reviewChange s) w"
  by (auto simp: reviewChange_def Let_def month_dropped)
    (auto simp: month_defs safe_integer_def split: option.splits dest: parsed_digits)

text \<open>The keys of two instances in two months differ.\<close>

lemma budget_key_eq: "month_shape m \<Longrightarrow> month_shape m' \<Longrightarrow> budget_key a m = budget_key b m' \<longleftrightarrow> a = b \<and> m = m'"
  by (auto simp: budget_key_def month_shape_def)

section \<open>The handlers\<close>

lemma month_rejected:
  assumes "\<And>e w'. later w w' \<Longrightarrow> safe later (month_inv token) w' (throw e)" and "\<And>x w'. later w w' \<Longrightarrow> safe later (month_inv token) w' (k x)"
  shows "safe later (month_inv token) w (handleUnauthorized e throw k)"
proof -
  have "safe later (month_inv token) w (leave throw (k True))" using assms by (intro month.leave_guarded)
  moreover have "safe later (month_inv token) w (await (\<lambda>w. (False, w)) k)"
    using assms(2) by (intro safeR safe_await) auto
  ultimately show ?thesis by (simp add: handleUnauthorized_def)
qed

lemma month_finish: "(\<And>s w. month_inv token s w \<Longrightarrow> month_inv token (g s) w) \<Longrightarrow> safe later (month_inv token) w (\<lambda>s. finish (g s))"
  by (intro safeR safe_finish)

lemma load_failed_guarded: "safe later (month_inv token) w (load_failed g e)"
proof (rule safeR)
  fix s w' assume "month_inv token s w'"
  moreover have "safe later (month_inv token) w' (handleUnauthorized e (\<lambda>_ s. finish (load_lower n s))
      (\<lambda>out s. finish (load_lower n (if out then s else s\<lparr>mb_loadError := show_error s e\<rparr>))))" for n
    by (intro month_rejected month_finish) simp_all
  ultimately show "safe_result later (month_inv token) w' (load_failed g e s)"
    by (simp add: load_failed_def safe_finish safe_laterD)
qed

lemma save_failed_guarded: "safe later (month_inv token) w (save_failed e)"
  unfolding save_failed_def by (intro month_rejected month_finish) simp_all

text \<open>The answer to the load number \<open>g\<close>: when that is still the last load, its request is the last reading request.\<close>

lemma load_answered:
  assumes r: "reads (w_http w) = l @ [r]" and a: "answered (w_net w) (w_http w) r v"
  shows "safe later (month_inv token) w (load_result (Suc (length l)) v)"
proof (rule safeR)
  fix s w' assume w': "later w w'" and s: "month_inv token s w'"
  obtain l' where l': "w_http w' = w_http w @ l'" using w' by (auto simp: later_def)
  have "month_inv token (s\<lparr>mb_budget := v\<rparr>) w'" if g: "Suc (length l) = mb_requestGeneration s"
  proof -
    have "reads l' = []" using g s by (simp add: month_inv_def latest_read_def l' r)
    then have "reads (w_http w') = l @ [r]" by (simp add: l' r)
    then have "r = read_request token (targetSlug s) (mb_month s)" using s by (simp add: month_inv_def latest_read_def)
    then show ?thesis using answer_shown [OF s _ a w'] \<open>reads (w_http w') = l @ [r]\<close> by simp
  qed
  then show "safe_result later (month_inv token) w' (load_result (Suc (length l)) v s)"
    using s by (auto simp: load_result_def Let_def intro!: safe_finish safe_laterD [OF load_failed_guarded])
qed

lemma load_guarded:
  assumes "mb_token s = token" and "month_shape (currentMonthUTC (fr_env s))" and "slug \<noteq> []" and "month_shape month"
    and "slug = targetSlug s" and "mb_month s = month" and "mb_loadedKey s = budget_key slug month"
    and g: "mb_requestGeneration s = length (reads (w_http w))"
  shows "safe_result later (month_inv token) w (loadCurrentBudget slug month s)"
proof -
  let ?r = "read_request token slug month" and ?w = "w\<lparr>w_http := w_http w @ [read_request token slug month]\<rparr>"
  let ?s = "resetEditor (s\<lparr>mb_requestGeneration := Suc (length (reads (w_http w))), mb_loading := True, mb_loadError := None, mb_budget := JNull,
      mb_saveSuccess := None\<rparr>)"
  note op = http_fetch [of ?r w]
  have "month_inv token ?s ?w" using assms by (auto simp: month_defs resetEditor_def)
  moreover have "later w ?w" by (simp add: later_def)
  moreover have "safe later (month_inv token) ?w (load_result (Suc (length (reads (w_http w)))) v)" if "fst (fetchJson ?r (w_net w) (w_http w)) = Inr v" for v
    using that answered_now by (intro load_answered) auto
  then have "safe later (month_inv token) ?w (case_sum (load_failed n) (load_result (Suc (length (reads (w_http w))))) (fst (fetchJson ?r (w_net w) (w_http w))))" for n
    by (auto split: sum.split intro: load_failed_guarded)
  moreover have "loadCurrentBudget slug month s =
      try_await (http (fetchJson ?r)) (load_failed (Suc (length (reads (w_http w))))) (load_result (Suc (length (reads (w_http w))))) ?s"
    by (simp add: loadCurrentBudget_def budget_calls Let_def g assms(1) resetEditor_def)
  ultimately show ?thesis unfolding try_await_def by (simp only:) (intro safe_await, simp add: op)
qed

lemma month_started:
  assumes "month_inv token s w" and "slug = targetSlug s" and "slug \<noteq> []"
  shows "safe_result later (month_inv token) w (loadCurrentBudget slug (currentMonthUTC (fr_env s))
    (s\<lparr>mb_month := currentMonthUTC (fr_env s), mb_loadedKey := budget_key slug (currentMonthUTC (fr_env s))\<rparr>))"
  using assms by (intro load_guarded) (simp_all add: month_inv_def latest_read_def)

lemma budget_refresh_guarded: "safe later (month_inv token) w refresh_budget"
  by (rule safeR) (simp add: refresh_budget_def Let_def month_started safe_finish)

lemma effect_guarded: "safe later (month_inv token) w slug_effect"
  by (rule safeR) (simp add: slug_effect_def Let_def month_started safe_finish)

text \<open>The slug changes: unless the key of the new slug is the loaded one, and then nothing has changed, the budget is loaded anew.\<close>

lemma slug_guarded:
  assumes "toLowerCase (js_trim t) \<noteq> []"
  shows "safe later (month_inv token) w (\<lambda>s. slug_effect (s\<lparr>mb_slug := t\<rparr>))"
proof (rule safeR)
  fix s w' assume s: "month_inv token s w'"
  let ?s = "s\<lparr>mb_slug := t\<rparr>" and ?m = "currentMonthUTC (fr_env s)"
  have t: "targetSlug ?s = toLowerCase (js_trim t)" by (simp add: targetSlug_def)
  show "safe_result later (month_inv token) w' (slug_effect ?s)"
  proof (cases "budget_key (toLowerCase (js_trim t)) ?m = mb_loadedKey s")
    case True
    then have "reads (w_http w') \<noteq> []" using s by (auto simp: month_inv_def latest_read_def budget_key_def)
    then have "targetSlug ?s = targetSlug s" using True s budget_key_eq t by (simp add: month_inv_def latest_read_def)
    then have "month_inv token ?s w'" using s by (simp add: month_defs)
    then show ?thesis using True by (simp add: slug_effect_def Let_def t safe_finish)
  next
    case False
    have "safe_result later (month_inv token) w' (loadCurrentBudget (toLowerCase (js_trim t)) ?m
        (?s\<lparr>mb_month := ?m, mb_loadedKey := budget_key (toLowerCase (js_trim t)) ?m\<rparr>))"
      using s assms t by (intro load_guarded) (simp_all add: month_inv_def latest_read_def)
    then show ?thesis using False assms by (simp add: slug_effect_def Let_def t)
  qed
qed

lemma save_answered:
  assumes "answered (w_net w) (w_http w) (save_request token slug month n) v" and "reads (w_http w) \<noteq> []"
  shows "safe later (month_inv token) w (save_result slug month v)"
proof (rule safeR)
  fix s w' assume w': "later w w'" and s: "month_inv token s w'"
  have "month_inv token (s\<lparr>mb_budget := v\<rparr>) w'" if "slug = targetSlug s" "month = mb_month s"
    by (rule answer_shown [OF s _ assms(1) w']) (use assms(2) w' that in \<open>auto simp: later_def\<close>)
  then show "safe_result later (month_inv token) w' (save_result slug month v s)"
    using s by (auto simp: save_result_def Let_def intro!: safe_finish safe_laterD [OF save_failed_guarded])
qed

lemma confirm_guarded: "safe later (month_inv token) w confirmChange"
proof (rule safeR)
  fix s w' assume s: "month_inv token s w'"
  have call: "safe_result later (month_inv token) w' (try_await (http (operatorSetBudgetMonth (mb_token s) slug month n)) save_failed
      (save_result slug month) (s\<lparr>mb_saveLoading := True, mb_saveError := None, mb_saveSuccess := None\<rparr>))"
    if "mb_budget s \<noteq> JNull" for slug month n
  proof -
    let ?r = "save_request token slug month n" and ?w = "w'\<lparr>w_http := w_http w' @ [save_request token slug month n]\<rparr>"
    have t: "mb_token s = token" using s by (simp add: month_inv_def)
    note op = http_fetch [of ?r w']
    have "month_inv token s ?w" by (rule month_later [OF s, where l = "[?r]"]) simp_all
    moreover have "reads (w_http ?w) \<noteq> []" using s that by (auto simp: month_inv_def latest_read_def)
    then have "safe later (month_inv token) ?w (case_sum save_failed (save_result slug month) (fst (fetchJson ?r (w_net w') (w_http w'))))"
      by (auto split: sum.split intro!: save_failed_guarded save_answered answered_now)
    moreover have "later w' ?w" by (simp add: later_def)
    ultimately have "later w' w2 \<and> month_inv token (s\<lparr>mb_saveLoading := True, mb_saveError := None, mb_saveSuccess := None\<rparr>) w2 \<and>
        safe later (month_inv token) w2 (case_sum save_failed (save_result slug month) a)" if "http (fetchJson ?r) w' = (a, w2)" for a w2
      using that unfolding op by (elim Pair_inject) simp
    then show ?thesis unfolding try_await_def t budget_calls by (rule safe_await)
  qed
  show "safe_result later (month_inv token) w' (confirmChange s)"
    using s by (simp add: confirmChange_def Let_def safe_finish call split: option.split)
qed

lemma month_clock: "month_shape (currentMonthUTC e) \<Longrightarrow> month_inv token s w \<Longrightarrow> month_inv token (s\<lparr>fr_env := e\<rparr>) w"
  by (simp add: month_defs)

lemma budget_inputs_guarded: "h \<in> month_inputs \<Longrightarrow> safe later (month_inv token) w h"
  by (induction rule: month_inputs.induct) (auto intro!: month_finish slug_guarded month_reviewed month_dropped month_clock)

interpretation month_invariant: page_invariant month_handlers later "month_inv token" for token
  by unfold_locales (auto simp: month_handlers_def intro: later_trans effect_guarded budget_refresh_guarded confirm_guarded budget_inputs_guarded)

lemma month_reached:
  assumes "page_reachable month_handlers (fresh_page (initial_month env a rt token slug edit) w) pg" and "w_http w = []"
    and "month_shape (currentMonthUTC env)"
  shows "month_inv token (pg_state pg) (pg_world pg)"
  by (rule month_invariant.reachable_invariant [OF assms(1)])
    (simp_all add: fresh_page_def initial_month_def month_defs assms(2,3))

text \<open>C14. The budget on the page is that of the instance and the month on the page.  Whatever the order in which loads, saves,
  changes of the instance and turns of the month happen and in whatever order the answers come, a budget that is shown is an
  answer of the server to a read of this instance and month, or to a save for them.  The clock is assumed to
  write months as \<open>YYYY-MM\<close>.\<close>

theorem shown_budget_current:
  assumes "page_reachable month_handlers (fresh_page (initial_month env a rt token slug edit) w) pg" and "w_http w = []"
    and "month_shape (currentMonthUTC env)" and "mb_budget (pg_state pg) \<noteq> JNull"
  shows "shown_for token (pg_state pg) (pg_world pg)"
  using month_reached [OF assms(1-3)] assms(4) by (simp add: month_inv_def)

section \<open>What is saved\<close>

definition month_emits :: "month_page \<Rightarrow> request \<Rightarrow> bool" where
  "month_emits s r \<longleftrightarrow>
     (\<exists>slug month. r = read_request (mb_token s) slug month) \<or>
     (\<exists>v t. app_session (fr_app s) = Some v \<and> string_member v ''token'' = Some t \<and> r = logout_request t) \<or>
     (\<exists>n. mb_canEdit s \<and> mb_budget s \<noteq> JNull \<and> mb_pendingIncludedCredits s = Some n \<and>
        r = save_request (mb_token s) (targetSlug s) (mb_month s) n)"

interpretation month: emitting_page month_emits
  by unfold_locales (auto simp: month_emits_def)

lemma handleUnauthorized_obeys:
  "(\<And>e. obeys (emits month_emits) (throw e)) \<Longrightarrow> (\<And>x. obeys (emits month_emits) (k x)) \<Longrightarrow>
   obeys (emits month_emits) (handleUnauthorized e throw k)"
  unfolding handleUnauthorized_def by (cases "unauthorized e") (auto intro: month.leave_obeys intro!: obeysR [of _ "await _ _"] obeys_await)

lemma month_stops: "obeys (emits month_emits) (\<lambda>s. finish (g s))"
  by (intro obeysR obeys_stop)

lemma failed_obeys: "obeys (emits month_emits) (load_failed g e)" "obeys (emits month_emits) (save_failed e)"
proof -
  have "obeys (emits month_emits) (handleUnauthorized e (\<lambda>_ s. finish (load_lower n s))
      (\<lambda>out s. finish (load_lower n (if out then s else s\<lparr>mb_loadError := show_error s e\<rparr>))))" for n
    by (intro handleUnauthorized_obeys month_stops)
  then show "obeys (emits month_emits) (load_failed g e)"
    by (intro obeysR) (simp add: load_failed_def obeys_stop obeysD)
  show "obeys (emits month_emits) (save_failed e)" unfolding save_failed_def by (intro handleUnauthorized_obeys month_stops)
qed

lemma failed_call: "obeys_result (emits month_emits) s (load_failed g e (s\<lparr>mb_budget := JNull\<rparr>))"
  "obeys_result (emits month_emits) s (save_failed e (s\<lparr>mb_budget := JNull\<rparr>))"
  by (rule obeys_call [OF failed_obeys(1)], auto simp: month_emits_def) (rule obeys_call [OF failed_obeys(2)], auto simp: month_emits_def)

lemma result_obeys: "obeys (emits month_emits) (load_result g v)" "obeys (emits month_emits) (save_result slug month v)"
  by (rule obeysR, cases "v = JNull", simp_all add: load_result_def save_result_def Let_def failed_call)+

lemma budget_load_obeys: "sends (http (portalGetBudgetMonth (mb_token s) slug month)) (month_emits s') \<Longrightarrow>
    obeys_result (emits month_emits) s' (loadCurrentBudget slug month s)"
  unfolding loadCurrentBudget_def Let_def resetEditor_def
  by (intro obeys_sends failed_obeys result_obeys) simp

lemma month_sends:
  "mb_token s = mb_token s' \<Longrightarrow> sends (http (portalGetBudgetMonth (mb_token s) slug month)) (month_emits s')"
  "mb_canEdit s \<Longrightarrow> mb_budget s \<noteq> JNull \<Longrightarrow> mb_pendingIncludedCredits s = Some n \<Longrightarrow>
   sends (http (operatorSetBudgetMonth (mb_token s) (targetSlug s) (mb_month s) n)) (month_emits s)"
  unfolding budget_calls by (rule sends_fetch; force simp: month_emits_def)+

lemma handlers_obey: "h \<in> month_handlers \<Longrightarrow> obeys (emits month_emits) h"
proof -
  have effect: "obeys_result (emits month_emits) s' (slug_effect s)" if "mb_token s = mb_token s'" for s s'
    using that by (simp add: slug_effect_def Let_def budget_load_obeys month_sends)
  have "obeys (emits month_emits) refresh_budget"
    by (rule obeysR) (simp add: refresh_budget_def Let_def budget_load_obeys month_sends)
  moreover have "obeys (emits month_emits) confirmChange"
    by (rule obeysR) (auto simp: confirmChange_def Let_def intro!: obeys_sends failed_obeys result_obeys month_sends split: option.split)
  moreover have "obeys (emits month_emits) h" if "h \<in> month_inputs" for h
    using that by (induction rule: month_inputs.induct) (auto intro!: month_stops obeysR effect)
  ultimately show "h \<in> month_handlers \<Longrightarrow> obeys (emits month_emits) h"
    by (auto simp: month_handlers_def intro: obeysR effect)
qed

interpretation month_steps: step_discipline month_handlers "emits month_emits"
  by unfold_locales (simp_all add: handlers_obey)

text \<open>C40. Only a reviewed budget is saved.  At every step of the page, after whatever has happened before, the requests sent are reads, the
  logout of the current session, and a save that carries exactly the number under review for the instance and the month
  on the page, which the operator may edit and whose budget is shown; that number is an integer from 0 to 2^53 - 1, so
  that the text of the request is that number to the last digit.\<close>

theorem saved_budget_reviewed:
  assumes "page_reachable month_handlers (fresh_page (initial_month env a rt token slug edit) w) pg" and "w_http w = []"
    and "month_shape (currentMonthUTC env)" and "page_step month_handlers pg pg'"
  shows "\<exists>sent. w_http (pg_world pg') = w_http (pg_world pg) @ sent \<and>
    list_all (\<lambda>r. month_emits (pg_state pg) r \<and>
      (req_method r \<noteq> ''PUT'' \<or>
       (\<exists>n. 0 \<le> n \<and> n < 2 ^ 53 \<and> r = save_request token (targetSlug (pg_state pg)) (mb_month (pg_state pg)) n \<and>
          shown_for token (pg_state pg) (pg_world pg)))) sent"
proof -
  let ?s = "pg_state pg"
  have i: "month_inv token ?s (pg_world pg)" by (rule month_reached [OF assms(1-3)])
  have "emits month_emits ?s (pg_world pg) (pg_world pg')"
    by (rule month_steps.reachable_step [OF assms(1) _ assms(4)]) (simp add: fresh_page_def)
  then obtain sent where sent: "w_http (pg_world pg') = w_http (pg_world pg) @ sent" "\<forall>r \<in> set sent. month_emits ?s r"
    by (auto simp: emits_def)
  have "\<exists>n. 0 \<le> n \<and> n < 2 ^ 53 \<and> r = save_request token (targetSlug ?s) (mb_month ?s) n \<and> shown_for token ?s (pg_world pg)"
    if "month_emits ?s r" "req_method r = ''PUT''" for r
    using that i unfolding month_emits_def month_inv_def by (auto simp: read_request_def logout_request_def)
  then show ?thesis using sent by (auto simp: list_all_iff)
qed

section \<open>A run\<close>

definition sample_month_env :: env where
  "sample_month_env = sample_env\<lparr>env_clock := \<lparr>date_now = 0, date_parse = \<lambda>_. None, date_iso = \<lambda>_. Some ''2026-01-15T00:00:00.000Z''\<rparr>\<rparr>"

definition sample_budget :: json where
  "sample_budget = JObj [(''included_credits'', jnum 5)]"

definition sample_month_run :: "month_segment list" where
  "sample_month_run = [slug_effect, \<lambda>s. finish (s\<lparr>mb_includedCreditsInput := ''12''\<rparr>), \<lambda>s. finish (reviewChange s)]"

abbreviation sample_month :: month_page where
  "sample_month \<equiv> initial_month sample_month_env sample_app (load_router ''/'' sample_storage) ''t'' ''demo'' True"

abbreviation sample_month_page :: "(month_page, world) page" where
  "sample_month_page \<equiv> fresh_page (fst (run_all sample_month_run sample_month (sample_world (\<lambda>_. sample_budget))))
     (snd (run_all sample_month_run sample_month (sample_world (\<lambda>_. sample_budget))))"

lemma sample_month_reached: "page_reachable month_handlers (fresh_page sample_month (sample_world (\<lambda>_. sample_budget))) sample_month_page"
  by (rule run_all_reachable) (auto simp: sample_month_run_def month_handlers_def intro: month_inputs.intros)

lemma sample_clock_shape: "month_shape (currentMonthUTC sample_month_env)"
  by (simp add: currentMonthUTC_def sample_month_env_def month_shape_def is_digit_def opt_or_def str_or_def)

lemma sample_budget_wf: "wf_json sample_budget" "sample_budget \<noteq> JNull"
  using wf_jnum [of 5] by (simp_all add: sample_budget_def del: wf_jnum)

lemma sample_budget_read: "int_at sample_budget ''included_credits'' = Some 5"
  using parseIntStrict_string_of_int [of 5] by (simp add: sample_budget_def int_at_def obj_get_def jnum_def)

lemma sample_month_state:
  "mb_budget (pg_state sample_month_page) = sample_budget" "targetSlug (pg_state sample_month_page) = ''demo''"
  "mb_pendingIncludedCredits (pg_state sample_month_page) = Some 12" "mb_month (pg_state sample_month_page) = ''2026-01''"
  "mb_canEdit (pg_state sample_month_page)" "mb_token (pg_state sample_month_page) = ''t''"
  by (simp_all add: fresh_page_def sample_month_run_def run_eval slug_effect_def initial_month_def loadCurrentBudget_def load_result_def
      load_lower_def resetEditor_def targetSlug_def budget_key_def budget_calls http_net_of sample_budget_wf sample_budget_read finish_def lower_char_def sample_month_env_def currentMonthUTC_def
      sample_world_def reviewChange_def opt_or_def str_or_def js_trim_def is_space_def toLowerCase_def is_digit_def
      safe_integer_def parseInt10_def startsWith_def to_double_def hex_value_def)

theorem shown_budget_current_witness:
  "shown_for ''t'' (pg_state sample_month_page) (pg_world sample_month_page) \<and> mb_budget (pg_state sample_month_page) \<noteq> JNull"
  using shown_budget_current [OF sample_month_reached _ sample_clock_shape] sample_month_state(1) sample_budget_wf(2)
  by (simp add: sample_world_def)

lemma sample_budget_save:
  "w_http (pg_world (run_segment confirmChange sample_month_page)) = w_http (pg_world sample_month_page) @ [save_request ''t'' ''demo'' ''2026-01'' 12]"
  using sample_month_state sample_budget_wf(2)
  by (simp add: run_segment_def confirmChange_def Let_def try_await_def await_def budget_calls http_fetch)

theorem saved_budget_reviewed_witness:
  "list_all (\<lambda>r. month_emits (pg_state sample_month_page) r \<and> r = save_request ''t'' ''demo'' ''2026-01'' 12)
     [save_request ''t'' ''demo'' ''2026-01'' 12] \<and> shown_for ''t'' (pg_state sample_month_page) (pg_world sample_month_page)"
proof -
  have "page_step month_handlers sample_month_page (run_segment confirmChange sample_month_page)"
    by (rule page_step.start) (simp add: month_handlers_def)
  from saved_budget_reviewed [OF sample_month_reached _ sample_clock_shape this]
  show ?thesis unfolding sample_budget_save by (auto simp: sample_world_def save_request_def Let_def)
qed

end
