(* ===== verification/Overview_Correct.thy ===== *)
theory Overview_Correct
  imports Overview_Page Signing
begin

text \<open>
  The overview of an instance and the wallet, under every interleaving: the consent to a provisioning is the only thing the page has
  signed, and it is signed as the server issued it.
\<close>

section \<open>What the wallet may be asked\<close>

text \<open>A consent challenge that the server issued for this instance and a valid name of its admin.\<close>

definition issued_consent :: "js_string \<Rightarrow> js_string \<Rightarrow> net \<Rightarrow> request list \<Rightarrow> json \<Rightarrow> bool" where
  "issued_consent token slug net log challenge \<longleftrightarrow>
     (\<exists>r admin. slugRE admin \<and> fetchJson r = portalProvisionConsentChallenge token slug (Some admin) \<and> answered net log r challenge)"

lemma consent_later: "issued_consent token slug net l c \<Longrightarrow> issued_consent token slug net (l @ l') c"
  unfolding issued_consent_def by (blast dest: answered_later)

definition consent_call_ok :: "js_string \<Rightarrow> js_string \<Rightarrow> net \<Rightarrow> request list \<Rightarrow> rpc_request \<Rightarrow> bool" where
  "consent_call_ok token slug net log q \<longleftrightarrow>
     reads_wallet q \<or>
     (\<exists>challenge. issued_consent token slug net log challenge \<and>
        (let wallet = part_of challenge ''wallet''; address = js_trim (text_at wallet ''address'') in
         address \<noteq> [] \<and> signs (text_at wallet ''message'') address q))"

definition overview_ok :: "js_string \<Rightarrow> js_string \<Rightarrow> overview_page \<Rightarrow> net \<Rightarrow> request list \<Rightarrow> bool" where
  "overview_ok token slug s net log \<longleftrightarrow> ip_token s = token \<and> ip_slug s = slug"

interpretation overview_wallet: signing_page "overview_ok token slug" "consent_call_ok token slug" for token slug
  by unfold_locales (auto simp: overview_ok_def consent_call_ok_def Let_def dest: consent_later)

abbreviation overview_inv :: "js_string \<Rightarrow> js_string \<Rightarrow> overview_page \<Rightarrow> world \<Rightarrow> bool" where
  "overview_inv token slug \<equiv> signing_inv (overview_ok token slug) (consent_call_ok token slug)"

abbreviation consenting :: "js_string \<Rightarrow> js_string \<Rightarrow> world \<Rightarrow> overview_segment \<Rightarrow> bool" where
  "consenting token slug \<equiv> safe later (overview_inv token slug)"

text \<open>Only the token and the slug of the page matter.\<close>

lemma overview_fields [simp]:
  "overview_inv t g (ov_instanceLoading_update z0 s) w \<longleftrightarrow> overview_inv t g s w"
  "overview_inv t g (ov_instanceError_update z1 s) w \<longleftrightarrow> overview_inv t g s w"
  "overview_inv t g (ov_instance_update z2 s) w \<longleftrightarrow> overview_inv t g s w"
  "overview_inv t g (ov_domainsLoading_update z3 s) w \<longleftrightarrow> overview_inv t g s w"
  "overview_inv t g (ov_domainsError_update z4 s) w \<longleftrightarrow> overview_inv t g s w"
  "overview_inv t g (ov_domains_update z5 s) w \<longleftrightarrow> overview_inv t g s w"
  "overview_inv t g (ov_provisioningLoading_update z6 s) w \<longleftrightarrow> overview_inv t g s w"
  "overview_inv t g (ov_provisioningError_update z7 s) w \<longleftrightarrow> overview_inv t g s w"
  "overview_inv t g (ov_provisioningJob_update z8 s) w \<longleftrightarrow> overview_inv t g s w"
  "overview_inv t g (ov_polling_update z9 s) w \<longleftrightarrow> overview_inv t g s w"
  "overview_inv t g (ov_updatesLoading_update z10 s) w \<longleftrightarrow> overview_inv t g s w"
  "overview_inv t g (ov_updatesError_update z11 s) w \<longleftrightarrow> overview_inv t g s w"
  "overview_inv t g (ov_updateJobs_update z12 s) w \<longleftrightarrow> overview_inv t g s w"
  "overview_inv t g (ov_updatesPolling_update z13 s) w \<longleftrightarrow> overview_inv t g s w"
  "overview_inv t g (ov_updateCreating_update z14 s) w \<longleftrightarrow> overview_inv t g s w"
  "overview_inv t g (ov_updateLesserVersion_update z15 s) w \<longleftrightarrow> overview_inv t g s w"
  "overview_inv t g (ov_updateLesserBodyVersion_update z16 s) w \<longleftrightarrow> overview_inv t g s w"
  "overview_inv t g (ov_provisionRegion_update z17 s) w \<longleftrightarrow> overview_inv t g s w"
  "overview_inv t g (ov_provisionLesserVersion_update z18 s) w \<longleftrightarrow> overview_inv t g s w"
  "overview_inv t g (ov_provisionAdminUsername_update z19 s) w \<longleftrightarrow> overview_inv t g s w"
  "overview_inv t g (ov_pollController_update z20 s) w \<longleftrightarrow> overview_inv t g s w"
  "overview_inv t g (ov_updatesPollController_update z21 s) w \<longleftrightarrow> overview_inv t g s w"
  "overview_inv t g (ov_controllers_update z22 s) w \<longleftrightarrow> overview_inv t g s w"
  "overview_inv t g (ov_aborted_update z23 s) w \<longleftrightarrow> overview_inv t g s w"
  by (simp_all add: signing_inv_def overview_ok_def)

lemma overview_props: "overview_inv token slug s w \<Longrightarrow> ip_token s = token \<and> ip_slug s = slug"
  by (simp add: signing_inv_def overview_ok_def)

lemma abort_overview [simp]:
  "overview_inv t g (abortPolling s) w \<longleftrightarrow> overview_inv t g s w"
  "overview_inv t g (abortUpdatesPolling s) w \<longleftrightarrow> overview_inv t g s w"
  by (simp_all add: abortPolling_def abortUpdatesPolling_def abort_controller_def split: option.split)

lemma overview_instant:
  "(\<And>s w. overview_inv token slug s w \<Longrightarrow> overview_inv token slug (g s) w) \<Longrightarrow> consenting token slug w (\<lambda>s. finish (g s))"
  by (intro safeR safe_finish)

lemma overview_rejected:
  assumes "\<And>e s w. overview_inv token slug s w \<Longrightarrow> overview_inv token slug (lower (fail e s)) w"
    and "\<And>s w. overview_inv token slug s w \<Longrightarrow> overview_inv token slug (lower s) w"
  shows "consenting token slug w (rejected lower fail (\<lambda>_. finish) finish e)"
  using assms by (intro overview_wallet.rejected_guarded overview_wallet.signing_finish)

text \<open>A request that is not about consent.\<close>

lemma overview_http:
  assumes "overview_inv token slug s w" and "single op"
    and "\<And>e w. consenting token slug w (catch e)" and "\<And>v w. consenting token slug w (k v)"
  shows "safe_result later (overview_inv token slug) w (try_await (http op) catch k s)"
  using assms by (intro overview_wallet.signing_call)

lemma single_overview [simp]:
  "single (portalGetInstance t i)" "single (portalListInstanceDomains t i)" "single (portalGetProvisioning t i)"
  "single (portalListUpdateJobs t i n)" "single (portalCreateUpdateJob t i j)" "single (portalStartProvisioning t i b)"
  "single (portalProvisionConsentChallenge t i u)"
  by (simp_all add: portalGetInstance_def portalListInstanceDomains_def portalGetProvisioning_def portalListUpdateJobs_def
      portalCreateUpdateJob_def portalStartProvisioning_def portalProvisionConsentChallenge_def Let_def)

section \<open>The handlers\<close>

lemmas consents = safeR safe_finish overview_http overview_rejected safe_laterD [OF overview_rejected] overview_wallet.detach_guarded
  overview_wallet.signing_finish

lemma loads_consenting:
  "consenting token slug w loadInstance" "consenting token slug w loadDomains_overview"
  "consenting token slug w loadProvisioning" "consenting token slug w loadUpdates"
  unfolding loadInstance_def loadDomains_overview_def loadProvisioning_def loadUpdates_def Let_def
  by (auto intro!: consents split: sum.split)

lemma pollProvisioning_consenting: "consenting token slug w (pollProvisioning fuel)"
proof -
  have ask: "consenting token slug w (ask_provisioning catch k)"
    if "\<And>e w. consenting token slug w (catch e)" "\<And>v w. consenting token slug w (k v)" for catch k w
    unfolding ask_provisioning_def [abs_def] by (rule safeR, rule overview_http, assumption, simp) (rule that)+
  have poll: "consenting token slug w (poll_until ov_aborted fuel ctl ask_provisioning (\<lambda>job s. Inr (s\<lparr>ov_provisioningJob := job\<rparr>)) d failed k)"
    if "\<And>e w. consenting token slug w (failed e)" "\<And>w. consenting token slug w k" for w ctl d failed k
    using that by (intro poll_until_safe ask) auto
  show ?thesis unfolding pollProvisioning_def Let_def by (rule safeR) (auto intro!: safe_laterD [OF poll] consents)
qed

lemma update_seen_overview: "update_seen job s = Inr s' \<Longrightarrow> overview_inv t g s' w \<longleftrightarrow> overview_inv t g s w"
  by (auto simp: update_seen_def split: if_splits sum.splits option.splits)

lemma ask_updates_consenting:
  assumes c: "\<And>e w. consenting token slug w (catch e)" and k: "\<And>v w. consenting token slug w (k v)"
  shows "consenting token slug w (ask_updates jobId catch k)"
proof -
  have r: "consenting token slug w (returned x catch k)" for x w
    unfolding returned_def [abs_def]
    by (rule safeR, rule overview_wallet.signing_sends, assumption, rule pure_sends) (simp_all add: c k)
  show ?thesis
    unfolding ask_updates_def [abs_def]
    by (rule safeR, rule overview_http, assumption, simp, rule r)
      (auto intro!: safeR safe_laterD [OF r] split: sum.split option.split)
qed

lemma pollUpdateJob_consenting: "consenting token slug w (pollUpdateJob fuel jobId)"
proof -
  have poll: "consenting token slug w (poll_until ov_aborted fuel ctl (ask_updates jobId) update_seen d failed k)"
    if "\<And>e w. consenting token slug w (failed e)" "\<And>w. consenting token slug w k" for w ctl d failed k
    using that by (intro poll_until_safe ask_updates_consenting) (simp_all add: update_seen_overview)
  show ?thesis
    unfolding pollUpdateJob_def Let_def
    by (rule safeR) (auto intro!: safe_laterD [OF poll] loads_consenting consents split: sum.split option.split)
qed

lemma startUpdateJob_consenting: "consenting token slug w (startUpdateJob fuel opts)"
  unfolding startUpdateJob_def Let_def
  by (auto intro!: consents pollUpdateJob_consenting split: sum.split option.split)

section \<open>The consent\<close>

lemma provision_failed_consenting: "consenting token slug w (provision_failed e)"
  unfolding provision_failed_def by (rule overview_rejected) (simp_all add: provision_lower_def)

lemma issued_world: "issued_consent token slug (w_net w) (w_http w) c \<Longrightarrow> later w w' \<Longrightarrow> issued_consent token slug (w_net w') (w_http w') c"
  by (auto simp: later_def consent_later)

text \<open>A wallet whose challenge was issued.\<close>

lemma with_signature_consenting: "consenting token slug w (with_signature fuel region version challenge wallet signature)"
  unfolding with_signature_def [abs_def]
  by (rule safeR, rule overview_http, assumption, simp, rule provision_failed_consenting, rule safeR,
      rule overview_wallet.detach_guarded, rule pollProvisioning_consenting) (simp_all add: provision_lower_def)

lemma with_accounts_consenting:
  assumes "issued_consent token slug (w_net w) (w_http w) challenge"
    and "wallet = part_of challenge ''wallet''" and "address = js_trim (text_at wallet ''address'')" and "address \<noteq> []"
  shows "consenting token slug w (with_accounts fuel p region version challenge wallet address accounts)"
proof (rule safeR)
  fix s w1 assume w1: "later w w1" and s: "overview_inv token slug s w1"
  have "consent_call_ok token slug (w_net w1) (w_http w1) q" if "signs (text_at wallet ''message'') address q" for q
    using issued_world [OF assms(1) w1] assms(2-4) that unfolding consent_call_ok_def Let_def by blast
  then show "safe_result later (overview_inv token slug) w1 (with_accounts fuel p region version challenge wallet address accounts s)"
    unfolding with_accounts_def using s
    by (auto simp: provision_lower_def intro!: safe_finish overview_wallet.signing_rpc [OF _ personalSign_asks]
        provision_failed_consenting with_signature_consenting)
qed

lemma reads_ok: "reads_wallet q \<Longrightarrow> consent_call_ok token slug net log q"
  by (simp add: consent_call_ok_def)

lemma sign_consent_consenting:
  assumes "issued_consent token slug (w_net w) (w_http w) challenge"
  shows "consenting token slug w (sign_consent fuel p region version challenge)"
proof (rule safeR)
  fix s w1 assume w1: "later w w1" and s: "overview_inv token slug s w1"
  have "issued_consent token slug (w_net w2) (w_http w2) challenge" if "later w1 w2" for w2
    using issued_world [OF assms later_trans [OF w1 that]] .
  then show "safe_result later (overview_inv token slug) w1 (sign_consent fuel p region version challenge s)"
    unfolding sign_consent_def Let_def using s
    by (auto simp: provision_lower_def intro!: safe_finish safe_laterD [OF provision_failed_consenting] provision_failed_consenting
        overview_wallet.signing_rpc [OF _ reading_asks(2)] reads_ok with_accounts_consenting)
qed

lemma startProvisioning_consenting: "consenting token slug w (startProvisioning fuel)"
proof (rule safeR)
  fix s w1 assume w1: "later w w1" and s: "overview_inv token slug s w1"
  have ask: "safe_result later (overview_inv token slug) w1
      (try_await (http (portalProvisionConsentChallenge (ip_token s) (ip_slug s) (Some admin))) provision_failed
        (sign_consent fuel p region version) s')"
    if "slugRE admin" "overview_inv token slug s' w1" for admin p region version s'
    using overview_props [OF s] that
    by (intro overview_wallet.signing_call that(2) provision_failed_consenting sign_consent_consenting)
      (auto simp: issued_consent_def)
  show "safe_result later (overview_inv token slug) w1 (startProvisioning fuel s)"
    unfolding startProvisioning_def Let_def using s by (auto intro!: ask safe_finish split: option.split)
qed

lemma overview_consenting:
  assumes "h \<in> overview_handlers fuel"
  shows "consenting token slug w h"
proof -
  have "consenting token slug w (poll_active fuel)"
    unfolding poll_active_def Let_def by (auto intro!: safeR safe_laterD [OF pollUpdateJob_consenting] safe_finish)
  moreover have "consenting token slug w (applyConfiguration fuel)" "consenting token slug w (rotateInstanceKey fuel)"
    "consenting token slug w (startVersionUpdate fuel)" "consenting token slug w (updateBodyOnly fuel)"
    "consenting token slug w (updateMcpOnly fuel)"
    unfolding applyConfiguration_def [abs_def] rotateInstanceKey_def [abs_def] startVersionUpdate_def [abs_def]
      updateBodyOnly_def [abs_def] updateMcpOnly_def [abs_def]
    by (rule safeR, rule safe_laterD [OF startUpdateJob_consenting], assumption)+
  moreover have "consenting token slug w overview_slug_effect" "consenting token slug w username_effect"
    unfolding overview_slug_effect_def [abs_def] username_effect_def [abs_def] Let_def
    by (auto intro!: overview_instant intro: overview_wallet.go_ok)
  ultimately show ?thesis
    using assms
    by (auto simp: overview_handlers_def refreshAll_def intro!: overview_instant loads_consenting
        pollProvisioning_consenting startProvisioning_consenting)
qed

interpretation overview_consent: page_invariant "overview_handlers fuel" later "overview_inv token slug" for fuel token slug
  by unfold_locales (simp_all add: overview_consenting later_trans)


definition sample_consent :: json where
  "sample_consent = JObj [(''status'', JStr ''ok''), (''admin_username'', JStr ''shop''),
     (''wallet'', JObj [(''address'', JStr ''0xA1''), (''message'', JStr ''consent'')])]"

definition sample_overview :: overview_page where
  "sample_overview = initial_overview (frame.extend (initial_frame sample_env sample_app (load_router ''/'' sample_storage))
     \<lparr>ip_token = ''T'', ip_slug = ''shop''\<rparr>)"

abbreviation sample_overview_run :: "overview_page \<times> world" where
  "sample_overview_run \<equiv> run_all [startProvisioning 0] sample_overview (sample_world (\<lambda>_. sample_consent))"

lemma sample_consent_members [simp]:
  "wf_json sample_consent" "sample_consent \<noteq> JNull"
  "part_of sample_consent ''wallet'' = JObj [(''address'', JStr ''0xA1''), (''message'', JStr ''consent'')]"
  "text_at (JObj [(''address'', JStr ''0xA1''), (''message'', JStr ''consent'')]) ''address'' = ''0xA1''"
  "text_at (JObj [(''address'', JStr ''0xA1''), (''message'', JStr ''consent'')]) ''message'' = ''consent''"
  "isProvisionTerminal sample_consent"
  by (simp_all add: sample_consent_def part_of_def obj_get_def text_at_def string_member_def opt_or_def str_or_def isProvisionTerminal_def)

lemma sample_texts:
  "slugRE ''shop''" "toLowerCase ''shop'' = ''shop''" "js_trim ''shop'' = ''shop''" "js_trim ''0xA1'' = ''0xA1''" "js_trim [] = []"
  "toLowerCase [] = []"
  by code_simp+

lemma sample_overview_log:
  "w_rpc (snd sample_overview_run) = [\<lparr>rpc_method = ''eth_requestAccounts'', rpc_params = None\<rparr>,
     \<lparr>rpc_method = ''personal_sign'', rpc_params = Some [JStr ''consent'', JStr ''0xA1'']\<rparr>]"
  "w_net (snd sample_overview_run) = net_of (\<lambda>_. sample_consent)"
  by (simp_all add: sample_overview_def initial_overview_def initial_frame_def instance_frame.defs frame.defs sample_world_def run_eval startProvisioning_def
      sign_consent_def with_accounts_def with_signature_def portalProvisionConsentChallenge_def portalStartProvisioning_def
      sample_texts opt_or_def str_or_def
      validateManagedReleaseTag_def nullish_def keep_truthy_def truthy_def sample_accounts sample_sign sample_env_def
      detach_def finish_def pollProvisioning_def abortPolling_def abort_controller_def provision_lower_def)


end
