(* ===== verification/Fleet_Page.thy ===== *)
theory Fleet_Page
  imports Config_Page
begin

text \<open>
  The fleet of a customer, \<^verbatim>\<open>web/src/pages/portal/PortalFleet.svelte\<close>, inside the shell of the portal,
  \<^verbatim>\<open>components/PortalShell.svelte\<close>.  The two share the session and the fleet snapshot (\<open>Session\<close>): the fleet page writes the
  snapshot, the shell's command palette offers to open what is in it, and both log out.  Their states are one record, with the
  prefix \<open>fl\<close> for the page and \<open>sh\<close> for the shell.

  The page's token is \<open>$session?.token ?? ''\<close>, read whenever it is used.  In a text, a bullet is written as a hyphen.
\<close>

record fleet_page = frame +
  fl_loading :: bool
  fl_errorMessage :: "js_string option"
  fl_instances :: "json list"
  fl_budgets :: "js_string \<Rightarrow> json option"
  fl_createSlug :: js_string
  fl_createLoading :: bool
  fl_createError :: "js_string option"
  fl_loadGeneration :: nat
  fl_destroyed :: bool
  sh_meLoading :: bool
  sh_me :: json
  sh_instancesLoading :: bool
  sh_instances :: "json list"
  sh_soulsLoading :: bool
  sh_souls :: "json list"
  sh_bellOpen :: bool
  sh_paletteOpen :: bool
  sh_paletteQuery :: js_string

type_synonym fleet_segment = "(fleet_page, world) segment"

section \<open>The fleet page\<close>

definition session_token :: "'a frame_scheme \<Rightarrow> js_string option" where
  "session_token s = (case app_session (fr_app s) of None \<Rightarrow> None | Some v \<Rightarrow> string_member v ''token'')"

definition fleet_token :: "'a frame_scheme \<Rightarrow> js_string" where
  "fleet_token s = nullish (session_token s) []"

definition isLoadCurrent :: "nat \<Rightarrow> js_string \<Rightarrow> fleet_page \<Rightarrow> bool" where
  "isLoadCurrent loadId loadToken s \<longleftrightarrow> \<not> fl_destroyed s \<and> loadId = fl_loadGeneration s \<and> session_token s = Some loadToken"

text \<open>
  \<open>Promise.allSettled\<close> of the budget requests.  The requests go out one after the other while the list is mapped; reading the slug of
  \<open>null\<close> throws, after the requests before it.
\<close>

fun ask_budgets :: "js_string \<Rightarrow> js_string \<Rightarrow> json list \<Rightarrow> world \<Rightarrow> (js_error + (js_error + json) list) \<times> world" where
  "ask_budgets token month [] w = (Inr [], w)"
| "ask_budgets token month (inst # rest) w =
     (case read_text inst ''slug'' of
        Inl e \<Rightarrow> (Inl e, w)
      | Inr slug \<Rightarrow>
          (case http (portalGetBudgetMonth token slug month) w of
             (r, w1) \<Rightarrow>
               (case ask_budgets token month rest w1 of
                  (Inl e, w2) \<Rightarrow> (Inl e, w2)
                | (Inr rs, w2) \<Rightarrow> (Inr (r # rs), w2))))"

fun budget_map :: "json list \<Rightarrow> (js_error + json) list \<Rightarrow> (js_string \<Rightarrow> json option) \<Rightarrow> js_string \<Rightarrow> json option" where
  "budget_map (inst # list) (r # settlements) m =
     budget_map list settlements
       (if inst = JNull then m else (case r of Inr v \<Rightarrow> m(text_at inst ''slug'' := Some v) | Inl _ \<Rightarrow> m))"
| "budget_map list settlements m = m"

definition fleet_entry :: "json \<Rightarrow> PortalFleetEntry" where
  "fleet_entry inst =
     \<lparr>fleet_slug = text_at inst ''slug'', fleet_hosted_region = string_member inst ''hosted_region'',
      fleet_lesser_version = string_member inst ''lesser_version''\<rparr>"

definition clear_fleet :: "'a frame_scheme \<Rightarrow> 'a frame_scheme" where
  "clear_fleet s = s\<lparr>fr_app := clearPortalFleetState (fr_app s)\<rparr>"

definition publish_fleet :: "json list \<Rightarrow> fleet_page \<Rightarrow> fleet_page" where
  "publish_fleet list s = s\<lparr>fr_app := (fr_app s)\<lparr>portalFleetInstances := map fleet_entry list\<rparr>\<rparr>"

text \<open>The \<open>catch\<close> and the \<open>finally\<close> of a load.\<close>

definition fleet_lower :: "nat \<Rightarrow> fleet_page \<Rightarrow> fleet_page" where
  "fleet_lower loadId s = (if \<not> fl_destroyed s \<and> loadId = fl_loadGeneration s then s\<lparr>fl_loading := False\<rparr> else s)"

definition fleet_failed :: "nat \<Rightarrow> js_string \<Rightarrow> (js_error \<Rightarrow> fleet_segment) \<Rightarrow> fleet_segment \<Rightarrow> js_error \<Rightarrow> fleet_segment" where
  "fleet_failed loadId loadToken throw k e s =
     (if \<not> isLoadCurrent loadId loadToken s then k (fleet_lower loadId s)
      else rejected (fleet_lower loadId) (\<lambda>e s. s\<lparr>fl_errorMessage := show_error s e\<rparr>) throw k e s)"

definition fleet_settled ::
  "nat \<Rightarrow> js_string \<Rightarrow> json list \<Rightarrow> fleet_segment \<Rightarrow> (js_error + json) list \<Rightarrow> fleet_segment" where
  "fleet_settled loadId loadToken list k settlements s =
     (if \<not> isLoadCurrent loadId loadToken s then k (fleet_lower loadId s)
      else
        k (fleet_lower loadId
             (publish_fleet list (s\<lparr>fl_instances := list, fl_budgets := budget_map list settlements (\<lambda>_. None)\<rparr>))))"

definition fleet_listed ::
  "nat \<Rightarrow> js_string \<Rightarrow> (js_error \<Rightarrow> fleet_segment) \<Rightarrow> fleet_segment \<Rightarrow> json \<Rightarrow> fleet_segment" where
  "fleet_listed loadId loadToken throw k res s =
     (if \<not> isLoadCurrent loadId loadToken s then k (fleet_lower loadId s)
      else
        (case list_member res ''instances'' of
           Inl e \<Rightarrow> fleet_failed loadId loadToken throw k e s
         | Inr list \<Rightarrow>
             try_await (ask_budgets loadToken (currentMonthUTC (fr_env s)) list) (fleet_failed loadId loadToken throw k)
               (fleet_settled loadId loadToken list k) s))"

definition loadFleet :: "(js_error \<Rightarrow> fleet_segment) \<Rightarrow> fleet_segment \<Rightarrow> fleet_segment" where
  "loadFleet throw k s =
     (let loadId = Suc (fl_loadGeneration s);
          loadToken = fleet_token s in
      try_await (http (portalListInstances loadToken)) (fleet_failed loadId loadToken throw k) (fleet_listed loadId loadToken throw k)
        (clear_fleet (s\<lparr>fl_loadGeneration := loadId, fl_errorMessage := None, fl_instances := [], fl_budgets := (\<lambda>_. None)\<rparr>)
           \<lparr>fl_loading := True\<rparr>))"

text \<open>The creation is that of \<open>Config_Page\<close>, with the same messages.\<close>

definition createInstance_fleet :: fleet_segment where
  "createInstance_fleet s =
     (let s = s\<lparr>fl_createError := None\<rparr>;
          slug = toLowerCase (js_trim (fl_createSlug s));
          lower = (\<lambda>s. s\<lparr>fl_createLoading := False\<rparr>);
          failed = rejected lower (\<lambda>e s. s\<lparr>fl_createError := Some (create_error s e)\<rparr>) (\<lambda>_. finish) finish in
      if slug = [] then finish (s\<lparr>fl_createError := Some ''Slug is required.''\<rparr>)
      else if \<not> slugRE slug
        then finish (s\<lparr>fl_createError := Some
               ''Slug must be 1-63 chars, lowercase letters/numbers, and hyphens (cannot start/end with hyphen).''\<rparr>)
      else
        try_await (http (portalCreateInstance (fleet_token s) slug)) failed
          (\<lambda>inst s.
             loadFleet failed
               (\<lambda>s. case read_text inst ''slug'' of
                      Inl e \<Rightarrow> failed e s
                    | Inr x \<Rightarrow> finish (lower (go (''/portal/instances/'' @ x) s)))
               (s\<lparr>fl_createSlug := []\<rparr>))
          (s\<lparr>fl_createLoading := True\<rparr>))"

definition destroy_fleet :: fleet_segment where
  "destroy_fleet s = finish (s\<lparr>fl_destroyed := True, fl_loadGeneration := Suc (fl_loadGeneration s)\<rparr>)"

text \<open>What a card of the fleet lists beside the status: the labels and their values.\<close>

definition buildMetadata :: "json \<Rightarrow> (js_string \<times> js_string) list" where
  "buildMetadata inst =
     (let row = (\<lambda>key v. if v = [] then [] else [(key, v)]) in
      row ''Domain'' (text_at inst ''hosted_base_domain'') @ row ''Lesser'' (text_at inst ''lesser_version'') @
      row ''Body'' (text_at inst ''lesser_body_version'') @ row ''Created'' (take 10 (text_at inst ''created_at'')))"

section \<open>The shell\<close>

text \<open>\<open>loadSidebarData\<close>: three loads one after the other, each of which fails quietly.\<close>

definition load_souls_sidebar :: "js_string \<Rightarrow> fleet_segment" where
  "load_souls_sidebar tok s =
     (let failed = (\<lambda>_ s. finish (s\<lparr>sh_souls := [], sh_soulsLoading := False\<rparr>)) in
      try_await (http (soulListMyAgents tok)) failed
        (\<lambda>res s. case list_member res ''agents'' of
           Inl e \<Rightarrow> failed e s
         | Inr souls \<Rightarrow> finish (s\<lparr>sh_souls := souls, sh_soulsLoading := False\<rparr>))
        (s\<lparr>sh_soulsLoading := True\<rparr>))"

definition load_instances_sidebar :: "js_string \<Rightarrow> fleet_segment" where
  "load_instances_sidebar tok s =
     (let failed = (\<lambda>_ s. load_souls_sidebar tok (s\<lparr>sh_instances := [], sh_instancesLoading := False\<rparr>)) in
      try_await (http (portalListInstances tok)) failed
        (\<lambda>res s. case list_member res ''instances'' of
           Inl e \<Rightarrow> failed e s
         | Inr xs \<Rightarrow> load_souls_sidebar tok (s\<lparr>sh_instances := xs, sh_instancesLoading := False\<rparr>))
        (s\<lparr>sh_instancesLoading := True\<rparr>))"

definition loadSidebarData :: fleet_segment where
  "loadSidebarData s =
     (let tok = fleet_token s in
      if tok = [] then finish s
      else
        try_await (http (getPortalMe tok)) (\<lambda>_ s. load_instances_sidebar tok (s\<lparr>sh_meLoading := False\<rparr>))
          (\<lambda>res s. load_instances_sidebar tok (s\<lparr>sh_me := res, sh_meLoading := False\<rparr>))
          (s\<lparr>sh_meLoading := True\<rparr>))"

definition handleLogout_shell :: fleet_segment where
  "handleLogout_shell s = leave (\<lambda>_. finish) finish (clear_fleet s)"

record palette_command =
  pc_id :: js_string
  pc_label :: js_string
  pc_description :: js_string
  pc_keywords :: "js_string list"

definition instance_command :: "PortalFleetEntry \<Rightarrow> palette_command" where
  "instance_command inst =
     (let parts = filter (\<lambda>t. t \<noteq> [])
            [nullish (fleet_hosted_region inst) [], nullish (fleet_lesser_version inst) []];
          description = join '' - '' parts in
      \<lparr>pc_id = ''instance.'' @ fleet_slug inst, pc_label = ''Open '' @ fleet_slug inst,
       pc_description = (if description = [] then ''Managed instance'' else description),
       pc_keywords = [fleet_slug inst] @ parts @ [''instance'']\<rparr>)"

definition derivedInstanceCommands :: "fleet_page \<Rightarrow> palette_command list" where
  "derivedInstanceCommands s =
     (if \<not> truthy (session_token s) then [] else map instance_command (portalFleetInstances (fr_app s)))"

definition palette_routes :: "(js_string \<times> js_string) list" where
  "palette_routes =
     [(''nav.fleet'', ''/portal''), (''nav.legacy-instances'', ''/portal/instances''), (''nav.souls'', ''/portal/souls''),
      (''nav.trust'', ''/portal/trust''), (''nav.account'', ''/portal/account''), (''nav.billing'', ''/portal/billing''),
      (''nav.operator'', ''/operator''), (''action.login'', ''/login''), (''action.request-soul'', ''/portal/souls/register'')]"

definition handlePaletteSelect :: "js_string \<Rightarrow> fleet_segment" where
  "handlePaletteSelect i s =
     (let s = s\<lparr>sh_paletteOpen := False, sh_paletteQuery := []\<rparr> in
      case map_of palette_routes i of
        Some path \<Rightarrow> finish (go path s)
      | None \<Rightarrow>
          if i = ''action.logout'' then handleLogout_shell s
          else
            (let slug = drop (length ''instance.'') i; agentId = drop (length ''soul.'') i;
                 s = (if startsWith i ''instance.'' \<and> slug \<noteq> [] then go (''/portal/instances/'' @ slug) s else s);
                 s = (if startsWith i ''soul.'' \<and> agentId \<noteq> [] then go (''/portal/souls/'' @ agentId) s else s) in
             finish s))"

definition instanceStatusColor :: "js_string \<Rightarrow> js_string" where
  "instanceStatusColor status =
     (let s = toLowerCase status in
      if s \<in> {''ok'', ''active'', ''running'', ''provisioned''} then ''ok''
      else if s = ''warning'' then ''warning''
      else if s \<in> {''error'', ''failed''} then ''error''
      else if s \<in> {''pending'', ''in_progress'', ''creating'', ''provisioning''} then ''accent''
      else ''ok'')"

definition instanceHasAlert :: "json \<Rightarrow> bool" where
  "instanceHasAlert inst \<longleftrightarrow> toLowerCase (text_at inst ''status'') \<in> {''warning'', ''error'', ''failed''}"

section \<open>The page\<close>

text \<open>Somewhere else in the application a user who is signed out signs in, as \<open>setSession\<close> does it.\<close>

definition signed_in :: "json \<Rightarrow> fleet_segment" where
  "signed_in v s =
     finish (if app_session (fr_app s) = None
             then s\<lparr>fr_app := snd (setSession (env_clock (fr_env s)) (Some v) (fr_app s))\<rparr> else s)"

definition fleet_handlers :: "fleet_segment set" where
  "fleet_handlers =
     {loadFleet (\<lambda>_. finish) finish, createInstance_fleet, destroy_fleet, loadSidebarData, handleLogout_shell} \<union>
     range handlePaletteSelect \<union> range signed_in \<union>
     {\<lambda>s. finish (s\<lparr>fl_createSlug := t\<rparr>) | t. True} \<union> {\<lambda>s. finish (s\<lparr>sh_paletteQuery := t\<rparr>) | t. True} \<union>
     {\<lambda>s. finish (s\<lparr>sh_paletteOpen := b\<rparr>) | b. True} \<union> {\<lambda>s. finish (s\<lparr>sh_bellOpen := b\<rparr>) | b. True}"

definition initial_fleet :: "frame \<Rightarrow> fleet_page" where
  "initial_fleet f = frame.extend f
     \<lparr>fl_loading = False, fl_errorMessage = None, fl_instances = [], fl_budgets = (\<lambda>_. None), fl_createSlug = [], fl_createLoading = False,
      fl_createError = None, fl_loadGeneration = 0, fl_destroyed = False, sh_meLoading = False, sh_me = JNull, sh_instancesLoading = False,
      sh_instances = [], sh_soulsLoading = False, sh_souls = [], sh_bellOpen = False, sh_paletteOpen = False, sh_paletteQuery = []\<rparr>"

end
