(* ===== verification/Fleet_Correct.thy ===== *)
theory Fleet_Correct
  imports Fleet_Page
begin

text \<open>
  Whose instances the portal shows.  The fleet snapshot outlives the page that wrote it, and loads are in flight while the user
  logs out and another one signs in; still the snapshot holds nothing but what the server listed for the user of the present session.
\<close>

section \<open>The snapshot\<close>

text \<open>The server listed the instance \<open>slug\<close> in answer to a request that carried the token \<open>t\<close>.\<close>

definition listed_for :: "net \<Rightarrow> request list \<Rightarrow> js_string \<Rightarrow> js_string \<Rightarrow> bool" where
  "listed_for net log t slug \<longleftrightarrow>
     (\<exists>r res xs x. fetchJson r = portalListInstances t \<and> answered net log r res \<and> list_member res ''instances'' = Inr xs \<and>
        x \<in> set xs \<and> slug = text_at x ''slug'')"

definition fleet_ok :: "'a frame_scheme \<Rightarrow> net \<Rightarrow> request list \<Rightarrow> bool" where
  "fleet_ok s net log \<longleftrightarrow>
     (\<forall>f \<in> set (portalFleetInstances (fr_app s)). \<exists>t. session_token s = Some t \<and> listed_for net log t (fleet_slug f))"

lemma listed_later: "listed_for net l t slug \<Longrightarrow> listed_for net (l @ l') t slug"
  unfolding listed_for_def by (blast dest: answered_later)

interpretation fleet: framed_page fleet_ok "\<lambda>_ _ _. True"
  by unfold_locales (auto simp: fleet_ok_def session_token_def dest: listed_later)

abbreviation fleet_inv :: "'a frame_scheme \<Rightarrow> world \<Rightarrow> bool" where
  "fleet_inv \<equiv> page_inv fleet_ok (\<lambda>_ _ _. True)"

lemma fleet_inv_iff: "fleet_inv s w \<longleftrightarrow> fleet_ok s (w_net w) (w_http w)"
  by (simp add: page_inv_def requests_ok_def)

text \<open>Only the session and the snapshot matter.\<close>

lemma fleet_same: "fr_app s' = fr_app s \<Longrightarrow> fleet_inv s' w \<longleftrightarrow> fleet_inv s w"
  by (simp add: fleet_inv_iff fleet_ok_def session_token_def)

lemma fleet_own_fields [simp]:
  fixes s :: fleet_page
  shows "fleet_inv (fl_loading_update a s) w \<longleftrightarrow> fleet_inv s w" "fleet_inv (fl_errorMessage_update b s) w \<longleftrightarrow> fleet_inv s w"
    "fleet_inv (fl_instances_update c s) w \<longleftrightarrow> fleet_inv s w" "fleet_inv (fl_budgets_update d s) w \<longleftrightarrow> fleet_inv s w"
    "fleet_inv (fl_createSlug_update e s) w \<longleftrightarrow> fleet_inv s w" "fleet_inv (fl_createLoading_update f s) w \<longleftrightarrow> fleet_inv s w"
    "fleet_inv (fl_createError_update g s) w \<longleftrightarrow> fleet_inv s w" "fleet_inv (fl_loadGeneration_update h s) w \<longleftrightarrow> fleet_inv s w"
    "fleet_inv (fl_destroyed_update i s) w \<longleftrightarrow> fleet_inv s w" "fleet_inv (sh_meLoading_update j s) w \<longleftrightarrow> fleet_inv s w"
    "fleet_inv (sh_me_update k s) w \<longleftrightarrow> fleet_inv s w" "fleet_inv (sh_instancesLoading_update l s) w \<longleftrightarrow> fleet_inv s w"
    "fleet_inv (sh_instances_update m s) w \<longleftrightarrow> fleet_inv s w" "fleet_inv (sh_soulsLoading_update n s) w \<longleftrightarrow> fleet_inv s w"
    "fleet_inv (sh_souls_update p s) w \<longleftrightarrow> fleet_inv s w" "fleet_inv (sh_bellOpen_update q s) w \<longleftrightarrow> fleet_inv s w"
    "fleet_inv (sh_paletteOpen_update r s) w \<longleftrightarrow> fleet_inv s w" "fleet_inv (sh_paletteQuery_update u s) w \<longleftrightarrow> fleet_inv s w"
  by (rule fleet_same; simp)+

lemma fleet_go [simp]: "fleet_inv (go p s) w \<longleftrightarrow> fleet_inv s w"
  by (rule fleet_same) simp

lemma clear_fleet_inv [simp]: "fleet_inv (clear_fleet s) w"
  by (simp add: fleet_inv_iff fleet_ok_def clear_fleet_def clearPortalFleetState_def)

lemma fleet_lower_inv [simp]: "fleet_inv (fleet_lower i s) w \<longleftrightarrow> fleet_inv s w"
  by (simp add: fleet_lower_def)

lemma publish_inv:
  assumes "session_token s = Some t" and "fetchJson r = portalListInstances t" and "answered (w_net w) (w_http w) r res"
    and "list_member res ''instances'' = Inr xs"
  shows "fleet_inv (publish_fleet xs s) w"
proof -
  have "session_token (publish_fleet xs s) = Some t" using assms(1) by (simp add: session_token_def publish_fleet_def)
  then show ?thesis
    unfolding fleet_inv_iff fleet_ok_def listed_for_def
    using assms(2-4) by (auto simp: publish_fleet_def fleet_entry_def)
qed

text \<open>Signing in while signed out: there is no snapshot then, and \<open>setSession\<close> writes none.\<close>

lemma setSession_fleet: "portalFleetInstances (snd (setSession clk v a)) = [] \<or> portalFleetInstances (snd (setSession clk v a)) = portalFleetInstances a"
  by (auto simp: setSession_def clearSession_def session_set_def set_null_def on_session_null_def on_session_value_def Let_def
      clearPortalFleetState_def removeSafeAppSessionHandoff_def split: option.split sum.split)

lemma signed_in_inv:
  assumes "fleet_inv s w" and "app_session (fr_app s) = None"
  shows "fleet_inv (s\<lparr>fr_app := snd (setSession clk v (fr_app s))\<rparr>) w"
proof -
  have "portalFleetInstances (fr_app s) = []"
    using assms by (cases "portalFleetInstances (fr_app s)") (auto simp: fleet_inv_iff fleet_ok_def session_token_def)
  then show ?thesis using setSession_fleet [of clk v "fr_app s"] by (simp add: fleet_inv_iff fleet_ok_def)
qed

section \<open>The handlers\<close>

lemma ask_budgets_sends: "sends (ask_budgets token month xs) (\<lambda>_. True)"
proof (induction xs)
  case Nil
  then show ?case by (simp add: sends_def)
next
  case (Cons x xs)
  have "sends (http (portalGetBudgetMonth token slug month)) (\<lambda>_. True)" for slug
    unfolding portalGetBudgetMonth_def by (rule sends_api) simp
  from sends_trans [OF this Cons.IH]
  have step: "\<exists>l. w_net (snd (ask_budgets token month xs (snd (http (portalGetBudgetMonth token slug month) w)))) = w_net w \<and>
      w_http (snd (ask_budgets token month xs (snd (http (portalGetBudgetMonth token slug month) w)))) = w_http w @ l" for slug w
    by simp
  have "\<exists>l. w_net (snd (ask_budgets token month (x # xs) w)) = w_net w \<and> w_http (snd (ask_budgets token month (x # xs) w)) = w_http w @ l" for w
  proof (cases "read_text x ''slug''")
    case (Inr slug)
    then show ?thesis using step [of slug w] by (simp add: split_beta split: sum.split)
  qed simp
  then show ?case by (simp add: sends_def)
qed

lemma fleet_failed_guarded:
  assumes t: "\<And>e w. fleet.guarded w (throw e)" and k: "\<And>w. fleet.guarded w k"
  shows "fleet.guarded w (fleet_failed i tok throw k e)"
proof -
  have "fleet.guarded w (rejected (fleet_lower i) (\<lambda>e s. s\<lparr>fl_errorMessage := show_error s e\<rparr>) throw k e)" for w e
    by (intro fleet.rejected_guarded t k) simp_all
  note rejected = fleet.guardedD [OF this]
  show ?thesis
    unfolding fleet_failed_def [abs_def] by (auto intro!: fleet.guarded_by fleet.guardedD [OF k] rejected)
qed

lemma fleet_settled_guarded:
  assumes "\<And>w. fleet.guarded w k" and "fetchJson r = portalListInstances tok" and "answered (w_net w) (w_http w) r res"
    and "list_member res ''instances'' = Inr xs"
  shows "fleet.guarded w (fleet_settled i tok xs k settlements)"
proof (rule fleet.guarded_by)
  fix s :: fleet_page and w' assume w': "later w w'" and s: "fleet_inv s w'"
  have "answered (w_net w') (w_http w') r res" using assms(3) w' by (auto simp: later_def answered_later)
  then have "fleet_inv (publish_fleet xs (s\<lparr>fl_instances := xs, fl_budgets := b\<rparr>)) w'" if "isLoadCurrent i tok s" for b
    using that assms(2,4) by (intro publish_inv [of _ tok]) (auto simp: isLoadCurrent_def session_token_def)
  then show "fleet.guarded_result w' (fleet_settled i tok xs k settlements s)"
    unfolding fleet_settled_def using s by (auto intro!: fleet.guardedD [OF assms(1)])
qed

lemma loadFleet_guarded:
  assumes t: "\<And>e w. fleet.guarded w (throw e)" and k: "\<And>w. fleet.guarded w k"
  shows "fleet.guarded w (loadFleet throw k)"
proof (rule fleet.guarded_by)
  fix s :: fleet_page and w' assume "later w w'" and s: "fleet_inv s w'"
  have listed: "fleet.guarded w (fleet_listed i tok throw k res)"
    if r: "fetchJson r = portalListInstances tok" and a: "answered (w_net w) (w_http w) r res" for w r res i tok
  proof (rule fleet.guarded_by)
    fix s :: fleet_page and w1 assume w1: "later w w1" and s: "fleet_inv s w1"
    have "fleet.guarded w2 (fleet_settled i tok xs k settlements)"
      if w2: "later w1 w2" and xs: "list_member res ''instances'' = Inr xs" for w2 xs settlements
    proof (rule fleet_settled_guarded [OF k r _ xs])
      show "answered (w_net w2) (w_http w2) r res" using a later_trans [OF w1 w2] by (auto simp: later_def answered_later)
    qed
    then show "fleet.guarded_result w1 (fleet_listed i tok throw k res s)"
      unfolding fleet_listed_def using s
      by (auto intro!: fleet.guardedD [OF k] fleet.guardedD [OF fleet_failed_guarded] fleet_failed_guarded t k
          fleet.guarded_sends [OF _ ask_budgets_sends] split: sum.split)
  qed
  let ?r = "\<lambda>tok. \<lparr>req_method = ''GET'', req_url = ''/api/v1/portal/instances'', req_headers = bearer tok, req_body = None\<rparr>"
  have op: "portalListInstances tok = fetchJson (?r tok)" for tok by (simp add: portalListInstances_def api_call_def)
  show "fleet.guarded_result w' (loadFleet throw k s)"
    unfolding loadFleet_def Let_def op
    by (rule fleet.guarded_http) (auto intro!: fleet_failed_guarded t k listed simp: op)
qed

lemma createInstance_fleet_guarded: "fleet.guarded w createInstance_fleet"
proof -
  have create: "sends (http (portalCreateInstance tok slug)) (\<lambda>_. True)" for tok slug
    unfolding portalCreateInstance_def Let_def by (rule sends_api) simp
  let ?failed = "rejected (\<lambda>s :: fleet_page. s\<lparr>fl_createLoading := False\<rparr>) (\<lambda>e s. s\<lparr>fl_createError := Some (create_error s e)\<rparr>) (\<lambda>_. finish) finish"
  have failed: "fleet.guarded w (?failed e)" for e w
    by (intro fleet.rejected_guarded fleet.finish_guarded) simp_all
  have fin: "fleet.guarded w (\<lambda>s. case read_text inst ''slug'' of
        Inl e \<Rightarrow> ?failed e s | Inr x \<Rightarrow> finish (go (''/portal/instances/'' @ x) s\<lparr>fl_createLoading := False\<rparr>))" for w inst
    by (auto intro!: fleet.guarded_by fleet.guardedD [OF failed] safe_finish intro: fleet.go_ok split: sum.split)
  show ?thesis
    unfolding createInstance_fleet_def Let_def
    by (rule fleet.guarded_by)
      (auto intro!: safe_finish fleet.guarded_sends [OF _ create] failed fleet.guarded_by fleet.guardedD [OF loadFleet_guarded] fin)
qed

lemma sidebar_guarded: "fleet.guarded w loadSidebarData"
proof -
  have "sends (http (soulListMyAgents tok)) (\<lambda>_. True)" "sends (http (portalListInstances tok)) (\<lambda>_. True)"
    "sends (http (getPortalMe tok)) (\<lambda>_. True)" for tok
    unfolding soulListMyAgents_def portalListInstances_def getPortalMe_def by (rule sends_api, simp)+
  note calls = fleet.guarded_sends [OF _ this(1)] fleet.guarded_sends [OF _ this(2)] fleet.guarded_sends [OF _ this(3)]
  have souls: "fleet.guarded w (load_souls_sidebar tok)" for w tok
    unfolding load_souls_sidebar_def Let_def by (auto intro!: fleet.guarded_by calls safe_finish split: sum.split)
  have "fleet.guarded w (load_instances_sidebar tok)" for w tok
    unfolding load_instances_sidebar_def Let_def
    by (auto intro!: fleet.guarded_by calls fleet.guardedD [OF souls] split: sum.split)
  note instances = fleet.guardedD [OF this]
  show ?thesis
    unfolding loadSidebarData_def Let_def
    by (auto intro!: fleet.guarded_by calls safe_finish instances split: sum.split)
qed

lemma logout_guarded: "fleet.guarded w handleLogout_shell"
proof -
  have "fleet.guarded w (leave (\<lambda>_. finish) finish :: fleet_segment)" for w by (intro fleet.leave_guarded fleet.finish_guarded)
  from fleet.guardedD [OF this] show ?thesis
    unfolding handleLogout_shell_def [abs_def] by (auto intro!: fleet.guarded_by)
qed

lemma fleet_instant:
  fixes g :: "fleet_page \<Rightarrow> fleet_page"
  shows "(\<And>s w. fleet_inv s w \<Longrightarrow> fleet_inv (g s) w) \<Longrightarrow> fleet.guarded w (\<lambda>s. finish (g s))"
  by (intro fleet.guarded_by safe_finish)

lemma fleet_guarded:
  assumes "h \<in> fleet_handlers"
  shows "fleet.guarded w h"
proof -
  have "fleet.guarded w (handlePaletteSelect i)" for i
    unfolding handlePaletteSelect_def [abs_def] Let_def
    by (auto intro!: fleet.guarded_by fleet.guardedD [OF logout_guarded] safe_finish intro: fleet.go_ok split: option.split)
  moreover have "fleet.guarded w (signed_in v)" for v
    unfolding signed_in_def [abs_def] by (rule fleet_instant) (auto intro: signed_in_inv)
  moreover have "fleet.guarded w destroy_fleet" unfolding destroy_fleet_def [abs_def] by (rule fleet_instant) simp
  ultimately show ?thesis
    using assms
    by (auto simp: fleet_handlers_def intro!: fleet_instant loadFleet_guarded fleet.finish_guarded createInstance_fleet_guarded
        sidebar_guarded logout_guarded)
qed

interpretation fleet_invariant: page_invariant fleet_handlers later fleet_inv
  by unfold_locales (simp_all add: fleet_guarded later_trans)


definition sample_fleet_answer :: json where
  "sample_fleet_answer = JObj [(''instances'', JArr [JObj [(''slug'', JStr ''shop'')]])]"

definition sample_fleet :: fleet_page where
  "sample_fleet = initial_fleet (initial_frame sample_env (sample_app\<lparr>app_session := Some (JObj [(''token'', JStr ''T'')])\<rparr>)
     (load_router ''/'' sample_storage))"

abbreviation sample_fleet_run :: "fleet_page \<times> world" where
  "sample_fleet_run \<equiv> run_all [loadFleet (\<lambda>_. finish) finish] sample_fleet (sample_world (\<lambda>_. sample_fleet_answer))"

lemma sample_fleet_members [simp]:
  "wf_json sample_fleet_answer" "list_member sample_fleet_answer ''instances'' = Inr [JObj [(''slug'', JStr ''shop'')]]"
  "text_at (JObj [(''slug'', JStr ''shop'')]) ''slug'' = ''shop''" "string_member (JObj [(''token'', JStr ''T'')]) ''token'' = Some ''T''"
  "string_member (JObj [(''slug'', JStr ''shop'')]) ''hosted_region'' = None" "string_member (JObj [(''slug'', JStr ''shop'')]) ''lesser_version'' = None"
  by (simp_all add: sample_fleet_answer_def list_member_def obj_get_def text_at_def string_member_def opt_or_def str_or_def)

lemma sample_fleet_shown:
  "derivedInstanceCommands (fst sample_fleet_run) =
     [\<lparr>pc_id = ''instance.shop'', pc_label = ''Open shop'', pc_description = ''Managed instance'', pc_keywords = [''shop'', ''instance'']\<rparr>]"
  "app_session (fr_app (fst sample_fleet_run)) = Some (JObj [(''token'', JStr ''T'')])"
  "w_net (snd sample_fleet_run) = net_of (\<lambda>_. sample_fleet_answer)"
  by (simp_all add: sample_fleet_def initial_fleet_def initial_frame_def frame.defs sample_world_def run_eval loadFleet_def fleet_listed_def
      fleet_settled_def isLoadCurrent_def fleet_lower_def session_token_def fleet_token_def clear_fleet_def clearPortalFleetState_def
      publish_fleet_def fleet_entry_def portalListInstances_def portalGetBudgetMonth_def read_text_def derivedInstanceCommands_def
      instance_command_def nullish_def truthy_def)


text \<open>The exception to this, which the page cannot see: whoever signs in over a session that is still stored keeps its snapshot.\<close>

lemma sign_in_keeps_snapshot:
  "\<not> isExpired clk (session_text v ''expiresAt'') \<Longrightarrow> portalFleetInstances (snd (setSession clk (Some v) a)) = portalFleetInstances a"
  by (simp add: setSession_def session_set_def on_session_value_def split: sum.split)

text \<open>What the palette offers is what it opens.\<close>

lemma palette_opens:
  assumes "slug \<noteq> []" and "\<not> startsWith (''instance.'' @ slug) ''soul.''"
  shows "handlePaletteSelect (''instance.'' @ slug) s =
    finish (go (''/portal/instances/'' @ slug) (s\<lparr>sh_paletteOpen := False, sh_paletteQuery := []\<rparr>))"
  using assms by (simp add: handlePaletteSelect_def palette_routes_def startsWith_def)

end
