(* ===== verification/Account_Pages.thy ===== *)
theory Account_Pages
  imports Register_Page Views Api_Operator
begin

text \<open>
  Pages beside the portal and the console: the account of whoever is signed in, \<^verbatim>\<open>web/src/pages/Account.svelte\<close>, the public
  registration of a host for tips, \<^verbatim>\<open>pages/TipRegistryRegister.svelte\<close>, the public trust page, \<^verbatim>\<open>pages/Trust.svelte\<close>, and its
  inspector of attestations, \<^verbatim>\<open>pages/trust/AttestationInspector.svelte\<close>.  The account page reads the session store at each step.
  In a label, the long dash is written as a hyphen.
\<close>

section \<open>The account\<close>

record Profile =
  pr_username :: js_string
  pr_role :: js_string
  pr_displayName :: "js_string option"
  pr_email :: "js_string option"

record account_page = frame +
  ac_profileLoading :: bool
  ac_profileError :: "js_string option"
  ac_profile :: "Profile option"
  ac_passkeysLoading :: bool
  ac_passkeysError :: "js_string option"
  ac_passkeys :: "json list"
  ac_newPasskeyName :: js_string
  ac_registerLoading :: bool
  ac_registerError :: "js_string option"
  ac_editId :: "js_string option"
  ac_editName :: js_string
  ac_editLoading :: bool
  ac_editError :: "js_string option"
  ac_signingOut :: bool

type_synonym account_segment = "(account_page, world) segment"

definition isOperatorRole :: "js_string \<Rightarrow> bool" where
  "isOperatorRole role \<longleftrightarrow> role = ''admin'' \<or> role = ''operator''"

definition truthy_text :: "js_string \<Rightarrow> js_string option" where
  "truthy_text t = (if t = [] then None else Some t)"

definition profile_of :: "bool \<Rightarrow> json \<Rightarrow> Profile" where
  "profile_of operator me =
     \<lparr>pr_username = text_at me ''username'', pr_role = text_at me ''role'', pr_displayName = truthy_text (text_at me ''display_name''),
      pr_email = (if operator then None else truthy_text (text_at me ''email''))\<rparr>"

definition loadProfile :: account_segment where
  "loadProfile s =
     (let s = s\<lparr>ac_profileError := None, ac_profile := None\<rparr> in
      case app_session (fr_app s) of
        None \<Rightarrow> finish (go ''/login'' s)
      | Some current \<Rightarrow>
          (let operator = isOperatorRole (text_at current ''role'');
               lower = (\<lambda>s. s\<lparr>ac_profileLoading := False\<rparr>);
               failed = (\<lambda>e s.
                 let s = s\<lparr>ac_profileError := show_error s e\<rparr> in
                 if unauthorized e then leave (\<lambda>_ s. finish (lower s)) (\<lambda>s. finish (lower s)) s else finish (lower s)) in
           try_await (http (if operator then getOperatorMe (text_at current ''token'') else getPortalMe (text_at current ''token''))) failed
             (\<lambda>me s.
                if me = JNull then failed (TypeError ''null has no properties'') s
                else finish (lower (s\<lparr>ac_profile := Some (profile_of operator me)\<rparr>)))
             (s\<lparr>ac_profileLoading := True\<rparr>)))"

text \<open>\<open>await loadPasskeys()\<close>: only what \<open>logout\<close> throws leaves it.  It signs out without going to the login page.\<close>

definition loadPasskeys :: "(js_error \<Rightarrow> account_segment) \<Rightarrow> account_segment \<Rightarrow> account_segment" where
  "loadPasskeys throw k s =
     (let s = s\<lparr>ac_passkeysError := None, ac_passkeys := []\<rparr> in
      case app_session (fr_app s) of
        None \<Rightarrow> k s
      | Some current \<Rightarrow>
          if \<not> isOperatorRole (text_at current ''role'') then k s
          else
            (let lower = (\<lambda>s. s\<lparr>ac_passkeysLoading := False\<rparr>);
                 failed = (\<lambda>e s.
                   let s = s\<lparr>ac_passkeysError := show_error s e\<rparr> in
                   if unauthorized e then sign_off (\<lambda>e s. throw e (lower s)) (\<lambda>s. k (lower s)) s else k (lower s)) in
             try_await (http (webAuthnCredentials (text_at current ''token''))) failed
               (\<lambda>res s. case list_member res ''credentials'' of
                  Inl e \<Rightarrow> failed e s
                | Inr creds \<Rightarrow> k (lower (s\<lparr>ac_passkeys := creds\<rparr>)))
               (s\<lparr>ac_passkeysLoading := True\<rparr>)))"

text \<open>The checks with which each change of the passkeys begins: the session, or the message that is shown.\<close>

definition operator_session :: "account_page \<Rightarrow> js_string + json" where
  "operator_session s =
     (case app_session (fr_app s) of
        None \<Rightarrow> Inl ''Sign in first.''
      | Some current \<Rightarrow>
          if \<not> isOperatorRole (text_at current ''role'') then Inl ''Operator session required.'' else Inr current)"

definition register_lower :: "account_page \<Rightarrow> account_page" where
  "register_lower s = s\<lparr>ac_registerLoading := False\<rparr>"

definition account_register_failed :: "js_error \<Rightarrow> account_segment" where
  "account_register_failed e s = finish (register_lower (s\<lparr>ac_registerError := show_error s e\<rparr>))"

text \<open>The \<open>try\<close> block of the registration from its end: once the authenticator and the server's options have arrived.\<close>

definition with_credential ::
  "json \<Rightarrow> json \<Rightarrow> AttestationResponse credential option \<Rightarrow> account_segment" where
  "with_credential current started credential s =
     (case credential of
        None \<Rightarrow> finish (register_lower (s\<lparr>ac_registerError := Some ''No credential returned.''\<rparr>))
      | Some NotPublicKey \<Rightarrow> finish (register_lower (s\<lparr>ac_registerError := Some ''Unexpected credential type.''\<rparr>))
      | Some (PublicKey c r) \<Rightarrow>
          try_await (http (webAuthnRegisterFinish (text_at current ''token'') (obj_lit
              [(''challenge'', Some (JStr (text_at started ''challenge''))), (''response'', Some (serializeCredentialCreation c r)),
               (''credential_name'', Some (JStr (js_trim (ac_newPasskeyName s))))])))
            account_register_failed
            (\<lambda>_ s. loadPasskeys account_register_failed (\<lambda>s. finish (register_lower s)) (s\<lparr>ac_newPasskeyName := []\<rparr>))
            s)"

definition with_options :: "json \<Rightarrow> json \<Rightarrow> account_segment" where
  "with_options current started s =
     (case ceremony_options toPublicKeyCreationOptions started of
        Inl e \<Rightarrow> account_register_failed e s
      | Inr opts \<Rightarrow> try_await (create_credential opts) account_register_failed (with_credential current started) s)"

definition registerPasskey_account :: account_segment where
  "registerPasskey_account s =
     (let s = s\<lparr>ac_registerError := None\<rparr> in
      case operator_session s of
        Inl msg \<Rightarrow> finish (s\<lparr>ac_registerError := Some msg\<rparr>)
      | Inr current \<Rightarrow>
          if \<not> env_passkeys (fr_env s)
          then finish (s\<lparr>ac_registerError := Some ''Passkeys are not supported in this browser.''\<rparr>)
          else
            try_await (http (webAuthnRegisterBegin (text_at current ''token''))) account_register_failed (with_options current)
              (s\<lparr>ac_registerLoading := True\<rparr>))"

definition startRename :: "json \<Rightarrow> account_page \<Rightarrow> account_page" where
  "startRename cred s = s\<lparr>ac_editError := None, ac_editId := Some (text_at cred ''id''), ac_editName := text_at cred ''name''\<rparr>"

definition cancelRename :: "account_page \<Rightarrow> account_page" where
  "cancelRename s = s\<lparr>ac_editError := None, ac_editId := None, ac_editName := []\<rparr>"

definition saveRename :: account_segment where
  "saveRename s =
     (let s = s\<lparr>ac_editError := None\<rparr>;
          stop = (\<lambda>msg. finish (s\<lparr>ac_editError := Some msg\<rparr>));
          lower = (\<lambda>s. s\<lparr>ac_editLoading := False\<rparr>);
          failed = (\<lambda>e s. finish (lower (s\<lparr>ac_editError := show_error s e\<rparr>)));
          name = js_trim (ac_editName s) in
      case operator_session s of
        Inl msg \<Rightarrow> stop msg
      | Inr current \<Rightarrow>
          if \<not> truthy (ac_editId s) then stop ''No credential selected.''
          else if name = [] then stop ''Name is required.''
          else
            try_await (http (webAuthnUpdateCredential (text_at current ''token'') (the (ac_editId s)) name)) failed
              (\<lambda>_. loadPasskeys failed (\<lambda>s. finish (lower (cancelRename s))))
              (s\<lparr>ac_editLoading := True\<rparr>))"

definition deletePasskey :: "json \<Rightarrow> account_segment" where
  "deletePasskey cred s =
     (let s = s\<lparr>ac_passkeysError := None\<rparr>;
          lower = (\<lambda>s. s\<lparr>ac_passkeysLoading := False\<rparr>);
          failed = (\<lambda>e s. finish (lower (s\<lparr>ac_passkeysError := show_error s e\<rparr>))) in
      case operator_session s of
        Inl msg \<Rightarrow> finish (s\<lparr>ac_passkeysError := Some msg\<rparr>)
      | Inr current \<Rightarrow>
          if \<not> env_confirm (fr_env s) (''Delete passkey '' @ quote_char # text_at cred ''name'' @ quote_char # ''?'') then finish s
          else
            try_await (http (webAuthnDeleteCredential (text_at current ''token'') (text_at cred ''id''))) failed
              (\<lambda>_. loadPasskeys failed (\<lambda>s. finish (lower s)))
              (s\<lparr>ac_passkeysLoading := True\<rparr>))"

definition handleSignOut :: account_segment where
  "handleSignOut s =
     (let done = (\<lambda>s. finish ((go ''/login'' s)\<lparr>ac_signingOut := False\<rparr>)) in
      sign_off (\<lambda>_. done) done (s\<lparr>ac_signingOut := True\<rparr>))"

text \<open>The buttons of the row \<open>i\<close> of the passkeys.\<close>

definition rename_button :: "nat \<Rightarrow> account_segment" where
  "rename_button i s = (case drop i (ac_passkeys s) of cred # _ \<Rightarrow> finish (startRename cred s) | [] \<Rightarrow> finish s)"

definition delete_button :: "nat \<Rightarrow> account_segment" where
  "delete_button i s = (case drop i (ac_passkeys s) of cred # _ \<Rightarrow> deletePasskey cred s | [] \<Rightarrow> finish s)"

text \<open>What \<open>onMount\<close> does without a session; with one it starts the two loads, which are handlers of their own.\<close>

definition mount_account :: account_segment where
  "mount_account s = finish (if app_session (fr_app s) = None then go ''/login'' s else s)"

definition account_handlers :: "account_segment set" where
  "account_handlers =
     {mount_account, loadProfile, loadPasskeys (\<lambda>_. finish) finish, registerPasskey_account, saveRename, handleSignOut,
      \<lambda>s. finish (cancelRename s)} \<union>
     range rename_button \<union> range delete_button \<union>
     {\<lambda>s. finish (s\<lparr>ac_newPasskeyName := t\<rparr>) | t. True} \<union> {\<lambda>s. finish (s\<lparr>ac_editName := t\<rparr>) | t. True} \<union>
     {\<lambda>s. finish (s\<lparr>fr_env := (fr_env s)\<lparr>env_confirm := f\<rparr>\<rparr>) | f. True}"

definition initial_account :: "frame \<Rightarrow> account_page" where
  "initial_account f = frame.extend f
     \<lparr>ac_profileLoading = False, ac_profileError = None, ac_profile = None, ac_passkeysLoading = False, ac_passkeysError = None,
      ac_passkeys = [], ac_newPasskeyName = [], ac_registerLoading = False, ac_registerError = None, ac_editId = None, ac_editName = [],
      ac_editLoading = False, ac_editError = None, ac_signingOut = False\<rparr>"

section \<open>The registration for tips\<close>

record tip_register_page = frame +
  tr_domain :: js_string
  tr_walletAddress :: js_string
  tr_hostFeeBps :: js_string
  tr_kind :: js_string
  tr_beginLoading :: bool
  tr_beginError :: "js_string option"
  tr_beginResult :: json
  tr_signature :: js_string
  tr_signLoading :: bool
  tr_signError :: "js_string option"
  tr_verifyLoading :: bool
  tr_verifyError :: "js_string option"
  tr_verifyResult :: json
  tr_proof_dns :: bool
  tr_proof_https :: bool

type_synonym tip_register_segment = "(tip_register_page, world) segment"

definition parseFee :: "js_string \<Rightarrow> int option" where
  "parseFee t = parseInt10 (js_trim t)"

definition beginTipRegistration :: tip_register_segment where
  "beginTipRegistration s =
     (let s = s\<lparr>tr_beginError := None, tr_verifyError := None, tr_signError := None, tr_beginResult := JNull, tr_verifyResult := JNull,
                tr_signature := []\<rparr>;
          stop = (\<lambda>msg. finish (s\<lparr>tr_beginError := Some msg\<rparr>));
          lower = (\<lambda>s. s\<lparr>tr_beginLoading := False\<rparr>);
          nextDomain = js_trim (tr_domain s);
          nextWallet = js_trim (tr_walletAddress s) in
      if nextDomain = [] then stop ''Domain is required.''
      else if nextWallet = [] then stop ''Wallet address is required.''
      else
        (case parseFee (tr_hostFeeBps s) of
           None \<Rightarrow> stop ''Host fee bps must be a number.''
         | Some fee \<Rightarrow>
             if fee < 0 \<or> fee > 500 then stop ''Host fee bps must be between 0 and 500.''
             else
               try_await (http (beginTipRegistryRegistration (obj_lit
                   [(''kind'', Some (JStr (tr_kind s))), (''domain'', Some (JStr nextDomain)),
                    (''wallet_address'', Some (JStr nextWallet)), (''host_fee_bps'', Some (jnum fee))])))
                 (\<lambda>e s. finish (lower (s\<lparr>tr_beginError := show_error s e\<rparr>)))
                 (\<lambda>res s. finish (lower (s\<lparr>tr_beginResult := res, tr_proof_dns := True, tr_proof_https := False\<rparr>)))
                 (s\<lparr>tr_beginLoading := True\<rparr>)))"

definition tip_wallet_missing :: js_string where
  "tip_wallet_missing = ''No wallet detected. Install or enable a wallet extension.''"

definition useConnectedWallet_tip :: tip_register_segment where
  "useConnectedWallet_tip s =
     (let s = s\<lparr>tr_signError := None\<rparr> in
      case env_ethereum (fr_env s) of
        None \<Rightarrow> finish (s\<lparr>tr_signError := Some tip_wallet_missing\<rparr>)
      | Some p \<Rightarrow>
          try_await (rpc p requestAccounts) (\<lambda>e s. finish (s\<lparr>tr_signError := show_error s e\<rparr>))
            (\<lambda>accounts s. finish
               (case accounts of
                  [] \<Rightarrow> s\<lparr>tr_signError := Some ''Wallet returned no accounts.''\<rparr>
                | a # _ \<Rightarrow> s\<lparr>tr_walletAddress := a\<rparr>))
            s)"

text \<open>The message is read again when the accounts have arrived.\<close>

definition signTipMessage :: tip_register_segment where
  "signTipMessage s =
     (let s = s\<lparr>tr_signError := None, tr_signature := []\<rparr>;
          stop = (\<lambda>msg. finish (s\<lparr>tr_signError := Some msg\<rparr>));
          lower = (\<lambda>s. s\<lparr>tr_signLoading := False\<rparr>);
          failed = (\<lambda>e s. finish (lower (s\<lparr>tr_signError := show_error s e\<rparr>)));
          addr = js_trim (tr_walletAddress s) in
      case env_ethereum (fr_env s) of
        None \<Rightarrow> stop tip_wallet_missing
      | Some p \<Rightarrow>
          if text_at (member (tr_beginResult s) ''wallet'') ''message'' = [] then stop ''Generate a registration challenge first.''
          else if addr = [] then stop ''Wallet address is required.''
          else
            try_await (rpc p requestAccounts) failed
              (\<lambda>accounts s.
                 if toLowerCase addr \<notin> toLowerCase ` set accounts
                 then finish (lower (s\<lparr>tr_signError := Some ''Connected wallet does not match the wallet address above.''\<rparr>))
                 else if member (tr_beginResult s) ''wallet'' = JNull then failed (TypeError ''null has no properties'') s
                 else
                   try_await (rpc p (personalSign (text_at (member (tr_beginResult s) ''wallet'') ''message'') addr)) failed
                     (\<lambda>sig s. finish (lower (s\<lparr>tr_signature := (case sig of Some (JStr t) \<Rightarrow> t | _ \<Rightarrow> [])\<rparr>))) s)
              (s\<lparr>tr_signLoading := True\<rparr>))"

definition verifyTipRegistration :: tip_register_segment where
  "verifyTipRegistration s =
     (let s = s\<lparr>tr_verifyError := None, tr_verifyResult := JNull\<rparr>;
          stop = (\<lambda>msg. finish (s\<lparr>tr_verifyError := Some msg\<rparr>));
          lower = (\<lambda>s. s\<lparr>tr_verifyLoading := False\<rparr>);
          i = text_at (member (tr_beginResult s) ''registration'') ''id'';
          selected = (if tr_proof_dns s then [''dns_txt''] else []) @ (if tr_proof_https s then [''https_well_known''] else []) in
      if i = [] then stop ''Generate a registration challenge first.''
      else if tr_signature s = [] then stop ''Sign the registration message first.''
      else if selected = [] then stop ''Select at least one proof method.''
      else
        try_await (http (verifyTipRegistryRegistration i (tr_signature s) (Some selected)))
          (\<lambda>e s. finish (lower (s\<lparr>tr_verifyError := show_error s e\<rparr>)))
          (\<lambda>res s. finish (lower (s\<lparr>tr_verifyResult := res\<rparr>)))
          (s\<lparr>tr_verifyLoading := True\<rparr>))"

text \<open>\<open>onMount\<close>, with the parameter \<open>domain\<close> of the page's address.\<close>

definition mount_tip :: "js_string option \<Rightarrow> tip_register_segment" where
  "mount_tip presetDomain s = finish (if truthy presetDomain then s\<lparr>tr_domain := the presetDomain\<rparr> else s)"

definition tip_proof :: "js_string \<Rightarrow> json \<Rightarrow> json" where
  "tip_proof kind result =
     (case obj_get result ''proofs'' of
        Some (JArr ps) \<Rightarrow> (case [p \<leftarrow> ps. text_at p ''method'' = kind] of [] \<Rightarrow> JNull | p # _ \<Rightarrow> p)
      | _ \<Rightarrow> JNull)"

definition tip_register_handlers :: "tip_register_segment set" where
  "tip_register_handlers =
     {beginTipRegistration, useConnectedWallet_tip, signTipMessage, verifyTipRegistration} \<union> range mount_tip \<union>
     {\<lambda>s. finish (s\<lparr>tr_domain := t\<rparr>) | t. True} \<union> {\<lambda>s. finish (s\<lparr>tr_walletAddress := t\<rparr>) | t. True} \<union>
     {\<lambda>s. finish (s\<lparr>tr_hostFeeBps := t\<rparr>) | t. True} \<union> {\<lambda>s. finish (s\<lparr>tr_kind := t\<rparr>) | t. True} \<union>
     {\<lambda>s. finish (s\<lparr>tr_proof_dns := b\<rparr>) | b. True} \<union> {\<lambda>s. finish (s\<lparr>tr_proof_https := b\<rparr>) | b. True}"

definition initial_tip_register :: "frame \<Rightarrow> tip_register_page" where
  "initial_tip_register f = frame.extend f
     \<lparr>tr_domain = [], tr_walletAddress = [], tr_hostFeeBps = ''500'', tr_kind = ''register_host'', tr_beginLoading = False,
      tr_beginError = None, tr_beginResult = JNull, tr_signature = [], tr_signLoading = False, tr_signError = None,
      tr_verifyLoading = False, tr_verifyError = None, tr_verifyResult = JNull, tr_proof_dns = True, tr_proof_https = False\<rparr>"

section \<open>The public trust page\<close>

record trust_page = frame +
  tu_idInput :: js_string
  tu_actorUri :: js_string
  tu_objectUri :: js_string
  tu_contentHash :: js_string
  tu_module :: js_string
  tu_policyVersion :: js_string
  tu_lookupLoading :: bool
  tu_lookupError :: "js_string option"

type_synonym trust_segment = "(trust_page, world) segment"

datatype TrustRoute = TrustHome | TrustAttestation js_string | TrustNotFound

text \<open>The page is served at two prefixes.\<close>

definition trustBasePath :: "js_string \<Rightarrow> js_string" where
  "trustBasePath path = (if path = ''/portal/trust'' \<or> startsWith path ''/portal/trust/'' then ''/portal/trust'' else ''/trust'')"

definition trustRoute :: "js_string \<Rightarrow> TrustRoute" where
  "trustRoute path =
     (if \<not> startsWith path (trustBasePath path) then TrustHome
      else
        (case path_parts (trustBasePath path) path of
           [] \<Rightarrow> TrustHome
         | p # rest \<Rightarrow> if p = ''attestations'' \<and> rest \<noteq> [] then TrustAttestation (hd rest) else TrustNotFound))"

definition normalizeId :: "js_string \<Rightarrow> js_string option" where
  "normalizeId input = (let trimmed = toLowerCase (js_trim input) in if trimmed = [] then None else Some trimmed)"

definition attestation_path :: "trust_page \<Rightarrow> js_string \<Rightarrow> js_string" where
  "attestation_path s i = trustBasePath (currentPath (fr_router s)) @ ''/attestations/'' @ i"

definition openById :: trust_segment where
  "openById s = finish (case normalizeId (tu_idInput s) of None \<Rightarrow> s | Some i \<Rightarrow> go (attestation_path s i) s)"

definition lookup_query :: "trust_page \<Rightarrow> attestation_query" where
  "lookup_query s =
     \<lparr>at_actor_uri = js_trim (tu_actorUri s), at_object_uri = js_trim (tu_objectUri s), at_content_hash = js_trim (tu_contentHash s),
      at_module = js_trim (tu_module s), at_policy_version = js_trim (tu_policyVersion s)\<rparr>"

definition lookup_trust :: trust_segment where
  "lookup_trust s =
     (let s = s\<lparr>tu_lookupError := None\<rparr>;
          lower = (\<lambda>s. s\<lparr>tu_lookupLoading := False\<rparr>);
          failed = (\<lambda>e s. finish (lower (s\<lparr>tu_lookupError := show_error s e\<rparr>)));
          q = lookup_query s in
      if at_actor_uri q = [] \<or> at_object_uri q = [] \<or> at_content_hash q = [] \<or> at_module q = [] \<or> at_policy_version q = []
      then finish (s\<lparr>tu_lookupError := Some ''All lookup fields are required.''\<rparr>)
      else
        try_await (http (lookupAttestation q)) failed
          (\<lambda>res s. case read_text res ''id'' of Inl e \<Rightarrow> failed e s | Inr i \<Rightarrow> finish (lower (go (attestation_path s i) s)))
          (s\<lparr>tu_lookupLoading := True\<rparr>))"

definition mount_trust :: trust_segment where
  "mount_trust s = finish (case trustRoute (currentPath (fr_router s)) of TrustAttestation i \<Rightarrow> s\<lparr>tu_idInput := i\<rparr> | _ \<Rightarrow> s)"

section \<open>The inspector of attestations\<close>

record attestation_page = frame +
  ai_id :: js_string
  ai_loading :: bool
  ai_errorMessage :: "js_string option"
  ai_attestation :: json
  ai_jwks :: json

type_synonym attestation_segment = "(attestation_page, world) segment"

text \<open>\<open>promise.catch(() => null)\<close>\<close>

definition or_null :: "json io \<Rightarrow> json io" where
  "or_null op net log = (case op net log of (Inl _, l) \<Rightarrow> (Inr JNull, l) | (Inr v, l) \<Rightarrow> (Inr v, l))"

definition load_attestation :: attestation_segment where
  "load_attestation s =
     (let lower = (\<lambda>s. s\<lparr>ai_loading := False\<rparr>) in
      try_await (http_all (getAttestation (ai_id s)) (or_null getJWKS)) (\<lambda>e s. finish (lower (s\<lparr>ai_errorMessage := show_error s e\<rparr>)))
        (\<lambda>(a, j) s. finish (lower (s\<lparr>ai_attestation := a, ai_jwks := j\<rparr>)))
        (s\<lparr>ai_errorMessage := None, ai_attestation := JNull, ai_jwks := JNull, ai_loading := True\<rparr>))"

definition headerKid :: "attestation_page \<Rightarrow> js_string" where
  "headerKid s = text_at (member (ai_attestation s) ''header'') ''kid''"

definition jwksKids :: "attestation_page \<Rightarrow> js_string list" where
  "jwksKids s =
     (case obj_get (ai_jwks s) ''keys'' of
        Some (JArr ks) \<Rightarrow> rev (remdups (rev (filter (\<lambda>t. t \<noteq> []) (map (\<lambda>k. text_at k ''kid'') ks))))
      | _ \<Rightarrow> [])"

definition kidPresenceStatus :: "attestation_page \<Rightarrow> js_string" where
  "kidPresenceStatus s =
     (if ai_attestation s = JNull \<or> headerKid s = [] then ''default''
      else if ai_jwks s = JNull then ''warning''
      else if headerKid s \<in> set (jwksKids s) then ''success''
      else ''warning'')"

definition kidPresenceLabel :: "attestation_page \<Rightarrow> js_string" where
  "kidPresenceLabel s =
     (if ai_attestation s = JNull then ''-''
      else if headerKid s = [] then ''no kid''
      else if ai_jwks s = JNull then ''JWKS unavailable''
      else if headerKid s \<in> set (jwksKids s) then ''kid in JWKS''
      else ''kid not in JWKS'')"

end
