(* ===== verification/Account_Correct.thy ===== *)
theory Account_Correct
  imports Account_Pages Views_Correct
begin

text \<open>
  Whose account the page manages, and with which rights: under every interleaving the requests are those that the session and its role
  allow, and what is changed and shown is what the server has said of it.
\<close>

section \<open>Calls whose answer matters\<close>

context request_discipline
begin

lemma guarded_call:
  assumes s: "page_inv T P s w" and "single op" and P: "\<And>r. fetchJson r = op \<Longrightarrow> P (w_net w) (w_http w) r"
    and "\<And>e w'. later w w' \<Longrightarrow> guarded w' (catch e)"
    and "\<And>r v w'. later w w' \<Longrightarrow> fetchJson r = op \<Longrightarrow> answered (w_net w') (w_http w') r v \<Longrightarrow> guarded w' (k v)"
  shows "guarded_result w (try_await (http op) catch k s)"
proof -
  obtain r where r: "fetchJson r = op" using assms(2) by (auto simp: single_def)
  then show ?thesis using guarded_http [OF s P [OF r] assms(4), of k] assms(5) by simp
qed

end

section \<open>What the session allows\<close>

text \<open>The server has listed a passkey with the identifier \<open>i\<close> in answer to a request with the token.\<close>

definition passkey_listed :: "net \<Rightarrow> request list \<Rightarrow> js_string \<Rightarrow> js_string \<Rightarrow> bool" where
  "passkey_listed net log token i \<longleftrightarrow>
     (\<exists>r res xs x. fetchJson r = webAuthnCredentials token \<and> answered net log r res \<and> list_member res ''credentials'' = Inr xs \<and>
        x \<in> set xs \<and> i = text_at x ''id'')"

text \<open>The requests of the account page when it was opened in the session \<open>v\<close>.\<close>

definition account_request :: "json \<Rightarrow> net \<Rightarrow> request list \<Rightarrow> request \<Rightarrow> bool" where
  "account_request v net log r \<longleftrightarrow>
     (let token = text_at v ''token'' in
      (\<exists>t. string_member v ''token'' = Some t \<and> r = logout_request t) \<or>
      (if isOperatorRole (text_at v ''role'')
       then fetchJson r \<in> {getOperatorMe token, webAuthnCredentials token, webAuthnRegisterBegin token} \<or>
         (\<exists>q started i. fetchJson q = webAuthnRegisterBegin token \<and> answered net log q started \<and>
            obj_get i ''challenge'' = Some (JStr (text_at started ''challenge'')) \<and> fetchJson r = webAuthnRegisterFinish token i) \<or>
         (\<exists>i. passkey_listed net log token i \<and>
            (fetchJson r = webAuthnDeleteCredential token i \<or> (\<exists>name. name \<noteq> [] \<and> fetchJson r = webAuthnUpdateCredential token i name)))
       else fetchJson r = getPortalMe token))"

definition account_ok :: "json \<Rightarrow> account_page \<Rightarrow> net \<Rightarrow> request list \<Rightarrow> bool" where
  "account_ok v s net log \<longleftrightarrow>
     app_session (fr_app s) \<in> {None, Some v} \<and>
     (\<forall>x \<in> set (ac_passkeys s). passkey_listed net log (text_at v ''token'') (text_at x ''id'')) \<and>
     (\<forall>i. ac_editId s = Some i \<longrightarrow> passkey_listed net log (text_at v ''token'') i) \<and>
     (\<forall>p. ac_profile s = Some p \<longrightarrow>
        (let operator = isOperatorRole (text_at v ''role'');
             op = (if operator then getOperatorMe (text_at v ''token'') else getPortalMe (text_at v ''token'')) in
         \<exists>r me. fetchJson r = op \<and> answered net log r me \<and> p = profile_of operator me))"

lemma passkey_listed_later: "passkey_listed net l t i \<Longrightarrow> passkey_listed net (l @ l') t i"
  unfolding passkey_listed_def by (blast dest: answered_later)

interpretation account: framed_page "account_ok v" "account_request v" for v
proof unfold_locales
  show "account_ok v s net l \<Longrightarrow> account_ok v s net (l @ l')" for s net l l'
    unfolding account_ok_def Let_def using passkey_listed_later answered_later by blast
  show "account_request v net l (logout_request t)"
    if "account_ok v s net l" "app_session (fr_app s) = Some v'" "string_member v' ''token'' = Some t" for s net l v' t
    using that by (auto simp: account_ok_def account_request_def)
qed (auto simp: account_ok_def)

abbreviation account_inv :: "json \<Rightarrow> account_page \<Rightarrow> world \<Rightarrow> bool" where
  "account_inv v \<equiv> page_inv (account_ok v) (account_request v)"

text \<open>Only the session, the passkeys, the one that is renamed and the profile matter.\<close>

lemma account_fields [simp]:
  "account_inv v (ac_profileLoading_update a s) w \<longleftrightarrow> account_inv v s w" "account_inv v (ac_profileError_update b s) w \<longleftrightarrow> account_inv v s w"
  "account_inv v (ac_passkeysLoading_update c s) w \<longleftrightarrow> account_inv v s w" "account_inv v (ac_passkeysError_update d s) w \<longleftrightarrow> account_inv v s w"
  "account_inv v (ac_newPasskeyName_update e s) w \<longleftrightarrow> account_inv v s w" "account_inv v (ac_registerLoading_update f s) w \<longleftrightarrow> account_inv v s w"
  "account_inv v (ac_registerError_update g s) w \<longleftrightarrow> account_inv v s w" "account_inv v (ac_editName_update h s) w \<longleftrightarrow> account_inv v s w"
  "account_inv v (ac_editLoading_update i s) w \<longleftrightarrow> account_inv v s w" "account_inv v (ac_editError_update j s) w \<longleftrightarrow> account_inv v s w"
  "account_inv v (ac_signingOut_update k s) w \<longleftrightarrow> account_inv v s w" "account_inv v (fr_env_update l s) w \<longleftrightarrow> account_inv v s w"
  "account_inv v (go p s) w \<longleftrightarrow> account_inv v s w" "account_inv v (register_lower s) w \<longleftrightarrow> account_inv v s w"
  by (simp_all add: page_inv_def account_ok_def register_lower_def go_def)

lemma account_resets [simp]:
  "account_inv v s w \<Longrightarrow> account_inv v (s\<lparr>ac_profile := None\<rparr>) w" "account_inv v s w \<Longrightarrow> account_inv v (s\<lparr>ac_passkeys := []\<rparr>) w"
  "account_inv v s w \<Longrightarrow> account_inv v (cancelRename s) w"
  by (auto simp: page_inv_def account_ok_def cancelRename_def)

lemma account_session: "account_inv v s w \<Longrightarrow> app_session (fr_app s) = Some u \<Longrightarrow> u = v"
  by (simp add: page_inv_def account_ok_def)

lemma operator_session_inv: "account_inv v s w \<Longrightarrow> operator_session s = Inr u \<Longrightarrow> u = v \<and> isOperatorRole (text_at v ''role'')"
  by (auto simp: operator_session_def dest: account_session split: option.splits if_splits)

lemma single_account [simp]:
  "single (getOperatorMe t)" "single (getPortalMe t)" "single (webAuthnCredentials t)" "single (webAuthnRegisterBegin t)"
  "single (webAuthnRegisterFinish t b)" "single (webAuthnUpdateCredential t i n)" "single (webAuthnDeleteCredential t i)"
  by (simp_all add: getOperatorMe_def getPortalMe_def webAuthnCredentials_def webAuthnRegisterBegin_def webAuthnRegisterFinish_def
      webAuthnUpdateCredential_def webAuthnDeleteCredential_def)

section \<open>The handlers\<close>

lemma account_instant:
  "(\<And>s w. account_inv v s w \<Longrightarrow> account_inv v (g s) w) \<Longrightarrow> account.guarded v w (\<lambda>s. finish (g s))"
  by (intro account.guarded_by safe_finish)

lemma profile_guarded: "account.guarded v w loadProfile"
proof (rule account.guarded_by)
  fix s w' assume s: "account_inv v s w'"
  let ?low = "\<lambda>s :: account_page. s\<lparr>ac_profileLoading := False\<rparr>"
  let ?failed = "\<lambda>e s. let s = s\<lparr>ac_profileError := show_error s e\<rparr> in
    if unauthorized e then leave (\<lambda>_ s. finish (?low s)) (\<lambda>s. finish (?low s)) s else finish (?low s)"
  let ?o = "isOperatorRole (text_at v ''role'')"
  let ?op = "if ?o then getOperatorMe (text_at v ''token'') else getPortalMe (text_at v ''token'')"
  have "account.guarded v w (leave (\<lambda>_ s. finish (?low s)) (\<lambda>s. finish (?low s)))" for w
    by (intro account.leave_guarded account_instant) simp_all
  note leaves = account.guardedD [OF this]
  have failed: "account.guarded v w (?failed e)" for e w
    by (rule account.guarded_by) (auto simp: Let_def intro!: leaves safe_finish)
  have arrives: "account_inv v (s\<lparr>ac_profile := Some (profile_of ?o me)\<rparr>) w1"
    if "fetchJson r = ?op" "answered (w_net w) (w_http w) r me" "account_inv v s w1" "later w w1" for r me s w w1
  proof -
    have "answered (w_net w1) (w_http w1) r me" using that(2,4) by (auto simp: later_def answered_later)
    then show ?thesis using that(1,3) by (auto simp: page_inv_def account_ok_def Let_def)
  qed
  have "account.guarded_result v w' (try_await (http ?op) ?failed
      (\<lambda>me s. if me = JNull then ?failed (TypeError ''null has no properties'') s
         else finish (?low (s\<lparr>ac_profile := Some (profile_of ?o me)\<rparr>))) (s\<lparr>ac_profileError := None, ac_profile := None, ac_profileLoading := True\<rparr>))"
  proof (rule account.guarded_call)
    show "account.guarded v w1 (\<lambda>s. if me = JNull then ?failed (TypeError ''null has no properties'') s
         else finish (?low (s\<lparr>ac_profile := Some (profile_of ?o me)\<rparr>)))"
      if "fetchJson r = ?op" "answered (w_net w1) (w_http w1) r me" for r me w1
      using arrives [OF that] account.guardedD [OF failed]
      by (auto intro!: account.guarded_by safe_finish)
  qed (use s failed in \<open>auto simp: account_request_def\<close>)
  then show "account.guarded_result v w' (loadProfile s)"
    unfolding loadProfile_def Let_def using s
    by (auto dest: account_session intro!: safe_finish split: option.split)
qed

lemma passkeys_guarded:
  assumes t: "\<And>e w. account.guarded v w (throw e)" and k: "\<And>w. account.guarded v w k"
  shows "account.guarded v w (loadPasskeys throw k)"
proof (rule account.guarded_by)
  fix s w' assume s: "account_inv v s w'"
  let ?low = "\<lambda>s :: account_page. s\<lparr>ac_passkeysLoading := False\<rparr>"
  let ?failed = "\<lambda>e s. let s = s\<lparr>ac_passkeysError := show_error s e\<rparr> in
    if unauthorized e then sign_off (\<lambda>e s. throw e (?low s)) (\<lambda>s. k (?low s)) s else k (?low s)"
  note t' = account.guardedD [OF t] and k' = account.guardedD [OF k]
  have "account.guarded v w (sign_off (\<lambda>e s. throw e (?low s)) (\<lambda>s. k (?low s)))" for w
    by (intro account.sign_off_guarded account.guarded_by) (simp_all add: t' k')
  note off = account.guardedD [OF this]
  have failed: "account.guarded v w (?failed e)" for e w
    by (rule account.guarded_by) (auto simp: Let_def intro!: off k')
  have arrives: "account_inv v (s\<lparr>ac_passkeys := xs\<rparr>) w1"
    if "fetchJson r = webAuthnCredentials (text_at v ''token'')" "answered (w_net w) (w_http w) r res"
      "list_member res ''credentials'' = Inr xs" "account_inv v s w1" "later w w1" for r res xs s w w1
  proof -
    have "answered (w_net w1) (w_http w1) r res" using that(2,5) by (auto simp: later_def answered_later)
    then have "passkey_listed (w_net w1) (w_http w1) (text_at v ''token'') (text_at x ''id'')" if "x \<in> set xs" for x
      unfolding passkey_listed_def using that \<open>list_member res ''credentials'' = Inr xs\<close> \<open>fetchJson r = _\<close> by blast
    then show ?thesis using that(4) by (simp add: page_inv_def account_ok_def)
  qed
  have "account.guarded_result v w' (try_await (http (webAuthnCredentials (text_at v ''token''))) ?failed
      (\<lambda>res s. case list_member res ''credentials'' of Inl e \<Rightarrow> ?failed e s | Inr creds \<Rightarrow> k (?low (s\<lparr>ac_passkeys := creds\<rparr>)))
      (s\<lparr>ac_passkeysError := None, ac_passkeys := [], ac_passkeysLoading := True\<rparr>))"
    if "isOperatorRole (text_at v ''role'')"
  proof (rule account.guarded_call)
    show "account.guarded v w1 (\<lambda>s. case list_member res ''credentials'' of Inl e \<Rightarrow> ?failed e s | Inr creds \<Rightarrow> k (?low (s\<lparr>ac_passkeys := creds\<rparr>)))"
      if "fetchJson r = webAuthnCredentials (text_at v ''token'')" "answered (w_net w1) (w_http w1) r res" for r res w1
      using arrives [OF that] account.guardedD [OF failed]
      by (auto intro!: account.guarded_by k' split: sum.split)
  qed (use s failed that in \<open>auto simp: account_request_def\<close>)
  then show "account.guarded_result v w' (loadPasskeys throw k s)"
    unfolding loadPasskeys_def Let_def using s
    by (auto dest: account_session intro!: k' split: option.split)
qed

lemma account_failed_guarded: "account.guarded v w (account_register_failed e)"
  unfolding account_register_failed_def [abs_def] by (rule account_instant) simp

lemma with_credential_guarded:
  assumes "isOperatorRole (text_at v ''role'')" and q: "fetchJson q = webAuthnRegisterBegin (text_at v ''token'')"
    and a: "answered (w_net w) (w_http w) q started"
  shows "account.guarded v w (with_credential v started c)"
proof (rule account.guarded_by)
  fix s w' assume w': "later w w'" and s: "account_inv v s w'"
  have "answered (w_net w') (w_http w') q started" using a w' by (auto simp: later_def answered_later)
  then have allowed: "account_request v (w_net w') (w_http w') r"
    if "fetchJson r = webAuthnRegisterFinish (text_at v ''token'') i" "obj_get i ''challenge'' = Some (JStr (text_at started ''challenge''))" for r i
    using assms(1) q that unfolding account_request_def Let_def by auto
  have lower: "account.guarded v w (\<lambda>s. finish (register_lower s))" for w by (rule account_instant) simp
  note reload = account.guardedD [OF passkeys_guarded [OF account_failed_guarded lower]]
  show "account.guarded_result v w' (with_credential v started c s)"
    unfolding with_credential_def using s
    by (auto simp: obj_get_def obj_lit_def intro!: safe_finish account.guarded_call account_failed_guarded account.guarded_by reload allowed
        split: option.split credential.split)
qed

lemma passkey_registration_guarded: "account.guarded v w registerPasskey_account"
proof (rule account.guarded_by)
  fix s w' assume s: "account_inv v s w'"
  have opts: "account.guarded v w (with_options v started)"
    if "isOperatorRole (text_at v ''role'')" "fetchJson q = webAuthnRegisterBegin (text_at v ''token'')" "answered (w_net w) (w_http w) q started"
    for w q started
  proof (rule account.guarded_by)
    fix s w1 assume w1: "later w w1" and s: "account_inv v s w1"
    have "answered (w_net w2) (w_http w2) q started" if "later w1 w2" for w2
      using \<open>answered (w_net w) (w_http w) q started\<close> later_trans [OF w1 that] by (auto simp: later_def answered_later)
    then show "account.guarded_result v w1 (with_options v started s)"
      unfolding with_options_def using s that(1,2)
      by (auto intro!: account.guarded_local account_failed_guarded with_credential_guarded account.guardedD [OF account_failed_guarded] split: sum.split)
  qed
  have "account.guarded_result v w' (try_await (http (webAuthnRegisterBegin (text_at v ''token''))) account_register_failed (with_options v)
      (s\<lparr>ac_registerError := None, ac_registerLoading := True\<rparr>))" if "isOperatorRole (text_at v ''role'')"
    by (rule account.guarded_call) (use s that in \<open>auto simp: account_request_def intro: account_failed_guarded opts\<close>)
  moreover have "operator_session (s\<lparr>ac_registerError := None\<rparr>) = operator_session s" by (simp add: operator_session_def)
  ultimately show "account.guarded_result v w' (registerPasskey_account s)"
    unfolding registerPasskey_account_def Let_def using s
    by (auto dest: operator_session_inv intro!: safe_finish split: sum.split)
qed

lemma saveRename_guarded: "account.guarded v w saveRename"
proof (rule account.guarded_by)
  fix s w' assume s: "account_inv v s w'"
  let ?failed = "\<lambda>e s :: account_page. finish ((s\<lparr>ac_editError := show_error s e\<rparr>)\<lparr>ac_editLoading := False\<rparr>)"
  let ?done = "\<lambda>s :: account_page. finish (cancelRename s\<lparr>ac_editLoading := False\<rparr>)"
  have f: "account.guarded v w (?failed e)" for e w by (rule account_instant) simp
  have "account.guarded v w ?done" for w by (rule account_instant) simp
  then have reload: "account.guarded v w (loadPasskeys ?failed ?done)" for w by (intro passkeys_guarded f)
  have "account.guarded_result v w' (try_await (http (webAuthnUpdateCredential (text_at v ''token'') i name)) ?failed
      (\<lambda>_. loadPasskeys ?failed ?done) (s\<lparr>ac_editError := None, ac_editLoading := True\<rparr>))"
    if "isOperatorRole (text_at v ''role'')" "ac_editId s = Some i" "name \<noteq> []" for i name
  proof (rule account.guarded_call)
    have "passkey_listed (w_net w') (w_http w') (text_at v ''token'') i" using s that(2) by (simp add: page_inv_def account_ok_def)
    then show "account_request v (w_net w') (w_http w') r"
      if "fetchJson r = webAuthnUpdateCredential (text_at v ''token'') i name" for r
      using that \<open>isOperatorRole _\<close> \<open>name \<noteq> []\<close> unfolding account_request_def Let_def by auto
  qed (use s f reload in auto)
  note call = this
  have same: "operator_session (s\<lparr>ac_editError := None\<rparr>) = operator_session s" by (simp add: operator_session_def)
  show "account.guarded_result v w' (saveRename s)"
  proof (cases "operator_session s")
    case (Inr u)
    then show ?thesis
      using operator_session_inv [OF s Inr] s call [of "the (ac_editId s)" "js_trim (ac_editName s)"]
      unfolding saveRename_def Let_def by (cases "ac_editId s") (auto simp: same truthy_def intro!: safe_finish)
  qed (use s in \<open>auto simp: saveRename_def same intro!: safe_finish\<close>)
qed

lemma deletePasskey_guarded:
  assumes s: "account_inv v s w" and cred: "cred \<in> set (ac_passkeys s)"
  shows "account.guarded_result v w (deletePasskey cred s)"
proof -
  let ?low = "\<lambda>s :: account_page. s\<lparr>ac_passkeysLoading := False\<rparr>"
  let ?failed = "\<lambda>e s :: account_page. finish (?low (s\<lparr>ac_passkeysError := show_error s e\<rparr>))"
  have f: "account.guarded v w (?failed e)" for e w by (rule account_instant) simp
  have "account.guarded v w (\<lambda>s. finish (?low s))" for w by (rule account_instant) simp
  then have reload: "account.guarded v w (loadPasskeys ?failed (\<lambda>s. finish (?low s)))" for w by (intro passkeys_guarded f)
  have "account.guarded_result v w (try_await (http (webAuthnDeleteCredential (text_at v ''token'') (text_at cred ''id''))) ?failed
      (\<lambda>_. loadPasskeys ?failed (\<lambda>s. finish (?low s))) (s\<lparr>ac_passkeysError := None, ac_passkeysLoading := True\<rparr>))"
    if "isOperatorRole (text_at v ''role'')"
  proof (rule account.guarded_call)
    have "passkey_listed (w_net w) (w_http w) (text_at v ''token'') (text_at cred ''id'')"
      using s cred by (simp add: page_inv_def account_ok_def)
    then show "account_request v (w_net w) (w_http w) r"
      if "fetchJson r = webAuthnDeleteCredential (text_at v ''token'') (text_at cred ''id'')" for r
      using that \<open>isOperatorRole _\<close> unfolding account_request_def Let_def by auto
  qed (use s f reload in auto)
  moreover have "operator_session (s\<lparr>ac_passkeysError := None\<rparr>) = operator_session s" by (simp add: operator_session_def)
  ultimately show ?thesis
    unfolding deletePasskey_def Let_def using s
    by (auto dest: operator_session_inv intro!: safe_finish split: sum.split)
qed

lemma row_buttons_guarded: "account.guarded v w (rename_button i)" "account.guarded v w (delete_button i)"
proof -
  have "x \<in> set xs" if "drop i xs = x # ys" for x and xs ys :: "json list"
    using that in_set_dropD [of x i xs] by simp
  note row = this
  have "account_inv v (startRename cred s) w" if "account_inv v s w" "cred \<in> set (ac_passkeys s)" for s w cred
    using that by (simp add: page_inv_def account_ok_def startRename_def)
  note rename = this
  show "account.guarded v w (rename_button i)" "account.guarded v w (delete_button i)"
    unfolding rename_button_def [abs_def] delete_button_def [abs_def]
    by (auto intro!: account.guarded_by safe_finish deletePasskey_guarded rename dest: row split: list.split)
qed

lemma sign_out_guarded: "account.guarded v w handleSignOut"
proof -
  have "account.guarded v w (sign_off (\<lambda>_ s. finish (go ''/login'' s\<lparr>ac_signingOut := False\<rparr>))
      (\<lambda>s. finish (go ''/login'' s\<lparr>ac_signingOut := False\<rparr>)))" for w
    by (intro account.sign_off_guarded account_instant) simp_all
  note off = account.guardedD [OF this]
  show ?thesis unfolding handleSignOut_def [abs_def] Let_def by (auto intro!: account.guarded_by off)
qed

interpretation account_invariant: page_invariant account_handlers later "account_inv v" for v
proof unfold_locales
  fix h w assume "h \<in> account_handlers"
  moreover have "account.guarded v w mount_account"
    unfolding mount_account_def [abs_def] by (rule account_instant) simp
  ultimately show "account.guarded v w h"
    by (auto simp: account_handlers_def intro: profile_guarded passkeys_guarded account.finish_guarded passkey_registration_guarded
        saveRename_guarded row_buttons_guarded sign_out_guarded intro!: account_instant)
qed (auto intro: later_trans)

text \<open>C13. The account page acts within its session and role.  Opened in the session \<open>v\<close>, and whatever is clicked and however the answers
  interleave, every request it sends is the logout of that session, or carries its token and is one that its role may send: a portal user
  only reads their own profile, and only an operator reads and changes passkeys; a passkey that is renamed or deleted is one that the
  server has listed for this session, under a name that is not empty, and a registration answers a challenge that the server has issued to it.  The session
  in the store is \<open>v\<close> or none, and the profile and the passkeys on the page are those that the server has answered with.\<close>

theorem account_page_authorised:
  assumes "page_reachable account_handlers (fresh_page s w) pg" and "w_http w = []" and "app_session (fr_app s) \<in> {None, Some v}"
    and "ac_passkeys s = []" and "ac_editId s = None" and "ac_profile s = None"
  shows "requests_ok (account_request v) (w_net (pg_world pg)) (w_http (pg_world pg)) \<and>
    account_ok v (pg_state pg) (w_net (pg_world pg)) (w_http (pg_world pg))"
proof -
  have "account_inv v (pg_state pg) (pg_world pg)"
    by (rule account_invariant.reachable_invariant [OF assms(1)]) (use assms(2-) in \<open>simp_all add: fresh_page_def page_inv_def account_ok_def\<close>)
  then show ?thesis by (simp add: page_inv_def)
qed

definition sample_operator :: json where
  "sample_operator = JObj [(''token'', JStr ''T''), (''role'', JStr ''operator'')]"

definition sample_account :: account_page where
  "sample_account = initial_account (initial_frame sample_env (sample_app\<lparr>app_session := Some sample_operator\<rparr>)
     (load_router ''/account'' sample_storage))"

definition sample_passkeys :: json where
  "sample_passkeys = JObj [(''credentials'', JArr [JObj [(''id'', JStr ''k1''), (''name'', JStr ''phone'')]])]"

abbreviation sample_account_run :: "account_page \<times> world" where
  "sample_account_run \<equiv> run_all [loadPasskeys (\<lambda>_. finish) finish, delete_button 0] sample_account (sample_world (\<lambda>_. sample_passkeys))"

lemma sample_account_members [simp]:
  "wf_json sample_passkeys" "list_member sample_passkeys ''credentials'' = Inr [JObj [(''id'', JStr ''k1''), (''name'', JStr ''phone'')]]"
  "text_at (JObj [(''id'', JStr ''k1''), (''name'', JStr ''phone'')]) ''id'' = ''k1''"
  "text_at sample_operator ''token'' = ''T''" "isOperatorRole (text_at sample_operator ''role'')"
  "app_session (fr_app sample_account) = Some sample_operator" "ac_passkeys sample_account = []" "ac_editId sample_account = None"
  "ac_profile sample_account = None" "fr_env sample_account = sample_env" "env_confirm sample_env = (\<lambda>_. True)"
  by (simp_all add: sample_passkeys_def sample_operator_def list_member_def obj_get_def text_at_def string_member_def opt_or_def str_or_def
      isOperatorRole_def sample_account_def initial_account_def initial_frame_def frame.defs sample_env_def)

lemma sample_account_log:
  "map req_method (w_http (snd sample_account_run)) = [''GET'', ''DELETE'', ''GET'']"
  "map (\<lambda>x. text_at x ''id'') (ac_passkeys (fst sample_account_run)) = [''k1'']"
  by (simp_all add: run_eval loadPasskeys_def delete_button_def deletePasskey_def operator_session_def webAuthnCredentials_def
      webAuthnDeleteCredential_def sample_world_def finish_def)

theorem account_page_authorised_witness:
  "map req_method (w_http (snd sample_account_run)) = [''GET'', ''DELETE'', ''GET''] \<and>
   list_all (\<lambda>r. \<exists>l. account_request sample_operator (w_net (snd sample_account_run)) l r) (w_http (snd sample_account_run)) \<and>
   passkey_listed (w_net (snd sample_account_run)) (w_http (snd sample_account_run)) ''T'' ''k1''"
proof -
  have h: "set [loadPasskeys (\<lambda>_. finish) finish, delete_button 0] \<subseteq> account_handlers" by (auto simp: account_handlers_def)
  have "w_http (sample_world (\<lambda>_. sample_passkeys)) = []" by (simp add: sample_world_def)
  note run = account_page_authorised [OF run_all_reachable [OF h, of sample_account "sample_world (\<lambda>_. sample_passkeys)"] this, of sample_operator]
  obtain s' w' where R: "sample_account_run = (s', w')" by (cases sample_account_run)
  have ok: "requests_ok (account_request sample_operator) (w_net w') (w_http w')" "account_ok sample_operator s' (w_net w') (w_http w')"
    using run by (simp_all add: R fresh_page_def del: run_all.simps)
  moreover have "\<exists>x \<in> set (ac_passkeys s'). text_at x ''id'' = ''k1''" using sample_account_log(2) unfolding R by auto
  ultimately have "passkey_listed (w_net w') (w_http w') ''T'' ''k1''" by (auto simp: account_ok_def)
  moreover have "list_all (\<lambda>r. \<exists>l. account_request sample_operator (w_net w') l r) (w_http w')"
    using requests_ok_member [OF ok(1)] by (simp add: list_all_iff)
  ultimately show ?thesis using sample_account_log(1) unfolding R by simp
qed

section \<open>The public pages\<close>

text \<open>What the page for tips sends: a registration with a fee in its bounds for a domain and a wallet that are not blank, and the
  verification of the registration on the page with the signature on it and at least one kind of proof.\<close>

definition tip_register_emits :: "tip_register_page \<Rightarrow> request \<Rightarrow> bool" where
  "tip_register_emits s r \<longleftrightarrow>
     (\<exists>fee. 0 \<le> fee \<and> fee \<le> 500 \<and> js_trim (tr_domain s) \<noteq> [] \<and> js_trim (tr_walletAddress s) \<noteq> [] \<and>
        fetchJson r = beginTipRegistryRegistration (obj_lit
          [(''kind'', Some (JStr (tr_kind s))), (''domain'', Some (JStr (js_trim (tr_domain s)))),
           (''wallet_address'', Some (JStr (js_trim (tr_walletAddress s)))), (''host_fee_bps'', Some (jnum fee))])) \<or>
     (\<exists>kinds. kinds \<noteq> [] \<and> set kinds \<subseteq> {''dns_txt'', ''https_well_known''} \<and> tr_signature s \<noteq> [] \<and>
        fetchJson r = verifyTipRegistryRegistration (text_at (member (tr_beginResult s) ''registration'') ''id'') (tr_signature s) (Some kinds))"

lemma tip_register_sends:
  "0 \<le> fee \<Longrightarrow> fee \<le> 500 \<Longrightarrow> js_trim (tr_domain s) \<noteq> [] \<Longrightarrow> js_trim (tr_walletAddress s) \<noteq> [] \<Longrightarrow>
   sends (http (beginTipRegistryRegistration (obj_lit
          [(''kind'', Some (JStr (tr_kind s))), (''domain'', Some (JStr (js_trim (tr_domain s)))),
           (''wallet_address'', Some (JStr (js_trim (tr_walletAddress s)))), (''host_fee_bps'', Some (jnum fee))]))) (tip_register_emits s)"
  "kinds \<noteq> [] \<Longrightarrow> set kinds \<subseteq> {''dns_txt'', ''https_well_known''} \<Longrightarrow> tr_signature s \<noteq> [] \<Longrightarrow>
   sends (http (verifyTipRegistryRegistration (text_at (member (tr_beginResult s) ''registration'') ''id'') (tr_signature s) (Some kinds)))
     (tip_register_emits s)"
  by (rule sends_single, auto simp: tip_register_emits_def beginTipRegistryRegistration_def verifyTipRegistryRegistration_def Let_def)+

lemma tip_register_stops: "obeys (emits tip_register_emits) (\<lambda>s. finish (g s))"
  by (intro obeysR obeys_stop)

interpretation tip_register_steps: step_discipline tip_register_handlers "emits tip_register_emits"
proof unfold_locales
  fix h assume "h \<in> tip_register_handlers"
  moreover have "obeys (emits tip_register_emits) beginTipRegistration" "obeys (emits tip_register_emits) verifyTipRegistration"
    by (rule obeysR, auto simp: beginTipRegistration_def verifyTipRegistration_def Let_def
        intro!: obeys_sends tip_register_sends tip_register_stops obeys_stop split: option.split)+
  moreover have "obeys (emits tip_register_emits) useConnectedWallet_tip" "obeys (emits tip_register_emits) signTipMessage"
    unfolding useConnectedWallet_tip_def signTipMessage_def Let_def
    by (auto intro!: obeysR obeys_sends sends_local tip_register_stops obeys_stop split: option.split list.split)
  moreover have "obeys (emits tip_register_emits) (mount_tip d)" for d
    unfolding mount_tip_def [abs_def] by (rule tip_register_stops)
  ultimately show "obeys (emits tip_register_emits) h" by (auto simp: tip_register_handlers_def intro: tip_register_stops)
qed simp

lemma tip_registration_checked:
  assumes "page_reachable tip_register_handlers (fresh_page s w) pg" and "page_step tip_register_handlers pg pg'"
  shows "\<exists>sent. w_http (pg_world pg') = w_http (pg_world pg) @ sent \<and> list_all (tip_register_emits (pg_state pg)) sent"
  using tip_register_steps.reachable_step [OF assms(1) _ assms(2)] by (auto simp: fresh_page_def emits_def list_all_iff)

text \<open>Opening an attestation by its identifier leads to the inspector with that very identifier, under either prefix.\<close>

lemma attestation_opened:
  assumes "router_ok (fr_router s)" and "normalizeId (tu_idInput s) = Some i" and "plain_text i"
  shows "trustRoute (currentPath (fr_router (fst (openById s)))) = TrustAttestation i"
    and "app_view (currentPath (fr_router (fst (openById s)))) = (PortalShell, Some TrustPage)"
proof -
  define p where "p = attestation_path s i"
  have p: "p = ''/trust/attestations/'' @ i \<or> p = ''/portal/trust/attestations/'' @ i"
    by (simp add: p_def attestation_path_def trustBasePath_def)
  have i: "last i \<noteq> CHR ''/''" "i \<noteq> []" "\<forall>c \<in> set i. c \<noteq> CHR ''?'' \<and> c \<noteq> CHR ''#''"
    using plain_last [OF assms(3)] split_plain(3) [OF assms(3)] assms(3) by (simp_all add: plain_text_def)
  have "startsWith p ''/''" using p by (elim disjE; simp add: startsWith_def)
  moreover have "last p \<noteq> CHR ''/''" using p i by (elim disjE; simp)
  moreover have "\<forall>c \<in> set p. c \<noteq> CHR ''?'' \<and> c \<noteq> CHR ''#''" using p i(3) by (elim disjE; simp)
  ultimately have "currentPath (fr_router (fst (openById s))) = p"
    using assms(1,2) by (simp add: openById_def finish_def go_def link_followed p_def)
  moreover have "trustRoute p = TrustAttestation i"
    using p split_plain [OF assms(3)] by (elim disjE; simp add: trustRoute_def trustBasePath_def path_parts_def startsWith_def)
  moreover have "app_view p = (PortalShell, Some TrustPage)"
    using p split_plain(3) [OF assms(3)]
    by (elim disjE; simp add: app_view_def isOperatorRoute_def isPortalShellRoute_def startsWith_def
        shell_view_def isPortalTrustRoute_def isPortalTrustDashboardRoute_def isPortalAccountRoute_def)
  ultimately show "trustRoute (currentPath (fr_router (fst (openById s)))) = TrustAttestation i"
    and "app_view (currentPath (fr_router (fst (openById s)))) = (PortalShell, Some TrustPage)" by simp_all
qed

text \<open>The badge of the inspector is green exactly when the key that the header names is published.\<close>

lemma kid_badge:
  "kidPresenceStatus s = ''success'' \<longleftrightarrow>
     ai_attestation s \<noteq> JNull \<and> headerKid s \<noteq> [] \<and> ai_jwks s \<noteq> JNull \<and>
     (\<exists>ks k. obj_get (ai_jwks s) ''keys'' = Some (JArr ks) \<and> k \<in> set ks \<and> text_at k ''kid'' = headerKid s)"
proof (cases "\<exists>ks. obj_get (ai_jwks s) ''keys'' = Some (JArr ks)")
  case True
  then show ?thesis by (auto simp: kidPresenceStatus_def jwksKids_def image_iff) metis
next
  case False
  then have "jwksKids s = []" by (auto simp: jwksKids_def split: option.split json.split)
  with False show ?thesis by (auto simp: kidPresenceStatus_def)
qed

end
