(* ===== verification/Console_Pages.thy ===== *)
theory Console_Pages
  imports Operator_Pages Jobs Safe_App
begin

text \<open>
  The lists of the operator console: the provisioning jobs (\<^verbatim>\<open>web/src/pages/operator/ProvisioningJobs.svelte\<close>), the releases
  (\<^verbatim>\<open>Releases.svelte\<close>), and the operations of the tip registry (\<^verbatim>\<open>TipRegistry.svelte\<close>) and of the soul registry (\<^verbatim>\<open>SoulRegistry.svelte\<close>), with
  the actions that start new ones.
\<close>

section \<open>Drift, and wiring all of it\<close>

text \<open>
  The pages of jobs and of releases hold the same text for the drift of the fleet and the button that wires all stale instances, so that
  their states extend a common record.
\<close>

record wire_page = frame +
  wr_token :: js_string
  wr_drift :: "json pending_result option"
  wr_wireAllPending :: bool
  wr_wireAllResult :: json
  wr_wireAllError :: "js_string option"

text \<open>A promise whose failure is looked at by its own \<open>catch\<close>.\<close>

definition settled :: "'a io \<Rightarrow> (js_error + 'a) io" where
  "settled op net log = (case op net log of (r, l) \<Rightarrow> (Inr r, l))"

definition fulfilled :: "js_error + 'a \<Rightarrow> 'a option" where
  "fulfilled r = (case r of Inl _ \<Rightarrow> None | Inr v \<Rightarrow> Some v)"

definition wireAll :: "('a wire_page_scheme, world) segment" where
  "wireAll s =
     (let lower = (\<lambda>s. s\<lparr>wr_wireAllPending := False\<rparr>);
          failed = rejected lower (\<lambda>e s. s\<lparr>wr_wireAllError := show_error s e\<rparr>) (\<lambda>_. finish) finish in
      try_await (http (remediateMCPDrift (wr_token s))) failed
        (\<lambda>res s. try_await (http (settled (listOperatorInstancesDrift (wr_token s)))) failed
           (\<lambda>r s. finish (lower (case r of Inl _ \<Rightarrow> s | Inr d \<Rightarrow> s\<lparr>wr_drift := Some d\<rparr>)))
           (s\<lparr>wr_wireAllResult := res\<rparr>))
        (s\<lparr>wr_wireAllError := None, wr_wireAllResult := JNull, wr_wireAllPending := True\<rparr>))"

text \<open>\<open>drift?.kind === 'data' ? drift.data.summary?.mcp_wire_stale ?? 0 : 0\<close>\<close>

definition wireStaleCount :: "'a wire_page_scheme \<Rightarrow> int" where
  "wireStaleCount s =
     (case wr_drift s of Some (Data d) \<Rightarrow> nullish (int_at (nullish (obj_get d ''summary'') JNull) ''mcp_wire_stale'') 0 | _ \<Rightarrow> 0)"

section \<open>The provisioning jobs\<close>

record jobs_page = wire_page +
  jl_statusFilter :: js_string
  jl_loading :: bool
  jl_errorMessage :: "js_string option"
  jl_provisionJobs :: "json list"
  jl_updateJobsResult :: "json pending_result option"
  jl_actingId :: "js_string option"
  jl_actionError :: "js_string option"
  jl_driftError :: "js_string option"

type_synonym jobs_segment = "(jobs_page, world) segment"

definition provision_item :: "json \<Rightarrow> OperatorProvisionJobListItem" where
  "provision_item v =
     \<lparr>pv_id = text_at v ''id'', pv_instance_slug = text_at v ''instance_slug'', pv_status = text_at v ''status'',
      pv_step = string_member v ''step'', pv_run_id = string_member v ''run_id'', pv_attempts = nullish (int_at v ''attempts'') 0,
      pv_max_attempts = int_at v ''max_attempts'', pv_error_code = string_member v ''error_code'',
      pv_error_message = string_member v ''error_message'', pv_request_id = string_member v ''request_id'',
      pv_created_at = text_at v ''created_at'', pv_updated_at = text_at v ''updated_at''\<rparr>"

definition bool_member :: "json \<Rightarrow> js_string \<Rightarrow> bool option" where
  "bool_member v k = (case obj_get v k of Some (JBool b) \<Rightarrow> Some b | _ \<Rightarrow> None)"

definition update_item :: "json \<Rightarrow> OperatorUpdateJobListItem" where
  "update_item v =
     \<lparr>ud_id = text_at v ''id'', ud_instance_slug = text_at v ''instance_slug'', ud_kind = string_member v ''kind'',
      ud_status = text_at v ''status'', ud_active_phase = string_member v ''active_phase'', ud_failed_phase = string_member v ''failed_phase'',
      ud_body_only = bool_member v ''body_only'', ud_mcp_only = bool_member v ''mcp_only'', ud_step = string_member v ''step'',
      ud_attempts = int_at v ''attempts'', ud_max_attempts = int_at v ''max_attempts'', ud_run_id = string_member v ''run_id'',
      ud_run_url = string_member v ''run_url'', ud_deploy_run_url = string_member v ''deploy_run_url'',
      ud_body_run_url = string_member v ''body_run_url'', ud_mcp_run_url = string_member v ''mcp_run_url'',
      ud_error_code = string_member v ''error_code'', ud_error_message = string_member v ''error_message'',
      ud_request_id = string_member v ''request_id'', ud_created_at = text_at v ''created_at'', ud_updated_at = text_at v ''updated_at''\<rparr>"

definition job_rows :: "jobs_page \<Rightarrow> OperatorJobRow list" where
  "job_rows s =
     (let updates = (case jl_updateJobsResult s of
             Some (Data d) \<Rightarrow> (case obj_get d ''jobs'' of Some (JArr us) \<Rightarrow> us | _ \<Rightarrow> [])
           | _ \<Rightarrow> []) in
      mergeJobRows (map provision_item (jl_provisionJobs s)) (map update_item updates))"

text \<open>
  The three lists are asked for at once.  \<open>throw\<close> and \<open>k\<close> say where the promise of \<open>load\<close> goes; the drift's own \<open>catch\<close> is run with
  the answer to the list.
\<close>

definition load_jobs :: "(js_error \<Rightarrow> jobs_segment) \<Rightarrow> jobs_segment \<Rightarrow> jobs_segment" where
  "load_jobs throw k s =
     (let s = s\<lparr>jl_errorMessage := None, jl_actionError := None, jl_driftError := None, jl_provisionJobs := [],
                jl_updateJobsResult := None, wr_wireAllResult := JNull, wr_wireAllError := None\<rparr>;
          lower = (\<lambda>s. s\<lparr>jl_loading := False\<rparr>);
          failed = rejected lower (\<lambda>e s. s\<lparr>jl_errorMessage := show_error s e\<rparr>) throw k in
      try_await (http_all3 (settled (listOperatorInstancesDrift (wr_token s)))
          (settled (listOperatorUpdateJobs (wr_token s) (Some \<lparr>uj_status = Some (jl_statusFilter s), uj_limit = Some 100\<rparr>)))
          (settled (listOperatorProvisionJobs (wr_token s)
             (Some \<lparr>pj_status = Some (jl_statusFilter s), pj_instance_slug = None, pj_limit = Some 100\<rparr>)))) failed
        (\<lambda>(d, u, p) s.
           let s = (case d of Inl e \<Rightarrow> s\<lparr>jl_driftError := show_error s e\<rparr> | Inr _ \<Rightarrow> s) in
           (case p of
              Inl e \<Rightarrow> failed e s
            | Inr res \<Rightarrow>
                (let s = s\<lparr>wr_drift := fulfilled d, jl_updateJobsResult := fulfilled u\<rparr> in
                 case list_member res ''jobs'' of
                   Inl e \<Rightarrow> failed e s
                 | Inr js \<Rightarrow> k (lower (s\<lparr>jl_provisionJobs := js\<rparr>)))))
        (s\<lparr>jl_loading := True\<rparr>))"

definition source_name :: "OperatorJobSource \<Rightarrow> js_string" where
  "source_name src = (case src of SourceProvision \<Rightarrow> ''provision'' | SourceUpdate \<Rightarrow> ''update'')"

definition retry_row :: "OperatorJobRow \<Rightarrow> jobs_segment" where
  "retry_row row s =
     (let s = s\<lparr>jl_actionError := None\<rparr>;
          lower = (\<lambda>s. s\<lparr>jl_actingId := None\<rparr>);
          failed = rejected lower (\<lambda>e s. s\<lparr>jl_actionError := show_error s e\<rparr>) (\<lambda>_. finish) finish in
      if row_source row \<noteq> SourceProvision \<or> \<not> row_retryable row
      then finish (s\<lparr>jl_actionError := Some (''Retry not supported for '' @ source_name (row_source row) @ '' jobs at operator scope.'')\<rparr>)
      else
        try_await (http (retryOperatorProvisionJob (wr_token s) (row_id row))) failed
          (\<lambda>_. load_jobs failed (\<lambda>s. finish (lower s)))
          (s\<lparr>jl_actingId := Some (row_id row)\<rparr>))"

definition retry_button :: "nat \<Rightarrow> jobs_segment" where
  "retry_button i s = (if i < length (job_rows s) then retry_row (job_rows s ! i) s else finish s)"

definition jobs_handlers :: "jobs_segment set" where
  "jobs_handlers =
     {load_jobs (\<lambda>_. finish) finish, wireAll} \<union> range retry_button \<union> {\<lambda>s. finish (s\<lparr>jl_statusFilter := t\<rparr>) | t. True}"

section \<open>The releases\<close>

record releases_page = wire_page +
  rl_loading :: bool
  rl_errorMessage :: "js_string option"
  rl_releases :: "json pending_result option"
  rl_wireActionInfo :: "js_string option"

type_synonym releases_segment = "(releases_page, world) segment"

definition load_releases :: releases_segment where
  "load_releases s =
     (let s = s\<lparr>rl_errorMessage := None, rl_wireActionInfo := None, rl_releases := None, wr_drift := None,
                wr_wireAllResult := JNull, wr_wireAllError := None\<rparr>;
          lower = (\<lambda>s. s\<lparr>rl_loading := False\<rparr>);
          failed = rejected lower (\<lambda>e s. s\<lparr>rl_errorMessage := show_error s e\<rparr>) (\<lambda>_. finish) finish in
      try_await (http_all (listOperatorReleases (wr_token s)) (settled (listOperatorInstancesDrift (wr_token s)))) failed
        (\<lambda>(r, d) s. finish (lower (s\<lparr>rl_releases := Some r, wr_drift := fulfilled d\<rparr>)))
        (s\<lparr>rl_loading := True\<rparr>))"

definition handleStackAction :: "js_string \<Rightarrow> releases_page \<Rightarrow> releases_page" where
  "handleStackAction slug s = s\<lparr>rl_wireActionInfo := Some (''Wire MCP requested for '' @ [quote_char] @ slug @ [quote_char] @
     ''. Use the '' @ [quote_char] @ ''Wire all'' @ [quote_char] @ '' button above to remediate every wire-stale instance, or open /operator/instances/'' @
     slug @ '' for per-instance control.'')\<rparr>"

definition fleetTotal :: "releases_page \<Rightarrow> int" where
  "fleetTotal s = (case rl_releases s of Some (Data d) \<Rightarrow> nullish (int_at d ''fleet_total'') 0 | _ \<Rightarrow> 0)"

definition releases_handlers :: "releases_segment set" where
  "releases_handlers = {load_releases, wireAll} \<union> {\<lambda>s. finish (handleStackAction slug s) | slug. True}"

section \<open>The operations of a registry\<close>

text \<open>The label that both registries give the number of listed operations.\<close>

definition bucketStatus :: "js_string \<Rightarrow> int option \<Rightarrow> js_string" where
  "bucketStatus f n =
     (case n of
        None \<Rightarrow> ''default''
      | Some n \<Rightarrow>
          if f = ''pending'' \<and> n > 0 then ''warning''
          else if f = ''failed'' \<and> n > 0 then ''danger''
          else ''default'')"

text \<open>
  Both registries list the operations with the status of the filter, and run an action whose answer they keep and after which they list
  again: the two pages hold the same text for that, up to the calls.
\<close>

record registry_page = frame +
  rp_token :: js_string
  rp_statusFilter :: js_string
  rp_loading :: bool
  rp_errorMessage :: "js_string option"
  rp_ops :: json
  rp_createError :: "js_string option"
  rp_createResult :: json
  rp_creating :: bool

definition load_ops ::
  "(js_string \<Rightarrow> js_string \<Rightarrow> json io) \<Rightarrow> (js_error \<Rightarrow> ('a registry_page_scheme, world) segment) \<Rightarrow>
   ('a registry_page_scheme, world) segment \<Rightarrow> ('a registry_page_scheme, world) segment" where
  "load_ops list_call throw k s =
     (let s = s\<lparr>rp_errorMessage := None, rp_ops := JNull\<rparr>;
          lower = (\<lambda>s. s\<lparr>rp_loading := False\<rparr>);
          failed = rejected lower (\<lambda>e s. s\<lparr>rp_errorMessage := show_error s e\<rparr>) throw k in
      try_await (http (list_call (rp_token s) (rp_statusFilter s))) failed
        (\<lambda>res s. k (lower (s\<lparr>rp_ops := res\<rparr>)))
        (s\<lparr>rp_loading := True\<rparr>))"

definition create_op ::
  "(js_string \<Rightarrow> js_string \<Rightarrow> json io) \<Rightarrow> json io \<Rightarrow> ('a registry_page_scheme, world) segment" where
  "create_op list_call call s =
     (let lower = (\<lambda>s. s\<lparr>rp_creating := False\<rparr>);
          failed = rejected lower (\<lambda>e s. s\<lparr>rp_createError := show_error s e\<rparr>) (\<lambda>_. finish) finish in
      try_await (http call) failed
        (\<lambda>res s. load_ops list_call failed (\<lambda>s. finish (lower s)) (s\<lparr>rp_createResult := res\<rparr>))
        (s\<lparr>rp_createError := None, rp_createResult := JNull, rp_creating := True\<rparr>))"

definition bucketCount :: "'a registry_page_scheme \<Rightarrow> int option" where
  "bucketCount s =
     (if rp_ops s = JNull then None
      else Some (case obj_get (rp_ops s) ''operations'' of Some (JArr xs) \<Rightarrow> int (length xs) | _ \<Rightarrow> 0))"

subsection \<open>The tip registry\<close>

record tips_page = registry_page +
  tg_ensureDomain :: js_string
  tg_hostDomain :: js_string
  tg_hostActive :: js_string
  tg_tokenAddress :: js_string
  tg_tokenAllowed :: js_string

type_synonym tips_segment = "(tips_page, world) segment"

definition tip_operations :: "js_string \<Rightarrow> js_string \<Rightarrow> json io" where
  "tip_operations token status = listTipRegistryOperations token (Some status)"

definition load_tips :: tips_segment where
  "load_tips = load_ops tip_operations (\<lambda>_. finish) finish"

definition create_missing :: "js_string \<Rightarrow> tips_segment" where
  "create_missing msg s = finish (s\<lparr>rp_createError := Some msg, rp_createResult := JNull\<rparr>)"

definition createEnsure :: tips_segment where
  "createEnsure s =
     (let domain = js_trim (tg_ensureDomain s) in
      if domain = [] then create_missing ''Domain is required.'' s
      else create_op tip_operations (ensureTipRegistryHost (rp_token s) domain) s)"

definition createHostActive :: tips_segment where
  "createHostActive s =
     (let domain = js_trim (tg_hostDomain s) in
      if domain = [] then create_missing ''Domain is required.'' s
      else create_op tip_operations (setTipRegistryHostActive (rp_token s) domain (tg_hostActive s = ''true'')) s)"

definition createTokenAllowed :: tips_segment where
  "createTokenAllowed s =
     (let addr = js_trim (tg_tokenAddress s) in
      if addr = [] then create_missing ''Token address is required.'' s
      else create_op tip_operations (setTipRegistryTokenAllowed (rp_token s) addr (tg_tokenAllowed s = ''true'')) s)"

definition tips_handlers :: "tips_segment set" where
  "tips_handlers =
     {load_tips, createEnsure, createHostActive, createTokenAllowed} \<union>
     {\<lambda>s. finish (s\<lparr>rp_statusFilter := t\<rparr>) | t. True} \<union> {\<lambda>s. finish (s\<lparr>tg_ensureDomain := t\<rparr>) | t. True} \<union>
     {\<lambda>s. finish (s\<lparr>tg_hostDomain := t\<rparr>) | t. True} \<union> {\<lambda>s. finish (s\<lparr>tg_hostActive := t\<rparr>) | t. True} \<union>
     {\<lambda>s. finish (s\<lparr>tg_tokenAddress := t\<rparr>) | t. True} \<union> {\<lambda>s. finish (s\<lparr>tg_tokenAllowed := t\<rparr>) | t. True}"

subsection \<open>The soul registry\<close>

text \<open>\<open>sg_opened\<close> holds the addresses given to \<open>window.open\<close>.\<close>

record soulreg_page = registry_page +
  sg_safeChainId :: "int option"
  sg_safeLaunchError :: "js_string option"
  sg_safeLaunchNotice :: "js_string option"
  sg_opened :: "js_string list"

type_synonym soulreg_segment = "(soulreg_page, world) segment"

definition load_soulreg :: soulreg_segment where
  "load_soulreg = load_ops listSoulOperations (\<lambda>_. finish) finish"

definition publishReputation :: soulreg_segment where
  "publishReputation s = create_op listSoulOperations (publishSoulReputationRoot (rp_token s)) s"

definition publishValidation :: soulreg_segment where
  "publishValidation s = create_op listSoulOperations (publishSoulValidationRoot (rp_token s)) s"

record SafeTxPayload =
  sp_safe_address :: js_string
  sp_to :: js_string
  sp_value :: js_string
  sp_data :: js_string

text \<open>The text is the JSON of a payload; one that names no Safe is none.\<close>

definition parseSafePayload :: "js_string \<Rightarrow> SafeTxPayload option" where
  "parseSafePayload raw =
     (if raw = [] then None
      else
        (case json_parse raw of
           None \<Rightarrow> None
         | Some parsed \<Rightarrow>
             if js_trim (text_at parsed ''safe_address'') = [] then None
             else Some \<lparr>sp_safe_address = text_at parsed ''safe_address'', sp_to = text_at parsed ''to'',
                        sp_value = text_at parsed ''value'', sp_data = text_at parsed ''data''\<rparr>))"

definition chain_id_of :: "js_error + json \<Rightarrow> int option" where
  "chain_id_of r = (case r of Inl _ \<Rightarrow> None | Inr cfg \<Rightarrow> int_at cfg ''chain_id'')"

definition loadConfig_souls :: soulreg_segment where
  "loadConfig_souls s =
     try_await (http (settled soulPublicGetConfig)) (\<lambda>_. finish) (\<lambda>r s. finish (s\<lparr>sg_safeChainId := chain_id_of r\<rparr>)) s"

text \<open>\<open>popup\<close> says whether the browser opened the window.  \<open>stageSafeAppSessionHandoff\<close> may throw, which nothing catches.\<close>

definition openOperationInSafe :: "bool \<Rightarrow> json \<Rightarrow> soulreg_segment" where
  "openOperationInSafe popup op s =
     (let s = s\<lparr>sg_safeLaunchError := None, sg_safeLaunchNotice := None\<rparr>;
          stop = (\<lambda>msg s. finish (s\<lparr>sg_safeLaunchError := Some msg\<rparr>)) in
      case parseSafePayload (text_at op ''safe_payload'') of
        None \<Rightarrow> stop ''This operation does not contain a Safe payload.'' s
      | Some payload \<Rightarrow>
          (case app_session (fr_app s) of
             None \<Rightarrow> stop ''No operator session is available to hand off into Safe.'' s
           | Some v \<Rightarrow>
               (case stageSafeAppSessionHandoff (env_clock (fr_env s)) (Some v) None (fr_app s) of
                  Inl e \<Rightarrow> finish s
                | Inr (staged, a) \<Rightarrow>
                    (let s = s\<lparr>fr_app := a\<rparr> in
                     if \<not> staged then stop ''Failed to stage a short-lived operator session for Safe.'' s
                     else
                       (let s = s\<lparr>fr_router := stageSafeAppTarget (''/operator/soul/operations/'' @ text_at op ''operation_id'') (fr_router s)\<rparr>;
                            url = (case sg_safeChainId s of
                                None \<Rightarrow> None
                              | Some chain \<Rightarrow> buildSafeWalletAppUrl \<lparr>sl_appUrl = safeAppRootUrl (env_origin (fr_env s)),
                                  sl_safeAddress = sp_safe_address payload, sl_chainId = chain\<rparr>) in
                        if \<not> truthy url then stop ''Could not build a Safe Wallet launch URL for this chain yet.'' s
                        else
                          (let opened = (\<lambda>s. finish (s\<lparr>sg_opened := sg_opened s @ [the url],
                                 sg_safeLaunchNotice := Some (if popup then ''Safe Wallet was opened in a new tab for the selected operation.''
                                   else ''Safe Wallet launch URL copied. Open '' @ the url @ '' if a new tab did not appear.'')\<rparr>)) in
                           try_await (clipboard_write (the url)) (\<lambda>_. opened) (\<lambda>_. opened) s))))))"

definition open_button :: "bool \<Rightarrow> nat \<Rightarrow> soulreg_segment" where
  "open_button popup i s =
     (case obj_get (rp_ops s) ''operations'' of
        Some (JArr xs) \<Rightarrow> if i < length xs then openOperationInSafe popup (xs ! i) s else finish s
      | _ \<Rightarrow> finish s)"

definition soulreg_handlers :: "soulreg_segment set" where
  "soulreg_handlers =
     {load_soulreg, loadConfig_souls, publishReputation, publishValidation} \<union> {open_button popup i | popup i. True} \<union>
     {\<lambda>s. finish (s\<lparr>rp_statusFilter := t\<rparr>) | t. True}"

end
