(* ===== verification/Safe_Operation.thy ===== *)
theory Safe_Operation
  imports Console_Pages
begin

text \<open>
  The page of one operation of the soul registry, \<^verbatim>\<open>web/src/pages/operator/SoulOperationDetail.svelte\<close>: it opens the operation inside the
  Safe wallet, submits its payload through the Safe, follows the execution by polling, and records the hash of the transaction.

  The Safe SDK is third-party code: each handler that asks it takes the answers it will give as an argument, so that any answer may come
  at any time.  The page records in \<open>sf_submitted\<close> what it has handed to the SDK, and in \<open>sf_opened\<close> what it has given to
  \<open>window.open\<close>.
\<close>

record SafeInfo =
  si_safeAddress :: js_string
  si_isReadOnly :: bool

record BaseTransaction =
  bt_to :: js_string
  bt_value :: js_string
  bt_data :: js_string

record safe_sdk =
  sk_framed :: bool
  sk_getInfo :: "SafeInfo race"
  sk_getBySafeTxHash :: "js_string \<Rightarrow> js_error + json"
  sk_send :: "BaseTransaction \<Rightarrow> js_error + js_string"

text \<open>\<open>sf_timer\<close> is the hash that the running interval polls.\<close>

record safe_op_page = frame +
  sf_token :: js_string
  sf_id :: js_string
  sf_loading :: bool
  sf_errorMessage :: "js_string option"
  sf_op :: json
  sf_execTxHash :: js_string
  sf_recordLoading :: bool
  sf_recordError :: "js_string option"
  sf_safeAppLoading :: bool
  sf_safeAppSubmitting :: bool
  sf_safeAppError :: "js_string option"
  sf_safeAppNotice :: "js_string option"
  sf_safeAppContext :: "SafeInfo option"
  sf_safeAppTxHash :: js_string
  sf_safeAppStatus :: "SafeAppExecutionStatus option"
  sf_safeChainId :: "int option"
  sf_timer :: "js_string option"
  sf_opened :: "js_string list"
  sf_submitted :: "(SafeInfo \<times> BaseTransaction) list"

type_synonym safe_op_segment = "(safe_op_page, world) segment"

definition answer :: "'a \<Rightarrow> world \<Rightarrow> 'a \<times> world" where
  "answer r w = (r, w)"

section \<open>Derived values\<close>

definition safePayload :: "safe_op_page \<Rightarrow> SafeTxPayload option" where
  "safePayload s = parseSafePayload (text_at (sf_op s) ''safe_payload'')"

definition safeWalletUrl :: "safe_op_page \<Rightarrow> js_string" where
  "safeWalletUrl s =
     (case (safePayload s, sf_safeChainId s) of
        (Some p, Some chain) \<Rightarrow>
          if chain = 0 then []
          else opt_or (buildSafeWalletAppUrl \<lparr>sl_appUrl = safeAppRootUrl (env_origin (fr_env s)), sl_safeAddress = sp_safe_address p,
                 sl_chainId = chain\<rparr>) []
      | _ \<Rightarrow> [])"

definition safeAppSafeMatches :: "safe_op_page \<Rightarrow> bool" where
  "safeAppSafeMatches s =
     (case (sf_safeAppContext s, safePayload s) of
        (Some ctx, Some p) \<Rightarrow> toLowerCase (si_safeAddress ctx) = toLowerCase (sp_safe_address p)
      | _ \<Rightarrow> False)"

definition clear_pending :: "safe_op_page \<Rightarrow> safe_op_page" where
  "clear_pending s =
     s\<lparr>fr_router := (fr_router s)\<lparr>local_storage := clearPendingSafeAppTxHash (sf_id s) (local_storage (fr_router s))\<rparr>\<rparr>"

definition save_pending :: "js_string \<Rightarrow> safe_op_page \<Rightarrow> safe_op_page" where
  "save_pending h s =
     s\<lparr>fr_router := (fr_router s)\<lparr>local_storage := savePendingSafeAppTxHash (sf_id s) h (local_storage (fr_router s))\<rparr>\<rparr>"

definition stopSafeAppPolling :: "safe_op_page \<Rightarrow> safe_op_page" where
  "stopSafeAppPolling s = s\<lparr>sf_timer := None\<rparr>"

section \<open>The operation\<close>

definition load_soul_op :: safe_op_segment where
  "load_soul_op s =
     (let lower = (\<lambda>s. s\<lparr>sf_loading := False\<rparr>);
          failed = rejected lower (\<lambda>e s. s\<lparr>sf_errorMessage := show_error s e\<rparr>) (\<lambda>_. finish) finish in
      try_await (http (getSoulOperation (sf_token s) (sf_id s))) failed
        (\<lambda>op s.
           let s = s\<lparr>sf_op := op\<rparr> in
           finish (lower (if text_at op ''exec_tx_hash'' \<noteq> [] then (stopSafeAppPolling (clear_pending s))\<lparr>sf_safeAppTxHash := []\<rparr> else s)))
        (s\<lparr>sf_errorMessage := None, sf_recordError := None, sf_loading := True\<rparr>))"

datatype record_source = Manual | FromSafe

definition recordExecutionHash ::
  "js_string \<Rightarrow> record_source \<Rightarrow> (js_error \<Rightarrow> safe_op_segment) \<Rightarrow> safe_op_segment \<Rightarrow> safe_op_segment" where
  "recordExecutionHash txHash source throw k s =
     (let lower = (\<lambda>s. s\<lparr>sf_recordLoading := False\<rparr>);
          failed = rejected lower (\<lambda>e s. case source of
              FromSafe \<Rightarrow> s\<lparr>sf_safeAppError := show_error s e\<rparr>
            | Manual \<Rightarrow> s\<lparr>sf_recordError := show_error s e\<rparr>) throw k in
      try_await (http (recordSoulOperationExecution (sf_token s) (sf_id s) txHash)) failed
        (\<lambda>op s.
           let s = s\<lparr>sf_op := op, sf_execTxHash := []\<rparr> in
           k (lower (case source of
               FromSafe \<Rightarrow> stopSafeAppPolling ((clear_pending s)\<lparr>sf_safeAppError := None,
                   sf_safeAppNotice := Some ''Execution was mined and reconciled back into lesser-host.''\<rparr>)
             | Manual \<Rightarrow> s)))
        (s\<lparr>sf_recordLoading := True\<rparr>))"

definition recordExecution_soul :: safe_op_segment where
  "recordExecution_soul s =
     (let s = s\<lparr>sf_recordError := None\<rparr>;
          trimmed = js_trim (sf_execTxHash s) in
      if trimmed = [] then finish (s\<lparr>sf_recordError := Some ''exec_tx_hash is required.''\<rparr>)
      else recordExecutionHash trimmed Manual (\<lambda>_. finish) finish s)"

section \<open>The Safe\<close>

definition pollSafeExecution :: "safe_sdk \<Rightarrow> js_string \<Rightarrow> safe_op_segment" where
  "pollSafeExecution sdk safeTxHash s =
     (let failed = (\<lambda>e s. finish (s\<lparr>sf_safeAppError := show_error s e\<rparr>)) in
      if sf_safeAppContext s = None then finish s
      else
        try_await (answer (sk_getBySafeTxHash sdk safeTxHash)) failed
          (\<lambda>details s.
             let status = summarizeSafeAppExecution (Some details);
                 s = s\<lparr>sf_safeAppStatus := Some status, sf_safeAppError := None\<rparr> in
             if truthy (sx_txHash status) \<and> sx_txHash status \<noteq> string_member (sf_op s) ''exec_tx_hash''
             then recordExecutionHash (the (sx_txHash status)) FromSafe failed finish s
             else finish s)
          s)"

text \<open>\<open>startSafeAppPolling\<close> as the last statement of a \<open>try\<close> whose \<open>finally\<close> is \<open>lower\<close>: the first poll runs up to its \<open>await\<close> before
  the interval is set.\<close>

definition startSafeAppPolling :: "safe_sdk \<Rightarrow> js_string \<Rightarrow> (safe_op_page \<Rightarrow> safe_op_page) \<Rightarrow> safe_op_segment" where
  "startSafeAppPolling sdk safeTxHash lower s =
     detach (\<lambda>s. lower (s\<lparr>sf_timer := Some safeTxHash\<rparr>)) (pollSafeExecution sdk safeTxHash) (stopSafeAppPolling s)"

text \<open>The interval's callback.\<close>

definition poll_tick :: "safe_sdk \<Rightarrow> safe_op_segment" where
  "poll_tick sdk s = (case sf_timer s of None \<Rightarrow> finish s | Some h \<Rightarrow> pollSafeExecution sdk h s)"

definition initSafeApp :: "safe_sdk \<Rightarrow> safe_op_segment" where
  "initSafeApp sdk s =
     (let lower = (\<lambda>s. s\<lparr>sf_safeAppLoading := False\<rparr>) in
      await (answer (detectSafeAppContext True (sk_framed sdk) (sk_getInfo sdk)))
        (\<lambda>ctx s.
           let h = loadPendingSafeAppTxHash (sf_id s) (local_storage (fr_router s));
               s = s\<lparr>sf_safeAppContext := ctx, sf_safeAppTxHash := h\<rparr> in
           if ctx \<noteq> None \<and> h \<noteq> [] then startSafeAppPolling sdk h lower s else finish (lower s))
        (s\<lparr>sf_safeAppLoading := True\<rparr>))"

definition loadConfig_soul :: safe_op_segment where
  "loadConfig_soul s =
     try_await (http (settled soulPublicGetConfig)) (\<lambda>_. finish) (\<lambda>r s. finish (s\<lparr>sf_safeChainId := chain_id_of r\<rparr>)) s"

text \<open>What the function returns; \<open>None\<close> when \<open>stageSafeAppSessionHandoff\<close> throws, which nothing catches.\<close>

definition stageSafeAppLaunch :: "safe_op_page \<Rightarrow> (bool \<times> safe_op_page) option" where
  "stageSafeAppLaunch s =
     (case app_session (fr_app s) of
        None \<Rightarrow> Some (False, s\<lparr>sf_safeAppError := Some ''No operator session is available to hand off into Safe.''\<rparr>)
      | Some v \<Rightarrow>
          (case stageSafeAppSessionHandoff (env_clock (fr_env s)) (Some v) None (fr_app s) of
             Inl _ \<Rightarrow> None
           | Inr (staged, a) \<Rightarrow>
               (let s = s\<lparr>fr_app := a\<rparr> in
                if \<not> staged then Some (False, s\<lparr>sf_safeAppError := Some ''Failed to stage a short-lived operator session for Safe.''\<rparr>)
                else Some (True, s\<lparr>fr_router := stageSafeAppTarget (''/operator/soul/operations/'' @ sf_id s) (fr_router s)\<rparr>))))"

definition no_launch_url :: js_string where
  "no_launch_url = ''Could not build a Safe Wallet launch URL for this chain yet.''"

definition openSafeWallet :: "bool \<Rightarrow> safe_op_segment" where
  "openSafeWallet popup s =
     (let s = s\<lparr>sf_safeAppError := None, sf_safeAppNotice := None\<rparr> in
      case stageSafeAppLaunch s of
        None \<Rightarrow> finish s
      | Some (False, s) \<Rightarrow> finish s
      | Some (True, s) \<Rightarrow>
          (let url = safeWalletUrl s in
           if url = []
           then finish (s\<lparr>sf_safeAppError := Some no_launch_url, sf_safeAppNotice :=
                  Some (''As a fallback, add lesser-host as a custom app with '' @ safeAppRootUrl (env_origin (fr_env s)) @ ''.'')\<rparr>)
           else
             (let opened = (\<lambda>s. finish (s\<lparr>sf_opened := sf_opened s @ [url],
                    sf_safeAppNotice := Some (if popup
                      then ''Safe Wallet was opened in a new tab and the launch URL was copied as a fallback.''
                      else ''Safe Wallet launch URL copied. Open '' @ url @ '' if a new tab did not appear.'')\<rparr>)) in
              try_await (clipboard_write url) (\<lambda>_. opened) (\<lambda>_. opened) s)))"

definition copySafeWalletUrl :: safe_op_segment where
  "copySafeWalletUrl s =
     (let s = s\<lparr>sf_safeAppError := None, sf_safeAppNotice := None\<rparr> in
      case stageSafeAppLaunch s of
        None \<Rightarrow> finish s
      | Some (False, s) \<Rightarrow> finish s
      | Some (True, s) \<Rightarrow>
          (let url = safeWalletUrl s in
           if url = [] then finish (s\<lparr>sf_safeAppError := Some no_launch_url\<rparr>)
           else
             try_await (clipboard_write url) (\<lambda>e s. finish (s\<lparr>sf_safeAppError := show_error s e\<rparr>))
               (\<lambda>_ s. finish (s\<lparr>sf_safeAppNotice := Some ''Copied the full Safe Wallet launch URL for this operation.''\<rparr>)) s))"

definition payload_tx :: "SafeTxPayload \<Rightarrow> BaseTransaction" where
  "payload_tx p = \<lparr>bt_to = sp_to p, bt_value = sp_value p, bt_data = sp_data p\<rparr>"

definition submitViaSafe :: "safe_sdk \<Rightarrow> safe_op_segment" where
  "submitViaSafe sdk s =
     (let s = s\<lparr>sf_safeAppError := None, sf_safeAppNotice := None\<rparr>;
          stop = (\<lambda>msg. finish (s\<lparr>sf_safeAppError := Some msg\<rparr>));
          lower = (\<lambda>s. s\<lparr>sf_safeAppSubmitting := False\<rparr>) in
      case (sf_safeAppContext s, safePayload s) of
        (Some ctx, Some p) \<Rightarrow>
          if \<not> safeAppSafeMatches s then stop ''The currently opened Safe does not match this operation.''
          else if si_isReadOnly ctx then stop ''This Safe view is read-only and cannot submit transactions.''
          else
            try_await (answer (sk_send sdk (payload_tx p))) (\<lambda>e s. finish (lower (s\<lparr>sf_safeAppError := show_error s e\<rparr>)))
              (\<lambda>txHash s.
                 startSafeAppPolling sdk txHash lower
                   ((save_pending txHash (s\<lparr>sf_safeAppTxHash := txHash\<rparr>))\<lparr>
                      sf_safeAppNotice := Some ''Submitted to Safe. Waiting for confirmation/execution status.''\<rparr>))
              (s\<lparr>sf_safeAppSubmitting := True, sf_submitted := sf_submitted s @ [(ctx, payload_tx p)]\<rparr>)
      | _ \<Rightarrow> stop ''Open this page inside the matching Safe app first.'')"

text \<open>\<open>onMount\<close> starts \<open>initSafeApp\<close>, \<open>loadConfig\<close> and \<open>load\<close>, and stops the polling when the page is left.\<close>

definition safe_op_handlers :: "safe_op_segment set" where
  "safe_op_handlers =
     {load_soul_op, loadConfig_soul, recordExecution_soul, copySafeWalletUrl, \<lambda>s. finish (stopSafeAppPolling s)} \<union>
     range initSafeApp \<union> range poll_tick \<union> range submitViaSafe \<union> range openSafeWallet \<union> {\<lambda>s. finish (s\<lparr>sf_execTxHash := t\<rparr>) | t. True}"

definition initial_safe_op :: "frame \<Rightarrow> js_string \<Rightarrow> js_string \<Rightarrow> safe_op_page" where
  "initial_safe_op f token i = frame.extend f
     \<lparr>sf_token = token, sf_id = i, sf_loading = False, sf_errorMessage = None, sf_op = JNull, sf_execTxHash = [], sf_recordLoading = False,
      sf_recordError = None, sf_safeAppLoading = False, sf_safeAppSubmitting = False, sf_safeAppError = None, sf_safeAppNotice = None,
      sf_safeAppContext = None, sf_safeAppTxHash = [], sf_safeAppStatus = None, sf_safeChainId = None, sf_timer = None, sf_opened = [],
      sf_submitted = []\<rparr>"

end
