(* ===== verification/Safe_Correct.thy ===== *)
theory Safe_Correct
  imports Safe_Operation Operator_Correct Account_Correct
begin

text \<open>
  What the page of a soul registry operation hands to the Safe, under every interleaving of its handlers and whatever the Safe SDK answers.
\<close>

section \<open>The invariant\<close>

text \<open>The server has described the operation with a payload, in answer to this page.\<close>

definition payload_issued :: "js_string \<Rightarrow> js_string \<Rightarrow> net \<Rightarrow> request list \<Rightarrow> SafeTxPayload \<Rightarrow> bool" where
  "payload_issued token i net log p \<longleftrightarrow>
     (\<exists>r v. (fetchJson r = getSoulOperation token i \<or> (\<exists>h. fetchJson r = recordSoulOperationExecution token i h)) \<and>
        answered net log r v \<and> parseSafePayload (text_at v ''safe_payload'') = Some p)"

definition safe_op_request :: "js_string \<Rightarrow> js_string \<Rightarrow> net \<Rightarrow> request list \<Rightarrow> request \<Rightarrow> bool" where
  "safe_op_request token i net log r \<longleftrightarrow>
     fetchJson r \<in> {getSoulOperation token i, soulPublicGetConfig} \<or>
     (\<exists>h. h \<noteq> [] \<and> fetchJson r = recordSoulOperationExecution token i h) \<or> (\<exists>t. r = logout_request t)"

definition safe_op_ok :: "js_string \<Rightarrow> js_string \<Rightarrow> safe_op_page \<Rightarrow> net \<Rightarrow> request list \<Rightarrow> bool" where
  "safe_op_ok token i s net log \<longleftrightarrow>
     sf_token s = token \<and> sf_id s = i \<and> (\<forall>p. safePayload s = Some p \<longrightarrow> payload_issued token i net log p) \<and>
     (\<forall>(ctx, tx) \<in> set (sf_submitted s). \<not> si_isReadOnly ctx \<and>
        (\<exists>p. payload_issued token i net log p \<and> toLowerCase (si_safeAddress ctx) = toLowerCase (sp_safe_address p) \<and> tx = payload_tx p))"

lemma payload_later: "payload_issued token i net l p \<Longrightarrow> payload_issued token i net (l @ l') p"
  unfolding payload_issued_def by (blast dest: answered_later)

interpretation soul_op: framed_page "safe_op_ok token i" "safe_op_request token i" for token i
proof unfold_locales
  show "safe_op_ok token i s net l \<Longrightarrow> safe_op_ok token i s net (l @ l')" for s net l l'
    unfolding safe_op_ok_def using payload_later by fastforce
qed (auto simp: safe_op_ok_def safePayload_def safe_op_request_def)

abbreviation safe_op_inv :: "js_string \<Rightarrow> js_string \<Rightarrow> safe_op_page \<Rightarrow> world \<Rightarrow> bool" where
  "safe_op_inv token i \<equiv> page_inv (safe_op_ok token i) (safe_op_request token i)"

lemma safe_op_fields [simp]:
  "safe_op_inv t i (sf_loading_update a s) w \<longleftrightarrow> safe_op_inv t i s w" "safe_op_inv t i (sf_errorMessage_update b s) w \<longleftrightarrow> safe_op_inv t i s w"
  "safe_op_inv t i (sf_execTxHash_update c s) w \<longleftrightarrow> safe_op_inv t i s w" "safe_op_inv t i (sf_recordLoading_update d s) w \<longleftrightarrow> safe_op_inv t i s w"
  "safe_op_inv t i (sf_recordError_update e s) w \<longleftrightarrow> safe_op_inv t i s w" "safe_op_inv t i (sf_safeAppLoading_update f s) w \<longleftrightarrow> safe_op_inv t i s w"
  "safe_op_inv t i (sf_safeAppSubmitting_update g s) w \<longleftrightarrow> safe_op_inv t i s w" "safe_op_inv t i (sf_safeAppError_update h s) w \<longleftrightarrow> safe_op_inv t i s w"
  "safe_op_inv t i (sf_safeAppNotice_update j s) w \<longleftrightarrow> safe_op_inv t i s w" "safe_op_inv t i (sf_safeAppContext_update k s) w \<longleftrightarrow> safe_op_inv t i s w"
  "safe_op_inv t i (sf_safeAppTxHash_update l s) w \<longleftrightarrow> safe_op_inv t i s w" "safe_op_inv t i (sf_safeAppStatus_update m s) w \<longleftrightarrow> safe_op_inv t i s w"
  "safe_op_inv t i (sf_safeChainId_update n s) w \<longleftrightarrow> safe_op_inv t i s w" "safe_op_inv t i (sf_timer_update q s) w \<longleftrightarrow> safe_op_inv t i s w"
  "safe_op_inv t i (sf_opened_update r s) w \<longleftrightarrow> safe_op_inv t i s w" "safe_op_inv t i (fr_app_update x s) w \<longleftrightarrow> safe_op_inv t i s w"
  "safe_op_inv t i (fr_router_update y s) w \<longleftrightarrow> safe_op_inv t i s w"
  by (simp_all add: page_inv_def safe_op_ok_def safePayload_def)

lemma safe_op_moves [simp]:
  "safe_op_inv t i (stopSafeAppPolling s) w \<longleftrightarrow> safe_op_inv t i s w" "safe_op_inv t i (clear_pending s) w \<longleftrightarrow> safe_op_inv t i s w"
  "safe_op_inv t i (save_pending h s) w \<longleftrightarrow> safe_op_inv t i s w"
  by (simp_all add: stopSafeAppPolling_def clear_pending_def save_pending_def)

lemma safe_op_ids: "safe_op_inv t i s w \<Longrightarrow> sf_token s = t \<and> sf_id s = i"
  by (simp add: page_inv_def safe_op_ok_def)

lemma op_arrives:
  assumes "fetchJson r = getSoulOperation token i \<or> (\<exists>h. fetchJson r = recordSoulOperationExecution token i h)"
    and "answered (w_net w) (w_http w) r v" and "later w w'" and "safe_op_inv token i s w'"
  shows "safe_op_inv token i (s\<lparr>sf_op := v\<rparr>) w'"
proof -
  have "answered (w_net w') (w_http w') r v" using assms(2,3) by (auto simp: later_def answered_later)
  with assms(1) have "payload_issued token i (w_net w') (w_http w') p" if "parseSafePayload (text_at v ''safe_payload'') = Some p" for p
    using that unfolding payload_issued_def by blast
  then show ?thesis using assms(4) by (auto simp: page_inv_def safe_op_ok_def safePayload_def)
qed

lemma submission_ok:
  assumes s: "safe_op_inv t i s w" and "sf_safeAppContext s = Some ctx" and p: "safePayload s = Some p" and "safeAppSafeMatches s"
    and "\<not> si_isReadOnly ctx"
  shows "safe_op_inv t i (s\<lparr>sf_submitted := sf_submitted s @ [(ctx, payload_tx p)]\<rparr>) w"
proof -
  have "safePayload (s\<lparr>sf_submitted := x\<rparr>) = safePayload s" for x by (simp add: safePayload_def)
  then show ?thesis
    using assms by (auto simp: page_inv_def safe_op_ok_def safeAppSafeMatches_def)
qed

lemma single_soul_op [simp]: "single (getSoulOperation t i)" "single (recordSoulOperationExecution t i h)" "single soulPublicGetConfig"
  by (simp_all add: getSoulOperation_def recordSoulOperationExecution_def soulPublicGetConfig_def Let_def)

section \<open>The handlers\<close>

lemma soul_op_instant:
  "(\<And>s w. safe_op_inv t i s w \<Longrightarrow> safe_op_inv t i (g s) w) \<Longrightarrow> soul_op.guarded t i w (\<lambda>s. finish (g s))"
  by (intro soul_op.guarded_by safe_finish)

lemma load_soul_op_guarded: "soul_op.guarded t i w load_soul_op"
proof (rule soul_op.guarded_by)
  fix s w' assume s: "safe_op_inv t i s w'"
  let ?failed = "rejected (\<lambda>s. s\<lparr>sf_loading := False\<rparr>) (\<lambda>e s. s\<lparr>sf_errorMessage := show_error s e\<rparr>) (\<lambda>_. finish) finish"
  have failed: "soul_op.guarded t i w (?failed e)" for w e
    by (intro soul_op.rejected_guarded soul_op.finish_guarded) simp_all
  have "soul_op.guarded_result t i w' (try_await (http (getSoulOperation t i)) ?failed
      (\<lambda>op s. let s = s\<lparr>sf_op := op\<rparr> in
         finish ((if text_at op ''exec_tx_hash'' \<noteq> [] then (stopSafeAppPolling (clear_pending s))\<lparr>sf_safeAppTxHash := []\<rparr> else s)
           \<lparr>sf_loading := False\<rparr>))
      (s\<lparr>sf_errorMessage := None, sf_recordError := None, sf_loading := True\<rparr>))"
  proof (rule soul_op.guarded_call)
    show "soul_op.guarded t i w1 (\<lambda>s. let s = s\<lparr>sf_op := op\<rparr> in
         finish ((if text_at op ''exec_tx_hash'' \<noteq> [] then (stopSafeAppPolling (clear_pending s))\<lparr>sf_safeAppTxHash := []\<rparr> else s)
           \<lparr>sf_loading := False\<rparr>))"
      if "fetchJson r = getSoulOperation t i" "answered (w_net w1) (w_http w1) r op" for r op w1
      using op_arrives [OF disjI1 [OF that(1)] that(2)] by (auto simp: Let_def intro!: soul_op.guarded_by safe_finish)
  qed (use s failed in \<open>auto simp: safe_op_request_def\<close>)
  then show "soul_op.guarded_result t i w' (load_soul_op s)"
    using safe_op_ids [OF s] unfolding load_soul_op_def Let_def by simp
qed

lemma record_guarded:
  assumes t: "\<And>e w. soul_op.guarded t i w (throw e)" and k: "\<And>w. soul_op.guarded t i w k" and "txHash \<noteq> []"
  shows "soul_op.guarded t i w (recordExecutionHash txHash source throw k)"
proof (rule soul_op.guarded_by)
  fix s w' assume s: "safe_op_inv t i s w'"
  let ?failed = "rejected (\<lambda>s. s\<lparr>sf_recordLoading := False\<rparr>) (\<lambda>e s. case source of
      FromSafe \<Rightarrow> s\<lparr>sf_safeAppError := show_error s e\<rparr> | Manual \<Rightarrow> s\<lparr>sf_recordError := show_error s e\<rparr>) throw k"
  have failed: "soul_op.guarded t i w (?failed e)" for w e
    by (intro soul_op.rejected_guarded t k) (simp_all split: record_source.split)
  let ?next = "\<lambda>op s. let s = s\<lparr>sf_op := op, sf_execTxHash := []\<rparr> in
      k ((case source of FromSafe \<Rightarrow> stopSafeAppPolling ((clear_pending s)\<lparr>sf_safeAppError := None,
            sf_safeAppNotice := Some ''Execution was mined and reconciled back into lesser-host.''\<rparr>) | Manual \<Rightarrow> s)\<lparr>sf_recordLoading := False\<rparr>)"
  have "soul_op.guarded_result t i w' (try_await (http (recordSoulOperationExecution t i txHash)) ?failed ?next (s\<lparr>sf_recordLoading := True\<rparr>))"
  proof (rule soul_op.guarded_call)
    show "soul_op.guarded t i w1 (?next op)"
      if "fetchJson r = recordSoulOperationExecution t i txHash" "answered (w_net w1) (w_http w1) r op" for r op w1
    proof -
      have "fetchJson r = getSoulOperation t i \<or> (\<exists>h. fetchJson r = recordSoulOperationExecution t i h)" using that(1) by blast
      from op_arrives [OF this that(2)] show ?thesis
        by (cases source) (auto simp: Let_def intro!: soul_op.guarded_by soul_op.guardedD [OF k])
    qed
  qed (use s failed \<open>txHash \<noteq> []\<close> in \<open>auto simp: safe_op_request_def\<close>)
  then show "soul_op.guarded_result t i w' (recordExecutionHash txHash source throw k s)"
    using safe_op_ids [OF s] unfolding recordExecutionHash_def Let_def by simp
qed

lemma answer_local [simp]: "w_net (snd (answer r w)) = w_net w \<and> w_http (snd (answer r w)) = w_http w"
  by (simp add: answer_def)

lemma poll_guarded: "soul_op.guarded t i w (pollSafeExecution sdk h)"
proof -
  let ?failed = "\<lambda>e s :: safe_op_page. finish (s\<lparr>sf_safeAppError := show_error s e\<rparr>)"
  have f: "soul_op.guarded t i w (?failed e)" for w e by (rule soul_op_instant) simp
  have "soul_op.guarded t i w (recordExecutionHash hash FromSafe ?failed finish)" if "hash \<noteq> []" for w hash
    by (rule record_guarded [OF f soul_op.finish_guarded that])
  note records = soul_op.guardedD [OF this]
  show ?thesis
    unfolding pollSafeExecution_def [abs_def] Let_def
    by (auto simp: truthy_def intro!: soul_op.guarded_by soul_op.guarded_local f safe_finish records split: option.splits)
qed

lemma start_guarded:
  "(\<And>s w. safe_op_inv t i s w \<Longrightarrow> safe_op_inv t i (lower s) w) \<Longrightarrow> soul_op.guarded t i w (startSafeAppPolling sdk h lower)"
  unfolding startSafeAppPolling_def [abs_def]
  by (auto intro!: soul_op.guarded_by soul_op.detach_guarded poll_guarded)

lemma init_guarded: "soul_op.guarded t i w (initSafeApp sdk)"
proof -
  have "soul_op.guarded t i w (startSafeAppPolling sdk h (\<lambda>s. s\<lparr>sf_safeAppLoading := False\<rparr>))" for w h by (rule start_guarded) simp
  note start = soul_op.guardedD [OF this]
  show ?thesis
    unfolding initSafeApp_def [abs_def] Let_def
    by (auto simp: answer_def intro!: soul_op.guarded_by safe_await start safe_finish)
qed

lemma submit_guarded: "soul_op.guarded t i w (submitViaSafe sdk)"
proof (rule soul_op.guarded_by)
  fix s w' assume s: "safe_op_inv t i s w'"
  let ?s = "s\<lparr>sf_safeAppError := None, sf_safeAppNotice := None, sf_safeAppSubmitting := True\<rparr>"
  have "soul_op.guarded t i w (startSafeAppPolling sdk h (\<lambda>s. s\<lparr>sf_safeAppSubmitting := False\<rparr>))" for w h by (rule start_guarded) simp
  note start = soul_op.guardedD [OF this]
  have same: "safePayload (s\<lparr>sf_safeAppError := x, sf_safeAppNotice := y\<rparr>) = safePayload s"
    "safeAppSafeMatches (s\<lparr>sf_safeAppError := x, sf_safeAppNotice := y\<rparr>) = safeAppSafeMatches s"
    "safePayload ?s = safePayload s" "safeAppSafeMatches ?s = safeAppSafeMatches s" for x y
    by (simp_all add: safePayload_def safeAppSafeMatches_def)
  have submits: "safe_op_inv t i (?s\<lparr>sf_submitted := sf_submitted s @ [(ctx, payload_tx p)]\<rparr>) w'"
    if "sf_safeAppContext s = Some ctx" "safePayload s = Some p" "safeAppSafeMatches s" "\<not> si_isReadOnly ctx" for ctx p
    using submission_ok [of t i ?s w' ctx p] s that by (simp add: same)
  show "soul_op.guarded_result t i w' (submitViaSafe sdk s)"
    unfolding submitViaSafe_def Let_def using s
    by (auto simp: same intro!: safe_finish soul_op.guarded_local soul_op_instant soul_op.guarded_by start submits split: option.split)
qed

lemma launch_inv: "stageSafeAppLaunch s = Some (b, s') \<Longrightarrow> safe_op_inv t i s w \<Longrightarrow> safe_op_inv t i s' w"
  by (auto simp: stageSafeAppLaunch_def Let_def split: option.splits sum.splits prod.splits if_splits)

lemma launch_guarded: "soul_op.guarded t i w (openSafeWallet popup)" "soul_op.guarded t i w copySafeWalletUrl"
  unfolding openSafeWallet_def [abs_def] copySafeWalletUrl_def [abs_def] Let_def
  by (auto intro!: soul_op.guarded_by safe_finish soul_op.guarded_local soul_op_instant split: option.split bool.split dest!: launch_inv)

lemma safe_config_guarded: "soul_op.guarded t i w loadConfig_soul"
proof -
  have "sends (http (settled soulPublicGetConfig)) (\<lambda>r. fetchJson r = soulPublicGetConfig)"
    by (simp add: sends_def http_def settled_def soulPublicGetConfig_def api_call_def split_beta fetchJson_log)
  note calls = soul_op.guarded_sends [OF _ this]
  show ?thesis
    unfolding loadConfig_soul_def [abs_def]
    by (auto simp: safe_op_request_def intro!: soul_op.guarded_by calls safe_finish)
qed

lemma safe_op_guarded:
  assumes "h \<in> safe_op_handlers"
  shows "soul_op.guarded t i w h"
proof -
  have "soul_op.guarded t i w (poll_tick sdk)" for sdk
    unfolding poll_tick_def [abs_def]
    by (auto intro!: soul_op.guarded_by safe_finish soul_op.guardedD [OF poll_guarded] split: option.split)
  moreover have "soul_op.guarded t i w recordExecution_soul"
    unfolding recordExecution_soul_def [abs_def] Let_def
    by (auto intro!: soul_op.guarded_by safe_finish soul_op.guardedD [OF record_guarded] soul_op.finish_guarded)
  ultimately show ?thesis
    using assms
    by (auto simp: safe_op_handlers_def intro!: soul_op_instant load_soul_op_guarded safe_config_guarded launch_guarded init_guarded submit_guarded)
qed

interpretation safe_op_invariant: page_invariant safe_op_handlers later "safe_op_inv t i" for t i
  by unfold_locales (simp_all add: safe_op_guarded later_trans)


definition sample_payload :: json where
  "sample_payload = JObj [(''safe_address'', JStr ''0xab''), (''to'', JStr ''0x1''), (''value'', JStr ''0''), (''data'', JStr ''0x2'')]"

definition sample_soul_op :: json where
  "sample_soul_op = JObj [(''safe_payload'', JStr (json_stringify sample_payload))]"

definition sample_sdk :: safe_sdk where
  "sample_sdk = \<lparr>sk_framed = True, sk_getInfo = PromiseFirst (Inr \<lparr>si_safeAddress = ''0xab'', si_isReadOnly = False\<rparr>),
     sk_getBySafeTxHash = (\<lambda>_. Inl (Error ''pending'')), sk_send = (\<lambda>_. Inr ''0xhash'')\<rparr>"

abbreviation sample_safe_op :: safe_op_page where
  "sample_safe_op \<equiv> initial_safe_op (initial_frame sample_env sample_app (load_router ''/'' sample_storage)) ''T'' ''op1''"

abbreviation sample_safe_handlers :: "safe_op_segment list" where
  "sample_safe_handlers \<equiv> [load_soul_op, initSafeApp sample_sdk, submitViaSafe sample_sdk]"

abbreviation sample_safe_run :: "safe_op_page \<times> world" where
  "sample_safe_run \<equiv> run_all sample_safe_handlers sample_safe_op (sample_world (\<lambda>_. sample_soul_op))"

lemma sample_soul_members [simp]:
  "wf_json sample_soul_op" "text_at sample_soul_op ''exec_tx_hash'' = []"
  "parseSafePayload (text_at sample_soul_op ''safe_payload'') =
     Some \<lparr>sp_safe_address = ''0xab'', sp_to = ''0x1'', sp_value = ''0'', sp_data = ''0x2''\<rparr>"
proof -
  have "json_parse (json_stringify sample_payload) = Some sample_payload" by (rule json_codec.dec_enc) (simp add: sample_payload_def)
  moreover have "text_at sample_payload ''safe_address'' = ''0xab''" "text_at sample_payload ''to'' = ''0x1''"
    "text_at sample_payload ''value'' = ''0''" "text_at sample_payload ''data'' = ''0x2''"
    by (simp_all add: sample_payload_def text_at_def string_member_def obj_get_def opt_or_def str_or_def)
  moreover have "json_stringify sample_payload \<noteq> []" by (simp add: sample_payload_def)
  ultimately show "parseSafePayload (text_at sample_soul_op ''safe_payload'') =
     Some \<lparr>sp_safe_address = ''0xab'', sp_to = ''0x1'', sp_value = ''0'', sp_data = ''0x2''\<rparr>"
    by (simp add: sample_soul_op_def parseSafePayload_def text_at_def string_member_def obj_get_def opt_or_def str_or_def js_trim_def is_space_def)
qed (simp_all add: sample_soul_op_def text_at_def string_member_def obj_get_def opt_or_def str_or_def)

lemma run_await_case: "(case await op k s of (s', p) \<Rightarrow> run_proc p s' w) = (case op w of (a, w') \<Rightarrow> run (k a) s w')"
  using run_await [of op k s w] by (simp add: run_def)

lemma run_detach_try:
  "(case (case try_await op c k s of (s', p) \<Rightarrow> (low s', p)) of (s', p) \<Rightarrow> run_proc p s' w) =
     (case op w of (Inl e, w') \<Rightarrow> run (c e) (low s) w' | (Inr v, w') \<Rightarrow> run (k v) (low s) w')"
  using run_try_case [where op = op and catch = c and k = k and s = "low s" and w = w] by (simp add: try_await_def await_def)

lemma sample_safe_submitted:
  "sf_submitted (fst sample_safe_run) =
     [(\<lparr>si_safeAddress = ''0xab'', si_isReadOnly = False\<rparr>, \<lparr>bt_to = ''0x1'', bt_value = ''0'', bt_data = ''0x2''\<rparr>)]"
  by (simp add: run_eval initial_safe_op_def initial_frame_def frame.defs sample_world_def load_soul_op_def getSoulOperation_def initSafeApp_def
      submitViaSafe_def sample_sdk_def run_await_case run_detach_try answer_def detectSafeAppContext_def withTimeout_def
      loadPendingSafeAppTxHash_def load_router_def getItem_def sample_storage_def opt_or_def startSafeAppPolling_def detach_def
      pollSafeExecution_def safePayload_def safeAppSafeMatches_def payload_tx_def stopSafeAppPolling_def save_pending_def toLowerCase_def
      lower_char_def)


end
