(* ===== verification/Console_Correct.thy ===== *)
theory Console_Correct
  imports Console_Pages Safe_Correct
begin

text \<open>
  What the list of provisioning jobs asks the server to do, and what the registry of tips sends.
\<close>

section \<open>Three lists at once\<close>

lemma requests_settled: "requests op r \<Longrightarrow> requests (settled op) r"
  by (simp add: requests_def settled_def split_beta)

lemma requests_pending: "requests op r \<Longrightarrow> requests (or_pending op) r"
  unfolding requests_def or_pending_def by (simp add: split_beta Let_def split: sum.split)

lemma all3_settled:
  assumes "requests a ra" and "requests b rb"
  shows "\<exists>d u. http_all3 (settled a) (settled b) (settled (fetchJson rc)) w =
    (Inr (d, u, fst (fetchJson rc (w_net w) (w_http w @ [ra, rb]))), w\<lparr>w_http := w_http w @ [ra, rb, rc]\<rparr>)"
proof -
  have "settled a net log = (Inr (fst (a net log)), log @ [ra])" "settled b net log = (Inr (fst (b net log)), log @ [rb])" for net log
    using assms by (simp_all add: settled_def requests_def split_beta)
  then show ?thesis by (simp add: http_all3_def http_all_def http_def settled_def split_beta)
qed

context request_discipline
begin

lemma guarded_all3:
  assumes s: "page_inv T P s w" and a: "requests a ra" and b: "requests b rb" and "c = fetchJson rc"
    and P: "\<And>l. P (w_net w) l ra" "\<And>l. P (w_net w) l rb" "\<And>l. P (w_net w) l rc"
    and k: "\<And>d u p w'. later w w' \<Longrightarrow> (\<And>v. p = Inr v \<Longrightarrow> answered (w_net w') (w_http w') rc v) \<Longrightarrow> guarded w' (k (d, u, p))"
  shows "guarded_result w (try_await (http_all3 (settled a) (settled b) (settled c)) catch k s)"
proof -
  let ?w = "w\<lparr>w_http := w_http w @ [ra, rb, rc]\<rparr>" and ?p = "fst (fetchJson rc (w_net w) (w_http w @ [ra, rb]))"
  obtain d u where run: "http_all3 (settled a) (settled b) (settled (fetchJson rc)) w = (Inr (d, u, ?p), ?w)"
    using all3_settled [OF a b] by blast
  have ok: "requests_ok P (w_net w) (w_http w @ [ra, rb, rc])"
  proof -
    have "requests_ok P (w_net w) ((w_http w @ [ra]) @ [rb] @ [rc])"
      unfolding append_assoc [symmetric] using s P by (simp only: requests_ok_snoc) (simp add: page_inv_def)
    then show ?thesis by simp
  qed
  have later: "later w ?w" by (simp add: later_def)
  moreover have "page_inv T P s ?w" using s ok T_later by (simp add: page_inv_def)
  moreover have "answered (w_net ?w) (w_http ?w) rc v" if "?p = Inr v" for v
    using answered_now [OF that] by simp
  ultimately show ?thesis
    unfolding try_await_def \<open>c = fetchJson rc\<close> using k [OF later, of ?p d u] by (intro safe_await) (auto simp: run)
qed

end

section \<open>The provisioning jobs\<close>

text \<open>The server has listed a provisioning job with the identifier \<open>i\<close>.\<close>

definition job_listed :: "net \<Rightarrow> request list \<Rightarrow> js_string \<Rightarrow> js_string \<Rightarrow> bool" where
  "job_listed net log token i \<longleftrightarrow>
     (\<exists>q r res xs x. fetchJson r = listOperatorProvisionJobs token q \<and> answered net log r res \<and> list_member res ''jobs'' = Inr xs \<and>
        x \<in> set xs \<and> i = text_at x ''id'')"

definition jobs_request :: "js_string \<Rightarrow> net \<Rightarrow> request list \<Rightarrow> request \<Rightarrow> bool" where
  "jobs_request token net log r \<longleftrightarrow>
     (\<exists>t. r = logout_request t) \<or> requests (listOperatorInstancesDrift token) r \<or> requests (remediateMCPDrift token) r \<or>
     (\<exists>q. requests (listOperatorUpdateJobs token q) r) \<or> (\<exists>q. fetchJson r = listOperatorProvisionJobs token q) \<or>
     (\<exists>i. job_listed net log token i \<and> fetchJson r = retryOperatorProvisionJob token i)"

definition jobs_ok :: "js_string \<Rightarrow> jobs_page \<Rightarrow> net \<Rightarrow> request list \<Rightarrow> bool" where
  "jobs_ok token s net log \<longleftrightarrow>
     wr_token s = token \<and> (\<forall>x \<in> set (jl_provisionJobs s). job_listed net log token (text_at x ''id''))"

lemma job_listed_later: "job_listed net l token i \<Longrightarrow> job_listed net (l @ l') token i"
  unfolding job_listed_def by (blast dest: answered_later)

interpretation job_list: framed_page "jobs_ok token" "jobs_request token" for token
  by unfold_locales (auto simp: jobs_ok_def jobs_request_def dest: job_listed_later)

abbreviation jobs_inv :: "js_string \<Rightarrow> jobs_page \<Rightarrow> world \<Rightarrow> bool" where
  "jobs_inv token \<equiv> page_inv (jobs_ok token) (jobs_request token)"

lemma jobs_fields [simp]:
  "jobs_inv t (wr_drift_update a s) w \<longleftrightarrow> jobs_inv t s w" "jobs_inv t (wr_wireAllPending_update b s) w \<longleftrightarrow> jobs_inv t s w"
  "jobs_inv t (wr_wireAllResult_update c s) w \<longleftrightarrow> jobs_inv t s w" "jobs_inv t (wr_wireAllError_update d s) w \<longleftrightarrow> jobs_inv t s w"
  "jobs_inv t (jl_statusFilter_update e s) w \<longleftrightarrow> jobs_inv t s w" "jobs_inv t (jl_loading_update f s) w \<longleftrightarrow> jobs_inv t s w"
  "jobs_inv t (jl_errorMessage_update g s) w \<longleftrightarrow> jobs_inv t s w" "jobs_inv t (jl_updateJobsResult_update h s) w \<longleftrightarrow> jobs_inv t s w"
  "jobs_inv t (jl_actingId_update i s) w \<longleftrightarrow> jobs_inv t s w" "jobs_inv t (jl_actionError_update j s) w \<longleftrightarrow> jobs_inv t s w"
  "jobs_inv t (jl_driftError_update k s) w \<longleftrightarrow> jobs_inv t s w"
  by (simp_all add: page_inv_def jobs_ok_def)

lemma jobs_cleared [simp]: "jobs_inv t s w \<Longrightarrow> jobs_inv t (s\<lparr>jl_provisionJobs := []\<rparr>) w"
  by (simp add: page_inv_def jobs_ok_def)

lemma jobs_token: "jobs_inv t s w \<Longrightarrow> wr_token s = t"
  by (simp add: page_inv_def jobs_ok_def)

lemma jobs_arrive:
  assumes "fetchJson r = listOperatorProvisionJobs t q" and "answered (w_net w) (w_http w) r res" and "list_member res ''jobs'' = Inr xs"
    and "later w w'" and "jobs_inv t s w'"
  shows "jobs_inv t (s\<lparr>jl_provisionJobs := xs\<rparr>) w'"
proof -
  have "answered (w_net w') (w_http w') r res" using assms(2,4) by (auto simp: later_def answered_later)
  then have "job_listed (w_net w') (w_http w') t (text_at x ''id'')" if "x \<in> set xs" for x
    using assms(1,3) that unfolding job_listed_def by blast
  then show ?thesis using assms(5) by (simp add: page_inv_def jobs_ok_def)
qed

text \<open>Every row of a provisioning job stands for a job on the page.\<close>

lemma provision_rows:
  assumes "row \<in> set (job_rows s)" and "row_source row = SourceProvision"
  shows "\<exists>x \<in> set (jl_provisionJobs s). row_id row = text_at x ''id''"
proof -
  have "set (mergeJobRows ps us) = provisionJobToRow ` set ps \<union> updateJobToRow ` set us" for ps us
  proof -
    have "set_mset (mset (mergeJobRows ps us)) = set_mset (mset (map provisionJobToRow ps @ map updateJobToRow us))"
      unfolding mergeJobRows_def by (simp only: rows.sort_mset)
    then show ?thesis by auto
  qed
  then show ?thesis
    using assms by (auto simp: job_rows_def Let_def provisionJobToRow_def provision_item_def updateJobToRow_def)
qed

lemma jobs_calls:
  "\<exists>r. requests (listOperatorInstancesDrift t) r" "\<exists>r. requests (listOperatorUpdateJobs t q) r" "\<exists>r. requests (remediateMCPDrift t) r"
  "\<exists>r. fetchJson r = listOperatorProvisionJobs t p"
  by (auto simp: listOperatorInstancesDrift_def listOperatorUpdateJobs_def remediateMCPDrift_def listOperatorProvisionJobs_def Let_def api_call_def
      intro!: requests_pending [OF requests_api [unfolded api_call_def]] requests_api [unfolded api_call_def] exI)

lemma load_jobs_guarded:
  assumes th: "\<And>e w. job_list.guarded t w (throw e)" and k: "\<And>w. job_list.guarded t w k"
  shows "job_list.guarded t w (load_jobs throw k)"
proof (rule job_list.guarded_by)
  fix s w' assume s: "jobs_inv t s w'"
  let ?failed = "rejected (\<lambda>s. s\<lparr>jl_loading := False\<rparr>) (\<lambda>e s. s\<lparr>jl_errorMessage := show_error s e\<rparr>) throw k"
  have failed: "job_list.guarded t w (?failed e)" for w e by (intro job_list.rejected_guarded th k) simp_all
  let ?uq = "Some \<lparr>uj_status = Some (jl_statusFilter s), uj_limit = Some 100\<rparr>"
  let ?pq = "Some \<lparr>pj_status = Some (jl_statusFilter s), pj_instance_slug = None, pj_limit = Some 100\<rparr>"
  obtain ra rb rc where r: "requests (listOperatorInstancesDrift t) ra" "requests (listOperatorUpdateJobs t ?uq) rb"
      "fetchJson rc = listOperatorProvisionJobs t ?pq"
    using jobs_calls by metis
  let ?next = "\<lambda>(d, u, p) s. let s = (case d of Inl e \<Rightarrow> s\<lparr>jl_driftError := show_error s e\<rparr> | Inr _ \<Rightarrow> s) in
      (case p of Inl e \<Rightarrow> ?failed e s
       | Inr res \<Rightarrow> (let s = s\<lparr>wr_drift := fulfilled d, jl_updateJobsResult := fulfilled u\<rparr> in
           case list_member res ''jobs'' of Inl e \<Rightarrow> ?failed e s | Inr js \<Rightarrow> k (s\<lparr>jl_provisionJobs := js, jl_loading := False\<rparr>)))"
  have "job_list.guarded t w1 (?next (d, u, p))" if "\<And>v. p = Inr v \<Longrightarrow> answered (w_net w1) (w_http w1) rc v" for d u p w1
  proof (rule job_list.guarded_by)
    fix s w2 assume w2: "later w1 w2" and s: "jobs_inv t s w2"
    show "job_list.guarded_result t w2 (?next (d, u, p) s)"
    proof (cases p)
      case (Inr res)
      then show ?thesis
        using s jobs_arrive [OF r(3) that [OF Inr] _ w2] by (auto simp: Let_def split: sum.split
            intro!: job_list.guardedD [OF failed] job_list.guardedD [OF k])
    qed (use s in \<open>auto simp: Let_def split: sum.split intro!: job_list.guardedD [OF failed]\<close>)
  qed
  moreover have "jobs_inv t (s\<lparr>jl_errorMessage := None, jl_actionError := None, jl_driftError := None, jl_provisionJobs := [],
      jl_updateJobsResult := None, wr_wireAllResult := JNull, wr_wireAllError := None, jl_loading := True\<rparr>) w'" using s by simp
  ultimately show "job_list.guarded_result t w' (load_jobs throw k s)"
    unfolding load_jobs_def Let_def using jobs_token [OF s] r
    by (simp, intro job_list.guarded_all3 [OF _ r(1,2) r(3) [symmetric]]) (auto simp: jobs_request_def)
qed

lemma jobs_instant:
  "(\<And>s w. jobs_inv t s w \<Longrightarrow> jobs_inv t (g s) w) \<Longrightarrow> job_list.guarded t w (\<lambda>s. finish (g s))"
  by (intro job_list.guarded_by safe_finish)

lemma wireAll_guarded: "job_list.guarded t w wireAll"
proof (rule job_list.guarded_by)
  fix s w' assume s: "jobs_inv t s w'"
  let ?failed = "rejected (\<lambda>s :: jobs_page. s\<lparr>wr_wireAllPending := False\<rparr>) (\<lambda>e s. s\<lparr>wr_wireAllError := show_error s e\<rparr>) (\<lambda>_. finish) finish"
  have failed: "job_list.guarded t w (?failed e)" for w e by (intro job_list.rejected_guarded job_list.finish_guarded) simp_all
  obtain rd rm where r: "requests (settled (listOperatorInstancesDrift t)) rd" "requests (remediateMCPDrift t) rm"
    using jobs_calls requests_settled by metis
  have drift: "sends (http (settled (listOperatorInstancesDrift t))) (\<lambda>q. q = rd)"
    and wire: "sends (http (remediateMCPDrift t)) (\<lambda>q. q = rm)"
    using requests_sends [OF r(1)] requests_sends [OF r(2)] by auto
  have ok: "jobs_request t net log rd" "jobs_request t net log rm" for net log
    using r by (auto simp: jobs_request_def requests_def settled_def split_beta)
  note drift_call = job_list.guarded_sends [OF _ drift] and wire_call = job_list.guarded_sends [OF _ wire]
  let ?set = "\<lambda>r s :: jobs_page. finish ((case r of Inl e \<Rightarrow> s | Inr d \<Rightarrow> s\<lparr>wr_drift := Some d\<rparr>)\<lparr>wr_wireAllPending := False\<rparr>)"
  let ?next = "\<lambda>res s. try_await (http (settled (listOperatorInstancesDrift (wr_token s)))) ?failed ?set (s\<lparr>wr_wireAllResult := res\<rparr>)"
  have "job_list.guarded t w (?next res)" for res w
  proof (rule job_list.guarded_by)
    fix s w' assume s: "jobs_inv t s w'"
    have "job_list.guarded_result t w' (try_await (http (settled (listOperatorInstancesDrift t))) ?failed ?set (s\<lparr>wr_wireAllResult := res\<rparr>))"
      using s by (auto simp: ok intro!: drift_call failed job_list.guarded_by safe_finish split: sum.split)
    then show "job_list.guarded_result t w' (?next res s)" using jobs_token [OF s] by simp
  qed
  then have "job_list.guarded_result t w' (try_await (http (remediateMCPDrift t)) ?failed ?next
      (s\<lparr>wr_wireAllError := None, wr_wireAllResult := JNull, wr_wireAllPending := True\<rparr>))"
    using s by (intro wire_call failed) (simp_all add: ok)
  then show "job_list.guarded_result t w' (wireAll s)"
    unfolding wireAll_def Let_def using jobs_token [OF s] by simp
qed

lemma retry_guarded:
  assumes s: "jobs_inv t s w" and row: "row \<in> set (job_rows s)"
  shows "job_list.guarded_result t w (retry_row row s)"
proof -
  let ?failed = "rejected (\<lambda>s :: jobs_page. s\<lparr>jl_actingId := None\<rparr>) (\<lambda>e s. s\<lparr>jl_actionError := show_error s e\<rparr>) (\<lambda>_. finish) finish"
  have failed: "job_list.guarded t w (?failed e)" for w e by (intro job_list.rejected_guarded job_list.finish_guarded) simp_all
  have "job_list.guarded t w (\<lambda>s. finish (s\<lparr>jl_actingId := None\<rparr>))" for w by (rule jobs_instant) simp
  then have reload: "job_list.guarded t w (load_jobs ?failed (\<lambda>s. finish (s\<lparr>jl_actingId := None\<rparr>)))" for w
    by (intro load_jobs_guarded failed)
  have "job_list.guarded_result t w (try_await (http (retryOperatorProvisionJob t (row_id row))) ?failed
      (\<lambda>_. load_jobs ?failed (\<lambda>s. finish (s\<lparr>jl_actingId := None\<rparr>))) (s\<lparr>jl_actionError := None, jl_actingId := Some (row_id row)\<rparr>))"
    if "row_source row = SourceProvision"
  proof (rule job_list.guarded_call)
    have "\<exists>x \<in> set (jl_provisionJobs s). row_id row = text_at x ''id''" by (rule provision_rows [OF row that])
    then have "job_listed (w_net w) (w_http w) t (row_id row)" using s by (auto simp: page_inv_def jobs_ok_def)
    then show "jobs_request t (w_net w) (w_http w) r" if "fetchJson r = retryOperatorProvisionJob t (row_id row)" for r
      using that unfolding jobs_request_def by blast
    show "single (retryOperatorProvisionJob t (row_id row))" by (simp add: retryOperatorProvisionJob_def Let_def)
  qed (use s failed reload in auto)
  then show ?thesis
    unfolding retry_row_def Let_def using s jobs_token [OF s] by (auto intro!: safe_finish)
qed

interpretation jobs_invariant: page_invariant jobs_handlers later "jobs_inv t" for t
proof unfold_locales
  fix h w assume "h \<in> jobs_handlers"
  moreover have "job_list.guarded t w (retry_button i)" for i
    unfolding retry_button_def [abs_def] by (auto intro!: job_list.guarded_by retry_guarded safe_finish)
  ultimately show "job_list.guarded t w h"
    by (auto simp: jobs_handlers_def intro!: jobs_instant load_jobs_guarded job_list.finish_guarded wireAll_guarded)
qed (auto intro: later_trans)

text \<open>C16. The console retries only jobs that the server has listed.  However loads, filters, retries and the wiring of the fleet interleave,
  each request of the list of provisioning jobs is one of its lists, the wiring, a logout, or the retry of a provisioning job that the server
  has listed for this token (never of an update job, which stands in the same feed); and every row of a provisioning job in the feed is
  such a job.\<close>

theorem retries_listed_jobs:
  assumes "page_reachable jobs_handlers (fresh_page s w) pg" and "w_http w = []" and "jl_provisionJobs s = []"
  shows "requests_ok (jobs_request (wr_token s)) (w_net (pg_world pg)) (w_http (pg_world pg)) \<and>
    (\<forall>row. row \<in> set (job_rows (pg_state pg)) \<and> row_source row = SourceProvision \<longrightarrow>
       job_listed (w_net (pg_world pg)) (w_http (pg_world pg)) (wr_token s) (row_id row))"
proof -
  have inv: "jobs_inv (wr_token s) (pg_state pg) (pg_world pg)"
    by (rule jobs_invariant.reachable_invariant [OF assms(1)]) (use assms(2,3) in \<open>simp_all add: fresh_page_def page_inv_def jobs_ok_def\<close>)
  have "job_listed (w_net (pg_world pg)) (w_http (pg_world pg)) (wr_token s) (row_id row)"
    if "row \<in> set (job_rows (pg_state pg))" "row_source row = SourceProvision" for row
  proof -
    have "\<exists>x \<in> set (jl_provisionJobs (pg_state pg)). row_id row = text_at x ''id''" by (rule provision_rows [OF that])
    then show ?thesis using inv by (auto simp: page_inv_def jobs_ok_def)
  qed
  with inv show ?thesis by (auto simp: page_inv_def)
qed

definition sample_job_answer :: json where
  "sample_job_answer = JObj [(''jobs'', JArr [JObj [(''id'', JStr ''p1''), (''updated_at'', JStr ''2026-01-01'')]])]"

definition sample_jobs :: jobs_page where
  "sample_jobs = \<lparr>fr_env = sample_env, fr_app = sample_app, fr_router = load_router ''/'' sample_storage, fr_assigned = [],
     wr_token = ''T'', wr_drift = None, wr_wireAllPending = False, wr_wireAllResult = JNull, wr_wireAllError = None,
     jl_statusFilter = ''queued'', jl_loading = False, jl_errorMessage = None, jl_provisionJobs = [], jl_updateJobsResult = None,
     jl_actingId = None, jl_actionError = None, jl_driftError = None\<rparr>"

abbreviation sample_jobs_run :: "jobs_page \<times> world" where
  "sample_jobs_run \<equiv> run_all [load_jobs (\<lambda>_. finish) finish, retry_button 0] sample_jobs
     (sample_world (\<lambda>_. sample_job_answer))"

lemma sample_jobs_members [simp]:
  "wf_json sample_job_answer" "list_member sample_job_answer ''jobs'' = Inr [JObj [(''id'', JStr ''p1''), (''updated_at'', JStr ''2026-01-01'')]]"
  by (simp_all add: sample_job_answer_def list_member_def obj_get_def)

lemma sample_rows:
  "jl_provisionJobs s = [JObj [(''id'', JStr ''p1''), (''updated_at'', JStr ''2026-01-01'')]] \<Longrightarrow>
   jl_updateJobsResult s = Some (Data sample_job_answer) \<Longrightarrow>
   \<exists>r rs. job_rows s = r # rs \<and> row_source r = SourceProvision \<and> row_retryable r \<and> row_id r = ''p1''"
  by (simp add: job_rows_def sample_job_answer_def obj_get_def mergeJobRows_def js_sort_def compareRows_def provisionJobToRow_def
      provision_item_def updateJobToRow_def update_item_def text_at_def string_member_def opt_or_def str_or_def Let_def)

lemma job_call_methods:
  "\<exists>r. req_method r = ''GET'' \<and> listOperatorProvisionJobs t q = fetchJson r"
  "\<exists>r. req_method r = ''GET'' \<and> listOperatorInstancesDrift t = or_pending (fetchJson r)"
  "\<exists>r. req_method r = ''GET'' \<and> listOperatorUpdateJobs t q' = or_pending (fetchJson r)"
  "\<exists>r. req_method r = ''POST'' \<and> retryOperatorProvisionJob t i = fetchJson r"
  by (auto simp: listOperatorInstancesDrift_def listOperatorUpdateJobs_def listOperatorProvisionJobs_def retryOperatorProvisionJob_def
      api_call_def Let_def intro!: exI)

lemma sample_load:
  assumes "w_net w = net_of (\<lambda>_. sample_job_answer)"
  shows "\<exists>rs s'. run (load_jobs th k) s w = run k s' (w\<lparr>w_http := w_http w @ rs\<rparr>) \<and> map req_method rs = [''GET'', ''GET'', ''GET''] \<and>
    wr_token s' = wr_token s \<and> jl_provisionJobs s' = [JObj [(''id'', JStr ''p1''), (''updated_at'', JStr ''2026-01-01'')]] \<and>
    jl_updateJobsResult s' = Some (Data sample_job_answer)"
proof -
  let ?uq = "Some \<lparr>uj_status = Some (jl_statusFilter s), uj_limit = Some 100\<rparr>"
  let ?pq = "Some \<lparr>pj_status = Some (jl_statusFilter s), pj_instance_slug = None, pj_limit = Some 100\<rparr>"
  obtain a b c where "req_method a = ''GET''" "listOperatorInstancesDrift (wr_token s) = or_pending (fetchJson a)"
      "req_method b = ''GET''" "listOperatorUpdateJobs (wr_token s) ?uq = or_pending (fetchJson b)"
      "req_method c = ''GET''" "listOperatorProvisionJobs (wr_token s) ?pq = fetchJson c"
    using job_call_methods by metis
  note answers = this
  show ?thesis
    by (intro exI [of _ "[a, b, c]"], simp add: answers run_eval load_jobs_def http_all3_def http_all_def http_def settled_def or_pending_def
        fetchJson_net_of assms fulfilled_def, intro exI conjI, rule refl) simp_all
qed

lemma sample_jobs_log:
  "map req_method (w_http (snd sample_jobs_run)) = [''GET'', ''GET'', ''GET'', ''POST'', ''GET'', ''GET'', ''GET'']"
proof -
  let ?w = "sample_world (\<lambda>_. sample_job_answer)"
  have w: "w_net ?w = net_of (\<lambda>_. sample_job_answer)" "w_http ?w = []" by (simp_all add: sample_world_def)
  obtain rs s1 where one: "run (load_jobs (\<lambda>_. finish) finish) sample_jobs ?w = (s1, ?w\<lparr>w_http := rs\<rparr>)"
      "map req_method rs = [''GET'', ''GET'', ''GET'']"
      "jl_provisionJobs s1 = [JObj [(''id'', JStr ''p1''), (''updated_at'', JStr ''2026-01-01'')]]"
      "jl_updateJobsResult s1 = Some (Data sample_job_answer)"
    using sample_load [OF w(1), of "\<lambda>_. finish" finish sample_jobs] by (auto simp: w(2))
  obtain r rest where r: "job_rows s1 = r # rest" "row_source r = SourceProvision" "row_retryable r" using sample_rows [OF one(3,4)] by blast
  obtain q where q: "req_method q = ''POST''" "retryOperatorProvisionJob (wr_token s1) (row_id r) = fetchJson q" using job_call_methods(4) by metis
  let ?w1 = "?w\<lparr>w_http := rs @ [q]\<rparr>"
  let ?low = "\<lambda>s :: jobs_page. s\<lparr>jl_actingId := None\<rparr>"
  let ?failed = "rejected ?low (\<lambda>e s. s\<lparr>jl_actionError := show_error s e\<rparr>) (\<lambda>_. finish) finish"
  have "run (retry_button 0) s1 (?w\<lparr>w_http := rs\<rparr>) =
      run (load_jobs ?failed (\<lambda>s. finish (?low s))) (s1\<lparr>jl_actionError := None, jl_actingId := Some (row_id r)\<rparr>) ?w1"
    using r q by (simp add: run_eval retry_button_def retry_row_def http_def fetchJson_net_of w)
  moreover obtain rs' s2 where "run (load_jobs ?failed (\<lambda>s. finish (?low s))) (s1\<lparr>jl_actionError := None, jl_actingId := Some (row_id r)\<rparr>) ?w1 =
      run (\<lambda>s. finish (?low s)) s2 (?w1\<lparr>w_http := w_http ?w1 @ rs'\<rparr>)" "map req_method rs' = [''GET'', ''GET'', ''GET'']"
    using sample_load [of ?w1 ?failed "\<lambda>s. finish (?low s)" "s1\<lparr>jl_actionError := None, jl_actingId := Some (row_id r)\<rparr>"] w by auto
  ultimately show ?thesis using one(1,2) q(1) by (simp add: run_def finish_def)
qed

theorem retries_listed_jobs_witness:
  "map req_method (w_http (snd sample_jobs_run)) = [''GET'', ''GET'', ''GET'', ''POST'', ''GET'', ''GET'', ''GET''] \<and>
   list_all (\<lambda>r. \<exists>l. jobs_request ''T'' (w_net (snd sample_jobs_run)) l r) (w_http (snd sample_jobs_run))"
proof -
  have h: "set [load_jobs (\<lambda>_. finish) finish, retry_button 0] \<subseteq> jobs_handlers" by (auto simp: jobs_handlers_def)
  have w: "w_http (sample_world (\<lambda>_. sample_job_answer)) = []" by (simp add: sample_world_def)
  have start: "jl_provisionJobs sample_jobs = []" "wr_token sample_jobs = ''T''" by (simp_all add: sample_jobs_def)
  obtain s' w' where R: "sample_jobs_run = (s', w')" by (cases sample_jobs_run)
  have "page_reachable jobs_handlers (fresh_page sample_jobs (sample_world (\<lambda>_. sample_job_answer))) (fresh_page s' w')"
    using run_all_reachable [OF h, of sample_jobs "sample_world (\<lambda>_. sample_job_answer)"] unfolding R by simp
  from retries_listed_jobs [OF this w start(1)] have "requests_ok (jobs_request ''T'') (w_net w') (w_http w')"
    by (simp add: fresh_page_def start(2))
  then have "list_all (\<lambda>r. \<exists>l. jobs_request ''T'' (w_net w') l r) (w_http w')"
    using requests_ok_member by (auto simp: list_all_iff)
  then show ?thesis using sample_jobs_log unfolding R by simp
qed

section \<open>The registry of tips\<close>

text \<open>What the registry sends: its list, the logout of the session, and changes with the text and the choice that are on the page.\<close>

definition tips_emits :: "tips_page \<Rightarrow> request \<Rightarrow> bool" where
  "tips_emits s r \<longleftrightarrow>
     fetchJson r = tip_operations (rp_token s) (rp_statusFilter s) \<or>
     (\<exists>v t. app_session (fr_app s) = Some v \<and> string_member v ''token'' = Some t \<and> r = logout_request t) \<or>
     (js_trim (tg_ensureDomain s) \<noteq> [] \<and> fetchJson r = ensureTipRegistryHost (rp_token s) (js_trim (tg_ensureDomain s))) \<or>
     (js_trim (tg_hostDomain s) \<noteq> [] \<and>
      fetchJson r = setTipRegistryHostActive (rp_token s) (js_trim (tg_hostDomain s)) (tg_hostActive s = ''true'')) \<or>
     (js_trim (tg_tokenAddress s) \<noteq> [] \<and>
      fetchJson r = setTipRegistryTokenAllowed (rp_token s) (js_trim (tg_tokenAddress s)) (tg_tokenAllowed s = ''true''))"

interpretation tips: emitting_page tips_emits
  by unfold_locales (auto simp: tips_emits_def)

lemma tips_emits_fields [simp]:
  "tips_emits (rp_loading_update a s) = tips_emits s" "tips_emits (rp_errorMessage_update b s) = tips_emits s"
  "tips_emits (rp_ops_update c s) = tips_emits s" "tips_emits (rp_createError_update d s) = tips_emits s"
  "tips_emits (rp_createResult_update e s) = tips_emits s" "tips_emits (rp_creating_update f s) = tips_emits s"
  by (simp_all add: fun_eq_iff tips_emits_def)

lemma load_tips_obeys:
  assumes t: "\<And>e. obeys (emits tips_emits) (throw e)" and k: "obeys (emits tips_emits) k"
  shows "obeys (emits tips_emits) (load_ops tip_operations throw k)"
proof (rule obeysR)
  fix s
  let ?failed = "rejected (\<lambda>s :: tips_page. s\<lparr>rp_loading := False\<rparr>) (\<lambda>e s. s\<lparr>rp_errorMessage := show_error s e\<rparr>) throw k"
  have "obeys (emits tips_emits) (?failed e)" for e by (rule tips.rejected_obeys [OF t k]) simp_all
  moreover have "sends (http (tip_operations (rp_token s) (rp_statusFilter s))) (tips_emits s)"
    by (rule sends_single) (auto simp: tips_emits_def tip_operations_def listTipRegistryOperations_def Let_def)
  moreover have "obeys (emits tips_emits) (\<lambda>s. k (s\<lparr>rp_ops := v, rp_loading := False\<rparr>))" for v
    by (rule obeysR, rule obeys_call [OF k]) simp
  ultimately show "obeys_result (emits tips_emits) s (load_ops tip_operations throw k s)"
    unfolding load_ops_def Let_def by (intro obeys_sends) simp_all
qed

lemma create_tip_obeys:
  assumes "sends (http call) (tips_emits s)"
  shows "obeys_result (emits tips_emits) s (create_op tip_operations call s)"
proof -
  let ?failed = "rejected (\<lambda>s :: tips_page. s\<lparr>rp_creating := False\<rparr>) (\<lambda>e s. s\<lparr>rp_createError := show_error s e\<rparr>) (\<lambda>_. finish) finish"
  have "obeys (emits tips_emits) (load_ops tip_operations ?failed (\<lambda>s. finish (s\<lparr>rp_creating := False\<rparr>)))"
    by (intro load_tips_obeys tips.rejected_finish obeysR obeys_stop)
  note load = obeys_call [OF this]
  have "obeys (emits tips_emits) (\<lambda>s. load_ops tip_operations ?failed (\<lambda>s. finish (s\<lparr>rp_creating := False\<rparr>)) (s\<lparr>rp_createResult := v\<rparr>))" for v
    by (rule obeysR, rule load) simp
  then show ?thesis
    unfolding create_op_def Let_def by (intro obeys_sends assms tips.rejected_finish)
qed

interpretation tips_steps: step_discipline tips_handlers "emits tips_emits"
proof unfold_locales
  fix h assume "h \<in> tips_handlers"
  moreover have "obeys (emits tips_emits) (\<lambda>s. finish (g s))" for g by (intro obeysR obeys_stop)
  moreover have "obeys (emits tips_emits) load_tips"
    unfolding load_tips_def by (intro load_tips_obeys obeys_finish)
  moreover have "obeys (emits tips_emits) createEnsure" "obeys (emits tips_emits) createHostActive" "obeys (emits tips_emits) createTokenAllowed"
    by (rule obeysR, auto simp: createEnsure_def createHostActive_def createTokenAllowed_def create_missing_def Let_def tips_emits_def
        ensureTipRegistryHost_def setTipRegistryHostActive_def setTipRegistryTokenAllowed_def
        intro!: create_tip_obeys sends_single obeys_stop)+
  ultimately show "obeys (emits tips_emits) h" by (auto simp: tips_handlers_def)
qed simp

lemma tip_changes_checked:
  assumes "page_reachable tips_handlers (fresh_page s w) pg" and "page_step tips_handlers pg pg'"
  shows "\<exists>sent. w_http (pg_world pg') = w_http (pg_world pg) @ sent \<and> list_all (tips_emits (pg_state pg)) sent"
  using tips_steps.reachable_step [OF assms(1) _ assms(2)] by (auto simp: fresh_page_def emits_def list_all_iff)

end
