(* ===== verification/Console_Progress.thy ===== *)
theory Console_Progress
  imports Operator_Progress Safe_Operation
begin

text \<open>
  The lists of the console, its registries and the page of a soul registry operation come to rest.
\<close>

section \<open>The registries\<close>

lemma own_registry: "own_flag rp_loading" "own_flag rp_creating"
  by (simp_all add: own_flag_def)

lemma load_ops_lowers:
  assumes "\<And>e. owes rp_loading False (throw e)" and k: "owes rp_loading False k"
  shows "owes rp_loading False (load_ops c throw k)"
  unfolding load_ops_def Let_def
  by (auto simp: own_registry intro!: owesR owes_try_raised rejected_lowers owes_true [OF rejected_lowers] assms owes_lowered [OF k])

lemma load_ops_keeps:
  assumes "\<And>e. owes rp_creating False (throw e)" and k: "owes rp_creating False k"
  shows "owes rp_creating False (load_ops c throw k)"
  unfolding load_ops_def Let_def
  by (auto simp: own_registry intro!: owesR owes_try_kept rejected_keeps owes_same [OF rejected_keeps] assms owes_same [OF k])

lemma load_ops_pays:
  assumes "\<And>e. owes f True (throw e)" and k: "owes f True k"
  shows "owes f True (load_ops c throw k)"
  unfolding load_ops_def Let_def by (auto intro!: pass_intros assms owes_true [OF k])

lemma create_op_flags:
  "owes_result rp_loading False s (create_op c call s)" "owes_result rp_creating False s (create_op c call s)"
proof -
  let ?low = "\<lambda>s :: 'a registry_page_scheme. s\<lparr>rp_creating := False\<rparr>"
  let ?failed = "rejected ?low (\<lambda>e s. s\<lparr>rp_createError := show_error s e\<rparr>) (\<lambda>_. finish) finish"
  have f: "owes rp_loading False (?failed e)" for e by (rule rejected_keeps) (simp_all add: own_registry owes_finish_only)
  have "owes rp_loading False (\<lambda>s. finish (?low s))" by (rule input_keeps) simp
  then have l: "owes rp_loading False (load_ops c ?failed (\<lambda>s. finish (?low s)))" by (intro load_ops_lowers f)
  show "owes_result rp_loading False s (create_op c call s)"
    unfolding create_op_def Let_def by (rule owes_try_kept) (auto intro!: f owesR owes_same [OF l])
  have g: "owes rp_creating True (?failed e)" for e by (rule rejected_lowers) (simp_all add: owes_finish_only)
  have "owes rp_creating True (\<lambda>s. finish (?low s))" by (intro owesR owes_stop) simp
  then have m: "owes rp_creating True (load_ops c ?failed (\<lambda>s. finish (?low s)))" by (intro load_ops_pays g)
  show "owes_result rp_creating False s (create_op c call s)"
    unfolding create_op_def Let_def by (rule owes_try_raised) (auto intro!: g owesR owes_true [OF m])
qed

lemmas registry_flags = load_ops_lowers load_ops_keeps owesD [OF load_ops_lowers] owesD [OF load_ops_keeps] create_op_flags owes_finish_only

lemma tips_loading: "h \<in> tips_handlers \<Longrightarrow> owes rp_loading False h"
  by (auto simp: tips_handlers_def load_tips_def createEnsure_def createHostActive_def createTokenAllowed_def create_missing_def Let_def
      intro!: input_keeps registry_flags owesR owes_stop)

lemma tips_creating: "h \<in> tips_handlers \<Longrightarrow> owes rp_creating False h"
  by (auto simp: tips_handlers_def load_tips_def createEnsure_def createHostActive_def createTokenAllowed_def create_missing_def Let_def
      intro!: input_keeps registry_flags owesR owes_stop)

interpretation tips_load: loading_flag tips_handlers rp_loading by unfold_locales (rule tips_loading)
interpretation tips_create: loading_flag tips_handlers rp_creating by unfold_locales (rule tips_creating)

lemma open_button_flags: "owes rp_loading False (open_button popup i)" "owes rp_creating False (open_button popup i)"
  by (auto simp: open_button_def openOperationInSafe_def Let_def intro!: owesR owes_stop owes_try_kept
      split: option.split json.split sum.split)

lemma soulreg_loading: "h \<in> soulreg_handlers \<Longrightarrow> owes rp_loading False h"
  by (auto simp: soulreg_handlers_def load_soulreg_def publishReputation_def publishValidation_def loadConfig_souls_def
      intro!: input_keeps registry_flags open_button_flags owesD [OF open_button_flags(1)] owesD [OF open_button_flags(2)] owesR owes_try_kept owes_stop)

lemma soulreg_creating: "h \<in> soulreg_handlers \<Longrightarrow> owes rp_creating False h"
  by (auto simp: soulreg_handlers_def load_soulreg_def publishReputation_def publishValidation_def loadConfig_souls_def
      intro!: input_keeps registry_flags open_button_flags owesD [OF open_button_flags(1)] owesD [OF open_button_flags(2)] owesR owes_try_kept owes_stop)

interpretation soulreg_load: loading_flag soulreg_handlers rp_loading by unfold_locales (rule soulreg_loading)
interpretation soulreg_create: loading_flag soulreg_handlers rp_creating by unfold_locales (rule soulreg_creating)

section \<open>Jobs and releases\<close>

abbreviation acting_on :: "jobs_page \<Rightarrow> bool" where
  "acting_on s \<equiv> \<exists>i. jl_actingId s = Some i"

lemma own_jobs: "own_flag jl_loading" "own_flag acting_on" "own_flag wr_wireAllPending" "own_flag rl_loading"
  by (simp_all add: own_flag_def)

lemma wireAll_lowers: "owes wr_wireAllPending False wireAll"
  unfolding wireAll_def Let_def by (auto simp: own_jobs intro!: lower_intros split: sum.split)

lemma wireAll_keeps:
  assumes own: "own_flag f" and fields: "\<And>s a b c d. f (wr_wireAllPending_update a s) = f s" "\<And>s b. f (wr_wireAllError_update b s) = f s"
    "\<And>s c. f (wr_wireAllResult_update c s) = f s" "\<And>s d. f (wr_drift_update d s) = f s"
  shows "owes f False wireAll"
  unfolding wireAll_def Let_def using fields by (auto simp: own intro!: keep_intros split: sum.splits)

lemma load_jobs_lowers:
  assumes "\<And>e. owes jl_loading False (throw e)" and k: "owes jl_loading False k"
  shows "owes jl_loading False (load_jobs throw k)"
  unfolding load_jobs_def Let_def
  by (auto simp: own_jobs intro!: owesR owes_try_raised rejected_lowers owes_true [OF rejected_lowers] assms owes_lowered [OF k]
      split: prod.split sum.split)

lemma load_jobs_keeps:
  assumes own: "own_flag f" and "\<And>e. owes f False (throw e)" and k: "owes f False k"
    and fields: "\<And>s a. f (jl_loading_update a s) = f s" "\<And>s a. f (jl_errorMessage_update a s) = f s"
    "\<And>s a. f (jl_actionError_update a s) = f s" "\<And>s a. f (jl_driftError_update a s) = f s" "\<And>s a. f (jl_provisionJobs_update a s) = f s"
    "\<And>s a. f (jl_updateJobsResult_update a s) = f s" "\<And>s a. f (wr_wireAllResult_update a s) = f s"
    "\<And>s a. f (wr_wireAllError_update a s) = f s" "\<And>s a. f (wr_drift_update a s) = f s"
  shows "owes f False (load_jobs throw k)"
  unfolding load_jobs_def Let_def using fields
  by (auto simp: own intro!: owesR owes_try_kept rejected_keeps owes_same [OF rejected_keeps] assms owes_same [OF k]
      split: prod.split sum.split)

lemma load_jobs_pays:
  assumes "\<And>e. owes f True (throw e)" and k: "owes f True k"
  shows "owes f True (load_jobs throw k)"
  unfolding load_jobs_def Let_def by (auto intro!: pass_intros assms owes_true [OF k] split: prod.split sum.split)

lemma retry_button_flags: "owes jl_loading False (retry_button i)" "owes acting_on False (retry_button i)"
  "owes wr_wireAllPending False (retry_button i)"
proof -
  let ?low = "\<lambda>s :: jobs_page. s\<lparr>jl_actingId := None\<rparr>"
  let ?failed = "rejected ?low (\<lambda>e s. s\<lparr>jl_actionError := show_error s e\<rparr>) (\<lambda>_. finish) finish"
  have f: "owes jl_loading False (?failed e)" "owes wr_wireAllPending False (?failed e)" for e
    by (rule rejected_keeps; simp add: own_jobs owes_finish_only)+
  have k: "owes jl_loading False (\<lambda>s. finish (?low s))" "owes wr_wireAllPending False (\<lambda>s. finish (?low s))" by (rule input_keeps; simp)+
  have l: "owes jl_loading False (load_jobs ?failed (\<lambda>s. finish (?low s)))" by (intro load_jobs_lowers f k)
  have p: "owes wr_wireAllPending False (load_jobs ?failed (\<lambda>s. finish (?low s)))" by (intro load_jobs_keeps own_jobs f k) simp_all
  have g: "owes acting_on True (?failed e)" for e by (rule rejected_lowers) (simp_all add: owes_finish_only)
  have "owes acting_on True (\<lambda>s. finish (?low s))" by (intro owesR owes_stop) simp
  then have m: "owes acting_on True (load_jobs ?failed (\<lambda>s. finish (?low s)))" by (intro load_jobs_pays g)
  show "owes jl_loading False (retry_button i)" "owes wr_wireAllPending False (retry_button i)"
    unfolding retry_button_def retry_row_def Let_def
    by (auto intro!: owesR owes_stop owes_try_kept f owes_same [OF l] owes_same [OF p])
  show "owes acting_on False (retry_button i)"
    unfolding retry_button_def retry_row_def Let_def
    by (auto intro!: owesR owes_stop owes_try_raised g owes_true [OF m])
qed

interpretation jobs_load: loading_flag jobs_handlers jl_loading
  by unfold_locales (auto simp: jobs_handlers_def own_jobs intro!: input_keeps retry_button_flags load_jobs_lowers wireAll_keeps owes_finish_only)
interpretation jobs_act: loading_flag jobs_handlers acting_on
  by unfold_locales (auto simp: jobs_handlers_def own_jobs intro!: input_keeps retry_button_flags load_jobs_keeps wireAll_keeps owes_finish_only)
interpretation jobs_wire: loading_flag jobs_handlers wr_wireAllPending
  by unfold_locales (auto simp: jobs_handlers_def own_jobs intro!: input_keeps retry_button_flags load_jobs_keeps wireAll_lowers owes_finish_only)

lemma load_releases_flags: "owes rl_loading False load_releases" "owes wr_wireAllPending False load_releases"
proof -
  show "owes rl_loading False load_releases"
    unfolding load_releases_def Let_def by (auto simp: own_jobs intro!: lower_intros)
  show "owes wr_wireAllPending False load_releases"
    unfolding load_releases_def Let_def by (auto simp: own_jobs intro!: keep_intros)
qed

interpretation releases_load: loading_flag releases_handlers rl_loading
  by unfold_locales (auto simp: releases_handlers_def handleStackAction_def own_jobs intro!: input_keeps load_releases_flags wireAll_keeps)
interpretation releases_wire: loading_flag releases_handlers wr_wireAllPending
  by unfold_locales (auto simp: releases_handlers_def handleStackAction_def intro!: input_keeps load_releases_flags wireAll_lowers)

section \<open>The operation in the Safe\<close>

text \<open>A flag that the record of a hash, the polls and the launch do not touch.\<close>

locale steady_flag =
  fixes f :: "safe_op_page \<Rightarrow> bool"
  assumes own: "own_flag f"
    and steady_recordLoading: "f (s\<lparr>sf_recordLoading := a\<rparr>) = f s" and steady_op: "f (s\<lparr>sf_op := b\<rparr>) = f s"
    and steady_execTxHash: "f (s\<lparr>sf_execTxHash := c\<rparr>) = f s" and steady_safeAppError: "f (s\<lparr>sf_safeAppError := d\<rparr>) = f s"
    and steady_recordError: "f (s\<lparr>sf_recordError := d\<rparr>) = f s" and steady_notice: "f (s\<lparr>sf_safeAppNotice := d\<rparr>) = f s"
    and steady_timer: "f (s\<lparr>sf_timer := d\<rparr>) = f s" and steady_status: "f (s\<lparr>sf_safeAppStatus := x\<rparr>) = f s"
    and steady_opened: "f (s\<lparr>sf_opened := o'\<rparr>) = f s"
begin

lemmas fields = steady_recordLoading steady_op steady_execTxHash steady_safeAppError steady_recordError steady_notice steady_timer
  steady_status steady_opened

lemma moves: "f (s\<lparr>fr_app := a\<rparr>) = f s" "f (s\<lparr>fr_router := r\<rparr>) = f s" "f (stopSafeAppPolling s) = f s" "f (clear_pending s) = f s"
  "f (save_pending h s) = f s"
  using own by (simp_all only: own_flag_def stopSafeAppPolling_def clear_pending_def save_pending_def fields)

lemma record_keeps:
  assumes t: "\<And>e. owes f False (throw e)" and k: "owes f False k"
  shows "owes f False (recordExecutionHash h src throw k)"
proof (rule owesR)
  fix s
  have "owes f False (rejected (\<lambda>s. s\<lparr>sf_recordLoading := False\<rparr>) (\<lambda>e s. case src of
      FromSafe \<Rightarrow> s\<lparr>sf_safeAppError := show_error s e\<rparr> | Manual \<Rightarrow> s\<lparr>sf_recordError := show_error s e\<rparr>) throw k e)" for e
    by (intro rejected_keeps own t k) (cases src; simp only: fields record_source.case)+
  then show "owes_result f False s (recordExecutionHash h src throw k s)"
    unfolding recordExecutionHash_def Let_def
    by (rule owes_try_kept [rotated], (cases src; intro owesR owes_same [OF k]; simp only: fields moves record_source.case)) (simp only: fields)
qed

lemma poll_keeps: "owes f False (pollSafeExecution sdk h)"
proof (rule owesR)
  fix s
  let ?failed = "\<lambda>e s :: safe_op_page. finish (s\<lparr>sf_safeAppError := show_error s e\<rparr>)"
  have g: "owes f False (?failed e)" for e by (rule input_keeps) (simp only: fields)
  have r: "owes f False (recordExecutionHash t FromSafe ?failed finish)" for t by (rule record_keeps [OF g owes_finish_only])
  have n: "owes f False (\<lambda>s. let status = summarizeSafeAppExecution (Some details); s = s\<lparr>sf_safeAppStatus := Some status, sf_safeAppError := None\<rparr> in
      if truthy (sx_txHash status) \<and> sx_txHash status \<noteq> string_member (sf_op s) ''exec_tx_hash''
      then recordExecutionHash (the (sx_txHash status)) FromSafe ?failed finish s else finish s)" for details
    unfolding Let_def by (rule owesR) (simp only: if_split, intro conjI impI owes_same [OF r] owes_stop; simp only: fields simp_thms)
  show "owes_result f False s (pollSafeExecution sdk h s)"
    unfolding pollSafeExecution_def Let_def
    using owes_try_kept [of f s s ?failed _ "answer (sk_getBySafeTxHash sdk h)", OF _ g n [unfolded Let_def]]
    by (simp add: owes_finish)
qed

end

interpretation op_loading: steady_flag sf_loading by unfold_locales (simp_all add: own_flag_def)
interpretation app_loading: steady_flag sf_safeAppLoading by unfold_locales (simp_all add: own_flag_def)
interpretation submitting: steady_flag sf_safeAppSubmitting by unfold_locales (simp_all add: own_flag_def)

lemma record_lowers:
  assumes "\<And>e. owes sf_recordLoading False (throw e)" and k: "owes sf_recordLoading False k"
  shows "owes sf_recordLoading False (recordExecutionHash h src throw k)"
  unfolding recordExecutionHash_def Let_def
  by (auto simp: stopSafeAppPolling_def clear_pending_def own_flag_def
      intro!: owesR owes_try_raised rejected_lowers owes_true [OF rejected_lowers] assms owes_lowered [OF k] split: record_source.splits)

lemma poll_records: "owes sf_recordLoading False (pollSafeExecution sdk h)"
proof -
  let ?failed = "\<lambda>e s :: safe_op_page. finish (s\<lparr>sf_safeAppError := show_error s e\<rparr>)"
  have g: "owes sf_recordLoading False (?failed e)" for e by (rule input_keeps) simp
  have "owes sf_recordLoading False (recordExecutionHash t FromSafe ?failed finish)" for t by (rule record_lowers [OF g owes_finish_only])
  note r = owes_same [OF this]
  show ?thesis
    unfolding pollSafeExecution_def Let_def
    by (auto intro!: owesR owes_stop owes_try_kept g r)
qed

lemmas polls = op_loading.poll_keeps app_loading.poll_keeps submitting.poll_keeps poll_records

text \<open>Starting the polls: the \<open>finally\<close> lowers the flag of the caller, and the other flags are left alone.\<close>

lemma start_flags:
  assumes "owes f False (pollSafeExecution sdk h)"
  shows "(\<And>s. \<not> f (lower s)) \<Longrightarrow> owes_result f b s (startSafeAppPolling sdk h lower s')"
    and "(\<And>s. f (lower s) = f s) \<Longrightarrow> (\<And>s a. f (s\<lparr>sf_timer := a\<rparr>) = f s) \<Longrightarrow> (f s' \<Longrightarrow> f s) \<Longrightarrow>
      owes_result f False s (startSafeAppPolling sdk h lower s')"
  unfolding startSafeAppPolling_def stopSafeAppPolling_def
  by (rule detach_lowers [OF _ assms], assumption) (rule detach_keeps [OF _ assms]; simp only:)

lemma init_flags:
  "owes sf_loading False (initSafeApp sdk)" "owes sf_recordLoading False (initSafeApp sdk)"
  "owes sf_safeAppSubmitting False (initSafeApp sdk)" "owes sf_safeAppLoading False (initSafeApp sdk)"
  unfolding initSafeApp_def Let_def
  by ((auto intro!: owesR owes_stop owes_await_kept start_flags(2) polls; fail)+, auto intro!: owesR owes_stop owes_await_raised start_flags(1) polls)

lemma submit_flags:
  "owes sf_loading False (submitViaSafe sdk)" "owes sf_recordLoading False (submitViaSafe sdk)"
  "owes sf_safeAppLoading False (submitViaSafe sdk)" "owes sf_safeAppSubmitting False (submitViaSafe sdk)"
  unfolding submitViaSafe_def Let_def
  by ((auto simp: save_pending_def intro!: owesR owes_stop owes_try_kept start_flags(2) polls split: option.split; fail)+,
      auto intro!: owesR owes_stop owes_try_raised start_flags(1) polls split: option.split)

lemma launch_flags:
  "stageSafeAppLaunch s = Some (b, s') \<Longrightarrow> sf_loading s' = sf_loading s \<and> sf_recordLoading s' = sf_recordLoading s \<and>
   sf_safeAppLoading s' = sf_safeAppLoading s \<and> sf_safeAppSubmitting s' = sf_safeAppSubmitting s"
  by (auto simp: stageSafeAppLaunch_def Let_def split: option.splits sum.splits prod.splits if_splits)

lemma open_flags:
  "owes sf_loading False (openSafeWallet p)" "owes sf_recordLoading False (openSafeWallet p)"
  "owes sf_safeAppLoading False (openSafeWallet p)" "owes sf_safeAppSubmitting False (openSafeWallet p)"
  "owes sf_loading False copySafeWalletUrl" "owes sf_recordLoading False copySafeWalletUrl"
  "owes sf_safeAppLoading False copySafeWalletUrl" "owes sf_safeAppSubmitting False copySafeWalletUrl"
  unfolding openSafeWallet_def copySafeWalletUrl_def Let_def
  by (auto intro!: owesR owes_stop owes_try_kept input_keeps split: option.split bool.split dest!: launch_flags)

lemma load_soul_op_flags:
  "owes sf_recordLoading False load_soul_op" "owes sf_safeAppLoading False load_soul_op" "owes sf_safeAppSubmitting False load_soul_op"
  "owes sf_loading False load_soul_op"
  unfolding load_soul_op_def Let_def stopSafeAppPolling_def clear_pending_def
  by ((auto simp: own_flag_def intro!: keep_intros split: if_splits; fail)+, auto simp: own_flag_def intro!: lower_intros)

lemma record_soul_flags:
  "owes sf_loading False recordExecution_soul" "owes sf_safeAppLoading False recordExecution_soul"
  "owes sf_safeAppSubmitting False recordExecution_soul" "owes sf_recordLoading False recordExecution_soul"
  unfolding recordExecution_soul_def Let_def
  by (auto intro!: owesR owes_stop owes_same [OF op_loading.record_keeps] owes_same [OF app_loading.record_keeps]
      owes_same [OF submitting.record_keeps] owes_same [OF record_lowers] owes_finish_only)

lemma tick_flags:
  "owes sf_loading False (poll_tick sdk)" "owes sf_recordLoading False (poll_tick sdk)"
  "owes sf_safeAppLoading False (poll_tick sdk)" "owes sf_safeAppSubmitting False (poll_tick sdk)"
  unfolding poll_tick_def by (auto intro!: owesR owes_stop owes_same [OF polls(1)] owes_same [OF polls(2)] owes_same [OF polls(3)]
      owes_same [OF polls(4)] split: option.split)

lemma soul_config_flags:
  "owes sf_loading False loadConfig_soul" "owes sf_recordLoading False loadConfig_soul"
  "owes sf_safeAppLoading False loadConfig_soul" "owes sf_safeAppSubmitting False loadConfig_soul"
  unfolding loadConfig_soul_def by (auto intro!: owesR owes_stop owes_try_kept)

lemmas safe_op_flags = init_flags submit_flags open_flags load_soul_op_flags record_soul_flags tick_flags soul_config_flags

lemma safe_op_owes:
  assumes "h \<in> safe_op_handlers"
  shows "owes sf_loading False h" "owes sf_recordLoading False h" "owes sf_safeAppLoading False h" "owes sf_safeAppSubmitting False h"
  using assms by (auto simp: safe_op_handlers_def stopSafeAppPolling_def intro!: safe_op_flags input_keeps)

interpretation safe_op_load: loading_flag safe_op_handlers sf_loading by unfold_locales (rule safe_op_owes)
interpretation safe_op_record: loading_flag safe_op_handlers sf_recordLoading by unfold_locales (rule safe_op_owes)
interpretation safe_op_app: loading_flag safe_op_handlers sf_safeAppLoading by unfold_locales (rule safe_op_owes)
interpretation safe_op_submit: loading_flag safe_op_handlers sf_safeAppSubmitting by unfold_locales (rule safe_op_owes)

section \<open>They come to rest\<close>

lemmas registry_rests = tips_load.loading_flag_axioms tips_create.loading_flag_axioms soulreg_load.loading_flag_axioms soulreg_create.loading_flag_axioms
  jobs_load.loading_flag_axioms jobs_act.loading_flag_axioms jobs_wire.loading_flag_axioms releases_load.loading_flag_axioms
  releases_wire.loading_flag_axioms safe_op_load.loading_flag_axioms safe_op_record.loading_flag_axioms safe_op_app.loading_flag_axioms
  safe_op_submit.loading_flag_axioms

text \<open>The lists and registries of the console and the page of a soul registry operation come to rest: however clicks, polls, answers, refused calls and an
  expired session interleave, once the answers have arrived nothing is left loading, creating, recording or submitting.\<close>

lemma registry_pages_settle:
  "comes_to_rest tips_handlers (\<lambda>s. rp_loading s \<or> rp_creating s) \<and> comes_to_rest soulreg_handlers (\<lambda>s. rp_loading s \<or> rp_creating s) \<and>
   comes_to_rest jobs_handlers (\<lambda>s. jl_loading s \<or> acting_on s \<or> wr_wireAllPending s) \<and>
   comes_to_rest releases_handlers (\<lambda>s. rl_loading s \<or> wr_wireAllPending s) \<and>
   comes_to_rest safe_op_handlers
     (\<lambda>s. sf_loading s \<or> sf_recordLoading s \<or> sf_safeAppLoading s \<or> sf_safeAppSubmitting s)"
  by (intro conjI comes_to_rest_or rest_by registry_rests)

end
