(* ===== verification/Spec2Isabelle.thy ===== *)
theory Spec2Isabelle
  imports Api_Portal Api_Operator Api_Soul Session Polling Instance_Config Jobs Webauthn Wallet Jcs Safe_App Edge Deploy_Config
    Setup_Progress Setup_Tokens Login_Correct Mint_Progress Mint_Correct Views_Correct Instance_Scope Instance_Progress Config_Correct Register_Correct Operator_Correct Operator_Progress Budget_Correct Overview_Correct Fleet_Correct Account_Correct Safe_Correct Console_Correct Console_Progress
begin

text \<open>
  A verification of the web client of lesser-host and of the part of its deployment that the client depends on.

  \<^bold>\<open>The program.\<close>  lesser-host hosts instances for customers.  Its TypeScript consists of a single-page web
  client (\<^verbatim>\<open>src/web\<close>) and of the code that synthesises the deployment (\<^verbatim>\<open>src/cdk\<close>).  A page of the client keeps
  its own state, calls the API modules under \<^verbatim>\<open>web/src/lib/api\<close>, which call the server through \<open>fetchJson\<close>
  (\<^verbatim>\<open>api/http.ts\<close>), and asks a wallet extension or a passkey authenticator for signatures.  All pages share
  the session store (\<^verbatim>\<open>lib/session.ts\<close>), which is mirrored in the web storages, and the router (\<^verbatim>\<open>lib/router.ts\<close>),
  on whose current path \<^verbatim>\<open>App.svelte\<close> chooses the page.  In front of everything stands the CDN that
  \<^verbatim>\<open>cdk/lib/web-delivery.ts\<close> configures: by path it hands a request to the control plane, its streaming API, the
  trust service or a bucket.

  \<^bold>\<open>Foundations.\<close>
  \<^item> \<open>Js_Base\<close>, the prelude: the strings of ECMAScript on Latin-1 code units, trimming, case, splitting, decimal and hexadecimal
    texts, and the interfaces of codecs as locales.
  \<^item> \<open>Json\<close>: JSON values, \<open>JSON.stringify\<close> and \<open>JSON.parse\<close> with their round trip; \<open>Uri\<close>: \<open>encodeURIComponent\<close>,
    \<open>URLSearchParams\<close>, and how a server reads a path; \<open>Base64\<close>: \<open>btoa\<close>, \<open>atob\<close> and base64url.
  \<^item> \<open>Async\<close>: handlers as resumptions over shared state, the steps of a page, and locales for invariants of all
    reachable states of a page, for what each single step may do, and for flags that are raised and lowered.
  \<^item> \<open>Page_Base\<close>: the browser around a page (network, wallet, authenticator, clipboard) and its awaited operations; \<open>Frame\<close>:
    the state and the error handling that the signed-in pages share; \<open>Signing\<close>: what a page may ask the wallet for.

  \<^bold>\<open>Components, with their source.\<close>
  \<^item> \<open>Http\<close> (\<^verbatim>\<open>lib/api/http.ts\<close>): the fetch with each of its failures, the error object, the guards on links and redirects.
  \<^item> \<open>Api_Base\<close>, \<open>Api_Portal\<close>, \<open>Api_Operator\<close>, \<open>Api_Soul\<close> (\<^verbatim>\<open>lib/api/*.ts\<close>): every exported call.  The specification of
    a call is what the server reads from the request it sends: method, decoded path, query, token and body.
  \<^item> \<open>Router\<close> (\<^verbatim>\<open>lib/router.ts\<close>), \<open>Session\<close> (\<^verbatim>\<open>lib/session.ts\<close>, \<^verbatim>\<open>portalFleetState.ts\<close>, \<^verbatim>\<open>auth/logout.ts\<close>), \<open>Polling\<close>
    (\<^verbatim>\<open>lib/polling.ts\<close>).
  \<^item> \<open>Instance_Config\<close> (\<^verbatim>\<open>lib/instanceConfig.ts\<close>, \<^verbatim>\<open>utils/versionTags.ts\<close>), \<open>Jobs\<close> (\<^verbatim>\<open>lib/fleetStatus.ts\<close>, \<^verbatim>\<open>components/jobKind.ts\<close>,
    \<^verbatim>\<open>components/operatorJobRow.ts\<close>).
  \<^item> \<open>Webauthn\<close> (\<^verbatim>\<open>lib/webauthn/client.ts\<close>), \<open>Wallet\<close> (\<^verbatim>\<open>lib/wallet/ethereum.ts\<close>, \<^verbatim>\<open>keccak.ts\<close>), \<open>Jcs\<close> (\<^verbatim>\<open>wallet/jcs.ts\<close>), \<open>Safe_App\<close>
    (\<^verbatim>\<open>wallet/safeApp.ts\<close>).
  \<^item> \<open>Setup_Page\<close> (\<^verbatim>\<open>pages/Setup.svelte\<close>), \<open>Login_Page\<close> (\<^verbatim>\<open>pages/Login.svelte\<close>), \<open>Mint_Page\<close>
    (\<^verbatim>\<open>pages/portal/SoulMintConversation.svelte\<close>), \<open>Instance_Pages\<close> (\<^verbatim>\<open>pages/portal/InstanceKeys.svelte\<close>, \<open>Domains\<close>,
    \<open>Budgets\<close>, \<open>Usage\<close>, \<open>Cost\<close> and \<open>Souls\<close> likewise), \<open>Config_Page\<close> (\<^verbatim>\<open>pages/portal/InstanceConfig.svelte\<close>, \<^verbatim>\<open>Instances.svelte\<close>),
    \<open>Register_Page\<close> (\<^verbatim>\<open>pages/portal/SoulRegister.svelte\<close>), \<open>Overview_Page\<close> (\<^verbatim>\<open>pages/portal/InstanceDetail.svelte\<close>,
    \<^verbatim>\<open>components/StackCard.svelte\<close>), \<open>Fleet_Page\<close> (\<^verbatim>\<open>pages/portal/PortalFleet.svelte\<close>, \<^verbatim>\<open>components/PortalShell.svelte\<close>), \<open>Operator_Pages\<close> (\<^verbatim>\<open>pages/operator/UserApprovals.svelte\<close>,
    \<open>VanityDomainRequests\<close>, \<open>ExternalInstanceRegistrations\<close>, \<open>Dashboard\<close>, \<open>AuditLog\<close>, \<open>ProvisioningJobDetail\<close>,
    \<open>TipRegistryOperationDetail\<close> and \<open>InstanceMonthlyBudget\<close> likewise), \<open>Console_Pages\<close> (\<open>ProvisioningJobs\<close>, \<open>Releases\<close>,
    \<open>TipRegistry\<close> and \<open>SoulRegistry\<close> likewise), \<open>Safe_Operation\<close> (\<open>SoulOperationDetail\<close> likewise), \<open>Account_Pages\<close> (\<^verbatim>\<open>pages/Account.svelte\<close>,
    \<^verbatim>\<open>Trust.svelte\<close>, \<^verbatim>\<open>trust/AttestationInspector.svelte\<close>, \<^verbatim>\<open>TipRegistryRegister.svelte\<close>), \<open>Views\<close> (\<^verbatim>\<open>App.svelte\<close>, \<^verbatim>\<open>pages/Portal.svelte\<close>, \<^verbatim>\<open>pages/Operator.svelte\<close>,
    \<^verbatim>\<open>components/InstanceDetailShell.svelte\<close>).  A page is a record with a field for each of its \<open>$state\<close> variables and a definition
    for each of its handlers.
  \<^item> \<open>Edge\<close> (\<^verbatim>\<open>cdk/lib/web-delivery.ts\<close>, \<^verbatim>\<open>web-acl-rules.ts\<close>) and \<open>Deploy_Config\<close> (the readers of configuration under \<^verbatim>\<open>cdk/lib\<close>).

  \<^bold>\<open>Asynchrony.\<close>  A handler is a segment: it runs up to its next \<open>await\<close>, which names the operation on the world and
  the segment that takes its answer.  A step of a page starts any handler at any moment or continues any waiting
  segment, so that the theorems about pages speak of every interleaving, also of those that the disabled buttons of the
  markup would prevent.  An awaited operation acts on the world when it is started, and its answer may be taken later.
  A loop over an event stream or a list is recursion over the chunks or the list, which are finite.

  \<^bold>\<open>What is shown.\<close>
  \<^item> Requests: \<open>fetchJson\<close> resolves exactly on a JSON answer with a good status; every exported call sends the one request
    that the server reads as intended, whatever characters its arguments hold (dot segments apart, which no encoding
    protects); behind the edge the calls reach the service they are meant for.
  \<^item> State: the store and the storages agree, the router shows the path it was sent to, a session survives a
    reload, expires, is handed over to the Safe app, and is cleared everywhere by a logout.
  \<^item> Pages, in every interleaving: credentials are presented only where they belong and only as they were
    issued; a stored session is one the server issued; the pages of an instance stay with that instance; protected
    pages are mounted only for an accepted session; the wallet is asked to sign and to send only what the server
    issued to the page or a conversation declared, and the Safe gets only the payload of the operation on the page; an account page acts only with the rights
    of its session; a configuration is saved as it is shown, valid and acknowledged; nobody is offered another user's
    instances; an operator decides on and retries only entries that the server listed, sees the budget of the month that the form names, and saves
    the change that was reviewed; all loading flags come down.
  \<^item> Data: encodings round trip, canonical JSON is canonical, a form is valid exactly when its request is, rows are sorted,
    and reading a stream does not depend on its chunks.

  \<^bold>\<open>Interfaces.\<close>  Locales state what a component relies on: codecs (\<open>Js_Base\<close>), a key-value store (\<open>Router\<close>), an endpoint that may be
  absent (\<open>Api_Operator\<close>), a comparator (\<open>Jobs\<close>), a back-off schedule (\<open>Polling\<close>), a loading flag, a page invariant, the
  discipline of steps and of requests (\<open>Async\<close>, \<open>Page_Base\<close>), pages that keep an invariant when they sign out (\<open>Frame\<close>),
  pages with a wallet (\<open>Signing\<close>), review queues (\<open>Operator_Correct\<close>) and a flag that a page's polls leave alone (\<open>Console_Progress\<close>).  Each is interpreted on the definitions of the model.

  \<^bold>\<open>Parameters.\<close>  The network, the wallet extension, the authenticator, the clock, the WHATWG URL parser, the Keccak function and the
  Safe SDK are arguments, so that the theorems hold for every behaviour of them; where a law is needed it is a named
  hypothesis with a witness.

  \<^bold>\<open>Bounds and fuel.\<close>  Strings are Latin-1.  Two loops of the client may run for ever and have fuel: polling and the wait for a
  receipt; their theorems say which fuel is enough, and the registration page waits with that many polls.  The overview of an
  instance polls with any fuel, so that its theorems speak of every finite part of its polls.  Numbers that are only
  passed on are texts; \<open>Number.parseInt\<close> rounds to a double, and a number is written as \<open>String(n)\<close> writes it, with an
  exponent from \<open>1e21\<close> on.

  \<^bold>\<open>Not modelled.\<close>  Markup, styles and texts of the pages; the remaining pages (billing and the trust dashboard of the portal, the lists and details of souls, and the support page of the
  console: handlers over the calls of the same API modules, which are modelled); the FaceTheory server entry and the vendored component library under \<^verbatim>\<open>lib/greater\<close>, which
  come from other projects or are generated; the stacks, which only declare resources of the CDK; the Go services and the
  contracts, which are in other languages and enter as the answers of the network and the wallet.
\<close>

section \<open>The client behind the edge\<close>

text \<open>The behaviours that the site construct brings serve its assets only.\<close>

definition asset_site :: "site \<Rightarrow> bool" where
  "asset_site st \<longleftrightarrow>
     (\<forall>(p, _) \<in> set (site_behaviors st). startsWith (strip_slash p) ''assets/'' \<or> startsWith (strip_slash p) ''_facetheory/'')"

lemma asset_site_quiet:
  assumes "asset_site st" and "\<not> startsWith (strip_slash path) ''assets/''" and "\<not> startsWith (strip_slash path) ''_facetheory/''"
  shows "site_quiet st path"
  using assms glob_prefix [of _ "''assets/''" "strip_slash path"] glob_prefix [of _ "''_facetheory/''" "strip_slash path"]
  unfolding asset_site_def site_quiet_def no_wildcard_def by fastforce

text \<open>A call that sends one request, whose path, as it is written, the edge hands to the behaviour \<open>b\<close>.\<close>

definition sent_through :: "site \<Rightarrow> behavior \<Rightarrow> json io \<Rightarrow> bool" where
  "sent_through st b op \<longleftrightarrow>
     (\<exists>r. op = fetchJson r \<and> behavior_for st (url_path (req_url r)) = b)"

lemma sent_through_call:
  "behavior_for st (url_path url) = b \<Longrightarrow> sent_through st b (api_call m url hs body)"
  by (auto simp: sent_through_def api_call_def)

lemma path_plain: "CHR ''?'' \<notin> set u \<Longrightarrow> CHR ''#'' \<notin> set u \<Longrightarrow> url_path u = u"
  by (rule no_query_path) metis

lemma setup_behaviors:
  assumes "asset_site st"
  shows "path \<in> {''/setup/status'', ''/setup/admin'', ''/setup/finalize'', ''/setup/bootstrap/challenge'', ''/setup/bootstrap/verify''}
      \<Longrightarrow> behavior_for st path = apiBehavior"
    and "behavior_for st ''/setup/webauthn/register/begin'' = site_default st"
    and "behavior_for st ''/.well-known/jwks.json'' = trustBehaviorCached"
    and "behavior_for st ''/attestations'' = trustBehaviorNoCache"
    and "behavior_for st (''/attestations/'' @ x) = trustBehaviorCached"
    and "behavior_for st ''/api/v1/auth/logout'' = apiBehavior"
    and "behavior_for st ''/api/v1/portal/instances'' = apiBehavior"
proof -
  note quiet = asset_site_quiet [OF assms]
  show "path \<in> {''/setup/status'', ''/setup/admin'', ''/setup/finalize'', ''/setup/bootstrap/challenge'', ''/setup/bootstrap/verify''}
      \<Longrightarrow> behavior_for st path = apiBehavior"
    by (elim insertE emptyE; hypsubst; subst behavior_quiet [OF quiet];
        simp add: bucket_behaviors_def bearer_behaviors_def strip_slash_def startsWith_def)
  show "behavior_for st ''/setup/webauthn/register/begin'' = site_default st"
    "behavior_for st ''/.well-known/jwks.json'' = trustBehaviorCached"
    "behavior_for st ''/attestations'' = trustBehaviorNoCache"
    "behavior_for st (''/attestations/'' @ x) = trustBehaviorCached"
    "behavior_for st ''/api/v1/auth/logout'' = apiBehavior"
    "behavior_for st ''/api/v1/portal/instances'' = apiBehavior"
    by (subst behavior_quiet [OF quiet];
        simp add: bucket_behaviors_def bearer_behaviors_def strip_slash_def startsWith_def)+
qed

lemma mint_behavior:
  assumes "asset_site st"
  shows "behavior_for st (''/api/v1/soul/agents/'' @ a @ ''/mint-conversation'') = apiSseBehavior"
proof -
  have q: "site_quiet st (''/api/v1/soul/agents/'' @ a @ ''/mint-conversation'' @ [])"
    by (rule asset_site_quiet [OF assms]) (simp_all add: strip_slash_def startsWith_def)
  have "\<not> suffix ''/update-registration'' (a @ ''/mint-conversation'')"
  proof
    assume "suffix ''/update-registration'' (a @ ''/mint-conversation'')"
    then have "last (a @ ''/mint-conversation'') = last ''/update-registration'' \<and>
        rev (a @ ''/mint-conversation'') ! 6 = rev ''/update-registration'' ! 6"
      by (auto simp: suffix_def)
    then show False by simp
  qed
  then show ?thesis using mint_conversation_sse [OF q] by simp
qed



end
